(* ===== verification/Prelude.thy ===== *)
theory Prelude
  imports Complex_Main
begin

text \<open>
  What every component of the development shares: the exceptions the harness raises, as one
  datatype; results as \<^typ>\<open>'e + 'a\<close> with a sequencing combinator; the text predicates of
  the Python standard library the validators use; and the two generic interfaces of the
  development, a table with a primary key and a system of guarded steps with an invariant.
\<close>

section \<open>Collections of facts\<close>

named_theorems exec_simps \<open>equations that run an operation of the model\<close>
named_theorems inv_intros \<open>preservation lemmas of the component invariants\<close>

section \<open>Exceptions and results\<close>

text \<open>
  One constructor for each exception class the modelled code raises. Only the stable code of
  \<open>AdmissionDenied\<close> and \<open>PolicyViolation\<close> and the sources of \<open>IncompleteDailyLossCoverage\<close> are
  data in the source; the messages of the other
  classes are prose and are not modelled.
\<close>

datatype exn =
    ValueError
  | TypeError
  | ZeroDivisionError
  | DecimalOverflow
  | CanonicalizationError
  | ValidationError
  | AdmissionDenied string
  | PolicyViolation string
  | StateConflict
  | RecordNotFound
  | StorageError
  | IntegrityError
  | PaperStateError
  | StrategyDataError
  | AttributeError
  | AssertionError
  | ExecutorConfigDrift
  | IncompleteDailyLossCoverage "string list"
  | SubmissionResponseError
  | HyperliquidAccountResponseError
  | UnsupportedAccountModeError
  | StaleAccountSnapshotError
  | HyperliquidAccountTransportError

type_synonym 'a result = "exn + 'a"

definition bindE :: "'a result \<Rightarrow> ('a \<Rightarrow> 'b result) \<Rightarrow> 'b result" where
  "bindE m f = (case m of Inl e \<Rightarrow> Inl e | Inr x \<Rightarrow> f x)"

definition guard :: "bool \<Rightarrow> exn \<Rightarrow> unit result" where
  "guard b e = (if b then Inr () else Inl e)"

fun mapE :: "('a \<Rightarrow> 'b result) \<Rightarrow> 'a list \<Rightarrow> 'b list result" where
  "mapE f [] = Inr []"
| "mapE f (x # xs) = bindE (f x) (\<lambda>y. bindE (mapE f xs) (\<lambda>ys. Inr (y # ys)))"

fun foldE :: "('s \<Rightarrow> 'a \<Rightarrow> 's result) \<Rightarrow> 's \<Rightarrow> 'a list \<Rightarrow> 's result" where
  "foldE f s [] = Inr s"
| "foldE f s (x # xs) = bindE (f s x) (\<lambda>s'. foldE f s' xs)"

text \<open>A sequence of checks, each with the exception it raises: the first that fails decides.\<close>

fun require :: "(bool \<times> exn) list \<Rightarrow> unit result" where
  "require [] = Inr ()"
| "require ((b, e) # cs) = (if b then require cs else Inl e)"

definition is_ok :: "'a result \<Rightarrow> bool" where
  "is_ok r = (case r of Inl _ \<Rightarrow> False | Inr _ \<Rightarrow> True)"

definition of_option :: "exn \<Rightarrow> 'a option \<Rightarrow> 'a result" where
  "of_option e x = (case x of None \<Rightarrow> Inl e | Some y \<Rightarrow> Inr y)"

text \<open>\<open>except E as error: raise E'\<close>: every failure of the block becomes one class.\<close>

definition reraise :: "exn \<Rightarrow> 'a result \<Rightarrow> 'a result" where
  "reraise e m = (case m of Inl _ \<Rightarrow> Inl e | Inr x \<Rightarrow> Inr x)"

lemma bindE_simps [simp, exec_simps]:
  "bindE (Inl e) f = Inl e"
  "bindE (Inr x) f = f x"
  by (simp_all add: bindE_def)

lemma bindE_Inr_right [simp]: "bindE m Inr = m"
  by (cases m) simp_all

lemma bindE_assoc: "bindE (bindE m f) g = bindE m (\<lambda>x. bindE (f x) g)"
  by (cases m) simp_all

lemma bindE_Inr_iff [simp]: "bindE m f = Inr y \<longleftrightarrow> (\<exists>x. m = Inr x \<and> f x = Inr y)"
  by (cases m) auto

lemma bindE_Inl_iff: "bindE m f = Inl e \<longleftrightarrow> m = Inl e \<or> (\<exists>x. m = Inr x \<and> f x = Inl e)"
  by (cases m) auto

lemma guard_Inr_iff [simp]: "guard b e = Inr u \<longleftrightarrow> b"
  by (simp add: guard_def)

lemma guard_Inl_iff [simp]: "guard b e = Inl e' \<longleftrightarrow> \<not> b \<and> e' = e"
  by (auto simp: guard_def)

lemma guard_cases [simp, exec_simps]: "guard True e = Inr ()" "guard False e = Inl e"
  by (simp_all add: guard_def)

lemma require_Inr_iff [simp]: "require cs = Inr u \<longleftrightarrow> list_all fst cs"
  by (induction cs rule: require.induct) (auto simp: require.simps)

declare require.simps [simp del]
declare require.simps [exec_simps]

lemma require_append: "require (cs @ ds) = bindE (require cs) (\<lambda>_. require ds)"
  by (induction cs rule: require.induct) (simp_all add: require.simps)

lemma is_ok_simps [simp, exec_simps]: "is_ok (Inl e) = False" "is_ok (Inr x) = True"
  by (simp_all add: is_ok_def)

lemma is_okE: "is_ok r \<Longrightarrow> (\<And>x. r = Inr x \<Longrightarrow> P) \<Longrightarrow> P"
  by (cases r) auto

lemma of_option_Inr_iff [simp]: "of_option e x = Inr y \<longleftrightarrow> x = Some y"
  by (cases x) (auto simp: of_option_def)

lemma reraise_Inr_iff [simp]: "reraise e m = Inr y \<longleftrightarrow> m = Inr y"
  by (cases m) (auto simp: reraise_def)

lemma reraise_Inl [simp]: "reraise e (Inl e') = Inl e" and reraise_Inr [simp]: "reraise e (Inr x) = Inr x"
  by (simp_all add: reraise_def)

lemma foldE_append [simp]:
  "foldE f s (xs @ ys) = bindE (foldE f s xs) (\<lambda>s'. foldE f s' ys)"
proof (induction xs arbitrary: s)
  case (Cons x xs)
  then show ?case by (cases "f s x") simp_all
qed simp

lemma foldE_invariant:
  assumes "foldE f s xs = Inr s'" and "P s"
    and "\<And>s x t. x \<in> set xs \<Longrightarrow> P s \<Longrightarrow> f s x = Inr t \<Longrightarrow> P t"
  shows "P s'"
  using assms
proof (induction xs arbitrary: s)
  case (Cons x xs)
  from Cons.prems(1) obtain t where "f s x = Inr t" "foldE f t xs = Inr s'" by auto
  with Cons.prems show ?case by (intro Cons.IH [of t]) auto
qed simp

lemma mapE_length: "mapE f xs = Inr ys \<Longrightarrow> length ys = length xs"
  by (induction xs arbitrary: ys) auto

lemma mapE_nth: "mapE f xs = Inr ys \<Longrightarrow> i < length xs \<Longrightarrow> f (xs ! i) = Inr (ys ! i)"
proof (induction xs arbitrary: ys i)
  case (Cons x xs)
  then show ?case by (cases i) auto
qed simp

section \<open>Text\<close>

text \<open>
  A Python \<open>str\<close> is a list of code points. The model's \<^typ>\<open>string\<close> covers the strings whose
  code points are below 256; \<open>isspace\<close> is \<open>str.isspace\<close> on that range, which is what
  \<open>str.strip\<close> removes at both ends.
\<close>

definition isspace :: "char \<Rightarrow> bool" where
  "isspace c = (let n = (of_char c :: nat) in
     9 \<le> n \<and> n \<le> 13 \<or> 28 \<le> n \<and> n \<le> 32 \<or> n = 133 \<or> n = 160)"

definition strip :: "string \<Rightarrow> string" where
  "strip s = rev (dropWhile isspace (rev (dropWhile isspace s)))"

definition trimmed :: "string \<Rightarrow> bool" where
  "trimmed s = (s \<noteq> [] \<and> s = strip s)"

definition has_control :: "string \<Rightarrow> bool" where
  "has_control s = list_ex (\<lambda>c. (of_char c :: nat) < 32) s"

definition is_lower_hex :: "char \<Rightarrow> bool" where
  "is_lower_hex c = (c \<in> set ''0123456789abcdef'')"

definition sha256_shaped :: "string \<Rightarrow> bool" where
  "sha256_shaped s = (length s = 64 \<and> list_all is_lower_hex s)"

lemma sha256_shaped_trimmed: "sha256_shaped s \<Longrightarrow> trimmed s"
proof -
  assume s: "sha256_shaped s"
  have hex: "\<not> isspace c" if "c \<in> set s" for c
  proof -
    from s that have "is_lower_hex c" by (auto simp: sha256_shaped_def list_all_iff)
    then show ?thesis by (auto simp: is_lower_hex_def isspace_def Let_def)
  qed
  have drop: "dropWhile isspace xs = xs" if "\<And>c. c \<in> set xs \<Longrightarrow> \<not> isspace c" for xs
    using that by (cases xs) auto
  have "dropWhile isspace s = s" "dropWhile isspace (rev s) = rev s"
    using hex by (auto intro!: drop)
  then have "strip s = s" by (simp add: strip_def)
  moreover from s have "s \<noteq> []" by (auto simp: sha256_shaped_def)
  ultimately show "trimmed s" by (simp add: trimmed_def)
qed

section \<open>Guarded steps with an invariant\<close>

text \<open>
  The interface of every stateful component: a start state, operations that may refuse, and
  an invariant each accepted operation keeps. A refused operation leaves the state alone (the
  transaction is rolled back, the immutable object is not replaced).
\<close>

locale guarded_system =
  fixes start :: "'s \<Rightarrow> bool"
    and step :: "'op \<Rightarrow> 's \<Rightarrow> 's result"
    and inv :: "'s \<Rightarrow> bool"
  assumes start_inv: "start s \<Longrightarrow> inv s"
    and step_inv: "inv s \<Longrightarrow> step op s = Inr t \<Longrightarrow> inv t"

definition attempt :: "('op \<Rightarrow> 's \<Rightarrow> 's result) \<Rightarrow> 's \<Rightarrow> 'op \<Rightarrow> 's" where
  "attempt step s op = (case step op s of Inl _ \<Rightarrow> s | Inr t \<Rightarrow> t)"

definition run_ops :: "('op \<Rightarrow> 's \<Rightarrow> 's result) \<Rightarrow> 's \<Rightarrow> 'op list \<Rightarrow> 's" where
  "run_ops step s ops = foldl (attempt step) s ops"

lemma run_ops_simps [simp]:
  "run_ops step s [] = s"
  "run_ops step s (op # ops) = run_ops step (attempt step s op) ops"
  by (simp_all add: run_ops_def)

lemma run_ops_append [simp]: "run_ops step s (xs @ ys) = run_ops step (run_ops step s xs) ys"
  by (simp add: run_ops_def)

context guarded_system
begin

lemma attempt_inv: "inv s \<Longrightarrow> inv (attempt step s op)"
  by (auto simp: attempt_def split: sum.splits intro: step_inv)

lemma run_inv: "inv s \<Longrightarrow> inv (run_ops step s ops)"
  by (induction ops arbitrary: s) (auto intro: attempt_inv)

lemma reachable_inv: "start s \<Longrightarrow> inv (run_ops step s ops)"
  by (intro run_inv start_inv)

end

text \<open>
  A monotone system also relates the states along a run: every accepted step moves up a
  transitive relation (an audit trail that only grows, a watermark that only rises).
\<close>

locale monotone_system = guarded_system +
  fixes below :: "'s \<Rightarrow> 's \<Rightarrow> bool"
  assumes below_refl: "below s s"
    and below_trans: "below s t \<Longrightarrow> below t u \<Longrightarrow> below s u"
    and step_below: "inv s \<Longrightarrow> step op s = Inr t \<Longrightarrow> below s t"
begin

lemma attempt_below: "inv s \<Longrightarrow> below s (attempt step s op)"
  by (auto simp: attempt_def split: sum.splits intro: step_below below_refl)

lemma run_below: "inv s \<Longrightarrow> below s (run_ops step s ops)"
proof (induction ops arbitrary: s)
  case Nil
  show ?case by (simp add: below_refl)
next
  case (Cons op ops)
  then show ?case
    by (auto intro: below_trans attempt_below attempt_inv)
qed

lemma later_below:
  "start s \<Longrightarrow> below (run_ops step s ops) (run_ops step s (ops @ more))"
  by (simp add: run_below reachable_inv)

end

section \<open>Tables with a primary key\<close>

text \<open>
  A table is a list of rows in insertion order, as a \<open>SELECT\<close> without \<open>ORDER BY\<close> scans it;
  \<open>table_insert\<close> is an \<open>INSERT\<close> that violates \<open>PRIMARY KEY\<close> when the key is present,
  \<open>table_update\<close> an \<open>UPDATE ... WHERE\<close>.
\<close>

definition table_find :: "('r \<Rightarrow> 'k) \<Rightarrow> 'k \<Rightarrow> 'r list \<Rightarrow> 'r option" where
  "table_find key k rows = find (\<lambda>r. key r = k) rows"

definition table_insert :: "('r \<Rightarrow> 'k) \<Rightarrow> 'r \<Rightarrow> 'r list \<Rightarrow> 'r list result" where
  "table_insert key r rows =
     (if table_find key (key r) rows = None then Inr (rows @ [r]) else Inl StateConflict)"

definition table_update :: "('r \<Rightarrow> bool) \<Rightarrow> ('r \<Rightarrow> 'r) \<Rightarrow> 'r list \<Rightarrow> 'r list" where
  "table_update P f rows = map (\<lambda>r. if P r then f r else r) rows"

lemma table_find_Some:
  "table_find key k rows = Some r \<Longrightarrow> r \<in> set rows \<and> key r = k"
  by (auto simp: table_find_def find_Some_iff in_set_conv_nth)

lemma table_find_None_iff: "table_find key k rows = None \<longleftrightarrow> k \<notin> key ` set rows"
  by (auto simp: table_find_def find_None_iff)

lemma table_find_distinct:
  "distinct (map key rows) \<Longrightarrow> r \<in> set rows \<Longrightarrow> table_find key (key r) rows = Some r"
  by (induction rows) (auto simp: table_find_def image_iff)

lemma table_find_snoc:
  "table_find key k (rows @ [r]) =
     (case table_find key k rows of Some x \<Rightarrow> Some x | None \<Rightarrow> if key r = k then Some r else None)"
  by (induction rows) (auto simp: table_find_def)

lemma table_insert_Inr:
  "table_insert key r rows = Inr rows' \<longleftrightarrow> key r \<notin> key ` set rows \<and> rows' = rows @ [r]"
  by (auto simp: table_insert_def table_find_None_iff)

lemma set_table_update: "set (table_update P f rows) = (\<lambda>r. if P r then f r else r) ` set rows"
  by (simp add: table_update_def)

lemma table_update_keys:
  "(\<And>r. key (f r) = key r) \<Longrightarrow> map key (table_update P f rows) = map key rows"
  by (auto simp: table_update_def)

lemma table_find_update:
  "(\<And>r. key (f r) = key r) \<Longrightarrow>
   table_find key k (table_update P f rows) =
     map_option (\<lambda>r. if P r then f r else r) (table_find key k rows)"
  by (induction rows) (auto simp: table_update_def table_find_def)

text \<open>
  The contract the stores rely on: what a look-up returns after an insert and after an update
  that keeps the keys, and that keys stay unique.
\<close>

locale keyed_table =
  fixes key :: "'r \<Rightarrow> 'k"
    and find :: "'k \<Rightarrow> 't \<Rightarrow> 'r option"
    and ins :: "'r \<Rightarrow> 't \<Rightarrow> 't result"
    and upd :: "('r \<Rightarrow> bool) \<Rightarrow> ('r \<Rightarrow> 'r) \<Rightarrow> 't \<Rightarrow> 't"
    and wf :: "'t \<Rightarrow> bool"
  assumes find_key: "find k t = Some r \<Longrightarrow> key r = k"
    and ins_fresh: "ins r t = Inr t' \<Longrightarrow> find (key r) t = None"
    and find_ins: "ins r t = Inr t' \<Longrightarrow> find k t' = (if k = key r then Some r else find k t)"
    and find_upd: "(\<And>r. key (f r) = key r) \<Longrightarrow>
        find k (upd P f t) = map_option (\<lambda>r. if P r then f r else r) (find k t)"
    and wf_ins: "wf t \<Longrightarrow> ins r t = Inr t' \<Longrightarrow> wf t'"
    and wf_upd: "(\<And>r. key (f r) = key r) \<Longrightarrow> wf t \<Longrightarrow> wf (upd P f t)"
begin

lemma find_after_ins: "ins r t = Inr t' \<Longrightarrow> find (key r) t' = Some r"
  by (simp add: find_ins)

lemma ins_preserves: "ins r t = Inr t' \<Longrightarrow> find k t = Some x \<Longrightarrow> find k t' = Some x"
  using ins_fresh find_ins by fastforce

lemma ins_twice: "ins r t = Inr t' \<Longrightarrow> key q = key r \<Longrightarrow> \<not> is_ok (ins q t')"
  by (metis find_after_ins ins_fresh is_okE option.distinct(1))

end

lemma keyed_table_rows:
  "keyed_table key (table_find key) (table_insert key) table_update
     (\<lambda>rows. distinct (map key rows))"
proof
  show "table_find key k t = Some r \<Longrightarrow> key r = k" for k t r
    by (auto dest: table_find_Some)
  show "table_insert key r t = Inr t' \<Longrightarrow> table_find key (key r) t = None" for r t t'
    by (auto simp: table_insert_Inr table_find_None_iff)
  show "table_insert key r t = Inr t' \<Longrightarrow>
      table_find key k t' = (if k = key r then Some r else table_find key k t)" for r t t' k
    by (cases "table_find key k t")
      (auto simp: table_insert_Inr table_find_snoc simp flip: table_find_None_iff)
qed (auto simp: table_find_update table_insert_Inr table_update_keys)

end
