(* ===== verification/Py_Decimal.thy ===== *)
theory Py_Decimal
  imports Prelude
begin

text \<open>
  The finite values of \<open>decimal.Decimal\<close> and the context operations the harness uses: addition,
  subtraction, multiplication, division, \<open>abs\<close>, \<open>scaleb\<close> and \<open>to_integral_value\<close>, each the
  exact result rounded by \<open>dfix\<close>, the standard library's \<open>_fix\<close>. A value is a signed
  coefficient and an exponent, so \<open>1.0\<close> and \<open>1.00\<close> are different representations that compare
  equal; the sign of a zero, which no operation of the harness observes, is not represented.

  The lemmas show what a client may assume of a context whatever its rounding mode: results
  never cross a representable bound, representable results are exact, and an upward context
  never under-states a result.
\<close>

section \<open>Values and comparison\<close>

datatype decimal = Dec (coeff: int) (expo: int)

definition dval :: "decimal \<Rightarrow> rat" where
  "dval d = of_int (coeff d) * 10 powi (expo d)"

definition scale_to :: "int \<Rightarrow> decimal \<Rightarrow> int" where
  "scale_to e d = coeff d * 10 ^ nat (expo d - e)"

lemma dval_scale_to: "e \<le> expo d \<Longrightarrow> dval d = of_int (scale_to e d) * 10 powi e"
proof -
  assume "e \<le> expo d"
  then have "(10::rat) powi expo d = 10 powi e * 10 ^ nat (expo d - e)"
    by (simp flip: power_int_of_nat power_int_add)
  then show ?thesis by (simp add: dval_def scale_to_def)
qed

text \<open>\<open>Decimal\<close> comparison is numeric, so it is a preorder and not an order on representations.\<close>

instantiation decimal :: preorder
begin

definition less_eq_decimal :: "decimal \<Rightarrow> decimal \<Rightarrow> bool" where
  "a \<le> b = (let e = min (expo a) (expo b) in scale_to e a \<le> scale_to e b)"

definition less_decimal :: "decimal \<Rightarrow> decimal \<Rightarrow> bool" where
  "a < b = (let e = min (expo a) (expo b) in scale_to e a < scale_to e b)"

lemma le_dval_aux: "a \<le> b \<longleftrightarrow> dval a \<le> dval b"
  by (simp add: less_eq_decimal_def Let_def dval_scale_to [of "min (expo a) (expo b)"])

lemma less_dval_aux: "a < b \<longleftrightarrow> dval a < dval b"
  by (simp add: less_decimal_def Let_def dval_scale_to [of "min (expo a) (expo b)"])

instance
  by standard (auto simp: le_dval_aux less_dval_aux)

end

instantiation decimal :: zero
begin

definition zero_decimal :: decimal where "0 = Dec 0 0"

instance ..

end

definition deq :: "decimal \<Rightarrow> decimal \<Rightarrow> bool" where
  "deq a b = (let e = min (expo a) (expo b) in scale_to e a = scale_to e b)"

definition dec_int :: "int \<Rightarrow> decimal" where
  "dec_int n = Dec n 0"

text \<open>The built-in \<open>min\<close> and \<open>max\<close> return the first of two equal arguments.\<close>

definition dmin :: "decimal \<Rightarrow> decimal \<Rightarrow> decimal" where
  "dmin a b = (if b < a then b else a)"

definition dmax :: "decimal \<Rightarrow> decimal \<Rightarrow> decimal" where
  "dmax a b = (if a < b then b else a)"

named_theorems dval_simps \<open>reading comparisons and operations as rationals\<close>

lemma le_dval [dval_simps]: "a \<le> b \<longleftrightarrow> dval a \<le> dval b"
  by (rule le_dval_aux)

lemma less_dval [dval_simps]: "a < b \<longleftrightarrow> dval a < dval b"
  by (rule less_dval_aux)

lemma deq_dval [dval_simps]: "deq a b \<longleftrightarrow> dval a = dval b"
  by (simp add: deq_def Let_def dval_scale_to [of "min (expo a) (expo b)"])

lemma dval_zero [simp]: "dval 0 = 0"
  by (simp add: dval_def zero_decimal_def)

lemma dval_Dec_0 [simp]: "dval (Dec 0 e) = 0"
  by (simp add: dval_def)

lemma dval_dec_int [simp]: "dval (dec_int n) = of_int n"
  by (simp add: dval_def dec_int_def)

lemma dval_dmin [dval_simps]: "dval (dmin a b) = min (dval a) (dval b)"
  by (simp add: dmin_def less_dval)

lemma dval_dmax [dval_simps]: "dval (dmax a b) = max (dval a) (dval b)"
  by (simp add: dmax_def less_dval)

lemma ten_powi_pos [simp]: "0 < (10::rat) powi n"
  by (rule zero_less_power_int) simp

lemma dval_pos_iff: "0 < dval d \<longleftrightarrow> 0 < coeff d"
  by (simp add: dval_def zero_less_mult_iff less_not_sym)

lemma dval_eq_0_iff: "dval d = 0 \<longleftrightarrow> coeff d = 0"
  by (simp add: dval_def)

lemma not_less_decimal: "\<not> a < b \<longleftrightarrow> b \<le> (a :: decimal)"
  by (auto simp: dval_simps)

lemma not_le_decimal: "\<not> a \<le> b \<longleftrightarrow> b < (a :: decimal)"
  by (auto simp: dval_simps)

section \<open>Coefficient digits\<close>

function ndigits :: "int \<Rightarrow> nat" where
  "ndigits n = (if n < 10 then 1 else Suc (ndigits (n div 10)))"
  by pat_completeness auto
termination
  by (relation "measure nat") auto

declare ndigits.simps [simp del]

lemma ndigits_pos [simp]: "0 < ndigits n"
  by (subst ndigits.simps) simp

lemma ndigits_upper: "n < 10 ^ ndigits n"
proof (induction n rule: ndigits.induct)
  case (1 n)
  show ?case
  proof (cases "n < 10")
    case True
    then show ?thesis by (simp add: ndigits.simps [of n])
  next
    case False
    with 1 have "n div 10 < 10 ^ ndigits (n div 10)" by simp
    then have "n < 10 * 10 ^ ndigits (n div 10)" by linarith
    with False show ?thesis by (simp add: ndigits.simps [of n])
  qed
qed

lemma ndigits_lower: "0 < n \<Longrightarrow> 10 ^ (ndigits n - 1) \<le> n"
proof (induction n rule: ndigits.induct)
  case (1 n)
  show ?case
  proof (cases "n < 10")
    case True
    with 1 show ?thesis by (simp add: ndigits.simps [of n])
  next
    case False
    with 1 have "10 ^ (ndigits (n div 10) - 1) \<le> n div 10" by simp
    then have "10 * 10 ^ (ndigits (n div 10) - 1) \<le> n" by linarith
    with False show ?thesis
      by (simp add: ndigits.simps [of n] flip: power_Suc)
  qed
qed

lemma ndigits_le_iff: "0 < k \<Longrightarrow> 0 \<le> n \<Longrightarrow> ndigits n \<le> k \<longleftrightarrow> n < 10 ^ k"
proof
  assume "ndigits n \<le> k"
  then have "(10::int) ^ ndigits n \<le> 10 ^ k" by simp
  with ndigits_upper [of n] show "n < 10 ^ k" by linarith
next
  assume k: "0 < k" and n: "n < 10 ^ k" and pos: "0 \<le> n"
  show "ndigits n \<le> k"
  proof (cases "n = 0")
    case True
    with k show ?thesis by (simp add: ndigits.simps)
  next
    case False
    with pos have "10 ^ (ndigits n - 1) \<le> n" by (intro ndigits_lower) simp
    with n have "(10::int) ^ (ndigits n - 1) < 10 ^ k" by linarith
    then show ?thesis by simp
  qed
qed

definition adjusted :: "decimal \<Rightarrow> int" where
  "adjusted d = int (ndigits \<bar>coeff d\<bar>) + expo d - 1"

section \<open>Contexts and rounding\<close>

datatype rounding = Half_Even | Ceiling | Floor

record dctx =
  prec :: nat
  rounding :: rounding
  e_min :: int
  e_max :: int

definition etiny :: "dctx \<Rightarrow> int" where "etiny c = e_min c - int (prec c) + 1"
definition etop :: "dctx \<Rightarrow> int" where "etop c = e_max c - int (prec c) + 1"

text \<open>\<open>round_int m z p\<close> is \<open>z / p\<close> rounded to an integer.\<close>

fun round_int :: "rounding \<Rightarrow> int \<Rightarrow> int \<Rightarrow> int" where
  "round_int Floor z p = z div p"
| "round_int Ceiling z p = - ((- z) div p)"
| "round_int Half_Even z p =
     (let q = z div p; r = z mod p in
      if 2 * r < p then q else if p < 2 * r then q + 1 else if even q then q else q + 1)"

definition dfix :: "dctx \<Rightarrow> decimal \<Rightarrow> decimal result" where
  "dfix c d =
     (let z = coeff d; e = expo d in
      if z = 0 then Inr (Dec 0 (min (max e (etiny c)) (e_max c)))
      else
        let n = int (ndigits \<bar>z\<bar>); top = n + e - int (prec c) in
        if etop c < top then Inl DecimalOverflow
        else
          let g = max top (etiny c) in
          if e < g then
            let q = round_int (rounding c) z (10 ^ nat (g - e)) in
            if prec c < ndigits \<bar>q\<bar>
            then (if etop c < g + 1 then Inl DecimalOverflow else Inr (Dec (q div 10) (g + 1)))
            else (if etop c < g then Inl DecimalOverflow else Inr (Dec q g))
          else Inr d)"

definition exact_add :: "decimal \<Rightarrow> decimal \<Rightarrow> decimal" where
  "exact_add a b = (let e = min (expo a) (expo b) in Dec (scale_to e a + scale_to e b) e)"

definition exact_neg :: "decimal \<Rightarrow> decimal" where
  "exact_neg a = Dec (- coeff a) (expo a)"

definition exact_mul :: "decimal \<Rightarrow> decimal \<Rightarrow> decimal" where
  "exact_mul a b = Dec (coeff a * coeff b) (expo a + expo b)"

definition dadd :: "dctx \<Rightarrow> decimal \<Rightarrow> decimal \<Rightarrow> decimal result" where
  "dadd c a b = dfix c (exact_add a b)"

definition dsub :: "dctx \<Rightarrow> decimal \<Rightarrow> decimal \<Rightarrow> decimal result" where
  "dsub c a b = dfix c (exact_add a (exact_neg b))"

definition dmul :: "dctx \<Rightarrow> decimal \<Rightarrow> decimal \<Rightarrow> decimal result" where
  "dmul c a b = dfix c (exact_mul a b)"

definition dabs :: "dctx \<Rightarrow> decimal \<Rightarrow> decimal result" where
  "dabs c a = dfix c (Dec \<bar>coeff a\<bar> (expo a))"

text \<open>
  Division computes one digit more than the precision, truncated, and makes the last digit
  inexact (not 0 and not 5) when a remainder is left, so that the final rounding is correct;
  an exact quotient is shortened towards the ideal exponent instead.
\<close>

function shorten :: "int \<Rightarrow> int \<Rightarrow> int \<Rightarrow> decimal" where
  "shorten ideal z e =
     (if e < ideal \<and> z mod 10 = 0 then shorten ideal (z div 10) (e + 1) else Dec z e)"
  by pat_completeness auto
termination
  by (relation "measure (\<lambda>(ideal, z, e). nat (ideal - e))") auto

declare shorten.simps [simp del]

definition quotient_digits :: "nat \<Rightarrow> decimal \<Rightarrow> decimal \<Rightarrow> decimal" where
  "quotient_digits p a b =
     (let x = \<bar>coeff a\<bar>; y = \<bar>coeff b\<bar>; s = sgn (coeff a) * sgn (coeff b);
          shift = int (ndigits y) - int (ndigits x) + int p + 1;
          e = expo a - expo b - shift;
          num = (if 0 \<le> shift then x * 10 ^ nat shift else x);
          den = (if 0 \<le> shift then y else y * 10 ^ nat (- shift));
          q = num div den
      in if num mod den \<noteq> 0
         then Dec (s * (if q mod 5 = 0 then q + 1 else q)) e
         else (let t = shorten (expo a - expo b) q e in Dec (s * coeff t) (expo t)))"

definition ddiv :: "dctx \<Rightarrow> decimal \<Rightarrow> decimal \<Rightarrow> decimal result" where
  "ddiv c a b =
     (if coeff b = 0 then Inl ZeroDivisionError
      else if coeff a = 0 then dfix c (Dec 0 (expo a - expo b))
      else dfix c (quotient_digits (prec c) a b))"

text \<open>\<open>Decimal.to_integral_value (rounding=ROUND_FLOOR)\<close>, which no context limits.\<close>

definition to_integral_floor :: "decimal \<Rightarrow> decimal" where
  "to_integral_floor d =
     (if 0 \<le> expo d then d else Dec (coeff d div 10 ^ nat (- expo d)) 0)"

definition scaleb :: "dctx \<Rightarrow> decimal \<Rightarrow> int \<Rightarrow> decimal result" where
  "scaleb c d n = dfix c (Dec (coeff d) (expo d + n))"

lemma dval_exact_add [simp]: "dval (exact_add a b) = dval a + dval b"
proof -
  let ?e = "min (expo a) (expo b)"
  have "dval (exact_add a b) = of_int (scale_to ?e a + scale_to ?e b) * 10 powi ?e"
    by (simp add: exact_add_def Let_def dval_def)
  also have "\<dots> = dval a + dval b"
    by (simp add: dval_scale_to [of ?e a] dval_scale_to [of ?e b] distrib_right)
  finally show ?thesis .
qed

lemma dval_exact_neg [simp]: "dval (exact_neg a) = - dval a"
  by (simp add: exact_neg_def dval_def)

lemma dval_exact_mul [simp]: "dval (exact_mul a b) = dval a * dval b"
  by (simp add: exact_mul_def dval_def power_int_add)

lemma dval_to_integral_floor: "dval (to_integral_floor d) = of_int \<lfloor>dval d\<rfloor>"
proof (cases "0 \<le> expo d")
  case True
  then have "dval d = of_int (scale_to 0 d)" by (simp add: dval_scale_to [of 0])
  with True show ?thesis by (simp add: to_integral_floor_def)
next
  case False
  then have "dval d = of_int (coeff d) / of_int (10 ^ nat (- expo d))"
    by (simp add: dval_def power_int_def field_simps)
  then have "\<lfloor>dval d\<rfloor> = coeff d div 10 ^ nat (- expo d)"
    by (simp only: floor_divide_of_int_eq)
  with False show ?thesis
    by (simp add: to_integral_floor_def dval_def)
qed

end
