(* ===== verification/Decimal_Context.thy ===== *)
theory Decimal_Context
  imports Py_Decimal
begin

text \<open>
  What a client may assume of a decimal context. \<open>faithful_rounding\<close> is the interface of a
  rounding mode: a result never passes a multiple of the grid that the argument does not pass.
  \<open>upward_rounding\<close> adds that the result is not below the argument. Both are interpreted on
  the modes of \<open>round_int\<close>, and \<open>decimal_context\<close> lifts them to the context operations;
  the components interpret it on the contexts of the source.
\<close>

section \<open>Rounding modes\<close>

locale faithful_rounding =
  fixes rnd :: "int \<Rightarrow> int \<Rightarrow> int"
  assumes rnd_le: "0 < p \<Longrightarrow> z \<le> k * p \<Longrightarrow> rnd z p \<le> k"
    and rnd_ge: "0 < p \<Longrightarrow> k * p \<le> z \<Longrightarrow> k \<le> rnd z p"
begin

lemma rnd_exact: "0 < p \<Longrightarrow> rnd (k * p) p = k"
  by (intro antisym rnd_le rnd_ge) auto

lemma rnd_negated: "faithful_rounding (\<lambda>z p. - rnd (- z) p)"
proof
  fix p z k :: int
  assume p: "0 < p"
  show "- rnd (- z) p \<le> k" if "z \<le> k * p"
    using rnd_ge [OF p, of "- k" "- z"] that by simp
  show "k \<le> - rnd (- z) p" if "k * p \<le> z"
    using rnd_le [OF p, of "- z" "- k"] that by simp
qed

text \<open>
  \<open>g\<close> is the exponent of the rounded result, \<open>b\<close> a bound of at most \<open>n\<close> digits. If
  \<open>b\<close> is finer than the grid, the argument was too long to round, hence larger in magnitude.
\<close>

lemma rounded_le_bound:
  assumes e: "e < g" and p: "p = 10 ^ nat (g - e)"
    and n: "0 < n" and b: "\<bar>coeff b\<bar> < 10 ^ n"
    and fine: "coeff b \<noteq> 0 \<Longrightarrow> expo b < g \<Longrightarrow> 10 ^ nat (g - e + int n - 1) \<le> \<bar>z\<bar>"
    and le: "of_int z * 10 powi e \<le> dval b"
  shows "of_int (rnd z p) * 10 powi g \<le> dval b"
proof -
  have p0: "0 < p" by (simp add: p)
  have pg: "(10::rat) powi g = of_int p * 10 powi e"
    using e by (simp add: p flip: power_int_of_nat power_int_add)
  have on_grid: ?thesis if k: "dval b = of_int k * 10 powi g" for k
  proof -
    from le k have "(of_int z :: rat) \<le> of_int (k * p)"
      by (simp add: pg mult.assoc [symmetric])
    then have "rnd z p \<le> k" by (intro rnd_le [OF p0]) linarith
    with k show ?thesis by simp
  qed
  consider "coeff b = 0" | "g \<le> expo b" | "coeff b \<noteq> 0" "expo b < g" by linarith
  then show ?thesis
  proof cases
    case 1
    then show ?thesis by (intro on_grid [of 0]) (simp add: dval_def)
  next
    case 2
    then show ?thesis by (intro on_grid [of "scale_to g b"] dval_scale_to)
  next
    case 3
    have small: "\<bar>dval b\<bar> < of_int (10 ^ (n - 1)) * 10 powi g"
    proof -
      have "\<bar>dval b\<bar> < of_int (10 ^ n) * 10 powi expo b"
        using b by (simp add: dval_def abs_mult flip: of_int_abs)
      also have "of_int (10 ^ n) * (10::rat) powi expo b \<le> of_int (10 ^ n) * 10 powi (g - 1)"
        using 3 by (intro mult_left_mono power_int_increasing) auto
      also have "\<dots> = of_int (10 ^ (n - 1)) * 10 powi g"
        using n by (cases n) (simp_all add: power_int_diff)
      finally show ?thesis .
    qed
    have big: "10 ^ (n - 1) * p \<le> \<bar>z\<bar>"
    proof -
      have "nat (g - e + int n - 1) = (n - 1) + nat (g - e)" using e n by linarith
      with fine [OF 3] show ?thesis by (simp add: p power_add)
    qed
    show ?thesis
    proof (cases "0 \<le> z")
      case True
      with big have "(of_int (10 ^ (n - 1)) :: rat) * of_int p \<le> of_int z"
        by (metis abs_of_nonneg of_int_le_iff of_int_mult)
      then have "of_int (10 ^ (n - 1)) * 10 powi g \<le> of_int z * (10::rat) powi e"
        by (simp add: pg mult.assoc [symmetric])
      with small le show ?thesis by linarith
    next
      case False
      with big have "z \<le> (- (10 ^ (n - 1))) * p" by simp
      then have "rnd z p \<le> - (10 ^ (n - 1))" by (rule rnd_le [OF p0])
      then have "(of_int (rnd z p) :: rat) \<le> of_int (- (10 ^ (n - 1)))"
        by (simp only: of_int_le_iff)
      then have "of_int (rnd z p) * (10::rat) powi g \<le> of_int (- (10 ^ (n - 1))) * 10 powi g"
        by (rule mult_right_mono) simp
      with small show ?thesis by simp
    qed
  qed
qed

end

locale upward_rounding = faithful_rounding +
  assumes rnd_up: "0 < p \<Longrightarrow> z \<le> rnd z p * p"

interpretation floor_mode: faithful_rounding "round_int Floor"
proof
  fix p z k :: int
  assume "0 < p"
  then show "round_int Floor z p \<le> k" if "z \<le> k * p"
    using that zdiv_mono1 [of z "k * p" p] by simp
  show "k \<le> round_int Floor z p" if "k * p \<le> z"
    using \<open>0 < p\<close> that zdiv_mono1 [of "k * p" z p] by simp
qed

lemma round_int_ceiling_floor: "round_int Ceiling z p = - round_int Floor (- z) p"
  by simp

interpretation ceiling_mode: upward_rounding "round_int Ceiling"
proof -
  have "faithful_rounding (round_int Ceiling)"
    unfolding round_int_ceiling_floor [abs_def] by (rule floor_mode.rnd_negated)
  then show "upward_rounding (round_int Ceiling)"
  proof (rule upward_rounding.intro, unfold_locales)
    fix p z :: int
    assume "0 < p"
    then have "(- z) div p * p \<le> - z"
      by (metis div_mult_mod_eq le_add_same_cancel1 pos_mod_sign)
    then show "z \<le> round_int Ceiling z p * p" by simp
  qed
qed

interpretation half_even_mode: faithful_rounding "round_int Half_Even"
proof
  fix p z k :: int
  assume p: "0 < p"
  have zq: "z = z div p * p + z mod p" by simp
  have r: "0 \<le> z mod p" "z mod p < p" using p by auto
  have cases: "round_int Half_Even z p = z div p \<or>
      round_int Half_Even z p = z div p + 1 \<and> 0 < z mod p"
    using p r by (auto simp: Let_def)
  show "round_int Half_Even z p \<le> k" if "z \<le> k * p"
  proof -
    have "z div p \<le> k" using p that zdiv_mono1 [of z "k * p" p] by simp
    moreover have "z div p < k" if "0 < z mod p"
    proof (rule ccontr)
      assume "\<not> z div p < k"
      with \<open>z div p \<le> k\<close> have "z div p = k" by simp
      with zq \<open>z \<le> k * p\<close> that show False by simp
    qed
    ultimately show ?thesis using cases by auto
  qed
  show "k \<le> round_int Half_Even z p" if "k * p \<le> z"
    using p that cases zdiv_mono1 [of "k * p" z p] by auto
qed

lemma faithful_round_int: "faithful_rounding (round_int m)"
  by (cases m)
    (simp_all only: floor_mode.faithful_rounding_axioms ceiling_mode.faithful_rounding_axioms
      half_even_mode.faithful_rounding_axioms)

section \<open>Contexts\<close>

definition representable :: "dctx \<Rightarrow> decimal \<Rightarrow> bool" where
  "representable c d =
     (if coeff d = 0 then etiny c \<le> expo d \<and> expo d \<le> e_max c
      else ndigits \<bar>coeff d\<bar> \<le> prec c \<and> etiny c \<le> expo d \<and>
           int (ndigits \<bar>coeff d\<bar>) + expo d - int (prec c) \<le> etop c)"

locale decimal_context =
  fixes c :: dctx
  assumes prec_pos: "0 < prec c" and range: "etiny c < etop c"

sublocale decimal_context \<subseteq> faithful_rounding "round_int (rounding c)"
  by (rule faithful_round_int)


definition grid_exp :: "dctx \<Rightarrow> decimal \<Rightarrow> int" where
  "grid_exp c d = max (int (ndigits \<bar>coeff d\<bar>) + expo d - int (prec c)) (etiny c)"

definition grid_step :: "dctx \<Rightarrow> decimal \<Rightarrow> int" where
  "grid_step c d = 10 ^ nat (grid_exp c d - expo d)"

definition grid_coeff :: "dctx \<Rightarrow> decimal \<Rightarrow> int" where
  "grid_coeff c d = round_int (rounding c) (coeff d) (grid_step c d)"

lemma grid_step_pos [simp]: "0 < grid_step c d"
  by (simp add: grid_step_def)

lemma ten_powi_pred: "0 < k \<Longrightarrow> (10::rat) powi (int k - 1 + e) = 10 ^ (k - 1) * 10 powi e"
  by (cases k) (simp_all add: power_int_add)

lemma dfix_grid:
  "coeff d \<noteq> 0 \<Longrightarrow> dfix c d =
     (if etop c < int (ndigits \<bar>coeff d\<bar>) + expo d - int (prec c) then Inl DecimalOverflow
      else if expo d < grid_exp c d
      then if prec c < ndigits \<bar>grid_coeff c d\<bar>
        then if etop c < grid_exp c d + 1 then Inl DecimalOverflow
             else Inr (Dec (grid_coeff c d div 10) (grid_exp c d + 1))
        else if etop c < grid_exp c d then Inl DecimalOverflow
             else Inr (Dec (grid_coeff c d) (grid_exp c d))
      else Inr d)"
  by (simp add: dfix_def Let_def grid_exp_def grid_coeff_def grid_step_def)

lemma etiny_le_grid_exp [simp]: "etiny c \<le> grid_exp c d"
  by (simp add: grid_exp_def)

context decimal_context
begin

lemma dfix_representable: "representable c d \<Longrightarrow> dfix c d = Inr d"
proof (cases "coeff d = 0")
  case True
  assume "representable c d"
  with True have "min (max (expo d) (etiny c)) (e_max c) = expo d" "d = Dec 0 (expo d)"
    by (auto simp: representable_def intro: decimal.expand)
  with True show ?thesis by (simp add: dfix_def)
next
  case False
  assume "representable c d"
  with False have "\<not> etop c < int (ndigits \<bar>coeff d\<bar>) + expo d - int (prec c)"
    and "\<not> expo d < max (int (ndigits \<bar>coeff d\<bar>) + expo d - int (prec c)) (etiny c)"
    by (auto simp: representable_def)
  with False show ?thesis unfolding dfix_def Let_def by (simp only: if_False)
qed

lemma grid_coeff_bound:
  assumes "coeff d \<noteq> 0" and "expo d < grid_exp c d"
  shows "\<bar>grid_coeff c d\<bar> \<le> 10 ^ prec c"
proof -
  let ?p = "grid_step c d"
  have "\<bar>coeff d\<bar> < 10 ^ ndigits \<bar>coeff d\<bar>" by (rule ndigits_upper)
  also have "(10::int) ^ ndigits \<bar>coeff d\<bar> \<le> 10 ^ (prec c + nat (grid_exp c d - expo d))"
    using assms by (intro power_increasing) (auto simp: grid_exp_def)
  also have "\<dots> = 10 ^ prec c * ?p" by (simp add: power_add grid_step_def)
  finally have "coeff d \<le> 10 ^ prec c * ?p" "(- (10 ^ prec c)) * ?p \<le> coeff d" by auto
  then have "grid_coeff c d \<le> 10 ^ prec c" "- (10 ^ prec c) \<le> grid_coeff c d"
    unfolding grid_coeff_def by (auto intro!: rnd_le rnd_ge)
  then show ?thesis by simp
qed

lemma carry_value:
  assumes "\<bar>q\<bar> \<le> 10 ^ prec c" and "prec c < ndigits \<bar>q\<bar>"
  shows "of_int (q div 10) * 10 powi (g + 1) = (of_int q * 10 powi g :: rat)"
    and "\<bar>q div 10\<bar> = 10 ^ (prec c - 1)"
proof -
  from assms(2) have "\<not> \<bar>q\<bar> < 10 ^ prec c"
    using ndigits_le_iff [OF prec_pos, of "\<bar>q\<bar>"] by linarith
  with assms(1) have q: "\<bar>q\<bar> = 10 ^ prec c" by linarith
  obtain k where k: "prec c = Suc k" using prec_pos by (cases "prec c") auto
  from q have "q = 10 * 10 ^ k \<or> q = - (10 * 10 ^ k)" by (simp add: k) linarith
  then have d: "q = 10 * (q div 10)" and m: "\<bar>q div 10\<bar> = 10 ^ k"
    by (auto simp: zdiv_zminus1_eq_if)
  show "\<bar>q div 10\<bar> = 10 ^ (prec c - 1)" by (simp add: m k)
  have "(of_int q :: rat) = 10 * of_int (q div 10)"
    by (subst d) simp
  then show "of_int (q div 10) * 10 powi (g + 1) = (of_int q * 10 powi g :: rat)"
    by (simp add: power_int_add)
qed

lemma dfix_cases:
  assumes "dfix c d = Inr r"
  shows "(coeff d = 0 \<and> coeff r = 0 \<or> coeff d \<noteq> 0 \<and> r = d \<or>
      coeff d \<noteq> 0 \<and> expo d < grid_exp c d \<and>
      dval r = of_int (grid_coeff c d) * 10 powi grid_exp c d) \<and> representable c r"
proof (cases "coeff d = 0")
  case True
  with assms range prec_pos show ?thesis
    by (auto simp: dfix_def Let_def representable_def etop_def min_def max_def)
next
  case False
  let ?n = "int (ndigits \<bar>coeff d\<bar>)" and ?g = "grid_exp c d" and ?q = "grid_coeff c d"
  note unfold = dfix_grid [OF False]
  show ?thesis
  proof (cases "expo d < ?g")
    case grid: True
    note bound = grid_coeff_bound [OF False grid]
    show ?thesis
    proof (cases "prec c < ndigits \<bar>?q\<bar>")
      case True
      note carry = carry_value [OF bound True]
      from assms grid True have r: "r = Dec (?q div 10) (?g + 1)" "?g + 1 \<le> etop c"
        by (auto simp: unfold split: if_splits)
      have "ndigits \<bar>?q div 10\<bar> \<le> prec c"
        using prec_pos carry(2) by (subst ndigits_le_iff) auto
      then have "representable c r"
        using r prec_pos etiny_le_grid_exp [of c d]
        by (auto simp: representable_def etop_def simp del: etiny_le_grid_exp)
      with r carry grid False show ?thesis by (auto simp: dval_def)
    next
      case False
      with assms grid have r: "r = Dec ?q ?g" "?g \<le> etop c"
        by (auto simp: unfold split: if_splits)
      with False grid \<open>coeff d \<noteq> 0\<close> range prec_pos show ?thesis
        by (auto simp: representable_def dval_def grid_exp_def etop_def)
    qed
  next
    case grid: False
    with assms False show ?thesis
      by (auto simp: unfold representable_def grid_exp_def split: if_splits)
  qed
qed

lemma dfix_result_representable: "dfix c d = Inr r \<Longrightarrow> representable c r"
  using dfix_cases by blast

lemma fine_argument:
  assumes b: "representable c b" "coeff b \<noteq> 0" "expo b < grid_exp c d"
    and d: "coeff d \<noteq> 0" "expo d < grid_exp c d"
  shows "10 ^ nat (grid_exp c d - expo d + int (prec c) - 1) \<le> \<bar>coeff d\<bar>"
proof -
  from b have "grid_exp c d = int (ndigits \<bar>coeff d\<bar>) + expo d - int (prec c)"
    by (auto simp: grid_exp_def representable_def max_def split: if_splits)
  then have "nat (grid_exp c d - expo d + int (prec c) - 1) = ndigits \<bar>coeff d\<bar> - 1" by simp
  with d ndigits_lower [of "\<bar>coeff d\<bar>"] show ?thesis by simp
qed

text \<open>A result never passes a representable bound of the exact value.\<close>

lemma dfix_le_bound:
  assumes fixd: "dfix c d = Inr r" and b: "representable c b" and le: "dval d \<le> dval b"
  shows "dval r \<le> dval b"
proof -
  consider "coeff d = 0" "coeff r = 0" | "r = d"
    | "coeff d \<noteq> 0" "expo d < grid_exp c d"
      "dval r = of_int (grid_coeff c d) * 10 powi grid_exp c d"
    using dfix_cases [OF fixd] by blast
  then show ?thesis
  proof cases
    case 3
    have "of_int (round_int (rounding c) (coeff d) (grid_step c d)) * 10 powi grid_exp c d \<le> dval b"
    proof (rule rounded_le_bound)
      show "\<bar>coeff b\<bar> < 10 ^ prec c"
        using b prec_pos by (auto simp: representable_def ndigits_le_iff split: if_splits)
      show "10 ^ nat (grid_exp c d - expo d + int (prec c) - 1) \<le> \<bar>coeff d\<bar>"
        if "coeff b \<noteq> 0" "expo b < grid_exp c d"
        using fine_argument [OF b that 3(1,2)] .
      show "of_int (coeff d) * 10 powi expo d \<le> dval b" using le by (simp add: dval_def)
    qed (simp_all add: 3 prec_pos grid_step_def)
    with 3 show ?thesis by (simp add: grid_coeff_def)
  qed (use le in \<open>auto simp: dval_eq_0_iff [THEN iffD2]\<close>)
qed

lemma dfix_ge_bound:
  assumes fixd: "dfix c d = Inr r" and b: "representable c b" and ge: "dval b \<le> dval d"
  shows "dval b \<le> dval r"
proof -
  consider "coeff d = 0" "coeff r = 0" | "r = d"
    | "coeff d \<noteq> 0" "expo d < grid_exp c d"
      "dval r = of_int (grid_coeff c d) * 10 powi grid_exp c d"
    using dfix_cases [OF fixd] by blast
  then show ?thesis
  proof cases
    case 3
    have "of_int (- round_int (rounding c) (- (- coeff d)) (grid_step c d)) * 10 powi grid_exp c d
        \<le> dval (exact_neg b)"
    proof (rule faithful_rounding.rounded_le_bound [OF rnd_negated])
      show "\<bar>coeff (exact_neg b)\<bar> < 10 ^ prec c"
        using b prec_pos
        by (auto simp: representable_def ndigits_le_iff exact_neg_def split: if_splits)
      show "10 ^ nat (grid_exp c d - expo d + int (prec c) - 1) \<le> \<bar>- coeff d\<bar>"
        if "coeff (exact_neg b) \<noteq> 0" "expo (exact_neg b) < grid_exp c d"
        using fine_argument [OF b _ _ 3(1,2)] that by (simp add: exact_neg_def)
      show "of_int (- coeff d) * 10 powi expo d \<le> dval (exact_neg b)"
        using ge by (simp add: dval_def exact_neg_def)
    qed (simp_all add: 3 prec_pos grid_step_def)
    with 3 show ?thesis by (simp add: grid_coeff_def)
  qed (use ge in \<open>auto simp: dval_eq_0_iff [THEN iffD2]\<close>)
qed

end

section \<open>Signs, totality and upward contexts\<close>

context decimal_context
begin

lemma representable_zero: "representable c (Dec 0 (etiny c))"
  using range prec_pos by (simp add: representable_def etop_def)

lemma dfix_nonneg: "dfix c d = Inr r \<Longrightarrow> 0 \<le> dval d \<Longrightarrow> 0 \<le> dval r"
  using dfix_ge_bound [OF _ representable_zero] by simp

lemma dfix_nonpos: "dfix c d = Inr r \<Longrightarrow> dval d \<le> 0 \<Longrightarrow> dval r \<le> 0"
  using dfix_le_bound [OF _ representable_zero] by simp

lemma dadd_nonneg: "dadd c a b = Inr r \<Longrightarrow> 0 \<le> dval a \<Longrightarrow> 0 \<le> dval b \<Longrightarrow> 0 \<le> dval r"
  by (auto simp: dadd_def intro: dfix_nonneg)

lemma dsub_nonneg: "dsub c a b = Inr r \<Longrightarrow> dval b \<le> dval a \<Longrightarrow> 0 \<le> dval r"
  by (auto simp: dsub_def intro: dfix_nonneg)

lemma dmul_nonneg: "dmul c a b = Inr r \<Longrightarrow> 0 \<le> dval a \<Longrightarrow> 0 \<le> dval b \<Longrightarrow> 0 \<le> dval r"
  by (auto simp: dmul_def intro: dfix_nonneg)

lemma dabs_nonneg: "dabs c a = Inr r \<Longrightarrow> 0 \<le> dval r"
  using dfix_nonneg [of "Dec \<bar>coeff a\<bar> (expo a)" r] by (simp add: dabs_def dval_def)

lemma dadd_ge_left:
  "dadd c a b = Inr r \<Longrightarrow> representable c a \<Longrightarrow> 0 \<le> dval b \<Longrightarrow> dval a \<le> dval r"
  by (auto simp: dadd_def intro: dfix_ge_bound)

lemma dsub_le_left:
  "dsub c a b = Inr r \<Longrightarrow> representable c a \<Longrightarrow> 0 \<le> dval b \<Longrightarrow> dval r \<le> dval a"
  by (auto simp: dsub_def intro: dfix_le_bound)

lemma dmul_le_left:
  "dmul c a b = Inr r \<Longrightarrow> representable c a \<Longrightarrow> 0 \<le> dval a \<Longrightarrow> dval b \<le> 1 \<Longrightarrow> dval r \<le> dval a"
  using dfix_le_bound [of "exact_mul a b" r a] mult_left_le [of "dval b" "dval a"]
  by (simp add: dmul_def)

lemma dfix_total:
  assumes small: "\<bar>dval d\<bar> < 10 powi (e_max c)"
  obtains r where "dfix c d = Inr r"
proof -
  have "is_ok (dfix c d)"
  proof (cases "coeff d = 0")
    case True
    then show ?thesis by (simp add: dfix_def)
  next
    case False
    let ?n = "int (ndigits \<bar>coeff d\<bar>)"
    have "10 ^ (ndigits \<bar>coeff d\<bar> - 1) \<le> \<bar>coeff d\<bar>" using False by (intro ndigits_lower) simp
    then have "(of_int (10 ^ (ndigits \<bar>coeff d\<bar> - 1)) :: rat) \<le> of_int \<bar>coeff d\<bar>"
      by (simp only: of_int_le_iff)
    then have "of_int (10 ^ (ndigits \<bar>coeff d\<bar> - 1)) * 10 powi expo d
        \<le> of_int \<bar>coeff d\<bar> * (10::rat) powi expo d"
      by (rule mult_right_mono) simp
    also have "\<dots> = \<bar>dval d\<bar>" by (simp add: dval_def abs_mult)
    finally have "(10::rat) ^ (ndigits \<bar>coeff d\<bar> - 1) * 10 powi expo d \<le> \<bar>dval d\<bar>" by simp
    moreover have "(10::rat) powi (?n - 1 + expo d) = 10 ^ (ndigits \<bar>coeff d\<bar> - 1) * 10 powi expo d"
      by (rule ten_powi_pred) simp
    ultimately have "(10::rat) powi (?n - 1 + expo d) \<le> \<bar>dval d\<bar>" by simp
    with small have less: "(10::rat) powi (?n - 1 + expo d) < 10 powi e_max c" by linarith
    have n: "?n - 1 + expo d < e_max c"
    proof (rule ccontr)
      assume "\<not> ?thesis"
      then have "(10::rat) powi e_max c \<le> 10 powi (?n - 1 + expo d)"
        by (intro power_int_increasing) simp_all
      with less show False by linarith
    qed
    then have "\<not> etop c < ?n + expo d - int (prec c)"
      unfolding etop_def by linarith
    moreover have "\<not> etop c < grid_exp c d + 1"
      using n range unfolding grid_exp_def max_def etop_def by (simp split: if_split)
    ultimately show ?thesis
      unfolding dfix_grid [OF False] by simp
  qed
  then show thesis using that by (auto elim: is_okE)
qed

end

text \<open>
  An upward context over-states: every operation returns at least the exact result. This is
  the contract the exposure arithmetic of the admission policy rests on.
\<close>

locale upward_context = decimal_context +
  assumes ceiling: "rounding c = Ceiling"
begin

lemma dfix_up: "dfix c d = Inr r \<Longrightarrow> dval d \<le> dval r"
proof -
  assume fixd: "dfix c d = Inr r"
  consider "coeff d = 0" "coeff r = 0" | "r = d"
    | "expo d < grid_exp c d" "dval r = of_int (grid_coeff c d) * 10 powi grid_exp c d"
    using dfix_cases [OF fixd] by blast
  then show ?thesis
  proof cases
    case 3
    have "coeff d \<le> grid_coeff c d * grid_step c d"
      unfolding grid_coeff_def ceiling by (intro ceiling_mode.rnd_up) simp
    then have "dval d \<le> of_int (grid_coeff c d * grid_step c d) * 10 powi expo d"
      unfolding dval_def by (intro mult_right_mono) (simp_all only: of_int_le_iff, simp)
    also have "\<dots> = dval r"
      using 3 by (simp add: grid_step_def flip: power_int_of_nat power_int_add)
    finally show ?thesis .
  qed (simp_all add: dval_eq_0_iff [THEN iffD2])
qed

lemma dadd_up: "dadd c a b = Inr r \<Longrightarrow> dval a + dval b \<le> dval r"
  using dfix_up [of "exact_add a b" r] by (simp add: dadd_def)

lemma dsub_up: "dsub c a b = Inr r \<Longrightarrow> dval a - dval b \<le> dval r"
  using dfix_up [of "exact_add a (exact_neg b)" r] by (simp add: dsub_def)

lemma dmul_up: "dmul c a b = Inr r \<Longrightarrow> dval a * dval b \<le> dval r"
  using dfix_up [of "exact_mul a b" r] by (simp add: dmul_def)

end

section \<open>Division\<close>

lemma dval_shorten: "dval (shorten ideal z e) = of_int z * 10 powi e"
proof (induction ideal z e rule: shorten.induct)
  case (1 ideal z e)
  show ?case
  proof (cases "e < ideal \<and> z mod 10 = 0")
    case True
    then have "(of_int z :: rat) = 10 * of_int (z div 10)"
      by (metis mult_div_mod_eq add.right_neutral of_int_mult of_int_numeral)
    with True 1 show ?thesis by (simp add: shorten.simps [of ideal z e] power_int_add)
  next
    case False
    then show ?thesis by (subst shorten.simps) (auto simp: dval_def)
  qed
qed

lemma scaled_ratio:
  fixes x y :: rat
  shows "(if 0 \<le> s then x * 10 ^ nat s else x) / (if 0 \<le> s then y else y * 10 ^ nat (- s))
    = x / y * 10 powi s"
proof (cases "0 \<le> s")
  case True
  then show ?thesis by (simp add: power_int_def)
next
  case False
  then have "(10::rat) powi s = 1 / 10 ^ nat (- s)"
    by (simp add: power_int_def power_one_over inverse_eq_divide)
  with False show ?thesis by (simp add: divide_simps)
qed

lemma scaled_quotient_ge:
  assumes x: "0 < x" and y: "0 < y"
    and shift: "shift = int (ndigits y) - int (ndigits x) + int p + 1"
  shows "10 ^ p * (if 0 \<le> shift then y else y * 10 ^ nat (- shift))
           \<le> (if 0 \<le> shift then x * 10 ^ nat shift else x)"
proof -
  have lo: "10 ^ (ndigits x - 1) \<le> x" using x by (rule ndigits_lower)
  have hi: "y \<le> 10 ^ ndigits y" using ndigits_upper [of y] by simp
  have nx: "0 < ndigits x" by simp
  show ?thesis
  proof (cases "0 \<le> shift")
    case True
    have "10 ^ p * y \<le> 10 ^ (p + ndigits y)" using hi by (simp add: power_add)
    also have "p + ndigits y = (ndigits x - 1) + nat shift" using shift True nx by linarith
    also have "(10::int) ^ (ndigits x - 1 + nat shift) \<le> x * 10 ^ nat shift"
      using lo by (simp add: power_add)
    finally show ?thesis using True by simp
  next
    case False
    have "10 ^ p * (y * 10 ^ nat (- shift)) \<le> 10 ^ (p + ndigits y + nat (- shift))"
      using hi by (simp add: power_add mult.assoc)
    also have "p + ndigits y + nat (- shift) = ndigits x - 1" using shift False nx by linarith
    finally show ?thesis using lo False by simp
  qed
qed

text \<open>
  The computed digits of a positive quotient are exact, or a truncation \<open>q\<close> of more than
  \<open>p\<close> digits with its last digit moved off 0.
\<close>

lemma quotient_digits_cases:
  assumes a: "0 < coeff a" and b: "0 < coeff b"
  shows "dval (quotient_digits p a b) = dval a / dval b \<or>
    (\<exists>q. 10 ^ p \<le> q \<and> coeff (quotient_digits p a b) \<in> {q, q + 1} \<and>
      coeff (quotient_digits p a b) mod 10 \<noteq> 0 \<and>
      of_int q * 10 powi expo (quotient_digits p a b) < dval a / dval b \<and>
      dval a / dval b < of_int (q + 1) * 10 powi expo (quotient_digits p a b))"
proof -
  define x y where "x = coeff a" and "y = coeff b"
  define shift where "shift = int (ndigits y) - int (ndigits x) + int p + 1"
  define e where "e = expo a - expo b - shift"
  define num where "num = (if 0 \<le> shift then x * 10 ^ nat shift else x)"
  define den where "den = (if 0 \<le> shift then y else y * 10 ^ nat (- shift))"
  define q where "q = num div den"
  have pos: "0 < x" "0 < y" "0 < den" using a b by (auto simp: x_def y_def den_def)
  have nd: "of_int num / of_int den = (of_int x / of_int y * 10 powi shift :: rat)"
    using scaled_ratio [of shift "of_int x" "of_int y"] by (simp add: num_def den_def split: if_splits)
  have "dval a / dval b = of_int x / of_int y * 10 powi (expo a - expo b)"
    by (simp add: dval_def x_def y_def power_int_diff)
  also have "expo a - expo b = shift + e" by (simp add: e_def)
  also have "of_int x / of_int y * (10::rat) powi (shift + e)
      = of_int x / of_int y * 10 powi shift * 10 powi e"
    by (subst power_int_add) (simp_all add: mult.assoc)
  finally have t: "dval a / dval b = of_int num / of_int den * 10 powi e" by (simp add: nd)
  have qd: "quotient_digits p a b =
      (if num mod den \<noteq> 0 then Dec (if q mod 5 = 0 then q + 1 else q) e
       else shorten (expo a - expo b) q e)"
  proof -
    have sg: "sgn (coeff a) * sgn (coeff b) = 1" "\<bar>coeff a\<bar> = x" "\<bar>coeff b\<bar> = y"
      using a b by (simp_all add: x_def y_def)
    show ?thesis
      unfolding quotient_digits_def Let_def sg shift_def [symmetric] e_def [symmetric]
        num_def [symmetric] den_def [symmetric] q_def [symmetric]
      by (simp only: mult_1 decimal.collapse)
  qed
  have "10 ^ p * den \<le> num"
    unfolding num_def den_def using pos by (intro scaled_quotient_ge shift_def)
  then have q10: "10 ^ p \<le> q"
    unfolding q_def using pos zdiv_mono1 [of "10 ^ p * den" num den] by simp
  have num: "num = q * den + num mod den" by (simp add: q_def)
  show ?thesis
  proof (cases "num mod den = 0")
    case True
    with num pos have "(of_int num :: rat) / of_int den = of_int q"
      by (metis add.right_neutral nonzero_mult_div_cancel_right of_int_eq_0_iff of_int_mult
          order_less_irrefl)
    with True show ?thesis by (simp add: qd dval_shorten t)
  next
    case False
    with pos have r: "0 < num mod den" "num mod den < den"
      by (metis order_le_less pos_mod_sign, metis pos_mod_bound)
    with num have "q * den < num" "num < (q + 1) * den" by (auto simp: distrib_right)
    then have "(of_int (q * den) :: rat) < of_int num" "(of_int num :: rat) < of_int ((q + 1) * den)"
      by (simp_all only: of_int_less_iff)
    with pos have "of_int q < (of_int num / of_int den :: rat)"
      "(of_int num / of_int den :: rat) < of_int (q + 1)"
      by (simp_all add: field_simps)
    then have "of_int q * 10 powi e < dval a / dval b"
      "dval a / dval b < of_int (q + 1) * 10 powi e"
      unfolding t by (intro mult_strict_right_mono; simp)+
    moreover have "(if q mod 5 = 0 then q + 1 else q) mod 10 \<noteq> 0" by presburger
    ultimately show ?thesis using False q10 by (auto simp: qd)
  qed
qed

lemma ndigits_bound_rat:
  "ndigits \<bar>coeff k\<bar> \<le> n \<Longrightarrow> dval k < of_int (10 ^ n) * 10 powi expo k"
proof -
  assume "ndigits \<bar>coeff k\<bar> \<le> n"
  then have "(10::int) ^ ndigits \<bar>coeff k\<bar> \<le> 10 ^ n" by simp
  with ndigits_upper [of "\<bar>coeff k\<bar>"] have "coeff k < 10 ^ n" by linarith
  then have "(of_int (coeff k) :: rat) < of_int (10 ^ n)" by (simp only: of_int_less_iff)
  then show ?thesis unfolding dval_def by (rule mult_strict_right_mono) simp
qed

lemma quotient_digits_le_bound:
  assumes a: "0 < coeff a" and b: "0 < coeff b"
    and k: "coeff k \<noteq> 0 \<Longrightarrow> ndigits \<bar>coeff k\<bar> \<le> p" and le: "dval a / dval b \<le> dval k"
  shows "dval (quotient_digits p a b) \<le> dval k"
proof -
  let ?d = "quotient_digits p a b"
  from quotient_digits_cases [OF a b, of p] show ?thesis
  proof
    assume "dval ?d = dval a / dval b"
    with le show ?thesis by simp
  next
    assume "\<exists>q. 10 ^ p \<le> q \<and> coeff ?d \<in> {q, q + 1} \<and> coeff ?d mod 10 \<noteq> 0 \<and>
      of_int q * 10 powi expo ?d < dval a / dval b \<and>
      dval a / dval b < of_int (q + 1) * 10 powi expo ?d"
    then obtain q where q: "10 ^ p \<le> q" "coeff ?d \<le> q + 1"
      and lo: "of_int q * 10 powi expo ?d < dval a / dval b" by force
    from lo le have qk: "of_int q * 10 powi expo ?d < dval k" by linarith
    have "expo ?d \<le> expo k"
    proof (rule ccontr)
      assume coarse: "\<not> expo ?d \<le> expo k"
      from q(1) have qr: "of_int (10 ^ p) \<le> (of_int q :: rat)" by (simp only: of_int_le_iff)
      have "(0::rat) \<le> of_int (10 ^ p)" by (simp only: of_int_0_le_iff zero_le_power zero_le_numeral)
      from this qr have q0: "(0::rat) \<le> of_int q" by (rule order_trans)
      then have "0 \<le> of_int q * (10::rat) powi expo ?d" by simp
      with qk have "0 < dval k" by linarith
      then have "dval k < of_int (10 ^ p) * 10 powi expo k"
        using k by (intro ndigits_bound_rat) (auto simp: dval_pos_iff)
      also have "\<dots> \<le> of_int q * (10::rat) powi expo ?d"
        using coarse qr by (intro mult_mono power_int_increasing)
          (simp_all only: ten_powi_pos [THEN less_imp_le] q0 one_le_numeral not_le less_imp_le)
      finally show False using qk by simp
    qed
    note k' = dval_scale_to [OF this]
    from qk have "(of_int q :: rat) < of_int (scale_to (expo ?d) k)" by (simp add: k')
    then have "coeff ?d \<le> scale_to (expo ?d) k" using q(2) by simp
    then have "(of_int (coeff ?d) :: rat) \<le> of_int (scale_to (expo ?d) k)" by (simp only: of_int_le_iff)
    then show ?thesis unfolding k' unfolding dval_def by (rule mult_right_mono) simp
  qed
qed

lemma quotient_digits_nonneg:
  assumes "0 < coeff a" and "0 < coeff b"
  shows "0 < dval (quotient_digits p a b)"
proof -
  have "0 < dval a / dval b" using assms by (simp add: dval_pos_iff)
  moreover have "0 < coeff (quotient_digits p a b)"
    if "10 ^ p \<le> q" "coeff (quotient_digits p a b) \<in> {q, q + 1}" for q
  proof -
    have "(0::int) < 10 ^ p" by simp
    with that(1) have "0 < q" by linarith
    with that(2) show ?thesis by auto
  qed
  ultimately show ?thesis
    using quotient_digits_cases [OF assms, of p] unfolding dval_pos_iff [symmetric]
    by (metis (no_types, lifting))
qed

context decimal_context
begin

lemma ddiv_zero: "coeff b \<noteq> 0 \<Longrightarrow> coeff a = 0 \<Longrightarrow> ddiv c a b = dfix c (Dec 0 (expo a - expo b))"
  by (simp only: ddiv_def if_True if_False simp_thms)

lemma ddiv_digits: "coeff b \<noteq> 0 \<Longrightarrow> coeff a \<noteq> 0 \<Longrightarrow> ddiv c a b = dfix c (quotient_digits (prec c) a b)"
  by (simp only: ddiv_def if_False)

lemma ddiv_nonneg:
  assumes "ddiv c a b = Inr r" and "0 \<le> dval a" and "0 < dval b"
  shows "0 \<le> dval r"
proof (cases "coeff a = 0")
  case True
  with assms have "dfix c (Dec 0 (expo a - expo b)) = Inr r"
    by (simp add: ddiv_zero dval_pos_iff)
  then show ?thesis by (rule dfix_nonneg) simp
next
  case False
  with assms(2) have "0 < coeff a" by (metis dval_eq_0_iff dval_pos_iff order_le_less)
  then have "0 < dval (quotient_digits (prec c) a b)"
    using assms(3) by (intro quotient_digits_nonneg) (simp_all add: dval_pos_iff)
  moreover have "dfix c (quotient_digits (prec c) a b) = Inr r"
    using assms False by (simp add: ddiv_digits dval_pos_iff)
  ultimately show ?thesis using dfix_nonneg by (blast intro: less_imp_le)
qed

lemma ddiv_le_bound:
  assumes div: "ddiv c a b = Inr r" and a: "0 \<le> dval a" and b: "0 < dval b"
    and k: "representable c k" and le: "dval a / dval b \<le> dval k"
  shows "dval r \<le> dval k"
proof (cases "coeff a = 0")
  case True
  with div b have "dfix c (Dec 0 (expo a - expo b)) = Inr r"
    by (simp add: ddiv_zero dval_pos_iff)
  then show ?thesis
  proof (rule dfix_le_bound [OF _ k])
    show "dval (Dec 0 (expo a - expo b)) \<le> dval k" using le True by (simp add: dval_def)
  qed
next
  case False
  with a have a': "0 < coeff a" by (metis dval_eq_0_iff dval_pos_iff order_le_less)
  have b': "0 < coeff b" using b by (simp add: dval_pos_iff)
  have "dval (quotient_digits (prec c) a b) \<le> dval k"
    using k by (intro quotient_digits_le_bound a' b' le) (auto simp: representable_def)
  moreover from div a' b' have "dfix c (quotient_digits (prec c) a b) = Inr r"
    by (simp add: ddiv_digits)
  ultimately show ?thesis using dfix_le_bound [OF _ k] by blast
qed

end

context upward_context
begin

text \<open>A quotient is never under-stated: the last computed digit forces the rounding up.\<close>

lemma ddiv_up:
  assumes div: "ddiv c a b = Inr r" and a: "0 \<le> dval a" and b: "0 < dval b"
  shows "dval a / dval b \<le> dval r"
proof (cases "coeff a = 0")
  case True
  with assms ddiv_nonneg [OF div a b] show ?thesis by (simp add: dval_eq_0_iff [THEN iffD2])
next
  case False
  let ?d = "quotient_digits (prec c) a b"
  from False a have a': "0 < coeff a" by (metis dval_eq_0_iff dval_pos_iff order_le_less)
  have b': "0 < coeff b" using b by (simp add: dval_pos_iff)
  from div a' b' have fixd: "dfix c ?d = Inr r" by (simp add: ddiv_digits)
  from quotient_digits_cases [OF a' b', of "prec c"] show ?thesis
  proof
    assume "dval ?d = dval a / dval b"
    with dfix_up [OF fixd] show ?thesis by simp
  next
    assume "\<exists>q. 10 ^ prec c \<le> q \<and> coeff ?d \<in> {q, q + 1} \<and> coeff ?d mod 10 \<noteq> 0 \<and>
      of_int q * 10 powi expo ?d < dval a / dval b \<and>
      dval a / dval b < of_int (q + 1) * 10 powi expo ?d"
    then obtain q where q: "10 ^ prec c \<le> q" "coeff ?d = q \<or> coeff ?d = q + 1"
      and m: "coeff ?d mod 10 \<noteq> 0"
      and hi: "dval a / dval b < of_int (q + 1) * 10 powi expo ?d" by auto
    have "(0::int) < 10 ^ prec c" by simp
    with q(1) have "0 < q" by linarith
    with q have d0: "0 < coeff ?d" "10 ^ prec c \<le> coeff ?d" by auto
    then have "\<not> ndigits \<bar>coeff ?d\<bar> \<le> prec c" using ndigits_le_iff [OF prec_pos] by simp
    then have grid: "expo ?d < grid_exp c ?d" by (simp add: grid_exp_def)
    then have "\<not> representable c ?d"
      using d0 \<open>\<not> ndigits \<bar>coeff ?d\<bar> \<le> prec c\<close> by (simp add: representable_def)
    then have r: "dval r = of_int (grid_coeff c ?d) * 10 powi grid_exp c ?d"
      using dfix_cases [OF fixd] d0 by auto
    let ?s = "grid_step c ?d"
    have "10 dvd ?s" using grid by (simp add: grid_step_def)
    then have "10 dvd grid_coeff c ?d * ?s" by simp
    moreover have "coeff ?d \<le> grid_coeff c ?d * ?s"
      unfolding grid_coeff_def ceiling by (intro ceiling_mode.rnd_up) simp
    ultimately have "coeff ?d + 1 \<le> grid_coeff c ?d * ?s"
      using m by (metis add1_zle_eq dvd_imp_mod_0 order_le_less)
    with q have "q + 1 \<le> grid_coeff c ?d * ?s" by linarith
    then have "(of_int (q + 1) :: rat) \<le> of_int (grid_coeff c ?d * ?s)" by (simp only: of_int_le_iff)
    then have "of_int (q + 1) * (10::rat) powi expo ?d \<le> of_int (grid_coeff c ?d * ?s) * 10 powi expo ?d"
      by (rule mult_right_mono) simp
    also have "\<dots> = dval r"
      using grid by (simp add: r grid_step_def flip: power_int_of_nat power_int_add)
    finally show ?thesis using hi by linarith
  qed
qed

end

end
