(* ===== verification/Sha256.thy ===== *)
theory Sha256
  imports Prelude "HOL-Library.Word"
begin

text \<open>
  The two functions of the standard library behind every artifact hash of the harness:
  \<open>str.encode ("utf-8")\<close> on code points below 256 and \<open>hashlib.sha256 (...).hexdigest ()\<close>.
  The lemmas give the shape of a digest; nothing in the development assumes that SHA-256 is
  free of collisions.
\<close>

unbundle bit_operations_syntax

definition utf8 :: "string \<Rightarrow> 8 word list" where
  "utf8 s = concat (map (\<lambda>c. let n = (of_char c :: nat) in
     if n < 128 then [word_of_nat n]
     else [word_of_nat (192 + n div 64), word_of_nat (128 + n mod 64)]) s)"

definition k256 :: "32 word list" where
  "k256 = [
    1116352408, 1899447441, 3049323471, 3921009573, 961987163, 1508970993, 2453635748, 2870763221,
    3624381080, 310598401, 607225278, 1426881987, 1925078388, 2162078206, 2614888103, 3248222580,
    3835390401, 4022224774, 264347078, 604807628, 770255983, 1249150122, 1555081692, 1996064986,
    2554220882, 2821834349, 2952996808, 3210313671, 3336571891, 3584528711, 113926993, 338241895,
    666307205, 773529912, 1294757372, 1396182291, 1695183700, 1986661051, 2177026350, 2456956037,
    2730485921, 2820302411, 3259730800, 3345764771, 3516065817, 3600352804, 4094571909, 275423344,
    430227734, 506948616, 659060556, 883997877, 958139571, 1322822218, 1537002063, 1747873779,
    1955562222, 2024104815, 2227730452, 2361852424, 2428436474, 2756734187, 3204031479, 3329325298]"

definition h256 :: "32 word list" where
  "h256 = [1779033703, 3144134277, 1013904242, 2773480762, 1359893119, 2600822924, 528734635, 1541459225]"

definition pad256 :: "8 word list \<Rightarrow> 8 word list" where
  "pad256 m =
     (let n = length m in
      m @ [0x80] @ replicate ((119 - n mod 64) mod 64) 0 @
      map (\<lambda>i. word_of_nat (8 * n div 256 ^ (7 - i))) [0..<8])"

fun be32 :: "8 word list \<Rightarrow> 32 word list" where
  "be32 (a # b # c # d # r) =
     word_of_nat (((unat a * 256 + unat b) * 256 + unat c) * 256 + unat d) # be32 r"
| "be32 _ = []"

definition schedule :: "32 word list \<Rightarrow> 32 word list" where
  "schedule ws = foldl (\<lambda>acc t.
     let w15 = acc ! (t - 15); w2 = acc ! (t - 2);
         s0 = word_rotr 7 w15 XOR word_rotr 18 w15 XOR drop_bit 3 w15;
         s1 = word_rotr 17 w2 XOR word_rotr 19 w2 XOR drop_bit 10 w2
     in acc @ [acc ! (t - 16) + s0 + acc ! (t - 7) + s1]) ws [16..<64]"

fun round256 :: "32 word list \<Rightarrow> 32 word \<times> 32 word \<Rightarrow> 32 word list" where
  "round256 [a, b, c, d, e, f, g, h] (k, w) =
     (let s1 = word_rotr 6 e XOR word_rotr 11 e XOR word_rotr 25 e;
          ch = (e AND f) XOR ((NOT e) AND g);
          t1 = h + s1 + ch + k + w;
          s0 = word_rotr 2 a XOR word_rotr 13 a XOR word_rotr 22 a;
          mj = (a AND b) XOR (a AND c) XOR (b AND c)
      in [t1 + (s0 + mj), a, b, c, d + t1, e, f, g])"
| "round256 hs _ = hs"

definition block256 :: "32 word list \<Rightarrow> 32 word list \<Rightarrow> 32 word list" where
  "block256 hs ws = map2 (+) hs (foldl round256 hs (zip k256 (schedule ws)))"

function blocks256 :: "32 word list \<Rightarrow> 32 word list \<Rightarrow> 32 word list" where
  "blocks256 hs ws = (if ws = [] then hs else blocks256 (block256 hs (take 16 ws)) (drop 16 ws))"
  by pat_completeness auto
termination
  by (relation "measure (\<lambda>(hs, ws). length ws)") auto

declare blocks256.simps [simp del]

definition hex_digit :: "nat \<Rightarrow> char" where
  "hex_digit n = ''0123456789abcdef'' ! (n mod 16)"

definition hex32 :: "32 word \<Rightarrow> string" where
  "hex32 w = map (\<lambda>i. hex_digit (unat w div 16 ^ (7 - i))) [0..<8]"

definition sha256_hex :: "8 word list \<Rightarrow> string" where
  "sha256_hex m = concat (map hex32 (blocks256 h256 (be32 (pad256 m))))"

lemma is_lower_hex_digit [simp]: "is_lower_hex (hex_digit n)"
proof -
  have "n mod 16 < length ''0123456789abcdef''" by simp
  then show ?thesis unfolding is_lower_hex_def hex_digit_def by (rule nth_mem)
qed

lemma length_round256: "length (round256 hs kw) = length hs"
  by (induction hs kw rule: round256.induct) (simp_all add: Let_def)

lemma length_rounds256: "length (foldl round256 hs kws) = length hs"
  by (induction kws arbitrary: hs) (simp_all add: length_round256)

lemma length_blocks256: "length (blocks256 hs ws) = length hs"
proof (induction hs ws rule: blocks256.induct)
  case (1 hs ws)
  then show ?case
    by (subst blocks256.simps) (simp add: block256_def length_rounds256)
qed

lemma sha256_hex_shaped [simp]: "sha256_shaped (sha256_hex m)"
proof -
  have "length (concat (map hex32 hs)) = 8 * length hs" for hs
    by (induction hs) (simp_all add: hex32_def)
  moreover have "list_all is_lower_hex (concat (map hex32 hs))" for hs
    by (auto simp: list_all_iff hex32_def)
  ultimately show ?thesis
    by (simp add: sha256_shaped_def sha256_hex_def length_blocks256 h256_def)
qed

end
