(* ===== verification/Json.thy ===== *)
theory Json
  imports Sha256 "HOL-Library.Char_ord" "HOL-Library.List_Lexorder"
begin

text \<open>
  JSON-native values and \<open>json.dumps\<close> with \<open>ensure_ascii=False\<close>, \<open>sort_keys=True\<close> and the
  separators \<open>(",", ":")\<close>. An object is the list of its items; \<open>sort_keys\<close> orders them by
  key, code point by code point, which is the order of \<open>HOL-Library.List_Lexorder\<close>.
  The main lemma: the text determines the value it was printed from, up to the order of keys.
\<close>

datatype json =
    JNull
  | JBool bool
  | JInt int
  | JStr string
  | JArr "json list"
  | JObj "(string \<times> json) list"

section \<open>Printing\<close>

definition digit_char :: "int \<Rightarrow> char" where
  "digit_char n = char_of (nat (48 + n mod 10))"

function digits_str :: "int \<Rightarrow> string" where
  "digits_str n = (if n < 10 then [digit_char n] else digits_str (n div 10) @ [digit_char n])"
  by pat_completeness auto
termination
  by (relation "measure nat") auto

declare digits_str.simps [simp del]

definition int_str :: "int \<Rightarrow> string" where
  "int_str i = (if i < 0 then CHR ''-'' # digits_str (- i) else digits_str i)"

text \<open>The two-character escapes of the JSON encoder: code point and letter.\<close>

definition short_escapes :: "(nat \<times> nat) list" where
  "short_escapes = [(34, 34), (92, 92), (10, 110), (13, 114), (9, 116), (8, 98), (12, 102)]"

definition escape_char :: "char \<Rightarrow> string" where
  "escape_char c =
     (let n = (of_char c :: nat) in
      case map_of short_escapes n of
        Some l \<Rightarrow> [CHR 0x5C, char_of l]
      | None \<Rightarrow>
          if n < 32 then [CHR 0x5C, CHR ''u'', CHR ''0'', CHR ''0'', hex_digit (n div 16), hex_digit n]
          else [c])"

definition quote :: "string \<Rightarrow> string" where
  "quote s = [CHR 0x22] @ concat (map escape_char s) @ [CHR 0x22]"

fun commas :: "string list \<Rightarrow> string" where
  "commas [] = []"
| "commas [x] = x"
| "commas (x # y # ys) = x @ [CHR '',''] @ commas (y # ys)"

fun render :: "json \<Rightarrow> string" where
  "render JNull = ''null''"
| "render (JBool b) = (if b then ''true'' else ''false'')"
| "render (JInt i) = int_str i"
| "render (JStr s) = quote s"
| "render (JArr xs) = ''['' @ commas (map render xs) @ '']''"
| "render (JObj kvs) =
     ''{'' @ commas (map (\<lambda>(k, v). quote k @ '':'' @ render v) kvs) @ ''}''"

fun sort_keys :: "json \<Rightarrow> json" where
  "sort_keys (JArr xs) = JArr (map sort_keys xs)"
| "sort_keys (JObj kvs) = JObj (sort_key fst (map (\<lambda>(k, v). (k, sort_keys v)) kvs))"
| "sort_keys j = j"

definition json_dumps :: "json \<Rightarrow> string" where
  "json_dumps j = render (sort_keys j)"

section \<open>Reading one token back\<close>

definition digit_val :: "char \<Rightarrow> int" where
  "digit_val c = int (of_char c) - 48"

definition is_digit :: "char \<Rightarrow> bool" where
  "is_digit c = (let n = (of_char c :: nat) in 48 \<le> n \<and> n \<le> 57)"

definition digits_val :: "string \<Rightarrow> int" where
  "digits_val s = foldl (\<lambda>a c. 10 * a + digit_val c) 0 s"

lemma of_digit_char: "(of_char (digit_char n) :: nat) = nat (48 + n mod 10)"
proof -
  have "nat (48 + n mod 10) < 256" by simp
  then show ?thesis by (simp add: digit_char_def of_char_of take_bit_eq_mod)
qed

lemma digit_val_char [simp]: "digit_val (digit_char n) = n mod 10"
  by (simp add: digit_val_def of_digit_char)

lemma is_digit_char [simp]: "is_digit (digit_char n)"
proof -
  have "0 \<le> n mod 10" "n mod 10 < 10" by simp_all
  then have "48 \<le> nat (48 + n mod 10)" "nat (48 + n mod 10) \<le> 57" by linarith+
  then show ?thesis by (simp only: is_digit_def of_digit_char Let_def)
qed

lemma digits_str_digits: "list_all is_digit (digits_str n)"
proof (induction n rule: digits_str.induct)
  case (1 n)
  then show ?case by (subst digits_str.simps) simp
qed

lemma digits_str_nonempty [simp]: "digits_str n \<noteq> []"
  by (subst digits_str.simps) simp

lemma digits_val_snoc: "digits_val (s @ [c]) = 10 * digits_val s + digit_val c"
  by (simp add: digits_val_def)

lemma digits_val_str: "0 \<le> n \<Longrightarrow> digits_val (digits_str n) = n"
proof (induction n rule: digits_str.induct)
  case (1 n)
  show ?case
  proof (cases "n < 10")
    case True
    with 1 show ?thesis
      by (subst digits_str.simps) (simp add: digits_val_def mod_pos_pos_trivial)
  next
    case False
    with 1 have "digits_val (digits_str (n div 10)) = n div 10" by simp
    with False show ?thesis by (subst digits_str.simps) (simp add: digits_val_snoc)
  qed
qed

lemma digit_prefix_unique:
  assumes "list_all is_digit a" "list_all is_digit b" "a @ r = b @ r'"
    and "r = [] \<or> \<not> is_digit (hd r)" "r' = [] \<or> \<not> is_digit (hd r')"
  shows "a = b \<and> r = r'"
proof -
  have "takeWhile is_digit (a @ r) = a" if "list_all is_digit a" "r = [] \<or> \<not> is_digit (hd r)" for a r
    using that by (cases r) (auto simp: list_all_iff)
  with assms show ?thesis by (metis same_append_eq)
qed

text \<open>Decoding one escaped character.\<close>

definition hex_val :: "char \<Rightarrow> nat" where
  "hex_val c = (let n = (of_char c :: nat) in if n < 58 then n - 48 else n - 87)"

lemma hex_val_digit: "hex_val (hex_digit n) = n mod 16"
proof -
  have "list_all (\<lambda>i. hex_val (hex_digit i) = i) [0 ..< 16]" by code_simp
  then have "hex_val (hex_digit (n mod 16)) = n mod 16"
    by (simp only: list_all_iff set_upt) (meson atLeastLessThan_iff le0 mod_less_divisor zero_less_numeral)
  then show ?thesis by (simp add: hex_digit_def)
qed

definition short_letters :: "(nat \<times> nat) list" where
  "short_letters = map prod.swap short_escapes"

fun unescape :: "string \<Rightarrow> (char \<times> string) option" where
  "unescape [] = None"
| "unescape (c # r) =
     (if c = CHR 0x5C then
        (case r of
           [] \<Rightarrow> None
         | x # r' \<Rightarrow>
             if x = CHR ''u'' then
               (case r' of
                  y # z # h # l # t \<Rightarrow> Some (char_of (16 * hex_val h + hex_val l), t)
                | _ \<Rightarrow> None)
             else map_option (\<lambda>n. (char_of n, r')) (map_of short_letters (of_char x)))
      else Some (c, r))"

lemma unescape_escape: "unescape (escape_char c @ r) = Some (c, r)"
proof -
  let ?n = "of_char c :: nat"
  consider (short) "?n \<in> {34, 92, 10, 13, 9, 8, 12}"
    | (control) "?n \<notin> {34, 92, 10, 13, 9, 8, 12}" "?n < 32"
    | (plain) "?n \<notin> {34, 92, 10, 13, 9, 8, 12}" "\<not> ?n < 32"
    by blast
  then show ?thesis
  proof cases
    case short
    have "c = char_of ?n" by simp
    with short show ?thesis
      by (elim insertE; simp add: escape_char_def short_escapes_def short_letters_def char_of_def bit_iff_odd)
  next
    case control
    have "16 * (?n div 16 mod 16) + ?n mod 16 = ?n"
    proof -
      from control(2) have "?n div 16 mod 16 = ?n div 16" by (simp add: div_less_dividend)
      then show ?thesis by simp
    qed
    with control show ?thesis
      by (simp add: escape_char_def short_escapes_def hex_val_digit Let_def)
  next
    case plain
    then have "c \<noteq> CHR 0x5C" by auto
    with plain show ?thesis by (simp add: escape_char_def short_escapes_def)
  qed
qed

lemma escape_prefix: "escape_char c @ r = escape_char d @ r' \<Longrightarrow> c = d \<and> r = r'"
  by (metis Pair_inject option.inject unescape_escape)

lemma escape_char_Cons: "\<exists>x xs. escape_char c = x # xs \<and> x \<noteq> CHR 0x22"
proof (cases "map_of short_escapes (of_char c :: nat)")
  case None
  then have "(of_char c :: nat) \<noteq> 34" by (auto simp: short_escapes_def)
  then have "c \<noteq> CHR 0x22" by auto
  with None show ?thesis by (simp add: escape_char_def Let_def)
qed (simp add: escape_char_def)

lemma quote_prefix: "quote s @ r = quote s' @ r' \<Longrightarrow> s = s' \<and> r = r'"
proof -
  assume "quote s @ r = quote s' @ r'"
  then have "concat (map escape_char s) @ CHR 0x22 # r = concat (map escape_char s') @ CHR 0x22 # r'"
    by (simp add: quote_def)
  then show ?thesis
  proof (induction s arbitrary: s')
    case Nil
    show ?case
    proof (cases s')
      case (Cons d t)
      with Nil escape_char_Cons [of d] show ?thesis by auto
    qed (use Nil in simp)
  next
    case (Cons c s)
    show ?case
    proof (cases s')
      case Nil
      with Cons.prems escape_char_Cons [of c] show ?thesis by auto
    next
      case (Cons d t)
      with Cons.prems Cons.IH [of t] escape_prefix [of c _ d] show ?thesis by fastforce
    qed
  qed
qed

section \<open>The text determines the value\<close>

text \<open>What can follow a value inside a document: the end, or a separator.\<close>

definition delim :: "string \<Rightarrow> bool" where
  "delim r = (r = [] \<or> hd r \<in> set '',]}'')"

text \<open>The first character tells the kind of value.\<close>

definition head_kind :: "char \<Rightarrow> nat" where
  "head_kind c =
     (if c = CHR ''n'' then 0 else if c = CHR ''t'' then 1 else if c = CHR ''f'' then 2
      else if c = CHR 0x22 then 3 else if c = CHR ''['' then 4 else if c = CHR ''{'' then 5
      else if c = CHR '']'' \<or> c = CHR ''}'' then 6 else 7)"

fun json_kind :: "json \<Rightarrow> nat" where
  "json_kind JNull = 0"
| "json_kind (JBool b) = (if b then 1 else 2)"
| "json_kind (JStr s) = 3"
| "json_kind (JArr xs) = 4"
| "json_kind (JObj kvs) = 5"
| "json_kind (JInt i) = 7"

lemma head_kind_digit: "is_digit c \<Longrightarrow> head_kind c = 7"
proof -
  assume c: "is_digit c"
  have "list_all (\<lambda>k. \<not> is_digit k) (CHR 0x22 # ''ntf[{]}'')"
    by (simp add: is_digit_def)
  then have "c \<notin> set (CHR 0x22 # ''ntf[{]}'')" using c by (auto simp: list_all_iff)
  then show ?thesis by (simp add: head_kind_def)
qed

lemma digits_str_hd: "is_digit (hd (digits_str n))"
  using digits_str_digits [of n] digits_str_nonempty [of n]
  by (cases "digits_str n") (auto simp del: digits_str_nonempty)

lemma int_str_nonempty [simp]: "int_str i \<noteq> []"
  by (simp add: int_str_def)

lemma render_nonempty [simp]: "render j \<noteq> []"
  by (cases j) (auto simp: quote_def)

lemma head_kind_render: "head_kind (hd (render j)) = json_kind j"
proof (cases j)
  case (JInt i)
  then show ?thesis
    by (auto simp: int_str_def head_kind_digit digits_str_hd) (simp add: head_kind_def)
qed (auto simp: quote_def head_kind_def)

lemma render_same_kind: "render j @ r = render j' @ r' \<Longrightarrow> json_kind j = json_kind j'"
  by (metis head_kind_render hd_append2 render_nonempty)

lemma delim_not_digit: "delim r \<Longrightarrow> r = [] \<or> \<not> is_digit (hd r)"
  by (auto simp: delim_def is_digit_def)

lemma int_str_prefix:
  assumes "int_str i @ r = int_str i' @ r'" "delim r" "delim r'"
  shows "i = i' \<and> r = r'"
proof -
  have minus: "\<not> is_digit (CHR ''-'')" by (simp add: is_digit_def)
  have hd_digits: "hd (digits_str n @ q) \<noteq> CHR ''-''" for n q
    using digits_str_hd [of n] minus by (metis hd_append2 digits_str_nonempty)
  have sign: "(k < 0) = (hd (int_str k @ q) = CHR ''-'')" for k q
    using hd_digits by (simp add: int_str_def)
  then have "(i < 0) = (i' < 0)" by (metis assms(1))
  with assms(1) have "digits_str \<bar>i\<bar> @ r = digits_str \<bar>i'\<bar> @ r'"
    by (cases "i < 0") (simp_all add: int_str_def)
  then have "digits_str \<bar>i\<bar> = digits_str \<bar>i'\<bar> \<and> r = r'"
    using assms(2,3) by (intro digit_prefix_unique digits_str_digits delim_not_digit)
  then have "\<bar>i\<bar> = \<bar>i'\<bar>" "r = r'" by (metis abs_ge_zero digits_val_str)+
  with \<open>(i < 0) = (i' < 0)\<close> show ?thesis by auto
qed

lemma commas_prefix:
  assumes "\<And>x y r r'. x \<in> set xs \<Longrightarrow> delim r \<Longrightarrow> delim r' \<Longrightarrow> f x @ r = f y @ r' \<Longrightarrow> x = y \<and> r = r'"
    and "\<And>x. f x \<noteq> [] \<and> head_kind (hd (f x)) \<noteq> 6"
    and "e \<in> set '']}''" "commas (map f xs) @ e # r = commas (map f ys) @ e # r'"
  shows "xs = ys \<and> r = r'"
  using assms(1,4)
proof (induction xs arbitrary: ys)
  case Nil
  have e: "head_kind e = 6" using assms(3) by (auto simp: head_kind_def)
  show ?case
  proof (cases ys)
    case (Cons y zs)
    then have "hd (commas (map f ys) @ e # r') = hd (f y)"
      using assms(2) by (cases zs) auto
    moreover from Nil.prems(2) have "hd (commas (map f ys) @ e # r') = e"
      by (metis append_Nil commas.simps(1) list.sel(1) list.simps(8))
    ultimately show ?thesis using e assms(2) [of y] by simp
  qed (use Nil in simp)
next
  case (Cons x xs)
  have e: "head_kind e = 6" using assms(3) by (auto simp: head_kind_def)
  define rest where "rest zs q = (if zs = [] then e # q else CHR '','' # commas (map f zs) @ e # q)" for zs q
  have split: "commas (map f (z # zs)) @ e # q = f z @ rest zs q" for z zs q
    by (cases zs) (auto simp: rest_def)
  have delim: "delim (rest zs q)" for zs q
    using assms(3) by (auto simp: rest_def delim_def)
  show ?case
  proof (cases ys)
    case Nil
    have "hd (commas (map f (x # xs)) @ e # r) = hd (f x)"
      using assms(2) unfolding split by simp
    moreover from Nil Cons.prems(2) have "hd (commas (map f (x # xs)) @ e # r) = e" by simp
    ultimately show ?thesis using e assms(2) [of x] by simp
  next
    case (Cons y zs)
    with Cons.prems(2) have "f x @ rest xs r = f y @ rest zs r'" by (simp only: split)
    with Cons.prems(1) delim have xy: "x = y" "rest xs r = rest zs r'" by (meson list.set_intros(1))+
    have comma: "e \<noteq> CHR '',''" using assms(3) by auto
    have "xs = zs \<and> r = r'"
    proof (cases "xs = [] \<or> zs = []")
      case True
      with xy(2) comma show ?thesis by (auto simp: rest_def split: if_splits)
    next
      case False
      with xy(2) have "commas (map f xs) @ e # r = commas (map f zs) @ e # r'"
        by (simp add: rest_def)
      with Cons.IH Cons.prems(1) show ?thesis by (meson list.set_intros(2))
    qed
    with xy Cons show ?thesis by simp
  qed
qed

lemma member_head: "f = (\<lambda>(k, v). quote k @ '':'' @ render v) \<Longrightarrow>
    f x \<noteq> [] \<and> head_kind (hd (f x)) \<noteq> 6"
  by (cases x) (simp add: quote_def head_kind_def)

lemma render_head: "render x \<noteq> [] \<and> head_kind (hd (render x)) \<noteq> 6"
  by (simp add: head_kind_render) (cases x; simp)

theorem render_prefix:
  "render j @ r = render j' @ r' \<Longrightarrow> delim r \<Longrightarrow> delim r' \<Longrightarrow> j = j' \<and> r = r'"
proof (induction j arbitrary: j' r r')
  case JNull
  then have "json_kind j' = 0" by (metis json_kind.simps(1) render_same_kind)
  with JNull show ?case by (cases j') (auto split: if_splits)
next
  case (JBool b)
  then have "json_kind j' = json_kind (JBool b)" by (metis render_same_kind)
  with JBool show ?case by (cases j') (auto split: if_splits)
next
  case (JInt i)
  then have "json_kind j' = 7" by (metis json_kind.simps(6) render_same_kind)
  then obtain i' where "j' = JInt i'" by (cases j') (auto split: if_splits)
  with JInt show ?case using int_str_prefix [of i r i' r'] by simp
next
  case (JStr s)
  then have "json_kind j' = 3" by (metis json_kind.simps(3) render_same_kind)
  then obtain s' where "j' = JStr s'" by (cases j') (auto split: if_splits)
  with JStr show ?case using quote_prefix [of s r s' r'] by simp
next
  case (JArr xs)
  then have "json_kind j' = 4" by (metis json_kind.simps(4) render_same_kind)
  then obtain ys where j': "j' = JArr ys" by (cases j') (auto split: if_splits)
  with JArr.prems(1) have "commas (map render xs) @ CHR '']'' # r = commas (map render ys) @ CHR '']'' # r'"
    by simp
  then have "xs = ys \<and> r = r'"
    by (rule commas_prefix [OF _ render_head, rotated 2]) (use JArr.IH in auto)
  with j' show ?case by simp
next
  case (JObj kvs)
  define f where "f = (\<lambda>(k, v). quote k @ '':'' @ render v)"
  from JObj have "json_kind j' = 5" by (metis json_kind.simps(5) render_same_kind)
  then obtain ys where j': "j' = JObj ys" by (cases j') (auto split: if_splits)
  with JObj.prems(1) have eq: "commas (map f kvs) @ CHR ''}'' # r = commas (map f ys) @ CHR ''}'' # r'"
    by (simp add: f_def)
  have member: "x = y \<and> q = q'"
    if "x \<in> set kvs" "delim q" "delim q'" "f x @ q = f y @ q'" for x y q q'
  proof -
    obtain k v k' v' where xy: "x = (k, v)" "y = (k', v')" by (cases x, cases y) auto
    with that(4) have "quote k @ '':'' @ render v @ q = quote k' @ '':'' @ render v' @ q'"
      by (simp add: f_def)
    then have "k = k' \<and> '':'' @ render v @ q = '':'' @ render v' @ q'" by (rule quote_prefix)
    then have "k = k'" "render v @ q = render v' @ q'" by simp_all
    moreover have "(k, v) \<in> set kvs" "v \<in> Basic_BNFs.snds (k, v)" using that(1) xy by auto
    ultimately have "v = v' \<and> q = q'" using JObj.IH that(2,3) by metis
    with xy \<open>k = k'\<close> show ?thesis by simp
  qed
  have "kvs = ys \<and> r = r'"
  proof (rule commas_prefix)
    show "f x \<noteq> [] \<and> head_kind (hd (f x)) \<noteq> 6" for x by (rule member_head) (simp add: f_def)
  qed (use member eq in auto)
  with j' show ?case by simp
qed

corollary render_inj: "render j = render j' \<Longrightarrow> j = j'"
  using render_prefix [of j "[]" j' "[]"] by (simp add: delim_def)

corollary json_dumps_inj: "json_dumps j = json_dumps j' \<Longrightarrow> sort_keys j = sort_keys j'"
  by (simp add: json_dumps_def render_inj)

end
