(* ===== verification/Calendar.thy ===== *)
theory Calendar
  imports Json
begin

text \<open>
  Aware datetimes. The harness normalises every datetime it keeps with
  \<open>astimezone(timezone.utc)\<close>, so an instant is modelled by the number of microseconds since
  0001-01-01T00:00:00Z, Python's smallest datetime; comparison and addition of a
  \<open>timedelta\<close> are those of the integers. This theory gives the calendar algorithm of
  \<open>datetime.py\<close> (\<open>_ord2ymd\<close>, \<open>_ymd2ord\<close>) and \<open>isoformat(timespec="microseconds")\<close>, and shows
  that the text determines the instant.
\<close>

type_synonym instant = int

definition microsecond_second :: int where "microsecond_second = 1000000"
definition microsecond_day :: int where "microsecond_day = 86400000000"

definition instant_ok :: "instant \<Rightarrow> bool" where
  "instant_ok t = (0 \<le> t \<and> t < 3652059 * microsecond_day)"

section \<open>The proleptic Gregorian calendar\<close>

definition is_leap :: "int \<Rightarrow> bool" where
  "is_leap y = (y mod 4 = 0 \<and> (y mod 100 \<noteq> 0 \<or> y mod 400 = 0))"

definition days_before_year :: "int \<Rightarrow> int" where
  "days_before_year y = (y - 1) * 365 + (y - 1) div 4 - (y - 1) div 100 + (y - 1) div 400"

definition month_starts :: "int list" where
  "month_starts = [0, 0, 31, 59, 90, 120, 151, 181, 212, 243, 273, 304, 334]"

definition month_days :: "int list" where
  "month_days = [0, 31, 28, 31, 30, 31, 30, 31, 31, 30, 31, 30, 31]"

definition days_before_month :: "bool \<Rightarrow> int \<Rightarrow> int" where
  "days_before_month leap m = month_starts ! nat m + (if m > 2 \<and> leap then 1 else 0)"

definition ymd_to_ord :: "int \<Rightarrow> int \<Rightarrow> int \<Rightarrow> int" where
  "ymd_to_ord y m d = days_before_year y + days_before_month (is_leap y) m + d"

text \<open>Month and day from the zero-based day of a year: the estimate \<open>(n + 50) >> 5\<close> is corrected by one.\<close>

definition month_of_day :: "bool \<Rightarrow> int \<Rightarrow> int \<times> int" where
  "month_of_day leap n =
     (let m = (n + 50) div 32;
          preceding = days_before_month leap m
      in if preceding > n then
           (m - 1, n - (preceding - (month_days ! nat (m - 1) + (if m - 1 = 2 \<and> leap then 1 else 0))) + 1)
         else (m, n - preceding + 1))"

definition ord_to_ymd :: "int \<Rightarrow> int \<times> int \<times> int" where
  "ord_to_ymd ord =
     (let n = ord - 1;
          n400 = n div 146097; n = n mod 146097;
          n100 = n div 36524; n = n mod 36524;
          n4 = n div 1461; n = n mod 1461;
          n1 = n div 365; n = n mod 365;
          y = n400 * 400 + 1 + n100 * 100 + n4 * 4 + n1
      in if n1 = 4 \<or> n100 = 4 then (y - 1, 12, 31)
         else (y, month_of_day (n1 = 3 \<and> (n4 \<noteq> 24 \<or> n100 = 3)) n))"

definition month_inverse_at :: "bool \<Rightarrow> int \<Rightarrow> bool" where
  "month_inverse_at leap n =
     (case month_of_day leap n of (m, d) \<Rightarrow>
        days_before_month leap m + d = n + 1 \<and> 1 \<le> m \<and> m \<le> 12 \<and> 1 \<le> d \<and> d \<le> 31)"

lemma month_of_day_inverse:
  assumes "0 \<le> n" "n < 365 \<or> leap \<and> n = 365" "month_of_day leap n = (m, d)"
  shows "days_before_month leap m + d = n + 1 \<and> 1 \<le> m \<and> m \<le> 12 \<and> 1 \<le> d \<and> d \<le> 31"
proof -
  have "list_all (month_inverse_at False) [0 .. 364]" "list_all (month_inverse_at True) [0 .. 365]"
    by code_simp+
  then have "month_inverse_at leap n"
    using assms(1,2) by (cases leap) (auto simp only: list_all_iff set_upto atLeastAtMost_iff, auto)
  with assms(3) show ?thesis by (simp only: month_inverse_at_def case_prod_conv)
qed

lemma year_div:
  fixes a b c d :: int
  assumes "0 \<le> b" "b < 4" "0 \<le> c" "c < 25" "0 \<le> d" "d < 4"
  shows "(a * 400 + b * 100 + c * 4 + d) div 4 = a * 100 + b * 25 + c"
    "(a * 400 + b * 100 + c * 4 + d) div 100 = a * 4 + b"
    "(a * 400 + b * 100 + c * 4 + d) div 400 = a"
  using assms by (auto intro!: div_pos_geq int_div_pos_eq)

lemma leap_year_parts:
  fixes a b c d :: int
  assumes "0 \<le> b" "b < 4" "0 \<le> c" "c < 25" "0 \<le> d" "d < 4"
  shows "is_leap (a * 400 + b * 100 + c * 4 + d + 1) = (d = 3 \<and> (c \<noteq> 24 \<or> b = 3))"
proof -
  let ?y = "a * 400 + b * 100 + c * 4 + d + 1"
  have "?y mod 4 = (if d = 3 then 0 else d + 1)"
    using assms by (auto intro!: int_mod_pos_eq [of _ _ "a * 100 + b * 25 + c + (if d = 3 then 1 else 0)"])
  moreover have "?y mod 100 = (if c = 24 \<and> d = 3 then 0 else c * 4 + d + 1)"
    using assms by (auto intro!: int_mod_pos_eq [of _ _ "a * 4 + b + (if c = 24 \<and> d = 3 then 1 else 0)"])
  moreover have "?y mod 400 = (if b = 3 \<and> c = 24 \<and> d = 3 then 0 else b * 100 + c * 4 + d + 1)"
    using assms by (auto intro!: int_mod_pos_eq [of _ _ "a + (if b = 3 \<and> c = 24 \<and> d = 3 then 1 else 0)"])
  ultimately show ?thesis using assms by (auto simp: is_leap_def)
qed

lemma ymd_to_ord_parts:
  fixes a b c e :: int
  assumes "0 \<le> b" "b < 4" "0 \<le> c" "c < 25" "0 \<le> e" "e < 4"
  shows "ymd_to_ord (a * 400 + b * 100 + c * 4 + e + 1) m d =
    a * 146097 + b * 36524 + c * 1461 + e * 365
      + days_before_month (e = 3 \<and> (c \<noteq> 24 \<or> b = 3)) m + d"
  using year_div [OF assms, of a] leap_year_parts [OF assms, of a]
  by (simp add: ymd_to_ord_def days_before_year_def)

theorem ymd_ord_inverse:
  assumes "1 \<le> ord" "ord \<le> 3652059" "ord_to_ymd ord = (y, m, d)"
  shows "ymd_to_ord y m d = ord \<and> 1 \<le> y \<and> y \<le> 9999 \<and> 1 \<le> m \<and> m \<le> 12 \<and> 1 \<le> d \<and> d \<le> 31"
proof -
  define a where "a = (ord - 1) div 146097"
  define n where "n = (ord - 1) mod 146097"
  define b where "b = n div 36524"
  define p where "p = n mod 36524"
  define c where "c = p div 1461"
  define q where "q = p mod 1461"
  define e where "e = q div 365"
  define r where "r = q mod 365"
  note defs = a_def n_def b_def p_def c_def q_def e_def r_def
  have eqs: "ord - 1 = a * 146097 + n" "n = b * 36524 + p" "p = c * 1461 + q" "q = e * 365 + r"
    by (simp_all add: defs)
  have mods: "0 \<le> n" "n < 146097" "0 \<le> p" "p < 36524" "0 \<le> q" "q < 1461" "0 \<le> r" "r < 365"
    by (simp_all add: defs)
  have rng: "0 \<le> a" "a \<le> 24" "0 \<le> b" "b \<le> 4" "0 \<le> c" "c \<le> 24" "0 \<le> e" "e \<le> 4"
    using assms(1,2) mods eqs by linarith+
  have res: "(y, m, d) = (if e = 4 \<or> b = 4 then (a * 400 + 1 + b * 100 + c * 4 + e - 1, 12, 31)
      else (a * 400 + 1 + b * 100 + c * 4 + e, month_of_day (e = 3 \<and> (c \<noteq> 24 \<or> b = 3)) r))"
    using assms(3) [symmetric] unfolding ord_to_ymd_def Let_def
      n_def [symmetric] a_def [symmetric] b_def [symmetric] p_def [symmetric] c_def [symmetric]
      q_def [symmetric] e_def [symmetric] r_def [symmetric] .
  have dec31: "days_before_month True 12 = 335" by code_simp
  consider "b = 4" | "b < 4" "e = 4" | "b < 4" "e < 4" using rng by linarith
  then show ?thesis
  proof cases
    case 1
    with eqs mods have "p = 0" by linarith
    with eqs mods rng have "c = 0" "q = 0" by linarith+
    with eqs mods rng have "e = 0" "r = 0" by linarith+
    with 1 res \<open>c = 0\<close> have y: "y = a * 400 + 3 * 100 + 24 * 4 + 3 + 1" "m = 12" "d = 31" by auto
    have "ymd_to_ord y m d = a * 146097 + 146096 + 1"
      unfolding y using ymd_to_ord_parts [of 3 24 3 a 12 31] dec31 by simp
    with y rng eqs 1 \<open>p = 0\<close> assms(2) show ?thesis by auto
  next
    case 2
    with eqs mods have r: "r = 0" "q = 1460" by linarith+
    with eqs mods have c: "c < 24" by linarith
    from 2 res have y: "y = a * 400 + b * 100 + c * 4 + 3 + 1" "m = 12" "d = 31" by auto
    have "ymd_to_ord y m d = a * 146097 + b * 36524 + c * 1461 + 1461"
      unfolding y using ymd_to_ord_parts [of b c 3 a 12 31] dec31 rng 2 c by simp
    with y rng eqs r 2 c assms(2) show ?thesis by auto
  next
    case 3
    then have y: "y = a * 400 + b * 100 + c * 4 + e + 1" and
      md: "month_of_day (e = 3 \<and> (c \<noteq> 24 \<or> b = 3)) r = (m, d)" using res by auto
    from month_of_day_inverse [OF mods(7) _ md] mods(8)
    have "days_before_month (e = 3 \<and> (c \<noteq> 24 \<or> b = 3)) m + d = r + 1" "1 \<le> m" "m \<le> 12" "1 \<le> d" "d \<le> 31"
      by auto
    moreover have "a * 400 + b * 100 + c * 4 + e + 1 \<le> 9999"
    proof (rule ccontr)
      assume "\<not> ?thesis"
      with rng 3 have "a = 24" "b = 3" "c = 24" "e = 3" by linarith+
      with eqs mods assms(2) show False by linarith
    qed
    ultimately show ?thesis unfolding y using eqs rng 3 ymd_to_ord_parts [of b c e a m d] by simp
  qed
qed

section \<open>ISO 8601 text\<close>

definition pad :: "nat \<Rightarrow> int \<Rightarrow> string" where
  "pad w n = replicate (w - length (digits_str n)) (CHR ''0'') @ digits_str n"

definition iso_date :: "int \<times> int \<times> int \<Rightarrow> string" where
  "iso_date ymd = (case ymd of (y, m, d) \<Rightarrow> pad 4 y @ ''-'' @ pad 2 m @ ''-'' @ pad 2 d)"

definition iso_time :: "int \<Rightarrow> string" where
  "iso_time us =
     pad 2 (us div 3600000000) @ '':'' @ pad 2 (us div 60000000 mod 60) @ '':''
     @ pad 2 (us div 1000000 mod 60) @ ''.'' @ pad 6 (us mod 1000000)"

text \<open>\<open>isoformat(timespec="microseconds").replace("+00:00", "Z")\<close> of the UTC value.\<close>

definition iso_instant :: "instant \<Rightarrow> string" where
  "iso_instant t =
     iso_date (ord_to_ymd (t div microsecond_day + 1)) @ ''T'' @ iso_time (t mod microsecond_day) @ ''Z''"

lemma digits_str_length: "0 \<le> n \<Longrightarrow> n < 10 ^ Suc w \<Longrightarrow> length (digits_str n) \<le> Suc w"
proof (induction w arbitrary: n)
  case 0
  then show ?case by (subst digits_str.simps) simp
next
  case (Suc w)
  then have "length (digits_str (n div 10)) \<le> Suc w" by (intro Suc.IH) auto
  then show ?case by (subst digits_str.simps) simp
qed

lemma pad_length: "0 \<le> n \<Longrightarrow> n < 10 ^ Suc w \<Longrightarrow> length (pad (Suc w) n) = Suc w"
  using digits_str_length [of n w] by (simp add: pad_def)

lemma digits_val_zeros: "digits_val (replicate k (CHR ''0'') @ s) = digits_val s"
  by (induction k) (simp_all add: digits_val_def digit_val_def)

lemma digits_val_pad: "0 \<le> n \<Longrightarrow> digits_val (pad w n) = n"
  by (simp add: pad_def digits_val_zeros digits_val_str)

lemma pad_prefix:
  assumes "pad (Suc w) n @ r = pad (Suc w) n' @ r'"
    and "0 \<le> n" "n < 10 ^ Suc w" "0 \<le> n'" "n' < 10 ^ Suc w"
  shows "n = n' \<and> r = r'"
proof -
  have "pad (Suc w) n = pad (Suc w) n' \<and> r = r'"
    using assms pad_length by (metis append_eq_append_conv)
  with assms digits_val_pad show ?thesis by metis
qed

lemma pad2_prefix:
  "pad 2 n @ r = pad 2 n' @ r' \<Longrightarrow> 0 \<le> n \<Longrightarrow> n < 100 \<Longrightarrow> 0 \<le> n' \<Longrightarrow> n' < 100 \<Longrightarrow> n = n' \<and> r = r'"
  using pad_prefix [of 1 n r n' r'] by (simp add: numeral_2_eq_2)

lemma pad4_prefix:
  "pad 4 n @ r = pad 4 n' @ r' \<Longrightarrow> 0 \<le> n \<Longrightarrow> n < 10000 \<Longrightarrow> 0 \<le> n' \<Longrightarrow> n' < 10000 \<Longrightarrow> n = n' \<and> r = r'"
  using pad_prefix [of 3 n r n' r'] by (simp add: eval_nat_numeral)

lemma pad6_prefix:
  "pad 6 n @ r = pad 6 n' @ r' \<Longrightarrow> 0 \<le> n \<Longrightarrow> n < 1000000 \<Longrightarrow> 0 \<le> n' \<Longrightarrow> n' < 1000000 \<Longrightarrow> n = n' \<and> r = r'"
  using pad_prefix [of 5 n r n' r'] by (simp add: eval_nat_numeral)

lemma iso_time_prefix:
  assumes "iso_time u @ r = iso_time v @ r'"
    and "0 \<le> u" "u < microsecond_day" "0 \<le> v" "v < microsecond_day"
  shows "u = v \<and> r = r'"
proof -
  have h: "0 \<le> x div 3600000000" "x div 3600000000 < 100" if "0 \<le> x" "x < microsecond_day" for x :: int
    using that by (simp_all add: microsecond_day_def pos_imp_zdiv_nonneg_iff)
  note hs = h [OF assms(2,3)] h [OF assms(4,5)]
  have m: "0 \<le> (x :: int) mod 60" "x mod 60 < 100" for x
    using pos_mod_bound [of 60 x] by simp_all
  note eq1 = assms(1) [unfolded iso_time_def append_assoc]
  note e1 = pad2_prefix [OF eq1 hs]
  from e1 have "pad 2 (u div 60000000 mod 60) @ '':'' @ pad 2 (u div 1000000 mod 60) @ ''.'' @ pad 6 (u mod 1000000) @ r
      = pad 2 (v div 60000000 mod 60) @ '':'' @ pad 2 (v div 1000000 mod 60) @ ''.'' @ pad 6 (v mod 1000000) @ r'"
    by simp
  note e2 = pad2_prefix [OF this m m]
  from e2 have "pad 2 (u div 1000000 mod 60) @ ''.'' @ pad 6 (u mod 1000000) @ r
      = pad 2 (v div 1000000 mod 60) @ ''.'' @ pad 6 (v mod 1000000) @ r'" by simp
  note e3 = pad2_prefix [OF this m m]
  from e3 have "pad 6 (u mod 1000000) @ r = pad 6 (v mod 1000000) @ r'" by simp
  from pad6_prefix [OF this] have e4: "u mod 1000000 = v mod 1000000" "r = r'" by simp_all
  have parts: "x = x div 3600000000 * 3600000000 + x div 60000000 mod 60 * 60000000
      + x div 1000000 mod 60 * 1000000 + x mod 1000000" for x :: int
  proof -
    have "x div 1000000 div 60 = x div 60000000" "x div 60000000 div 60 = x div 3600000000"
      by (simp_all add: div_mult2_eq [symmetric] zdiv_zmult2_eq [symmetric])
    then show ?thesis
      using div_mult_mod_eq [of x 1000000] div_mult_mod_eq [of "x div 1000000" 60]
        div_mult_mod_eq [of "x div 60000000" 60] by linarith
  qed
  have "u = v"
    using parts [of u] parts [of v]
    unfolding e1 [THEN conjunct1] e2 [THEN conjunct1] e3 [THEN conjunct1] e4(1) by (rule trans [OF _ sym])
  with e4(2) show ?thesis by simp
qed

lemma iso_date_prefix:
  assumes "iso_date (ord_to_ymd a) @ r = iso_date (ord_to_ymd b) @ r'"
    and "1 \<le> a" "a \<le> 3652059" "1 \<le> b" "b \<le> 3652059"
  shows "a = b \<and> r = r'"
proof -
  obtain y m d where x: "ord_to_ymd a = (y, m, d)" by (cases "ord_to_ymd a") auto
  obtain y' m' d' where x': "ord_to_ymd b = (y', m', d')" by (cases "ord_to_ymd b") auto
  note inv = ymd_ord_inverse [OF assms(2,3) x] ymd_ord_inverse [OF assms(4,5) x']
  from assms(1) have "pad 4 y @ ''-'' @ pad 2 m @ ''-'' @ pad 2 d @ r
      = pad 4 y' @ ''-'' @ pad 2 m' @ ''-'' @ pad 2 d' @ r'"
    by (simp add: x x' iso_date_def)
  with inv have e1: "y = y'" "pad 2 m @ ''-'' @ pad 2 d @ r = pad 2 m' @ ''-'' @ pad 2 d' @ r'"
    by (auto dest!: pad4_prefix)
  with inv have e2: "m = m'" "pad 2 d @ r = pad 2 d' @ r'" by (auto dest!: pad2_prefix)
  with inv have e3: "d = d'" "r = r'" by (auto dest!: pad2_prefix)
  with e1 e2 inv show ?thesis by metis
qed

theorem iso_instant_inj:
  assumes "iso_instant s = iso_instant t" "instant_ok s" "instant_ok t"
  shows "s = t"
proof -
  have day: "1 \<le> x div microsecond_day + 1" "x div microsecond_day + 1 \<le> 3652059" if "instant_ok x" for x
    using that by (auto simp: instant_ok_def microsecond_day_def)
  have us: "0 \<le> x mod microsecond_day" "x mod microsecond_day < microsecond_day" for x
    by (simp_all add: microsecond_day_def)
  from iso_date_prefix [OF assms(1) [unfolded iso_instant_def] day(1,2) [OF assms(2)] day(1,2) [OF assms(3)]]
  have "s div microsecond_day = t div microsecond_day"
    "iso_time (s mod microsecond_day) @ ''Z'' = iso_time (t mod microsecond_day) @ ''Z''" by simp_all
  with iso_time_prefix [OF _ us us] have "s mod microsecond_day = t mod microsecond_day" by blast
  with \<open>s div microsecond_day = t div microsecond_day\<close> show ?thesis by (metis div_mult_mod_eq)
qed

end
