(* ===== verification/Decimal_Text.thy ===== *)
theory Decimal_Text
  imports Decimal_Context Calendar
begin

text \<open>
  Decimals as text: \<open>Decimal (str)\<close>, \<open>format (value, "f")\<close> and the canonical form of
  \<open>canonical.py\<close>, one text for each number. The lemmas show that reading the canonical text
  gives the number back and that two bounded decimals share their text exactly when they
  are equal as numbers.
\<close>

section \<open>Reading\<close>

definition read_sign :: "string \<Rightarrow> int \<times> string" where
  "read_sign s =
     (case s of
        [] \<Rightarrow> (1, [])
      | c # r \<Rightarrow> if c = CHR ''-'' then (- 1, r) else if c = CHR ''+'' then (1, r) else (1, s))"

definition exponent_mark :: "char \<Rightarrow> bool" where
  "exponent_mark c = (c = CHR ''e'' \<or> c = CHR ''E'')"

definition read_exponent :: "string \<Rightarrow> int option" where
  "read_exponent s =
     (case s of
        [] \<Rightarrow> Some 0
      | _ # x \<Rightarrow>
          (case read_sign x of (g, ds) \<Rightarrow>
             if ds \<noteq> [] \<and> list_all is_digit ds then Some (g * digits_val ds) else None))"

text \<open>
  \<open>Decimal (str)\<close> on a trimmed text: underscores are ignored, a sign and an exponent are
  optional, and at least one digit is needed. \<open>None\<close> stands for a malformed text and for the
  special values, which every caller rejects with the same exception.
\<close>

definition parse_decimal :: "string \<Rightarrow> decimal option" where
  "parse_decimal s =
     (case read_sign (filter (\<lambda>c. c \<noteq> CHR ''_'') s) of (g, r) \<Rightarrow>
        let mant = takeWhile (\<lambda>c. \<not> exponent_mark c) r;
            tail = dropWhile (\<lambda>c. \<not> exponent_mark c) r;
            ip = takeWhile (\<lambda>c. c \<noteq> CHR ''.'') mant;
            fp = tl (dropWhile (\<lambda>c. c \<noteq> CHR ''.'') mant)
        in case read_exponent tail of
             None \<Rightarrow> None
           | Some e \<Rightarrow>
               if ip @ fp \<noteq> [] \<and> list_all is_digit (ip @ fp)
               then Some (Dec (g * digits_val (ip @ fp)) (e - int (length fp)))
               else None)"

section \<open>Printing\<close>

text \<open>\<open>format (value, "f")\<close>: the coefficient's digits with the point placed by the exponent.\<close>

definition place_point :: "nat \<Rightarrow> string \<Rightarrow> string" where
  "place_point k ds =
     (let full = replicate (Suc k - length ds) (CHR ''0'') @ ds; i = length full - k
      in take i full @ [CHR ''.''] @ drop i full)"

definition format_f :: "decimal \<Rightarrow> string" where
  "format_f d =
     (let ds = digits_str \<bar>coeff d\<bar>;
          body = (if 0 \<le> expo d then ds @ replicate (nat (expo d)) (CHR ''0'')
                  else place_point (nat (- expo d)) ds)
      in if coeff d < 0 then CHR ''-'' # body else body)"

definition rstrip_char :: "char \<Rightarrow> string \<Rightarrow> string" where
  "rstrip_char c s = rev (dropWhile (\<lambda>x. x = c) (rev s))"

definition trim_fraction :: "string \<Rightarrow> string" where
  "trim_fraction s =
     (if CHR ''.'' \<in> set s then rstrip_char (CHR ''.'') (rstrip_char (CHR ''0'') s) else s)"

section \<open>Equal numbers print equally\<close>

lemma digits_str_times_ten: "0 < n \<Longrightarrow> digits_str (10 * n) = digits_str n @ ''0''"
  by (subst digits_str.simps) (simp add: digit_char_def char_of_def bit_iff_odd)

lemma rstrip_char_snoc [simp]: "rstrip_char c (s @ [c]) = rstrip_char c s"
  by (simp add: rstrip_char_def)

lemma rstrip_char_stop [simp]: "x \<noteq> c \<Longrightarrow> rstrip_char c (s @ [x]) = s @ [x]"
  by (simp add: rstrip_char_def)

lemma rstrip_char_Nil [simp]: "rstrip_char c [] = []"
  by (simp add: rstrip_char_def)

lemma no_point_digits: "CHR ''.'' \<notin> set (digits_str n)"
  using digits_str_digits [of n] by (auto simp: list_all_iff is_digit_def)

lemma is_digit_zero [simp]: "is_digit (CHR ''0'')"
  by (simp add: is_digit_def)

lemma list_all_replicate: "P x \<Longrightarrow> list_all P (replicate k x)"
  by (induction k) simp_all

lemma no_point_zeros [simp]: "CHR ''.'' \<notin> set (replicate k (CHR ''0''))"
  by simp

lemma rstrip_digits: "rstrip_char (CHR ''.'') (digits_str n) = digits_str n"
  using no_point_digits [of n]
  by (cases "digits_str n" rule: rev_cases) (auto simp: rstrip_char_def)

lemma place_point_snoc: "place_point (Suc k) (ds @ [x]) = place_point k ds @ [x]"
  by (simp add: place_point_def Let_def Suc_diff_le)

text \<open>Moving one decimal place, the step from one representation of a number to the next.\<close>

lemma trim_fraction_shift:
  assumes "c \<noteq> 0"
  shows "trim_fraction (format_f (Dec (10 * c) (e - 1))) = trim_fraction (format_f (Dec c e))"
proof -
  have ds: "digits_str \<bar>10 * c\<bar> = digits_str \<bar>c\<bar> @ ''0''"
    using assms digits_str_times_ten [of "\<bar>c\<bar>"] by (simp add: abs_mult)
  have point: "CHR ''.'' \<notin> set (digits_str \<bar>c\<bar>)" by (rule no_point_digits)
  have sign: "rstrip_char x (y # s) = y # rstrip_char x s" if "x \<noteq> y" for x y s
    using that by (simp add: rstrip_char_def dropWhile_append)
  have one: "Suc 0 \<le> length (digits_str n)" "Suc 0 \<le> length (digits_str n) + length (digits_str n)" for n
    by (cases "digits_str n"; auto dest: arg_cong [of _ _ length])+
  have point_zero: "rstrip_char (CHR ''.'') (rstrip_char (CHR ''0'') (s @ ''.0'')) = rstrip_char (CHR ''.'') s" for s
    using rstrip_char_snoc [of "CHR ''0''" "s @ ''.''"] by simp
  consider "1 \<le> e" | "e = 0" | "e < 0" by linarith
  then show ?thesis
  proof cases
    case 1
    then have "nat e = Suc (nat (e - 1))" by simp
    with 1 show ?thesis
      by (simp add: format_f_def ds replicate_app_Cons_same flip: replicate_Suc)
  next
    case 2
    then show ?thesis
      using point rstrip_digits [of "\<bar>c\<bar>"] one point_zero
      by (auto simp: format_f_def ds trim_fraction_def sign Let_def place_point_def)
  next
    case 3
    then have "nat (- (e - 1)) = Suc (nat (- e))" by simp
    with 3 have "format_f (Dec (10 * c) (e - 1)) = format_f (Dec c e) @ ''0''"
      by (simp add: format_f_def ds place_point_snoc mult_less_0_iff Let_def)
    moreover have "CHR ''.'' \<in> set (format_f (Dec c e))"
      using 3 by (simp add: format_f_def place_point_def Let_def)
    ultimately show ?thesis by (simp add: trim_fraction_def)
  qed
qed

text \<open>The canonical text, after the bounds check of its caller.\<close>

definition canonical_text :: "decimal \<Rightarrow> string" where
  "canonical_text d = (if coeff d = 0 then ''0'' else trim_fraction (format_f d))"

lemma canonical_text_rescale:
  "canonical_text (Dec (c * 10 ^ k) (e - int k)) = canonical_text (Dec c e)"
proof (induction k)
  case (Suc k)
  have "e - int (Suc k) = e - int k - 1" by simp
  with Suc show ?case
    using trim_fraction_shift [of "c * 10 ^ k" "e - int k"]
    by (auto simp: canonical_text_def mult.left_commute diff_diff_eq add.commute)
qed simp

theorem canonical_text_cong: "dval a = dval b \<Longrightarrow> canonical_text a = canonical_text b"
proof -
  assume eq: "dval a = dval b"
  let ?e = "min (expo a) (expo b)"
  have rescale: "canonical_text (Dec (scale_to ?e d) ?e) = canonical_text d" if "?e \<le> expo d" for d
    using canonical_text_rescale [of "coeff d" "nat (expo d - ?e)" "expo d"] that
    by (simp add: scale_to_def)
  from eq have "scale_to ?e a = scale_to ?e b"
    by (simp add: dval_scale_to [of ?e a] dval_scale_to [of ?e b])
  with rescale [of a] rescale [of b] show ?thesis by simp
qed

section \<open>The text reads back as the number\<close>

text \<open>The value of a fixed-point text.\<close>

definition fixed_val :: "string \<Rightarrow> rat" where
  "fixed_val s =
     (let ip = takeWhile (\<lambda>c. c \<noteq> CHR ''.'') s; fp = tl (dropWhile (\<lambda>c. c \<noteq> CHR ''.'') s)
      in of_int (digits_val (ip @ fp)) / 10 ^ length fp)"

definition frac_len :: "string \<Rightarrow> nat" where
  "frac_len s = length (tl (dropWhile (\<lambda>c. c \<noteq> CHR ''.'') s))"

definition fixed_shape :: "string \<Rightarrow> bool" where
  "fixed_shape s =
     (let ip = takeWhile (\<lambda>c. c \<noteq> CHR ''.'') s; fp = tl (dropWhile (\<lambda>c. c \<noteq> CHR ''.'') s)
      in ip \<noteq> [] \<and> list_all is_digit (ip @ fp))"

lemma point_split:
  "CHR ''.'' \<notin> set a \<Longrightarrow> takeWhile (\<lambda>c. c \<noteq> CHR ''.'') (a @ CHR ''.'' # b) = a"
  "CHR ''.'' \<notin> set a \<Longrightarrow> dropWhile (\<lambda>c. c \<noteq> CHR ''.'') (a @ CHR ''.'' # b) = CHR ''.'' # b"
  "CHR ''.'' \<notin> set a \<Longrightarrow> takeWhile (\<lambda>c. c \<noteq> CHR ''.'') a = a"
  "CHR ''.'' \<notin> set a \<Longrightarrow> dropWhile (\<lambda>c. c \<noteq> CHR ''.'') a = []"
  by (induction a) auto

lemma digits_val_append: "digits_val (a @ b) = digits_val a * 10 ^ length b + digits_val b"
proof (induction b rule: rev_induct)
  case Nil
  show ?case by (simp add: digits_val_def)
next
  case (snoc c b)
  have "digits_val ((a @ b) @ [c]) = 10 * digits_val (a @ b) + digit_val c" by (rule digits_val_snoc)
  with snoc show ?case by (simp add: digits_val_snoc algebra_simps)
qed

lemma digits_val_zeros_right: "digits_val (s @ replicate k (CHR ''0'')) = digits_val s * 10 ^ k"
proof -
  have "digits_val (replicate k (CHR ''0'')) = 0"
    using digits_val_zeros [of k "[]"] by (simp add: digits_val_def)
  then show ?thesis by (simp add: digits_val_append)
qed

lemma fixed_val_point:
  "CHR ''.'' \<notin> set a \<Longrightarrow> fixed_val (a @ CHR ''.'' # b) = of_int (digits_val (a @ b)) / 10 ^ length b"
  "CHR ''.'' \<notin> set a \<Longrightarrow> fixed_val a = of_int (digits_val a)"
  by (simp_all add: fixed_val_def point_split)

lemma fixed_shape_point:
  "CHR ''.'' \<notin> set a \<Longrightarrow> fixed_shape (a @ CHR ''.'' # b) = (a \<noteq> [] \<and> list_all is_digit (a @ b))"
  "CHR ''.'' \<notin> set a \<Longrightarrow> fixed_shape a = (a \<noteq> [] \<and> list_all is_digit a)"
  by (simp_all add: fixed_shape_def point_split)

lemma frac_len_point:
  "CHR ''.'' \<notin> set a \<Longrightarrow> frac_len (a @ CHR ''.'' # b) = length b"
  "CHR ''.'' \<notin> set a \<Longrightarrow> frac_len a = 0"
  by (simp_all add: frac_len_def point_split)

lemma rstrip_zeros: "\<exists>k. s = rstrip_char c s @ replicate k c"
proof (induction s rule: rev_induct)
  case (snoc x s)
  then obtain k where k: "s = rstrip_char c s @ replicate k c" by blast
  show ?case
  proof (cases "x = c")
    case True
    have "s @ [x] = rstrip_char c s @ replicate (Suc k) c"
      using k True by (metis append.assoc replicate_append_same replicate_Suc)
    with True show ?thesis by (metis rstrip_char_snoc)
  next
    case False
    then show ?thesis by (metis append_Nil2 replicate_0 rstrip_char_stop)
  qed
qed simp

lemma trim_fraction_fixed:
  assumes "CHR ''.'' \<notin> set a" "a \<noteq> []" "list_all is_digit (a @ b)"
  defines "s \<equiv> trim_fraction (a @ CHR ''.'' # b)"
  shows "fixed_shape s \<and> fixed_val s = fixed_val (a @ CHR ''.'' # b) \<and> frac_len s \<le> length b"
proof -
  obtain k where b: "b = rstrip_char (CHR ''0'') b @ replicate k (CHR ''0'')"
    using rstrip_zeros by blast
  define z where "z = rstrip_char (CHR ''0'') b"
  have strip: "rstrip_char (CHR ''0'') (a @ CHR ''.'' # b) = a @ CHR ''.'' # z"
    by (simp add: rstrip_char_def z_def dropWhile_append)
  have z: "CHR ''.'' \<notin> set z" "list_all is_digit z"
  proof -
    have "set z \<subseteq> set b" using b z_def by (metis set_append sup_ge1)
    with assms(3) show "list_all is_digit z" by (auto simp: list_all_iff)
    then show "CHR ''.'' \<notin> set z" by (auto simp: list_all_iff is_digit_def)
  qed
  have val: "fixed_val (a @ CHR ''.'' # b) = fixed_val (a @ CHR ''.'' # z)"
  proof -
    have "digits_val (a @ b) = digits_val (a @ z) * 10 ^ k"
      using b digits_val_zeros_right [of "a @ z" k] by (simp add: z_def)
    moreover have "length b = length z + k" using b z_def by (metis length_append length_replicate)
    ultimately show ?thesis
      using assms(1) by (simp add: fixed_val_point power_add)
  qed
  have adig: "rstrip_char (CHR ''.'') a = a"
    using assms(1) by (cases a rule: rev_cases) (auto simp: rstrip_char_def)
  show ?thesis
  proof (cases "z = []")
    case True
    then have "s = a"
      using strip adig by (simp add: s_def trim_fraction_def)
    with True val assms show ?thesis by (simp add: fixed_val_point fixed_shape_point frac_len_point)
  next
    case False
    then obtain z' x where "z = z' @ [x]" by (cases z rule: rev_cases) auto
    with z have "rstrip_char (CHR ''.'') (a @ CHR ''.'' # z) = a @ CHR ''.'' # z"
      by (auto simp: rstrip_char_def)
    then have "s = a @ CHR ''.'' # z" using strip by (simp add: s_def trim_fraction_def)
    moreover have "length z \<le> length b" using b z_def by (metis le_add1 length_append)
    ultimately show ?thesis using val assms(1,2,3) z by (simp add: fixed_shape_point frac_len_point)
  qed
qed

text \<open>Reading a fixed-point text is \<open>fixed_val\<close>; a minus sign negates it.\<close>

lemma parse_plain:
  assumes "fixed_shape s"
  shows "\<exists>d. parse_decimal s = Some d \<and> dval d = fixed_val s \<and> expo d = - int (frac_len s)"
    and "\<exists>d. parse_decimal (CHR ''-'' # s) = Some d \<and> dval d = - fixed_val s \<and> expo d = - int (frac_len s)"
proof -
  define ip where "ip = takeWhile (\<lambda>c. c \<noteq> CHR ''.'') s"
  define fp where "fp = tl (dropWhile (\<lambda>c. c \<noteq> CHR ''.'') s)"
  from assms have shape: "ip \<noteq> []" "list_all is_digit (ip @ fp)"
    by (simp_all add: fixed_shape_def ip_def fp_def Let_def)
  have chars: "is_digit c \<or> c = CHR ''.''" if "c \<in> set s" for c
  proof -
    have "s = ip @ dropWhile (\<lambda>c. c \<noteq> CHR ''.'') s" by (simp add: ip_def)
    moreover have "dropWhile (\<lambda>c. c \<noteq> CHR ''.'') s = [] \<or>
        dropWhile (\<lambda>c. c \<noteq> CHR ''.'') s = CHR ''.'' # fp"
      by (cases "dropWhile (\<lambda>c. c \<noteq> CHR ''.'') s") (auto simp: fp_def dest: dropWhile_eq_Cons_conv [THEN iffD1])
    ultimately have "c \<in> set ip \<or> c = CHR ''.'' \<or> c \<in> set fp"
      using that by (metis Un_iff empty_iff empty_set insert_iff list.simps(15) set_append)
    with shape(2) show ?thesis by (auto simp: list_all_iff)
  qed
  have special: "\<not> is_digit (CHR ''_'')" "\<not> is_digit (CHR ''e'')" "\<not> is_digit (CHR ''E'')"
    "\<not> is_digit (CHR ''-'')" "\<not> is_digit (CHR ''+'')" by (simp_all add: is_digit_def)
  have filt: "filter (\<lambda>c. c \<noteq> CHR ''_'') s = s"
    using chars special by (intro filter_True) auto
  have span: "takeWhile (\<lambda>c. \<not> exponent_mark c) s = s" "dropWhile (\<lambda>c. \<not> exponent_mark c) s = []"
    using chars special by (auto simp: exponent_mark_def)
  from shape have "s \<noteq> []" "is_digit (hd s)" unfolding ip_def
    by (cases s; auto split: if_splits)+
  with special have sign: "read_sign s = (1, s)"
    by (cases s) (auto simp: read_sign_def)
  have dv: "dval (Dec (g * digits_val (ip @ fp)) (- int (length fp))) = of_int g * fixed_val s" for g
    by (simp add: dval_def fixed_val_def ip_def fp_def Let_def power_int_minus power_int_of_nat divide_inverse)
  have len: "frac_len s = length fp" by (simp add: frac_len_def fp_def)
  show "\<exists>d. parse_decimal s = Some d \<and> dval d = fixed_val s \<and> expo d = - int (frac_len s)"
    using shape dv [of 1]
    by (simp add: len parse_decimal_def filt sign span read_exponent_def Let_def ip_def [symmetric] fp_def [symmetric])
  show "\<exists>d. parse_decimal (CHR ''-'' # s) = Some d \<and> dval d = - fixed_val s \<and> expo d = - int (frac_len s)"
    using shape dv [of "- 1"]
    by (simp add: len parse_decimal_def filt read_sign_def span read_exponent_def Let_def ip_def [symmetric] fp_def [symmetric])
qed

lemma place_point_fixed:
  assumes "0 \<le> n"
  shows "\<exists>a b. place_point k (digits_str n) = a @ CHR ''.'' # b \<and> CHR ''.'' \<notin> set a \<and> a \<noteq> []
    \<and> list_all is_digit (a @ b) \<and> length b = k \<and> digits_val (a @ b) = n"
proof -
  define full where "full = replicate (Suc k - length (digits_str n)) (CHR ''0'') @ digits_str n"
  have len: "k < length full" by (simp add: full_def)
  have digits: "list_all is_digit full"
    using digits_str_digits [of n] by (simp add: full_def list_all_replicate)
  then have "list_all is_digit (take (length full - k) full)"
    by (auto simp: list_all_iff dest: in_set_takeD)
  then have point: "CHR ''.'' \<notin> set (take (length full - k) full)"
    by (auto simp: list_all_iff is_digit_def)
  have "digits_val full = n"
    using assms by (simp add: full_def digits_val_zeros digits_val_str)
  with len point digits show ?thesis
    by (intro exI [of _ "take (length full - k) full"] exI [of _ "drop (length full - k) full"])
      (auto simp: place_point_def full_def [symmetric] Let_def)
qed

definition magnitude_text :: "decimal \<Rightarrow> string" where
  "magnitude_text d =
     (if 0 \<le> expo d then digits_str \<bar>coeff d\<bar> @ replicate (nat (expo d)) (CHR ''0'')
      else trim_fraction (place_point (nat (- expo d)) (digits_str \<bar>coeff d\<bar>)))"

lemma magnitude_text_fixed:
  "fixed_shape (magnitude_text d) \<and> fixed_val (magnitude_text d) = \<bar>dval d\<bar>
    \<and> frac_len (magnitude_text d) \<le> nat (- expo d)"
proof (cases "0 \<le> expo d")
  case True
  let ?s = "digits_str \<bar>coeff d\<bar> @ replicate (nat (expo d)) (CHR ''0'')"
  have point: "CHR ''.'' \<notin> set ?s" using no_point_digits by simp
  have "list_all is_digit ?s"
    using digits_str_digits [of "\<bar>coeff d\<bar>"] by (simp add: list_all_replicate)
  moreover have "fixed_val ?s = \<bar>dval d\<bar>"
    using True fixed_val_point(2) [OF point]
    by (simp add: digits_val_zeros_right digits_val_str dval_def abs_mult power_int_def)
  ultimately show ?thesis
    using True fixed_shape_point(2) [OF point] frac_len_point(2) [OF point] by (simp add: magnitude_text_def)
next
  case False
  obtain a b where ab: "place_point (nat (- expo d)) (digits_str \<bar>coeff d\<bar>) = a @ CHR ''.'' # b"
      "CHR ''.'' \<notin> set a" "a \<noteq> []" "list_all is_digit (a @ b)"
      "length b = nat (- expo d)" "digits_val (a @ b) = \<bar>coeff d\<bar>"
    using place_point_fixed [of "\<bar>coeff d\<bar>" "nat (- expo d)"] by auto
  have "fixed_val (a @ CHR ''.'' # b) = \<bar>dval d\<bar>"
  proof -
    have "(10 :: rat) powi expo d = 1 / 10 ^ nat (- expo d)"
      using False by (simp add: power_int_def field_simps)
    then show ?thesis by (simp add: fixed_val_point ab(2,5,6) dval_def abs_mult)
  qed
  with trim_fraction_fixed [OF ab(2-4)] False ab(1,5) show ?thesis by (simp add: magnitude_text_def)
qed

lemma canonical_text_magnitude:
  "coeff d \<noteq> 0 \<Longrightarrow> canonical_text d = (if coeff d < 0 then CHR ''-'' # magnitude_text d else magnitude_text d)"
proof -
  assume "coeff d \<noteq> 0"
  have point: "CHR ''.'' \<in> set (place_point k ds)" for k ds
    by (simp add: place_point_def Let_def)
  have cons: "rstrip_char x (y # s) = y # rstrip_char x s" if "x \<noteq> y" for x y s
    using that by (simp add: rstrip_char_def dropWhile_append)
  from \<open>coeff d \<noteq> 0\<close> show ?thesis
    by (simp add: canonical_text_def format_f_def magnitude_text_def Let_def trim_fraction_def cons point
        no_point_digits)
qed

theorem parse_canonical_text:
  "\<exists>r. parse_decimal (canonical_text d) = Some r \<and> dval r = dval d \<and> min 0 (expo d) \<le> expo r \<and> expo r \<le> 0"
proof (cases "coeff d = 0")
  case True
  moreover have "parse_decimal ''0'' = Some (Dec 0 0)" by code_simp
  ultimately show ?thesis by (simp add: canonical_text_def dval_def)
next
  case False
  have sign: "dval d < 0 \<longleftrightarrow> coeff d < 0"
    using dval_pos_iff [of "exact_neg d"] by (simp add: exact_neg_def dval_def)
  have shape: "fixed_shape (magnitude_text d)" using magnitude_text_fixed by blast
  obtain r where r: "parse_decimal (canonical_text d) = Some r" "dval r = dval d"
      "expo r = - int (frac_len (magnitude_text d))"
    using False parse_plain [OF shape] magnitude_text_fixed [of d] sign
    by (cases "coeff d < 0") (force simp: canonical_text_magnitude)+
  moreover have "frac_len (magnitude_text d) \<le> nat (- expo d)" using magnitude_text_fixed by blast
  ultimately show ?thesis by auto
qed

corollary canonical_text_eq_iff: "canonical_text a = canonical_text b \<longleftrightarrow> dval a = dval b"
  using canonical_text_cong parse_canonical_text by (metis option.inject)

section \<open>Magnitude\<close>

text \<open>The position of the leading digit is a property of the number, not of its representation.\<close>

lemma adjusted_bounds:
  assumes "coeff d \<noteq> 0"
  shows "10 powi adjusted d \<le> \<bar>dval d\<bar>" "\<bar>dval d\<bar> < 10 powi (adjusted d + 1)"
proof -
  let ?n = "ndigits \<bar>coeff d\<bar>"
  have abs: "\<bar>dval d\<bar> = of_int \<bar>coeff d\<bar> * 10 powi expo d" by (simp add: dval_def abs_mult)
  have "10 ^ (?n - 1) \<le> \<bar>coeff d\<bar>" using assms by (intro ndigits_lower) simp
  then have "(of_int (10 ^ (?n - 1)) :: rat) \<le> of_int \<bar>coeff d\<bar>" by (simp only: of_int_le_iff)
  then have "10 ^ (?n - 1) * 10 powi expo d \<le> \<bar>dval d\<bar>" unfolding abs by (intro mult_right_mono) simp_all
  then show "10 powi adjusted d \<le> \<bar>dval d\<bar>"
    using ten_powi_pred [of ?n "expo d"] by (simp add: adjusted_def algebra_simps)
  have "(of_int \<bar>coeff d\<bar> :: rat) < of_int (10 ^ ?n)"
    using ndigits_upper [of "\<bar>coeff d\<bar>"] by (simp only: of_int_less_iff)
  then have "\<bar>dval d\<bar> < 10 ^ ?n * 10 powi expo d"
    unfolding abs by (intro mult_strict_right_mono) simp_all
  then show "\<bar>dval d\<bar> < 10 powi (adjusted d + 1)"
    by (simp add: adjusted_def power_int_add)
qed

lemma adjusted_cong: "dval a = dval b \<Longrightarrow> coeff a \<noteq> 0 \<Longrightarrow> adjusted a = adjusted b"
proof -
  assume eq: "dval a = dval b" and a: "coeff a \<noteq> 0"
  then have b: "coeff b \<noteq> 0" using dval_eq_0_iff by metis
  have "(10::rat) powi adjusted a < 10 powi (adjusted b + 1)"
    "(10::rat) powi adjusted b < 10 powi (adjusted a + 1)"
    using adjusted_bounds [OF a] adjusted_bounds [OF b] eq by linarith+
  moreover have "m < n" if "(10::rat) powi m < 10 powi n" for m n
    using that power_int_increasing [of n m "10::rat"] by (rule_tac ccontr) simp
  ultimately have "adjusted a < adjusted b + 1" "adjusted b < adjusted a + 1" by blast+
  then show ?thesis by simp
qed

end
