(* ===== verification/Canonical.thy ===== *)
theory Canonical
  imports Decimal_Text
begin

text \<open>
  \<open>canonical.py\<close>: bounds on decimals, the canonical text of a decimal, the reduction of a
  Python value to JSON, and domain-separated hashing. The lemmas show that canonicalisation
  loses nothing that the harness compares: equal canonical text means equal numbers, equal
  JSON text means equal reduced values, and equal digests mean equal inputs or an exhibited
  SHA-256 collision.
\<close>

section \<open>Bounded decimals\<close>

definition max_decimal_digits :: nat where "max_decimal_digits = 96"
definition min_decimal_exponent :: int where "min_decimal_exponent = - 96"
definition max_decimal_exponent :: int where "max_decimal_exponent = 48"
definition max_decimal_adjusted_exponent :: int where "max_decimal_adjusted_exponent = 48"

lemmas bound_defs = max_decimal_digits_def min_decimal_exponent_def max_decimal_exponent_def
  max_decimal_adjusted_exponent_def

definition validate_decimal_bounds :: "decimal \<Rightarrow> decimal result" where
  "validate_decimal_bounds d =
     bindE (guard (\<not> max_decimal_digits < ndigits \<bar>coeff d\<bar>) CanonicalizationError) (\<lambda>_.
     bindE (guard (\<not> (expo d < min_decimal_exponent \<or> max_decimal_exponent < expo d)) CanonicalizationError) (\<lambda>_.
     bindE (guard (\<not> (coeff d \<noteq> 0 \<and> max_decimal_adjusted_exponent < adjusted d)) CanonicalizationError) (\<lambda>_.
     Inr d)))"

definition bounded :: "decimal \<Rightarrow> bool" where
  "bounded d = (ndigits \<bar>coeff d\<bar> \<le> max_decimal_digits
     \<and> min_decimal_exponent \<le> expo d \<and> expo d \<le> max_decimal_exponent
     \<and> (coeff d = 0 \<or> adjusted d \<le> max_decimal_adjusted_exponent))"

lemma validate_decimal_bounds_Inr_iff [simp]:
  "validate_decimal_bounds d = Inr r \<longleftrightarrow> bounded d \<and> r = d"
  by (auto simp: validate_decimal_bounds_def bounded_def)

lemma validate_decimal_bounds_eq:
  "validate_decimal_bounds d = (if bounded d then Inr d else Inl CanonicalizationError)"
  by (auto simp: validate_decimal_bounds_def bounded_def guard_def)

definition canonical_decimal :: "decimal \<Rightarrow> string result" where
  "canonical_decimal d =
     bindE (validate_decimal_bounds d) (\<lambda>d.
     if coeff d = 0 then Inr ''0''
     else Inr (let rendered = format_f d in
                 if CHR ''.'' \<in> set rendered
                 then rstrip_char (CHR ''.'') (rstrip_char (CHR ''0'') rendered)
                 else rendered))"

lemma canonical_decimal_Inr_iff:
  "canonical_decimal d = Inr s \<longleftrightarrow> bounded d \<and> s = canonical_text d"
  by (auto simp: canonical_decimal_def canonical_text_def trim_fraction_def Let_def)

lemma bounded_magnitude: "bounded d \<Longrightarrow> \<bar>dval d\<bar> < 10 ^ 49"
proof (cases "coeff d = 0")
  case False
  moreover assume "bounded d"
  ultimately have "\<bar>dval d\<bar> < 10 powi (adjusted d + 1)" "adjusted d + 1 \<le> 49"
    using adjusted_bounds(2) [of d] by (auto simp: bounded_def bound_defs)
  moreover from this have "(10::rat) powi (adjusted d + 1) \<le> 10 powi 49"
    by (intro power_int_increasing) simp_all
  ultimately show ?thesis by (simp add: power_int_def)
qed (simp add: dval_def)

text \<open>The decimal read back from the canonical text of a bounded one is bounded and equal.\<close>

theorem canonical_decimal_roundtrip:
  assumes "canonical_decimal d = Inr s"
  shows "\<exists>r. parse_decimal s = Some r \<and> dval r = dval d \<and> bounded r"
proof -
  from assms have b: "bounded d" and s: "s = canonical_text d" by (auto simp: canonical_decimal_Inr_iff)
  obtain r where r: "parse_decimal s = Some r" "dval r = dval d" "min 0 (expo d) \<le> expo r" "expo r \<le> 0"
    using parse_canonical_text [of d] s by blast
  have "bounded r"
  proof (cases "coeff d = 0")
    case True
    then have "coeff r = 0" using r(2) dval_eq_0_iff by (metis dval_eq_0_iff)
    with r b show ?thesis by (auto simp: bounded_def bound_defs ndigits.simps)
  next
    case False
    then have adj: "adjusted r = adjusted d" using adjusted_cong r(2) by metis
    moreover have "adjusted d \<le> 48" using False b by (auto simp: bounded_def bound_defs)
    moreover have "int (ndigits \<bar>coeff d\<bar>) \<le> 96" using b by (simp add: bounded_def bound_defs)
    ultimately have "int (ndigits \<bar>coeff r\<bar>) \<le> 96"
      using r(3) unfolding adjusted_def by (cases "0 \<le> expo d") (auto simp: min_def)
    with r b adj \<open>adjusted d \<le> 48\<close> show ?thesis by (auto simp: bounded_def bound_defs)
  qed
  with r show ?thesis by blast
qed

theorem canonical_decimal_eq_iff:
  "canonical_decimal a = Inr s \<Longrightarrow> canonical_decimal b = Inr t \<Longrightarrow> s = t \<longleftrightarrow> dval a = dval b"
  by (auto simp: canonical_decimal_Inr_iff canonical_text_eq_iff)

section \<open>Reduction of Python values to JSON\<close>

text \<open>
  The values \<open>canonical_data\<close> is asked to reduce. A dataclass instance is the mapping of its
  field names, an \<open>Enum\<close> member is its value; a mapping is the list of its items in
  insertion order, whose keys are distinct. \<open>PFloat\<close>, \<open>PNaive\<close> (a datetime without offset),
  \<open>PSpecial\<close> (a NaN or an infinity) and \<open>POther\<close> are the values it refuses.
\<close>

datatype pykey = KStr string | KOther

datatype pyval =
    PNone
  | PBool bool
  | PInt int
  | PStr string
  | PDec decimal
  | PSpecial
  | PInstant instant
  | PNaive
  | PDate "int \<times> int \<times> int"
  | PFloat
  | PList "pyval list"
  | PMap "(pykey \<times> pyval) list"
  | PSet "pyval list"
  | POther

fun seqE :: "'a result list \<Rightarrow> 'a list result" where
  "seqE [] = Inr []"
| "seqE (x # xs) = bindE x (\<lambda>y. bindE (seqE xs) (\<lambda>ys. Inr (y # ys)))"

definition key_text :: "pykey \<Rightarrow> string result" where
  "key_text k = (case k of KStr s \<Rightarrow> Inr s | KOther \<Rightarrow> Inl CanonicalizationError)"

fun canonical_data :: "pyval \<Rightarrow> json result" where
  "canonical_data (PMap kvs) =
     bindE (seqE (map (\<lambda>(k, v). bindE (key_text k) (\<lambda>s. bindE (canonical_data v) (\<lambda>j. Inr (s, j)))) kvs))
       (\<lambda>items. Inr (JObj items))"
| "canonical_data (PDec d) = bindE (canonical_decimal d) (\<lambda>s. Inr (JStr s))"
| "canonical_data (PInstant t) = Inr (JStr (iso_instant t))"
| "canonical_data (PDate ymd) = Inr (JStr (iso_date ymd))"
| "canonical_data (PList xs) = bindE (seqE (map canonical_data xs)) (\<lambda>js. Inr (JArr js))"
| "canonical_data (PSet xs) =
     bindE (seqE (map canonical_data xs)) (\<lambda>js. Inr (JArr (sort_key json_dumps js)))"
| "canonical_data PNone = Inr JNull"
| "canonical_data (PBool b) = Inr (JBool b)"
| "canonical_data (PInt i) = Inr (JInt i)"
| "canonical_data (PStr s) = Inr (JStr s)"
| "canonical_data PSpecial = Inl CanonicalizationError"
| "canonical_data PNaive = Inl CanonicalizationError"
| "canonical_data PFloat = Inl CanonicalizationError"
| "canonical_data POther = Inl CanonicalizationError"

definition canonical_json :: "pyval \<Rightarrow> string result" where
  "canonical_json v = bindE (canonical_data v) (\<lambda>j. Inr (json_dumps j))"

definition canonical_bytes :: "pyval \<Rightarrow> 8 word list result" where
  "canonical_bytes v = bindE (canonical_json v) (\<lambda>s. Inr (utf8 s))"

definition domain_hash :: "string \<Rightarrow> pyval \<Rightarrow> string result" where
  "domain_hash domain v =
     bindE (guard (\<not> (domain = [] \<or> CHR 0x00 \<in> set domain)) ValueError) (\<lambda>_.
     bindE (canonical_bytes v) (\<lambda>b.
     Inr (sha256_hex (utf8 domain @ [0] @ b))))"

lemma domain_hash_shaped: "domain_hash domain v = Inr h \<Longrightarrow> sha256_shaped h"
  by (auto simp: domain_hash_def)

section \<open>What a digest binds\<close>

definition hash_material :: "string \<Rightarrow> pyval \<Rightarrow> 8 word list result" where
  "hash_material domain v = bindE (canonical_bytes v) (\<lambda>b. Inr (utf8 domain @ [0] @ b))"

text \<open>Two different messages with one digest.\<close>

definition hash_collision :: "8 word list \<Rightarrow> 8 word list \<Rightarrow> bool" where
  "hash_collision a b = (a \<noteq> b \<and> sha256_hex a = sha256_hex b)"

definition decode_first :: "8 word list \<Rightarrow> char \<times> 8 word list" where
  "decode_first bs =
     (case bs of
        [] \<Rightarrow> (CHR 0x00, [])
      | b # r \<Rightarrow>
          if unat b < 128 then (char_of (unat b), r)
          else (char_of (64 * (unat b - 192) + (unat (hd r) - 128)), tl r))"

lemma unat_byte: "n < 256 \<Longrightarrow> unat (word_of_nat n :: 8 word) = n"
  by (simp add: unat_of_nat take_bit_eq_mod)

lemma decode_first_utf8: "decode_first (utf8 (c # s) @ r) = (c, utf8 s @ r)"
proof -
  let ?n = "of_char c :: nat"
  have n: "?n < 256" by simp
  show ?thesis
  proof (cases "?n < 128")
    case True
    then have u: "utf8 (c # s) = word_of_nat ?n # utf8 s" by (simp add: utf8_def)
    from True show ?thesis unfolding u decode_first_def
      by (simp add: unat_byte)
  next
    case False
    then have u: "utf8 (c # s) = word_of_nat (192 + ?n div 64) # word_of_nat (128 + ?n mod 64) # utf8 s"
      by (simp add: utf8_def Let_def)
    have d: "?n div 64 < 4" using n by (simp add: div_less_iff_less_mult)
    have "unat (word_of_nat (192 + ?n div 64) :: 8 word) = 192 + ?n div 64"
      using d by (intro unat_byte) simp
    moreover have "unat (word_of_nat (128 + ?n mod 64) :: 8 word) = 128 + ?n mod 64"
      by (intro unat_byte) (use mod_less_divisor [of 64 ?n] in simp)
    ultimately show ?thesis unfolding u decode_first_def by simp
  qed
qed

lemma utf8_Nil_iff [simp]: "utf8 s = [] \<longleftrightarrow> s = []"
  by (cases s) (auto simp: utf8_def Let_def)

lemma utf8_inj: "utf8 s = utf8 t \<Longrightarrow> s = t"
proof (induction s arbitrary: t)
  case Nil
  then show ?case by (metis utf8_Nil_iff)
next
  case (Cons c s)
  then obtain d u where t: "t = d # u" by (cases t) (metis list.distinct(1) utf8_Nil_iff)
  with Cons.prems decode_first_utf8 [of c s "[]"] decode_first_utf8 [of d u "[]"] Cons.IH [of u]
  show ?case by simp
qed

lemma utf8_nul_free: "CHR 0x00 \<notin> set s \<Longrightarrow> 0 \<notin> set (utf8 s)"
proof (induction s)
  case (Cons c s)
  let ?n = "of_char c :: nat"
  have n: "?n < 256" by simp
  have pos: "?n \<noteq> 0"
  proof
    assume "?n = 0"
    then have "char_of ?n = CHR 0x00" by (simp only: char_of_def) simp
    then have "c = CHR 0x00" by simp
    with Cons.prems show False by simp
  qed
  have nz: "(word_of_nat k :: 8 word) \<noteq> 0" if "0 < k" "k < 256" for k
    using unat_byte [OF that(2)] that(1) by (metis less_numeral_extra(3) unat_0)
  have "0 \<notin> set (utf8 [c])"
  proof (cases "?n < 128")
    case True
    then show ?thesis using nz [of ?n] pos n by (simp add: utf8_def)
  next
    case False
    have "?n div 64 < 4" using n by (simp add: div_less_iff_less_mult)
    moreover have "?n mod 64 < 64" by simp
    ultimately show ?thesis
      using False nz [of "192 + ?n div 64"] nz [of "128 + ?n mod 64"] by (auto simp: utf8_def Let_def)
  qed
  moreover have "utf8 (c # s) = utf8 [c] @ utf8 s" by (simp add: utf8_def)
  ultimately show ?case using Cons by auto
qed (simp add: utf8_def)

lemma nul_split: "a @ 0 # b = c @ (0 :: 8 word) # d \<Longrightarrow> 0 \<notin> set a \<Longrightarrow> 0 \<notin> set c \<Longrightarrow> a = c \<and> b = d"
proof (induction a arbitrary: c)
  case Nil
  then show ?case by (cases c) auto
next
  case (Cons x a)
  then show ?case by (cases c) auto
qed

text \<open>
  Equal digests bind the domain and the canonical JSON text, unless the two messages are a
  collision of SHA-256.
\<close>

theorem domain_hash_binds:
  assumes "domain_hash d v = Inr h" "domain_hash d' v' = Inr h"
    and "hash_material d v = Inr m" "hash_material d' v' = Inr m'"
  shows "d = d' \<and> canonical_json v = canonical_json v' \<or> hash_collision m m'"
proof (cases "m = m'")
  case True
  from assms obtain j j' where j: "canonical_json v = Inr j" "canonical_json v' = Inr j'"
    and m: "m = utf8 d @ 0 # utf8 j" "m' = utf8 d' @ 0 # utf8 j'"
    by (auto simp: hash_material_def canonical_bytes_def)
  from assms have "CHR 0x00 \<notin> set d" "CHR 0x00 \<notin> set d'" by (auto simp: domain_hash_def)
  with True m have "utf8 d = utf8 d' \<and> utf8 j = utf8 j'"
    by (intro nul_split utf8_nul_free) auto
  with j show ?thesis using utf8_inj by metis
next
  case False
  with assms show ?thesis by (auto simp: domain_hash_def hash_material_def hash_collision_def)
qed

text \<open>The JSON text of a record with fixed field names determines every field.\<close>

lemma map_of_sort_key: "distinct (map fst kvs) \<Longrightarrow> map_of (sort_key fst kvs) = map_of kvs"
  by (intro ext) (metis (no_types, lifting) distinct_map distinct_sort eq_key_imp_eq_value map_of_SomeD
      map_of_eq_None_iff map_of_is_SomeI not_Some_eq set_map set_sort)

lemma record_fields_bound:
  assumes "sort_keys (JObj (zip ks vs)) = sort_keys (JObj (zip ks ws))"
    and "distinct ks" "length vs = length ks" "length ws = length ks"
  shows "map sort_keys vs = map sort_keys ws"
proof -
  have fields: "map (\<lambda>(k, v). (k, sort_keys v)) (zip ks us) = zip ks (map sort_keys us)" for us
    by (induction ks us rule: list_induct2') simp_all
  have look: "map_of (zip ks (map sort_keys us)) (ks ! i) = Some (sort_keys (us ! i))"
    if "length us = length ks" "i < length ks" for us i
    using that assms(2) map_of_zip_nth [of ks "map sort_keys us" i] by simp
  have "map_of (zip ks (map sort_keys vs)) = map_of (zip ks (map sort_keys ws))"
    using assms map_of_sort_key [of "zip ks (map sort_keys vs)"] map_of_sort_key [of "zip ks (map sort_keys ws)"]
    by (simp add: fields)
  with assms(3,4) look show ?thesis
    by (intro nth_equalityI) (simp, metis length_map nth_map option.inject)
qed

end
