(* ===== verification/Domain.thy ===== *)
theory Domain
  imports Canonical
begin

text \<open>
  \<open>domain.py\<close>: intents, authorizations and deployment grants, with the validation their
  constructors perform. A frozen dataclass is a record; \<open>make_intent\<close>, \<open>make_authorization\<close> and
  \<open>make_grant\<close> are the \<open>__post_init__\<close> methods, from the arguments to the normalised object.
  Arguments already have their annotated types; only monetary arguments may also be an int,
  a text or a float (\<open>decimal_input\<close>). The lemmas give the well-formedness each constructor
  establishes, its idempotence, and what the semantic intent hash binds.
\<close>

section \<open>Enumerations\<close>

datatype environment = TESTNET | MAINNET | SHADOW
datatype side = BUY | SELL
datatype order_type = MARKET | LIMIT | STOP | STOP_LIMIT
datatype authorization_model = INFRASTRUCTURE | PER_TICKET_HUMAN | SYSTEMATIC_POLICY
datatype grant_type =
    INFRASTRUCTURE_TESTNET | STRATEGY_TESTNET | MANUAL_MAINNET_CANARY
  | SYSTEMATIC_TESTNET | SYSTEMATIC_SHADOW | SYSTEMATIC_MAINNET_CAPPED
datatype grant_state = GS_PENDING | GS_ACTIVE | GS_SUSPENDED | GS_REVOKED | GS_EXPIRED
datatype authorization_state =
    AS_ISSUED | AS_CONSUMING | AS_CONSUMED | AS_EXPIRED | AS_REVOKED | AS_VOIDED

fun environment_value :: "environment \<Rightarrow> string" where
  "environment_value TESTNET = ''testnet''"
| "environment_value MAINNET = ''mainnet''"
| "environment_value SHADOW = ''shadow''"

fun side_value :: "side \<Rightarrow> string" where
  "side_value BUY = ''buy''"
| "side_value SELL = ''sell''"

fun order_type_value :: "order_type \<Rightarrow> string" where
  "order_type_value MARKET = ''market''"
| "order_type_value LIMIT = ''limit''"
| "order_type_value STOP = ''stop''"
| "order_type_value STOP_LIMIT = ''stop_limit''"

lemma environment_value_inj: "environment_value a = environment_value b \<longleftrightarrow> a = b"
  by (cases a; cases b; simp)

lemma side_value_inj: "side_value a = side_value b \<longleftrightarrow> a = b"
  by (cases a; cases b; simp)

lemma order_type_value_inj: "order_type_value a = order_type_value b \<longleftrightarrow> a = b"
  by (cases a; cases b; simp)

lemmas enum_value_inj = environment_value_inj side_value_inj order_type_value_inj

section \<open>Field validators\<close>

definition upper_letter :: "nat \<Rightarrow> bool" where
  "upper_letter n = (65 \<le> n \<and> n \<le> 90 \<or> 192 \<le> n \<and> n \<le> 222 \<and> n \<noteq> 215)"

text \<open>\<open>str.lower\<close> on code points below 256.\<close>

definition lower_char :: "char \<Rightarrow> char" where
  "lower_char c = (if upper_letter (of_char c) then char_of (of_char c + 32 :: nat) else c)"

definition lower :: "string \<Rightarrow> string" where
  "lower s = map lower_char s"

definition text_field :: "string \<Rightarrow> string result" where
  "text_field v = bindE (guard (trimmed v) ValueError) (\<lambda>_. Inr v)"

datatype decimal_input = In_Decimal decimal | In_Special | In_Int int | In_Str string | In_Float | In_Bool

definition domain_decimal :: "decimal_input \<Rightarrow> decimal result" where
  "domain_decimal v =
     (case v of
        In_Float \<Rightarrow> Inl TypeError
      | In_Bool \<Rightarrow> Inl TypeError
      | In_Special \<Rightarrow> Inl ValueError
      | In_Decimal d \<Rightarrow> validate_decimal_bounds d
      | In_Int i \<Rightarrow> validate_decimal_bounds (dec_int i)
      | In_Str s \<Rightarrow>
          bindE (guard (trimmed s) ValueError) (\<lambda>_.
          bindE (of_option ValueError (parse_decimal s)) validate_decimal_bounds))"

definition positive_decimal :: "decimal_input \<Rightarrow> decimal result" where
  "positive_decimal v =
     bindE (domain_decimal v) (\<lambda>r. bindE (guard (\<not> r \<le> 0) ValueError) (\<lambda>_. Inr r))"

definition nonnegative_decimal :: "decimal_input \<Rightarrow> decimal result" where
  "nonnegative_decimal v =
     bindE (domain_decimal v) (\<lambda>r. bindE (guard (\<not> r < 0) ValueError) (\<lambda>_. Inr r))"

definition optional_positive :: "decimal_input option \<Rightarrow> decimal option result" where
  "optional_positive v =
     (case v of None \<Rightarrow> Inr None | Some x \<Rightarrow> bindE (positive_decimal x) (\<lambda>r. Inr (Some r)))"

definition string_identities :: "string list \<Rightarrow> string list result" where
  "string_identities values =
     bindE (mapE text_field values) (\<lambda>items. Inr (sort (remdups items)))"

definition string_scope :: "string list \<Rightarrow> string list result" where
  "string_scope values =
     bindE (string_identities values) (\<lambda>n. bindE (guard (n \<noteq> []) ValueError) (\<lambda>_. Inr n))"

definition sha256_field :: "string \<Rightarrow> string result" where
  "sha256_field v =
     bindE (text_field v) (\<lambda>v. bindE (guard (sha256_shaped v) ValueError) (\<lambda>_. Inr v))"

definition positive :: "decimal \<Rightarrow> bool" where "positive d = (bounded d \<and> 0 < d)"
definition nonnegative :: "decimal \<Rightarrow> bool" where "nonnegative d = (bounded d \<and> 0 \<le> d)"

lemma text_field_Inr_iff [simp]: "text_field v = Inr r \<longleftrightarrow> trimmed v \<and> r = v"
  by (auto simp: text_field_def)

lemma mapE_text_field [simp]: "mapE text_field vs = Inr rs \<longleftrightarrow> list_all trimmed vs \<and> rs = vs"
  by (induction vs arbitrary: rs) auto

lemma string_identities_Inr_iff:
  "string_identities vs = Inr rs \<longleftrightarrow> list_all trimmed vs \<and> rs = sort (remdups vs)"
  by (auto simp: string_identities_def)

lemma string_scope_Inr_iff:
  "string_scope vs = Inr rs \<longleftrightarrow> vs \<noteq> [] \<and> list_all trimmed vs \<and> rs = sort (remdups vs)"
proof -
  have "sort (remdups vs) = [] \<longleftrightarrow> vs = []" by (metis remdups_eq_nil_iff set_empty2 set_sort)
  then show ?thesis by (auto simp: string_scope_def string_identities_Inr_iff)
qed

lemma sorted_set_again [simp]: "sort (remdups (sort (remdups vs))) = sort (remdups vs)"
  by (simp add: distinct_remdups_id sorted_sort_id)

lemma string_identities_normal:
  "string_identities vs = Inr rs \<Longrightarrow> list_all trimmed rs \<and> rs = sort (remdups rs)"
  by (auto simp: string_identities_Inr_iff list_all_iff)

lemma string_scope_normal:
  "string_scope vs = Inr rs \<Longrightarrow> rs \<noteq> [] \<and> list_all trimmed rs \<and> rs = sort (remdups rs)"
  unfolding string_scope_def bindE_Inr_iff by (auto dest: string_identities_normal)

lemma sha256_field_Inr_iff [simp]: "sha256_field v = Inr r \<longleftrightarrow> sha256_shaped v \<and> r = v"
  using sha256_shaped_trimmed by (auto simp: sha256_field_def)

lemma positive_decimal_bounded: "positive_decimal v = Inr r \<Longrightarrow> positive r"
  by (cases v) (auto simp: positive_decimal_def domain_decimal_def positive_def dval_simps)

lemma nonnegative_decimal_bounded: "nonnegative_decimal v = Inr r \<Longrightarrow> nonnegative r"
  by (cases v) (auto simp: nonnegative_decimal_def domain_decimal_def nonnegative_def dval_simps)

lemma positive_decimal_again: "positive r \<Longrightarrow> positive_decimal (In_Decimal r) = Inr r"
  by (simp add: positive_decimal_def domain_decimal_def positive_def dval_simps)

lemma nonnegative_decimal_again: "nonnegative r \<Longrightarrow> nonnegative_decimal (In_Decimal r) = Inr r"
  by (simp add: nonnegative_decimal_def domain_decimal_def nonnegative_def dval_simps)

lemma optional_positive_bounded: "optional_positive v = Inr r \<Longrightarrow> pred_option positive r"
  by (cases v) (auto simp: optional_positive_def intro: positive_decimal_bounded)

lemma optional_positive_again:
  "pred_option positive r \<Longrightarrow> optional_positive (map_option In_Decimal r) = Inr r"
  by (cases r) (simp_all add: optional_positive_def positive_decimal_again)

lemma of_lower_char:
  "(of_char (lower_char c) :: nat) = (if upper_letter (of_char c) then of_char c + 32 else of_char c)"
proof -
  have "upper_letter n \<Longrightarrow> n + 32 < 256" for n by (auto simp: upper_letter_def)
  then show ?thesis by (simp add: lower_char_def of_char_of take_bit_eq_mod)
qed

lemma lower_char_idem [simp]: "lower_char (lower_char c) = lower_char c"
proof -
  have "\<not> upper_letter (of_char (lower_char c))"
    unfolding of_lower_char by (auto simp: upper_letter_def)
  then show ?thesis by (simp only: lower_char_def [of "lower_char c"]) simp
qed

lemma isspace_lower_char [simp]: "isspace (lower_char c) = isspace c"
  unfolding isspace_def of_lower_char Let_def by (auto simp: upper_letter_def)

lemma lower_idem [simp]: "lower (lower s) = lower s"
  by (simp add: lower_def)

lemma trimmed_ends: "trimmed s \<longleftrightarrow> s \<noteq> [] \<and> \<not> isspace (hd s) \<and> \<not> isspace (last s)"
proof (cases s rule: rev_cases)
  case (snoc t x)
  have lens: "length (strip u) \<le> length (dropWhile isspace u)" for u
    using length_dropWhile_le [of isspace "rev (dropWhile isspace u)"] by (simp add: strip_def)
  show ?thesis
  proof (cases "isspace (hd s)")
    case True
    obtain h u where s: "s = h # u" using snoc by (metis append_is_Nil_conv neq_Nil_conv)
    with True have "length (dropWhile isspace s) \<le> length u" by (simp add: length_dropWhile_le)
    with lens [of s] s have "strip s \<noteq> s" by (metis Suc_n_not_le_n length_Cons order.trans)
    with True show ?thesis by (auto simp: trimmed_def)
  next
    case False
    then have drop: "dropWhile isspace s = s" by (cases s) auto
    show ?thesis
    proof (cases "isspace x")
      case True
      then have "dropWhile isspace (rev s) = dropWhile isspace (rev t)" using snoc by simp
      moreover have "length (dropWhile isspace (rev t)) \<le> length t"
        using length_dropWhile_le [of isspace "rev t"] by simp
      ultimately have "length (strip s) \<le> length t" by (simp add: strip_def drop)
      with snoc have "strip s \<noteq> s" by auto
      with True snoc show ?thesis by (auto simp: trimmed_def)
    next
      case False
      then have "dropWhile isspace (rev s) = rev s" using snoc by simp
      then have "strip s = s" by (simp add: strip_def drop)
      with False snoc \<open>\<not> isspace (hd s)\<close> show ?thesis by (simp add: trimmed_def)
    qed
  qed
qed (simp add: trimmed_def)

lemma trimmed_lower [simp]: "trimmed (lower s) = trimmed s"
  by (cases "s = []") (simp_all add: trimmed_ends lower_def hd_map last_map)

section \<open>Semantic intents\<close>

text \<open>Monetary arguments are \<^typ>\<open>decimal_input\<close>, monetary fields \<^typ>\<open>decimal\<close>.\<close>

record 'd intent =
  si_intent_id :: string
  si_thesis_id :: string
  si_thesis_version :: string
  si_strategy_version :: string
  si_code_hash :: string
  si_venue :: string
  si_account_id :: string
  si_environment :: environment
  si_instrument :: string
  si_action :: string
  si_side :: side
  si_quantity :: 'd
  si_order_type :: order_type
  si_expires_at :: instant
  si_client_order_id :: string
  si_limit_price :: "'d option"
  si_price_bound :: "'d option"
  si_stop_price :: "'d option"
  si_protection_limit_price :: "'d option"
  si_reduce_only :: bool
  si_leverage :: "'d option"
  si_max_slippage_bps :: 'd
  si_fee_bps :: 'd
  si_time_in_force :: "string option"
  si_signal_instance_hash :: "string option"
  si_allowed_runtime_fields :: "string list"
  si_schema_version :: int

type_synonym semantic_intent = "decimal intent"

definition permitted_runtime_fields :: "string list" where
  "permitted_runtime_fields = [''nonce'', ''signature'', ''signing_timestamp'']"

definition intent_texts :: "'d intent \<Rightarrow> string list" where
  "intent_texts i =
     [si_intent_id i, si_thesis_id i, si_thesis_version i, si_strategy_version i, si_code_hash i,
      si_venue i, si_account_id i, si_instrument i, si_client_order_id i]"

definition order_fields_ok :: "order_type \<Rightarrow> 'd option \<Rightarrow> 'd option \<Rightarrow> 'd option \<Rightarrow> bool" where
  "order_fields_ok t limit stop protection =
     ((t = LIMIT \<longrightarrow> limit \<noteq> None) \<and> (t = STOP \<longrightarrow> stop \<noteq> None)
      \<and> (t = STOP_LIMIT \<longrightarrow> stop \<noteq> None \<and> limit \<noteq> None) \<and> (t = MARKET \<longrightarrow> limit = None)
      \<and> (protection \<noteq> None \<longrightarrow> stop \<noteq> None))"

definition make_intent :: "decimal_input intent \<Rightarrow> semantic_intent result" where
  "make_intent i =
     bindE (mapE text_field (intent_texts i)) (\<lambda>_.
     bindE (text_field (si_action i)) (\<lambda>action.
     bindE (positive_decimal (si_quantity i)) (\<lambda>quantity.
     bindE (optional_positive (si_limit_price i)) (\<lambda>limit.
     bindE (optional_positive (si_price_bound i)) (\<lambda>bound.
     bindE (optional_positive (si_stop_price i)) (\<lambda>stop.
     bindE (optional_positive (si_protection_limit_price i)) (\<lambda>protection.
     bindE (optional_positive (si_leverage i)) (\<lambda>leverage.
     bindE (nonnegative_decimal (si_max_slippage_bps i)) (\<lambda>slippage.
     bindE (nonnegative_decimal (si_fee_bps i)) (\<lambda>fee.
     bindE (guard (si_schema_version i = 1) ValueError) (\<lambda>_.
     bindE (case si_time_in_force i of None \<Rightarrow> Inr '''' | Some t \<Rightarrow> text_field t) (\<lambda>_.
     bindE (case si_signal_instance_hash i of None \<Rightarrow> Inr '''' | Some h \<Rightarrow> sha256_field h) (\<lambda>_.
     bindE (string_scope (si_allowed_runtime_fields i)) (\<lambda>runtime.
     bindE (guard (set runtime \<subseteq> set permitted_runtime_fields) ValueError) (\<lambda>_.
     bindE (guard (order_fields_ok (si_order_type i) limit stop protection) ValueError) (\<lambda>_.
     Inr \<lparr> si_intent_id = si_intent_id i, si_thesis_id = si_thesis_id i,
           si_thesis_version = si_thesis_version i, si_strategy_version = si_strategy_version i,
           si_code_hash = si_code_hash i, si_venue = si_venue i, si_account_id = si_account_id i,
           si_environment = si_environment i, si_instrument = si_instrument i,
           si_action = lower action, si_side = si_side i, si_quantity = quantity,
           si_order_type = si_order_type i, si_expires_at = si_expires_at i,
           si_client_order_id = si_client_order_id i, si_limit_price = limit,
           si_price_bound = bound, si_stop_price = stop, si_protection_limit_price = protection,
           si_reduce_only = si_reduce_only i, si_leverage = leverage,
           si_max_slippage_bps = slippage, si_fee_bps = fee,
           si_time_in_force = si_time_in_force i,
           si_signal_instance_hash = si_signal_instance_hash i,
           si_allowed_runtime_fields = runtime, si_schema_version = si_schema_version i \<rparr>))))))))))))))))"

text \<open>What every constructed intent satisfies.\<close>

definition intent_ok :: "semantic_intent \<Rightarrow> bool" where
  "intent_ok i =
     (list_all trimmed (intent_texts i) \<and> trimmed (si_action i) \<and> lower (si_action i) = si_action i
      \<and> positive (si_quantity i)
      \<and> list_all (pred_option positive)
          [si_limit_price i, si_price_bound i, si_stop_price i, si_protection_limit_price i, si_leverage i]
      \<and> nonnegative (si_max_slippage_bps i) \<and> nonnegative (si_fee_bps i)
      \<and> si_schema_version i = 1
      \<and> pred_option trimmed (si_time_in_force i) \<and> pred_option sha256_shaped (si_signal_instance_hash i)
      \<and> si_allowed_runtime_fields i \<noteq> []
      \<and> list_all trimmed (si_allowed_runtime_fields i)
      \<and> si_allowed_runtime_fields i = sort (remdups (si_allowed_runtime_fields i))
      \<and> set (si_allowed_runtime_fields i) \<subseteq> set permitted_runtime_fields
      \<and> order_fields_ok (si_order_type i) (si_limit_price i) (si_stop_price i) (si_protection_limit_price i))"

text \<open>The constructor applied to the fields of an object, as \<open>dataclasses.replace\<close> does.\<close>

definition intent_args :: "semantic_intent \<Rightarrow> decimal_input intent" where
  "intent_args i =
     \<lparr> si_intent_id = si_intent_id i, si_thesis_id = si_thesis_id i,
       si_thesis_version = si_thesis_version i, si_strategy_version = si_strategy_version i,
       si_code_hash = si_code_hash i, si_venue = si_venue i, si_account_id = si_account_id i,
       si_environment = si_environment i, si_instrument = si_instrument i, si_action = si_action i,
       si_side = si_side i, si_quantity = In_Decimal (si_quantity i), si_order_type = si_order_type i,
       si_expires_at = si_expires_at i, si_client_order_id = si_client_order_id i,
       si_limit_price = map_option In_Decimal (si_limit_price i),
       si_price_bound = map_option In_Decimal (si_price_bound i),
       si_stop_price = map_option In_Decimal (si_stop_price i),
       si_protection_limit_price = map_option In_Decimal (si_protection_limit_price i),
       si_reduce_only = si_reduce_only i, si_leverage = map_option In_Decimal (si_leverage i),
       si_max_slippage_bps = In_Decimal (si_max_slippage_bps i), si_fee_bps = In_Decimal (si_fee_bps i),
       si_time_in_force = si_time_in_force i, si_signal_instance_hash = si_signal_instance_hash i,
       si_allowed_runtime_fields = si_allowed_runtime_fields i, si_schema_version = si_schema_version i \<rparr>"

lemma option_check_Inr:
  "(case x of None \<Rightarrow> Inr '''' | Some t \<Rightarrow> text_field t) = Inr r \<Longrightarrow> pred_option trimmed x"
  "(case x of None \<Rightarrow> Inr '''' | Some t \<Rightarrow> sha256_field t) = Inr r \<Longrightarrow> pred_option sha256_shaped x"
  by (cases x; simp)+

lemma option_check_again:
  "pred_option trimmed x \<Longrightarrow> \<exists>r. (case x of None \<Rightarrow> Inr '''' | Some t \<Rightarrow> text_field t) = Inr r"
  "pred_option sha256_shaped x \<Longrightarrow> \<exists>r. (case x of None \<Rightarrow> Inr '''' | Some t \<Rightarrow> sha256_field t) = Inr r"
  by (cases x; simp)+

lemma make_intent_ok: "make_intent i = Inr j \<Longrightarrow> intent_ok j"
  unfolding make_intent_def bindE_Inr_iff
  by (elim exE conjE)
    (frule string_scope_normal, auto simp: intent_ok_def intent_texts_def
      intro: positive_decimal_bounded nonnegative_decimal_bounded optional_positive_bounded
      dest: option_check_Inr)

lemma make_intent_again: "intent_ok i \<Longrightarrow> make_intent (intent_args i) = Inr i"
proof -
  assume ok: "intent_ok i"
  have texts: "intent_texts (intent_args i) = intent_texts i"
    by (simp add: intent_texts_def intent_args_def)
  from ok obtain a b where "(case si_time_in_force i of None \<Rightarrow> Inr '''' | Some t \<Rightarrow> text_field t) = Inr a"
    "(case si_signal_instance_hash i of None \<Rightarrow> Inr '''' | Some t \<Rightarrow> sha256_field t) = Inr b"
    using option_check_again unfolding intent_ok_def by metis
  moreover have "string_scope (si_allowed_runtime_fields i) = Inr (si_allowed_runtime_fields i)"
    using ok by (simp add: string_scope_Inr_iff intent_ok_def)
  ultimately show ?thesis
    using ok unfolding make_intent_def bindE_Inr_iff texts
    by (simp add: intent_args_def intent_ok_def positive_decimal_again nonnegative_decimal_again
        optional_positive_again)
qed

section \<open>The semantic intent hash\<close>

definition opt_val :: "('a \<Rightarrow> pyval) \<Rightarrow> 'a option \<Rightarrow> pyval" where
  "opt_val f x = (case x of None \<Rightarrow> PNone | Some v \<Rightarrow> f v)"

definition intent_fields :: "string list" where
  "intent_fields =
     [''intent_id'', ''thesis_id'', ''thesis_version'', ''strategy_version'', ''code_hash'', ''venue'',
      ''account_id'', ''environment'', ''instrument'', ''action'', ''side'', ''quantity'',
      ''order_type'', ''expires_at'', ''client_order_id'', ''limit_price'', ''price_bound'',
      ''stop_price'', ''protection_limit_price'', ''reduce_only'', ''leverage'', ''max_slippage_bps'',
      ''fee_bps'', ''time_in_force'', ''signal_instance_hash'', ''allowed_runtime_fields'',
      ''schema_version'']"

definition intent_values :: "semantic_intent \<Rightarrow> pyval list" where
  "intent_values i =
     [PStr (si_intent_id i), PStr (si_thesis_id i), PStr (si_thesis_version i),
      PStr (si_strategy_version i), PStr (si_code_hash i), PStr (si_venue i),
      PStr (si_account_id i), PStr (environment_value (si_environment i)),
      PStr (si_instrument i), PStr (si_action i), PStr (side_value (si_side i)),
      PDec (si_quantity i), PStr (order_type_value (si_order_type i)), PInstant (si_expires_at i),
      PStr (si_client_order_id i), opt_val PDec (si_limit_price i), opt_val PDec (si_price_bound i),
      opt_val PDec (si_stop_price i), opt_val PDec (si_protection_limit_price i),
      PBool (si_reduce_only i), opt_val PDec (si_leverage i), PDec (si_max_slippage_bps i),
      PDec (si_fee_bps i), opt_val PStr (si_time_in_force i), opt_val PStr (si_signal_instance_hash i),
      PList (map PStr (si_allowed_runtime_fields i)), PInt (si_schema_version i)]"

text \<open>A record as the mapping of its field names.\<close>

definition record_val :: "string list \<Rightarrow> pyval list \<Rightarrow> pyval" where
  "record_val names values = PMap (zip (map KStr names) values)"

definition semantic_intent_hash_domain :: string where
  "semantic_intent_hash_domain = ''trading-harness/semantic-intent/v1''"

definition intent_val :: "semantic_intent \<Rightarrow> pyval" where
  "intent_val i = record_val intent_fields (intent_values i)"

definition semantic_intent_hash :: "semantic_intent \<Rightarrow> string result" where
  "semantic_intent_hash i = domain_hash semantic_intent_hash_domain (intent_val i)"

text \<open>Two intents with the same economic meaning: equal, up to the representation of decimals.\<close>

definition opt_deq :: "decimal option \<Rightarrow> decimal option \<Rightarrow> bool" where
  "opt_deq a b = (case (a, b) of (None, None) \<Rightarrow> True | (Some x, Some y) \<Rightarrow> deq x y | _ \<Rightarrow> False)"

definition same_intent :: "semantic_intent \<Rightarrow> semantic_intent \<Rightarrow> bool" where
  "same_intent i j =
     (intent_texts i = intent_texts j \<and> si_environment i = si_environment j
      \<and> si_action i = si_action j \<and> si_side i = si_side j \<and> si_order_type i = si_order_type j
      \<and> si_expires_at i = si_expires_at j \<and> si_reduce_only i = si_reduce_only j
      \<and> deq (si_quantity i) (si_quantity j) \<and> opt_deq (si_limit_price i) (si_limit_price j)
      \<and> opt_deq (si_price_bound i) (si_price_bound j) \<and> opt_deq (si_stop_price i) (si_stop_price j)
      \<and> opt_deq (si_protection_limit_price i) (si_protection_limit_price j)
      \<and> opt_deq (si_leverage i) (si_leverage j)
      \<and> deq (si_max_slippage_bps i) (si_max_slippage_bps j) \<and> deq (si_fee_bps i) (si_fee_bps j)
      \<and> si_time_in_force i = si_time_in_force j
      \<and> si_signal_instance_hash i = si_signal_instance_hash j
      \<and> si_allowed_runtime_fields i = si_allowed_runtime_fields j)"

lemma seqE_map_Inr: "(\<And>x. x \<in> set xs \<Longrightarrow> f x = Inr (g x)) \<Longrightarrow> seqE (map f xs) = Inr (map g xs)"
  by (induction xs) simp_all

lemma seqE_zip_Inr:
  "length ks = length vs \<Longrightarrow>
   seqE (map (\<lambda>(k, v). bindE (key_text k) (\<lambda>s. bindE (canonical_data v) (\<lambda>j. Inr (s, j)))) (zip (map KStr ks) vs))
   = Inr items \<Longrightarrow>
   \<exists>js. seqE (map canonical_data vs) = Inr js \<and> items = zip ks js \<and> length js = length ks"
proof (induction ks vs arbitrary: items rule: list_induct2)
  case (Cons k ks v vs)
  then show ?case by (fastforce simp: key_text_def)
qed simp

lemma record_val_data:
  assumes "length names = length values" "canonical_data (record_val names values) = Inr j"
  shows "\<exists>js. seqE (map canonical_data values) = Inr js \<and> j = JObj (zip names js) \<and> length js = length names"
  using assms seqE_zip_Inr [OF assms(1)] by (auto simp: record_val_def)

text \<open>Two records of one schema with equal JSON text agree field by field.\<close>

lemma record_val_binds:
  assumes "canonical_json (record_val names vs) = Inr t" "canonical_json (record_val names ws) = Inr t"
    and "distinct names" "length vs = length names" "length ws = length names"
  shows "\<exists>js ks. seqE (map canonical_data vs) = Inr js \<and> seqE (map canonical_data ws) = Inr ks
    \<and> map sort_keys js = map sort_keys ks"
proof -
  from assms(1,2) obtain j k where jk: "canonical_data (record_val names vs) = Inr j"
      "canonical_data (record_val names ws) = Inr k" "json_dumps j = t" "json_dumps k = t"
    by (auto simp: canonical_json_def)
  then have eq: "sort_keys j = sort_keys k" by (intro json_dumps_inj) simp
  obtain js where js: "seqE (map canonical_data vs) = Inr js" "j = JObj (zip names js)" "length js = length names"
    using record_val_data jk(1) assms(4) by metis
  obtain ks where ks: "seqE (map canonical_data ws) = Inr ks" "k = JObj (zip names ks)" "length ks = length names"
    using record_val_data jk(2) assms(5) by metis
  have "map sort_keys js = map sort_keys ks"
    using record_fields_bound [of names js ks] eq assms(3) js ks by simp
  with js ks show ?thesis by blast
qed

text \<open>The value of one field is determined by its JSON value.\<close>

lemma sort_keys_atoms [simp]:
  "sort_keys j = JNull \<longleftrightarrow> j = JNull" "sort_keys j = JStr s \<longleftrightarrow> j = JStr s"
  "sort_keys j = JBool b \<longleftrightarrow> j = JBool b" "sort_keys j = JInt i \<longleftrightarrow> j = JInt i"
  by (cases j; simp)+

lemma data_PDec_eq:
  "canonical_data (PDec a) = Inr j \<Longrightarrow> canonical_data (PDec b) = Inr k \<Longrightarrow> sort_keys j = sort_keys k \<Longrightarrow> deq a b"
  by (auto simp: canonical_decimal_Inr_iff canonical_text_eq_iff deq_dval)

lemma data_opt_PDec_eq:
  "canonical_data (opt_val PDec a) = Inr j \<Longrightarrow> canonical_data (opt_val PDec b) = Inr k \<Longrightarrow>
   sort_keys j = sort_keys k \<Longrightarrow> opt_deq a b"
  by (cases a; cases b)
    (auto simp: opt_val_def opt_deq_def canonical_decimal_Inr_iff canonical_text_eq_iff deq_dval)

lemma data_opt_PStr_eq:
  "canonical_data (opt_val PStr a) = Inr j \<Longrightarrow> canonical_data (opt_val PStr b) = Inr k \<Longrightarrow>
   sort_keys j = sort_keys k \<Longrightarrow> a = b"
  by (cases a; cases b) (auto simp: opt_val_def)

lemma data_PInstant_eq:
  "canonical_data (PInstant a) = Inr j \<Longrightarrow> canonical_data (PInstant b) = Inr k \<Longrightarrow>
   sort_keys j = sort_keys k \<Longrightarrow> instant_ok a \<Longrightarrow> instant_ok b \<Longrightarrow> a = b"
  by (auto intro: iso_instant_inj)

lemma data_PStrs_eq:
  "canonical_data (PList (map PStr xs)) = Inr j \<Longrightarrow> canonical_data (PList (map PStr ys)) = Inr k \<Longrightarrow>
   sort_keys j = sort_keys k \<Longrightarrow> xs = ys"
proof -
  have strs: "canonical_data (PList (map PStr zs)) = Inr (JArr (map JStr zs))" for zs
    using seqE_map_Inr [of zs "canonical_data \<circ> PStr" JStr] by (simp add: comp_def)
  assume "canonical_data (PList (map PStr xs)) = Inr j" "canonical_data (PList (map PStr ys)) = Inr k"
    "sort_keys j = sort_keys k"
  then have "map JStr xs = map JStr ys" unfolding strs by (auto simp: comp_def)
  then show "xs = ys" by (metis inj_map_eq_map json.inject(3) injI)
qed

theorem intent_json_binds:
  assumes "canonical_json (intent_val i) = Inr t" "canonical_json (intent_val j) = Inr t"
    and "instant_ok (si_expires_at i)" "instant_ok (si_expires_at j)"
  shows "same_intent i j"
proof -
  have "distinct intent_fields" by code_simp
  moreover have "length (intent_values k) = length intent_fields" for k
    by (simp add: intent_values_def intent_fields_def)
  ultimately obtain js ks where jk: "seqE (map canonical_data (intent_values i)) = Inr js"
      "seqE (map canonical_data (intent_values j)) = Inr ks" "map sort_keys js = map sort_keys ks"
    using record_val_binds assms(1,2) unfolding intent_val_def by metis
  from jk(1,2) have len: "length js = 27" "length ks = 27"
    by (auto simp: intent_values_def simp del: canonical_data.simps)
  have field: "\<exists>x y. canonical_data (intent_values i ! n) = Inr x \<and> canonical_data (intent_values j ! n) = Inr y
      \<and> sort_keys x = sort_keys y" if "n < 27" for n
  proof -
    have nth: "f (xs ! n) = Inr (rs ! n)" if "seqE (map f xs) = Inr rs" "n < length rs"
      for f :: "pyval \<Rightarrow> json result" and xs rs
      using that by (induction xs arbitrary: rs n) (auto simp: nth_Cons split: nat.splits)
    from nth [OF jk(1)] nth [OF jk(2)] jk(3) len that show ?thesis
      by (metis nth_map)
  qed
  note at = field [unfolded intent_values_def]
  have texts: "intent_texts i = intent_texts j" "si_action i = si_action j"
    using at [of 0] at [of 1] at [of 2] at [of 3] at [of 4] at [of 5] at [of 6] at [of 8] at [of 9] at [of 14]
    by (simp_all add: intent_texts_def)
  have enums: "si_environment i = si_environment j" "si_side i = si_side j"
      "si_order_type i = si_order_type j" "si_reduce_only i = si_reduce_only j"
    using at [of 7] at [of 10] at [of 12] at [of 19] by (simp_all add: enum_value_inj)
  have decs: "deq (si_quantity i) (si_quantity j)" "deq (si_max_slippage_bps i) (si_max_slippage_bps j)"
      "deq (si_fee_bps i) (si_fee_bps j)"
    using at [of 11] at [of 21] at [of 22] by (simp_all del: canonical_data.simps) (metis data_PDec_eq)+
  have opts: "opt_deq (si_limit_price i) (si_limit_price j)" "opt_deq (si_price_bound i) (si_price_bound j)"
      "opt_deq (si_stop_price i) (si_stop_price j)"
      "opt_deq (si_protection_limit_price i) (si_protection_limit_price j)"
      "opt_deq (si_leverage i) (si_leverage j)"
    using at [of 15] at [of 16] at [of 17] at [of 18] at [of 20]
    by (simp_all del: canonical_data.simps) (metis data_opt_PDec_eq)+
  have strs: "si_time_in_force i = si_time_in_force j"
      "si_signal_instance_hash i = si_signal_instance_hash j"
      "si_allowed_runtime_fields i = si_allowed_runtime_fields j" "si_expires_at i = si_expires_at j"
    using at [of 23] at [of 24] at [of 25] at [of 13] assms(3,4)
    by (simp_all del: canonical_data.simps) (metis data_opt_PStr_eq data_PStrs_eq data_PInstant_eq)+
  show ?thesis
    unfolding same_intent_def using texts enums decs opts strs by simp
qed

theorem semantic_intent_hash_binds:
  assumes "semantic_intent_hash i = Inr h" "semantic_intent_hash j = Inr h"
    and "instant_ok (si_expires_at i)" "instant_ok (si_expires_at j)"
    and "hash_material semantic_intent_hash_domain (intent_val i) = Inr m"
    and "hash_material semantic_intent_hash_domain (intent_val j) = Inr m'"
  shows "same_intent i j \<or> hash_collision m m'"
proof -
  from domain_hash_binds [OF assms(1,2) [unfolded semantic_intent_hash_def] assms(5,6)]
  consider "canonical_json (intent_val i) = canonical_json (intent_val j)" | "hash_collision m m'" by blast
  then show ?thesis
  proof cases
    case 1
    from assms(1) obtain t where "canonical_json (intent_val i) = Inr t"
      by (auto simp: semantic_intent_hash_def domain_hash_def canonical_bytes_def)
    with 1 intent_json_binds assms(3,4) show ?thesis by metis
  qed simp
qed

lemma canonical_data_PDec: "bounded d \<Longrightarrow> canonical_data (PDec d) = Inr (JStr (canonical_text d))"
  using canonical_decimal_Inr_iff [of d "canonical_text d"] by simp

lemma canonical_data_opt_PDec:
  "pred_option positive x \<Longrightarrow>
   canonical_data (opt_val PDec x) = Inr (case x of None \<Rightarrow> JNull | Some d \<Rightarrow> JStr (canonical_text d))"
  by (cases x) (simp_all add: opt_val_def positive_def canonical_data_PDec del: canonical_data.simps(2))

lemma canonical_data_opt_PStr:
  "canonical_data (opt_val PStr x) = Inr (case x of None \<Rightarrow> JNull | Some s \<Rightarrow> JStr s)"
  by (cases x) (simp_all add: opt_val_def)

lemma canonical_data_PStrs: "canonical_data (PList (map PStr zs)) = Inr (JArr (map JStr zs))"
  using seqE_map_Inr [of zs "canonical_data \<circ> PStr" JStr] by (simp add: comp_def)

text \<open>The JSON value of a constructed intent.\<close>

definition intent_jsons :: "semantic_intent \<Rightarrow> json list" where
  "intent_jsons i =
     (let dec = (\<lambda>d. JStr (canonical_text d)); opt = (\<lambda>x. case x of None \<Rightarrow> JNull | Some v \<Rightarrow> JStr v) in
      [JStr (si_intent_id i), JStr (si_thesis_id i), JStr (si_thesis_version i),
       JStr (si_strategy_version i), JStr (si_code_hash i), JStr (si_venue i),
       JStr (si_account_id i), JStr (environment_value (si_environment i)),
       JStr (si_instrument i), JStr (si_action i), JStr (side_value (si_side i)),
       dec (si_quantity i), JStr (order_type_value (si_order_type i)),
       JStr (iso_instant (si_expires_at i)), JStr (si_client_order_id i),
       opt (map_option canonical_text (si_limit_price i)), opt (map_option canonical_text (si_price_bound i)),
       opt (map_option canonical_text (si_stop_price i)),
       opt (map_option canonical_text (si_protection_limit_price i)), JBool (si_reduce_only i),
       opt (map_option canonical_text (si_leverage i)), dec (si_max_slippage_bps i), dec (si_fee_bps i),
       opt (si_time_in_force i), opt (si_signal_instance_hash i),
       JArr (map JStr (si_allowed_runtime_fields i)), JInt (si_schema_version i)])"

lemma opt_json: "(case x of None \<Rightarrow> JNull | Some d \<Rightarrow> JStr (canonical_text d))
    = (case map_option canonical_text x of None \<Rightarrow> JNull | Some v \<Rightarrow> JStr v)"
  by (cases x) simp_all

lemma intent_json_total: "intent_ok i \<Longrightarrow> seqE (map canonical_data (intent_values i)) = Inr (intent_jsons i)"
  unfolding intent_values_def intent_ok_def intent_jsons_def Let_def
  by (simp add: canonical_data_PDec canonical_data_opt_PDec canonical_data_opt_PStr canonical_data_PStrs
      positive_def [of "si_quantity i"] nonnegative_def opt_json del: canonical_data.simps(2,5))

lemma record_val_total:
  "length names = length values \<Longrightarrow> seqE (map canonical_data values) = Inr js \<Longrightarrow>
   canonical_data (record_val names values) = Inr (JObj (zip names js))"
proof -
  assume "length names = length values" "seqE (map canonical_data values) = Inr js"
  then have "seqE (map (\<lambda>(k, v). bindE (key_text k) (\<lambda>s. bindE (canonical_data v) (\<lambda>j. Inr (s, j))))
      (zip (map KStr names) values)) = Inr (zip names js)"
  proof (induction names "values" arbitrary: js rule: list_induct2)
    case (Cons k ks v vs)
    then show ?case by (fastforce simp: key_text_def)
  qed simp
  then show ?thesis by (simp add: record_val_def)
qed

text \<open>Every constructed intent has a digest, and the digest depends on its meaning only.\<close>

theorem semantic_intent_hash_total:
  assumes "intent_ok i"
  shows "semantic_intent_hash i =
    Inr (sha256_hex (utf8 semantic_intent_hash_domain @ [0]
      @ utf8 (json_dumps (JObj (zip intent_fields (intent_jsons i))))))"
proof -
  have len: "length intent_fields = length (intent_values i)"
    by (simp add: intent_fields_def intent_values_def)
  have dom: "semantic_intent_hash_domain \<noteq> []" "CHR 0x00 \<notin> set semantic_intent_hash_domain"
    by (simp_all add: semantic_intent_hash_domain_def)
  show ?thesis
    using record_val_total [OF len intent_json_total [OF assms]] dom
    by (simp add: semantic_intent_hash_def domain_hash_def canonical_bytes_def canonical_json_def intent_val_def
        guard_cases)
qed

lemma opt_deq_json:
  "opt_deq a b \<Longrightarrow> (case a of None \<Rightarrow> JNull | Some x \<Rightarrow> (JStr \<circ> canonical_text) x)
     = (case b of None \<Rightarrow> JNull | Some x \<Rightarrow> (JStr \<circ> canonical_text) x)"
  by (cases a; cases b) (auto simp: opt_deq_def deq_dval canonical_text_eq_iff)

theorem same_intent_same_hash:
  assumes "intent_ok i" "intent_ok j" "same_intent i j"
  shows "semantic_intent_hash i = semantic_intent_hash j"
proof -
  have "canonical_text (si_quantity i) = canonical_text (si_quantity j)"
    "canonical_text (si_max_slippage_bps i) = canonical_text (si_max_slippage_bps j)"
    "canonical_text (si_fee_bps i) = canonical_text (si_fee_bps j)"
    using assms(3) by (simp_all add: same_intent_def deq_dval canonical_text_eq_iff)
  moreover have "si_schema_version i = si_schema_version j" using assms(1,2) by (simp add: intent_ok_def)
  ultimately have "intent_jsons i = intent_jsons j"
    using assms(3)
    by (simp add: intent_jsons_def same_intent_def intent_texts_def Let_def) (intro conjI opt_deq_json; simp)
  then show ?thesis by (simp add: semantic_intent_hash_total assms(1,2))
qed

section \<open>Authorizations\<close>

record authorization =
  au_authorization_id :: string
  au_intent_hash :: string
  au_grant_id :: string
  au_account_id :: string
  au_environment :: environment
  au_issued_at :: instant
  au_expires_at :: instant
  au_audience :: string
  au_issuer_id :: string
  au_approver_ids :: "string list"
  au_state :: authorization_state

definition make_authorization :: "authorization \<Rightarrow> authorization result" where
  "make_authorization a =
     bindE (mapE text_field
        [au_authorization_id a, au_grant_id a, au_account_id a, au_audience a, au_issuer_id a]) (\<lambda>_.
     bindE (sha256_field (au_intent_hash a)) (\<lambda>_.
     bindE (string_identities (au_approver_ids a)) (\<lambda>approvers.
     bindE (guard (\<not> au_expires_at a \<le> au_issued_at a) ValueError) (\<lambda>_.
     Inr (a\<lparr>au_approver_ids := approvers\<rparr>)))))"

definition authorization_is_active :: "authorization \<Rightarrow> instant \<Rightarrow> bool" where
  "authorization_is_active a now =
     (au_state a = AS_ISSUED \<and> au_issued_at a \<le> now \<and> now < au_expires_at a)"

definition with_state :: "authorization \<Rightarrow> authorization_state \<Rightarrow> authorization result" where
  "with_state a s = make_authorization (a\<lparr>au_state := s\<rparr>)"

definition authorization_ok :: "authorization \<Rightarrow> bool" where
  "authorization_ok a =
     (list_all trimmed [au_authorization_id a, au_grant_id a, au_account_id a, au_audience a, au_issuer_id a]
      \<and> sha256_shaped (au_intent_hash a) \<and> list_all trimmed (au_approver_ids a)
      \<and> au_approver_ids a = sort (remdups (au_approver_ids a)) \<and> au_issued_at a < au_expires_at a)"

lemma make_authorization_ok: "make_authorization a = Inr b \<Longrightarrow> authorization_ok b"
  unfolding make_authorization_def bindE_Inr_iff
  by (elim exE conjE) (frule string_identities_normal, auto simp: authorization_ok_def)

lemma make_authorization_again: "authorization_ok a \<Longrightarrow> make_authorization a = Inr a"
  by (simp add: make_authorization_def authorization_ok_def string_identities_Inr_iff)

lemma with_state_ok:
  "authorization_ok a \<Longrightarrow> with_state a s = Inr (a\<lparr>au_state := s\<rparr>) \<and> authorization_ok (a\<lparr>au_state := s\<rparr>)"
  by (simp add: with_state_def make_authorization_again authorization_ok_def)

section \<open>Deployment grants\<close>

record 'd grant =
  gr_grant_id :: string
  gr_thesis_id :: string
  gr_thesis_version :: string
  gr_strategy_version :: string
  gr_code_hash :: string
  gr_venue :: string
  gr_account_id :: string
  gr_environment :: environment
  gr_grant_type :: grant_type
  gr_issued_at :: instant
  gr_expires_at :: instant
  gr_authorization_model :: "authorization_model option"
  gr_starts_at :: "instant option"
  gr_review_at :: "instant option"
  gr_revoked_at :: "instant option"
  gr_state :: grant_state
  gr_allowed_instruments :: "string list"
  gr_allowed_actions :: "string list"
  gr_max_notional :: "'d option"
  gr_max_loss :: "'d option"
  gr_approver_ids :: "string list"

type_synonym deployment_grant = "decimal grant"

fun grant_environment :: "grant_type \<Rightarrow> environment" where
  "grant_environment INFRASTRUCTURE_TESTNET = TESTNET"
| "grant_environment STRATEGY_TESTNET = TESTNET"
| "grant_environment MANUAL_MAINNET_CANARY = MAINNET"
| "grant_environment SYSTEMATIC_TESTNET = TESTNET"
| "grant_environment SYSTEMATIC_SHADOW = SHADOW"
| "grant_environment SYSTEMATIC_MAINNET_CAPPED = MAINNET"

fun grant_authorization_model :: "grant_type \<Rightarrow> authorization_model" where
  "grant_authorization_model INFRASTRUCTURE_TESTNET = INFRASTRUCTURE"
| "grant_authorization_model STRATEGY_TESTNET = PER_TICKET_HUMAN"
| "grant_authorization_model MANUAL_MAINNET_CANARY = PER_TICKET_HUMAN"
| "grant_authorization_model SYSTEMATIC_TESTNET = SYSTEMATIC_POLICY"
| "grant_authorization_model SYSTEMATIC_SHADOW = SYSTEMATIC_POLICY"
| "grant_authorization_model SYSTEMATIC_MAINNET_CAPPED = SYSTEMATIC_POLICY"

definition make_grant :: "decimal_input grant \<Rightarrow> deployment_grant result" where
  "make_grant g =
     bindE (mapE text_field
        [gr_grant_id g, gr_thesis_id g, gr_thesis_version g, gr_strategy_version g, gr_code_hash g,
         gr_venue g, gr_account_id g]) (\<lambda>_.
     (let expected = grant_authorization_model (gr_grant_type g);
          model = (case gr_authorization_model g of None \<Rightarrow> expected | Some m \<Rightarrow> m);
          issued = gr_issued_at g; expires = gr_expires_at g;
          starts = (case gr_starts_at g of None \<Rightarrow> issued | Some s \<Rightarrow> s)
      in
     bindE (require
       [(model = expected, ValueError),
        (\<not> starts < issued, ValueError),
        (\<not> expires \<le> starts, ValueError),
        (pred_option (\<lambda>r. starts \<le> r \<and> r \<le> expires) (gr_review_at g), ValueError),
        (pred_option (\<lambda>r. \<not> r < issued) (gr_revoked_at g), ValueError),
        ((gr_state g = GS_REVOKED) = (gr_revoked_at g \<noteq> None), ValueError),
        (gr_environment g = grant_environment (gr_grant_type g), ValueError)]) (\<lambda>_.
     bindE (string_scope (gr_allowed_instruments g)) (\<lambda>instruments.
     bindE (string_scope (gr_allowed_actions g)) (\<lambda>actions.
     bindE (optional_positive (gr_max_notional g)) (\<lambda>notional.
     bindE (optional_positive (gr_max_loss g)) (\<lambda>loss.
     bindE (string_identities (gr_approver_ids g)) (\<lambda>approvers.
     Inr \<lparr> gr_grant_id = gr_grant_id g, gr_thesis_id = gr_thesis_id g,
           gr_thesis_version = gr_thesis_version g, gr_strategy_version = gr_strategy_version g,
           gr_code_hash = gr_code_hash g, gr_venue = gr_venue g, gr_account_id = gr_account_id g,
           gr_environment = gr_environment g, gr_grant_type = gr_grant_type g,
           gr_issued_at = issued, gr_expires_at = expires, gr_authorization_model = Some model,
           gr_starts_at = Some starts, gr_review_at = gr_review_at g, gr_revoked_at = gr_revoked_at g,
           gr_state = gr_state g, gr_allowed_instruments = instruments, gr_allowed_actions = actions,
           gr_max_notional = notional, gr_max_loss = loss, gr_approver_ids = approvers \<rparr>)))))))) "

definition grant_is_active :: "deployment_grant \<Rightarrow> instant \<Rightarrow> bool" where
  "grant_is_active g now =
     (gr_state g = GS_ACTIVE \<and> gr_revoked_at g = None
      \<and> (case gr_starts_at g of None \<Rightarrow> gr_issued_at g | Some s \<Rightarrow> s) \<le> now \<and> now < gr_expires_at g)"

definition matches_scope :: "deployment_grant \<Rightarrow> semantic_intent \<Rightarrow> bool" where
  "matches_scope g i =
     (let instrument_allowed =
            (''*'' \<in> set (gr_allowed_instruments g) \<or> si_instrument i \<in> set (gr_allowed_instruments g));
          action_allowed =
            (''*'' \<in> set (gr_allowed_actions g) \<or> si_action i \<in> set (gr_allowed_actions g))
      in gr_thesis_id g = si_thesis_id i \<and> gr_thesis_version g = si_thesis_version i
         \<and> gr_strategy_version g = si_strategy_version i \<and> gr_code_hash g = si_code_hash i
         \<and> gr_venue g = si_venue i \<and> gr_account_id g = si_account_id i
         \<and> gr_environment g = si_environment i \<and> instrument_allowed \<and> action_allowed)"

definition grant_ok :: "deployment_grant \<Rightarrow> bool" where
  "grant_ok g =
     (list_all trimmed [gr_grant_id g, gr_thesis_id g, gr_thesis_version g, gr_strategy_version g,
        gr_code_hash g, gr_venue g, gr_account_id g]
      \<and> gr_authorization_model g = Some (grant_authorization_model (gr_grant_type g))
      \<and> gr_environment g = grant_environment (gr_grant_type g)
      \<and> (\<exists>s. gr_starts_at g = Some s \<and> gr_issued_at g \<le> s \<and> s < gr_expires_at g
           \<and> pred_option (\<lambda>r. s \<le> r \<and> r \<le> gr_expires_at g) (gr_review_at g))
      \<and> pred_option (\<lambda>r. gr_issued_at g \<le> r) (gr_revoked_at g)
      \<and> (gr_state g = GS_REVOKED) = (gr_revoked_at g \<noteq> None)
      \<and> gr_allowed_instruments g \<noteq> [] \<and> gr_allowed_actions g \<noteq> []
      \<and> pred_option positive (gr_max_notional g) \<and> pred_option positive (gr_max_loss g))"

lemma make_grant_ok: "make_grant g = Inr h \<Longrightarrow> grant_ok h"
proof -
  assume "make_grant g = Inr h"
  then obtain ins acts mn ml ap where
      parts: "string_scope (gr_allowed_instruments g) = Inr ins"
        "string_scope (gr_allowed_actions g) = Inr acts"
        "optional_positive (gr_max_notional g) = Inr mn" "optional_positive (gr_max_loss g) = Inr ml"
    and h: "gr_allowed_instruments h = ins" "gr_allowed_actions h = acts" "gr_max_notional h = mn"
        "gr_max_loss h = ml"
        "gr_authorization_model h = Some (grant_authorization_model (gr_grant_type g))"
        "gr_grant_type h = gr_grant_type g" "gr_environment h = gr_environment g"
        "gr_state h = gr_state g" "gr_revoked_at h = gr_revoked_at g" "gr_review_at h = gr_review_at g"
        "gr_issued_at h = gr_issued_at g" "gr_expires_at h = gr_expires_at g"
        "gr_starts_at h = Some (case gr_starts_at g of None \<Rightarrow> gr_issued_at g | Some s \<Rightarrow> s)"
        "[gr_grant_id h, gr_thesis_id h, gr_thesis_version h, gr_strategy_version h,
          gr_code_hash h, gr_venue h, gr_account_id h] =
         [gr_grant_id g, gr_thesis_id g, gr_thesis_version g, gr_strategy_version g,
          gr_code_hash g, gr_venue g, gr_account_id g]"
    and texts: "list_all trimmed [gr_grant_id g, gr_thesis_id g, gr_thesis_version g, gr_strategy_version g,
          gr_code_hash g, gr_venue g, gr_account_id g]"
    and times: "gr_issued_at g \<le> (case gr_starts_at g of None \<Rightarrow> gr_issued_at g | Some s \<Rightarrow> s)"
        "(case gr_starts_at g of None \<Rightarrow> gr_issued_at g | Some s \<Rightarrow> s) < gr_expires_at g"
        "pred_option (\<lambda>r. (case gr_starts_at g of None \<Rightarrow> gr_issued_at g | Some s \<Rightarrow> s) \<le> r
           \<and> r \<le> gr_expires_at g) (gr_review_at g)"
        "pred_option (\<lambda>r. gr_issued_at g \<le> r) (gr_revoked_at g)"
        "(gr_state g = GS_REVOKED) = (gr_revoked_at g \<noteq> None)"
        "gr_environment g = grant_environment (gr_grant_type g)"
    unfolding make_grant_def bindE_Inr_iff Let_def
    by (elim exE conjE) (clarsimp simp: not_less not_le)
  from parts have "ins \<noteq> []" "acts \<noteq> []" "pred_option positive mn" "pred_option positive ml"
    by (auto dest: string_scope_normal optional_positive_bounded)
  then show ?thesis
    using texts times unfolding grant_ok_def h by simp
qed

end
