(* ===== verification/Policy.thy ===== *)
theory Policy
  imports Domain
begin

text \<open>
  \<open>policy.py\<close>: exact arithmetic in the module's own decimal context, the compiled platform
  ceilings, the worst-case exposure of an intent and the risk policy of a grant. The lemmas
  show that the arithmetic of admission never under-states an exposure, that it fails only
  with \<open>ValidationError\<close>, and that an accepted order leaves the account within both its
  policy and the compiled ceilings.
\<close>

section \<open>Arithmetic under the fixed context\<close>

definition fixed_decimal_context :: dctx where
  "fixed_decimal_context = \<lparr> prec = 96, rounding = Ceiling, e_min = - 192, e_max = 192 \<rparr>"

interpretation fixed_ctx: upward_context fixed_decimal_context
  by unfold_locales (simp_all add: fixed_decimal_context_def etiny_def etop_def)

definition foundation_allowed_actions :: "string list" where
  "foundation_allowed_actions = [''simulate_order'']"

definition exact_decimal :: "decimal_input \<Rightarrow> decimal result" where
  "exact_decimal v =
     bindE (case v of
        In_Float \<Rightarrow> Inl ValidationError
      | In_Bool \<Rightarrow> Inl ValidationError
      | In_Special \<Rightarrow> Inl ValidationError
      | In_Decimal d \<Rightarrow> Inr d
      | In_Int i \<Rightarrow> Inr (dec_int i)
      | In_Str s \<Rightarrow>
          bindE (guard (trimmed s) ValidationError) (\<lambda>_. of_option ValidationError (parse_decimal s)))
     (\<lambda>d. reraise ValidationError (validate_decimal_bounds d))"

definition checked_result :: "decimal \<Rightarrow> decimal result" where
  "checked_result d = reraise ValidationError (validate_decimal_bounds d)"

definition decimal_add :: "decimal list \<Rightarrow> decimal result" where
  "decimal_add values =
     bindE (foldE (\<lambda>r v. bindE (exact_decimal (In_Decimal v)) (\<lambda>v. dadd fixed_decimal_context r v)) 0 values)
       checked_result"

definition decimal_subtract :: "decimal \<Rightarrow> decimal \<Rightarrow> decimal result" where
  "decimal_subtract left right =
     bindE (exact_decimal (In_Decimal left)) (\<lambda>l.
     bindE (exact_decimal (In_Decimal right)) (\<lambda>r.
     bindE (dsub fixed_decimal_context l r) checked_result))"

definition decimal_multiply :: "decimal \<Rightarrow> decimal \<Rightarrow> decimal result" where
  "decimal_multiply left right =
     bindE (exact_decimal (In_Decimal left)) (\<lambda>l.
     bindE (exact_decimal (In_Decimal right)) (\<lambda>r.
     bindE (dmul fixed_decimal_context l r) checked_result))"

definition decimal_divide :: "decimal \<Rightarrow> decimal \<Rightarrow> decimal result" where
  "decimal_divide numerator denominator =
     bindE (exact_decimal (In_Decimal denominator)) (\<lambda>d.
     bindE (guard (\<not> deq d 0) ValidationError) (\<lambda>_.
     bindE (exact_decimal (In_Decimal numerator)) (\<lambda>n.
     bindE (ddiv fixed_decimal_context n d) checked_result)))"

definition policy_positive :: "decimal_input \<Rightarrow> decimal result" where
  "policy_positive v =
     bindE (exact_decimal v) (\<lambda>d. bindE (guard (\<not> d \<le> 0) ValidationError) (\<lambda>_. Inr d))"

definition policy_nonnegative :: "decimal_input \<Rightarrow> decimal result" where
  "policy_nonnegative v =
     bindE (exact_decimal v) (\<lambda>d. bindE (guard (\<not> d < 0) ValidationError) (\<lambda>_. Inr d))"

lemma exact_decimal_In_Decimal [simp]:
  "exact_decimal (In_Decimal d) = (if bounded d then Inr d else Inl ValidationError)"
  by (simp add: exact_decimal_def validate_decimal_bounds_eq)

lemma exact_decimal_bounded: "exact_decimal v = Inr d \<Longrightarrow> bounded d"
  by (auto simp: exact_decimal_def)

lemma exact_decimal_error: "exact_decimal v = Inl e \<Longrightarrow> e = ValidationError"
  by (auto simp: exact_decimal_def bindE_Inl_iff guard_def of_option_def reraise_def validate_decimal_bounds_eq
      split: decimal_input.splits sum.splits if_splits option.splits)

lemma checked_result_eq: "checked_result d = (if bounded d then Inr d else Inl ValidationError)"
  by (simp add: checked_result_def validate_decimal_bounds_eq)

lemma checked_result_Inr_iff [simp]: "checked_result d = Inr r \<longleftrightarrow> bounded d \<and> r = d"
  by (auto simp: checked_result_eq)

lemma policy_positive_ok: "policy_positive v = Inr d \<Longrightarrow> positive d"
  by (auto simp: policy_positive_def positive_def exact_decimal_bounded not_le_decimal)

lemma policy_nonnegative_ok: "policy_nonnegative v = Inr d \<Longrightarrow> nonnegative d"
  by (auto simp: policy_nonnegative_def nonnegative_def exact_decimal_bounded not_less_decimal)

lemma policy_positive_again: "positive d \<Longrightarrow> policy_positive (In_Decimal d) = Inr d"
  by (simp add: policy_positive_def positive_def dval_simps)

lemma policy_nonnegative_again: "nonnegative d \<Longrightarrow> policy_nonnegative (In_Decimal d) = Inr d"
  by (simp add: policy_nonnegative_def nonnegative_def dval_simps)

text \<open>The results are bounded and never below the exact values.\<close>

lemma decimal_subtract_up: "decimal_subtract a b = Inr r \<Longrightarrow> bounded r \<and> dval a - dval b \<le> dval r"
  by (auto simp: decimal_subtract_def split: if_splits intro: fixed_ctx.dsub_up)

lemma fixed_represents_bounded: "bounded d \<Longrightarrow> representable fixed_decimal_context d"
  by (auto simp: representable_def bounded_def bound_defs fixed_decimal_context_def etiny_def etop_def adjusted_def)

lemma decimal_subtract_le_left: "decimal_subtract a b = Inr r \<Longrightarrow> 0 \<le> dval b \<Longrightarrow> dval r \<le> dval a"
  by (auto simp: decimal_subtract_def fixed_represents_bounded split: if_splits intro: fixed_ctx.dsub_le_left)

lemma decimal_multiply_up: "decimal_multiply a b = Inr r \<Longrightarrow> bounded r \<and> dval a * dval b \<le> dval r"
  by (auto simp: decimal_multiply_def split: if_splits intro: fixed_ctx.dmul_up)

lemma decimal_divide_up:
  "decimal_divide a b = Inr r \<Longrightarrow> 0 \<le> dval a \<Longrightarrow> 0 < dval b \<Longrightarrow> bounded r \<and> dval a / dval b \<le> dval r"
  by (auto simp: decimal_divide_def split: if_splits intro: fixed_ctx.ddiv_up)

lemma decimal_add_two:
  "decimal_add [a, b] = Inr r \<longleftrightarrow> (\<exists>x. bounded a \<and> bounded b \<and> dadd fixed_decimal_context 0 a = Inr x
     \<and> dadd fixed_decimal_context x b = Inr r \<and> bounded r)"
  by (auto simp: decimal_add_def split: if_splits)

lemma decimal_add_up: "decimal_add [a, b] = Inr r \<Longrightarrow> bounded r \<and> dval a + dval b \<le> dval r"
  using fixed_ctx.dadd_up [of 0 a] fixed_ctx.dadd_up [of _ b r]
  by (fastforce simp: decimal_add_two)

lemma decimal_subtract_nonneg: "decimal_subtract a b = Inr r \<Longrightarrow> dval b \<le> dval a \<Longrightarrow> 0 \<le> dval r"
  using decimal_subtract_up [of a b r] by linarith

lemma decimal_multiply_nonneg: "decimal_multiply a b = Inr r \<Longrightarrow> 0 \<le> dval a \<Longrightarrow> 0 \<le> dval b \<Longrightarrow> 0 \<le> dval r"
  using decimal_multiply_up [of a b r] mult_nonneg_nonneg [of "dval a" "dval b"] by linarith

lemma decimal_divide_nonneg: "decimal_divide a b = Inr r \<Longrightarrow> 0 \<le> dval a \<Longrightarrow> 0 < dval b \<Longrightarrow> 0 \<le> dval r"
  using decimal_divide_up [of a b r] divide_nonneg_pos [of "dval a" "dval b"] by linarith

lemma decimal_add_nonneg: "decimal_add [a, b] = Inr r \<Longrightarrow> 0 \<le> dval a \<Longrightarrow> 0 \<le> dval b \<Longrightarrow> 0 \<le> dval r"
  using decimal_add_up [of a b r] by linarith

section \<open>The only failure is a validation error\<close>

lemma fixed_small: "\<bar>dval d\<bar> < 10 ^ 192 \<Longrightarrow> \<exists>r. dfix fixed_decimal_context d = Inr r"
  using fixed_ctx.dfix_total [of d] by (simp add: fixed_decimal_context_def) blast

lemma bounded_add_zero:
  assumes "bounded a"
  shows "dadd fixed_decimal_context 0 a = Inr (exact_add 0 a)"
proof -
  let ?s = "exact_add 0 a"
  have s: "coeff ?s = (if 0 < expo a then coeff a * 10 ^ nat (expo a) else coeff a)"
    "expo ?s = min 0 (expo a)"
    by (auto simp: exact_add_def zero_decimal_def scale_to_def Let_def min_def)
  have "representable fixed_decimal_context ?s"
  proof (cases "coeff a = 0")
    case True
    with assms show ?thesis
      by (auto simp: representable_def s bounded_def bound_defs fixed_decimal_context_def etiny_def)
  next
    case False
    then have nz: "coeff ?s \<noteq> 0" by (simp add: s)
    have "adjusted ?s = adjusted a" using adjusted_cong [of ?s a] nz by simp
    then have "int (ndigits \<bar>coeff ?s\<bar>) + expo ?s = int (ndigits \<bar>coeff a\<bar>) + expo a"
      unfolding adjusted_def by linarith
    moreover have "int (ndigits \<bar>coeff a\<bar>) \<le> 96" "- 96 \<le> expo a"
        "int (ndigits \<bar>coeff a\<bar>) + expo a - 1 \<le> 48"
      using assms False by (auto simp: bounded_def bound_defs adjusted_def)
    moreover have "int (ndigits \<bar>coeff ?s\<bar>) = int (ndigits \<bar>coeff a\<bar>) + expo a - expo ?s"
      using calculation(1) by linarith
    ultimately show ?thesis
      using nz s(2)
      by (auto simp: representable_def fixed_decimal_context_def etiny_def etop_def min_def split: if_splits)
  qed
  then show ?thesis by (simp add: dadd_def fixed_ctx.dfix_representable)
qed

lemma decimal_add_two': "decimal_add [a, b] =
    (if bounded a \<and> bounded b then bindE (dadd fixed_decimal_context (exact_add 0 a) b) checked_result
     else Inl ValidationError)"
  by (simp add: decimal_add_def bounded_add_zero)

lemma decimal_add_error: "decimal_add [a, b] = Inl e \<Longrightarrow> e = ValidationError"
proof -
  assume err: "decimal_add [a, b] = Inl e"
  show ?thesis
  proof (cases "bounded a \<and> bounded b")
    case True
    then have "\<bar>dval (exact_add (exact_add 0 a) b)\<bar> < 10 ^ 192"
      using bounded_magnitude [of a] bounded_magnitude [of b] by simp
    from fixed_small [OF this] err True show ?thesis
      by (auto simp: decimal_add_two' dadd_def checked_result_eq split: if_splits)
  qed (use err in \<open>auto simp: decimal_add_two' split: if_splits\<close>)
qed

lemma decimal_subtract_error: "decimal_subtract a b = Inl e \<Longrightarrow> e = ValidationError"
proof -
  assume err: "decimal_subtract a b = Inl e"
  show ?thesis
  proof (cases "bounded a \<and> bounded b")
    case True
    then have "\<bar>dval (exact_add a (exact_neg b))\<bar> < 10 ^ 192"
      using bounded_magnitude [of a] bounded_magnitude [of b] by simp
    from fixed_small [OF this] err True show ?thesis
      by (auto simp: decimal_subtract_def dsub_def checked_result_eq split: if_splits)
  qed (use err in \<open>auto simp: decimal_subtract_def split: if_splits\<close>)
qed

lemma decimal_multiply_error: "decimal_multiply a b = Inl e \<Longrightarrow> e = ValidationError"
proof -
  assume err: "decimal_multiply a b = Inl e"
  show ?thesis
  proof (cases "bounded a \<and> bounded b")
    case True
    then have "\<bar>dval (exact_mul a b)\<bar> < 10 ^ 49 * 10 ^ 49"
      using mult_strict_mono [OF bounded_magnitude [of a] bounded_magnitude [of b]] by (simp add: abs_mult)
    then have "\<bar>dval (exact_mul a b)\<bar> < 10 ^ 192" by simp
    from fixed_small [OF this] err True show ?thesis
      by (auto simp: decimal_multiply_def dmul_def checked_result_eq split: if_splits)
  qed (use err in \<open>auto simp: decimal_multiply_def split: if_splits\<close>)
qed

lemma decimal_divide_error:
  "decimal_divide a b = Inl e \<Longrightarrow> 0 \<le> dval a \<Longrightarrow> 0 < dval b \<Longrightarrow> e = ValidationError"
proof -
  assume err: "decimal_divide a b = Inl e" and a: "0 \<le> dval a" and b: "0 < dval b"
  show ?thesis
  proof (cases "bounded a \<and> bounded b")
    case True
    then have small: "dval a < 10 ^ 49" using bounded_magnitude [of a] a by simp
    have cb: "0 < coeff b" using b by (simp add: dval_pos_iff)
    have "\<exists>r. ddiv fixed_decimal_context a b = Inr r"
    proof (cases "coeff a = 0")
      case True
      have "\<bar>dval (Dec 0 (expo a - expo b))\<bar> < 10 ^ 192" by simp
      from fixed_small [OF this] True cb show ?thesis by (simp add: fixed_ctx.ddiv_zero)
    next
      case False
      with a have ca: "0 < coeff a" by (metis dval_eq_0_iff dval_pos_iff order_le_less)
      have "(10::rat) powi (- 96) \<le> 10 powi expo b"
        using True by (intro power_int_increasing) (auto simp: bounded_def bound_defs)
      moreover have "10 powi expo b \<le> dval b"
        using cb by (simp add: dval_def)
      ultimately have lo: "(10::rat) powi (- 96) \<le> dval b" by linarith
      have "dval a / dval b \<le> dval a / 10 powi (- 96)"
        using lo a b by (intro divide_left_mono) (simp_all add: zero_less_mult_iff)
      also have "\<dots> = dval a * 10 ^ 96" by (simp add: power_int_def field_simps)
      also have "\<dots> \<le> 10 ^ 49 * 10 ^ 96" using small by (intro mult_right_mono) simp_all
      finally have ratio: "dval a / dval b \<le> dval (Dec 1 145)" by (simp add: dval_def power_int_def)
      have "dval (quotient_digits 96 a b) \<le> dval (Dec 1 145)"
        by (rule quotient_digits_le_bound [OF ca cb _ ratio]) (simp add: ndigits.simps)
      moreover have "0 \<le> dval (quotient_digits 96 a b)"
        using quotient_digits_nonneg [OF ca cb] by (simp add: less_imp_le)
      ultimately have "\<bar>dval (quotient_digits 96 a b)\<bar> < 10 ^ 192" by (simp add: dval_def power_int_def)
      from fixed_small [OF this] ca cb show ?thesis
        by (simp add: fixed_ctx.ddiv_digits) (simp add: fixed_decimal_context_def)
    qed
    then obtain r where "ddiv fixed_decimal_context a b = Inr r" ..
    with err True b show ?thesis
      by (auto simp: decimal_divide_def checked_result_eq deq_dval split: if_splits)
  qed (use err b in \<open>auto simp: decimal_divide_def guard_def split: if_splits\<close>)
qed

lemmas decimal_errors = decimal_add_error decimal_subtract_error decimal_multiply_error decimal_divide_error

section \<open>Platform ceilings\<close>

record platform_ceilings =
  pc_version :: string
  pc_max_order_quantity :: decimal
  pc_max_order_notional :: decimal
  pc_max_order_worst_case_loss :: decimal
  pc_max_account_gross_notional :: decimal
  pc_max_account_worst_case_loss :: decimal
  pc_max_leverage :: decimal
  pc_max_slippage_bps :: decimal
  pc_max_fee_bps :: decimal

definition make_ceilings :: "platform_ceilings \<Rightarrow> platform_ceilings result" where
  "make_ceilings c =
     bindE (guard (pc_version c \<noteq> []) ValidationError) (\<lambda>_.
     bindE (mapE (\<lambda>d. policy_positive (In_Decimal d))
        [pc_max_order_quantity c, pc_max_order_notional c, pc_max_account_gross_notional c, pc_max_leverage c]) (\<lambda>_.
     bindE (mapE (\<lambda>d. policy_nonnegative (In_Decimal d))
        [pc_max_order_worst_case_loss c, pc_max_account_worst_case_loss c, pc_max_slippage_bps c, pc_max_fee_bps c]) (\<lambda>_.
     bindE (guard (\<not> pc_max_account_gross_notional c < pc_max_order_notional c) ValidationError) (\<lambda>_.
     bindE (guard (\<not> pc_max_account_worst_case_loss c < pc_max_order_worst_case_loss c) ValidationError) (\<lambda>_.
     Inr c)))))"

definition hard_platform_ceilings :: platform_ceilings where
  "hard_platform_ceilings =
     \<lparr> pc_version = ''platform-ceilings-v1'',
       pc_max_order_quantity = dec_int 1000000,
       pc_max_order_notional = dec_int 1000000,
       pc_max_order_worst_case_loss = dec_int 250000,
       pc_max_account_gross_notional = dec_int 5000000,
       pc_max_account_worst_case_loss = dec_int 500000,
       pc_max_leverage = dec_int 20,
       pc_max_slippage_bps = dec_int 2500,
       pc_max_fee_bps = dec_int 1000 \<rparr>"

lemma hard_platform_ceilings_valid: "make_ceilings hard_platform_ceilings = Inr hard_platform_ceilings"
  by code_simp

section \<open>The exposure of an intent\<close>

record exposure_quote =
  eq_intent_hash :: string
  eq_quantity :: decimal
  eq_notional :: decimal
  eq_worst_case_loss :: decimal
  eq_slippage_bps :: decimal
  eq_fee_bps :: decimal

definition make_quote :: "exposure_quote \<Rightarrow> exposure_quote result" where
  "make_quote q =
     bindE (guard (eq_intent_hash q \<noteq> []) ValidationError) (\<lambda>_.
     bindE (policy_positive (In_Decimal (eq_quantity q))) (\<lambda>_.
     bindE (policy_positive (In_Decimal (eq_notional q))) (\<lambda>_.
     bindE (policy_nonnegative (In_Decimal (eq_worst_case_loss q))) (\<lambda>_.
     bindE (policy_nonnegative (In_Decimal (eq_slippage_bps q))) (\<lambda>_.
     bindE (policy_nonnegative (In_Decimal (eq_fee_bps q))) (\<lambda>_.
     Inr q))))))"

text \<open>The distance from the execution bound to the protection bound, if the latter reduces the loss.\<close>

definition protection_distance :: "side \<Rightarrow> decimal \<Rightarrow> decimal \<Rightarrow> decimal result" where
  "protection_distance side bound protection =
     (case side of
        BUY \<Rightarrow> bindE (guard (\<not> bound \<le> protection) ValidationError) (\<lambda>_. decimal_subtract bound protection)
      | SELL \<Rightarrow> bindE (guard (\<not> protection \<le> bound) ValidationError) (\<lambda>_. decimal_subtract protection bound))"

definition derive_exposure_quote :: "semantic_intent \<Rightarrow> exposure_quote result" where
  "derive_exposure_quote i =
     bindE (of_option ValidationError (si_price_bound i)) (\<lambda>b.
     bindE (guard (si_leverage i \<noteq> None) ValidationError) (\<lambda>_.
     bindE (exact_decimal (In_Decimal b)) (\<lambda>bound.
     bindE (policy_positive (In_Decimal (si_quantity i))) (\<lambda>quantity.
     bindE (case si_limit_price i of
              None \<Rightarrow> Inr ()
            | Some limit \<Rightarrow>
                require [(\<not> (si_side i = BUY \<and> bound < limit), ValidationError),
                         (\<not> (si_side i = SELL \<and> limit < bound), ValidationError)]) (\<lambda>_.
     bindE (decimal_multiply quantity bound) (\<lambda>notional.
     bindE (case si_protection_limit_price i of
              None \<Rightarrow> Inr notional
            | Some p \<Rightarrow> bindE (protection_distance (si_side i) bound p) (decimal_multiply quantity)) (\<lambda>base_loss.
     bindE (decimal_add [si_max_slippage_bps i, si_fee_bps i]) (\<lambda>total_bps.
     bindE (bindE (decimal_multiply notional total_bps) (\<lambda>n. decimal_divide n (dec_int 10000))) (\<lambda>buffer.
     bindE (semantic_intent_hash i) (\<lambda>h.
     bindE (decimal_add [base_loss, buffer]) (\<lambda>loss.
     make_quote \<lparr> eq_intent_hash = h, eq_quantity = quantity, eq_notional = notional,
       eq_worst_case_loss = loss, eq_slippage_bps = si_max_slippage_bps i, eq_fee_bps = si_fee_bps i \<rparr>)))))))))))"

definition quote_ok :: "exposure_quote \<Rightarrow> bool" where
  "quote_ok q = (eq_intent_hash q \<noteq> [] \<and> positive (eq_quantity q) \<and> positive (eq_notional q)
     \<and> nonnegative (eq_worst_case_loss q) \<and> nonnegative (eq_slippage_bps q) \<and> nonnegative (eq_fee_bps q))"

lemma policy_positive_In [simp]: "policy_positive (In_Decimal d) = Inr r \<longleftrightarrow> positive d \<and> r = d"
  by (auto simp: policy_positive_def positive_def not_le_decimal split: if_splits)

lemma policy_nonnegative_In [simp]: "policy_nonnegative (In_Decimal d) = Inr r \<longleftrightarrow> nonnegative d \<and> r = d"
  by (auto simp: policy_nonnegative_def nonnegative_def not_less_decimal split: if_splits)

lemma make_quote_Inr_iff [simp]: "make_quote q = Inr r \<longleftrightarrow> quote_ok q \<and> r = q"
  by (auto simp: make_quote_def quote_ok_def)

text \<open>The exact worst case the quote stands for, as a rational number.\<close>

definition exact_notional :: "semantic_intent \<Rightarrow> rat" where
  "exact_notional i = (case si_price_bound i of None \<Rightarrow> 0 | Some b \<Rightarrow> dval (si_quantity i) * dval b)"

definition exact_base_loss :: "semantic_intent \<Rightarrow> rat" where
  "exact_base_loss i =
     (case (si_price_bound i, si_protection_limit_price i) of
        (Some b, Some p) \<Rightarrow> dval (si_quantity i) * \<bar>dval b - dval p\<bar>
      | _ \<Rightarrow> exact_notional i)"

definition exact_buffer :: "semantic_intent \<Rightarrow> rat" where
  "exact_buffer i = exact_notional i * (dval (si_max_slippage_bps i) + dval (si_fee_bps i)) / 10000"

lemma protection_distance_up:
  "protection_distance s b p = Inr d \<Longrightarrow> bounded d \<and> \<bar>dval b - dval p\<bar> \<le> dval d"
  by (cases s) (auto simp: protection_distance_def dval_simps dest!: decimal_subtract_up)

lemma bounded_dec_10000: "bounded (dec_int 10000)"
  by code_simp

theorem derive_exposure_quote_covers:
  assumes "derive_exposure_quote i = Inr q"
    and "0 \<le> dval (si_max_slippage_bps i)" "0 \<le> dval (si_fee_bps i)"
  shows "dval (eq_quantity q) = dval (si_quantity i)"
    and "exact_notional i \<le> dval (eq_notional q)"
    and "exact_base_loss i + exact_buffer i \<le> dval (eq_worst_case_loss q)"
proof -
  from assms(1) obtain b notional base bps num buffer h loss where
      b: "si_price_bound i = Some b" and q: "positive (si_quantity i)" "bounded b"
    and notional: "decimal_multiply (si_quantity i) b = Inr notional"
    and base: "(case si_protection_limit_price i of None \<Rightarrow> Inr notional
        | Some p \<Rightarrow> bindE (protection_distance (si_side i) b p) (decimal_multiply (si_quantity i))) = Inr base"
    and bps: "decimal_add [si_max_slippage_bps i, si_fee_bps i] = Inr bps"
    and num: "decimal_multiply notional bps = Inr num"
    and buffer: "decimal_divide num (dec_int 10000) = Inr buffer"
    and loss: "decimal_add [base, buffer] = Inr loss"
    and res: "q = \<lparr> eq_intent_hash = h, eq_quantity = si_quantity i, eq_notional = notional,
       eq_worst_case_loss = loss, eq_slippage_bps = si_max_slippage_bps i, eq_fee_bps = si_fee_bps i \<rparr>"
    and ok: "quote_ok q"
    unfolding derive_exposure_quote_def bindE_Inr_iff
    by (elim exE conjE) (clarsimp split: if_splits)
  have qpos: "0 < dval (si_quantity i)" using q(1) by (simp add: positive_def dval_simps)
  have n: "dval (si_quantity i) * dval b \<le> dval notional" using decimal_multiply_up [OF notional] by simp
  have npos: "0 \<le> dval notional"
    using ok by (auto simp: res quote_ok_def positive_def dval_simps)
  have "exact_base_loss i \<le> dval base"
  proof (cases "si_protection_limit_price i")
    case None
    with base n show ?thesis by (simp add: exact_base_loss_def exact_notional_def b)
  next
    case (Some p)
    with base obtain d where d: "protection_distance (si_side i) b p = Inr d"
        "decimal_multiply (si_quantity i) d = Inr base" by auto
    have "dval (si_quantity i) * \<bar>dval b - dval p\<bar> \<le> dval (si_quantity i) * dval d"
      using qpos protection_distance_up [OF d(1)] by (intro mult_left_mono) auto
    also have "\<dots> \<le> dval base" using decimal_multiply_up [OF d(2)] by simp
    finally show ?thesis using Some by (simp add: exact_base_loss_def b)
  qed
  moreover have "exact_buffer i \<le> dval buffer"
  proof -
    have t: "0 \<le> dval (si_max_slippage_bps i) + dval (si_fee_bps i)" using assms by simp
    have "dval (si_quantity i) * dval b * (dval (si_max_slippage_bps i) + dval (si_fee_bps i)) \<le> dval notional * dval bps"
      using n t npos decimal_add_up [OF bps] by (intro mult_mono) auto
    also have "\<dots> \<le> dval num" using decimal_multiply_up [OF num] by simp
    finally have "exact_buffer i \<le> dval num / 10000"
      by (simp add: exact_buffer_def exact_notional_def b divide_right_mono)
    moreover have "0 \<le> dval num"
    proof -
      have "0 \<le> dval notional * dval bps" using npos t decimal_add_up [OF bps] by (intro mult_nonneg_nonneg) auto
      with decimal_multiply_up [OF num] show ?thesis by linarith
    qed
    ultimately show ?thesis using decimal_divide_up [OF buffer] by simp
  qed
  moreover have "dval base + dval buffer \<le> dval loss" using decimal_add_up [OF loss] by simp
  ultimately show "exact_base_loss i + exact_buffer i \<le> dval (eq_worst_case_loss q)" by (simp add: res)
  show "dval (eq_quantity q) = dval (si_quantity i)" "exact_notional i \<le> dval (eq_notional q)"
    using n by (simp_all add: res exact_notional_def b)
qed

section \<open>Account exposure\<close>

record account_exposure =
  ae_reserved_notional :: decimal
  ae_reserved_loss :: decimal
  ae_booked_notional :: decimal
  ae_booked_loss :: decimal

definition make_exposure :: "account_exposure \<Rightarrow> account_exposure result" where
  "make_exposure x =
     bindE (mapE (\<lambda>d. policy_nonnegative (In_Decimal d))
       [ae_reserved_notional x, ae_reserved_loss x, ae_booked_notional x, ae_booked_loss x]) (\<lambda>_. Inr x)"

definition gross_notional :: "account_exposure \<Rightarrow> decimal result" where
  "gross_notional x = decimal_add [ae_reserved_notional x, ae_booked_notional x]"

definition exposure_worst_case_loss :: "account_exposure \<Rightarrow> decimal result" where
  "exposure_worst_case_loss x = decimal_add [ae_reserved_loss x, ae_booked_loss x]"

definition exposure_ok :: "account_exposure \<Rightarrow> bool" where
  "exposure_ok x = list_all nonnegative
     [ae_reserved_notional x, ae_reserved_loss x, ae_booked_notional x, ae_booked_loss x]"

lemma make_exposure_Inr_iff [simp]: "make_exposure x = Inr y \<longleftrightarrow> exposure_ok x \<and> y = x"
  by (auto simp: make_exposure_def exposure_ok_def)

section \<open>Risk policies\<close>

record 'd risk_policy_of =
  rp_policy_id :: string
  rp_version :: string
  rp_max_order_quantity :: 'd
  rp_max_order_notional :: 'd
  rp_max_order_worst_case_loss :: 'd
  rp_max_account_gross_notional :: 'd
  rp_max_account_worst_case_loss :: 'd
  rp_max_leverage :: 'd
  rp_max_slippage_bps :: 'd
  rp_max_fee_bps :: 'd
  rp_allowed_instruments :: "string list"
  rp_allowed_actions :: "string list"
  rp_allowed_order_types :: "string list"

type_synonym risk_policy = "decimal risk_policy_of"

text \<open>\<open>tuple (dict.fromkeys (items))\<close> keeps the first occurrence of each item.\<close>

definition dedupe :: "'a list \<Rightarrow> 'a list" where
  "dedupe xs = rev (remdups (rev xs))"

definition policy_names :: "string list \<Rightarrow> string list result" where
  "policy_names items =
     bindE (guard (list_all trimmed items) ValidationError) (\<lambda>_.
     bindE (guard (dedupe items \<noteq> []) ValidationError) (\<lambda>_. Inr (dedupe items)))"

definition make_policy :: "decimal_input risk_policy_of \<Rightarrow> risk_policy result" where
  "make_policy p =
     bindE (guard (rp_policy_id p \<noteq> [] \<and> rp_version p \<noteq> []) ValidationError) (\<lambda>_.
     bindE (policy_positive (rp_max_order_quantity p)) (\<lambda>quantity.
     bindE (policy_positive (rp_max_order_notional p)) (\<lambda>notional.
     bindE (policy_positive (rp_max_account_gross_notional p)) (\<lambda>gross.
     bindE (policy_positive (rp_max_leverage p)) (\<lambda>leverage.
     bindE (policy_nonnegative (rp_max_order_worst_case_loss p)) (\<lambda>loss.
     bindE (policy_nonnegative (rp_max_account_worst_case_loss p)) (\<lambda>account_loss.
     bindE (policy_nonnegative (rp_max_slippage_bps p)) (\<lambda>slippage.
     bindE (policy_nonnegative (rp_max_fee_bps p)) (\<lambda>fee.
     bindE (policy_names (rp_allowed_instruments p)) (\<lambda>instruments.
     bindE (policy_names (rp_allowed_actions p)) (\<lambda>actions.
     bindE (policy_names (rp_allowed_order_types p)) (\<lambda>types.
     bindE (guard (\<not> gross < notional) ValidationError) (\<lambda>_.
     bindE (guard (\<not> account_loss < loss) ValidationError) (\<lambda>_.
     Inr \<lparr> rp_policy_id = rp_policy_id p, rp_version = rp_version p,
           rp_max_order_quantity = quantity, rp_max_order_notional = notional,
           rp_max_order_worst_case_loss = loss, rp_max_account_gross_notional = gross,
           rp_max_account_worst_case_loss = account_loss, rp_max_leverage = leverage,
           rp_max_slippage_bps = slippage, rp_max_fee_bps = fee,
           rp_allowed_instruments = instruments, rp_allowed_actions = actions,
           rp_allowed_order_types = types \<rparr>))))))))))))))"

text \<open>The pairs \<open>validate_ceiling\<close> compares: configured limit, injected ceiling, compiled ceiling.\<close>

definition ceiling_checks :: "risk_policy \<Rightarrow> platform_ceilings \<Rightarrow> (decimal \<times> decimal \<times> decimal) list" where
  "ceiling_checks p c =
     (let h = hard_platform_ceilings in
      [(rp_max_order_quantity p, pc_max_order_quantity c, pc_max_order_quantity h),
       (rp_max_order_notional p, pc_max_order_notional c, pc_max_order_notional h),
       (rp_max_order_worst_case_loss p, pc_max_order_worst_case_loss c, pc_max_order_worst_case_loss h),
       (rp_max_account_gross_notional p, pc_max_account_gross_notional c, pc_max_account_gross_notional h),
       (rp_max_account_worst_case_loss p, pc_max_account_worst_case_loss c, pc_max_account_worst_case_loss h),
       (rp_max_leverage p, pc_max_leverage c, pc_max_leverage h),
       (rp_max_slippage_bps p, pc_max_slippage_bps c, pc_max_slippage_bps h),
       (rp_max_fee_bps p, pc_max_fee_bps c, pc_max_fee_bps h)])"

definition validate_ceiling :: "risk_policy \<Rightarrow> platform_ceilings \<Rightarrow> unit result" where
  "validate_ceiling p c =
     require (map (\<lambda>(configured, given, hard).
        (\<not> dmin given hard < configured, PolicyViolation ''PLATFORM_CEILING_EXCEEDED'')) (ceiling_checks p c))"

definition order_checks ::
    "risk_policy \<Rightarrow> decimal \<Rightarrow> exposure_quote \<Rightarrow> decimal \<Rightarrow> decimal \<Rightarrow> (string \<times> decimal \<times> decimal) list" where
  "order_checks p leverage q post_notional post_loss =
     [(''ORDER_QUANTITY_LIMIT'', eq_quantity q, rp_max_order_quantity p),
      (''ORDER_NOTIONAL_LIMIT'', eq_notional q, rp_max_order_notional p),
      (''ORDER_LOSS_LIMIT'', eq_worst_case_loss q, rp_max_order_worst_case_loss p),
      (''LEVERAGE_LIMIT'', leverage, rp_max_leverage p),
      (''SLIPPAGE_LIMIT'', eq_slippage_bps q, rp_max_slippage_bps p),
      (''FEE_LIMIT'', eq_fee_bps q, rp_max_fee_bps p),
      (''ACCOUNT_NOTIONAL_LIMIT'', post_notional, rp_max_account_gross_notional p),
      (''ACCOUNT_LOSS_LIMIT'', post_loss, rp_max_account_worst_case_loss p)]"

definition validate_order ::
    "risk_policy \<Rightarrow> string \<Rightarrow> string \<Rightarrow> string \<Rightarrow> decimal \<Rightarrow> exposure_quote \<Rightarrow> account_exposure \<Rightarrow>
     platform_ceilings \<Rightarrow> unit result" where
  "validate_order p instrument action order_type leverage q current ceilings =
     bindE (validate_ceiling p ceilings) (\<lambda>_.
     bindE (policy_positive (In_Decimal leverage)) (\<lambda>leverage.
     bindE (require
       [(action \<in> set foundation_allowed_actions, PolicyViolation ''PLATFORM_ACTION_NOT_ALLOWED''),
        (\<not> (rp_allowed_instruments p \<noteq> [] \<and> ''*'' \<notin> set (rp_allowed_instruments p)
            \<and> instrument \<notin> set (rp_allowed_instruments p)), PolicyViolation ''INSTRUMENT_NOT_ALLOWED''),
        (\<not> (''*'' \<notin> set (rp_allowed_actions p) \<and> action \<notin> set (rp_allowed_actions p)),
          PolicyViolation ''ACTION_NOT_ALLOWED''),
        (\<not> (''*'' \<notin> set (rp_allowed_order_types p) \<and> order_type \<notin> set (rp_allowed_order_types p)),
          PolicyViolation ''ORDER_TYPE_NOT_ALLOWED'')]) (\<lambda>_.
     bindE (bindE (gross_notional current) (\<lambda>g. decimal_add [g, eq_notional q])) (\<lambda>post_notional.
     bindE (bindE (exposure_worst_case_loss current) (\<lambda>l. decimal_add [l, eq_worst_case_loss q])) (\<lambda>post_loss.
     require (map (\<lambda>(code, actual, limit). (\<not> limit < actual, PolicyViolation code))
       (order_checks p leverage q post_notional post_loss)))))))"

definition policy_ok :: "risk_policy \<Rightarrow> bool" where
  "policy_ok p =
     (rp_policy_id p \<noteq> [] \<and> rp_version p \<noteq> []
      \<and> list_all positive [rp_max_order_quantity p, rp_max_order_notional p,
           rp_max_account_gross_notional p, rp_max_leverage p]
      \<and> list_all nonnegative [rp_max_order_worst_case_loss p, rp_max_account_worst_case_loss p,
           rp_max_slippage_bps p, rp_max_fee_bps p]
      \<and> list_all (\<lambda>v. v \<noteq> [] \<and> list_all trimmed v \<and> distinct v)
           [rp_allowed_instruments p, rp_allowed_actions p, rp_allowed_order_types p]
      \<and> rp_max_order_notional p \<le> rp_max_account_gross_notional p
      \<and> rp_max_order_worst_case_loss p \<le> rp_max_account_worst_case_loss p)"

text \<open>Every limit of a policy lies under the compiled ceilings.\<close>

definition within_hard_ceilings :: "risk_policy \<Rightarrow> bool" where
  "within_hard_ceilings p =
     (let h = hard_platform_ceilings in
      rp_max_order_quantity p \<le> pc_max_order_quantity h
      \<and> rp_max_order_notional p \<le> pc_max_order_notional h
      \<and> rp_max_order_worst_case_loss p \<le> pc_max_order_worst_case_loss h
      \<and> rp_max_account_gross_notional p \<le> pc_max_account_gross_notional h
      \<and> rp_max_account_worst_case_loss p \<le> pc_max_account_worst_case_loss h
      \<and> rp_max_leverage p \<le> pc_max_leverage h
      \<and> rp_max_slippage_bps p \<le> pc_max_slippage_bps h
      \<and> rp_max_fee_bps p \<le> pc_max_fee_bps h)"

lemma set_dedupe [simp]: "set (dedupe xs) = set xs" and distinct_dedupe [simp]: "distinct (dedupe xs)"
  and dedupe_Nil_iff [simp]: "dedupe xs = [] \<longleftrightarrow> xs = []"
  by (simp_all add: dedupe_def)

lemma dedupe_distinct: "distinct xs \<Longrightarrow> dedupe xs = xs"
  by (simp add: dedupe_def distinct_remdups_id)

lemma policy_names_Inr_iff: "policy_names xs = Inr ys \<longleftrightarrow> list_all trimmed xs \<and> xs \<noteq> [] \<and> ys = dedupe xs"
  by (auto simp: policy_names_def)

lemma policy_names_ok: "policy_names xs = Inr ys \<Longrightarrow> ys \<noteq> [] \<and> list_all trimmed ys \<and> distinct ys"
  by (auto simp: policy_names_Inr_iff list_all_iff)

lemma policy_names_again: "ys \<noteq> [] \<and> list_all trimmed ys \<and> distinct ys \<Longrightarrow> policy_names ys = Inr ys"
  by (simp add: policy_names_Inr_iff dedupe_distinct)

lemma make_policy_ok: "make_policy p = Inr r \<Longrightarrow> policy_ok r"
  unfolding make_policy_def bindE_Inr_iff
  by (elim exE conjE)
    (auto simp: policy_ok_def not_less_decimal dest!: policy_positive_ok policy_nonnegative_ok policy_names_ok)

lemma validate_ceiling_hard: "validate_ceiling p c = Inr u \<Longrightarrow> within_hard_ceilings p"
  by (auto simp: validate_ceiling_def ceiling_checks_def within_hard_ceilings_def Let_def dval_simps not_less)

text \<open>What an accepted order guarantees, whatever ceilings the caller injected.\<close>

theorem validate_order_bounds:
  assumes "validate_order p instrument action order_type leverage q current ceilings = Inr u"
  shows "within_hard_ceilings p"
    and "action = ''simulate_order''"
    and "eq_quantity q \<le> rp_max_order_quantity p \<and> eq_notional q \<le> rp_max_order_notional p
       \<and> eq_worst_case_loss q \<le> rp_max_order_worst_case_loss p \<and> leverage \<le> rp_max_leverage p
       \<and> eq_slippage_bps q \<le> rp_max_slippage_bps p \<and> eq_fee_bps q \<le> rp_max_fee_bps p"
    and "dval (ae_reserved_notional current) + dval (ae_booked_notional current) + dval (eq_notional q)
       \<le> dval (rp_max_account_gross_notional p)"
    and "dval (ae_reserved_loss current) + dval (ae_booked_loss current) + dval (eq_worst_case_loss q)
       \<le> dval (rp_max_account_worst_case_loss p)"
proof -
  from assms obtain g n l m where
      ceiling: "validate_ceiling p ceilings = Inr ()" and lev: "positive leverage"
    and act: "action \<in> set foundation_allowed_actions"
    and g: "gross_notional current = Inr g" "decimal_add [g, eq_notional q] = Inr n"
    and l: "exposure_worst_case_loss current = Inr l" "decimal_add [l, eq_worst_case_loss q] = Inr m"
    and checks: "list_all (fst \<circ> (\<lambda>(code, actual, limit). (\<not> limit < actual, PolicyViolation code)))
        (order_checks p leverage q n m)"
    unfolding validate_order_def bindE_Inr_iff by (elim exE conjE) (simp add: list.pred_map)
  note limits = checks [unfolded order_checks_def, simplified, unfolded not_less_decimal]
  show "within_hard_ceilings p" using ceiling by (rule validate_ceiling_hard)
  show "action = ''simulate_order''" using act by (simp add: foundation_allowed_actions_def)
  show "eq_quantity q \<le> rp_max_order_quantity p \<and> eq_notional q \<le> rp_max_order_notional p
       \<and> eq_worst_case_loss q \<le> rp_max_order_worst_case_loss p \<and> leverage \<le> rp_max_leverage p
       \<and> eq_slippage_bps q \<le> rp_max_slippage_bps p \<and> eq_fee_bps q \<le> rp_max_fee_bps p"
    using limits by blast
  have "n \<le> rp_max_account_gross_notional p" "m \<le> rp_max_account_worst_case_loss p" using limits by blast+
  then show "dval (ae_reserved_notional current) + dval (ae_booked_notional current) + dval (eq_notional q)
       \<le> dval (rp_max_account_gross_notional p)"
    "dval (ae_reserved_loss current) + dval (ae_booked_loss current) + dval (eq_worst_case_loss q)
       \<le> dval (rp_max_account_worst_case_loss p)"
    using decimal_add_up [OF g(2)] decimal_add_up [OF l(2)] g(1) l(1)
    unfolding gross_notional_def exposure_worst_case_loss_def dval_simps
    by (auto dest!: decimal_add_up)
qed

section \<open>The stored form of a policy\<close>

text \<open>
  \<open>to_dict\<close> writes every limit as its canonical text and the name lists as lists; the dictionary
  is the record with texts for limits. \<open>from_dict\<close> parses the limits and calls the constructor.
\<close>

definition policy_to_dict :: "risk_policy \<Rightarrow> string risk_policy_of result" where
  "policy_to_dict p =
     bindE (canonical_decimal (rp_max_order_quantity p)) (\<lambda>quantity.
     bindE (canonical_decimal (rp_max_order_notional p)) (\<lambda>notional.
     bindE (canonical_decimal (rp_max_order_worst_case_loss p)) (\<lambda>loss.
     bindE (canonical_decimal (rp_max_account_gross_notional p)) (\<lambda>gross.
     bindE (canonical_decimal (rp_max_account_worst_case_loss p)) (\<lambda>account_loss.
     bindE (canonical_decimal (rp_max_leverage p)) (\<lambda>leverage.
     bindE (canonical_decimal (rp_max_slippage_bps p)) (\<lambda>slippage.
     bindE (canonical_decimal (rp_max_fee_bps p)) (\<lambda>fee.
     Inr \<lparr> rp_policy_id = rp_policy_id p, rp_version = rp_version p,
           rp_max_order_quantity = quantity, rp_max_order_notional = notional,
           rp_max_order_worst_case_loss = loss, rp_max_account_gross_notional = gross,
           rp_max_account_worst_case_loss = account_loss, rp_max_leverage = leverage,
           rp_max_slippage_bps = slippage, rp_max_fee_bps = fee,
           rp_allowed_instruments = rp_allowed_instruments p, rp_allowed_actions = rp_allowed_actions p,
           rp_allowed_order_types = rp_allowed_order_types p \<rparr>))))))))"

definition policy_from_dict :: "string risk_policy_of \<Rightarrow> risk_policy result" where
  "policy_from_dict v =
     bindE (exact_decimal (In_Str (rp_max_order_quantity v))) (\<lambda>quantity.
     bindE (exact_decimal (In_Str (rp_max_order_notional v))) (\<lambda>notional.
     bindE (exact_decimal (In_Str (rp_max_order_worst_case_loss v))) (\<lambda>loss.
     bindE (exact_decimal (In_Str (rp_max_account_gross_notional v))) (\<lambda>gross.
     bindE (exact_decimal (In_Str (rp_max_account_worst_case_loss v))) (\<lambda>account_loss.
     bindE (exact_decimal (In_Str (rp_max_leverage v))) (\<lambda>leverage.
     bindE (exact_decimal (In_Str (rp_max_slippage_bps v))) (\<lambda>slippage.
     bindE (exact_decimal (In_Str (rp_max_fee_bps v))) (\<lambda>fee.
     make_policy
       \<lparr> rp_policy_id = rp_policy_id v, rp_version = rp_version v,
         rp_max_order_quantity = In_Decimal quantity, rp_max_order_notional = In_Decimal notional,
         rp_max_order_worst_case_loss = In_Decimal loss, rp_max_account_gross_notional = In_Decimal gross,
         rp_max_account_worst_case_loss = In_Decimal account_loss, rp_max_leverage = In_Decimal leverage,
         rp_max_slippage_bps = In_Decimal slippage, rp_max_fee_bps = In_Decimal fee,
         rp_allowed_instruments = rp_allowed_instruments v, rp_allowed_actions = rp_allowed_actions v,
         rp_allowed_order_types = rp_allowed_order_types v \<rparr>))))))))"

definition same_policy :: "risk_policy \<Rightarrow> risk_policy \<Rightarrow> bool" where
  "same_policy p q =
     (rp_policy_id p = rp_policy_id q \<and> rp_version p = rp_version q
      \<and> deq (rp_max_order_quantity p) (rp_max_order_quantity q)
      \<and> deq (rp_max_order_notional p) (rp_max_order_notional q)
      \<and> deq (rp_max_order_worst_case_loss p) (rp_max_order_worst_case_loss q)
      \<and> deq (rp_max_account_gross_notional p) (rp_max_account_gross_notional q)
      \<and> deq (rp_max_account_worst_case_loss p) (rp_max_account_worst_case_loss q)
      \<and> deq (rp_max_leverage p) (rp_max_leverage q)
      \<and> deq (rp_max_slippage_bps p) (rp_max_slippage_bps q)
      \<and> deq (rp_max_fee_bps p) (rp_max_fee_bps q)
      \<and> rp_allowed_instruments p = rp_allowed_instruments q
      \<and> rp_allowed_actions p = rp_allowed_actions q
      \<and> rp_allowed_order_types p = rp_allowed_order_types q)"

text \<open>The number a decimal becomes when it is written and read back: same value, canonical exponent.\<close>

definition db_decimal :: "decimal \<Rightarrow> decimal" where
  "db_decimal d = the (parse_decimal (canonical_text d))"

definition db_policy :: "risk_policy \<Rightarrow> risk_policy" where
  "db_policy p =
     p\<lparr>rp_max_order_quantity := db_decimal (rp_max_order_quantity p),
       rp_max_order_notional := db_decimal (rp_max_order_notional p),
       rp_max_order_worst_case_loss := db_decimal (rp_max_order_worst_case_loss p),
       rp_max_account_gross_notional := db_decimal (rp_max_account_gross_notional p),
       rp_max_account_worst_case_loss := db_decimal (rp_max_account_worst_case_loss p),
       rp_max_leverage := db_decimal (rp_max_leverage p),
       rp_max_slippage_bps := db_decimal (rp_max_slippage_bps p),
       rp_max_fee_bps := db_decimal (rp_max_fee_bps p)\<rparr>"

lemma trimmed_digits: "s \<noteq> [] \<Longrightarrow> list_all (\<lambda>c. \<not> isspace c) s \<Longrightarrow> trimmed s"
  by (simp add: trimmed_ends list_all_iff)

lemma point_members:
  "c \<in> set s \<Longrightarrow> c \<in> set (takeWhile (\<lambda>c. c \<noteq> CHR ''.'') s) \<or> c = CHR ''.''
     \<or> c \<in> set (tl (dropWhile (\<lambda>c. c \<noteq> CHR ''.'') s))"
  by (induction s) auto

lemma magnitude_text_nonspace: "magnitude_text d \<noteq> [] \<and> list_all (\<lambda>c. \<not> isspace c) (magnitude_text d)"
proof -
  let ?s = "magnitude_text d"
  have "fixed_shape ?s" using magnitude_text_fixed by blast
  then have shape: "takeWhile (\<lambda>c. c \<noteq> CHR ''.'') ?s \<noteq> []"
      "list_all is_digit (takeWhile (\<lambda>c. c \<noteq> CHR ''.'') ?s @ tl (dropWhile (\<lambda>c. c \<noteq> CHR ''.'') ?s))"
    by (simp_all add: fixed_shape_def Let_def)
  have digit: "\<not> isspace c" if "is_digit c" for c
    using that by (auto simp: is_digit_def isspace_def Let_def)
  have "c \<in> set (takeWhile (\<lambda>c. c \<noteq> CHR ''.'') ?s) \<or> c = CHR ''.'' \<or> c \<in> set (tl (dropWhile (\<lambda>c. c \<noteq> CHR ''.'') ?s))"
    if "c \<in> set ?s" for c
    using that by (rule point_members)
  then have "\<not> isspace c" if "c \<in> set ?s" for c
    using that shape(2) digit by (force simp: list_all_iff isspace_def)
  moreover have "?s \<noteq> []" using shape(1) by auto
  ultimately show ?thesis by (simp add: list_all_iff)
qed

lemma canonical_text_trimmed: "trimmed (canonical_text d)"
proof (cases "coeff d = 0")
  case True
  then have "canonical_text d = ''0''" by (simp add: canonical_text_def)
  then show ?thesis by (simp add: trimmed_ends isspace_def)
next
  case False
  have minus: "\<not> isspace (CHR ''-'')" by (simp add: isspace_def)
  show ?thesis
    using magnitude_text_nonspace [of d] minus
    by (simp add: canonical_text_magnitude [OF False] trimmed_digits)
qed

lemma db_decimal_facts:
  assumes "bounded d"
  shows "exact_decimal (In_Str (canonical_text d)) = Inr (db_decimal d)"
    and "dval (db_decimal d) = dval d" and "bounded (db_decimal d)"
proof -
  have "canonical_decimal d = Inr (canonical_text d)" using assms by (simp add: canonical_decimal_Inr_iff)
  from canonical_decimal_roundtrip [OF this] obtain r where
    r: "parse_decimal (canonical_text d) = Some r" "dval r = dval d" "bounded r" by blast
  then show "dval (db_decimal d) = dval d" "bounded (db_decimal d)" by (simp_all add: db_decimal_def)
  show "exact_decimal (In_Str (canonical_text d)) = Inr (db_decimal d)"
    using r canonical_text_trimmed by (simp add: exact_decimal_def db_decimal_def of_option_def validate_decimal_bounds_eq)
qed

lemma db_positive: "positive d \<Longrightarrow> positive (db_decimal d)"
  and db_nonnegative: "nonnegative d \<Longrightarrow> nonnegative (db_decimal d)"
  by (auto simp: positive_def nonnegative_def dval_simps db_decimal_facts)

theorem policy_dict_roundtrip:
  assumes "policy_ok p"
  shows "\<exists>v. policy_to_dict p = Inr v \<and> policy_from_dict v = Inr (db_policy p) \<and> same_policy p (db_policy p)"
proof -
  let ?t = "canonical_text"
  define v where "v = \<lparr> rp_policy_id = rp_policy_id p, rp_version = rp_version p,
    rp_max_order_quantity = ?t (rp_max_order_quantity p), rp_max_order_notional = ?t (rp_max_order_notional p),
    rp_max_order_worst_case_loss = ?t (rp_max_order_worst_case_loss p),
    rp_max_account_gross_notional = ?t (rp_max_account_gross_notional p),
    rp_max_account_worst_case_loss = ?t (rp_max_account_worst_case_loss p),
    rp_max_leverage = ?t (rp_max_leverage p), rp_max_slippage_bps = ?t (rp_max_slippage_bps p),
    rp_max_fee_bps = ?t (rp_max_fee_bps p), rp_allowed_instruments = rp_allowed_instruments p,
    rp_allowed_actions = rp_allowed_actions p, rp_allowed_order_types = rp_allowed_order_types p \<rparr>"
  from assms have pos: "positive (rp_max_order_quantity p)" "positive (rp_max_order_notional p)"
      "positive (rp_max_account_gross_notional p)" "positive (rp_max_leverage p)"
    and nonneg: "nonnegative (rp_max_order_worst_case_loss p)" "nonnegative (rp_max_account_worst_case_loss p)"
      "nonnegative (rp_max_slippage_bps p)" "nonnegative (rp_max_fee_bps p)"
    and names: "policy_names (rp_allowed_instruments p) = Inr (rp_allowed_instruments p)"
      "policy_names (rp_allowed_actions p) = Inr (rp_allowed_actions p)"
      "policy_names (rp_allowed_order_types p) = Inr (rp_allowed_order_types p)"
    by (auto simp: policy_ok_def intro: policy_names_again)
  have canon: "canonical_decimal d = Inr (?t d)" if "bounded d" for d
    using that by (simp add: canonical_decimal_Inr_iff)
  have b: "bounded d" if "positive d \<or> nonnegative d" for d
    using that by (auto simp: positive_def nonnegative_def)
  have "policy_to_dict p = Inr v"
    using pos nonneg by (simp add: policy_to_dict_def v_def canon b)
  moreover have "policy_from_dict v = Inr (db_policy p)"
    using pos nonneg names assms
    by (simp add: policy_from_dict_def v_def db_decimal_facts b make_policy_def policy_positive_again
        policy_nonnegative_again db_positive db_nonnegative policy_ok_def db_policy_def dval_simps not_less)
  moreover have "same_policy p (db_policy p)"
    using pos nonneg by (simp add: same_policy_def db_policy_def deq_dval db_decimal_facts b)
  ultimately show ?thesis by blast
qed

end
