(* ===== verification/Store.thy ===== *)
theory Store
  imports Policy
begin

text \<open>
  \<open>store.py\<close> and \<open>admission.py\<close>: the durable store as a record of tables, every public method
  that changes it as one transaction from a store to a store, and the admission service in
  front of it. A transaction that raises is rolled back, so its model returns the exception
  and no store. A column that holds a canonical decimal text is modelled by the decimal it
  reads back as, a timestamp column by the instant, a policy column by the dictionary.
\<close>

section \<open>Rows\<close>

datatype command_state =
    Queued | Submitted_Unknown | Partially_Filled | Filled | Canceled | Rejected | Expired

datatype outbox_state = Pending | Outbox_Revoked | Blocked_Unknown | Observed_Fill | Terminal

definition terminal_command_states :: "command_state list" where
  "terminal_command_states = [Canceled, Rejected, Expired, Filled]"

definition releasing_command_states :: "command_state list" where
  "releasing_command_states = [Canceled, Rejected, Expired]"

record grant_row =
  dg_grant_id :: string
  dg_thesis_id :: string
  dg_thesis_version :: string
  dg_strategy_version :: string
  dg_code_hash :: string
  dg_venue :: string
  dg_account_id :: string
  dg_environment :: environment
  dg_grant_type :: grant_type
  dg_authorization_model :: authorization_model
  dg_issued_at :: instant
  dg_starts_at :: instant
  dg_expires_at :: instant
  dg_state :: grant_state
  dg_allowed_instruments :: "string list"
  dg_allowed_actions :: "string list"
  dg_max_notional :: "decimal option"
  dg_max_loss :: "decimal option"
  dg_policy :: "string risk_policy_of"
  dg_revoked_at :: "instant option"
  dg_review_at :: "instant option"

record authorization_row =
  az_authorization_id :: string
  az_intent_hash :: string
  az_grant_id :: string
  az_account_id :: string
  az_environment :: environment
  az_issued_at :: instant
  az_expires_at :: instant
  az_audience :: string
  az_state :: authorization_state
  az_command_id :: "string option"
  az_updated_at :: instant

record exposure_row =
  ax_account_id :: string
  ax_environment :: environment
  ax_reserved_notional :: decimal
  ax_reserved_loss :: decimal
  ax_booked_notional :: decimal
  ax_booked_loss :: decimal
  ax_updated_at :: instant

record command_row =
  cm_command_id :: string
  cm_authorization_id :: string
  cm_grant_id :: string
  cm_account_id :: string
  cm_environment :: environment
  cm_venue :: string
  cm_client_order_id :: string
  cm_signal_instance_hash :: "string option"
  cm_intent_hash :: string
  cm_state :: command_state
  cm_requested_quantity :: decimal
  cm_reserved_quantity :: decimal
  cm_booked_quantity :: decimal
  cm_released_quantity :: decimal
  cm_original_notional :: decimal
  cm_reserved_notional :: decimal
  cm_booked_notional :: decimal
  cm_released_notional :: decimal
  cm_original_loss :: decimal
  cm_reserved_loss :: decimal
  cm_booked_loss :: decimal
  cm_released_loss :: decimal
  cm_payload_json :: string
  cm_created_at :: instant
  cm_updated_at :: instant

record outbox_row =
  ob_outbox_id :: nat
  ob_command_id :: string
  ob_state :: outbox_state
  ob_topic :: string
  ob_payload_json :: string
  ob_attempts :: nat
  ob_created_at :: instant
  ob_updated_at :: instant

definition dispatchable :: "outbox_row \<Rightarrow> bool" where
  "dispatchable x = (ob_state x = Pending)"

record store =
  grants :: "grant_row list"
  authorizations :: "authorization_row list"
  exposures :: "exposure_row list"
  commands :: "command_row list"
  outbox :: "outbox_row list"
  next_outbox_id :: nat

definition empty_store :: store where
  "empty_store = \<lparr> grants = [], authorizations = [], exposures = [], commands = [], outbox = [],
     next_outbox_id = 1 \<rparr>"

definition exposure_key :: "exposure_row \<Rightarrow> string \<times> environment" where
  "exposure_key x = (ax_account_id x, ax_environment x)"

text \<open>A column written with \<open>_decimal_text\<close> and read with \<open>Decimal\<close>.\<close>

definition decimal_column :: "decimal \<Rightarrow> decimal result" where
  "decimal_column d =
     bindE (exact_decimal (In_Decimal d)) (\<lambda>d.
     bindE (canonical_decimal d) (\<lambda>s. of_option ValueError (parse_decimal s)))"

definition optional_decimal_column :: "decimal option \<Rightarrow> decimal option result" where
  "optional_decimal_column x =
     (case x of None \<Rightarrow> Inr None | Some d \<Rightarrow> bindE (decimal_column d) (\<lambda>r. Inr (Some r)))"

lemma decimal_column_eq: "decimal_column d = (if bounded d then Inr (db_decimal d) else Inl ValidationError)"
proof (cases "bounded d")
  case True
  then have "canonical_decimal d = Inr (canonical_text d)" by (simp add: canonical_decimal_Inr_iff)
  moreover obtain r where "parse_decimal (canonical_text d) = Some r" using parse_canonical_text by blast
  ultimately show ?thesis using True by (simp add: decimal_column_def db_decimal_def of_option_def)
qed (simp add: decimal_column_def)

lemma decimal_column_Inr_iff [simp]: "decimal_column d = Inr r \<longleftrightarrow> bounded d \<and> r = db_decimal d"
  by (auto simp: decimal_column_eq)

section \<open>Registering and revoking authority\<close>

definition grant_starts_at :: "deployment_grant \<Rightarrow> instant" where
  "grant_starts_at g = (case gr_starts_at g of None \<Rightarrow> gr_issued_at g | Some s \<Rightarrow> s)"

definition grant_model :: "deployment_grant \<Rightarrow> authorization_model" where
  "grant_model g =
     (case gr_authorization_model g of None \<Rightarrow> grant_authorization_model (gr_grant_type g) | Some m \<Rightarrow> m)"

definition register_deployment_grant ::
    "deployment_grant \<Rightarrow> risk_policy \<Rightarrow> platform_ceilings \<Rightarrow> store \<Rightarrow> store result" where
  "register_deployment_grant g p ceilings db =
     bindE (require
       [(gr_grant_type g = INFRASTRUCTURE_TESTNET, ValidationError),
        (grant_model g = INFRASTRUCTURE, ValidationError),
        (gr_environment g = TESTNET, ValidationError),
        (set (gr_allowed_actions g) = set foundation_allowed_actions, ValidationError)]) (\<lambda>_.
     bindE (validate_ceiling p ceilings) (\<lambda>_.
     bindE (optional_decimal_column (gr_max_notional g)) (\<lambda>max_notional.
     bindE (optional_decimal_column (gr_max_loss g)) (\<lambda>max_loss.
     bindE (policy_to_dict p) (\<lambda>policy.
     bindE (table_insert dg_grant_id
        \<lparr> dg_grant_id = gr_grant_id g, dg_thesis_id = gr_thesis_id g,
          dg_thesis_version = gr_thesis_version g, dg_strategy_version = gr_strategy_version g,
          dg_code_hash = gr_code_hash g, dg_venue = gr_venue g, dg_account_id = gr_account_id g,
          dg_environment = gr_environment g, dg_grant_type = gr_grant_type g,
          dg_authorization_model = grant_model g, dg_issued_at = gr_issued_at g,
          dg_starts_at = grant_starts_at g, dg_expires_at = gr_expires_at g, dg_state = gr_state g,
          dg_allowed_instruments = gr_allowed_instruments g, dg_allowed_actions = gr_allowed_actions g,
          dg_max_notional = max_notional, dg_max_loss = max_loss, dg_policy = policy,
          dg_revoked_at = gr_revoked_at g, dg_review_at = gr_review_at g \<rparr> (grants db)) (\<lambda>rows.
     Inr (db\<lparr>grants := rows\<rparr>)))))))"

text \<open>The foreign key to \<open>deployment_grants\<close> makes an insert with an unknown grant fail like a duplicate.\<close>

definition register_authorization :: "authorization \<Rightarrow> store \<Rightarrow> store result" where
  "register_authorization a db =
     bindE (require
       [(au_state a = AS_ISSUED, ValidationError),
        (au_environment a = TESTNET, ValidationError),
        (table_find dg_grant_id (au_grant_id a) (grants db) \<noteq> None, StateConflict)]) (\<lambda>_.
     bindE (table_insert az_authorization_id
        \<lparr> az_authorization_id = au_authorization_id a, az_intent_hash = au_intent_hash a,
          az_grant_id = au_grant_id a, az_account_id = au_account_id a,
          az_environment = au_environment a, az_issued_at = au_issued_at a,
          az_expires_at = au_expires_at a, az_audience = au_audience a, az_state = au_state a,
          az_command_id = None, az_updated_at = au_issued_at a \<rparr> (authorizations db)) (\<lambda>rows.
     Inr (db\<lparr>authorizations := rows\<rparr>)))"

definition make_outbox_nondispatchable :: "string \<Rightarrow> outbox_state \<Rightarrow> instant \<Rightarrow> store \<Rightarrow> store" where
  "make_outbox_nondispatchable command_id state now db =
     db\<lparr>outbox := table_update (\<lambda>x. ob_command_id x = command_id \<and> ob_state x = Pending)
          (\<lambda>x. x\<lparr>ob_state := state, ob_updated_at := now\<rparr>) (outbox db)\<rparr>"

definition revoke_grant :: "string \<Rightarrow> instant \<Rightarrow> store \<Rightarrow> store result" where
  "revoke_grant grant_id now db =
     bindE (guard (list_ex (\<lambda>g. dg_grant_id g = grant_id \<and> dg_state g \<noteq> GS_REVOKED) (grants db)) StateConflict) (\<lambda>_.
     Inr (db\<lparr>grants := table_update (\<lambda>g. dg_grant_id g = grant_id \<and> dg_state g \<noteq> GS_REVOKED)
              (\<lambda>g. g\<lparr>dg_state := GS_REVOKED, dg_revoked_at := Some now\<rparr>) (grants db),
            outbox := table_update
              (\<lambda>x. ob_state x = Pending
                 \<and> list_ex (\<lambda>c. cm_command_id c = ob_command_id x \<and> cm_grant_id c = grant_id) (commands db))
              (\<lambda>x. x\<lparr>ob_state := Outbox_Revoked, ob_updated_at := now\<rparr>) (outbox db)\<rparr>))"

definition revoke_authorization :: "string \<Rightarrow> instant \<Rightarrow> store \<Rightarrow> store result" where
  "revoke_authorization authorization_id now db =
     bindE (of_option RecordNotFound (table_find az_authorization_id authorization_id (authorizations db))) (\<lambda>row.
     bindE (guard (az_state row \<in> {AS_ISSUED, AS_CONSUMING}) StateConflict) (\<lambda>_.
     (let db1 = db\<lparr>authorizations := table_update (\<lambda>a. az_authorization_id a = authorization_id)
            (\<lambda>a. a\<lparr>az_state := AS_REVOKED, az_updated_at := now\<rparr>) (authorizations db)\<rparr>
      in Inr (case az_command_id row of
                None \<Rightarrow> db1
              | Some c \<Rightarrow> make_outbox_nondispatchable c Outbox_Revoked now db1))))"

section \<open>Account exposure rows\<close>

definition ensure_account_row :: "string \<Rightarrow> environment \<Rightarrow> instant \<Rightarrow> store \<Rightarrow> store" where
  "ensure_account_row account env now db =
     (if table_find exposure_key (account, env) (exposures db) = None
      then db\<lparr>exposures := exposures db @
             [\<lparr> ax_account_id = account, ax_environment = env, ax_reserved_notional = 0,
                ax_reserved_loss = 0, ax_booked_notional = 0, ax_booked_loss = 0, ax_updated_at = now \<rparr>]\<rparr>
      else db)"

definition row_exposure :: "exposure_row \<Rightarrow> account_exposure result" where
  "row_exposure r =
     make_exposure \<lparr> ae_reserved_notional = ax_reserved_notional r, ae_reserved_loss = ax_reserved_loss r,
       ae_booked_notional = ax_booked_notional r, ae_booked_loss = ax_booked_loss r \<rparr>"

definition read_exposure :: "string \<Rightarrow> environment \<Rightarrow> store \<Rightarrow> account_exposure result" where
  "read_exposure account env db =
     bindE (of_option StorageError (table_find exposure_key (account, env) (exposures db))) row_exposure"

definition write_exposure ::
    "string \<Rightarrow> environment \<Rightarrow> account_exposure \<Rightarrow> instant \<Rightarrow> store \<Rightarrow> store result" where
  "write_exposure account env x now db =
     bindE (decimal_column (ae_reserved_notional x)) (\<lambda>reserved_notional.
     bindE (decimal_column (ae_reserved_loss x)) (\<lambda>reserved_loss.
     bindE (decimal_column (ae_booked_notional x)) (\<lambda>booked_notional.
     bindE (decimal_column (ae_booked_loss x)) (\<lambda>booked_loss.
     bindE (guard (table_find exposure_key (account, env) (exposures db) \<noteq> None) StorageError) (\<lambda>_.
     Inr (db\<lparr>exposures := table_update (\<lambda>r. exposure_key r = (account, env))
        (\<lambda>r. r\<lparr>ax_reserved_notional := reserved_notional, ax_reserved_loss := reserved_loss,
               ax_booked_notional := booked_notional, ax_booked_loss := booked_loss,
               ax_updated_at := now\<rparr>) (exposures db)\<rparr>))))))"

definition get_exposure :: "string \<Rightarrow> environment \<Rightarrow> store \<Rightarrow> account_exposure result" where
  "get_exposure account env db =
     (case table_find exposure_key (account, env) (exposures db) of
        None \<Rightarrow> Inr \<lparr> ae_reserved_notional = 0, ae_reserved_loss = 0, ae_booked_notional = 0, ae_booked_loss = 0 \<rparr>
      | Some r \<Rightarrow> row_exposure r)"

section \<open>Admission\<close>

text \<open>Dataclass equality of quotes: texts are equal and decimals are numerically equal.\<close>

definition same_quote :: "exposure_quote \<Rightarrow> exposure_quote \<Rightarrow> bool" where
  "same_quote a b =
     (eq_intent_hash a = eq_intent_hash b \<and> deq (eq_quantity a) (eq_quantity b)
      \<and> deq (eq_notional a) (eq_notional b) \<and> deq (eq_worst_case_loss a) (eq_worst_case_loss b)
      \<and> deq (eq_slippage_bps a) (eq_slippage_bps b) \<and> deq (eq_fee_bps a) (eq_fee_bps b))"

text \<open>\<open>except ValidationError as exc: raise AdmissionDenied ("RISK_ECONOMICS_INVALID", ...)\<close>.\<close>

definition deny_invalid_economics :: "'a result \<Rightarrow> 'a result" where
  "deny_invalid_economics m =
     (case m of Inl e \<Rightarrow> Inl (if e = ValidationError then AdmissionDenied ''RISK_ECONOMICS_INVALID'' else e)
      | Inr x \<Rightarrow> Inr x)"

record admit_request =
  ar_intent :: semantic_intent
  ar_quote :: exposure_quote
  ar_authorization_id :: string
  ar_command_id :: string
  ar_audience :: string
  ar_authorization_model :: authorization_model

text \<open>The checks before the transaction: the intent's digest and the quote derived from it.\<close>

definition admission_prechecks :: "admit_request \<Rightarrow> instant \<Rightarrow> (string \<times> exposure_quote) result" where
  "admission_prechecks r now =
     (let i = ar_intent r in
     bindE (require
       [(ar_command_id r \<noteq> [], ValidationError),
        (ar_authorization_id r \<noteq> [] \<and> ar_audience r \<noteq> [], ValidationError)]) (\<lambda>_.
     bindE (semantic_intent_hash i) (\<lambda>h.
     bindE (require
       [(si_environment i = TESTNET, AdmissionDenied ''PLATFORM_ENVIRONMENT_NOT_ALLOWED''),
        (ar_authorization_model r = INFRASTRUCTURE, AdmissionDenied ''PLATFORM_AUTHORIZATION_MODEL_NOT_ALLOWED''),
        (si_action i \<in> set foundation_allowed_actions, AdmissionDenied ''PLATFORM_ACTION_NOT_ALLOWED'')]) (\<lambda>_.
     bindE (deny_invalid_economics (derive_exposure_quote i)) (\<lambda>derived.
     bindE (require
       [(same_quote (ar_quote r) derived, AdmissionDenied ''RISK_QUOTE_ECONOMICS_MISMATCH''),
        (\<not> si_expires_at i \<le> now, AdmissionDenied ''INTENT_EXPIRED'')]) (\<lambda>_.
     Inr (h, derived)))))))"

definition authorization_checks ::
    "admit_request \<Rightarrow> string \<Rightarrow> instant \<Rightarrow> authorization_row \<Rightarrow> unit result" where
  "authorization_checks r h now a =
     require
       [(az_state a = AS_ISSUED, AdmissionDenied ''AUTHORIZATION_ALREADY_USED''),
        (az_intent_hash a = h, AdmissionDenied ''AUTHORIZATION_HASH_MISMATCH''),
        (\<not> (az_account_id a \<noteq> si_account_id (ar_intent r) \<or> az_environment a \<noteq> si_environment (ar_intent r)),
          AdmissionDenied ''AUTHORIZATION_SCOPE_MISMATCH''),
        (az_audience a = ar_audience r, AdmissionDenied ''AUTHORIZATION_AUDIENCE_MISMATCH''),
        (az_issued_at a \<le> now \<and> now < az_expires_at a, AdmissionDenied ''AUTHORIZATION_INACTIVE'')]"

definition grant_checks :: "admit_request \<Rightarrow> exposure_quote \<Rightarrow> instant \<Rightarrow> grant_row \<Rightarrow> unit result" where
  "grant_checks r q now g =
     (let i = ar_intent r in
      require
       [(\<not> (dg_grant_type g \<noteq> INFRASTRUCTURE_TESTNET \<or> dg_authorization_model g \<noteq> INFRASTRUCTURE
            \<or> dg_environment g \<noteq> TESTNET), AdmissionDenied ''PLATFORM_GRANT_TYPE_NOT_ALLOWED''),
        (dg_state g = GS_ACTIVE, AdmissionDenied ''GRANT_INACTIVE''),
        (dg_starts_at g \<le> now \<and> now < dg_expires_at g, AdmissionDenied ''GRANT_INACTIVE''),
        (\<not> (dg_account_id g \<noteq> si_account_id i \<or> dg_environment g \<noteq> si_environment i \<or> dg_venue g \<noteq> si_venue i),
          AdmissionDenied ''GRANT_SCOPE_MISMATCH''),
        (dg_authorization_model g = ar_authorization_model r, AdmissionDenied ''GRANT_AUTHORIZATION_MODEL_MISMATCH''),
        (dg_thesis_id g = si_thesis_id i, AdmissionDenied ''GRANT_VERSION_MISMATCH''),
        (dg_thesis_version g = si_thesis_version i, AdmissionDenied ''GRANT_VERSION_MISMATCH''),
        (dg_strategy_version g = si_strategy_version i, AdmissionDenied ''GRANT_VERSION_MISMATCH''),
        (dg_code_hash g = si_code_hash i, AdmissionDenied ''GRANT_VERSION_MISMATCH''),
        (\<not> (''*'' \<notin> set (dg_allowed_instruments g) \<and> si_instrument i \<notin> set (dg_allowed_instruments g)),
          AdmissionDenied ''GRANT_INSTRUMENT_NOT_ALLOWED''),
        (\<not> (''*'' \<notin> set (dg_allowed_actions g) \<and> si_action i \<notin> set (dg_allowed_actions g)),
          AdmissionDenied ''GRANT_ACTION_NOT_ALLOWED''),
        (pred_option (\<lambda>m. \<not> m < eq_notional q) (dg_max_notional g), PolicyViolation ''GRANT_NOTIONAL_LIMIT''),
        (pred_option (\<lambda>m. \<not> m < eq_worst_case_loss q) (dg_max_loss g), PolicyViolation ''GRANT_LOSS_LIMIT'')])"

text \<open>
  The compare-and-set that consumes the authorization. An update that matches no issued row changes
  nothing and is reported as a conflict. When it does match, its \<open>command_id\<close> column is unique, so
  SQLite refuses the update if another authorization already carries the command; nothing catches
  that error.
\<close>

definition consume_authorization :: "string \<Rightarrow> string \<Rightarrow> instant \<Rightarrow> store \<Rightarrow> store result" where
  "consume_authorization authorization_id command_id now db =
     bindE (guard (list_ex (\<lambda>a. az_authorization_id a = authorization_id \<and> az_state a = AS_ISSUED)
        (authorizations db)) StateConflict) (\<lambda>_.
     bindE (guard (\<not> list_ex (\<lambda>a. az_command_id a = Some command_id \<and> az_authorization_id a \<noteq> authorization_id)
        (authorizations db)) IntegrityError) (\<lambda>_.
     Inr (db\<lparr>authorizations := table_update
        (\<lambda>a. az_authorization_id a = authorization_id \<and> az_state a = AS_ISSUED)
        (\<lambda>a. a\<lparr>az_state := AS_CONSUMING, az_command_id := Some command_id, az_updated_at := now\<rparr>)
        (authorizations db)\<rparr>)))"

text \<open>The unique constraints of \<open>commands\<close> and of \<open>outbox\<close>.\<close>

definition client_order_key :: "command_row \<Rightarrow> string \<times> string \<times> environment \<times> string" where
  "client_order_key c = (cm_venue c, cm_account_id c, cm_environment c, cm_client_order_id c)"

definition signal_key :: "command_row \<Rightarrow> (string \<times> environment \<times> string) option" where
  "signal_key c = map_option (\<lambda>h. (cm_account_id c, cm_environment c, h)) (cm_signal_instance_hash c)"

definition command_unique :: "command_row \<Rightarrow> store \<Rightarrow> bool" where
  "command_unique c db =
     (list_all (\<lambda>d. cm_authorization_id d \<noteq> cm_authorization_id c \<and> client_order_key d \<noteq> client_order_key c
         \<and> (signal_key c = None \<or> signal_key d \<noteq> signal_key c)) (commands db)
      \<and> list_all (\<lambda>x. ob_command_id x \<noteq> cm_command_id c) (outbox db))"

definition insert_command :: "command_row \<Rightarrow> instant \<Rightarrow> store \<Rightarrow> store result" where
  "insert_command c now db =
     bindE (guard (command_unique c db) StateConflict) (\<lambda>_.
     bindE (table_insert cm_command_id c (commands db)) (\<lambda>rows.
     Inr (db\<lparr>commands := rows,
            outbox := outbox db @ [\<lparr> ob_outbox_id = next_outbox_id db, ob_command_id = cm_command_id c,
              ob_state = Pending, ob_topic = ''execute_semantic_intent'',
              ob_payload_json = cm_payload_json c, ob_attempts = 0, ob_created_at = now,
              ob_updated_at = now \<rparr>],
            next_outbox_id := Suc (next_outbox_id db)\<rparr>)))"

definition queued_command ::
    "admit_request \<Rightarrow> string \<Rightarrow> exposure_quote \<Rightarrow> string \<Rightarrow> instant \<Rightarrow> command_row result" where
  "queued_command r h q grant_id now =
     (let i = ar_intent r in
     bindE (canonical_json (intent_val i)) (\<lambda>payload.
     bindE (decimal_column (eq_quantity q)) (\<lambda>quantity.
     bindE (decimal_column (eq_notional q)) (\<lambda>notional.
     bindE (decimal_column (eq_worst_case_loss q)) (\<lambda>loss.
     Inr \<lparr> cm_command_id = ar_command_id r, cm_authorization_id = ar_authorization_id r,
           cm_grant_id = grant_id, cm_account_id = si_account_id i, cm_environment = si_environment i,
           cm_venue = si_venue i, cm_client_order_id = si_client_order_id i,
           cm_signal_instance_hash = si_signal_instance_hash i, cm_intent_hash = h, cm_state = Queued,
           cm_requested_quantity = quantity, cm_reserved_quantity = quantity, cm_booked_quantity = 0,
           cm_released_quantity = 0, cm_original_notional = notional, cm_reserved_notional = notional,
           cm_booked_notional = 0, cm_released_notional = 0, cm_original_loss = loss,
           cm_reserved_loss = loss, cm_booked_loss = 0, cm_released_loss = 0,
           cm_payload_json = payload, cm_created_at = now, cm_updated_at = now \<rparr>)))))"

definition atomically_admit ::
    "admit_request \<Rightarrow> instant \<Rightarrow> platform_ceilings \<Rightarrow> store \<Rightarrow> (store \<times> command_row) result" where
  "atomically_admit r now ceilings db =
     (let i = ar_intent r in
     bindE (admission_prechecks r now) (\<lambda>(h, q).
     bindE (of_option (AdmissionDenied ''AUTHORIZATION_NOT_FOUND'')
        (table_find az_authorization_id (ar_authorization_id r) (authorizations db))) (\<lambda>a.
     bindE (authorization_checks r h now a) (\<lambda>_.
     bindE (of_option StorageError (table_find dg_grant_id (az_grant_id a) (grants db))) (\<lambda>g.
     bindE (grant_checks r q now g) (\<lambda>_.
     bindE (policy_from_dict (dg_policy g)) (\<lambda>policy.
     (let db1 = ensure_account_row (si_account_id i) (si_environment i) now db in
     bindE (read_exposure (si_account_id i) (si_environment i) db1) (\<lambda>current.
     bindE (validate_order policy (si_instrument i) (si_action i) (order_type_value (si_order_type i))
        (case si_leverage i of None \<Rightarrow> dec_int 1 | Some l \<Rightarrow> l) q current ceilings) (\<lambda>_.
     bindE (consume_authorization (ar_authorization_id r) (ar_command_id r) now db1) (\<lambda>db2.
     bindE (queued_command r h q (dg_grant_id g) now) (\<lambda>c.
     bindE (insert_command c now db2) (\<lambda>db3.
     bindE (decimal_add [ae_reserved_notional current, eq_notional q]) (\<lambda>reserved_notional.
     bindE (decimal_add [ae_reserved_loss current, eq_worst_case_loss q]) (\<lambda>reserved_loss.
     bindE (make_exposure \<lparr> ae_reserved_notional = reserved_notional, ae_reserved_loss = reserved_loss,
        ae_booked_notional = ae_booked_notional current, ae_booked_loss = ae_booked_loss current \<rparr>) (\<lambda>x.
     bindE (write_exposure (si_account_id i) (si_environment i) x now db3) (\<lambda>db4.
     bindE (of_option StorageError (table_find cm_command_id (ar_command_id r) (commands db4))) (\<lambda>row.
     Inr (db4, row)))))))))))))))))))"

text \<open>\<open>AdmissionRequest\<close> and \<open>AdmissionService.admit\<close> in front of the store.\<close>

definition make_admission_request :: "admit_request \<Rightarrow> admit_request result" where
  "make_admission_request r =
     bindE (guard (list_all trimmed [ar_authorization_id r, ar_command_id r, ar_audience r]) ValidationError)
       (\<lambda>_. Inr r)"

record admission_service =
  as_audience :: string
  as_ceilings :: platform_ceilings

definition make_admission_service :: "string \<Rightarrow> platform_ceilings \<Rightarrow> admission_service result" where
  "make_admission_service audience ceilings =
     bindE (guard (trimmed audience) ValidationError)
       (\<lambda>_. Inr \<lparr> as_audience = audience, as_ceilings = ceilings \<rparr>)"

definition admit ::
    "admission_service \<Rightarrow> admit_request \<Rightarrow> instant \<Rightarrow> store \<Rightarrow> (store \<times> command_row) result" where
  "admit s r now db =
     bindE (guard (ar_audience r = as_audience s) (AdmissionDenied ''ADMISSION_AUDIENCE_MISMATCH'')) (\<lambda>_.
     atomically_admit (r\<lparr>ar_audience := as_audience s\<rparr>) now (as_ceilings s) db)"

section \<open>Command lifecycle\<close>

definition update_command :: "string \<Rightarrow> (command_row \<Rightarrow> command_row) \<Rightarrow> store \<Rightarrow> store" where
  "update_command command_id f db =
     db\<lparr>commands := table_update (\<lambda>c. cm_command_id c = command_id) f (commands db)\<rparr>"

definition mark_consumed :: "string \<Rightarrow> instant \<Rightarrow> store \<Rightarrow> store" where
  "mark_consumed authorization_id now db =
     db\<lparr>authorizations := table_update
          (\<lambda>a. az_authorization_id a = authorization_id \<and> az_state a = AS_CONSUMING)
          (\<lambda>a. a\<lparr>az_state := AS_CONSUMED, az_updated_at := now\<rparr>) (authorizations db)\<rparr>"

definition command_row_locked :: "string \<Rightarrow> store \<Rightarrow> command_row result" where
  "command_row_locked command_id db =
     of_option RecordNotFound (table_find cm_command_id command_id (commands db))"

definition mark_unknown :: "string \<Rightarrow> instant \<Rightarrow> store \<Rightarrow> (store \<times> command_row) result" where
  "mark_unknown command_id now db =
     bindE (command_row_locked command_id db) (\<lambda>row.
     bindE (guard (cm_state row \<notin> set terminal_command_states) StateConflict) (\<lambda>_.
     (let db1 = update_command command_id
            (\<lambda>c. c\<lparr>cm_state := Submitted_Unknown, cm_updated_at := now\<rparr>) db;
          db2 = mark_consumed (cm_authorization_id row) now db1;
          db3 = make_outbox_nondispatchable command_id Blocked_Unknown now db2
      in bindE (command_row_locked command_id db3) (\<lambda>updated. Inr (db3, updated)))))"

text \<open>The booked notional and loss a cumulative fill stands for: pro rata, exact when complete.\<close>

definition fill_target :: "decimal \<Rightarrow> decimal \<Rightarrow> decimal \<Rightarrow> decimal result" where
  "fill_target original cumulative requested =
     (if deq cumulative requested then Inr original
      else bindE (decimal_multiply original cumulative) (\<lambda>n. decimal_divide n requested))"

record fill_amounts =
  fa_target_notional :: decimal
  fa_target_loss :: decimal
  fa_delta_notional :: decimal
  fa_delta_loss :: decimal
  fa_reserved_notional :: decimal
  fa_reserved_loss :: decimal
  fa_reserved_quantity :: decimal

definition fill_conversion :: "command_row \<Rightarrow> decimal \<Rightarrow> fill_amounts result" where
  "fill_conversion row cumulative =
     bindE (guard (cm_state row \<notin> set releasing_command_states) StateConflict) (\<lambda>_.
     bindE (guard (\<not> cumulative < cm_booked_quantity row) StateConflict) (\<lambda>_.
     bindE (decimal_subtract (cm_requested_quantity row) (cm_released_quantity row)) (\<lambda>unreleased.
     bindE (guard (\<not> unreleased < cumulative) StateConflict) (\<lambda>_.
     bindE (fill_target (cm_original_notional row) cumulative (cm_requested_quantity row)) (\<lambda>target_notional.
     bindE (fill_target (cm_original_loss row) cumulative (cm_requested_quantity row)) (\<lambda>target_loss.
     bindE (decimal_subtract target_notional (cm_booked_notional row)) (\<lambda>delta_notional.
     bindE (decimal_subtract target_loss (cm_booked_loss row)) (\<lambda>delta_loss.
     bindE (decimal_subtract cumulative (cm_booked_quantity row)) (\<lambda>delta_quantity.
     bindE (decimal_subtract (cm_reserved_notional row) delta_notional) (\<lambda>reserved_notional.
     bindE (decimal_subtract (cm_reserved_loss row) delta_loss) (\<lambda>reserved_loss.
     bindE (decimal_subtract (cm_reserved_quantity row) delta_quantity) (\<lambda>reserved_quantity.
     bindE (guard (\<not> dmin (dmin reserved_notional reserved_loss) reserved_quantity < 0) StorageError) (\<lambda>_.
     Inr \<lparr> fa_target_notional = target_notional, fa_target_loss = target_loss,
           fa_delta_notional = delta_notional, fa_delta_loss = delta_loss,
           fa_reserved_notional = reserved_notional, fa_reserved_loss = reserved_loss,
           fa_reserved_quantity = reserved_quantity \<rparr>)))))))))))))"

definition fill_exposure :: "account_exposure \<Rightarrow> fill_amounts \<Rightarrow> account_exposure result" where
  "fill_exposure x f =
     bindE (decimal_subtract (ae_reserved_notional x) (fa_delta_notional f)) (\<lambda>reserved_notional.
     bindE (decimal_subtract (ae_reserved_loss x) (fa_delta_loss f)) (\<lambda>reserved_loss.
     bindE (decimal_add [ae_booked_notional x, fa_delta_notional f]) (\<lambda>booked_notional.
     bindE (decimal_add [ae_booked_loss x, fa_delta_loss f]) (\<lambda>booked_loss.
     make_exposure \<lparr> ae_reserved_notional = reserved_notional, ae_reserved_loss = reserved_loss,
       ae_booked_notional = booked_notional, ae_booked_loss = booked_loss \<rparr>))))"

definition record_fill :: "string \<Rightarrow> decimal_input \<Rightarrow> instant \<Rightarrow> store \<Rightarrow> (store \<times> command_row) result" where
  "record_fill command_id cumulative_filled_quantity now db =
     bindE (exact_decimal cumulative_filled_quantity) (\<lambda>cumulative.
     bindE (guard (\<not> cumulative < 0) ValidationError) (\<lambda>_.
     bindE (command_row_locked command_id db) (\<lambda>row.
     bindE (fill_conversion row cumulative) (\<lambda>f.
     (let account = cm_account_id row; env = cm_environment row;
          db1 = ensure_account_row account env now db
      in bindE (read_exposure account env db1) (\<lambda>exposure.
     bindE (fill_exposure exposure f) (\<lambda>updated_exposure.
     bindE (decimal_column (fa_reserved_quantity f)) (\<lambda>reserved_quantity.
     bindE (decimal_column cumulative) (\<lambda>booked_quantity.
     bindE (decimal_column (fa_reserved_notional f)) (\<lambda>reserved_notional.
     bindE (decimal_column (fa_target_notional f)) (\<lambda>booked_notional.
     bindE (decimal_column (fa_reserved_loss f)) (\<lambda>reserved_loss.
     bindE (decimal_column (fa_target_loss f)) (\<lambda>booked_loss.
     (let state = (if deq cumulative (cm_requested_quantity row) then Filled else Partially_Filled);
          db2 = update_command command_id
            (\<lambda>c. c\<lparr>cm_state := state, cm_reserved_quantity := reserved_quantity,
                   cm_booked_quantity := booked_quantity, cm_reserved_notional := reserved_notional,
                   cm_booked_notional := booked_notional, cm_reserved_loss := reserved_loss,
                   cm_booked_loss := booked_loss, cm_updated_at := now\<rparr>) db1;
          db3 = mark_consumed (cm_authorization_id row) now db2;
          db4 = make_outbox_nondispatchable command_id Observed_Fill now db3
      in bindE (write_exposure account env updated_exposure now db4) (\<lambda>db5.
         bindE (command_row_locked command_id db5) (\<lambda>updated. Inr (db5, updated)))))))))))))))))"

definition mark_terminal ::
    "string \<Rightarrow> command_state \<Rightarrow> instant \<Rightarrow> store \<Rightarrow> (store \<times> command_row) result" where
  "mark_terminal command_id state now db =
     bindE (guard (state \<in> set releasing_command_states) ValidationError) (\<lambda>_.
     bindE (command_row_locked command_id db) (\<lambda>row.
     bindE (guard (cm_state row \<notin> set terminal_command_states) StateConflict) (\<lambda>_.
     bindE (guard (cm_state row = Queued) StateConflict) (\<lambda>_.
     (let account = cm_account_id row; env = cm_environment row
      in bindE (read_exposure account env db) (\<lambda>exposure.
     bindE (decimal_subtract (ae_reserved_notional exposure) (cm_reserved_notional row)) (\<lambda>account_notional.
     bindE (decimal_subtract (ae_reserved_loss exposure) (cm_reserved_loss row)) (\<lambda>account_loss.
     bindE (make_exposure \<lparr> ae_reserved_notional = account_notional, ae_reserved_loss = account_loss,
        ae_booked_notional = ae_booked_notional exposure, ae_booked_loss = ae_booked_loss exposure \<rparr>) (\<lambda>updated_exposure.
     bindE (bindE (decimal_add [cm_released_quantity row, cm_reserved_quantity row]) decimal_column) (\<lambda>quantity.
     bindE (bindE (decimal_add [cm_released_notional row, cm_reserved_notional row]) decimal_column) (\<lambda>notional.
     bindE (bindE (decimal_add [cm_released_loss row, cm_reserved_loss row]) decimal_column) (\<lambda>loss.
     (let db1 = update_command command_id
            (\<lambda>c. c\<lparr>cm_state := state, cm_reserved_quantity := 0, cm_reserved_notional := 0,
                   cm_reserved_loss := 0, cm_released_quantity := quantity,
                   cm_released_notional := notional, cm_released_loss := loss, cm_updated_at := now\<rparr>) db;
          db2 = mark_consumed (cm_authorization_id row) now db1;
          db3 = make_outbox_nondispatchable command_id Terminal now db2
      in bindE (write_exposure account env updated_exposure now db3) (\<lambda>db4.
         bindE (command_row_locked command_id db4) (\<lambda>updated. Inr (db4, updated))))))))))))))))"

text \<open>The public methods that change the store, as the steps of one system.\<close>

datatype store_op =
    Register_Grant deployment_grant risk_policy platform_ceilings
  | Register_Authorization authorization
  | Revoke_Grant string instant
  | Revoke_Authorization string instant
  | Admit admit_request instant platform_ceilings
  | Mark_Unknown string instant
  | Record_Fill string decimal_input instant
  | Mark_Terminal string command_state instant

definition drop_result :: "('a \<times> 'b) result \<Rightarrow> 'a result" where
  "drop_result m = bindE m (\<lambda>(a, _). Inr a)"

fun store_step :: "store_op \<Rightarrow> store \<Rightarrow> store result" where
  "store_step (Register_Grant g p c) db = register_deployment_grant g p c db"
| "store_step (Register_Authorization a) db = register_authorization a db"
| "store_step (Revoke_Grant g now) db = revoke_grant g now db"
| "store_step (Revoke_Authorization a now) db = revoke_authorization a now db"
| "store_step (Admit r now c) db = drop_result (atomically_admit r now c db)"
| "store_step (Mark_Unknown c now) db = drop_result (mark_unknown c now db)"
| "store_step (Record_Fill c q now) db = drop_result (record_fill c q now db)"
| "store_step (Mark_Terminal c s now) db = drop_result (mark_terminal c s now db)"

end
