(* ===== verification/Store_Invariant.thy ===== *)
theory Store_Invariant
  imports Store
begin

text \<open>
  What holds in every store the public methods can reach. The tables are read through their
  keys, so each method is described by what its look-ups return before and after; the
  interpretations of \<open>keyed_table\<close> provide those equations. The invariant links commands,
  authorizations, grants and outbox rows, and makes a pending outbox row imply unspent,
  unrevoked authority; a queued command holds its whole reservation and a filled one has booked all
  it requested.
\<close>

section \<open>The tables as keyed tables\<close>

interpretation grant_table: keyed_table dg_grant_id "table_find dg_grant_id" "table_insert dg_grant_id"
    table_update "\<lambda>rows. distinct (map dg_grant_id rows)"
  by (rule keyed_table_rows)

interpretation authorization_table: keyed_table az_authorization_id "table_find az_authorization_id"
    "table_insert az_authorization_id" table_update "\<lambda>rows. distinct (map az_authorization_id rows)"
  by (rule keyed_table_rows)

interpretation command_table: keyed_table cm_command_id "table_find cm_command_id"
    "table_insert cm_command_id" table_update "\<lambda>rows. distinct (map cm_command_id rows)"
  by (rule keyed_table_rows)

interpretation outbox_table: keyed_table ob_command_id "table_find ob_command_id"
    "table_insert ob_command_id" table_update "\<lambda>rows. distinct (map ob_command_id rows)"
  by (rule keyed_table_rows)

interpretation exposure_table: keyed_table exposure_key "table_find exposure_key"
    "table_insert exposure_key" table_update "\<lambda>rows. distinct (map exposure_key rows)"
  by (rule keyed_table_rows)

definition grant_at :: "store \<Rightarrow> string \<Rightarrow> grant_row option" where
  "grant_at db k = table_find dg_grant_id k (grants db)"

definition auth_at :: "store \<Rightarrow> string \<Rightarrow> authorization_row option" where
  "auth_at db k = table_find az_authorization_id k (authorizations db)"

definition command_at :: "store \<Rightarrow> string \<Rightarrow> command_row option" where
  "command_at db k = table_find cm_command_id k (commands db)"

definition outbox_at :: "store \<Rightarrow> string \<Rightarrow> outbox_row option" where
  "outbox_at db k = table_find ob_command_id k (outbox db)"

lemmas at_defs = grant_at_def auth_at_def command_at_def outbox_at_def

lemma auth_at_key: "auth_at db k = Some a \<Longrightarrow> az_authorization_id a = k"
  and grant_at_key: "grant_at db k = Some g \<Longrightarrow> dg_grant_id g = k"
  and command_at_key: "command_at db k = Some c \<Longrightarrow> cm_command_id c = k"
  and outbox_at_key: "outbox_at db k = Some x \<Longrightarrow> ob_command_id x = k"
  by (auto simp: at_defs dest: table_find_Some)

lemmas at_keys = auth_at_key grant_at_key command_at_key outbox_at_key

text \<open>Look-ups in a store whose other tables changed.\<close>

lemma at_other_tables [simp]:
  "grant_at (db\<lparr>exposures := x\<rparr>) = grant_at db" "auth_at (db\<lparr>exposures := x\<rparr>) = auth_at db"
  "command_at (db\<lparr>exposures := x\<rparr>) = command_at db" "outbox_at (db\<lparr>exposures := x\<rparr>) = outbox_at db"
  by (auto simp: at_defs)

section \<open>Distinct keys and linked rows\<close>

definition keys_inv :: "store \<Rightarrow> bool" where
  "keys_inv db =
     (distinct (map dg_grant_id (grants db)) \<and> distinct (map az_authorization_id (authorizations db))
      \<and> distinct (map exposure_key (exposures db)) \<and> distinct (map cm_command_id (commands db))
      \<and> distinct (map ob_command_id (outbox db)) \<and> distinct (map cm_authorization_id (commands db))
      \<and> distinct (map client_order_key (commands db))
      \<and> distinct (filter (\<lambda>s. s \<noteq> None) (map signal_key (commands db))))"

definition authority_unspent :: "authorization_row \<Rightarrow> bool" where
  "authority_unspent a = (az_command_id a = None)"

text \<open>A command belongs to one authorization, which names it, and to that authorization's grant.\<close>

definition command_linked :: "store \<Rightarrow> command_row \<Rightarrow> bool" where
  "command_linked db c =
     (case auth_at db (cm_authorization_id c) of
        None \<Rightarrow> False
      | Some a \<Rightarrow> az_command_id a = Some (cm_command_id c) \<and> az_grant_id a = cm_grant_id c
          \<and> az_intent_hash a = cm_intent_hash c \<and> az_account_id a = cm_account_id c)"

definition authorization_linked :: "store \<Rightarrow> authorization_row \<Rightarrow> bool" where
  "authorization_linked db a =
     (grant_at db (az_grant_id a) \<noteq> None
      \<and> (az_command_id a = None \<longrightarrow> az_state a \<in> {AS_ISSUED, AS_REVOKED})
      \<and> (\<forall>k. az_command_id a = Some k \<longrightarrow> az_state a \<in> {AS_CONSUMING, AS_CONSUMED, AS_REVOKED}
             \<and> (\<exists>c. command_at db k = Some c \<and> cm_authorization_id c = az_authorization_id a)))"

text \<open>A pending outbox row: its command is queued, its authorization is being consumed, its grant stands.\<close>

definition pending_authorized :: "store \<Rightarrow> outbox_row \<Rightarrow> bool" where
  "pending_authorized db x =
     (\<exists>c a g. command_at db (ob_command_id x) = Some c \<and> auth_at db (cm_authorization_id c) = Some a
        \<and> grant_at db (cm_grant_id c) = Some g
        \<and> (ob_state x = Pending \<longrightarrow>
             cm_state c = Queued \<and> az_state a = AS_CONSUMING \<and> dg_state g \<noteq> GS_REVOKED))"

text \<open>A queued command still holds its whole reservation.\<close>

definition queued_intact :: "command_row \<Rightarrow> bool" where
  "queued_intact c =
     (cm_state c = Queued \<longrightarrow>
        cm_reserved_quantity c = cm_requested_quantity c \<and> cm_reserved_notional c = cm_original_notional c
        \<and> cm_reserved_loss c = cm_original_loss c \<and> cm_booked_quantity c = 0 \<and> cm_booked_notional c = 0
        \<and> cm_booked_loss c = 0 \<and> cm_released_quantity c = 0 \<and> cm_released_notional c = 0
        \<and> cm_released_loss c = 0)"

text \<open>
  What every stored command keeps: only a cancelled, rejected or expired command has released
  anything, and a filled command has booked the whole quantity it requested.
\<close>

definition command_intact :: "command_row \<Rightarrow> bool" where
  "command_intact c =
     (queued_intact c \<and> bounded (cm_requested_quantity c)
      \<and> (cm_state c \<notin> set releasing_command_states \<longrightarrow> dval (cm_released_quantity c) = 0)
      \<and> (cm_state c = Filled \<longrightarrow> dval (cm_booked_quantity c) = dval (cm_requested_quantity c)))"

definition links_inv :: "store \<Rightarrow> bool" where
  "links_inv db =
     ((\<forall>k c. command_at db k = Some c \<longrightarrow> command_linked db c \<and> command_intact c)
      \<and> (\<forall>k a. auth_at db k = Some a \<longrightarrow> authorization_linked db a)
      \<and> (\<forall>k x. outbox_at db k = Some x \<longrightarrow> pending_authorized db x))"

definition store_inv :: "store \<Rightarrow> bool" where
  "store_inv db = (keys_inv db \<and> links_inv db)"

lemma links_inv_exposures [simp]: "links_inv (db\<lparr>exposures := x\<rparr>) = links_inv db"
  by (simp add: links_inv_def command_linked_def authorization_linked_def pending_authorized_def)

lemma links_invI:
  assumes "\<And>k c. command_at db k = Some c \<Longrightarrow> command_linked db c \<and> command_intact c"
    and "\<And>k a. auth_at db k = Some a \<Longrightarrow> authorization_linked db a"
    and "\<And>k x. outbox_at db k = Some x \<Longrightarrow> pending_authorized db x"
  shows "links_inv db"
  using assms by (auto simp: links_inv_def)

lemma links_invD:
  assumes "links_inv db"
  shows "command_at db k = Some c \<Longrightarrow> command_linked db c \<and> command_intact c"
    and "auth_at db k = Some a \<Longrightarrow> authorization_linked db a"
    and "outbox_at db k = Some x \<Longrightarrow> pending_authorized db x"
  using assms by (auto simp: links_inv_def)

section \<open>Registration and revocation\<close>

lemma register_deployment_grant_inv:
  assumes "register_deployment_grant g p ceilings db = Inr db'" "store_inv db"
  shows "store_inv db'"
proof -
  from assms(1) obtain row rows where ins: "table_insert dg_grant_id row (grants db) = Inr rows"
    and db': "db' = db\<lparr>grants := rows\<rparr>"
    unfolding register_deployment_grant_def bindE_Inr_iff by (elim exE conjE) auto
  have grants: "grant_at db' k = (if k = dg_grant_id row then Some row else grant_at db k)" for k
    using grant_table.find_ins [OF ins] by (simp add: db' grant_at_def)
  have fresh: "grant_at db (dg_grant_id row) = None"
    using grant_table.ins_fresh [OF ins] by (simp add: grant_at_def)
  have rest: "auth_at db' = auth_at db" "command_at db' = command_at db" "outbox_at db' = outbox_at db"
    by (auto simp: db' at_defs)
  have "keys_inv db'"
    using assms(2) grant_table.wf_ins [OF _ ins] by (simp add: store_inv_def keys_inv_def db')
  moreover have "links_inv db'"
  proof (rule links_invI)
    show "command_at db' k = Some c \<Longrightarrow> command_linked db' c \<and> command_intact c" for k c
      using assms(2) by (simp add: rest store_inv_def links_inv_def command_linked_def)
    show "auth_at db' k = Some a \<Longrightarrow> authorization_linked db' a" for k a
      using assms(2) by (auto simp: rest store_inv_def links_inv_def authorization_linked_def grants)
    show "outbox_at db' k = Some x \<Longrightarrow> pending_authorized db' x" for k x
      using assms(2) fresh
      by (fastforce simp: rest store_inv_def links_inv_def pending_authorized_def grants)
  qed
  ultimately show ?thesis by (simp add: store_inv_def)
qed

lemma register_authorization_inv:
  assumes "register_authorization a db = Inr db'" "store_inv db"
  shows "store_inv db'"
proof -
  from assms(1) obtain row rows where ins: "table_insert az_authorization_id row (authorizations db) = Inr rows"
    and db': "db' = db\<lparr>authorizations := rows\<rparr>"
    and row: "az_command_id row = None" "az_state row = AS_ISSUED" "az_grant_id row = au_grant_id a"
    and grant: "grant_at db (au_grant_id a) \<noteq> None"
    unfolding register_authorization_def bindE_Inr_iff by (elim exE conjE) (auto simp: grant_at_def)
  have auths: "auth_at db' k = (if k = az_authorization_id row then Some row else auth_at db k)" for k
    using authorization_table.find_ins [OF ins] by (simp add: db' auth_at_def)
  have fresh: "auth_at db (az_authorization_id row) = None"
    using authorization_table.ins_fresh [OF ins] by (simp add: auth_at_def)
  have rest: "grant_at db' = grant_at db" "command_at db' = command_at db" "outbox_at db' = outbox_at db"
    by (auto simp: db' at_defs)
  have links: "links_inv db" using assms(2) by (simp add: store_inv_def)
  have "keys_inv db'"
    using assms(2) authorization_table.wf_ins [OF _ ins] by (simp add: store_inv_def keys_inv_def db')
  moreover have "links_inv db'"
  proof (rule links_invI)
    show "command_at db' k = Some c \<Longrightarrow> command_linked db' c \<and> command_intact c" for k c
      using links_invD(1) [OF links, of k c] fresh
      by (auto simp: rest command_linked_def auths split: option.splits)
    show "auth_at db' k = Some b \<Longrightarrow> authorization_linked db' b" for k b
      using links_invD(2) [OF links, of k b] row grant
      by (auto simp: rest auths authorization_linked_def split: if_splits)
    show "outbox_at db' k = Some x \<Longrightarrow> pending_authorized db' x" for k x
      using links_invD(3) [OF links, of k x] fresh
      by (fastforce simp: rest auths pending_authorized_def)
  qed
  ultimately show ?thesis by (simp add: store_inv_def)
qed

lemma table_update_map: "(\<And>r. g (f r) = g r) \<Longrightarrow> map g (table_update P f rows) = map g rows"
  by (auto simp: table_update_def)

lemma command_grant_exists:
  assumes "links_inv db" "command_at db k = Some c"
  shows "grant_at db (cm_grant_id c) \<noteq> None"
  using links_invD(1) [OF assms] links_invD(2) [OF assms(1)]
  by (fastforce simp: command_linked_def authorization_linked_def split: option.splits)

lemma revoke_grant_inv:
  assumes "revoke_grant grant_id now db = Inr db'" "store_inv db"
  shows "store_inv db'"
proof -
  have links: "links_inv db" using assms(2) by (simp add: store_inv_def)
  have keys: "keys_inv db" using assms(2) by (simp add: store_inv_def)
  let ?P = "\<lambda>x. ob_state x = Pending
      \<and> list_ex (\<lambda>c. cm_command_id c = ob_command_id x \<and> cm_grant_id c = grant_id) (commands db)"
  from assms(1) have db': "db' = db\<lparr>
      grants := table_update (\<lambda>g. dg_grant_id g = grant_id \<and> dg_state g \<noteq> GS_REVOKED)
              (\<lambda>g. g\<lparr>dg_state := GS_REVOKED, dg_revoked_at := Some now\<rparr>) (grants db),
      outbox := table_update ?P (\<lambda>x. x\<lparr>ob_state := Outbox_Revoked, ob_updated_at := now\<rparr>) (outbox db)\<rparr>"
    by (simp add: revoke_grant_def)
  have grants: "grant_at db' k = map_option (\<lambda>g. if dg_grant_id g = grant_id \<and> dg_state g \<noteq> GS_REVOKED
      then g\<lparr>dg_state := GS_REVOKED, dg_revoked_at := Some now\<rparr> else g) (grant_at db k)" for k
    by (simp add: db' grant_at_def grant_table.find_upd)
  have outs: "outbox_at db' k = map_option (\<lambda>x. if ?P x then x\<lparr>ob_state := Outbox_Revoked, ob_updated_at := now\<rparr>
      else x) (outbox_at db k)" for k
    by (simp add: db' outbox_at_def outbox_table.find_upd)
  have rest: "auth_at db' = auth_at db" "command_at db' = command_at db" by (auto simp: db' at_defs)
  have "keys_inv db'"
    using keys by (simp add: keys_inv_def db' table_update_map)
  moreover have "links_inv db'"
  proof (rule links_invI)
    show "command_at db' k = Some c \<Longrightarrow> command_linked db' c \<and> command_intact c" for k c
      using links_invD(1) [OF links, of k c] by (simp add: rest command_linked_def)
    show "auth_at db' k = Some b \<Longrightarrow> authorization_linked db' b" for k b
      using links_invD(2) [OF links, of k b] by (auto simp: rest grants authorization_linked_def)
    show "outbox_at db' k = Some x \<Longrightarrow> pending_authorized db' x" for k x
    proof -
      assume x: "outbox_at db' k = Some x"
      then obtain y where y: "outbox_at db k = Some y" and xy: "x = (if ?P y
          then y\<lparr>ob_state := Outbox_Revoked, ob_updated_at := now\<rparr> else y)" by (auto simp: outs)
      from links_invD(3) [OF links y] obtain c a g where
          c: "command_at db (ob_command_id y) = Some c" "auth_at db (cm_authorization_id c) = Some a"
            "grant_at db (cm_grant_id c) = Some g"
        and p: "ob_state y = Pending \<longrightarrow> cm_state c = Queued \<and> az_state a = AS_CONSUMING \<and> dg_state g \<noteq> GS_REVOKED"
        by (auto simp: pending_authorized_def)
      have other: "cm_grant_id c \<noteq> grant_id" if "ob_state x = Pending"
      proof
        assume "cm_grant_id c = grant_id"
        with c(1) have "list_ex (\<lambda>c. cm_command_id c = ob_command_id y \<and> cm_grant_id c = grant_id) (commands db)"
          by (auto simp: command_at_def list_ex_iff dest!: table_find_Some)
        with that xy show False by (auto split: if_splits)
      qed
      have "ob_command_id x = ob_command_id y" "ob_state x = Pending \<Longrightarrow> ob_state y = Pending"
        using xy by (auto split: if_splits)
      with c p other show ?thesis
        using grant_at_key [OF c(3)] by (auto simp: pending_authorized_def rest grants)
    qed
  qed
  ultimately show ?thesis by (simp add: store_inv_def)
qed

lemma nondispatchable_at:
  "outbox_at (make_outbox_nondispatchable cid s now db) k = map_option
     (\<lambda>x. if ob_command_id x = cid \<and> ob_state x = Pending then x\<lparr>ob_state := s, ob_updated_at := now\<rparr> else x)
     (outbox_at db k)"
  "grant_at (make_outbox_nondispatchable cid s now db) = grant_at db"
  "auth_at (make_outbox_nondispatchable cid s now db) = auth_at db"
  "command_at (make_outbox_nondispatchable cid s now db) = command_at db"
  by (auto simp: make_outbox_nondispatchable_def at_defs outbox_table.find_upd)

lemma mark_consumed_at:
  "auth_at (mark_consumed aid now db) k = map_option
     (\<lambda>a. if az_authorization_id a = aid \<and> az_state a = AS_CONSUMING
           then a\<lparr>az_state := AS_CONSUMED, az_updated_at := now\<rparr> else a) (auth_at db k)"
  "grant_at (mark_consumed aid now db) = grant_at db"
  "command_at (mark_consumed aid now db) = command_at db"
  "outbox_at (mark_consumed aid now db) = outbox_at db"
  by (auto simp: mark_consumed_def at_defs authorization_table.find_upd)

lemma update_command_at:
  "(\<And>c. cm_command_id (f c) = cm_command_id c) \<Longrightarrow>
   command_at (update_command cid f db) k =
     map_option (\<lambda>c. if cm_command_id c = cid then f c else c) (command_at db k)"
  "grant_at (update_command cid f db) = grant_at db"
  "auth_at (update_command cid f db) = auth_at db"
  "outbox_at (update_command cid f db) = outbox_at db"
  by (auto simp: update_command_def at_defs command_table.find_upd)

lemma keys_inv_updates [simp]:
  "keys_inv (make_outbox_nondispatchable cid s now db) = keys_inv db"
  "keys_inv (mark_consumed aid now db) = keys_inv db"
  by (simp_all add: keys_inv_def make_outbox_nondispatchable_def mark_consumed_def table_update_map)

lemma revoke_authorization_inv:
  assumes "revoke_authorization aid now db = Inr db'" "store_inv db"
  shows "store_inv db'"
proof -
  have links: "links_inv db" and keys: "keys_inv db" using assms(2) by (simp_all add: store_inv_def)
  define db1 where "db1 = db\<lparr>authorizations := table_update (\<lambda>a. az_authorization_id a = aid)
            (\<lambda>a. a\<lparr>az_state := AS_REVOKED, az_updated_at := now\<rparr>) (authorizations db)\<rparr>"
  from assms(1) obtain row where row: "auth_at db aid = Some row"
    and db': "db' = (case az_command_id row of None \<Rightarrow> db1
        | Some c \<Rightarrow> make_outbox_nondispatchable c Outbox_Revoked now db1)"
    unfolding revoke_authorization_def bindE_Inr_iff Let_def auth_at_def db1_def
    by (elim exE conjE) auto
  have at1: "auth_at db1 k = map_option (\<lambda>a. if az_authorization_id a = aid
      then a\<lparr>az_state := AS_REVOKED, az_updated_at := now\<rparr> else a) (auth_at db k)"
    "grant_at db1 = grant_at db" "command_at db1 = command_at db" "outbox_at db1 = outbox_at db" for k
    by (auto simp: db1_def at_defs authorization_table.find_upd)
  have at': "auth_at db' = auth_at db1" "grant_at db' = grant_at db" "command_at db' = command_at db"
    by (auto simp: db' at1 nondispatchable_at split: option.split)
  have "keys_inv db1" using keys by (simp add: keys_inv_def db1_def table_update_map)
  then have "keys_inv db'" by (simp add: db' split: option.split)
  moreover have "links_inv db'"
  proof (rule links_invI)
    show "command_at db' k = Some c \<Longrightarrow> command_linked db' c \<and> command_intact c" for k c
      using links_invD(1) [OF links, of k c] by (auto simp: at' at1 command_linked_def split: option.splits)
    show "auth_at db' k = Some b \<Longrightarrow> authorization_linked db' b" for k b
    proof -
      assume "auth_at db' k = Some b"
      then obtain a where a: "auth_at db k = Some a" and b: "b = (if az_authorization_id a = aid
          then a\<lparr>az_state := AS_REVOKED, az_updated_at := now\<rparr> else a)" by (auto simp: at' at1)
      from links_invD(2) [OF links a] show ?thesis by (auto simp: b at' at1 authorization_linked_def)
    qed
    show "outbox_at db' k = Some x \<Longrightarrow> pending_authorized db' x" for k x
    proof -
      assume x: "outbox_at db' k = Some x"
      then obtain y where y: "outbox_at db k = Some y"
        and eq: "x = (if az_command_id row = Some (ob_command_id y) \<and> ob_state y = Pending
            then y\<lparr>ob_state := Outbox_Revoked, ob_updated_at := now\<rparr> else y)"
        by (cases "az_command_id row") (auto simp: db' at1 nondispatchable_at)
      from eq have xy: "ob_command_id x = ob_command_id y"
        "ob_state x = Pending \<longrightarrow> ob_state y = Pending \<and> az_command_id row \<noteq> Some (ob_command_id y)"
        by auto
      from links_invD(3) [OF links y] obtain c a g where
          c: "command_at db (ob_command_id y) = Some c" "auth_at db (cm_authorization_id c) = Some a"
            "grant_at db (cm_grant_id c) = Some g"
        and p: "ob_state y = Pending \<longrightarrow> cm_state c = Queued \<and> az_state a = AS_CONSUMING \<and> dg_state g \<noteq> GS_REVOKED"
        by (auto simp: pending_authorized_def)
      have "az_command_id a = Some (ob_command_id y)"
        using links_invD(1) [OF links c(1)] c(2) command_at_key [OF c(1)] by (auto simp: command_linked_def split: option.splits)
      then have "az_authorization_id a \<noteq> aid" if "ob_state x = Pending"
        using that xy row auth_at_key [OF c(2)] c(2) by auto
      with c p xy show ?thesis by (auto simp: pending_authorized_def at' at1)
    qed
  qed
  ultimately show ?thesis by (simp add: store_inv_def)
qed

section \<open>Leaving the queue\<close>

text \<open>
  What an update of one command must keep: its identity. A command that leaves the queue
  takes its outbox row out of the dispatchable set and spends its authorization, which is the
  common shape of \<open>mark_unknown\<close>, \<open>record_fill\<close> and \<open>mark_terminal\<close>.
\<close>

definition same_identity :: "command_row \<Rightarrow> command_row \<Rightarrow> bool" where
  "same_identity c d =
     (cm_command_id d = cm_command_id c \<and> cm_authorization_id d = cm_authorization_id c
      \<and> cm_grant_id d = cm_grant_id c \<and> cm_intent_hash d = cm_intent_hash c
      \<and> cm_account_id d = cm_account_id c \<and> client_order_key d = client_order_key c
      \<and> signal_key d = signal_key c)"

definition leave_queue ::
    "command_row \<Rightarrow> (command_row \<Rightarrow> command_row) \<Rightarrow> outbox_state \<Rightarrow> instant \<Rightarrow> store \<Rightarrow> store" where
  "leave_queue row f s now db =
     make_outbox_nondispatchable (cm_command_id row) s now
       (mark_consumed (cm_authorization_id row) now (update_command (cm_command_id row) f db))"

lemma leave_queue_at:
  assumes "\<And>c. same_identity c (f c)"
  shows "command_at (leave_queue row f s now db) k =
      map_option (\<lambda>c. if cm_command_id c = cm_command_id row then f c else c) (command_at db k)"
    "grant_at (leave_queue row f s now db) = grant_at db"
    "auth_at (leave_queue row f s now db) k = map_option
      (\<lambda>a. if az_authorization_id a = cm_authorization_id row \<and> az_state a = AS_CONSUMING
           then a\<lparr>az_state := AS_CONSUMED, az_updated_at := now\<rparr> else a) (auth_at db k)"
    "outbox_at (leave_queue row f s now db) k = map_option
      (\<lambda>x. if ob_command_id x = cm_command_id row \<and> ob_state x = Pending
           then x\<lparr>ob_state := s, ob_updated_at := now\<rparr> else x) (outbox_at db k)"
  using assms
  by (simp_all add: leave_queue_def nondispatchable_at mark_consumed_at update_command_at same_identity_def)

lemma leave_queue_keys:
  assumes "\<And>c. same_identity c (f c)" "keys_inv db"
  shows "keys_inv (leave_queue row f s now db)"
  using assms
  by (simp add: leave_queue_def keys_inv_def update_command_def same_identity_def table_update_map
      make_outbox_nondispatchable_def mark_consumed_def)

lemma leave_queue_links:
  assumes links: "links_inv db" and row: "command_at db cid = Some row"
    and ident: "\<And>c. same_identity c (f c)" and intact: "command_intact row \<Longrightarrow> command_intact (f row)"
    and s: "s \<noteq> Pending"
  shows "links_inv (leave_queue row f s now db)"
proof -
  note at = leave_queue_at [OF ident, of row s now db]
  have idf: "cm_command_id (f c) = cm_command_id c" "cm_authorization_id (f c) = cm_authorization_id c"
    "cm_grant_id (f c) = cm_grant_id c" "cm_intent_hash (f c) = cm_intent_hash c"
    "cm_account_id (f c) = cm_account_id c" for c
    using ident [of c] by (simp_all add: same_identity_def)
  show ?thesis
  proof (rule links_invI)
    show "command_at (leave_queue row f s now db) k = Some c \<Longrightarrow>
        command_linked (leave_queue row f s now db) c \<and> command_intact c" for k c
    proof -
      assume "command_at (leave_queue row f s now db) k = Some c"
      then obtain b where b: "command_at db k = Some b"
        and c: "c = (if cm_command_id b = cm_command_id row then f b else b)" by (auto simp: at)
      have "command_linked db b \<and> command_intact b" by (rule links_invD(1) [OF links b])
      moreover have "b = row" if "cm_command_id b = cm_command_id row"
        using command_at_key [OF b] command_at_key [OF row] that b row by simp
      ultimately show ?thesis
        using intact by (auto simp: c command_linked_def at idf split: option.splits)
    qed
    show "auth_at (leave_queue row f s now db) k = Some a \<Longrightarrow>
        authorization_linked (leave_queue row f s now db) a" for k a
    proof -
      assume "auth_at (leave_queue row f s now db) k = Some a"
      then obtain b where b: "auth_at db k = Some b" and a: "a = (if az_authorization_id b = cm_authorization_id row
          \<and> az_state b = AS_CONSUMING then b\<lparr>az_state := AS_CONSUMED, az_updated_at := now\<rparr> else b)"
        by (auto simp: at)
      have cmds: "(\<exists>c. command_at (leave_queue row f s now db) n = Some c \<and> cm_authorization_id c = x)
          \<longleftrightarrow> (\<exists>c. command_at db n = Some c \<and> cm_authorization_id c = x)" for n x
        by (cases "command_at db n") (simp_all add: at idf)
      from links_invD(2) [OF links b] show ?thesis
        unfolding authorization_linked_def cmds by (auto simp: a at(2))
    qed
    show "outbox_at (leave_queue row f s now db) k = Some x \<Longrightarrow>
        pending_authorized (leave_queue row f s now db) x" for k x
    proof -
      assume "outbox_at (leave_queue row f s now db) k = Some x"
      then obtain y where y: "outbox_at db k = Some y"
        and eq: "x = (if ob_command_id y = cm_command_id row \<and> ob_state y = Pending
            then y\<lparr>ob_state := s, ob_updated_at := now\<rparr> else y)" by (auto simp: at)
      from eq s have xy: "ob_command_id x = ob_command_id y"
        "ob_state x = Pending \<longrightarrow> ob_state y = Pending \<and> ob_command_id y \<noteq> cm_command_id row"
        by auto
      from links_invD(3) [OF links y] obtain c a g where
          c: "command_at db (ob_command_id y) = Some c" "auth_at db (cm_authorization_id c) = Some a"
            "grant_at db (cm_grant_id c) = Some g"
        and p: "ob_state y = Pending \<longrightarrow> cm_state c = Queued \<and> az_state a = AS_CONSUMING \<and> dg_state g \<noteq> GS_REVOKED"
        by (auto simp: pending_authorized_def)
      have "cm_authorization_id c \<noteq> cm_authorization_id row" if "ob_command_id y \<noteq> cm_command_id row"
        using links_invD(1) [OF links c(1)] links_invD(1) [OF links row] that command_at_key [OF c(1)]
        by (auto simp: command_linked_def split: option.splits)
      with c p xy show ?thesis
        using command_at_key [OF c(1)] auth_at_key [OF c(2)]
        by (auto simp: pending_authorized_def at idf)
    qed
  qed
qed

section \<open>Exposure rows\<close>

lemma store_inv_exposures:
  "store_inv db \<Longrightarrow> distinct (map exposure_key xs) \<Longrightarrow> store_inv (db\<lparr>exposures := xs\<rparr>)"
  by (simp add: store_inv_def keys_inv_def)

lemma store_inv_distinct_exposures: "store_inv db \<Longrightarrow> distinct (map exposure_key (exposures db))"
  by (simp add: store_inv_def keys_inv_def)

lemma ensure_account_row_inv: "store_inv db \<Longrightarrow> store_inv (ensure_account_row account env now db)"
  unfolding ensure_account_row_def
  by (auto intro!: store_inv_exposures
      simp: store_inv_distinct_exposures exposure_key_def table_find_None_iff)

lemma ensure_account_row_tables:
  "grants (ensure_account_row account env now db) = grants db"
  "authorizations (ensure_account_row account env now db) = authorizations db"
  "commands (ensure_account_row account env now db) = commands db"
  "outbox (ensure_account_row account env now db) = outbox db"
  "next_outbox_id (ensure_account_row account env now db) = next_outbox_id db"
  by (simp_all add: ensure_account_row_def)

lemma ensure_account_row_at [simp]:
  "grant_at (ensure_account_row account env now db) = grant_at db"
  "auth_at (ensure_account_row account env now db) = auth_at db"
  "command_at (ensure_account_row account env now db) = command_at db"
  "outbox_at (ensure_account_row account env now db) = outbox_at db"
  by (auto simp: at_defs ensure_account_row_tables)

definition set_exposure :: "account_exposure \<Rightarrow> instant \<Rightarrow> exposure_row \<Rightarrow> exposure_row" where
  "set_exposure x now r =
     r\<lparr>ax_reserved_notional := db_decimal (ae_reserved_notional x),
       ax_reserved_loss := db_decimal (ae_reserved_loss x),
       ax_booked_notional := db_decimal (ae_booked_notional x),
       ax_booked_loss := db_decimal (ae_booked_loss x), ax_updated_at := now\<rparr>"

lemma set_exposure_key [simp]: "exposure_key (set_exposure x now r) = exposure_key r"
  by (simp add: set_exposure_def exposure_key_def)

lemma write_exposure_Inr:
  "write_exposure account env x now db = Inr db' \<longleftrightarrow>
     list_all bounded [ae_reserved_notional x, ae_reserved_loss x, ae_booked_notional x, ae_booked_loss x]
     \<and> table_find exposure_key (account, env) (exposures db) \<noteq> None
     \<and> db' = db\<lparr>exposures :=
          table_update (\<lambda>r. exposure_key r = (account, env)) (set_exposure x now) (exposures db)\<rparr>"
  by (auto simp: write_exposure_def set_exposure_def [abs_def])

lemma write_exposure_rows:
  assumes "write_exposure account env x now db = Inr db'"
  obtains xs where "map exposure_key xs = map exposure_key (exposures db)" and "db' = db\<lparr>exposures := xs\<rparr>"
proof -
  from assms have "db' = db\<lparr>exposures :=
      table_update (\<lambda>r. exposure_key r = (account, env)) (set_exposure x now) (exposures db)\<rparr>"
    by (simp add: write_exposure_Inr)
  then show thesis by (rule that [rotated]) (simp add: table_update_map)
qed

lemma write_exposure_inv:
  "write_exposure account env x now db = Inr db' \<Longrightarrow> store_inv db \<Longrightarrow> store_inv db'"
  by (erule write_exposure_rows)
    (simp add: store_inv_exposures store_inv_distinct_exposures)

lemma write_exposure_at:
  assumes "write_exposure account env x now db = Inr db'"
  shows "grant_at db' = grant_at db" "auth_at db' = auth_at db" "command_at db' = command_at db"
    "outbox_at db' = outbox_at db"
  using assms by (auto elim!: write_exposure_rows)

section \<open>The lifecycle methods\<close>

lemma command_row_locked_Inr [simp]: "command_row_locked cid db = Inr row \<longleftrightarrow> command_at db cid = Some row"
  by (simp add: command_row_locked_def command_at_def)

text \<open>Each method as one \<open>leave_queue\<close>, with what it checked.\<close>

lemma mark_unknown_effect:
  assumes "mark_unknown cid now db = Inr (db', c)"
  obtains row where "command_at db cid = Some row" "cm_state row \<notin> set terminal_command_states"
    and "db' = leave_queue row (\<lambda>c. c\<lparr>cm_state := Submitted_Unknown, cm_updated_at := now\<rparr>) Blocked_Unknown now db"
    and "command_at db' cid = Some c"
proof -
  from assms obtain row where row: "command_at db cid = Some row" "cm_state row \<notin> set terminal_command_states"
    and eq: "db' = make_outbox_nondispatchable cid Blocked_Unknown now (mark_consumed (cm_authorization_id row) now
        (update_command cid (\<lambda>c. c\<lparr>cm_state := Submitted_Unknown, cm_updated_at := now\<rparr>) db))"
      "command_at db' cid = Some c"
    unfolding mark_unknown_def bindE_Inr_iff Let_def by auto
  show thesis by (rule that [OF row]) (simp_all add: eq leave_queue_def command_at_key [OF row(1)] eq(2) [simplified eq(1)])
qed

definition booked_row :: "decimal \<Rightarrow> decimal \<Rightarrow> fill_amounts \<Rightarrow> instant \<Rightarrow> command_row \<Rightarrow> command_row" where
  "booked_row requested cumulative f now c =
     c\<lparr>cm_state := if deq cumulative requested then Filled else Partially_Filled,
       cm_reserved_quantity := db_decimal (fa_reserved_quantity f),
       cm_booked_quantity := db_decimal cumulative,
       cm_reserved_notional := db_decimal (fa_reserved_notional f),
       cm_booked_notional := db_decimal (fa_target_notional f),
       cm_reserved_loss := db_decimal (fa_reserved_loss f),
       cm_booked_loss := db_decimal (fa_target_loss f), cm_updated_at := now\<rparr>"

lemma record_fill_effect:
  assumes "record_fill cid q now db = Inr (db', c)"
  shows "\<exists>row cumulative f x y. exact_decimal q = Inr cumulative \<and> 0 \<le> cumulative
    \<and> command_at db cid = Some row \<and> fill_conversion row cumulative = Inr f
    \<and> read_exposure (cm_account_id row) (cm_environment row)
        (ensure_account_row (cm_account_id row) (cm_environment row) now db) = Inr x
    \<and> fill_exposure x f = Inr y
    \<and> write_exposure (cm_account_id row) (cm_environment row) y now
        (leave_queue row (booked_row (cm_requested_quantity row) cumulative f now) Observed_Fill now
          (ensure_account_row (cm_account_id row) (cm_environment row) now db)) = Inr db'
    \<and> command_at db' cid = Some c"
proof -
  note def = assms [unfolded record_fill_def bindE_Inr_iff Let_def]
  from def obtain row where row: "command_at db cid = Some row" by auto
  have id: "cm_command_id row = cid" by (rule command_at_key [OF row])
  from def row id show ?thesis
    unfolding leave_queue_def booked_row_def [abs_def]
    by (elim exE conjE) (simp add: not_less_decimal)
qed

definition released_row :: "command_state \<Rightarrow> decimal \<Rightarrow> decimal \<Rightarrow> decimal \<Rightarrow> instant \<Rightarrow> command_row \<Rightarrow> command_row" where
  "released_row state quantity notional loss now c =
     c\<lparr>cm_state := state, cm_reserved_quantity := 0, cm_reserved_notional := 0, cm_reserved_loss := 0,
       cm_released_quantity := quantity, cm_released_notional := notional, cm_released_loss := loss,
       cm_updated_at := now\<rparr>"

lemma mark_terminal_effect:
  assumes "mark_terminal cid state now db = Inr (db', c)"
  shows "\<exists>row x n l y quantity notional loss. state \<in> set releasing_command_states
    \<and> command_at db cid = Some row \<and> cm_state row = Queued
    \<and> read_exposure (cm_account_id row) (cm_environment row) db = Inr x
    \<and> decimal_subtract (ae_reserved_notional x) (cm_reserved_notional row) = Inr n
    \<and> decimal_subtract (ae_reserved_loss x) (cm_reserved_loss row) = Inr l
    \<and> y = \<lparr> ae_reserved_notional = n, ae_reserved_loss = l, ae_booked_notional = ae_booked_notional x,
            ae_booked_loss = ae_booked_loss x \<rparr> \<and> exposure_ok y
    \<and> write_exposure (cm_account_id row) (cm_environment row) y now
        (leave_queue row (released_row state quantity notional loss now) Terminal now db) = Inr db'
    \<and> command_at db' cid = Some c"
proof -
  note def = assms [unfolded mark_terminal_def bindE_Inr_iff Let_def]
  from def obtain row where row: "command_at db cid = Some row" by auto
  have id: "cm_command_id row = cid" by (rule command_at_key [OF row])
  from def row id show ?thesis
    unfolding leave_queue_def released_row_def [abs_def]
    by (elim exE conjE) (simp, blast)
qed

lemma leave_queue_inv:
  assumes "store_inv db" "command_at db cid = Some row" "\<And>c. same_identity c (f c)"
    and "command_intact row \<Longrightarrow> command_intact (f row)" "s \<noteq> Pending"
  shows "store_inv (leave_queue row f s now db)"
  using assms leave_queue_links leave_queue_keys by (auto simp: store_inv_def)

lemma mark_unknown_inv: "mark_unknown cid now db = Inr (db', c) \<Longrightarrow> store_inv db \<Longrightarrow> store_inv db'"
  by (erule mark_unknown_effect)
    (auto intro!: leave_queue_inv simp: same_identity_def client_order_key_def signal_key_def command_intact_def
      queued_intact_def terminal_command_states_def releasing_command_states_def)

lemma fill_conversion_guards:
  assumes "fill_conversion row cumulative = Inr f"
  shows "cm_state row \<notin> set releasing_command_states" "cm_booked_quantity row \<le> cumulative"
  using assms unfolding fill_conversion_def bindE_Inr_iff
  by (elim exE conjE; simp add: not_less_decimal)+

lemma booked_row_same: "same_identity c (booked_row r q f now c)"
  by (simp add: booked_row_def same_identity_def client_order_key_def signal_key_def)

lemma booked_row_intact:
  assumes "fill_conversion row cumulative = Inr f" "bounded cumulative" "command_intact row"
  shows "command_intact (booked_row (cm_requested_quantity row) cumulative f now row)"
  using assms fill_conversion_guards [OF assms(1)]
  by (simp add: command_intact_def queued_intact_def booked_row_def db_decimal_facts deq_dval)

lemma released_row_facts:
  "same_identity c (released_row s q n l now c)"
  "s \<in> set releasing_command_states \<Longrightarrow> command_intact c \<Longrightarrow> command_intact (released_row s q n l now c)"
  by (auto simp: released_row_def same_identity_def client_order_key_def signal_key_def
      releasing_command_states_def command_intact_def queued_intact_def)

lemma record_fill_inv:
  assumes "record_fill cid q now db = Inr (db', c)" "store_inv db"
  shows "store_inv db'"
proof -
  from record_fill_effect [OF assms(1)] obtain row cumulative f y where
    q: "exact_decimal q = Inr cumulative" and f: "fill_conversion row cumulative = Inr f"
    and row: "command_at db cid = Some row" and written: "write_exposure (cm_account_id row) (cm_environment row) y now
        (leave_queue row (booked_row (cm_requested_quantity row) cumulative f now) Observed_Fill now
          (ensure_account_row (cm_account_id row) (cm_environment row) now db)) = Inr db'" by blast
  show ?thesis
    using row exact_decimal_bounded [OF q]
    by (intro write_exposure_inv [OF written] leave_queue_inv ensure_account_row_inv booked_row_same
        booked_row_intact [OF f] assms) simp_all
qed

lemma mark_terminal_inv:
  assumes "mark_terminal cid s now db = Inr (db', c)" "store_inv db"
  shows "store_inv db'"
proof -
  from mark_terminal_effect [OF assms(1)] obtain row q n l y where
    row: "command_at db cid = Some row" "s \<in> set releasing_command_states"
    and written: "write_exposure (cm_account_id row) (cm_environment row) y now
        (leave_queue row (released_row s q n l now) Terminal now db) = Inr db'" by blast
  show ?thesis
    using row by (intro write_exposure_inv [OF written] leave_queue_inv released_row_facts assms) simp_all
qed

section \<open>Admission\<close>

lemma atomically_admit_effect:
  assumes "atomically_admit r now ceilings db = Inr (db', row)"
  shows "\<exists>h q a g policy current c db2 db3 n l x.
    admission_prechecks r now = Inr (h, q)
    \<and> auth_at db (ar_authorization_id r) = Some a \<and> authorization_checks r h now a = Inr ()
    \<and> grant_at db (az_grant_id a) = Some g \<and> grant_checks r q now g = Inr ()
    \<and> policy_from_dict (dg_policy g) = Inr policy
    \<and> read_exposure (si_account_id (ar_intent r)) (si_environment (ar_intent r))
        (ensure_account_row (si_account_id (ar_intent r)) (si_environment (ar_intent r)) now db) = Inr current
    \<and> validate_order policy (si_instrument (ar_intent r)) (si_action (ar_intent r))
        (order_type_value (si_order_type (ar_intent r)))
        (case si_leverage (ar_intent r) of None \<Rightarrow> dec_int 1 | Some l \<Rightarrow> l) q current ceilings = Inr ()
    \<and> consume_authorization (ar_authorization_id r) (ar_command_id r) now
        (ensure_account_row (si_account_id (ar_intent r)) (si_environment (ar_intent r)) now db) = Inr db2
    \<and> queued_command r h q (dg_grant_id g) now = Inr c
    \<and> insert_command c now db2 = Inr db3
    \<and> decimal_add [ae_reserved_notional current, eq_notional q] = Inr n
    \<and> decimal_add [ae_reserved_loss current, eq_worst_case_loss q] = Inr l
    \<and> x = \<lparr> ae_reserved_notional = n, ae_reserved_loss = l, ae_booked_notional = ae_booked_notional current,
          ae_booked_loss = ae_booked_loss current \<rparr> \<and> exposure_ok x
    \<and> write_exposure (si_account_id (ar_intent r)) (si_environment (ar_intent r)) x now db3 = Inr db'
    \<and> command_at db' (ar_command_id r) = Some row"
  using assms [unfolded atomically_admit_def bindE_Inr_iff Let_def]
  unfolding auth_at_def grant_at_def command_at_def
  by (elim exE conjE) (auto simp: bindE_Inr_iff split: prod.splits)

lemma queued_command_fields:
  assumes "queued_command r h q grant_id now = Inr c"
  shows "cm_command_id c = ar_command_id r" "cm_authorization_id c = ar_authorization_id r"
    "cm_grant_id c = grant_id" "cm_intent_hash c = h" "cm_account_id c = si_account_id (ar_intent r)"
    "cm_environment c = si_environment (ar_intent r)" "cm_state c = Queued" "command_intact c"
    "cm_original_notional c = db_decimal (eq_notional q)" "cm_original_loss c = db_decimal (eq_worst_case_loss q)"
    "cm_requested_quantity c = db_decimal (eq_quantity q)"
  using assms by (auto simp: queued_command_def Let_def command_intact_def queued_intact_def db_decimal_facts)

lemma distinct_snoc_map: "distinct (map f (xs @ [x])) \<longleftrightarrow> distinct (map f xs) \<and> f x \<notin> f ` set xs"
  by auto

lemma consume_insert_effect:
  assumes consume: "consume_authorization aid (cm_command_id c) now db = Inr db2"
    and ins: "insert_command c now db2 = Inr db3"
  shows "\<exists>x. ob_command_id x = cm_command_id c
    \<and> (\<forall>k. auth_at db3 k = map_option (\<lambda>a. if az_authorization_id a = aid \<and> az_state a = AS_ISSUED
          then a\<lparr>az_state := AS_CONSUMING, az_command_id := Some (cm_command_id c), az_updated_at := now\<rparr>
          else a) (auth_at db k))
    \<and> (\<forall>k. command_at db3 k = (if k = cm_command_id c then Some c else command_at db k))
    \<and> (\<forall>k. outbox_at db3 k = (if k = cm_command_id c then Some x else outbox_at db k))
    \<and> grant_at db3 = grant_at db \<and> command_at db (cm_command_id c) = None
    \<and> outbox_at db (cm_command_id c) = None \<and> (keys_inv db \<longrightarrow> keys_inv db3)
    \<and> exposures db3 = exposures db"
proof -
  define x where "x = \<lparr> ob_outbox_id = next_outbox_id db, ob_command_id = cm_command_id c,
    ob_state = Pending, ob_topic = ''execute_semantic_intent'', ob_payload_json = cm_payload_json c,
    ob_attempts = 0, ob_created_at = now, ob_updated_at = now \<rparr>"
  from consume have db2: "db2 = db\<lparr>authorizations := table_update
      (\<lambda>a. az_authorization_id a = aid \<and> az_state a = AS_ISSUED)
      (\<lambda>a. a\<lparr>az_state := AS_CONSUMING, az_command_id := Some (cm_command_id c), az_updated_at := now\<rparr>)
      (authorizations db)\<rparr>"
    by (simp add: consume_authorization_def)
  from ins have unique: "command_unique c db" and fresh: "cm_command_id c \<notin> cm_command_id ` set (commands db)"
    and db3: "db3 = db2\<lparr>commands := commands db @ [c], outbox := outbox db @ [x],
        next_outbox_id := Suc (next_outbox_id db)\<rparr>"
    by (auto simp: insert_command_def db2 table_insert_Inr command_unique_def x_def)
  have out_fresh: "cm_command_id c \<notin> ob_command_id ` set (outbox db)"
    using unique by (auto simp: command_unique_def list_all_iff)
  have cins: "table_insert cm_command_id c (commands db) = Inr (commands db @ [c])"
    using fresh by (simp add: table_insert_Inr)
  have oins: "table_insert ob_command_id x (outbox db) = Inr (outbox db @ [x])"
    using out_fresh by (simp add: table_insert_Inr x_def)
  have "command_at db3 k = (if k = cm_command_id c then Some c else command_at db k)" for k
    using command_table.find_ins [OF cins] by (simp add: command_at_def db3)
  moreover have "outbox_at db3 k = (if k = cm_command_id c then Some x else outbox_at db k)" for k
    using outbox_table.find_ins [OF oins] by (simp add: outbox_at_def db3 x_def)
  moreover have "auth_at db3 k = map_option (\<lambda>a. if az_authorization_id a = aid \<and> az_state a = AS_ISSUED
      then a\<lparr>az_state := AS_CONSUMING, az_command_id := Some (cm_command_id c), az_updated_at := now\<rparr>
      else a) (auth_at db k)" for k
    by (simp add: auth_at_def db3 db2 authorization_table.find_upd)
  moreover have "grant_at db3 = grant_at db" by (rule ext) (simp add: grant_at_def db3 db2)
  moreover have "command_at db (cm_command_id c) = None"
    using command_table.ins_fresh [OF cins] by (simp add: command_at_def)
  moreover have "outbox_at db (cm_command_id c) = None"
    using outbox_table.ins_fresh [OF oins] by (simp add: outbox_at_def x_def)
  moreover have "keys_inv db \<longrightarrow> keys_inv db3"
    using fresh out_fresh unique
    by (auto simp: keys_inv_def db3 db2 table_update_map x_def command_unique_def list_all_iff)
  moreover have "ob_command_id x = cm_command_id c" "exposures db3 = exposures db"
    by (simp_all add: x_def db3 db2)
  ultimately show ?thesis by blast
qed

text \<open>The part of admission that touches authority: consume, insert the command and its outbox row.\<close>

lemma consume_insert_inv:
  assumes inv: "store_inv db" and a: "auth_at db (cm_authorization_id c) = Some a" "az_state a = AS_ISSUED"
    and g: "grant_at db (az_grant_id a) = Some g" "dg_state g = GS_ACTIVE"
    and c: "cm_grant_id c = az_grant_id a" "cm_intent_hash c = az_intent_hash a"
      "cm_account_id c = az_account_id a" "cm_state c = Queued" "command_intact c"
    and consume: "consume_authorization (cm_authorization_id c) (cm_command_id c) now db = Inr db2"
    and ins: "insert_command c now db2 = Inr db3"
  shows "store_inv db3"
proof -
  have links: "links_inv db" and keys: "keys_inv db" using inv by (simp_all add: store_inv_def)
  let ?P = "\<lambda>a. az_authorization_id a = cm_authorization_id c \<and> az_state a = AS_ISSUED"
  let ?f = "\<lambda>a. a\<lparr>az_state := AS_CONSUMING, az_command_id := Some (cm_command_id c), az_updated_at := now\<rparr>"
  from consume_insert_effect [OF consume ins] obtain x where x: "ob_command_id x = cm_command_id c"
    and auths: "\<And>k. auth_at db3 k = map_option (\<lambda>a. if ?P a then ?f a else a) (auth_at db k)"
    and cmds: "\<And>k. command_at db3 k = (if k = cm_command_id c then Some c else command_at db k)"
    and outs: "\<And>k. outbox_at db3 k = (if k = cm_command_id c then Some x else outbox_at db k)"
    and grants: "grant_at db3 = grant_at db" and cfresh: "command_at db (cm_command_id c) = None"
    and keys3: "keys_inv db3" using keys by blast
  have a_id: "az_authorization_id a = cm_authorization_id c" by (rule auth_at_key [OF a(1)])
  have a': "auth_at db3 (cm_authorization_id c) = Some (?f a)" using a a_id by (simp add: auths)
  have unspent: "az_authorization_id b = cm_authorization_id c \<Longrightarrow> auth_at db k = Some b \<Longrightarrow> b = a" for k b
    using a(1) auth_at_key by fastforce
  have a_none: "az_command_id a = None"
    using links_invD(2) [OF links a(1)] a(2) by (cases "az_command_id a") (auto simp: authorization_linked_def)
  note keys3
  moreover have "links_inv db3"
  proof (rule links_invI)
    show "command_at db3 k = Some d \<Longrightarrow> command_linked db3 d \<and> command_intact d" for k d
    proof -
      assume d: "command_at db3 k = Some d"
      show ?thesis
      proof (cases "k = cm_command_id c")
        case True
        with d c a' show ?thesis by (auto simp: cmds command_linked_def)
      next
        case False
        with d have "command_at db k = Some d" by (simp add: cmds)
        with links_invD(1) [OF links this] a_none unspent show ?thesis
          by (auto simp: command_linked_def auths split: option.splits)
      qed
    qed
    show "auth_at db3 k = Some b \<Longrightarrow> authorization_linked db3 b" for k b
    proof -
      assume "auth_at db3 k = Some b"
      then obtain b0 where b0: "auth_at db k = Some b0" "b = (if ?P b0 then ?f b0 else b0)" by (auto simp: auths)
      from links_invD(2) [OF links b0(1)] show ?thesis
        using b0(2) by (auto simp: authorization_linked_def grants cmds cfresh)
    qed
    show "outbox_at db3 k = Some y \<Longrightarrow> pending_authorized db3 y" for k y
    proof -
      assume y: "outbox_at db3 k = Some y"
      show ?thesis
      proof (cases "k = cm_command_id c")
        case True
        with y have "y = x" by (simp add: outs)
        with x have "ob_command_id y = cm_command_id c" by simp
        with c g a' show ?thesis by (auto simp: pending_authorized_def cmds grants)
      next
        case False
        with y have y0: "outbox_at db k = Some y" by (simp add: outs)
        from links_invD(3) [OF links y0] obtain d b e where
            d: "command_at db (ob_command_id y) = Some d" "auth_at db (cm_authorization_id d) = Some b"
              "grant_at db (cm_grant_id d) = Some e"
          and p: "ob_state y = Pending \<longrightarrow> cm_state d = Queued \<and> az_state b = AS_CONSUMING \<and> dg_state e \<noteq> GS_REVOKED"
          by (auto simp: pending_authorized_def)
        have "az_command_id b \<noteq> None"
          using links_invD(1) [OF links d(1)] d(2) by (auto simp: command_linked_def)
        then have "b \<noteq> a" using a_none by auto
        then have "\<not> ?P b" using unspent d(2) by auto
        with d p cfresh show ?thesis
          by (auto simp: pending_authorized_def cmds auths grants)
      qed
    qed
  qed
  ultimately show ?thesis by (simp add: store_inv_def)
qed

lemma atomically_admit_inv:
  assumes "atomically_admit r now ceilings db = Inr (db', row)" "store_inv db"
  shows "store_inv db'"
proof -
  let ?i = "ar_intent r"
  let ?db1 = "ensure_account_row (si_account_id ?i) (si_environment ?i) now db"
  from atomically_admit_effect [OF assms(1)] obtain h q a g c db2 db3 x where
      a: "auth_at db (ar_authorization_id r) = Some a" "authorization_checks r h now a = Inr ()"
    and g: "grant_at db (az_grant_id a) = Some g" "grant_checks r q now g = Inr ()"
    and consume: "consume_authorization (ar_authorization_id r) (ar_command_id r) now ?db1 = Inr db2"
    and c: "queued_command r h q (dg_grant_id g) now = Inr c"
    and ins: "insert_command c now db2 = Inr db3"
    and written: "write_exposure (si_account_id ?i) (si_environment ?i) x now db3 = Inr db'"
    by blast
  note fields = queued_command_fields [OF c]
  have "az_state a = AS_ISSUED" "az_intent_hash a = h" "az_account_id a = si_account_id ?i"
    using a(2) by (simp_all add: authorization_checks_def)
  moreover have "dg_state g = GS_ACTIVE" using g(2) by (simp add: grant_checks_def Let_def)
  ultimately have "store_inv db3"
    using a(1) g(1) consume ins fields grant_at_key [OF g(1)] assms(2)
    by (intro consume_insert_inv [of ?db1 c a g now db2 db3] ensure_account_row_inv) simp_all
  with written show ?thesis by (rule write_exposure_inv)
qed

section \<open>Every reachable store\<close>

lemma empty_store_inv: "store_inv empty_store"
  by (simp add: empty_store_def store_inv_def keys_inv_def links_inv_def at_defs table_find_def)

lemma drop_result_Inr [simp]: "drop_result m = Inr a \<longleftrightarrow> (\<exists>b. m = Inr (a, b))"
  by (auto simp: drop_result_def split: prod.splits)

lemma store_step_inv: "store_inv db \<Longrightarrow> store_step op db = Inr db' \<Longrightarrow> store_inv db'"
  by (cases op)
    (auto intro: register_deployment_grant_inv register_authorization_inv revoke_grant_inv
      revoke_authorization_inv atomically_admit_inv mark_unknown_inv record_fill_inv mark_terminal_inv)

text \<open>Progress of the audit trail: what one accepted method may change of an earlier row.\<close>

fun authorization_rank :: "authorization_state \<Rightarrow> nat" where
  "authorization_rank AS_ISSUED = 0"
| "authorization_rank AS_CONSUMING = 1"
| "authorization_rank _ = 2"

definition authorization_later :: "authorization_row \<Rightarrow> authorization_row \<Rightarrow> bool" where
  "authorization_later a b =
     (az_intent_hash b = az_intent_hash a \<and> az_grant_id b = az_grant_id a \<and> az_audience b = az_audience a
      \<and> (az_command_id a \<noteq> None \<longrightarrow> az_command_id b = az_command_id a)
      \<and> authorization_rank (az_state a) \<le> authorization_rank (az_state b)
      \<and> (authorization_rank (az_state a) = 2 \<longrightarrow> az_state b = az_state a))"

text \<open>What a command keeps for ever: its identity, its payload and the risk it was admitted with.\<close>

definition command_constants where
  "command_constants c =
     (cm_command_id c, cm_authorization_id c, cm_grant_id c, cm_intent_hash c, client_order_key c,
      signal_key c, cm_payload_json c, cm_requested_quantity c, cm_original_notional c, cm_original_loss c)"

definition command_later :: "command_row \<Rightarrow> command_row \<Rightarrow> bool" where
  "command_later c d =
     (command_constants d = command_constants c \<and> cm_booked_quantity c \<le> cm_booked_quantity d
      \<and> (cm_state c \<in> set releasing_command_states \<longrightarrow> d = c)
      \<and> (cm_state c = Filled \<longrightarrow> cm_state d = Filled)
      \<and> (cm_state d = Queued \<longrightarrow> cm_state c = Queued))"

definition grant_later :: "grant_row \<Rightarrow> grant_row \<Rightarrow> bool" where
  "grant_later g h = (dg_state g = GS_REVOKED \<longrightarrow> dg_state h = GS_REVOKED)"

definition outbox_later :: "outbox_row \<Rightarrow> outbox_row \<Rightarrow> bool" where
  "outbox_later x y = (ob_state x \<noteq> Pending \<longrightarrow> y = x)"

definition rows_later :: "('r \<Rightarrow> 'r \<Rightarrow> bool) \<Rightarrow> (string \<Rightarrow> 'r option) \<Rightarrow> (string \<Rightarrow> 'r option) \<Rightarrow> bool" where
  "rows_later R s t = (\<forall>k a. s k = Some a \<longrightarrow> (\<exists>b. t k = Some b \<and> R a b))"

definition store_later :: "store \<Rightarrow> store \<Rightarrow> bool" where
  "store_later s t =
     (rows_later authorization_later (auth_at s) (auth_at t)
      \<and> rows_later command_later (command_at s) (command_at t)
      \<and> rows_later grant_later (grant_at s) (grant_at t)
      \<and> rows_later outbox_later (outbox_at s) (outbox_at t))"

lemma authorization_later_refl [simp]: "authorization_later a a"
  by (simp add: authorization_later_def)

lemma authorization_later_trans:
  "authorization_later a b \<Longrightarrow> authorization_later b c \<Longrightarrow> authorization_later a c"
  unfolding authorization_later_def by auto

lemma command_later_refl [simp]: "command_later c c"
  by (simp add: command_later_def)

lemma command_later_trans: "command_later a b \<Longrightarrow> command_later b c \<Longrightarrow> command_later a c"
  unfolding command_later_def by (metis order_trans)

lemma grant_later_refl [simp]: "grant_later g g" and outbox_later_refl [simp]: "outbox_later x x"
  by (simp_all add: grant_later_def outbox_later_def)

lemma rows_later_refl: "(\<And>a. R a a) \<Longrightarrow> rows_later R s s"
  by (simp add: rows_later_def)

lemma rows_later_trans:
  "(\<And>a b c. R a b \<Longrightarrow> R b c \<Longrightarrow> R a c) \<Longrightarrow> rows_later R s t \<Longrightarrow> rows_later R t u \<Longrightarrow> rows_later R s u"
  unfolding rows_later_def by meson

lemma store_later_refl: "store_later s s"
  by (simp add: store_later_def rows_later_refl)

lemma grant_later_trans: "grant_later a b \<Longrightarrow> grant_later b c \<Longrightarrow> grant_later a c"
  by (simp add: grant_later_def)

lemma outbox_later_trans: "outbox_later a b \<Longrightarrow> outbox_later b c \<Longrightarrow> outbox_later a c"
  by (auto simp: outbox_later_def)

lemma store_later_trans:
  assumes "store_later s t" "store_later t u"
  shows "store_later s u"
  unfolding store_later_def
proof (intro conjI)
  note parts = assms [unfolded store_later_def]
  show "rows_later authorization_later (auth_at s) (auth_at u)"
    by (rule rows_later_trans [OF authorization_later_trans, where t = "auth_at t"]) (use parts in simp_all)
  show "rows_later command_later (command_at s) (command_at u)"
    by (rule rows_later_trans [OF command_later_trans, where t = "command_at t"]) (use parts in simp_all)
  show "rows_later grant_later (grant_at s) (grant_at u)"
    by (rule rows_later_trans [OF grant_later_trans, where t = "grant_at t"]) (use parts in simp_all)
  show "rows_later outbox_later (outbox_at s) (outbox_at u)"
    by (rule rows_later_trans [OF outbox_later_trans, where t = "outbox_at t"]) (use parts in simp_all)
qed

lemma rows_later_map:
  assumes "\<And>k. t k = map_option f (s k)" "\<And>k a. s k = Some a \<Longrightarrow> R a (f a)"
  shows "rows_later R s t"
  using assms by (simp add: rows_later_def)

lemma rows_later_insert:
  assumes "\<And>k. t k = (if k = n then Some x else s k)" "s n = None" "\<And>a. R a a"
  shows "rows_later R s t"
  using assms by (auto simp: rows_later_def)

lemma store_laterI:
  assumes "rows_later authorization_later (auth_at s) (auth_at t)"
    and "rows_later command_later (command_at s) (command_at t)"
    and "rows_later grant_later (grant_at s) (grant_at t)"
    and "rows_later outbox_later (outbox_at s) (outbox_at t)"
  shows "store_later s t"
  using assms by (simp add: store_later_def)

lemma nondispatchable_later: "store_later db (make_outbox_nondispatchable cid s now db)"
  by (rule store_laterI)
    (simp_all add: nondispatchable_at rows_later_refl rows_later_map [where t = "outbox_at _", OF nondispatchable_at(1)]
      outbox_later_def)

lemma leave_queue_later:
  assumes "command_at db cid = Some row" "\<And>c. same_identity c (f c)" "command_later row (f row)"
  shows "store_later db (leave_queue row f s now db)"
proof (rule store_laterI)
  note at = leave_queue_at [OF assms(2), of row s now db]
  have id: "cm_command_id row = cid" by (rule command_at_key [OF assms(1)])
  show "rows_later authorization_later (auth_at db) (auth_at (leave_queue row f s now db))"
    by (rule rows_later_map [OF at(3)]) (auto simp: authorization_later_def)
  show "rows_later command_later (command_at db) (command_at (leave_queue row f s now db))"
  proof (rule rows_later_map [OF at(1)])
    fix k c
    assume c: "command_at db k = Some c"
    have "c = row" if "cm_command_id c = cm_command_id row"
      using command_at_key [OF c] that c assms(1) id by simp
    with assms(3) show "command_later c (if cm_command_id c = cm_command_id row then f c else c)" by auto
  qed
  show "rows_later grant_later (grant_at db) (grant_at (leave_queue row f s now db))"
    by (simp add: at rows_later_refl)
  show "rows_later outbox_later (outbox_at db) (outbox_at (leave_queue row f s now db))"
    by (rule rows_later_map [OF at(4)]) (auto simp: outbox_later_def)
qed

lemma store_later_exposures [simp]:
  "store_later s (t\<lparr>exposures := xs\<rparr>) = store_later s t"
  "store_later (s\<lparr>exposures := xs\<rparr>) t = store_later s t"
  by (simp_all add: store_later_def)

lemma store_later_ensure [simp]: "store_later (ensure_account_row a e now s) t = store_later s t"
  by (simp add: store_later_def)

lemma write_exposure_later: "write_exposure a e x now s = Inr t \<Longrightarrow> store_later u s \<Longrightarrow> store_later u t"
  by (erule write_exposure_rows) simp

lemma mark_unknown_later:
  assumes "mark_unknown cid now db = Inr (db', c)"
  shows "store_later db db'"
  using assms
proof (rule mark_unknown_effect)
  fix row
  assume row: "command_at db cid = Some row" "cm_state row \<notin> set terminal_command_states"
    and db': "db' = leave_queue row (\<lambda>c. c\<lparr>cm_state := Submitted_Unknown, cm_updated_at := now\<rparr>) Blocked_Unknown now db"
  have "cm_state row \<notin> set releasing_command_states"
    using row(2) by (auto simp: releasing_command_states_def terminal_command_states_def)
  then show ?thesis
    unfolding db' using row
    by (intro leave_queue_later)
      (auto simp: same_identity_def client_order_key_def signal_key_def command_later_def command_constants_def
        terminal_command_states_def)
qed

text \<open>Nothing is left to fill of a filled command, so a repeated report finds it filled again.\<close>

lemma refill_complete:
  assumes "fill_conversion row cumulative = Inr f" "command_intact row" "cm_state row = Filled"
  shows "deq cumulative (cm_requested_quantity row)"
proof -
  obtain u where u: "decimal_subtract (cm_requested_quantity row) (cm_released_quantity row) = Inr u"
      "\<not> u < cumulative"
    using assms(1) unfolding fill_conversion_def bindE_Inr_iff by auto
  have "dval (cm_released_quantity row) = 0" "dval (cm_booked_quantity row) = dval (cm_requested_quantity row)"
    using assms(2,3) by (auto simp: command_intact_def releasing_command_states_def)
  with u fill_conversion_guards(2) [OF assms(1)] decimal_subtract_le_left [OF u(1)] show ?thesis
    by (simp add: deq_dval le_dval less_dval not_less)
qed

lemma record_fill_later:
  assumes "record_fill cid q now db = Inr (db', c)" "store_inv db"
  shows "store_later db db'"
proof -
  from record_fill_effect [OF assms(1)] obtain row cumulative f y where
    q: "exact_decimal q = Inr cumulative" and row: "command_at db cid = Some row"
    and f: "fill_conversion row cumulative = Inr f"
    and written: "write_exposure (cm_account_id row) (cm_environment row) y now
        (leave_queue row (booked_row (cm_requested_quantity row) cumulative f now) Observed_Fill now
          (ensure_account_row (cm_account_id row) (cm_environment row) now db)) = Inr db'" by blast
  have "command_intact row" using links_invD(1) [OF _ row] assms(2) by (simp add: store_inv_def)
  then have "command_later row (booked_row (cm_requested_quantity row) cumulative f now row)"
    using fill_conversion_guards [OF f] refill_complete [OF f] exact_decimal_bounded [OF q]
    by (simp add: command_later_def booked_row_def command_constants_def client_order_key_def signal_key_def
        le_dval db_decimal_facts)
  then have "store_later (ensure_account_row (cm_account_id row) (cm_environment row) now db)
      (leave_queue row (booked_row (cm_requested_quantity row) cumulative f now) Observed_Fill now
        (ensure_account_row (cm_account_id row) (cm_environment row) now db))"
    using row by (intro leave_queue_later booked_row_same) simp_all
  with written show ?thesis by (intro write_exposure_later [OF written]) simp
qed

lemma mark_terminal_later:
  assumes "mark_terminal cid s now db = Inr (db', c)"
  shows "store_later db db'"
proof -
  from mark_terminal_effect [OF assms] obtain row q n l y where
    row: "command_at db cid = Some row" "cm_state row = Queued" "s \<in> set releasing_command_states"
    and written: "write_exposure (cm_account_id row) (cm_environment row) y now
        (leave_queue row (released_row s q n l now) Terminal now db) = Inr db'" by blast
  have "command_later row (released_row s q n l now row)"
    using row by (auto simp: command_later_def released_row_def command_constants_def client_order_key_def
        signal_key_def releasing_command_states_def)
  then have "store_later db (leave_queue row (released_row s q n l now) Terminal now db)"
    using row by (intro leave_queue_later released_row_facts)
  with written show ?thesis by (rule write_exposure_later)
qed

lemma register_deployment_grant_later:
  assumes "register_deployment_grant g p ceilings db = Inr db'"
  shows "store_later db db'"
proof -
  from assms obtain row rows where ins: "table_insert dg_grant_id row (grants db) = Inr rows"
    and db': "db' = db\<lparr>grants := rows\<rparr>"
    unfolding register_deployment_grant_def bindE_Inr_iff by (elim exE conjE) auto
  have "grant_at db' k = (if k = dg_grant_id row then Some row else grant_at db k)" for k
    using grant_table.find_ins [OF ins] by (simp add: db' grant_at_def)
  moreover have "grant_at db (dg_grant_id row) = None"
    using grant_table.ins_fresh [OF ins] by (simp add: grant_at_def)
  ultimately have "rows_later grant_later (grant_at db) (grant_at db')"
    by (intro rows_later_insert) simp_all
  moreover have "auth_at db' = auth_at db" "command_at db' = command_at db" "outbox_at db' = outbox_at db"
    by (auto simp: db' at_defs)
  ultimately show ?thesis by (intro store_laterI) (simp_all add: rows_later_refl)
qed

lemma register_authorization_later:
  assumes "register_authorization a db = Inr db'"
  shows "store_later db db'"
proof -
  from assms obtain row rows where ins: "table_insert az_authorization_id row (authorizations db) = Inr rows"
    and db': "db' = db\<lparr>authorizations := rows\<rparr>"
    unfolding register_authorization_def bindE_Inr_iff by (elim exE conjE) auto
  have "auth_at db' k = (if k = az_authorization_id row then Some row else auth_at db k)" for k
    using authorization_table.find_ins [OF ins] by (simp add: db' auth_at_def)
  moreover have "auth_at db (az_authorization_id row) = None"
    using authorization_table.ins_fresh [OF ins] by (simp add: auth_at_def)
  ultimately have "rows_later authorization_later (auth_at db) (auth_at db')"
    by (intro rows_later_insert) simp_all
  moreover have "grant_at db' = grant_at db" "command_at db' = command_at db" "outbox_at db' = outbox_at db"
    by (auto simp: db' at_defs)
  ultimately show ?thesis by (intro store_laterI) (simp_all add: rows_later_refl)
qed

lemma revoke_grant_later:
  assumes "revoke_grant grant_id now db = Inr db'"
  shows "store_later db db'"
proof -
  define P where "P (x :: outbox_row) = list_ex (\<lambda>c. cm_command_id c = ob_command_id x \<and> cm_grant_id c = grant_id) (commands db)" for x
  from assms have db': "db' = db\<lparr>
      grants := table_update (\<lambda>g. dg_grant_id g = grant_id \<and> dg_state g \<noteq> GS_REVOKED)
              (\<lambda>g. g\<lparr>dg_state := GS_REVOKED, dg_revoked_at := Some now\<rparr>) (grants db),
      outbox := table_update (\<lambda>x. ob_state x = Pending \<and> P x)
              (\<lambda>x. x\<lparr>ob_state := Outbox_Revoked, ob_updated_at := now\<rparr>) (outbox db)\<rparr>"
    by (simp add: revoke_grant_def P_def)
  have grants: "grant_at db' k = map_option (\<lambda>g. if dg_grant_id g = grant_id \<and> dg_state g \<noteq> GS_REVOKED
      then g\<lparr>dg_state := GS_REVOKED, dg_revoked_at := Some now\<rparr> else g) (grant_at db k)" for k
    by (simp add: db' grant_at_def grant_table.find_upd)
  have outs: "outbox_at db' k = map_option (\<lambda>x. if ob_state x = Pending \<and> P x
      then x\<lparr>ob_state := Outbox_Revoked, ob_updated_at := now\<rparr> else x) (outbox_at db k)" for k
    by (simp add: db' outbox_at_def outbox_table.find_upd)
  have rest: "auth_at db' = auth_at db" "command_at db' = command_at db" by (auto simp: db' at_defs)
  show ?thesis
    by (rule store_laterI)
      (simp_all add: rest rows_later_refl rows_later_map [OF grants] rows_later_map [OF outs]
        grant_later_def outbox_later_def)
qed

lemma revoke_authorization_later:
  assumes "revoke_authorization aid now db = Inr db'"
  shows "store_later db db'"
proof -
  define db1 where "db1 = db\<lparr>authorizations := table_update (\<lambda>a. az_authorization_id a = aid)
            (\<lambda>a. a\<lparr>az_state := AS_REVOKED, az_updated_at := now\<rparr>) (authorizations db)\<rparr>"
  from assms obtain row where row: "auth_at db aid = Some row" "az_state row \<in> {AS_ISSUED, AS_CONSUMING}"
    and db': "db' = (case az_command_id row of None \<Rightarrow> db1
        | Some c \<Rightarrow> make_outbox_nondispatchable c Outbox_Revoked now db1)"
    unfolding revoke_authorization_def bindE_Inr_iff Let_def auth_at_def db1_def
    by (elim exE conjE) auto
  have auths: "auth_at db1 k = map_option (\<lambda>a. if az_authorization_id a = aid
      then a\<lparr>az_state := AS_REVOKED, az_updated_at := now\<rparr> else a) (auth_at db k)" for k
    by (simp add: db1_def auth_at_def authorization_table.find_upd)
  have rest: "grant_at db1 = grant_at db" "command_at db1 = command_at db" "outbox_at db1 = outbox_at db"
    by (auto simp: db1_def at_defs)
  have "rows_later authorization_later (auth_at db) (auth_at db1)"
  proof (rule rows_later_map [OF auths])
    fix k a
    assume a: "auth_at db k = Some a"
    have "a = row" if "az_authorization_id a = aid" using auth_at_key [OF a] that a row by simp
    with row(2) show "authorization_later a (if az_authorization_id a = aid
        then a\<lparr>az_state := AS_REVOKED, az_updated_at := now\<rparr> else a)"
      by (auto simp: authorization_later_def)
  qed
  then have "store_later db db1" by (intro store_laterI) (simp_all add: rest rows_later_refl)
  moreover have "store_later db1 db'"
    using nondispatchable_later by (simp add: db' store_later_refl split: option.split)
  ultimately show ?thesis by (rule store_later_trans)
qed

lemma atomically_admit_later:
  assumes "atomically_admit r now ceilings db = Inr (db', row)" "store_inv db"
  shows "store_later db db'"
proof -
  let ?i = "ar_intent r"
  let ?db1 = "ensure_account_row (si_account_id ?i) (si_environment ?i) now db"
  from atomically_admit_effect [OF assms(1)] obtain c db2 db3 x h q and g :: grant_row where
      consume: "consume_authorization (ar_authorization_id r) (ar_command_id r) now ?db1 = Inr db2"
    and c: "queued_command r h q (dg_grant_id g) now = Inr c"
    and ins: "insert_command c now db2 = Inr db3"
    and written: "write_exposure (si_account_id ?i) (si_environment ?i) x now db3 = Inr db'"
    by blast
  note consume' = consume [folded queued_command_fields(1) [OF c]]
  have unspent: "az_command_id a = None" if "auth_at db k = Some a" "az_state a = AS_ISSUED" for k a
    using assms(2) that links_invD(2) [of db k a] by (auto simp: store_inv_def authorization_linked_def)
  from consume_insert_effect [OF consume' ins, unfolded ensure_account_row_at] obtain y where
      auths: "\<And>k. auth_at db3 k = map_option (\<lambda>a. if az_authorization_id a = ar_authorization_id r \<and> az_state a = AS_ISSUED
          then a\<lparr>az_state := AS_CONSUMING, az_command_id := Some (cm_command_id c), az_updated_at := now\<rparr>
          else a) (auth_at db k)"
    and cmds: "\<And>k. command_at db3 k = (if k = cm_command_id c then Some c else command_at db k)"
    and outs: "\<And>k. outbox_at db3 k = (if k = cm_command_id c then Some y else outbox_at db k)"
    and grants: "grant_at db3 = grant_at db" and fresh: "command_at db (cm_command_id c) = None"
      "outbox_at db (cm_command_id c) = None" by blast
  have "store_later db db3"
  proof (rule store_laterI)
    show "rows_later authorization_later (auth_at db) (auth_at db3)"
      by (rule rows_later_map [OF auths]) (auto simp: authorization_later_def dest: unspent)
    show "rows_later command_later (command_at db) (command_at db3)"
      by (rule rows_later_insert [OF cmds fresh(1)]) simp
    show "rows_later outbox_later (outbox_at db) (outbox_at db3)"
      by (rule rows_later_insert [OF outs fresh(2)]) simp
  qed (simp add: grants rows_later_refl)
  with written show ?thesis by (rule write_exposure_later)
qed

lemma store_step_later: "store_inv db \<Longrightarrow> store_step op db = Inr db' \<Longrightarrow> store_later db db'"
  by (cases op)
    (auto intro: register_deployment_grant_later register_authorization_later revoke_grant_later
      revoke_authorization_later atomically_admit_later mark_unknown_later record_fill_later mark_terminal_later)

text \<open>The store is a monotone system: its invariant and its audit trail hold along every run.\<close>

interpretation harness_store: monotone_system "\<lambda>db. db = empty_store" store_step store_inv store_later
proof
  show "db = empty_store \<Longrightarrow> store_inv db" for db by (simp add: empty_store_inv)
qed (blast intro: store_step_inv store_later_refl store_later_trans store_step_later)+

end
