(* ===== verification/Decimal_Eval.thy ===== *)
theory Decimal_Eval
  imports Policy
begin

text \<open>
  Evaluation of decimal operations on concrete arguments by rewriting: a bundle of the
  defining equations, and the quotient of an exact division without its 96-digit long division.
\<close>

lemma shorten_zeros: "int n \<le> ideal - e \<Longrightarrow> shorten ideal (k * 10 ^ n) e = shorten ideal k (e + int n)"
proof (induction n arbitrary: e)
  case (Suc n)
  have "shorten ideal (k * 10 ^ Suc n) e = shorten ideal (k * 10 ^ n) (e + 1)"
    using Suc.prems by (subst shorten.simps) simp
  with Suc show ?case by (simp add: ac_simps)
qed simp

lemma shorten_done: "ideal \<le> e \<or> z mod 10 \<noteq> 0 \<Longrightarrow> shorten ideal z e = Dec z e"
  by (subst shorten.simps) auto

text \<open>An exact quotient, from its shortest numerator.\<close>

lemma quotient_exact:
  assumes "0 < coeff a" "0 < coeff b" "q * coeff b = coeff a * 10 ^ m" "m = 0 \<or> q mod 10 \<noteq> 0"
    and "int m \<le> int (ndigits (coeff b)) - int (ndigits (coeff a)) + int p + 1"
  shows "quotient_digits p a b = Dec q (expo a - expo b - int m)"
proof -
  let ?s = "int (ndigits (coeff b)) - int (ndigits (coeff a)) + int p + 1" and ?i = "expo a - expo b"
  have "10 ^ nat ?s = (10 ^ m * 10 ^ (nat ?s - m) :: int)"
    using assms(5) by (simp flip: power_add)
  then have num: "coeff a * 10 ^ nat ?s = q * 10 ^ (nat ?s - m) * coeff b"
    using assms(3) by (simp add: ac_simps)
  have "shorten ?i (q * 10 ^ (nat ?s - m)) (?i - ?s) = shorten ?i q (?i - ?s + int (nat ?s - m))"
    using assms(5) by (intro shorten_zeros) linarith
  also have "?i - ?s + int (nat ?s - m) = ?i - int m" using assms(5) by linarith
  also have "shorten ?i q (?i - int m) = Dec q (?i - int m)" using assms(4) by (intro shorten_done) auto
  finally have "shorten ?i (q * 10 ^ (nat ?s - m)) (?i - ?s) = Dec q (?i - int m)" .
  then show ?thesis
    using assms(1,2,5) by (simp add: quotient_digits_def Let_def num)
qed

lemmas decimal_eval =
  exact_add_def exact_neg_def exact_mul_def scale_to_def dfix_def dadd_def dsub_def dmul_def
  fixed_decimal_context_def etiny_def etop_def Let_def bounded_def bound_defs ndigits.simps adjusted_def
  checked_result_eq decimal_add_def decimal_subtract_def decimal_multiply_def less_eq_decimal_def
  less_decimal_def deq_def dec_int_def dmin_def dmax_def zero_decimal_def positive_def nonnegative_def

lemma decimal_divide_exact:
  assumes "quotient_digits 96 a b = q" "bounded a" "bounded b" "coeff a \<noteq> 0" "coeff b \<noteq> 0"
    and "dfix fixed_decimal_context q = Inr q" "bounded q"
  shows "decimal_divide a b = Inr q"
proof -
  have "prec fixed_decimal_context = 96" by (simp add: fixed_decimal_context_def)
  with assms show ?thesis
    by (simp add: decimal_divide_def ddiv_def checked_result_eq deq_dval dval_eq_0_iff)
qed

section \<open>Long coefficients\<close>

text \<open>Facts that locate a long coefficient without dividing it digit by digit.\<close>

lemma ndigits_eqI: "10 ^ k \<le> n \<Longrightarrow> n < 10 ^ Suc k \<Longrightarrow> ndigits n = Suc k"
proof -
  assume a: "10 ^ k \<le> n" "n < 10 ^ Suc k"
  have p: "0 < n" using a(1) zero_less_power [of "10 :: int" k] by linarith
  have "(10::int) ^ k < 10 ^ ndigits n" using ndigits_upper [of n] a by linarith
  then have "k < ndigits n" using power_less_imp_less_exp [of "10 :: int"] by simp
  moreover have "(10::int) ^ (ndigits n - 1) < 10 ^ Suc k" using ndigits_lower [OF p] a by linarith
  then have "ndigits n - 1 < Suc k"
    using power_less_imp_less_exp [of "10 :: int" "ndigits n - 1" "Suc k"] by simp
  ultimately show ?thesis by linarith
qed

lemma divmod_eqI: "n = q * d + r \<Longrightarrow> 0 \<le> r \<Longrightarrow> r < d \<Longrightarrow> n div d = q \<and> n mod d = (r :: int)"
  by simp

lemma quotient_inexact:
  assumes "0 < coeff a" "0 < coeff b" "int s = int (ndigits (coeff b)) - int (ndigits (coeff a)) + int p + 1"
    and "coeff a * 10 ^ s = q * coeff b + r" "0 < r" "r < coeff b" "q = 5 * k + j" "0 < j" "j < 5"
  shows "quotient_digits p a b = Dec q (expo a - expo b - int s)"
proof -
  have "(coeff a * 10 ^ s) div coeff b = q \<and> (coeff a * 10 ^ s) mod coeff b = r"
    using assms by (intro divmod_eqI) auto
  moreover have "q mod 5 = j" using divmod_eqI [of q k 5 j] assms by simp
  ultimately show ?thesis
    using assms(1,2,5,8) unfolding quotient_digits_def Let_def
    by (simp add: assms(3) [symmetric] del: of_nat_add)
qed

lemma dfix_ceiling_drop_one:
  assumes "coeff d = 10 * t + j" "0 < j" "j < 10" "ndigits (coeff d) = Suc (prec c)" "0 < t"
    and "rounding c = Ceiling" "ndigits (t + 1) = prec c" "etiny c \<le> expo d + 1" "expo d + 1 \<le> etop c"
  shows "dfix c d = Inr (Dec (t + 1) (expo d + 1))"
proof -
  have "(- coeff d) div 10 = - (t + 1) \<and> (- coeff d) mod 10 = 10 - j"
    using assms by (intro divmod_eqI) auto
  moreover have "coeff d \<noteq> 0" "\<bar>coeff d\<bar> = coeff d" "\<bar>t + 1\<bar> = t + 1" using assms by auto
  moreover have "max (expo d + 1) (etiny c) = expo d + 1" "ndigits (1 + t) = prec c"
    using assms(7,8) by (simp_all add: add.commute)
  moreover have "int (Suc (prec c)) + expo d - int (prec c) = expo d + 1" by simp
  ultimately show ?thesis
    using assms(4-9) unfolding dfix_def Let_def by simp
qed

text \<open>One thirtieth rounded up to 96 digits has the exponent - 97, below the accepted range.\<close>

lemma one_thirtieth: "decimal_divide (Dec 1 0) (Dec 30 0) = Inl ValidationError"
proof -
  define q :: int where "q = 3333333333333333333333333333333333333333333333333333333333333333333333333333333333333333333333333"
  define t :: int where "t = 333333333333333333333333333333333333333333333333333333333333333333333333333333333333333333333333"
  have d: "ndigits 30 = 2" "ndigits 1 = 1" by (simp_all add: ndigits.simps)
  have "quotient_digits 96 (Dec 1 0) (Dec 30 0) = Dec q (- 98)"
    using quotient_inexact [of "Dec 1 0" "Dec 30 0" 98 96 q 10 666666666666666666666666666666666666666666666666666666666666666666666666666666666666666666666666 3] d by (simp add: q_def)
  moreover have "dfix fixed_decimal_context (Dec q (- 98)) = Inr (Dec (t + 1) (- 97))"
  proof -
    have "ndigits q = 97" using ndigits_eqI [of 96 q] by (simp add: q_def)
    moreover have "ndigits (t + 1) = 96" using ndigits_eqI [of 95 "t + 1"] by (simp add: t_def)
    moreover have "q = 10 * t + 3" "0 < t" by (simp_all add: q_def t_def)
    ultimately show ?thesis
      using dfix_ceiling_drop_one [of "Dec q (- 98)" t 3 fixed_decimal_context]
      by (simp add: fixed_decimal_context_def etiny_def etop_def)
  qed
  moreover have "\<not> bounded (Dec (t + 1) (- 97))" "bounded (Dec 1 0)" "bounded (Dec 30 0)"
    by (simp_all add: bounded_def bound_defs adjusted_def d)
  ultimately show ?thesis
    by (simp add: decimal_divide_def ddiv_def checked_result_eq deq_dval dval_eq_0_iff fixed_decimal_context_def)
qed

end
