(* ===== verification/Samples.thy ===== *)
theory Samples
  imports Store_Invariant Decimal_Eval
begin

text \<open>
  One concrete run through the foundation, from an intent to a queued command, used to show
  that the hypotheses of the properties can hold. The digest of the sample intent is kept
  symbolic: nothing below evaluates SHA-256.
\<close>

definition sample_args :: "decimal_input intent" where
  "sample_args =
     \<lparr> si_intent_id = ''intent-1'', si_thesis_id = ''thesis'', si_thesis_version = ''1'',
       si_strategy_version = ''s1'', si_code_hash = ''code'', si_venue = ''sim'', si_account_id = ''acct'',
       si_environment = TESTNET, si_instrument = ''BTC'', si_action = ''Simulate_Order'', si_side = BUY,
       si_quantity = In_Str ''2'', si_order_type = MARKET, si_expires_at = 1000,
       si_client_order_id = ''client-1'', si_limit_price = None, si_price_bound = Some (In_Int 100),
       si_stop_price = Some (In_Int 90), si_protection_limit_price = Some (In_Decimal (Dec 90 0)),
       si_reduce_only = False, si_leverage = Some (In_Int 2), si_max_slippage_bps = In_Int 10,
       si_fee_bps = In_Int 5, si_time_in_force = None, si_signal_instance_hash = None,
       si_allowed_runtime_fields = [''signature'', ''nonce''], si_schema_version = 1 \<rparr>"

definition sample_intent :: semantic_intent where
  "sample_intent =
     \<lparr> si_intent_id = ''intent-1'', si_thesis_id = ''thesis'', si_thesis_version = ''1'',
       si_strategy_version = ''s1'', si_code_hash = ''code'', si_venue = ''sim'', si_account_id = ''acct'',
       si_environment = TESTNET, si_instrument = ''BTC'', si_action = ''simulate_order'', si_side = BUY,
       si_quantity = Dec 2 0, si_order_type = MARKET, si_expires_at = 1000,
       si_client_order_id = ''client-1'', si_limit_price = None, si_price_bound = Some (Dec 100 0),
       si_stop_price = Some (Dec 90 0), si_protection_limit_price = Some (Dec 90 0),
       si_reduce_only = False, si_leverage = Some (Dec 2 0), si_max_slippage_bps = Dec 10 0,
       si_fee_bps = Dec 5 0, si_time_in_force = None, si_signal_instance_hash = None,
       si_allowed_runtime_fields = [''nonce'', ''signature''], si_schema_version = 1 \<rparr>"

lemma make_sample_intent: "make_intent sample_args = Inr sample_intent"
  by code_simp

lemma sample_intent_ok: "intent_ok sample_intent"
  by (rule make_intent_ok [OF make_sample_intent])

definition sample_hash :: string where
  "sample_hash = sha256_hex (utf8 semantic_intent_hash_domain @ [0]
      @ utf8 (json_dumps (JObj (zip intent_fields (intent_jsons sample_intent)))))"

lemma sample_intent_hash: "semantic_intent_hash sample_intent = Inr sample_hash"
  by (simp add: semantic_intent_hash_total sample_intent_ok sample_hash_def)

lemma sample_hash_shaped: "sha256_shaped sample_hash"
  by (simp add: sample_hash_def)

lemma sample_hash_nonempty: "sample_hash \<noteq> []"
  using sample_hash_shaped by (auto simp: sha256_shaped_def)

definition sample_quote_for :: "string \<Rightarrow> exposure_quote" where
  "sample_quote_for h =
     \<lparr> eq_intent_hash = h, eq_quantity = Dec 2 0, eq_notional = Dec 200 0,
       eq_worst_case_loss = Dec 203 (- 1), eq_slippage_bps = Dec 10 0, eq_fee_bps = Dec 5 0 \<rparr>"

lemma sample_arithmetic:
  "decimal_multiply (Dec 2 0) (Dec 100 0) = Inr (Dec 200 0)"
  "decimal_subtract (Dec 100 0) (Dec 90 0) = Inr (Dec 10 0)"
  "decimal_multiply (Dec 2 0) (Dec 10 0) = Inr (Dec 20 0)"
  "decimal_add [Dec 10 0, Dec 5 0] = Inr (Dec 15 0)"
  "decimal_multiply (Dec 200 0) (Dec 15 0) = Inr (Dec 3000 0)"
  "decimal_divide (Dec 3000 0) (dec_int 10000) = Inr (Dec 3 (- 1))"
  "decimal_add [Dec 20 0, Dec 3 (- 1)] = Inr (Dec 203 (- 1))"
  "Dec 90 0 < Dec 100 0" "\<not> Dec 100 0 \<le> Dec 90 0" "bounded (Dec 100 0)"
proof -
  show "decimal_divide (Dec 3000 0) (dec_int 10000) = Inr (Dec 3 (- 1))"
    unfolding dec_int_def
    by (rule decimal_divide_exact [OF quotient_exact [where m = 1 and q = 3, THEN trans]])
      (simp_all add: decimal_eval)
qed (simp_all add: decimal_eval)

lemma sample_quote_ok: "h \<noteq> [] \<Longrightarrow> quote_ok (sample_quote_for h)"
proof -
  have "positive (Dec 2 0) \<and> positive (Dec 200 0) \<and> nonnegative (Dec 203 (- 1))
      \<and> nonnegative (Dec 10 0) \<and> nonnegative (Dec 5 0)" by (simp add: decimal_eval)
  then show "h \<noteq> [] \<Longrightarrow> ?thesis" by (simp add: quote_ok_def sample_quote_for_def)
qed

lemma derive_sample_quote: "derive_exposure_quote sample_intent = Inr (sample_quote_for sample_hash)"
proof -
  have "positive (Dec 2 0)" by (simp add: decimal_eval)
  then show ?thesis
    using sample_quote_ok [OF sample_hash_nonempty] sample_arithmetic sample_intent_hash
    unfolding derive_exposure_quote_def
    by (simp add: sample_intent_def protection_distance_def sample_quote_for_def of_option_def
        policy_positive_again)
qed

section \<open>A grant, a policy and an authorization for the sample intent\<close>

definition sample_policy :: risk_policy where
  "sample_policy =
     \<lparr> rp_policy_id = ''policy-1'', rp_version = ''1'', rp_max_order_quantity = Dec 10 0,
       rp_max_order_notional = Dec 1000 0, rp_max_order_worst_case_loss = Dec 100 0,
       rp_max_account_gross_notional = Dec 2000 0, rp_max_account_worst_case_loss = Dec 500 0,
       rp_max_leverage = Dec 5 0, rp_max_slippage_bps = Dec 50 0, rp_max_fee_bps = Dec 50 0,
       rp_allowed_instruments = [''BTC''], rp_allowed_actions = [''simulate_order''],
       rp_allowed_order_types = [''market''] \<rparr>"

definition sample_policy_dict :: "string risk_policy_of" where
  "sample_policy_dict =
     \<lparr> rp_policy_id = ''policy-1'', rp_version = ''1'', rp_max_order_quantity = ''10'',
       rp_max_order_notional = ''1000'', rp_max_order_worst_case_loss = ''100'',
       rp_max_account_gross_notional = ''2000'', rp_max_account_worst_case_loss = ''500'',
       rp_max_leverage = ''5'', rp_max_slippage_bps = ''50'', rp_max_fee_bps = ''50'',
       rp_allowed_instruments = [''BTC''], rp_allowed_actions = [''simulate_order''],
       rp_allowed_order_types = [''market''] \<rparr>"

definition sample_grant_args :: "decimal_input grant" where
  "sample_grant_args =
     \<lparr> gr_grant_id = ''grant-1'', gr_thesis_id = ''thesis'', gr_thesis_version = ''1'',
       gr_strategy_version = ''s1'', gr_code_hash = ''code'', gr_venue = ''sim'',
       gr_account_id = ''acct'', gr_environment = TESTNET, gr_grant_type = INFRASTRUCTURE_TESTNET,
       gr_issued_at = 0, gr_expires_at = 5000, gr_authorization_model = None,
       gr_starts_at = None, gr_review_at = None, gr_revoked_at = None, gr_state = GS_ACTIVE,
       gr_allowed_instruments = [''BTC'', ''ETH''], gr_allowed_actions = [''simulate_order''],
       gr_max_notional = Some (In_Str ''500''), gr_max_loss = None, gr_approver_ids = [] \<rparr>"

definition sample_grant :: deployment_grant where
  "sample_grant =
     \<lparr> gr_grant_id = ''grant-1'', gr_thesis_id = ''thesis'', gr_thesis_version = ''1'',
       gr_strategy_version = ''s1'', gr_code_hash = ''code'', gr_venue = ''sim'',
       gr_account_id = ''acct'', gr_environment = TESTNET, gr_grant_type = INFRASTRUCTURE_TESTNET,
       gr_issued_at = 0, gr_expires_at = 5000, gr_authorization_model = Some INFRASTRUCTURE,
       gr_starts_at = Some 0, gr_review_at = None, gr_revoked_at = None, gr_state = GS_ACTIVE,
       gr_allowed_instruments = [''BTC'', ''ETH''], gr_allowed_actions = [''simulate_order''],
       gr_max_notional = Some (Dec 500 0), gr_max_loss = None, gr_approver_ids = [] \<rparr>"

lemma make_sample_grant: "make_grant sample_grant_args = Inr sample_grant"
  by (code_simp, simp add: require.simps)

definition sample_authorization :: authorization where
  "sample_authorization =
     \<lparr> au_authorization_id = ''auth-1'', au_intent_hash = sample_hash, au_grant_id = ''grant-1'',
       au_account_id = ''acct'', au_environment = TESTNET, au_issued_at = 10, au_expires_at = 900,
       au_audience = ''harness'', au_issuer_id = ''issuer'', au_approver_ids = [], au_state = AS_ISSUED \<rparr>"

definition sample_grant_row :: grant_row where
  "sample_grant_row =
     \<lparr> dg_grant_id = ''grant-1'', dg_thesis_id = ''thesis'', dg_thesis_version = ''1'',
       dg_strategy_version = ''s1'', dg_code_hash = ''code'', dg_venue = ''sim'', dg_account_id = ''acct'',
       dg_environment = TESTNET, dg_grant_type = INFRASTRUCTURE_TESTNET,
       dg_authorization_model = INFRASTRUCTURE, dg_issued_at = 0, dg_starts_at = 0, dg_expires_at = 5000,
       dg_state = GS_ACTIVE, dg_allowed_instruments = [''BTC'', ''ETH''],
       dg_allowed_actions = [''simulate_order''], dg_max_notional = Some (Dec 500 0), dg_max_loss = None,
       dg_policy = sample_policy_dict, dg_revoked_at = None, dg_review_at = None \<rparr>"

definition sample_authorization_row :: authorization_row where
  "sample_authorization_row =
     \<lparr> az_authorization_id = ''auth-1'', az_intent_hash = sample_hash, az_grant_id = ''grant-1'',
       az_account_id = ''acct'', az_environment = TESTNET, az_issued_at = 10, az_expires_at = 900,
       az_audience = ''harness'', az_state = AS_ISSUED, az_command_id = None, az_updated_at = 10 \<rparr>"

definition sample_registered :: store where
  "sample_registered = \<lparr> grants = [sample_grant_row], authorizations = [sample_authorization_row],
     exposures = [], commands = [], outbox = [], next_outbox_id = 1 \<rparr>"

lemma register_sample_grant:
  "register_deployment_grant sample_grant sample_policy hard_platform_ceilings empty_store =
     Inr (empty_store\<lparr>grants := [sample_grant_row]\<rparr>)"
  by code_simp

lemma register_sample_authorization:
  "register_authorization sample_authorization (empty_store\<lparr>grants := [sample_grant_row]\<rparr>) = Inr sample_registered"
  by (simp add: register_authorization_def sample_authorization_def empty_store_def table_find_def
      sample_grant_row_def table_insert_def sample_registered_def sample_authorization_row_def exec_simps)

lemma sample_policy_read: "policy_from_dict sample_policy_dict = Inr sample_policy"
  by code_simp

definition sample_request :: admit_request where
  "sample_request =
     \<lparr> ar_intent = sample_intent, ar_quote = sample_quote_for sample_hash, ar_authorization_id = ''auth-1'',
       ar_command_id = ''cmd-1'', ar_audience = ''harness'', ar_authorization_model = INFRASTRUCTURE \<rparr>"

definition sample_payload :: string where
  "sample_payload = json_dumps (JObj (zip intent_fields (intent_jsons sample_intent)))"

definition sample_command :: command_row where
  "sample_command =
     \<lparr> cm_command_id = ''cmd-1'', cm_authorization_id = ''auth-1'', cm_grant_id = ''grant-1'',
       cm_account_id = ''acct'', cm_environment = TESTNET, cm_venue = ''sim'',
       cm_client_order_id = ''client-1'', cm_signal_instance_hash = None, cm_intent_hash = sample_hash,
       cm_state = Queued, cm_requested_quantity = Dec 2 0, cm_reserved_quantity = Dec 2 0,
       cm_booked_quantity = 0, cm_released_quantity = 0, cm_original_notional = Dec 200 0,
       cm_reserved_notional = Dec 200 0, cm_booked_notional = 0, cm_released_notional = 0,
       cm_original_loss = Dec 203 (- 1), cm_reserved_loss = Dec 203 (- 1), cm_booked_loss = 0,
       cm_released_loss = 0, cm_payload_json = sample_payload, cm_created_at = 100, cm_updated_at = 100 \<rparr>"

definition sample_outbox_row :: outbox_row where
  "sample_outbox_row =
     \<lparr> ob_outbox_id = 1, ob_command_id = ''cmd-1'', ob_state = Pending,
       ob_topic = ''execute_semantic_intent'', ob_payload_json = sample_payload, ob_attempts = 0,
       ob_created_at = 100, ob_updated_at = 100 \<rparr>"

definition sample_admitted :: store where
  "sample_admitted =
     \<lparr> grants = [sample_grant_row],
       authorizations = [sample_authorization_row\<lparr>az_state := AS_CONSUMING, az_command_id := Some ''cmd-1'',
         az_updated_at := 100\<rparr>],
       exposures = [\<lparr> ax_account_id = ''acct'', ax_environment = TESTNET, ax_reserved_notional = Dec 200 0,
         ax_reserved_loss = Dec 203 (- 1), ax_booked_notional = 0, ax_booked_loss = 0, ax_updated_at = 100 \<rparr>],
       commands = [sample_command], outbox = [sample_outbox_row], next_outbox_id = 2 \<rparr>"

lemma sample_prechecks:
  "admission_prechecks sample_request 100 = Inr (sample_hash, sample_quote_for sample_hash)"
  by (simp add: admission_prechecks_def sample_request_def sample_intent_hash derive_sample_quote
      deny_invalid_economics_def same_quote_def deq_dval exec_simps)
    (simp add: sample_intent_def foundation_allowed_actions_def)

definition zero_exposure :: account_exposure where
  "zero_exposure = \<lparr> ae_reserved_notional = 0, ae_reserved_loss = 0, ae_booked_notional = 0, ae_booked_loss = 0 \<rparr>"

definition sample_exposure :: account_exposure where
  "sample_exposure = \<lparr> ae_reserved_notional = Dec 200 0, ae_reserved_loss = Dec 203 (- 1),
     ae_booked_notional = 0, ae_booked_loss = 0 \<rparr>"

lemma sample_order_valid:
  "validate_order sample_policy ''BTC'' ''simulate_order'' ''market'' (Dec 2 0) (sample_quote_for h) zero_exposure
     hard_platform_ceilings = Inr ()"
  by code_simp

lemma sample_grant_allows:
  "grant_checks sample_request (sample_quote_for h) 100 sample_grant_row = Inr ()"
proof -
  have "\<not> Dec 500 0 < Dec 200 0" by (simp add: decimal_eval)
  then show ?thesis
    by (simp add: grant_checks_def sample_request_def sample_intent_def sample_grant_row_def sample_quote_for_def
        Let_def)
qed

lemma sample_authorization_allows:
  "authorization_checks sample_request sample_hash 100 sample_authorization_row = Inr ()"
  by (simp add: authorization_checks_def sample_request_def sample_intent_def sample_authorization_row_def)

lemma sample_columns:
  "decimal_column (Dec 2 0) = Inr (Dec 2 0)" "decimal_column (Dec 200 0) = Inr (Dec 200 0)"
  "decimal_column (Dec 203 (- 1)) = Inr (Dec 203 (- 1))" "decimal_column 0 = Inr 0"
  "make_exposure zero_exposure = Inr zero_exposure" "make_exposure sample_exposure = Inr sample_exposure"
  "decimal_add [0, Dec 200 0] = Inr (Dec 200 0)" "decimal_add [0, Dec 203 (- 1)] = Inr (Dec 203 (- 1))"
  by code_simp+

lemma sample_payload_json: "canonical_json (intent_val sample_intent) = Inr sample_payload"
proof -
  have len: "length intent_fields = length (intent_values sample_intent)"
    by (simp add: intent_fields_def intent_values_def)
  from record_val_total [OF len intent_json_total [OF sample_intent_ok]] show ?thesis
    by (simp add: canonical_json_def intent_val_def sample_payload_def)
qed

lemma queue_sample_command:
  "queued_command sample_request sample_hash (sample_quote_for sample_hash) ''grant-1'' 100 = Inr sample_command"
  by (simp add: queued_command_def Let_def sample_request_def sample_payload_json sample_quote_for_def sample_columns
      del: decimal_column_Inr_iff)
    (simp add: sample_command_def sample_intent_def)

lemma admit_sample:
  "atomically_admit sample_request 100 hard_platform_ceilings sample_registered
     = Inr (sample_admitted, sample_command)"
proof -
  let ?row = "\<lparr> ax_account_id = ''acct'', ax_environment = TESTNET, ax_reserved_notional = 0,
    ax_reserved_loss = 0, ax_booked_notional = 0, ax_booked_loss = 0, ax_updated_at = 100 \<rparr>"
  let ?db1 = "sample_registered\<lparr>exposures := [?row]\<rparr>"
  let ?auth = "sample_authorization_row\<lparr>az_state := AS_CONSUMING, az_command_id := Some ''cmd-1'',
         az_updated_at := 100\<rparr>"
  let ?db2 = "?db1\<lparr>authorizations := [?auth]\<rparr>"
  let ?db3 = "?db2\<lparr>commands := [sample_command], outbox := [sample_outbox_row], next_outbox_id := 2\<rparr>"
  have find: "table_find az_authorization_id ''auth-1'' (authorizations sample_registered) = Some sample_authorization_row"
      "table_find dg_grant_id ''grant-1'' (grants sample_registered) = Some sample_grant_row"
    by (simp_all add: table_find_def sample_registered_def sample_authorization_row_def sample_grant_row_def)
  have ensure: "ensure_account_row ''acct'' TESTNET 100 sample_registered = ?db1"
    by (simp add: ensure_account_row_def table_find_def sample_registered_def)
  have read: "read_exposure ''acct'' TESTNET ?db1 = Inr zero_exposure"
    using sample_columns(5)
    by (simp add: read_exposure_def table_find_def exposure_key_def row_exposure_def zero_exposure_def)
  have consume: "consume_authorization ''auth-1'' ''cmd-1'' 100 ?db1 = Inr ?db2"
    by (simp add: consume_authorization_def sample_registered_def sample_authorization_row_def table_update_def)
  have insert: "insert_command sample_command 100 ?db2 = Inr ?db3"
    by (simp add: insert_command_def command_unique_def table_insert_def table_find_def sample_registered_def
        sample_command_def sample_outbox_row_def)
  have "write_exposure ''acct'' TESTNET sample_exposure 100 ?db3 = Inr sample_admitted"
    by (simp add: write_exposure_def sample_exposure_def sample_columns table_find_def exposure_key_def
        table_update_def sample_admitted_def sample_registered_def del: decimal_column_Inr_iff)
  moreover have "table_find cm_command_id ''cmd-1'' (commands sample_admitted) = Some sample_command"
    by (simp add: table_find_def sample_admitted_def sample_command_def)
  moreover have "si_account_id sample_intent = ''acct''" "si_environment sample_intent = TESTNET"
      "ar_intent sample_request = sample_intent" "ar_authorization_id sample_request = ''auth-1''"
      "ar_command_id sample_request = ''cmd-1''" "si_instrument sample_intent = ''BTC''"
      "si_action sample_intent = ''simulate_order''" "si_order_type sample_intent = MARKET"
      "si_leverage sample_intent = Some (Dec 2 0)" "az_grant_id sample_authorization_row = ''grant-1''"
      "dg_policy sample_grant_row = sample_policy_dict" "dg_grant_id sample_grant_row = ''grant-1''"
    by (simp_all add: sample_intent_def sample_request_def sample_authorization_row_def sample_grant_row_def)
  moreover have "eq_notional (sample_quote_for sample_hash) = Dec 200 0"
      "eq_worst_case_loss (sample_quote_for sample_hash) = Dec 203 (- 1)"
      "ae_reserved_notional zero_exposure = 0" "ae_reserved_loss zero_exposure = 0"
      "\<lparr>ae_reserved_notional = Dec 200 0, ae_reserved_loss = Dec 203 (- 1),
        ae_booked_notional = ae_booked_notional zero_exposure,
        ae_booked_loss = ae_booked_loss zero_exposure\<rparr> = sample_exposure"
    by (simp_all add: sample_quote_for_def zero_exposure_def sample_exposure_def)
  ultimately show ?thesis
    using sample_columns(6)
    by (simp add: atomically_admit_def sample_prechecks find sample_authorization_allows sample_grant_allows
        sample_policy_read ensure read sample_order_valid consume queue_sample_command insert of_option_def
        sample_columns Let_def)
qed

end
