(* ===== verification/Store_Properties.thy ===== *)
theory Store_Properties
  imports Samples
begin

text \<open>
  What the durable store promises, over every history of its public methods: the properties of
  \<open>store.py\<close> and \<open>admission.py\<close>, each with a witness on the sample run.
\<close>

section \<open>Exposure rows before and after an operation\<close>

definition same_exposure :: "account_exposure \<Rightarrow> account_exposure \<Rightarrow> bool" where
  "same_exposure x y =
     (dval (ae_reserved_notional x) = dval (ae_reserved_notional y)
      \<and> dval (ae_reserved_loss x) = dval (ae_reserved_loss y)
      \<and> dval (ae_booked_notional x) = dval (ae_booked_notional y)
      \<and> dval (ae_booked_loss x) = dval (ae_booked_loss y))"

lemma table_find_append_None:
  "table_find key k xs = None \<Longrightarrow> table_find key k (xs @ [r]) = (if key r = k then Some r else None)"
  by (simp add: table_find_snoc)

lemma zero_row_exposure:
  "row_exposure \<lparr> ax_account_id = a, ax_environment = e, ax_reserved_notional = 0, ax_reserved_loss = 0,
     ax_booked_notional = 0, ax_booked_loss = 0, ax_updated_at = now \<rparr> = Inr zero_exposure"
  using sample_columns(5) by (simp add: row_exposure_def zero_exposure_def)

lemma read_after_ensure:
  "read_exposure a e (ensure_account_row a e now db) = get_exposure a e db"
proof (cases "table_find exposure_key (a, e) (exposures db)")
  case None
  then have "table_find exposure_key (a, e) (exposures (ensure_account_row a e now db)) =
      Some \<lparr> ax_account_id = a, ax_environment = e, ax_reserved_notional = 0, ax_reserved_loss = 0,
        ax_booked_notional = 0, ax_booked_loss = 0, ax_updated_at = now \<rparr>"
    by (simp add: ensure_account_row_def table_find_append_None exposure_key_def)
  with None show ?thesis
    by (simp add: read_exposure_def get_exposure_def zero_row_exposure of_option_def)
      (simp add: zero_exposure_def)
next
  case (Some r)
  then show ?thesis
    by (simp add: read_exposure_def get_exposure_def ensure_account_row_def of_option_def)
qed

lemma read_is_get: "read_exposure a e db = Inr x \<Longrightarrow> get_exposure a e db = Inr x"
  by (auto simp: read_exposure_def get_exposure_def)

lemma exposure_ok_db:
  assumes "exposure_ok x"
  shows "exposure_ok \<lparr> ae_reserved_notional = db_decimal (ae_reserved_notional x),
      ae_reserved_loss = db_decimal (ae_reserved_loss x), ae_booked_notional = db_decimal (ae_booked_notional x),
      ae_booked_loss = db_decimal (ae_booked_loss x) \<rparr>"
  using assms by (simp add: exposure_ok_def db_nonnegative)

lemma get_after_write:
  assumes "write_exposure a e x now db = Inr db'" "exposure_ok x"
  shows "\<exists>y. get_exposure a e db' = Inr y \<and> same_exposure y x"
proof -
  from assms(1) obtain r where b: "bounded (ae_reserved_notional x)" "bounded (ae_reserved_loss x)"
      "bounded (ae_booked_notional x)" "bounded (ae_booked_loss x)"
    and r: "table_find exposure_key (a, e) (exposures db) = Some r"
    and db': "db' = db\<lparr>exposures := table_update (\<lambda>r. exposure_key r = (a, e)) (set_exposure x now) (exposures db)\<rparr>"
    by (auto simp: write_exposure_Inr)
  have "table_find exposure_key (a, e) (exposures db') = Some (set_exposure x now r)"
    using r exposure_table.find_key [OF r] by (simp add: db' exposure_table.find_upd)
  then show ?thesis
    using b exposure_ok_db [OF assms(2)]
    by (auto simp: get_exposure_def row_exposure_def set_exposure_def same_exposure_def db_decimal_facts)
qed

lemma exposures_leave_queue [simp]: "exposures (leave_queue row f s now db) = exposures db"
  by (simp add: leave_queue_def make_outbox_nondispatchable_def mark_consumed_def update_command_def)

lemma get_exposure_leave_queue [simp]: "get_exposure a e (leave_queue row f s now db) = get_exposure a e db"
  by (simp add: get_exposure_def)

section \<open>What admission does\<close>

lemma admitE:
  assumes "atomically_admit r now c db = Inr (db', row)"
  obtains h q a and g :: grant_row and policy current cm db2 db3 n l x
  where "admission_prechecks r now = Inr (h, q)" "auth_at db (ar_authorization_id r) = Some a"
    and "authorization_checks r h now a = Inr ()" "grant_at db (az_grant_id a) = Some g"
    and "policy_from_dict (dg_policy g) = Inr policy"
    and "get_exposure (si_account_id (ar_intent r)) (si_environment (ar_intent r)) db = Inr current"
    and "validate_order policy (si_instrument (ar_intent r)) (si_action (ar_intent r))
        (order_type_value (si_order_type (ar_intent r)))
        (case si_leverage (ar_intent r) of None \<Rightarrow> dec_int 1 | Some l \<Rightarrow> l) q current c = Inr ()"
    and "consume_authorization (ar_authorization_id r) (ar_command_id r) now
        (ensure_account_row (si_account_id (ar_intent r)) (si_environment (ar_intent r)) now db) = Inr db2"
    and "queued_command r h q (dg_grant_id g) now = Inr cm" "insert_command cm now db2 = Inr db3"
    and "decimal_add [ae_reserved_notional current, eq_notional q] = Inr n"
    and "decimal_add [ae_reserved_loss current, eq_worst_case_loss q] = Inr l"
    and "x = \<lparr> ae_reserved_notional = n, ae_reserved_loss = l, ae_booked_notional = ae_booked_notional current,
          ae_booked_loss = ae_booked_loss current \<rparr>" "exposure_ok x"
    and "write_exposure (si_account_id (ar_intent r)) (si_environment (ar_intent r)) x now db3 = Inr db'"
  using atomically_admit_effect [OF assms] unfolding read_after_ensure by (elim exE conjE) blast

lemma admit_spends:
  assumes "atomically_admit r now c db = Inr (db', row)"
  shows "\<exists>a. auth_at db' (ar_authorization_id r) = Some a \<and> az_state a = AS_CONSUMING
    \<and> az_command_id a = Some (ar_command_id r)"
  using assms
proof (rule admitE)
  fix h q a g policy current cm db2 db3 n l x
  assume a: "auth_at db (ar_authorization_id r) = Some a" "authorization_checks r h now a = Inr ()"
    and consume: "consume_authorization (ar_authorization_id r) (ar_command_id r) now
        (ensure_account_row (si_account_id (ar_intent r)) (si_environment (ar_intent r)) now db) = Inr db2"
    and cm: "queued_command r h q (dg_grant_id (g :: grant_row)) now = Inr cm"
    and ins: "insert_command cm now db2 = Inr db3"
    and wr: "write_exposure (si_account_id (ar_intent r)) (si_environment (ar_intent r)) x now db3 = Inr db'"
  have k: "cm_command_id cm = ar_command_id r" using queued_command_fields(1) [OF cm] .
  from consume_insert_effect [OF consume [folded k] ins] have
    "auth_at db3 (ar_authorization_id r) = map_option (\<lambda>a. if az_authorization_id a = ar_authorization_id r
        \<and> az_state a = AS_ISSUED then a\<lparr>az_state := AS_CONSUMING, az_command_id := Some (cm_command_id cm),
        az_updated_at := now\<rparr> else a) (auth_at db (ar_authorization_id r))"
    by (elim exE conjE) simp
  moreover have "az_state a = AS_ISSUED" using a(2) by (simp add: authorization_checks_def)
  moreover have "az_authorization_id a = ar_authorization_id r" using auth_at_key [OF a(1)] .
  ultimately show ?thesis using a(1) write_exposure_at(2) [OF wr] k by simp
qed

lemma admit_needs_issued:
  assumes "atomically_admit r now c db = Inr (db', row)"
  shows "\<exists>a. auth_at db (ar_authorization_id r) = Some a \<and> az_state a = AS_ISSUED"
  using atomically_admit_effect [OF assms] by (auto simp: authorization_checks_def)

lemma spent_stays_spent:
  assumes "store_later s t" "auth_at s k = Some a" "az_state a \<noteq> AS_ISSUED"
  shows "\<exists>b. auth_at t k = Some b \<and> az_state b \<noteq> AS_ISSUED"
proof -
  from assms(1,2) obtain b where b: "auth_at t k = Some b" "authorization_later a b"
    unfolding store_later_def rows_later_def by blast
  have "1 \<le> authorization_rank (az_state a)" using assms(3) by (cases "az_state a") auto
  with b(2) have "1 \<le> authorization_rank (az_state b)" by (auto simp: authorization_later_def)
  then have "az_state b \<noteq> AS_ISSUED" by (cases "az_state b") auto
  with b(1) show ?thesis by blast
qed
lemma exposures_insert: "insert_command c now db = Inr db' \<Longrightarrow> exposures db' = exposures db"
  and exposures_consume: "consume_authorization aid cid now db = Inr db' \<Longrightarrow> exposures db' = exposures db"
  by (auto simp: insert_command_def consume_authorization_def)

text \<open>What an admission may add, and what it leaves alone.\<close>

lemma admit_exposure:
  assumes "atomically_admit r now c db = Inr (db', row)"
  shows "\<exists>q a g policy x y. auth_at db (ar_authorization_id r) = Some a
    \<and> grant_at db (az_grant_id a) = Some g \<and> policy_from_dict (dg_policy g) = Inr policy
    \<and> (\<exists>h. admission_prechecks r now = Inr (h, q)) \<and> within_hard_ceilings policy
    \<and> get_exposure (si_account_id (ar_intent r)) (si_environment (ar_intent r)) db = Inr x
    \<and> get_exposure (si_account_id (ar_intent r)) (si_environment (ar_intent r)) db' = Inr y
    \<and> dval (ae_reserved_notional x) + dval (ae_booked_notional x) + dval (eq_notional q)
        \<le> dval (rp_max_account_gross_notional policy)
    \<and> dval (ae_reserved_loss x) + dval (ae_booked_loss x) + dval (eq_worst_case_loss q)
        \<le> dval (rp_max_account_worst_case_loss policy)
    \<and> dval (ae_reserved_notional x) + dval (eq_notional q) \<le> dval (ae_reserved_notional y)
    \<and> dval (ae_reserved_loss x) + dval (eq_worst_case_loss q) \<le> dval (ae_reserved_loss y)
    \<and> dval (ae_booked_notional y) = dval (ae_booked_notional x)
    \<and> dval (ae_booked_loss y) = dval (ae_booked_loss x)"
  using assms
proof (rule admitE)
  fix h q a g policy current cm db2 db3 n l x
  assume pre: "admission_prechecks r now = Inr (h, q)" and a: "auth_at db (ar_authorization_id r) = Some a"
    and g: "grant_at db (az_grant_id a) = Some (g :: grant_row)"
    and policy: "policy_from_dict (dg_policy g) = Inr policy"
    and current: "get_exposure (si_account_id (ar_intent r)) (si_environment (ar_intent r)) db = Inr current"
    and valid: "validate_order policy (si_instrument (ar_intent r)) (si_action (ar_intent r))
        (order_type_value (si_order_type (ar_intent r)))
        (case si_leverage (ar_intent r) of None \<Rightarrow> dec_int 1 | Some l \<Rightarrow> l) q current c = Inr ()"
    and n: "decimal_add [ae_reserved_notional current, eq_notional q] = Inr n"
    and l: "decimal_add [ae_reserved_loss current, eq_worst_case_loss q] = Inr l"
    and x: "x = \<lparr> ae_reserved_notional = n, ae_reserved_loss = l, ae_booked_notional = ae_booked_notional current,
          ae_booked_loss = ae_booked_loss current \<rparr>" "exposure_ok x"
    and wr: "write_exposure (si_account_id (ar_intent r)) (si_environment (ar_intent r)) x now db3 = Inr db'"
  from get_after_write [OF wr x(2)] obtain y where
    y: "get_exposure (si_account_id (ar_intent r)) (si_environment (ar_intent r)) db' = Inr y" "same_exposure y x"
    by blast
  have limits: "dval (ae_reserved_notional y) = dval n" "dval (ae_reserved_loss y) = dval l"
      "dval (ae_booked_notional y) = dval (ae_booked_notional current)"
      "dval (ae_booked_loss y) = dval (ae_booked_loss current)"
    using y(2) by (simp_all add: same_exposure_def x(1))
  show ?thesis
    using pre a g policy current y(1) validate_order_bounds(1,4,5) [OF valid] decimal_add_up [OF n]
      decimal_add_up [OF l] limits
    by (intro exI conjI) (assumption | simp)+
qed

section \<open>What filling and ending a command does\<close>

lemma fill_exposure_gross:
  assumes "fill_exposure x f = Inr y" "exposure_ok x"
  shows "dval (ae_reserved_notional x) + dval (ae_booked_notional x)
      \<le> dval (ae_reserved_notional y) + dval (ae_booked_notional y)
    \<and> dval (ae_reserved_loss x) + dval (ae_booked_loss x) \<le> dval (ae_reserved_loss y) + dval (ae_booked_loss y)
    \<and> dval (ae_booked_notional x) + dval (fa_delta_notional f) \<le> dval (ae_booked_notional y)
    \<and> dval (ae_booked_loss x) + dval (fa_delta_loss f) \<le> dval (ae_booked_loss y) \<and> exposure_ok y"
proof -
  from assms(1) obtain rn rl bn bl where
      rn: "decimal_subtract (ae_reserved_notional x) (fa_delta_notional f) = Inr rn"
    and rl: "decimal_subtract (ae_reserved_loss x) (fa_delta_loss f) = Inr rl"
    and bn: "decimal_add [ae_booked_notional x, fa_delta_notional f] = Inr bn"
    and bl: "decimal_add [ae_booked_loss x, fa_delta_loss f] = Inr bl"
    and y: "y = \<lparr> ae_reserved_notional = rn, ae_reserved_loss = rl, ae_booked_notional = bn, ae_booked_loss = bl \<rparr>"
      "exposure_ok y"
    by (auto simp: fill_exposure_def)
  from decimal_subtract_up [OF rn] decimal_subtract_up [OF rl] decimal_add_up [OF bn] decimal_add_up [OF bl] y
  show ?thesis by simp
qed

lemma get_exposure_ok: "get_exposure a e db = Inr x \<Longrightarrow> exposure_ok x"
proof (cases "table_find exposure_key (a, e) (exposures db)")
  case None
  assume "get_exposure a e db = Inr x"
  with None sample_columns(5) show ?thesis
    by (auto simp: get_exposure_def zero_exposure_def)
qed (auto simp: get_exposure_def row_exposure_def)

lemma record_fill_exposure:
  assumes "record_fill cid q now db = Inr (db', c)"
  shows "\<exists>row x y. command_at db cid = Some row
    \<and> get_exposure (cm_account_id row) (cm_environment row) db = Inr x
    \<and> get_exposure (cm_account_id row) (cm_environment row) db' = Inr y
    \<and> dval (ae_reserved_notional x) + dval (ae_booked_notional x)
        \<le> dval (ae_reserved_notional y) + dval (ae_booked_notional y)
    \<and> dval (ae_reserved_loss x) + dval (ae_booked_loss x) \<le> dval (ae_reserved_loss y) + dval (ae_booked_loss y)
    \<and> cm_booked_quantity row \<le> cm_booked_quantity c"
proof -
  from record_fill_effect [OF assms] obtain row cumulative f x y where
      q: "exact_decimal q = Inr cumulative" and
      row: "command_at db cid = Some row" and f: "fill_conversion row cumulative = Inr f"
    and x: "get_exposure (cm_account_id row) (cm_environment row) db = Inr x" and y: "fill_exposure x f = Inr y"
    and wr: "write_exposure (cm_account_id row) (cm_environment row) y now
        (leave_queue row (booked_row (cm_requested_quantity row) cumulative f now) Observed_Fill now
          (ensure_account_row (cm_account_id row) (cm_environment row) now db)) = Inr db'"
    and c: "command_at db' cid = Some c"
    unfolding read_after_ensure by (elim exE conjE) blast
  note gross = fill_exposure_gross [OF y get_exposure_ok [OF x]]
  from gross get_after_write [OF wr] obtain z where
    z: "get_exposure (cm_account_id row) (cm_environment row) db' = Inr z" "same_exposure z y" by blast
  have "c = booked_row (cm_requested_quantity row) cumulative f now row"
    using c row command_at_key [OF row]
    by (simp add: write_exposure_at(3) [OF wr] leave_queue_at(1) [OF booked_row_same])
  then have "cm_booked_quantity row \<le> cm_booked_quantity c"
    using fill_conversion_guards(2) [OF f] exact_decimal_bounded [OF q]
    by (simp add: booked_row_def le_dval db_decimal_facts)
  with row x z gross show ?thesis
    by (intro exI conjI) (assumption | simp add: same_exposure_def)+
qed

lemma mark_terminal_exposure:
  assumes "mark_terminal cid s now db = Inr (db', c)"
  shows "\<exists>row x y. command_at db cid = Some row \<and> cm_state row = Queued
    \<and> s \<in> set releasing_command_states \<and> cm_state c = s
    \<and> list_all (\<lambda>d. dval d = 0) [cm_reserved_quantity c, cm_reserved_notional c, cm_reserved_loss c]
    \<and> get_exposure (cm_account_id row) (cm_environment row) db = Inr x
    \<and> get_exposure (cm_account_id row) (cm_environment row) db' = Inr y
    \<and> dval (ae_reserved_notional x) - dval (cm_reserved_notional row) \<le> dval (ae_reserved_notional y)
    \<and> dval (ae_reserved_loss x) - dval (cm_reserved_loss row) \<le> dval (ae_reserved_loss y)
    \<and> dval (ae_booked_notional y) = dval (ae_booked_notional x)
    \<and> dval (ae_booked_loss y) = dval (ae_booked_loss x)"
proof -
  from mark_terminal_effect [OF assms] obtain row x n l y quantity notional loss where
      s: "s \<in> set releasing_command_states" and row: "command_at db cid = Some row" "cm_state row = Queued"
    and x: "read_exposure (cm_account_id row) (cm_environment row) db = Inr x"
    and n: "decimal_subtract (ae_reserved_notional x) (cm_reserved_notional row) = Inr n"
    and l: "decimal_subtract (ae_reserved_loss x) (cm_reserved_loss row) = Inr l"
    and y: "y = \<lparr> ae_reserved_notional = n, ae_reserved_loss = l, ae_booked_notional = ae_booked_notional x,
            ae_booked_loss = ae_booked_loss x \<rparr>" "exposure_ok y"
    and wr: "write_exposure (cm_account_id row) (cm_environment row) y now
        (leave_queue row (released_row s quantity notional loss now) Terminal now db) = Inr db'"
    and c: "command_at db' cid = Some c"
    by (elim exE conjE) blast
  from get_after_write [OF wr y(2)] obtain z where
    z: "get_exposure (cm_account_id row) (cm_environment row) db' = Inr z" "same_exposure z y" by blast
  have "command_at db' cid = Some (released_row s quantity notional loss now row)"
    using row(1) command_at_key [OF row(1)] write_exposure_at(3) [OF wr]
    by (simp add: leave_queue_at released_row_facts)
  with c have cr: "c = released_row s quantity notional loss now row" by simp
  have released: "cm_state c = s"
      "list_all (\<lambda>d. dval d = 0) [cm_reserved_quantity c, cm_reserved_notional c, cm_reserved_loss c]"
    by (simp_all add: cr released_row_def)
  have vals: "dval (ae_reserved_notional z) = dval n" "dval (ae_reserved_loss z) = dval l"
      "dval (ae_booked_notional z) = dval (ae_booked_notional x)"
      "dval (ae_booked_loss z) = dval (ae_booked_loss x)"
    using z(2) by (simp_all add: same_exposure_def y(1))
  show ?thesis
    using s row released read_is_get [OF x] z(1) decimal_subtract_up [OF n] decimal_subtract_up [OF l] vals
    by (intro exI conjI) (assumption | simp)+
qed

section \<open>The sample run\<close>

definition sample_ops :: "store_op list" where
  "sample_ops =
     [Register_Grant sample_grant sample_policy hard_platform_ceilings,
      Register_Authorization sample_authorization]"

lemma sample_ops_run: "run_ops store_step empty_store sample_ops = sample_registered"
  by (simp add: sample_ops_def attempt_def register_sample_grant register_sample_authorization)

definition sample_fill :: fill_amounts where
  "sample_fill =
     \<lparr> fa_target_notional = Dec 100 0, fa_target_loss = Dec 1015 (- 2), fa_delta_notional = Dec 100 0,
       fa_delta_loss = Dec 1015 (- 2), fa_reserved_notional = Dec 100 0, fa_reserved_loss = Dec 1015 (- 2),
       fa_reserved_quantity = Dec 1 0 \<rparr>"

lemma sample_fill_targets:
  "fill_target (Dec 200 0) (Dec 1 0) (Dec 2 0) = Inr (Dec 100 0)"
  "fill_target (Dec 203 (- 1)) (Dec 1 0) (Dec 2 0) = Inr (Dec 1015 (- 2))"
proof -
  have "decimal_divide (Dec 200 0) (Dec 2 0) = Inr (Dec 100 0)"
    by (rule decimal_divide_exact [OF quotient_exact [where m = 0 and q = 100, THEN trans]])
      (simp_all add: decimal_eval)
  then show "fill_target (Dec 200 0) (Dec 1 0) (Dec 2 0) = Inr (Dec 100 0)"
    by (simp add: fill_target_def decimal_eval)
  have "decimal_divide (Dec 203 (- 1)) (Dec 2 0) = Inr (Dec 1015 (- 2))"
    by (rule decimal_divide_exact [OF quotient_exact [where m = 1 and q = 1015, THEN trans]])
      (simp_all add: decimal_eval)
  then show "fill_target (Dec 203 (- 1)) (Dec 1 0) (Dec 2 0) = Inr (Dec 1015 (- 2))"
    by (simp add: fill_target_def decimal_eval)
qed

lemma sample_differences:
  "decimal_subtract (Dec 2 0) 0 = Inr (Dec 2 0)" "decimal_subtract (Dec 100 0) 0 = Inr (Dec 100 0)"
  "decimal_subtract (Dec 1015 (- 2)) 0 = Inr (Dec 1015 (- 2))" "decimal_subtract (Dec 1 0) 0 = Inr (Dec 1 0)"
  "decimal_subtract (Dec 200 0) (Dec 100 0) = Inr (Dec 100 0)"
  "decimal_subtract (Dec 203 (- 1)) (Dec 1015 (- 2)) = Inr (Dec 1015 (- 2))"
  "decimal_subtract (Dec 2 0) (Dec 1 0) = Inr (Dec 1 0)"
  by (simp_all add: decimal_eval)

lemma sample_comparisons:
  "\<not> Dec 1 0 < 0" "\<not> Dec 2 0 < Dec 1 0" "\<not> dmin (dmin (Dec 100 0) (Dec 1015 (- 2))) (Dec 1 0) < 0"
  by (simp_all add: decimal_eval)

lemma sample_fill_conversion: "fill_conversion sample_command (Dec 1 0) = Inr sample_fill"
  by (simp add: fill_conversion_def sample_command_def releasing_command_states_def sample_fill_targets
      sample_differences sample_comparisons sample_fill_def)

lemma sample_command_found:
  "command_at sample_admitted ''cmd-1'' = Some sample_command"
  "get_exposure ''acct'' TESTNET sample_admitted = Inr sample_exposure"
  using sample_columns(6)
  by (simp_all add: command_at_def table_find_def sample_admitted_def sample_command_def get_exposure_def
      exposure_key_def row_exposure_def sample_exposure_def)

lemma ok_pair: "is_ok m \<Longrightarrow> \<exists>a b. m = Inr (a, b)"
  by (cases m) auto

text \<open>The operations succeed whenever their guards and columns do; here on the sample store.\<close>

lemma mark_unknown_ok:
  assumes "command_at db cid = Some row" "cm_state row \<notin> set terminal_command_states"
  shows "is_ok (mark_unknown cid now db)"
proof -
  have "command_row_locked cid (make_outbox_nondispatchable cid Blocked_Unknown now
      (mark_consumed (cm_authorization_id row) now (update_command cid
        (\<lambda>c. c\<lparr>cm_state := Submitted_Unknown, cm_updated_at := now\<rparr>) db)))
      = Inr (row\<lparr>cm_state := Submitted_Unknown, cm_updated_at := now\<rparr>)"
    using assms(1) command_at_key [OF assms(1)]
    by (simp add: nondispatchable_at mark_consumed_at update_command_at)
  with assms show ?thesis by (simp add: mark_unknown_def command_row_locked_def command_at_def of_option_def)
qed

lemma sample_fill_exposure:
  "fill_exposure sample_exposure sample_fill = Inr
     \<lparr> ae_reserved_notional = Dec 100 0, ae_reserved_loss = Dec 1015 (- 2), ae_booked_notional = Dec 100 0,
       ae_booked_loss = Dec 1015 (- 2) \<rparr>"
proof -
  have "decimal_add [0, Dec 100 0] = Inr (Dec 100 0)" "decimal_add [0, Dec 1015 (- 2)] = Inr (Dec 1015 (- 2))"
    "list_all nonnegative [Dec 100 0, Dec 1015 (- 2), Dec 100 0, Dec 1015 (- 2)]"
    by (simp_all add: decimal_eval)
  then show ?thesis
    by (simp add: fill_exposure_def sample_exposure_def sample_fill_def sample_differences exposure_ok_def)
qed

lemma write_exposure_ok:
  assumes "exposure_ok y" "read_exposure a e db = Inr x" "exposures db1 = exposures db"
  shows "\<exists>db'. write_exposure a e y now db1 = Inr db' \<and> command_at db' = command_at db1"
proof -
  have "table_find exposure_key (a, e) (exposures db1) \<noteq> None"
    using assms(2,3) by (auto simp: read_exposure_def)
  then obtain db' where wr: "write_exposure a e y now db1 = Inr db'"
    using assms(1) by (simp add: write_exposure_Inr exposure_ok_def nonnegative_def)
  with write_exposure_at(3) [OF wr] show ?thesis by blast
qed

lemma record_fill_ok:
  assumes "exact_decimal q = Inr cumulative" "\<not> cumulative < 0" "command_at db cid = Some row"
    and "fill_conversion row cumulative = Inr f" "exposure_ok y"
    and "get_exposure (cm_account_id row) (cm_environment row) db = Inr x" "fill_exposure x f = Inr y"
    and "list_all bounded [fa_reserved_quantity f, fa_reserved_notional f, fa_target_notional f,
        fa_reserved_loss f, fa_target_loss f]"
  shows "\<exists>db' c. record_fill cid q now db = Inr (db', c)"
proof -
  let ?a = "cm_account_id row" and ?e = "cm_environment row"
  let ?db1 = "ensure_account_row ?a ?e now db"
  have read: "read_exposure ?a ?e ?db1 = Inr x" using assms(6) by (simp add: read_after_ensure)
  define g where "g = booked_row (cm_requested_quantity row) cumulative f now"
  have cid: "cm_command_id row = cid" using command_at_key [OF assms(3)] .
  obtain db' where db': "write_exposure ?a ?e y now (leave_queue row g Observed_Fill now ?db1) = Inr db'"
      "command_at db' = command_at (leave_queue row g Observed_Fill now ?db1)"
    using write_exposure_ok [OF assms(5) read, of "leave_queue row g Observed_Fill now ?db1"] by auto
  have "command_at db' cid = Some (g row)"
    using assms(3) by (simp add: db'(2) leave_queue_at g_def booked_row_same cid)
  then show ?thesis
    using assms read db'(1) exact_decimal_bounded [OF assms(1)]
    by (simp add: record_fill_def Let_def leave_queue_def cid g_def booked_row_def [abs_def])
qed

lemma mark_terminal_ok:
  assumes "s \<in> set releasing_command_states" "command_at db cid = Some row" "cm_state row = Queued"
    and "read_exposure (cm_account_id row) (cm_environment row) db = Inr x"
    and "decimal_subtract (ae_reserved_notional x) (cm_reserved_notional row) = Inr n"
    and "decimal_subtract (ae_reserved_loss x) (cm_reserved_loss row) = Inr l"
    and "exposure_ok \<lparr> ae_reserved_notional = n, ae_reserved_loss = l,
        ae_booked_notional = ae_booked_notional x, ae_booked_loss = ae_booked_loss x \<rparr>"
    and "decimal_add [cm_released_quantity row, cm_reserved_quantity row] = Inr rq"
    and "decimal_add [cm_released_notional row, cm_reserved_notional row] = Inr rn"
    and "decimal_add [cm_released_loss row, cm_reserved_loss row] = Inr rl"
  shows "\<exists>db' c. mark_terminal cid s now db = Inr (db', c)"
proof -
  let ?a = "cm_account_id row" and ?e = "cm_environment row"
  define g where "g = released_row s (db_decimal rq) (db_decimal rn) (db_decimal rl) now"
  have b: "bounded rq" "bounded rn" "bounded rl" using assms(8-10) decimal_add_up by blast+
  have cid: "cm_command_id row = cid" using command_at_key [OF assms(2)] .
  obtain db' where db': "write_exposure ?a ?e \<lparr> ae_reserved_notional = n, ae_reserved_loss = l,
        ae_booked_notional = ae_booked_notional x, ae_booked_loss = ae_booked_loss x \<rparr> now
        (leave_queue row g Terminal now db) = Inr db'"
      "command_at db' = command_at (leave_queue row g Terminal now db)"
    using write_exposure_ok [OF assms(7,4), of "leave_queue row g Terminal now db"] by auto
  have "command_at db' cid = Some (g row)"
    using assms(2) by (simp add: db'(2) leave_queue_at g_def released_row_facts cid)
  then show ?thesis
    using assms db'(1) b
    by (simp add: mark_terminal_def Let_def leave_queue_def cid g_def released_row_def [abs_def]
        terminal_command_states_def)
qed

lemma record_sample_fill: "\<exists>db' c. record_fill ''cmd-1'' (In_Int 1) 200 sample_admitted = Inr (db', c)"
proof (rule record_fill_ok [OF _ sample_comparisons(1) sample_command_found(1) sample_fill_conversion])
  show "exact_decimal (In_Int 1) = Inr (Dec 1 0)"
    by (simp add: exact_decimal_def validate_decimal_bounds_eq) (simp add: decimal_eval)
  show "get_exposure (cm_account_id sample_command) (cm_environment sample_command) sample_admitted
      = Inr sample_exposure"
    using sample_command_found(2) by (simp add: sample_command_def)
  show "exposure_ok \<lparr> ae_reserved_notional = Dec 100 0, ae_reserved_loss = Dec 1015 (- 2),
       ae_booked_notional = Dec 100 0, ae_booked_loss = Dec 1015 (- 2) \<rparr>"
    by (simp add: exposure_ok_def) (simp add: decimal_eval)
qed (simp_all add: sample_fill_exposure, simp add: sample_fill_def decimal_eval)

lemma cancel_sample: "\<exists>db' c. mark_terminal ''cmd-1'' Canceled 200 sample_admitted = Inr (db', c)"
proof (rule mark_terminal_ok [OF _ sample_command_found(1)])
  show "read_exposure (cm_account_id sample_command) (cm_environment sample_command) sample_admitted
      = Inr sample_exposure"
    using sample_columns(6)
    by (simp add: read_exposure_def table_find_def sample_admitted_def exposure_key_def row_exposure_def
        sample_exposure_def sample_command_def of_option_def)
  show "decimal_subtract (ae_reserved_notional sample_exposure) (cm_reserved_notional sample_command) = Inr (Dec 0 0)"
    "decimal_subtract (ae_reserved_loss sample_exposure) (cm_reserved_loss sample_command) = Inr (Dec 0 (- 1))"
    unfolding sample_exposure_def sample_command_def by (simp_all add: decimal_eval)
  show "decimal_add [cm_released_quantity sample_command, cm_reserved_quantity sample_command] = Inr (Dec 2 0)"
    "decimal_add [cm_released_notional sample_command, cm_reserved_notional sample_command] = Inr (Dec 200 0)"
    "decimal_add [cm_released_loss sample_command, cm_reserved_loss sample_command] = Inr (Dec 203 (- 1))"
    unfolding sample_command_def by (simp_all add: decimal_eval)
  show "exposure_ok \<lparr> ae_reserved_notional = Dec 0 0, ae_reserved_loss = Dec 0 (- 1),
      ae_booked_notional = ae_booked_notional sample_exposure, ae_booked_loss = ae_booked_loss sample_exposure \<rparr>"
    unfolding sample_exposure_def by (simp add: exposure_ok_def) (simp add: decimal_eval)
qed (simp_all add: releasing_command_states_def sample_command_def)

section \<open>Properties of the store\<close>

text \<open>C1: In every store the public methods can reach, whatever the order of registrations,
  revocations, admissions, fills and cancellations, a pending (dispatchable) outbox row belongs
  to a queued command whose authorization is being consumed and whose grant is not revoked.\<close>

theorem pending_rows_authorized:
  "list_all (pending_authorized (run_ops store_step empty_store ops))
     (outbox (run_ops store_step empty_store ops))"
proof -
  let ?db = "run_ops store_step empty_store ops"
  have inv: "store_inv ?db" by (rule harness_store.reachable_inv) simp
  then have "distinct (map ob_command_id (outbox ?db))" by (simp add: store_inv_def keys_inv_def)
  then have "outbox_at ?db (ob_command_id x) = Some x" if "x \<in> set (outbox ?db)" for x
    using that by (simp add: outbox_at_def table_find_distinct)
  moreover have "links_inv ?db" using inv by (simp add: store_inv_def)
  ultimately show ?thesis unfolding list_all_iff by (blast dest: links_invD(3))
qed

text \<open>C2: An authorization admits at most one command: after it admitted one, no later admission
  with it succeeds, whatever happened to the store in between.\<close>

theorem authorization_single_use:
  assumes "atomically_admit r now c (run_ops store_step empty_store ops) = Inr (db', row)"
    and "ar_authorization_id r' = ar_authorization_id r"
  shows "\<not> is_ok (atomically_admit r' now' c' (run_ops store_step db' rest))"
proof
  let ?db = "run_ops store_step empty_store ops" and ?later = "run_ops store_step db' rest"
  assume "is_ok (atomically_admit r' now' c' ?later)"
  then obtain db'' row' where again: "atomically_admit r' now' c' ?later = Inr (db'', row')"
    using ok_pair by blast
  have "store_inv db'"
    by (rule atomically_admit_inv [OF assms(1)]) (rule harness_store.reachable_inv, simp)
  then have "store_later db' ?later" by (rule harness_store.run_below)
  moreover obtain a where "auth_at db' (ar_authorization_id r) = Some a" "az_state a \<noteq> AS_ISSUED"
    using admit_spends [OF assms(1)] by auto
  ultimately show False
    using spent_stays_spent admit_needs_issued [OF again] assms(2) by fastforce
qed

lemma authorization_single_use_witness:
  "atomically_admit sample_request 100 hard_platform_ceilings (run_ops store_step empty_store sample_ops)
     = Inr (sample_admitted, sample_command)
   \<and> \<not> is_ok (atomically_admit (sample_request\<lparr>ar_command_id := ''cmd-2''\<rparr>) 300 hard_platform_ceilings
        (run_ops store_step sample_admitted [Mark_Unknown ''cmd-1'' 200]))"
proof -
  have "atomically_admit sample_request 100 hard_platform_ceilings (run_ops store_step empty_store sample_ops)
     = Inr (sample_admitted, sample_command)"
    by (simp add: sample_ops_run admit_sample)
  moreover have "ar_authorization_id (sample_request\<lparr>ar_command_id := ''cmd-2''\<rparr>)
      = ar_authorization_id sample_request" by simp
  ultimately show ?thesis by (blast dest: authorization_single_use)
qed

text \<open>C3: An admitted order fits both limits: the policy stored with the grant lies under the
  compiled ceilings, the account's exposure before the order plus the order's own notional and
  worst-case loss is within that policy, the reservation grows by at least the order, and
  what is already booked is untouched.\<close>

theorem admission_within_limits:
  assumes "atomically_admit r now c db = Inr (db', row)"
  shows "\<exists>q a g policy x y. auth_at db (ar_authorization_id r) = Some a
    \<and> grant_at db (az_grant_id a) = Some g \<and> policy_from_dict (dg_policy g) = Inr policy
    \<and> (\<exists>h. admission_prechecks r now = Inr (h, q)) \<and> within_hard_ceilings policy
    \<and> get_exposure (si_account_id (ar_intent r)) (si_environment (ar_intent r)) db = Inr x
    \<and> get_exposure (si_account_id (ar_intent r)) (si_environment (ar_intent r)) db' = Inr y
    \<and> dval (ae_reserved_notional x) + dval (ae_booked_notional x) + dval (eq_notional q)
        \<le> dval (rp_max_account_gross_notional policy)
    \<and> dval (ae_reserved_loss x) + dval (ae_booked_loss x) + dval (eq_worst_case_loss q)
        \<le> dval (rp_max_account_worst_case_loss policy)
    \<and> dval (ae_reserved_notional x) + dval (eq_notional q) \<le> dval (ae_reserved_notional y)
    \<and> dval (ae_reserved_loss x) + dval (eq_worst_case_loss q) \<le> dval (ae_reserved_loss y)
    \<and> dval (ae_booked_notional y) = dval (ae_booked_notional x)
    \<and> dval (ae_booked_loss y) = dval (ae_booked_loss x)"
  by (rule admit_exposure [OF assms])

lemma admission_within_limits_witness:
  "\<exists>policy. policy_from_dict sample_policy_dict = Inr policy \<and> within_hard_ceilings policy"
  using admission_within_limits [OF admit_sample]
  by (auto simp: grant_at_def auth_at_def table_find_def sample_registered_def sample_grant_row_def
      sample_authorization_row_def sample_request_def)

text \<open>C4: History is append-only: from any reachable store, after any further operations every
  authorization, command, grant and outbox row is still there with its identity; an authorization
  keeps the command it was spent on and never regains an earlier state, a command keeps what it
  was admitted with and never books less, a cancelled, rejected or expired command never changes
  again, a filled command stays filled (a repeated fill report may still rewrite its time of
  update), no command re-enters the queue, a revoked grant stays revoked, and an outbox row that
  stopped being dispatchable is never rewritten.\<close>

theorem store_history_monotone:
  "store_later (run_ops store_step empty_store ops) (run_ops store_step empty_store (ops @ rest))"
  by (rule harness_store.later_below) simp

text \<open>Marking a command's submission as unknown releases nothing: every account keeps its
  exposure, the command keeps its reservations, and its outbox row is no longer dispatchable.\<close>

theorem mark_unknown_keeps_exposure:
  assumes "mark_unknown cid now db = Inr (db', c)"
  shows "exposures db' = exposures db
    \<and> (\<exists>row. command_at db cid = Some row
        \<and> c = row\<lparr>cm_state := Submitted_Unknown, cm_updated_at := now\<rparr>)
    \<and> pred_option (\<lambda>x. \<not> dispatchable x) (outbox_at db' cid)"
proof -
  from mark_unknown_effect [OF assms] obtain row where row: "command_at db cid = Some row"
    and db': "db' = leave_queue row (\<lambda>c. c\<lparr>cm_state := Submitted_Unknown, cm_updated_at := now\<rparr>)
        Blocked_Unknown now db"
    and c: "command_at db' cid = Some c" by blast
  have ident: "same_identity c (c\<lparr>cm_state := Submitted_Unknown, cm_updated_at := now\<rparr>)" for c
    by (simp add: same_identity_def client_order_key_def signal_key_def)
  have cid: "cm_command_id row = cid" using command_at_key [OF row] .
  have "c = row\<lparr>cm_state := Submitted_Unknown, cm_updated_at := now\<rparr>"
    using c row cid by (simp add: db' leave_queue_at ident)
  moreover have "pred_option (\<lambda>x. \<not> dispatchable x) (outbox_at db' cid)"
    using outbox_at_key [of db cid]
    by (cases "outbox_at db cid") (simp_all add: db' leave_queue_at ident cid dispatchable_def)
  ultimately show ?thesis using row by (simp add: db')
qed

lemma mark_unknown_keeps_exposure_witness:
  "\<exists>db' c. mark_unknown ''cmd-1'' 200 sample_admitted = Inr (db', c) \<and> exposures db' = exposures sample_admitted"
proof -
  have "is_ok (mark_unknown ''cmd-1'' 200 sample_admitted)"
    by (rule mark_unknown_ok [OF sample_command_found(1)])
      (simp add: sample_command_def terminal_command_states_def)
  then obtain db' c where m: "mark_unknown ''cmd-1'' 200 sample_admitted = Inr (db', c)"
    using ok_pair by blast
  with mark_unknown_keeps_exposure [OF m] show ?thesis by blast
qed

text \<open>C19: Booking a fill never lowers what an account is charged with: reserved plus booked
  notional and loss do not decrease, and the command's booked quantity does not decrease.\<close>

theorem record_fill_never_releases:
  assumes "record_fill cid q now db = Inr (db', c)"
  shows "\<exists>row x y. command_at db cid = Some row
    \<and> get_exposure (cm_account_id row) (cm_environment row) db = Inr x
    \<and> get_exposure (cm_account_id row) (cm_environment row) db' = Inr y
    \<and> dval (ae_reserved_notional x) + dval (ae_booked_notional x)
        \<le> dval (ae_reserved_notional y) + dval (ae_booked_notional y)
    \<and> dval (ae_reserved_loss x) + dval (ae_booked_loss x) \<le> dval (ae_reserved_loss y) + dval (ae_booked_loss y)
    \<and> cm_booked_quantity row \<le> cm_booked_quantity c"
  by (rule record_fill_exposure [OF assms])

lemma record_fill_never_releases_witness:
  "\<exists>db' c y. record_fill ''cmd-1'' (In_Int 1) 200 sample_admitted = Inr (db', c)
     \<and> get_exposure ''acct'' TESTNET db' = Inr y
     \<and> 200 \<le> dval (ae_reserved_notional y) + dval (ae_booked_notional y)"
proof -
  obtain db' c where fill: "record_fill ''cmd-1'' (In_Int 1) 200 sample_admitted = Inr (db', c)"
    using record_sample_fill by blast
  have "cm_account_id sample_command = ''acct''" "cm_environment sample_command = TESTNET"
    by (simp_all add: sample_command_def)
  with record_fill_never_releases [OF fill] obtain y where "get_exposure ''acct'' TESTNET db' = Inr y"
    "dval (ae_reserved_notional sample_exposure) + dval (ae_booked_notional sample_exposure)
      \<le> dval (ae_reserved_notional y) + dval (ae_booked_notional y)"
    by (auto simp: sample_command_found)
  with fill show ?thesis by (auto simp: sample_exposure_def dval_def zero_decimal_def)
qed

text \<open>A command ends as cancelled, rejected or expired only from the queue; it then reserves
  nothing, the account's reservation drops by at most what the command held, and the booked
  exposure is untouched.\<close>

theorem mark_terminal_releases_own:
  assumes "mark_terminal cid s now db = Inr (db', c)"
  shows "\<exists>row x y. command_at db cid = Some row \<and> cm_state row = Queued
    \<and> s \<in> set releasing_command_states \<and> cm_state c = s
    \<and> list_all (\<lambda>d. dval d = 0) [cm_reserved_quantity c, cm_reserved_notional c, cm_reserved_loss c]
    \<and> get_exposure (cm_account_id row) (cm_environment row) db = Inr x
    \<and> get_exposure (cm_account_id row) (cm_environment row) db' = Inr y
    \<and> dval (ae_reserved_notional x) - dval (cm_reserved_notional row) \<le> dval (ae_reserved_notional y)
    \<and> dval (ae_reserved_loss x) - dval (cm_reserved_loss row) \<le> dval (ae_reserved_loss y)
    \<and> dval (ae_booked_notional y) = dval (ae_booked_notional x)
    \<and> dval (ae_booked_loss y) = dval (ae_booked_loss x)"
  by (rule mark_terminal_exposure [OF assms])

lemma mark_terminal_releases_own_witness:
  "\<exists>db' c. mark_terminal ''cmd-1'' Canceled 200 sample_admitted = Inr (db', c) \<and> cm_state c = Canceled"
proof -
  obtain db' c where cancel: "mark_terminal ''cmd-1'' Canceled 200 sample_admitted = Inr (db', c)"
    using cancel_sample by blast
  with mark_terminal_releases_own [OF cancel] show ?thesis by blast
qed

lemma command_id_stays:
  assumes "store_later s t" "auth_at s k = Some a" "az_command_id a = Some cid"
  shows "\<exists>b. auth_at t k = Some b \<and> az_command_id b = Some cid"
proof -
  from assms(1,2) obtain b where "auth_at t k = Some b" "authorization_later a b"
    unfolding store_later_def rows_later_def by blast
  with assms(3) show ?thesis by (auto simp: authorization_later_def)
qed

lemma issued_row_iff:
  assumes "store_inv db"
  shows "list_ex (\<lambda>a. az_authorization_id a = k \<and> az_state a = AS_ISSUED) (authorizations db)
    \<longleftrightarrow> (\<exists>a. auth_at db k = Some a \<and> az_state a = AS_ISSUED)"
proof -
  have "distinct (map az_authorization_id (authorizations db))"
    using assms by (simp add: store_inv_def keys_inv_def)
  then have "auth_at db k = Some a \<longleftrightarrow> a \<in> set (authorizations db) \<and> az_authorization_id a = k" for a
    unfolding auth_at_def by (auto simp: table_find_distinct dest: table_find_Some)
  then show ?thesis by (auto simp: list_ex_iff)
qed

lemma guard_then_Inl: "bindE (guard b e) (\<lambda>_. Inl e') = Inl (if b then e' else e)"
  by (simp add: guard_def)

text \<open>C20: A command ID is used once: after an admission, at any later time, presenting the same
  command ID with any other authorization never admits. When that authorization is itself still issued,
  it is the uniqueness of the command column that refuses the compare-and-set, with SQLite's
  integrity error; when it is missing or no longer issued, the update matches no row and the
  compare-and-set reports a conflict.\<close>

theorem command_id_single_use:
  assumes "atomically_admit r now c (run_ops store_step empty_store ops) = Inr (db', row)"
    and "ar_command_id r' = ar_command_id r" "ar_authorization_id r' \<noteq> ar_authorization_id r"
  shows "\<not> is_ok (atomically_admit r' now' c' (run_ops store_step db' rest))
    \<and> consume_authorization (ar_authorization_id r') (ar_command_id r') now' (run_ops store_step db' rest)
        = Inl (if \<exists>a. auth_at (run_ops store_step db' rest) (ar_authorization_id r') = Some a \<and> az_state a = AS_ISSUED
               then IntegrityError else StateConflict)"
proof -
  let ?later = "run_ops store_step db' rest"
  have inv: "store_inv db'"
    by (rule atomically_admit_inv [OF assms(1)]) (rule harness_store.reachable_inv, simp)
  then have "store_later db' ?later" by (rule harness_store.run_below)
  then obtain b where b: "auth_at ?later (ar_authorization_id r) = Some b"
      "az_command_id b = Some (ar_command_id r')"
    using command_id_stays admit_spends [OF assms(1)] assms(2) by metis
  then have taken: "list_ex (\<lambda>a. az_command_id a = Some (ar_command_id r')
      \<and> az_authorization_id a \<noteq> ar_authorization_id r') (authorizations ?later)"
    using assms(3) auth_at_key [OF b(1)] unfolding list_ex_iff
    by (auto simp: auth_at_def dest!: table_find_Some intro!: bexI [of _ b])
  then have "consume_authorization (ar_authorization_id r') (ar_command_id r') t db \<noteq> Inr x"
    if "authorizations db = authorizations ?later" for t db x
    using that by (simp add: consume_authorization_def)
  then have "\<not> is_ok (atomically_admit r' now' c' ?later)"
    by (auto dest!: ok_pair elim!: admitE simp: ensure_account_row_tables)
  moreover have "store_inv ?later" using inv by (rule harness_store.run_inv)
  ultimately show ?thesis
    using taken by (simp add: consume_authorization_def issued_row_iff guard_then_Inl)
qed

definition second_authorization :: authorization where
  "second_authorization = sample_authorization\<lparr>au_authorization_id := ''auth-2''\<rparr>"

definition second_row :: authorization_row where
  "second_row = sample_authorization_row\<lparr>az_authorization_id := ''auth-2''\<rparr>"

lemma second_registered:
  "register_authorization second_authorization sample_admitted
     = Inr (sample_admitted\<lparr>authorizations := authorizations sample_admitted @ [second_row]\<rparr>)"
  by (simp add: register_authorization_def second_authorization_def second_row_def sample_authorization_def
      sample_authorization_row_def sample_admitted_def sample_grant_row_def table_insert_def table_find_def)

lemma second_authorization_issued:
  "auth_at (run_ops store_step sample_admitted [Register_Authorization second_authorization]) ''auth-2'' = Some second_row"
  by (simp add: attempt_def second_registered auth_at_def)
    (simp add: table_find_def sample_admitted_def second_row_def sample_authorization_row_def)

text \<open>A second authorization, registered after the sample admission and still issued, cannot carry
  the admitted command.\<close>

lemma command_id_single_use_witness:
  "az_state second_row = AS_ISSUED
    \<and> consume_authorization ''auth-2'' ''cmd-1'' 300
        (run_ops store_step sample_admitted [Register_Authorization second_authorization]) = Inl IntegrityError"
proof -
  have issued: "az_state second_row = AS_ISSUED" by (simp add: second_row_def sample_authorization_row_def)
  have ids: "ar_command_id sample_request = ''cmd-1''" "ar_authorization_id sample_request = ''auth-1''"
    by (simp_all add: sample_request_def)
  show ?thesis
    using issued command_id_single_use [of sample_request 100 hard_platform_ceilings sample_ops sample_admitted
        sample_command "sample_request\<lparr>ar_authorization_id := ''auth-2''\<rparr>" 300 hard_platform_ceilings
        "[Register_Authorization second_authorization]"]
    by (simp add: sample_ops_run admit_sample ids second_authorization_issued del: run_ops_simps)
qed

text \<open>A partial fill whose pro-rata notional has a non-terminating decimal expansion below one
  tenth cannot be booked: with an original notional of 1 for 30 units, a cumulative fill of one unit
  is refused with a validation error, because the quotient rounded to 96 digits has an exponent below
  the least the harness accepts.\<close>

theorem small_pro_rata_fill_refused:
  "fill_conversion
     (sample_command\<lparr>cm_requested_quantity := Dec 30 0, cm_reserved_quantity := Dec 30 0,
       cm_original_notional := Dec 1 0, cm_reserved_notional := Dec 1 0\<rparr>) (Dec 1 0) = Inl ValidationError"
proof -
  have steps: "decimal_subtract (Dec 30 0) 0 = Inr (Dec 30 0)" "\<not> Dec 30 0 < Dec 1 0" "\<not> Dec 1 0 < 0"
    "\<not> deq (Dec 1 0) (Dec 30 0)" "decimal_multiply (Dec 1 0) (Dec 1 0) = Inr (Dec 1 0)"
    by (simp_all add: decimal_eval)
  show ?thesis
    by (simp add: fill_conversion_def sample_command_def releasing_command_states_def fill_target_def
        one_thirtieth steps)
qed

end
