(* ===== verification/Foundation_Properties.thy ===== *)
theory Foundation_Properties
  imports Samples
begin

text \<open>
  The properties of \<open>canonical.py\<close>, \<open>domain.py\<close> and \<open>policy.py\<close>: what a canonical text or a
  digest binds, what a constructor establishes, and that the arithmetic of admission is
  conservative.
\<close>

section \<open>Canonical data\<close>

text \<open>C21: The canonical text of a decimal reads back as a decimal of the same value that the
  harness accepts, and two accepted decimals have the same text exactly when they are equal.\<close>

theorem canonical_text_faithful:
  assumes "canonical_decimal a = Inr s" "canonical_decimal b = Inr t"
  shows "(\<exists>r. parse_decimal s = Some r \<and> dval r = dval a \<and> bounded r) \<and> (s = t \<longleftrightarrow> dval a = dval b)"
  using canonical_decimal_roundtrip [OF assms(1)] canonical_decimal_eq_iff [OF assms] by blast

lemma canonical_text_faithful_witness:
  "(\<exists>r. parse_decimal ''1.5'' = Some r \<and> dval r = dval (Dec 15 (- 1)) \<and> bounded r)
   \<and> dval (Dec 15 (- 1)) = dval (Dec 1500 (- 3))"
proof -
  have "canonical_decimal (Dec 15 (- 1)) = Inr ''1.5''" "canonical_decimal (Dec 1500 (- 3)) = Inr ''1.5''"
    by code_simp+
  from canonical_text_faithful [OF this] show ?thesis by blast
qed

text \<open>A digest of a canonicalised value binds its domain and its canonical JSON text: two
  digests agree only if both do, or two explicit byte strings collide under SHA-256.\<close>

theorem digest_binds_domain_and_text:
  assumes "domain_hash d v = Inr h" "domain_hash d' v' = Inr h"
    and "hash_material d v = Inr m" "hash_material d' v' = Inr m'"
  shows "d = d' \<and> canonical_json v = canonical_json v' \<or> hash_collision m m'"
  by (rule domain_hash_binds [OF assms])

lemma digest_binds_domain_and_text_witness:
  "\<exists>h m. domain_hash ''d'' (PMap [(KStr ''a'', PInt 1)]) = Inr h
    \<and> hash_material ''d'' (PMap [(KStr ''a'', PInt 1)]) = Inr m
    \<and> (canonical_json (PMap [(KStr ''a'', PInt 1)]) = canonical_json (PMap [(KStr ''a'', PInt 1)])
       \<or> hash_collision m m)"
proof -
  let ?v = "PMap [(KStr ''a'', PInt 1)]"
  have json: "canonical_json ?v = Inr (json_dumps (JObj [(''a'', JInt 1)]))"
    by (simp add: canonical_json_def key_text_def)
  obtain h m where "domain_hash ''d'' ?v = Inr h" "hash_material ''d'' ?v = Inr m"
    by (simp add: domain_hash_def hash_material_def canonical_bytes_def json)
  with digest_binds_domain_and_text [of "''d''" ?v h "''d''" ?v m m] show ?thesis by blast
qed

section \<open>Intents, authorizations and grants\<close>

text \<open>C6: Two intents with the same semantic hash have the same economic meaning, field by field up
  to the representation of decimals, or exhibit a SHA-256 collision.\<close>

theorem intent_hash_binds_meaning:
  assumes "semantic_intent_hash i = Inr h" "semantic_intent_hash j = Inr h"
    and "instant_ok (si_expires_at i)" "instant_ok (si_expires_at j)"
    and "hash_material semantic_intent_hash_domain (intent_val i) = Inr m"
    and "hash_material semantic_intent_hash_domain (intent_val j) = Inr m'"
  shows "same_intent i j \<or> hash_collision m m'"
  by (rule semantic_intent_hash_binds [OF assms])

lemma intent_hash_binds_meaning_witness:
  "\<exists>m. same_intent sample_intent sample_intent \<or> hash_collision m m"
proof -
  obtain m where "hash_material semantic_intent_hash_domain (intent_val sample_intent) = Inr m"
    using sample_payload_json by (simp add: hash_material_def canonical_bytes_def)
  moreover have "instant_ok (si_expires_at sample_intent)"
    by (simp add: sample_intent_def instant_ok_def microsecond_day_def)
  ultimately show ?thesis
    using intent_hash_binds_meaning [OF sample_intent_hash sample_intent_hash] by blast
qed

text \<open>Every intent the constructor accepts has a semantic hash, and intents of equal meaning,
  such as a quantity written 1.0 or 1.00, have the same one.\<close>

theorem constructed_intent_hash:
  assumes "make_intent a = Inr i" "make_intent b = Inr j" "same_intent i j"
  shows "\<exists>h. semantic_intent_hash i = Inr h \<and> semantic_intent_hash j = Inr h \<and> sha256_shaped h"
  using same_intent_same_hash [OF make_intent_ok [OF assms(1)] make_intent_ok [OF assms(2)] assms(3)]
    semantic_intent_hash_total [OF make_intent_ok [OF assms(1)]] sha256_hex_shaped
  by metis

lemma constructed_intent_hash_witness:
  "\<exists>h. semantic_intent_hash sample_intent = Inr h
     \<and> semantic_intent_hash (sample_intent\<lparr>si_quantity := Dec 200 (- 2)\<rparr>) = Inr h"
proof -
  have "make_intent (sample_args\<lparr>si_quantity := In_Str ''2.00''\<rparr>) = Inr (sample_intent\<lparr>si_quantity := Dec 200 (- 2)\<rparr>)"
    by code_simp
  moreover have "same_intent sample_intent (sample_intent\<lparr>si_quantity := Dec 200 (- 2)\<rparr>)"
    by (simp add: same_intent_def intent_texts_def sample_intent_def opt_deq_def) (simp add: decimal_eval)
  ultimately show ?thesis using constructed_intent_hash [OF make_sample_intent] by blast
qed

text \<open>A constructed intent is well formed and constructing it again from its own fields gives
  the same object.\<close>

theorem make_intent_normalises:
  assumes "make_intent a = Inr i"
  shows "intent_ok i \<and> make_intent (intent_args i) = Inr i"
  using make_intent_ok [OF assms] make_intent_again by blast

lemma make_intent_normalises_witness: "intent_ok sample_intent \<and> make_intent (intent_args sample_intent) = Inr sample_intent"
  by (rule make_intent_normalises [OF make_sample_intent])

text \<open>A constructed grant runs in the environment and under the authorization model its type
  prescribes, starts inside its own lifetime, is revoked exactly when it carries a revocation time,
  and allows at least one instrument and one action.\<close>

theorem make_grant_consistent:
  assumes "make_grant a = Inr g"
  shows "grant_ok g"
  by (rule make_grant_ok [OF assms])

lemma make_grant_consistent_witness: "grant_ok sample_grant"
  by (rule make_grant_consistent [OF make_sample_grant])

section \<open>Conservative risk arithmetic\<close>

text \<open>C5: The exposure quote of an intent never under-states it: the quoted notional and worst-case
  loss are at least the exact rational values of quantity times bound, and of the distance to the
  protection limit plus slippage and fees.\<close>

theorem exposure_quote_conservative:
  assumes "derive_exposure_quote i = Inr q" "intent_ok i"
  shows "dval (eq_quantity q) = dval (si_quantity i) \<and> exact_notional i \<le> dval (eq_notional q)
    \<and> exact_base_loss i + exact_buffer i \<le> dval (eq_worst_case_loss q)"
proof -
  have "0 \<le> dval (si_max_slippage_bps i)" "0 \<le> dval (si_fee_bps i)"
    using assms(2) by (simp_all add: intent_ok_def nonnegative_def dval_simps)
  from derive_exposure_quote_covers [OF assms(1) this] show ?thesis by blast
qed

lemma exposure_quote_conservative_witness:
  "exact_notional sample_intent \<le> dval (eq_notional (sample_quote_for sample_hash))"
  using exposure_quote_conservative [OF derive_sample_quote sample_intent_ok] by blast

text \<open>Admission arithmetic is checked: every result is a bounded decimal not below the exact
  sum, difference, product or quotient, and the only failure is a validation error.\<close>

theorem risk_arithmetic_checked:
  assumes "0 \<le> dval a" "0 < dval b"
  shows "list_all (\<lambda>(m, x). case m of Inl e \<Rightarrow> e = ValidationError | Inr r \<Rightarrow> bounded r \<and> x \<le> dval r)
    [(decimal_add [a, b], dval a + dval b), (decimal_subtract a b, dval a - dval b),
     (decimal_multiply a b, dval a * dval b), (decimal_divide a b, dval a / dval b)]"
  using decimal_add_up [of a b] decimal_subtract_up [of a b] decimal_multiply_up [of a b]
    decimal_divide_up [of a b, OF _ assms] decimal_errors(1-3) [of a b] decimal_divide_error [of a b, OF _ assms]
  by (auto split: sum.splits)

lemma risk_arithmetic_checked_witness:
  "case decimal_divide (Dec 1 0) (Dec 3 0) of Inl e \<Rightarrow> e = ValidationError | Inr r \<Rightarrow> bounded r \<and> 1 / 3 \<le> dval r"
  using risk_arithmetic_checked [of "Dec 1 0" "Dec 3 0"] by (simp add: dval_def)

text \<open>An order the policy validates respects the compiled ceilings, whatever ceilings the caller
  injected, and every limit of the policy, for the order and for the account with the order.\<close>

theorem validated_order_within_policy:
  assumes "validate_order p instrument action order_type leverage q current ceilings = Inr u"
  shows "within_hard_ceilings p \<and> action = ''simulate_order''
    \<and> eq_quantity q \<le> rp_max_order_quantity p \<and> eq_notional q \<le> rp_max_order_notional p
    \<and> eq_worst_case_loss q \<le> rp_max_order_worst_case_loss p \<and> leverage \<le> rp_max_leverage p
    \<and> dval (ae_reserved_notional current) + dval (ae_booked_notional current) + dval (eq_notional q)
       \<le> dval (rp_max_account_gross_notional p)
    \<and> dval (ae_reserved_loss current) + dval (ae_booked_loss current) + dval (eq_worst_case_loss q)
       \<le> dval (rp_max_account_worst_case_loss p)"
  using validate_order_bounds [OF assms] by blast

lemma validated_order_within_policy_witness: "within_hard_ceilings sample_policy"
  using validated_order_within_policy [OF sample_order_valid] by blast

text \<open>A valid policy written to its dictionary form and read back is the same policy.\<close>

theorem policy_dictionary_roundtrip:
  assumes "make_policy a = Inr p"
  shows "\<exists>v r. policy_to_dict p = Inr v \<and> policy_from_dict v = Inr r \<and> same_policy p r"
  using policy_dict_roundtrip [OF make_policy_ok [OF assms]] by blast

lemma policy_dictionary_roundtrip_witness: "\<exists>v r. policy_to_dict sample_policy = Inr v \<and> policy_from_dict v = Inr r"
proof -
  obtain a where "make_policy a = Inr sample_policy"
    using sample_policy_read by (auto simp: policy_from_dict_def)
  from policy_dictionary_roundtrip [OF this] show ?thesis by blast
qed

end
