(* ===== verification/Field_Checks.thy ===== *)
theory Field_Checks
  imports Policy
begin

text \<open>
  The field validators that \<open>planning.py\<close>, \<open>paper.py\<close>, \<open>strategy.py\<close> and
  \<open>registered_decision.py\<close> share up to the exception they raise, and the millisecond
  timestamps of their JSON documents.
\<close>

text \<open>A non-empty, trimmed text of bounded length without control characters.\<close>

definition bounded_text :: "exn \<Rightarrow> nat \<Rightarrow> string \<Rightarrow> string result" where
  "bounded_text e maximum v =
     bindE (guard (trimmed v) e) (\<lambda>_.
     bindE (guard (\<not> (maximum < length v \<or> has_control v)) e) (\<lambda>_. Inr v))"

definition bounded_text_ok :: "nat \<Rightarrow> string \<Rightarrow> bool" where
  "bounded_text_ok maximum v = (trimmed v \<and> length v \<le> maximum \<and> \<not> has_control v)"

definition digest_field :: "exn \<Rightarrow> string \<Rightarrow> string result" where
  "digest_field e v =
     bindE (bounded_text e 64 v) (\<lambda>v. bindE (guard (sha256_shaped v) e) (\<lambda>_. Inr v))"

text \<open>\<open>Decimal (value)\<close> without a trim check: surrounding white space is ignored by \<open>Decimal\<close> itself.\<close>

definition lenient_decimal :: "exn \<Rightarrow> decimal_input \<Rightarrow> decimal result" where
  "lenient_decimal e v =
     (case v of
        In_Float \<Rightarrow> Inl TypeError
      | In_Bool \<Rightarrow> Inl TypeError
      | In_Special \<Rightarrow> Inl e
      | In_Decimal d \<Rightarrow> reraise e (validate_decimal_bounds d)
      | In_Int i \<Rightarrow> reraise e (validate_decimal_bounds (dec_int i))
      | In_Str s \<Rightarrow> bindE (of_option e (parse_decimal (strip s))) (\<lambda>d. reraise e (validate_decimal_bounds d)))"

definition lenient_positive :: "exn \<Rightarrow> decimal_input \<Rightarrow> decimal result" where
  "lenient_positive e v = bindE (lenient_decimal e v) (\<lambda>d. bindE (guard (\<not> d \<le> 0) e) (\<lambda>_. Inr d))"

definition lenient_nonnegative :: "exn \<Rightarrow> decimal_input \<Rightarrow> decimal result" where
  "lenient_nonnegative e v = bindE (lenient_decimal e v) (\<lambda>d. bindE (guard (\<not> d < 0) e) (\<lambda>_. Inr d))"

lemma bounded_text_Inr_iff [simp]:
  "bounded_text e n v = Inr r \<longleftrightarrow> bounded_text_ok n v \<and> r = v"
  by (auto simp: bounded_text_def bounded_text_ok_def)

lemma sha256_shaped_bounded: "sha256_shaped v \<Longrightarrow> bounded_text_ok 64 v"
proof -
  assume s: "sha256_shaped v"
  have "\<not> (of_char c :: nat) < 32" if "c \<in> set v" for c
  proof -
    have "is_lower_hex c" using s that by (auto simp: sha256_shaped_def list_all_iff)
    then show ?thesis by (auto simp: is_lower_hex_def)
  qed
  with s show ?thesis
    by (auto simp: bounded_text_ok_def sha256_shaped_trimmed has_control_def list_ex_iff)
      (simp add: sha256_shaped_def)
qed

lemma digest_field_Inr_iff [simp]: "digest_field e v = Inr r \<longleftrightarrow> sha256_shaped v \<and> r = v"
  using sha256_shaped_bounded by (auto simp: digest_field_def)

lemma lenient_decimal_bounded: "lenient_decimal e v = Inr d \<Longrightarrow> bounded d"
  by (auto simp: lenient_decimal_def split: decimal_input.splits)

lemma lenient_positive_ok: "lenient_positive e v = Inr d \<Longrightarrow> positive d"
  by (auto simp: lenient_positive_def positive_def lenient_decimal_bounded not_le_decimal)

lemma lenient_nonnegative_ok: "lenient_nonnegative e v = Inr d \<Longrightarrow> nonnegative d"
  by (auto simp: lenient_nonnegative_def nonnegative_def lenient_decimal_bounded not_less_decimal)

lemma lenient_decimal_again [simp]:
  "lenient_decimal e (In_Decimal d) = (if bounded d then Inr d else Inl e)"
  by (simp add: lenient_decimal_def validate_decimal_bounds_eq)

lemma lenient_positive_again [simp]:
  "lenient_positive e (In_Decimal d) = Inr r \<longleftrightarrow> positive d \<and> r = d"
  by (auto simp: lenient_positive_def positive_def not_le_decimal split: if_splits)

lemma lenient_nonnegative_again [simp]:
  "lenient_nonnegative e (In_Decimal d) = Inr r \<longleftrightarrow> nonnegative d \<and> r = d"
  by (auto simp: lenient_nonnegative_def nonnegative_def not_less_decimal split: if_splits)

section \<open>Timestamps of the JSON documents\<close>

text \<open>\<open>isoformat(timespec="milliseconds").replace("+00:00", "Z")\<close>: microseconds are cut off.\<close>

definition iso_millis :: "instant \<Rightarrow> string" where
  "iso_millis t =
     (let us = t mod microsecond_day in
      iso_date (ord_to_ymd (t div microsecond_day + 1)) @ ''T''
      @ pad 2 (us div 3600000000) @ '':'' @ pad 2 (us div 60000000 mod 60) @ '':''
      @ pad 2 (us div 1000000 mod 60) @ ''.'' @ pad 3 (us div 1000 mod 1000) @ ''Z'')"

definition seconds :: "int \<Rightarrow> instant" where
  "seconds n = n * microsecond_second"

text \<open>The text depends on the instant only through its whole milliseconds.\<close>

definition iso_millis_of :: "int \<Rightarrow> string" where
  "iso_millis_of m =
     (let ms = m mod 86400000 in
      iso_date (ord_to_ymd (m div 86400000 + 1)) @ ''T''
      @ pad 2 (ms div 3600000) @ '':'' @ pad 2 (ms div 60000 mod 60) @ '':''
      @ pad 2 (ms div 1000 mod 60) @ ''.'' @ pad 3 (ms mod 1000) @ ''Z'')"

lemma div_thousand: "0 \<le> k \<Longrightarrow> (t :: int) div (1000 * k) = t div 1000 div k"
  by (rule zdiv_zmult2_eq)

lemma iso_millis_whole: "iso_millis t = iso_millis_of (t div 1000)"
proof -
  let ?ms = "t div 1000 mod 86400000"
  have us: "t mod 86400000000 div 1000 = ?ms"
  proof -
    have "t mod (1000 * 86400000) = 1000 * ?ms + t mod 1000" by (rule zmod_zmult2_eq) simp
    then show ?thesis by simp
  qed
  have comps: "t mod 86400000000 div 3600000000 = ?ms div 3600000"
    "t mod 86400000000 div 60000000 = ?ms div 60000" "t mod 86400000000 div 1000000 = ?ms div 1000"
    unfolding us [symmetric] by (simp_all flip: zdiv_zmult2_eq)
  have day: "t div 86400000000 = t div 1000 div 86400000" by (simp flip: zdiv_zmult2_eq)
  show ?thesis
    unfolding iso_millis_def iso_millis_of_def Let_def microsecond_day_def comps day us by (rule refl)
qed

lemma iso_millis_truncates: "s div 1000 = t div 1000 \<Longrightarrow> iso_millis s = iso_millis t"
  by (simp add: iso_millis_whole)


section \<open>Digests that always exist\<close>

lemma seqE_ok: "\<forall>v \<in> set vs. is_ok (f v) \<Longrightarrow> \<exists>js. seqE (map f vs) = Inr js"
  by (induction vs) (auto elim!: is_okE)

text \<open>A record whose field values all reduce to JSON has a digest; bounded decimals always do.\<close>

lemma record_hash_total:
  assumes "domain \<noteq> []" "CHR 0x00 \<notin> set domain" "length names = length vs"
    and "\<forall>v \<in> set vs. is_ok (canonical_data v)"
  shows "\<exists>h. domain_hash domain (record_val names vs) = Inr h \<and> sha256_shaped h"
proof -
  obtain js where "seqE (map canonical_data vs) = Inr js" using seqE_ok assms(4) by blast
  from record_val_total [OF assms(3) this] assms(1,2) show ?thesis
    by (simp add: domain_hash_def canonical_bytes_def canonical_json_def guard_cases)
qed

lemma is_ok_PDec [simp]: "bounded d \<Longrightarrow> is_ok (canonical_data (PDec d))"
  by (simp only: canonical_data_PDec is_ok_simps)

lemma is_ok_opt_PDec [simp]: "pred_option bounded x \<Longrightarrow> is_ok (canonical_data (opt_val PDec x))"
  by (cases x) (simp_all only: opt_val_def option.case canonical_data_PDec is_ok_simps option.pred_inject,
    simp_all)

lemma is_ok_PList [simp]: "\<forall>v \<in> set vs. is_ok (canonical_data v) \<Longrightarrow> is_ok (canonical_data (PList vs))"
proof -
  assume "\<forall>v \<in> set vs. is_ok (canonical_data v)"
  then show ?thesis using seqE_ok [of vs canonical_data] by auto
qed

lemma positive_bounded [simp]: "positive d \<Longrightarrow> bounded d"
  and nonnegative_bounded [simp]: "nonnegative d \<Longrightarrow> bounded d"
  by (simp_all add: positive_def nonnegative_def)


text \<open>\<open>hashlib.sha256(canonical_json(value).encode("utf-8")).hexdigest()\<close>, without a domain.\<close>

definition payload_hash :: "pyval \<Rightarrow> string result" where
  "payload_hash v = bindE (canonical_bytes v) (\<lambda>b. Inr (sha256_hex b))"

lemma payload_hash_shaped: "payload_hash v = Inr h \<Longrightarrow> sha256_shaped h"
  by (auto simp: payload_hash_def)

text \<open>Two payloads with one digest have one canonical text, or exhibit a collision.\<close>

lemma payload_hash_binds:
  assumes "payload_hash v = Inr h" "payload_hash w = Inr h"
  shows "canonical_json v = canonical_json w
    \<or> (\<exists>m n. canonical_bytes v = Inr m \<and> canonical_bytes w = Inr n \<and> hash_collision m n)"
proof -
  from assms obtain s t where st: "canonical_json v = Inr s" "canonical_json w = Inr t"
      "sha256_hex (utf8 s) = h" "sha256_hex (utf8 t) = h"
    by (auto simp: payload_hash_def canonical_bytes_def)
  show ?thesis
  proof (cases "utf8 s = utf8 t")
    case True
    then have "s = t" by (rule utf8_inj)
    with st show ?thesis by simp
  next
    case False
    with st show ?thesis by (auto simp: canonical_bytes_def hash_collision_def)
  qed
qed

lemma record_payload_hash_total:
  assumes "length names = length vs" "\<forall>v \<in> set vs. is_ok (canonical_data v)"
  shows "\<exists>h. payload_hash (record_val names vs) = Inr h \<and> sha256_shaped h"
proof -
  obtain js where "seqE (map canonical_data vs) = Inr js" using seqE_ok assms(2) by blast
  from record_val_total [OF assms(1) this] show ?thesis
    by (simp add: payload_hash_def canonical_bytes_def canonical_json_def)
qed

lemma is_ok_record_val:
  "length names = length vs \<Longrightarrow> \<forall>v \<in> set vs. is_ok (canonical_data v) \<Longrightarrow>
   is_ok (canonical_data (record_val names vs))"
proof -
  assume len: "length names = length vs" and "\<forall>v \<in> set vs. is_ok (canonical_data v)"
  then obtain js where "seqE (map canonical_data vs) = Inr js" using seqE_ok by blast
  from record_val_total [OF len this] show ?thesis by (simp only: is_ok_simps)
qed

end
