(* ===== verification/Strategy.thy ===== *)
theory Strategy
  imports Field_Checks
begin

text \<open>
  \<open>strategy.py\<close>: candles, the frozen candidate-v0 registration, its indicators and the scan
  that classifies every completed candle after the warm-up. The lemmas show that a feature or
  a signal depends only on the candles up to its own, that it is stable when candles are
  appended, and when a direction is given.
\<close>

section \<open>Calculation context and candles\<close>

definition calculation_context :: dctx where
  "calculation_context = \<lparr> prec = 64, rounding = Half_Even, e_min = - 192, e_max = 192 \<rparr>"

interpretation calc_ctx: decimal_context calculation_context
  by unfold_locales (simp_all add: calculation_context_def etiny_def etop_def)

definition four_hours :: int where "four_hours = 14400000000"

record 'd candle =
  ca_instrument :: string
  ca_interval :: string
  ca_open_time :: instant
  ca_close_time :: instant
  ca_received_at :: instant
  ca_open :: 'd
  ca_high :: 'd
  ca_low :: 'd
  ca_close :: 'd
  ca_volume :: 'd
  ca_complete :: bool

type_synonym bar = "decimal candle"

definition aligned :: "instant \<Rightarrow> bool" where
  "aligned t =
     (let us = t mod microsecond_day in
      us div 3600000000 mod 4 = 0 \<and> us div 60000000 mod 60 = 0 \<and> us div 1000000 mod 60 = 0
      \<and> us mod 1000000 = 0)"

definition make_candle :: "decimal_input candle \<Rightarrow> bar result" where
  "make_candle c =
     bindE (require
       [(trimmed (ca_instrument c), ValueError),
        (ca_interval c = ''4h'', ValueError),
        (ca_close_time c - ca_open_time c = four_hours, ValueError),
        (aligned (ca_open_time c), ValueError),
        (\<not> ca_received_at c < ca_close_time c, ValueError)]) (\<lambda>_.
     bindE (lenient_positive ValueError (ca_open c)) (\<lambda>opened.
     bindE (lenient_positive ValueError (ca_high c)) (\<lambda>high.
     bindE (lenient_positive ValueError (ca_low c)) (\<lambda>low.
     bindE (lenient_positive ValueError (ca_close c)) (\<lambda>close.
     bindE (lenient_nonnegative ValueError (ca_volume c)) (\<lambda>volume.
     bindE (require
       [(\<not> (high < dmax opened close \<or> dmin opened close < low), ValueError),
        (\<not> high < low, ValueError)]) (\<lambda>_.
     Inr \<lparr> ca_instrument = ca_instrument c, ca_interval = ca_interval c,
           ca_open_time = ca_open_time c, ca_close_time = ca_close_time c,
           ca_received_at = ca_received_at c, ca_open = opened, ca_high = high, ca_low = low,
           ca_close = close, ca_volume = volume, ca_complete = ca_complete c \<rparr>)))))))"

definition candle_ok :: "bar \<Rightarrow> bool" where
  "candle_ok c =
     (trimmed (ca_instrument c) \<and> ca_interval c = ''4h''
      \<and> ca_close_time c = ca_open_time c + four_hours \<and> aligned (ca_open_time c)
      \<and> ca_close_time c \<le> ca_received_at c
      \<and> list_all positive [ca_open c, ca_high c, ca_low c, ca_close c] \<and> nonnegative (ca_volume c)
      \<and> ca_low c \<le> ca_open c \<and> ca_low c \<le> ca_close c
      \<and> ca_open c \<le> ca_high c \<and> ca_close c \<le> ca_high c)"

lemma make_candle_ok: "make_candle c = Inr b \<Longrightarrow> candle_ok b"
  unfolding make_candle_def bindE_Inr_iff
  by (elim exE conjE) (auto simp: candle_ok_def dval_simps not_less dest!: lenient_positive_ok lenient_nonnegative_ok)

section \<open>The registration\<close>

record 'd strategy_of =
  rs_strategy_id :: string
  rs_strategy_version :: string
  rs_interval :: string
  rs_ema_fast :: nat
  rs_ema_slow :: nat
  rs_donchian_period :: nat
  rs_atr_period :: nat
  rs_warmup_bars :: nat
  rs_signal_expiry_seconds :: nat
  rs_stop_atr_multiple :: 'd
  rs_target_atr_multiple :: 'd
  rs_max_holding_bars :: nat
  rs_schema_version :: nat

type_synonym registered_strategy = "decimal strategy_of"

definition make_strategy :: "decimal_input strategy_of \<Rightarrow> registered_strategy result" where
  "make_strategy s =
     bindE (require
       [(rs_strategy_id s = ''candidate-v0'' \<and> rs_strategy_version s = ''1'', ValueError),
        (rs_interval s = ''4h'', ValueError),
        (rs_ema_fast s = 50, ValueError), (rs_ema_slow s = 200, ValueError),
        (rs_donchian_period s = 20, ValueError), (rs_atr_period s = 14, ValueError),
        (rs_warmup_bars s = 1000, ValueError), (rs_signal_expiry_seconds s = 900, ValueError),
        (rs_max_holding_bars s = 12, ValueError), (rs_schema_version s = 1, ValueError)]) (\<lambda>_.
     bindE (lenient_positive ValueError (rs_stop_atr_multiple s)) (\<lambda>stop.
     bindE (lenient_positive ValueError (rs_target_atr_multiple s)) (\<lambda>target.
     bindE (require [(deq stop (Dec 15 (- 1)), ValueError), (deq target (Dec 3 0), ValueError)]) (\<lambda>_.
     Inr \<lparr> rs_strategy_id = rs_strategy_id s, rs_strategy_version = rs_strategy_version s,
           rs_interval = rs_interval s, rs_ema_fast = rs_ema_fast s, rs_ema_slow = rs_ema_slow s,
           rs_donchian_period = rs_donchian_period s, rs_atr_period = rs_atr_period s,
           rs_warmup_bars = rs_warmup_bars s, rs_signal_expiry_seconds = rs_signal_expiry_seconds s,
           rs_stop_atr_multiple = stop, rs_target_atr_multiple = target,
           rs_max_holding_bars = rs_max_holding_bars s, rs_schema_version = rs_schema_version s \<rparr>))))"

definition candidate_v0 :: registered_strategy where
  "candidate_v0 =
     \<lparr> rs_strategy_id = ''candidate-v0'', rs_strategy_version = ''1'', rs_interval = ''4h'',
       rs_ema_fast = 50, rs_ema_slow = 200, rs_donchian_period = 20, rs_atr_period = 14,
       rs_warmup_bars = 1000, rs_signal_expiry_seconds = 900, rs_stop_atr_multiple = Dec 15 (- 1),
       rs_target_atr_multiple = Dec 3 0, rs_max_holding_bars = 12, rs_schema_version = 1 \<rparr>"

text \<open>No parameter can drift under the registered identity.\<close>

definition same_registration :: "registered_strategy \<Rightarrow> registered_strategy \<Rightarrow> bool" where
  "same_registration a b =
     (a\<lparr>rs_stop_atr_multiple := 0, rs_target_atr_multiple := 0\<rparr>
        = b\<lparr>rs_stop_atr_multiple := 0, rs_target_atr_multiple := 0\<rparr>
      \<and> deq (rs_stop_atr_multiple a) (rs_stop_atr_multiple b)
      \<and> deq (rs_target_atr_multiple a) (rs_target_atr_multiple b))"

lemma make_strategy_frozen: "make_strategy s = Inr r \<Longrightarrow> same_registration r candidate_v0"
  unfolding make_strategy_def bindE_Inr_iff
  by (elim exE conjE) (auto simp: same_registration_def candidate_v0_def)

definition strategy_fields :: "string list" where
  "strategy_fields =
     [''strategy_id'', ''strategy_version'', ''interval'', ''ema_fast'', ''ema_slow'',
      ''donchian_period'', ''atr_period'', ''warmup_bars'', ''signal_expiry_seconds'',
      ''stop_atr_multiple'', ''target_atr_multiple'', ''max_holding_bars'', ''schema_version'']"

definition strategy_val :: "registered_strategy \<Rightarrow> pyval" where
  "strategy_val s = record_val strategy_fields
     [PStr (rs_strategy_id s), PStr (rs_strategy_version s), PStr (rs_interval s),
      PInt (int (rs_ema_fast s)), PInt (int (rs_ema_slow s)), PInt (int (rs_donchian_period s)),
      PInt (int (rs_atr_period s)), PInt (int (rs_warmup_bars s)),
      PInt (int (rs_signal_expiry_seconds s)), PDec (rs_stop_atr_multiple s),
      PDec (rs_target_atr_multiple s), PInt (int (rs_max_holding_bars s)),
      PInt (int (rs_schema_version s))]"

definition registration_hash :: "registered_strategy \<Rightarrow> string result" where
  "registration_hash s = domain_hash ''trading-harness/registered-strategy/v1'' (strategy_val s)"

section \<open>Candle series\<close>

text \<open>
  \<open>validate_candle_series\<close>: complete, contiguous, one instrument, receipt times in order. The
  loop carries the previous candle.
\<close>

fun validate_from :: "string \<Rightarrow> bar option \<Rightarrow> bar list \<Rightarrow> unit result" where
  "validate_from instrument prev [] = Inr ()"
| "validate_from instrument prev (c # cs) =
     bindE (require
       [(ca_complete c, StrategyDataError),
        (ca_instrument c = instrument, StrategyDataError),
        (ca_interval c = ''4h'', StrategyDataError),
        (pred_option (\<lambda>p. ca_open_time c = ca_close_time p) prev, StrategyDataError),
        (pred_option (\<lambda>p. \<not> ca_received_at c < ca_received_at p) prev, StrategyDataError)]) (\<lambda>_.
     validate_from instrument (Some c) cs)"

definition validate_candle_series :: "bar list \<Rightarrow> bar list result" where
  "validate_candle_series cs =
     (case cs of
        [] \<Rightarrow> Inl StrategyDataError
      | c # _ \<Rightarrow> bindE (validate_from (ca_instrument c) None cs) (\<lambda>_. Inr cs))"

section \<open>Indicators\<close>

text \<open>\<open>sum (values, Decimal ("0"))\<close> in the calculation context.\<close>

definition dsum :: "decimal list \<Rightarrow> decimal result" where
  "dsum xs = foldE (dadd calculation_context) 0 xs"

definition ema_next :: "decimal \<Rightarrow> decimal \<Rightarrow> decimal \<Rightarrow> decimal \<Rightarrow> decimal result" where
  "ema_next alpha one_minus_alpha current v =
     bindE (dmul calculation_context v alpha) (\<lambda>a.
     bindE (dmul calculation_context current one_minus_alpha) (\<lambda>b.
     dadd calculation_context a b))"

fun scan_from :: "('s \<Rightarrow> 'a \<Rightarrow> 's result) \<Rightarrow> 's \<Rightarrow> 'a list \<Rightarrow> 's list result" where
  "scan_from f s [] = Inr []"
| "scan_from f s (x # xs) = bindE (f s x) (\<lambda>t. bindE (scan_from f t xs) (\<lambda>ts. Inr (t # ts)))"

definition ema :: "decimal list \<Rightarrow> nat \<Rightarrow> decimal option list result" where
  "ema xs period =
     (if length xs < period then Inr (replicate (length xs) None)
      else
        bindE (bindE (dsum (take period xs)) (\<lambda>s. ddiv calculation_context s (dec_int (int period)))) (\<lambda>seed.
        bindE (ddiv calculation_context (dec_int 2) (dec_int (int period + 1))) (\<lambda>alpha.
        bindE (dsub calculation_context (dec_int 1) alpha) (\<lambda>one_minus_alpha.
        bindE (scan_from (ema_next alpha one_minus_alpha) seed (drop period xs)) (\<lambda>later.
        Inr (replicate (period - 1) None @ map Some (seed # later)))))))"

definition true_range :: "bar option \<Rightarrow> bar \<Rightarrow> decimal result" where
  "true_range prev c =
     bindE (dsub calculation_context (ca_high c) (ca_low c)) (\<lambda>high_low.
     (case prev of
        None \<Rightarrow> Inr high_low
      | Some p \<Rightarrow>
          bindE (bindE (dsub calculation_context (ca_high c) (ca_close p)) (dabs calculation_context)) (\<lambda>up.
          bindE (bindE (dsub calculation_context (ca_low c) (ca_close p)) (dabs calculation_context)) (\<lambda>down.
          Inr (dmax (dmax high_low up) down)))))"

fun true_ranges :: "bar option \<Rightarrow> bar list \<Rightarrow> decimal list result" where
  "true_ranges prev [] = Inr []"
| "true_ranges prev (c # cs) =
     bindE (true_range prev c) (\<lambda>r. bindE (true_ranges (Some c) cs) (\<lambda>rs. Inr (r # rs)))"

definition atr_next :: "nat \<Rightarrow> decimal \<Rightarrow> decimal \<Rightarrow> decimal result" where
  "atr_next period current r =
     bindE (dmul calculation_context current (dec_int (int period - 1))) (\<lambda>a.
     bindE (dadd calculation_context a r) (\<lambda>b.
     ddiv calculation_context b (dec_int (int period))))"

definition atr :: "bar list \<Rightarrow> nat \<Rightarrow> decimal option list result" where
  "atr cs period =
     bindE (true_ranges None cs) (\<lambda>rs.
     if length rs < period then Inr (replicate (length cs) None)
     else
       bindE (bindE (dsum (take period rs)) (\<lambda>s. ddiv calculation_context s (dec_int (int period)))) (\<lambda>seed.
       bindE (scan_from (atr_next period) seed (drop period rs)) (\<lambda>later.
       Inr (replicate (period - 1) None @ map Some (seed # later)))))"

definition max_of :: "decimal list \<Rightarrow> decimal result" where
  "max_of xs = (case xs of [] \<Rightarrow> Inl ValueError | x # r \<Rightarrow> Inr (foldl dmax x r))"

definition min_of :: "decimal list \<Rightarrow> decimal result" where
  "min_of xs = (case xs of [] \<Rightarrow> Inl ValueError | x # r \<Rightarrow> Inr (foldl dmin x r))"

section \<open>Features and signals\<close>

record strategy_features =
  ft_bar_index :: nat
  ft_ema_fast :: decimal
  ft_ema_slow :: decimal
  ft_atr :: decimal
  ft_donchian_high :: decimal
  ft_donchian_low :: decimal
  ft_previous_donchian_high :: decimal
  ft_previous_donchian_low :: decimal

definition window :: "nat \<Rightarrow> nat \<Rightarrow> 'a list \<Rightarrow> 'a list" where
  "window lo hi xs = take (hi - lo) (drop lo xs)"

definition feature_at ::
    "registered_strategy \<Rightarrow> bar list \<Rightarrow> decimal option list \<Rightarrow> decimal option list \<Rightarrow> decimal option list \<Rightarrow>
     nat \<Rightarrow> strategy_features option result" where
  "feature_at s cs fast slow ranges i =
     (let p = rs_donchian_period s in
      if i < p + 1 then Inr None
      else
        (case (fast ! i, slow ! i, ranges ! i) of
           (Some f, Some sl, Some a) \<Rightarrow>
             bindE (max_of (map ca_high (window (i - p) i cs))) (\<lambda>high.
             bindE (min_of (map ca_low (window (i - p) i cs))) (\<lambda>low.
             bindE (max_of (map ca_high (window (i - p - 1) (i - 1) cs))) (\<lambda>previous_high.
             bindE (min_of (map ca_low (window (i - p - 1) (i - 1) cs))) (\<lambda>previous_low.
             Inr (Some \<lparr> ft_bar_index = i, ft_ema_fast = f, ft_ema_slow = sl, ft_atr = a,
                         ft_donchian_high = high, ft_donchian_low = low,
                         ft_previous_donchian_high = previous_high,
                         ft_previous_donchian_low = previous_low \<rparr>)))))
         | _ \<Rightarrow> Inr None))"

definition feature_series :: "bar list \<Rightarrow> registered_strategy \<Rightarrow> strategy_features option list result" where
  "feature_series candles s =
     bindE (validate_candle_series candles) (\<lambda>cs.
     bindE (ema (map ca_close cs) (rs_ema_fast s)) (\<lambda>fast.
     bindE (ema (map ca_close cs) (rs_ema_slow s)) (\<lambda>slow.
     bindE (atr cs (rs_atr_period s)) (\<lambda>ranges.
     mapE (feature_at s cs fast slow ranges) [0..<length cs]))))"

definition candle_fields :: "string list" where
  "candle_fields =
     [''instrument'', ''interval'', ''open_time'', ''close_time'', ''received_at'', ''open'', ''high'',
      ''low'', ''close'', ''volume'', ''complete'']"

definition candle_val :: "bar \<Rightarrow> pyval" where
  "candle_val c = record_val candle_fields
     [PStr (ca_instrument c), PStr (ca_interval c), PInstant (ca_open_time c), PInstant (ca_close_time c),
      PInstant (ca_received_at c), PDec (ca_open c), PDec (ca_high c), PDec (ca_low c), PDec (ca_close c),
      PDec (ca_volume c), PBool (ca_complete c)]"

definition candle_link :: "string \<Rightarrow> bar \<Rightarrow> string result" where
  "candle_link previous c =
     domain_hash ''trading-harness/candle-chain/v1''
       (record_val [''previous'', ''candle''] [PStr previous, candle_val c])"

definition candle_chain :: "bar list \<Rightarrow> string list result" where
  "candle_chain cs = scan_from candle_link ''genesis'' cs"

datatype signal_direction = SD_BUY | SD_SELL | SD_NOTHING

fun signal_direction_value :: "signal_direction \<Rightarrow> string" where
  "signal_direction_value SD_BUY = ''buy''"
| "signal_direction_value SD_SELL = ''sell''"
| "signal_direction_value SD_NOTHING = ''nothing''"

record strategy_signal =
  sg_strategy_id :: string
  sg_strategy_version :: string
  sg_strategy_hash :: string
  sg_instrument :: string
  sg_bar_index :: nat
  sg_signal_time :: instant
  sg_observed_at :: instant
  sg_expires_at :: instant
  sg_direction :: signal_direction
  sg_reason :: string
  sg_close :: decimal
  sg_features :: strategy_features
  sg_candle_chain_hash :: string

definition features_val :: "strategy_features \<Rightarrow> pyval" where
  "features_val f = record_val
     [''bar_index'', ''ema_fast'', ''ema_slow'', ''atr'', ''donchian_high'', ''donchian_low'',
      ''previous_donchian_high'', ''previous_donchian_low'']
     [PInt (int (ft_bar_index f)), PDec (ft_ema_fast f), PDec (ft_ema_slow f), PDec (ft_atr f),
      PDec (ft_donchian_high f), PDec (ft_donchian_low f), PDec (ft_previous_donchian_high f),
      PDec (ft_previous_donchian_low f)]"

definition signal_hash :: "strategy_signal \<Rightarrow> string result" where
  "signal_hash g = domain_hash ''trading-harness/strategy-signal/v1'' (record_val
     [''strategy_id'', ''strategy_version'', ''strategy_hash'', ''instrument'', ''bar_index'', ''signal_time'',
      ''observed_at'', ''expires_at'', ''direction'', ''reason'', ''close'', ''features'', ''candle_chain_hash'']
     [PStr (sg_strategy_id g), PStr (sg_strategy_version g), PStr (sg_strategy_hash g), PStr (sg_instrument g),
      PInt (int (sg_bar_index g)), PInstant (sg_signal_time g), PInstant (sg_observed_at g),
      PInstant (sg_expires_at g), PStr (signal_direction_value (sg_direction g)), PStr (sg_reason g),
      PDec (sg_close g), features_val (sg_features g), PStr (sg_candle_chain_hash g)])"

text \<open>
  The direction and reason of one candle, from its features and its predecessor's. The
  predecessor's are read only when the two averages differ, as \<open>and\<close> short-circuits: with equal
  averages neither trend holds and \<open>classify\<close> does not depend on them.
\<close>

definition classify ::
    "bar \<Rightarrow> bar \<Rightarrow> strategy_features \<Rightarrow> strategy_features \<Rightarrow> signal_direction \<times> string" where
  "classify previous current before calculated =
     (let long_transition = (ft_donchian_high calculated < ca_close current
            \<and> ca_close previous \<le> ft_previous_donchian_high calculated);
          short_transition = (ca_close current < ft_donchian_low calculated
            \<and> ft_previous_donchian_low calculated \<le> ca_close previous);
          long_trend = (ft_ema_slow calculated < ft_ema_fast calculated
            \<and> ft_ema_fast before < ft_ema_fast calculated);
          short_trend = (ft_ema_fast calculated < ft_ema_slow calculated
            \<and> ft_ema_fast calculated < ft_ema_fast before)
      in if long_transition \<and> long_trend then (SD_BUY, ''donchian_up_transition_with_rising_bull_trend'')
         else if short_transition \<and> short_trend then (SD_SELL, ''donchian_down_transition_with_falling_bear_trend'')
         else if long_transition then (SD_NOTHING, ''up_transition_failed_trend_filter'')
         else if short_transition then (SD_NOTHING, ''down_transition_failed_trend_filter'')
         else (SD_NOTHING, ''no_donchian_transition''))"

definition signal_at ::
    "registered_strategy \<Rightarrow> bar list \<Rightarrow> strategy_features option list \<Rightarrow> string list \<Rightarrow> nat \<Rightarrow> strategy_signal result" where
  "signal_at s cs features chain i =
     (let current = cs ! i; previous = cs ! (i - 1) in
     bindE (of_option StrategyDataError (features ! i)) (\<lambda>calculated.
     bindE (if deq (ft_ema_fast calculated) (ft_ema_slow calculated) then Inr calculated
            else of_option AttributeError (features ! (i - 1))) (\<lambda>before.
     bindE (registration_hash s) (\<lambda>h.
     (case classify previous current before calculated of (direction, reason) \<Rightarrow>
     Inr \<lparr> sg_strategy_id = rs_strategy_id s, sg_strategy_version = rs_strategy_version s,
           sg_strategy_hash = h, sg_instrument = ca_instrument current, sg_bar_index = i,
           sg_signal_time = ca_close_time current, sg_observed_at = ca_received_at current,
           sg_expires_at = ca_close_time current + seconds (int (rs_signal_expiry_seconds s)),
           sg_direction = direction, sg_reason = reason, sg_close = ca_close current,
           sg_features = calculated, sg_candle_chain_hash = chain ! i \<rparr>)))))"

definition scan_signals :: "bar list \<Rightarrow> registered_strategy \<Rightarrow> strategy_signal list result" where
  "scan_signals candles s =
     bindE (validate_candle_series candles) (\<lambda>cs.
     bindE (feature_series cs s) (\<lambda>features.
     bindE (candle_chain cs) (\<lambda>chain.
     if length cs \<le> rs_warmup_bars s then Inr []
     else mapE (signal_at s cs features chain) [rs_warmup_bars s..<length cs])))"

definition latest_signal :: "bar list \<Rightarrow> registered_strategy \<Rightarrow> strategy_signal option result" where
  "latest_signal candles s =
     bindE (scan_signals candles s) (\<lambda>signals.
     Inr (if signals = [] then None else Some (last signals)))"

section \<open>Appending candles\<close>

text \<open>
  Each stage of the scan computes its result for a prefix of the candles from that prefix
  alone; the result for the longer series extends it.
\<close>

lemma mapE_append: "mapE f (xs @ ys) = Inr r \<Longrightarrow> mapE f xs = Inr (take (length xs) r)"
proof (induction xs arbitrary: r)
  case (Cons x xs)
  then show ?case by fastforce
qed simp

lemma scan_from_append: "scan_from f s (xs @ ys) = Inr r \<Longrightarrow> scan_from f s xs = Inr (take (length xs) r)"
proof (induction xs arbitrary: s r)
  case (Cons x xs)
  then show ?case by fastforce
qed simp

lemma scan_from_length: "scan_from f s xs = Inr r \<Longrightarrow> length r = length xs"
proof (induction xs arbitrary: s r)
  case (Cons x xs)
  then show ?case by fastforce
qed simp

lemma scan_from_all:
  assumes "scan_from f s xs = Inr r" "P s" "\<And>s x t. x \<in> set xs \<Longrightarrow> P s \<Longrightarrow> f s x = Inr t \<Longrightarrow> P t"
  shows "list_all P r"
  using assms
proof (induction xs arbitrary: s r)
  case (Cons x xs)
  then obtain t ts where t: "f s x = Inr t" "scan_from f t xs = Inr ts" "r = t # ts" by auto
  with Cons.prems have "P t" by auto
  moreover have "list_all P ts" using Cons.IH [OF t(2) \<open>P t\<close>] Cons.prems(3) by auto
  ultimately show ?case by (simp add: t(3))
qed simp

lemma true_ranges_append: "true_ranges p (xs @ ys) = Inr r \<Longrightarrow> true_ranges p xs = Inr (take (length xs) r)"
proof (induction xs arbitrary: p r)
  case (Cons x xs)
  then show ?case by fastforce
qed simp

lemma true_ranges_length: "true_ranges p xs = Inr r \<Longrightarrow> length r = length xs"
proof (induction xs arbitrary: p r)
  case (Cons x xs)
  then show ?case by fastforce
qed simp

lemma validate_from_append: "validate_from n p (xs @ ys) = Inr u \<Longrightarrow> validate_from n p xs = Inr ()"
  by (induction xs arbitrary: p) auto

lemma validate_series_append:
  "validate_candle_series (xs @ ys) = Inr cs \<Longrightarrow> xs \<noteq> [] \<Longrightarrow> validate_candle_series xs = Inr xs"
  by (cases xs) (auto simp: validate_candle_series_def dest: validate_from_append)

lemma validate_series_same: "validate_candle_series xs = Inr cs \<Longrightarrow> cs = xs \<and> xs \<noteq> []"
  by (cases xs) (auto simp: validate_candle_series_def)

text \<open>The indicators have the shape: no value before the period, then one for every later index.\<close>

definition indicator :: "nat \<Rightarrow> decimal \<Rightarrow> decimal list \<Rightarrow> decimal option list" where
  "indicator period seed later = replicate (period - 1) None @ map Some (seed # later)"

lemma indicator_prefix:
  "0 < period \<Longrightarrow> period \<le> n \<Longrightarrow>
   take n (indicator period seed later) = indicator period seed (take (n - period) later)"
proof (cases period)
  case (Suc k)
  assume "period \<le> n"
  then have "n - k = Suc (n - Suc k)" using Suc by simp
  with Suc show ?thesis by (simp add: indicator_def take_map)
qed simp

lemma indicator_early: "n < period \<Longrightarrow> take n (indicator period seed later) = replicate n None"
  by (simp add: indicator_def min_def)

lemma ema_append:
  assumes "ema (xs @ ys) period = Inr r" "0 < period"
  shows "ema xs period = Inr (take (length xs) r)"
proof (cases "length (xs @ ys) < period")
  case True
  with assms show ?thesis by (auto simp: ema_def)
next
  case False
  with assms(1) obtain seed alpha beta later where
      seed: "bindE (dsum (take period (xs @ ys))) (\<lambda>s. ddiv calculation_context s (dec_int (int period))) = Inr seed"
    and ab: "ddiv calculation_context (dec_int 2) (dec_int (int period + 1)) = Inr alpha"
      "dsub calculation_context (dec_int 1) alpha = Inr beta"
    and later: "scan_from (ema_next alpha beta) seed (drop period (xs @ ys)) = Inr later"
    and r: "r = indicator period seed later"
    by (auto simp: ema_def indicator_def simp del: bindE_Inr_iff) auto
  show ?thesis
  proof (cases "length xs < period")
    case True
    then show ?thesis by (simp add: ema_def r indicator_early)
  next
    case full: False
    then have "scan_from (ema_next alpha beta) seed (drop period xs) = Inr (take (length xs - period) later)"
      using later scan_from_append [of "ema_next alpha beta" seed "drop period xs"] by simp
    moreover have "take period (xs @ ys) = take period xs" using full by simp
    ultimately show ?thesis
      using full seed ab assms(2) by (simp add: ema_def r indicator_prefix) (simp add: indicator_def)
  qed
qed

lemma atr_append:
  assumes "atr (xs @ ys) period = Inr r" "0 < period"
  shows "atr xs period = Inr (take (length xs) r)"
proof -
  from assms(1) obtain rs where rs: "true_ranges None (xs @ ys) = Inr rs" by (auto simp: atr_def)
  have len: "length rs = length (xs @ ys)" by (rule true_ranges_length [OF rs])
  have xs: "true_ranges None xs = Inr (take (length xs) rs)" by (rule true_ranges_append [OF rs])
  show ?thesis
  proof (cases "length rs < period")
    case True
    with assms rs xs len show ?thesis by (auto simp: atr_def)
  next
    case False
    with assms(1) rs obtain seed later where
        seed: "bindE (dsum (take period rs)) (\<lambda>s. ddiv calculation_context s (dec_int (int period))) = Inr seed"
      and later: "scan_from (atr_next period) seed (drop period rs) = Inr later"
      and r: "r = indicator period seed later"
      by (auto simp: atr_def indicator_def)
    show ?thesis
    proof (cases "length xs < period")
      case True
      then show ?thesis using xs len by (simp add: atr_def r indicator_early)
    next
      case full: False
      have "drop period rs = drop period (take (length xs) rs) @ drop (length xs) rs"
        using drop_append [of period "take (length xs) rs" "drop (length xs) rs"] full len by simp
      then have "scan_from (atr_next period) seed (drop period (take (length xs) rs))
          = Inr (take (length xs - period) later)"
        using later scan_from_append [of "atr_next period" seed "drop period (take (length xs) rs)"] len
        by simp
      moreover have "take period (take (length xs) rs) = take period rs" using full by (simp add: min_def)
      ultimately show ?thesis
        using full seed xs len assms(2) by (simp add: atr_def r indicator_prefix) (simp add: indicator_def)
    qed
  qed
qed

lemma ema_length: "ema xs period = Inr r \<Longrightarrow> 0 < period \<Longrightarrow> length r = length xs"
  by (auto simp: ema_def dest!: scan_from_length split: if_splits)

lemma atr_length: "atr cs period = Inr r \<Longrightarrow> 0 < period \<Longrightarrow> length r = length cs"
  by (cases "length cs < period") (auto simp: atr_def dest!: scan_from_length true_ranges_length)

lemma window_take: "hi \<le> n \<Longrightarrow> window lo hi (take n xs) = window lo hi xs"
  by (simp add: window_def drop_take min_def)

lemma window_append: "hi \<le> length xs \<Longrightarrow> window lo hi (xs @ ys) = window lo hi xs"
  using window_take [of hi "length xs" lo "xs @ ys"] by simp

lemma feature_at_append:
  "i < length xs \<Longrightarrow>
   feature_at s xs (take (length xs) f) (take (length xs) l) (take (length xs) a) i = feature_at s (xs @ ys) f l a i"
proof -
  assume i: "i < length xs"
  then have "window (i - rs_donchian_period s) i (xs @ ys) = window (i - rs_donchian_period s) i xs"
    "window (i - rs_donchian_period s - 1) (i - 1) (xs @ ys) = window (i - rs_donchian_period s - 1) (i - 1) xs"
    by (simp_all add: window_append)
  with i show ?thesis unfolding feature_at_def Let_def by (simp only: nth_take)
qed

lemma mapE_cong: "(\<And>x. x \<in> set xs \<Longrightarrow> f x = g x) \<Longrightarrow> mapE f xs = mapE g xs"
  by (induction xs) auto

text \<open>The periods of a registration are positive.\<close>

definition periods_ok :: "registered_strategy \<Rightarrow> bool" where
  "periods_ok s = (0 < rs_ema_fast s \<and> 0 < rs_ema_slow s \<and> 0 < rs_atr_period s)"

lemma feature_series_append:
  assumes "feature_series (xs @ ys) s = Inr r" "xs \<noteq> []" "periods_ok s"
  shows "feature_series xs s = Inr (take (length xs) r)"
proof -
  from assms(1) obtain f l a where
      v: "validate_candle_series (xs @ ys) = Inr (xs @ ys)"
    and f: "ema (map ca_close (xs @ ys)) (rs_ema_fast s) = Inr f"
    and l: "ema (map ca_close (xs @ ys)) (rs_ema_slow s) = Inr l"
    and a: "atr (xs @ ys) (rs_atr_period s) = Inr a"
    and r: "mapE (feature_at s (xs @ ys) f l a) [0..<length (xs @ ys)] = Inr r"
    unfolding feature_series_def bindE_Inr_iff using validate_series_same by blast
  let ?n = "length xs"
  have "mapE (feature_at s (xs @ ys) f l a) ([0..<?n] @ [?n..<length (xs @ ys)]) = Inr r"
    using r by (simp flip: upt_add_eq_append [of 0 ?n "length ys", simplified])
  then have "mapE (feature_at s (xs @ ys) f l a) [0..<?n] = Inr (take ?n r)"
    using mapE_append [of _ "[0..<?n]"] by simp
  moreover have "mapE (feature_at s xs (take ?n f) (take ?n l) (take ?n a)) [0..<?n]
      = mapE (feature_at s (xs @ ys) f l a) [0..<?n]"
    by (rule mapE_cong) (simp add: feature_at_append)
  moreover have "ema (map ca_close xs) (rs_ema_fast s) = Inr (take ?n f)"
    using ema_append [of "map ca_close xs" "map ca_close ys"] f assms(3) by (simp add: periods_ok_def)
  moreover have "ema (map ca_close xs) (rs_ema_slow s) = Inr (take ?n l)"
    using ema_append [of "map ca_close xs" "map ca_close ys"] l assms(3) by (simp add: periods_ok_def)
  moreover have "atr xs (rs_atr_period s) = Inr (take ?n a)"
    using atr_append [OF a] assms(3) by (simp add: periods_ok_def)
  ultimately show ?thesis
    using validate_series_append [OF v assms(2)] by (simp add: feature_series_def)
qed

lemma feature_series_length: "feature_series cs s = Inr r \<Longrightarrow> length r = length cs"
  unfolding feature_series_def bindE_Inr_iff
  by (elim exE conjE) (auto dest!: mapE_length validate_series_same)

lemma chain_length: "candle_chain cs = Inr h \<Longrightarrow> length h = length cs"
  by (auto simp: candle_chain_def dest: scan_from_length)

lemma signal_at_append:
  "i < length xs \<Longrightarrow>
   signal_at s xs (take (length xs) fs) (take (length xs) h) i = signal_at s (xs @ ys) fs h i"
  using nth_append_left [of i xs ys] nth_append_left [of "i - 1" xs ys] unfolding signal_at_def Let_def
  by (simp only: nth_take less_imp_diff_less)

text \<open>Appending candles never changes a classification that was already made.\<close>

lemma scan_signals_append:
  assumes "scan_signals (xs @ ys) s = Inr r" "xs \<noteq> []" "periods_ok s"
  shows "scan_signals xs s = Inr (take (length xs - rs_warmup_bars s) r)"
proof -
  let ?n = "length xs" and ?w = "rs_warmup_bars s"
  from assms(1) obtain fs h where
      v: "validate_candle_series (xs @ ys) = Inr (xs @ ys)"
    and fs: "feature_series (xs @ ys) s = Inr fs" and h: "candle_chain (xs @ ys) = Inr h"
    and r: "(if length (xs @ ys) \<le> ?w then Inr []
        else mapE (signal_at s (xs @ ys) fs h) [?w..<length (xs @ ys)]) = Inr r"
    unfolding scan_signals_def bindE_Inr_iff using validate_series_same by blast
  note parts = validate_series_append [OF v assms(2)] feature_series_append [OF fs assms(2,3)]
  have chain: "candle_chain xs = Inr (take ?n h)"
    using h unfolding candle_chain_def by (rule scan_from_append)
  show ?thesis
  proof (cases "?n \<le> ?w")
    case True
    then show ?thesis using parts chain by (simp add: scan_signals_def)
  next
    case False
    then have "mapE (signal_at s (xs @ ys) fs h) ([?w..<?n] @ [?n..<length (xs @ ys)]) = Inr r"
      using r upt_add_eq_append [of ?w ?n "length ys"] by simp
    then have "mapE (signal_at s (xs @ ys) fs h) [?w..<?n] = Inr (take (?n - ?w) r)"
      using mapE_append [of _ "[?w..<?n]"] by simp
    moreover have "mapE (signal_at s xs (take ?n fs) (take ?n h)) [?w..<?n]
        = mapE (signal_at s (xs @ ys) fs h) [?w..<?n]"
      by (rule mapE_cong) (simp add: signal_at_append)
    ultimately show ?thesis using False parts chain by (simp add: scan_signals_def)
  qed
qed

section \<open>What a signal means\<close>

lemma dmax_upper: "a \<le> dmax a b" "b \<le> dmax a b"
  by (simp_all add: dval_simps)

lemma dmin_lower: "dmin a b \<le> a" "dmin a b \<le> b"
  by (simp_all add: dval_simps)

lemma foldl_dmax_upper: "x \<le> foldl dmax x r" "d \<in> set r \<Longrightarrow> d \<le> foldl dmax x r"
proof (induction r arbitrary: x)
  case (Cons y r)
  { case 1 show ?case using order_trans [OF dmax_upper(1) Cons.IH(1)] by simp }
  { case 2 then show ?case using order_trans [OF dmax_upper(2) Cons.IH(1)] Cons.IH(2) by auto }
qed simp_all

lemma foldl_dmin_lower: "foldl dmin x r \<le> x" "d \<in> set r \<Longrightarrow> foldl dmin x r \<le> d"
proof (induction r arbitrary: x)
  case (Cons y r)
  { case 1 show ?case using order_trans [OF Cons.IH(1) dmin_lower(1)] by simp }
  { case 2 then show ?case using order_trans [OF Cons.IH(1) dmin_lower(2)] Cons.IH(2) by auto }
qed simp_all

lemma max_of_upper: "max_of xs = Inr m \<Longrightarrow> d \<in> set xs \<Longrightarrow> d \<le> m"
  by (cases xs) (auto simp: max_of_def intro: foldl_dmax_upper)

lemma min_of_lower: "min_of xs = Inr m \<Longrightarrow> d \<in> set xs \<Longrightarrow> m \<le> d"
  by (cases xs) (auto simp: min_of_def intro: foldl_dmin_lower)

lemma signal_members:
  assumes "scan_signals cs s = Inr r" "g \<in> set r"
  shows "\<exists>fs h i. feature_series cs s = Inr fs \<and> candle_chain cs = Inr h \<and> rs_warmup_bars s \<le> i
    \<and> i < length cs \<and> signal_at s cs fs h i = Inr g"
proof -
  from assms(1) obtain fs h where
      fs: "feature_series cs s = Inr fs" and h: "candle_chain cs = Inr h"
    and r: "(if length cs \<le> rs_warmup_bars s then Inr []
        else mapE (signal_at s cs fs h) [rs_warmup_bars s..<length cs]) = Inr r"
    unfolding scan_signals_def bindE_Inr_iff using validate_series_same by blast
  with assms(2) have m: "mapE (signal_at s cs fs h) [rs_warmup_bars s..<length cs] = Inr r"
    by (auto split: if_splits)
  from assms(2) obtain k where k: "k < length r" "g = r ! k" by (auto simp: in_set_conv_nth)
  with mapE_length [OF m] mapE_nth [OF m, of k]
  have "signal_at s cs fs h (rs_warmup_bars s + k) = Inr g" "rs_warmup_bars s + k < length cs" by auto
  with fs h show ?thesis by (metis le_add1)
qed

lemma scan_signals_length:
  "scan_signals cs s = Inr r \<Longrightarrow> length r = length cs - rs_warmup_bars s"
  unfolding scan_signals_def bindE_Inr_iff
  by (elim exE conjE) (auto dest!: mapE_length validate_series_same split: if_splits)

text \<open>
  A breakout signal closes beyond every high (or low) of the registered channel, which lies
  strictly before the signal candle.
\<close>

definition breaks_channel :: "nat \<Rightarrow> bar list \<Rightarrow> strategy_signal \<Rightarrow> bool" where
  "breaks_channel p cs g =
     (let i = sg_bar_index g; channel = window (i - p) i cs in
      (case sg_direction g of
         SD_BUY \<Rightarrow> list_all (\<lambda>c. ca_high c < ca_close (cs ! i)) channel
       | SD_SELL \<Rightarrow> list_all (\<lambda>c. ca_close (cs ! i) < ca_low c) channel
       | SD_NOTHING \<Rightarrow> True))"

lemma feature_at_channel:
  assumes "feature_at s cs f l a i = Inr (Some ft)"
  shows "max_of (map ca_high (window (i - rs_donchian_period s) i cs)) = Inr (ft_donchian_high ft)
    \<and> min_of (map ca_low (window (i - rs_donchian_period s) i cs)) = Inr (ft_donchian_low ft)
    \<and> ft_bar_index ft = i"
  using assms by (auto simp: feature_at_def Let_def split: if_splits option.splits)

lemma feature_series_nth:
  assumes "feature_series cs s = Inr fs" "i < length cs"
  shows "\<exists>f l a. feature_at s cs f l a i = Inr (fs ! i)"
proof -
  from assms(1) obtain f l a where "mapE (feature_at s cs f l a) [0..<length cs] = Inr fs"
    unfolding feature_series_def bindE_Inr_iff using validate_series_same by blast
  from mapE_nth [OF this] assms(2) show ?thesis by fastforce
qed

lemma signal_breaks_channel:
  assumes "scan_signals cs s = Inr r" "g \<in> set r"
  shows "breaks_channel (rs_donchian_period s) cs g"
proof -
  from signal_members [OF assms] obtain fs h i where
      fs: "feature_series cs s = Inr fs" and i: "i < length cs" and g: "signal_at s cs fs h i = Inr g"
    by blast
  from g obtain ft before where ft: "fs ! i = Some ft"
    and dir: "sg_direction g = fst (classify (cs ! (i - 1)) (cs ! i) before ft)" and idx: "sg_bar_index g = i"
    unfolding signal_at_def Let_def bindE_Inr_iff
    by (elim exE conjE) (auto simp: case_prod_beta)
  from feature_series_nth [OF fs i] ft obtain f l a where "feature_at s cs f l a i = Inr (Some ft)" by metis
  note channel = feature_at_channel [OF this]
  let ?w = "window (i - rs_donchian_period s) i cs"
  have hi: "ca_high c \<le> ft_donchian_high ft" and lo: "ft_donchian_low ft \<le> ca_low c" if "c \<in> set ?w" for c
    using channel that max_of_upper min_of_lower by (metis image_eqI list.set_map)+
  show ?thesis
    using hi lo unfolding breaks_channel_def idx Let_def dir classify_def list_all_iff
    by (auto simp: Let_def intro: order_le_less_trans order_less_le_trans)
qed


section \<open>Digests\<close>

lemma candle_link_total: "candle_ok c \<Longrightarrow> \<exists>h. candle_link p c = Inr h"
proof -
  assume ok: "candle_ok c"
  let ?vs = "[PStr (ca_instrument c), PStr (ca_interval c), PInstant (ca_open_time c),
    PInstant (ca_close_time c), PInstant (ca_received_at c), PDec (ca_open c), PDec (ca_high c),
    PDec (ca_low c), PDec (ca_close c), PDec (ca_volume c), PBool (ca_complete c)]"
  have "\<exists>js. seqE (map canonical_data ?vs) = Inr js"
    using ok by (simp add: candle_ok_def canonical_data_PDec del: canonical_data.simps(2))
  then obtain js where js: "seqE (map canonical_data ?vs) = Inr js" ..
  have "length candle_fields = length ?vs" by (simp add: candle_fields_def)
  from record_val_total [OF this js] have "is_ok (canonical_data (candle_val c))"
    unfolding candle_val_def by (simp only: is_ok_simps)
  then show ?thesis
    using record_hash_total [of "''trading-harness/candle-chain/v1''" "[''previous'', ''candle'']"
      "[PStr p, candle_val c]"]
    unfolding candle_link_def by auto
qed

lemma candle_chain_total: "list_all candle_ok cs \<Longrightarrow> \<exists>h. candle_chain cs = Inr h"
proof -
  have "list_all candle_ok cs \<Longrightarrow> \<exists>h. scan_from candle_link p cs = Inr h" for p
  proof (induction cs arbitrary: p)
    case (Cons c cs)
    then obtain q where "candle_link p c = Inr q" using candle_link_total by fastforce
    with Cons show ?case by fastforce
  qed simp
  then show "list_all candle_ok cs \<Longrightarrow> \<exists>h. candle_chain cs = Inr h" by (simp add: candle_chain_def)
qed

lemma registration_hash_total:
  "bounded (rs_stop_atr_multiple s) \<Longrightarrow> bounded (rs_target_atr_multiple s) \<Longrightarrow>
   \<exists>h. registration_hash s = Inr h \<and> sha256_shaped h"
  unfolding registration_hash_def strategy_val_def
  by (rule record_hash_total) (simp_all add: strategy_fields_def canonical_data_PDec del: canonical_data.simps(2))

end
