(* ===== verification/Strategy_Properties.thy ===== *)
theory Strategy_Properties
  imports Strategy Decimal_Eval
begin

text \<open>
  The properties of the registered strategy: the scan never looks ahead, a direction is given
  only on a break of the channel with the trend, candles and the registration are what their
  constructors accept. The sample series of five candles, with short periods, breaks out on
  its last candle.
\<close>

section \<open>A sample series\<close>

definition sample_candle :: "int \<Rightarrow> int \<Rightarrow> bar" where
  "sample_candle n final =
     \<lparr> ca_instrument = ''BTC'', ca_interval = ''4h'', ca_open_time = n * four_hours,
       ca_close_time = n * four_hours + four_hours, ca_received_at = n * four_hours + four_hours,
       ca_open = Dec 10 0, ca_high = Dec final 0, ca_low = Dec 10 0, ca_close = Dec final 0,
       ca_volume = Dec 1 0, ca_complete = True \<rparr>"

definition sample_series :: "bar list" where
  "sample_series =
     [sample_candle 0 10, sample_candle 1 10, sample_candle 2 10, sample_candle 3 10]"

definition sample_strategy :: registered_strategy where
  "sample_strategy = candidate_v0\<lparr>rs_ema_fast := 1, rs_ema_slow := 3, rs_donchian_period := 1,
     rs_atr_period := 1, rs_warmup_bars := 3\<rparr>"

lemmas calc_eval = decimal_eval calculation_context_def ddiv_def

lemma calc_quotients:
  "ddiv calculation_context (Dec 10 0) (dec_int 1) = Inr (Dec 10 0)"
  "ddiv calculation_context (Dec 0 0) (dec_int 1) = Inr (Dec 0 0)"
  "ddiv calculation_context (Dec 30 0) (dec_int 3) = Inr (Dec 10 0)"
  "ddiv calculation_context (dec_int 2) (dec_int 2) = Inr (Dec 1 0)"
  "ddiv calculation_context (dec_int 2) (dec_int 4) = Inr (Dec 5 (- 1))"
proof -
  have "quotient_digits 64 (Dec 10 0) (Dec 1 0) = Dec 10 0" "quotient_digits 64 (Dec 30 0) (Dec 3 0) = Dec 10 0"
    "quotient_digits 64 (Dec 2 0) (Dec 2 0) = Dec 1 0"
    by (rule quotient_exact [where m = 0, THEN trans]; simp add: ndigits.simps)+
  moreover have "quotient_digits 64 (Dec 2 0) (Dec 4 0) = Dec 5 (- 1)"
    by (rule quotient_exact [where m = 1 and q = 5, THEN trans]; simp add: ndigits.simps)
  ultimately show "ddiv calculation_context (Dec 10 0) (dec_int 1) = Inr (Dec 10 0)"
    "ddiv calculation_context (Dec 30 0) (dec_int 3) = Inr (Dec 10 0)"
    "ddiv calculation_context (dec_int 2) (dec_int 2) = Inr (Dec 1 0)"
    "ddiv calculation_context (dec_int 2) (dec_int 4) = Inr (Dec 5 (- 1))"
    "ddiv calculation_context (Dec 0 0) (dec_int 1) = Inr (Dec 0 0)"
    by (simp_all add: calc_eval)
qed

lemma sample_ema:
  "ema [Dec 10 0, Dec 10 0, Dec 10 0, Dec 10 0, Dec 20 0] 1 =
     Inr (map Some [Dec 10 0, Dec 10 0, Dec 10 0, Dec 10 0, Dec 20 0])"
  "ema [Dec 10 0, Dec 10 0, Dec 10 0, Dec 10 0, Dec 20 0] 3 =
     Inr ([None, None] @ map Some [Dec 10 0, Dec 100 (- 1), Dec 1500 (- 2)])"
proof -
  have "dsum [Dec 10 0] = Inr (Dec 10 0)" "dsum [Dec 10 0, Dec 10 0, Dec 10 0] = Inr (Dec 30 0)"
    by (simp_all add: dsum_def calc_eval scale_to_def)
  then show "ema [Dec 10 0, Dec 10 0, Dec 10 0, Dec 10 0, Dec 20 0] 1 =
     Inr (map Some [Dec 10 0, Dec 10 0, Dec 10 0, Dec 10 0, Dec 20 0])"
  "ema [Dec 10 0, Dec 10 0, Dec 10 0, Dec 10 0, Dec 20 0] 3 =
     Inr ([None, None] @ map Some [Dec 10 0, Dec 100 (- 1), Dec 1500 (- 2)])"
    by (simp_all add: ema_def calc_quotients ema_next_def eval_nat_numeral) (simp_all add: calc_eval)
qed


definition sample_breakout :: "bar list" where
  "sample_breakout = sample_series @ [sample_candle 4 20]"

lemma sample_breakout_list:
  "sample_breakout = [sample_candle 0 10, sample_candle 1 10, sample_candle 2 10, sample_candle 3 10, sample_candle 4 20]"
  by (simp add: sample_breakout_def sample_series_def)

lemma sample_candle_ok: "n \<in> {0, 1, 2, 3, 4} \<Longrightarrow> f = 10 \<or> f = 20 \<Longrightarrow> candle_ok (sample_candle n f)"
proof -
  assume n: "n \<in> {0, 1, 2, 3, 4}" and f: "f = 10 \<or> f = 20"
  have "trimmed ''BTC''" by code_simp
  moreover have "aligned (n * four_hours)"
    using n by (auto simp: aligned_def four_hours_def microsecond_day_def)
  moreover have "positive (Dec 10 0)" "positive (Dec 20 0)" "nonnegative (Dec 1 0)" "Dec 10 0 \<le> Dec 20 0"
    by (simp_all add: decimal_eval)
  ultimately show ?thesis
    using f by (auto simp: candle_ok_def sample_candle_def four_hours_def)
qed

lemma sample_valid: "validate_candle_series sample_breakout = Inr sample_breakout"
  by (simp add: validate_candle_series_def sample_breakout_list) (simp add: sample_candle_def four_hours_def)

lemma sample_true_range:
  "true_range None (sample_candle n 10) = Inr (Dec 0 0)"
  "true_range (Some (sample_candle m 10)) (sample_candle n 10) = Inr (Dec 0 0)"
  "true_range (Some (sample_candle m 10)) (sample_candle n 20) = Inr (Dec 10 0)"
  by (simp_all add: true_range_def sample_candle_def dabs_def calc_eval)

lemma sample_atr_next:
  "atr_next (Suc 0) (Dec 0 0) (Dec 0 0) = Inr (Dec 0 0)"
  "atr_next (Suc 0) (Dec 0 0) (Dec 10 0) = Inr (Dec 10 0)"
proof -
  have "dadd calculation_context (Dec 0 0) (Dec 0 0) = Inr (Dec 0 0)"
    "dadd calculation_context (Dec 0 0) (Dec 10 0) = Inr (Dec 10 0)"
    "dmul calculation_context (Dec 0 0) (dec_int 0) = Inr (Dec 0 0)"
    by (simp_all add: calc_eval)
  then show "atr_next (Suc 0) (Dec 0 0) (Dec 0 0) = Inr (Dec 0 0)"
    "atr_next (Suc 0) (Dec 0 0) (Dec 10 0) = Inr (Dec 10 0)"
    by (simp_all add: atr_next_def calc_quotients)
qed

lemma sample_atr:
  "atr sample_breakout (Suc 0) = Inr (map Some [Dec 0 0, Dec 0 0, Dec 0 0, Dec 0 0, Dec 10 0])"
proof -
  have "true_ranges None sample_breakout = Inr [Dec 0 0, Dec 0 0, Dec 0 0, Dec 0 0, Dec 10 0]"
    by (simp add: sample_breakout_list sample_true_range)
  moreover have "dsum [Dec 0 0] = Inr (Dec 0 0)" by (simp add: dsum_def calc_eval scale_to_def)
  ultimately show ?thesis by (simp add: atr_def calc_quotients sample_atr_next)
qed

definition sample_features :: "nat \<Rightarrow> decimal \<Rightarrow> decimal \<Rightarrow> decimal \<Rightarrow> strategy_features" where
  "sample_features i f s a =
     \<lparr> ft_bar_index = i, ft_ema_fast = f, ft_ema_slow = s, ft_atr = a, ft_donchian_high = Dec 10 0,
       ft_donchian_low = Dec 10 0, ft_previous_donchian_high = Dec 10 0,
       ft_previous_donchian_low = Dec 10 0 \<rparr>"

lemma sample_feature_series:
  "feature_series sample_breakout sample_strategy =
     Inr [None, None, Some (sample_features 2 (Dec 10 0) (Dec 10 0) (Dec 0 0)),
          Some (sample_features 3 (Dec 10 0) (Dec 100 (- 1)) (Dec 0 0)),
          Some (sample_features 4 (Dec 20 0) (Dec 1500 (- 2)) (Dec 10 0))]"
proof -
  have closes: "map ca_close sample_breakout = [Dec 10 0, Dec 10 0, Dec 10 0, Dec 10 0, Dec 20 0]"
    by (simp add: sample_breakout_list sample_candle_def)
  have idx: "[0..<length sample_breakout] = [0, 1, 2, 3, 4]"
    by (simp add: sample_breakout_list upt_rec)
  show ?thesis
    unfolding feature_series_def closes idx sample_valid bindE_simps
    by (simp add: sample_strategy_def candidate_v0_def sample_ema [unfolded One_nat_def]
        sample_atr)
      (simp add: feature_at_def window_def sample_breakout_list max_of_def min_of_def sample_candle_def
        sample_features_def)
qed


lemma sample_registration: "\<exists>h. registration_hash sample_strategy = Inr h"
proof -
  have "bounded (rs_stop_atr_multiple sample_strategy)" "bounded (rs_target_atr_multiple sample_strategy)"
    by (simp_all add: sample_strategy_def candidate_v0_def decimal_eval)
  then show ?thesis using registration_hash_total by blast
qed

lemma sample_scan:
  "\<exists>r. scan_signals sample_breakout sample_strategy = Inr r \<and> map sg_direction r = [SD_NOTHING, SD_BUY]"
proof -
  have "list_all candle_ok sample_breakout"
    by (simp add: sample_breakout_list sample_candle_ok)
  then obtain h where h: "candle_chain sample_breakout = Inr h" using candle_chain_total by blast
  obtain k where k: "registration_hash sample_strategy = Inr k" using sample_registration by blast
  let ?fs = "[None, None, Some (sample_features 2 (Dec 10 0) (Dec 10 0) (Dec 0 0)),
          Some (sample_features 3 (Dec 10 0) (Dec 100 (- 1)) (Dec 0 0)),
          Some (sample_features 4 (Dec 20 0) (Dec 1500 (- 2)) (Dec 10 0))]"
  have eq: "deq (Dec 10 0) (Dec 100 (- 1))" "\<not> deq (Dec 20 0) (Dec 1500 (- 2))"
    by (simp_all add: decimal_eval)
  then have ft: "ft_ema_fast (sample_features i f s a) = f" "ft_ema_slow (sample_features i f s a) = s" for i f s a
    by (simp_all add: sample_features_def)
  have d: "fst (classify (sample_candle 2 10) (sample_candle 3 10) (sample_features 3 (Dec 10 0) (Dec 100 (- 1)) (Dec 0 0))
      (sample_features 3 (Dec 10 0) (Dec 100 (- 1)) (Dec 0 0))) = SD_NOTHING"
    "fst (classify (sample_candle 3 10) (sample_candle 4 20) (sample_features 3 (Dec 10 0) (Dec 100 (- 1)) (Dec 0 0))
      (sample_features 4 (Dec 20 0) (Dec 1500 (- 2)) (Dec 10 0))) = SD_BUY"
    by (simp_all add: classify_def sample_features_def sample_candle_def decimal_eval)
  have "\<exists>g. signal_at sample_strategy sample_breakout ?fs h 3 = Inr g \<and> sg_direction g = SD_NOTHING"
    "\<exists>g. signal_at sample_strategy sample_breakout ?fs h 4 = Inr g \<and> sg_direction g = SD_BUY"
    using d k eq by (simp_all add: ft signal_at_def sample_breakout_list of_option_def case_prod_beta Let_def)
  then obtain a b where ab: "signal_at sample_strategy sample_breakout ?fs h 3 = Inr a" "sg_direction a = SD_NOTHING"
      "signal_at sample_strategy sample_breakout ?fs h 4 = Inr b" "sg_direction b = SD_BUY" by blast
  have bounds: "rs_warmup_bars sample_strategy = 3" "length sample_breakout = 5" "[3..<5::nat] = [3, 4]"
    by (simp_all add: sample_strategy_def sample_breakout_list upt_rec)
  show ?thesis
    unfolding scan_signals_def sample_valid sample_feature_series h bindE_simps bounds
    using ab by simp
qed

section \<open>Properties\<close>

text \<open>The scan gives one signal per completed candle after the warm-up and never looks ahead:
  appending later candles leaves every earlier classification as it was.\<close>

theorem scan_never_looks_ahead:
  assumes "scan_signals (xs @ ys) s = Inr r" "xs \<noteq> []" "periods_ok s"
  shows "scan_signals xs s = Inr (take (length xs - rs_warmup_bars s) r)
    \<and> length r = length xs + length ys - rs_warmup_bars s"
  using scan_signals_append [OF assms] scan_signals_length [OF assms(1)] by simp

lemma scan_never_looks_ahead_witness:
  "\<exists>r. map sg_direction r = [SD_NOTHING, SD_BUY]
    \<and> scan_signals (sample_series @ [sample_candle 4 20]) sample_strategy = Inr r
    \<and> scan_signals sample_series sample_strategy = Inr (take 1 r)"
proof -
  obtain r where r: "scan_signals (sample_series @ [sample_candle 4 20]) sample_strategy = Inr r"
      "map sg_direction r = [SD_NOTHING, SD_BUY]"
    using sample_scan unfolding sample_breakout_def by (elim exE conjE)
  have p: "periods_ok sample_strategy" "sample_series \<noteq> []"
    by (simp_all add: periods_ok_def sample_strategy_def candidate_v0_def sample_series_def)
  have "length sample_series - rs_warmup_bars sample_strategy = 1"
    by (simp add: sample_strategy_def sample_series_def)
  with scan_never_looks_ahead [OF r(1) p(2,1)] have "scan_signals sample_series sample_strategy = Inr (take 1 r)"
    by simp
  with r show ?thesis by (intro exI [of _ r] conjI)
qed

lemma signal_parts:
  assumes "scan_signals cs s = Inr r" "g \<in> set r"
  shows "rs_warmup_bars s \<le> sg_bar_index g \<and> sg_bar_index g < length cs
    \<and> sg_signal_time g = ca_close_time (cs ! sg_bar_index g)
    \<and> sg_expires_at g = sg_signal_time g + seconds (int (rs_signal_expiry_seconds s))
    \<and> (sg_direction g = SD_BUY \<longrightarrow> ft_ema_slow (sg_features g) < ft_ema_fast (sg_features g))
    \<and> (sg_direction g = SD_SELL \<longrightarrow> ft_ema_fast (sg_features g) < ft_ema_slow (sg_features g))"
proof -
  from signal_members [OF assms] obtain fs h i where
      i: "rs_warmup_bars s \<le> i" "i < length cs" and g: "signal_at s cs fs h i = Inr g"
    by blast
  from g obtain ft before where "sg_direction g = fst (classify (cs ! (i - 1)) (cs ! i) before ft)"
      "sg_features g = ft" "sg_bar_index g = i" "sg_signal_time g = ca_close_time (cs ! i)"
      "sg_expires_at g = ca_close_time (cs ! i) + seconds (int (rs_signal_expiry_seconds s))"
    unfolding signal_at_def Let_def bindE_Inr_iff
    by (elim exE conjE) (auto simp: case_prod_beta)
  with i show ?thesis by (auto simp: classify_def Let_def)
qed

text \<open>C26: A buy (sell) signal is given only when the candle closes above every high (below every
  low) of the channel strictly before it and the fast average is above (below) the slow one; a
  signal carries the close of its own candle and a fixed expiry after it.\<close>

theorem breakout_signal_sound:
  assumes "scan_signals cs s = Inr r" "g \<in> set r"
  shows "breaks_channel (rs_donchian_period s) cs g
    \<and> rs_warmup_bars s \<le> sg_bar_index g \<and> sg_bar_index g < length cs
    \<and> sg_signal_time g = ca_close_time (cs ! sg_bar_index g)
    \<and> sg_expires_at g = sg_signal_time g + seconds (int (rs_signal_expiry_seconds s))
    \<and> (sg_direction g = SD_BUY \<longrightarrow> ft_ema_slow (sg_features g) < ft_ema_fast (sg_features g))
    \<and> (sg_direction g = SD_SELL \<longrightarrow> ft_ema_fast (sg_features g) < ft_ema_slow (sg_features g))"
  using signal_breaks_channel [OF assms] signal_parts [OF assms] by blast

lemma breakout_signal_sound_witness:
  "\<exists>r g. scan_signals sample_breakout sample_strategy = Inr r \<and> g \<in> set r \<and> sg_direction g = SD_BUY
    \<and> breaks_channel 1 sample_breakout g \<and> ft_ema_slow (sg_features g) < ft_ema_fast (sg_features g)"
proof -
  obtain r where r: "scan_signals sample_breakout sample_strategy = Inr r"
      "map sg_direction r = [SD_NOTHING, SD_BUY]"
    using sample_scan by (elim exE conjE)
  then obtain a g where "r = [a, g]" "sg_direction g = SD_BUY" by (auto simp: map_eq_Cons_conv)
  then have g: "g \<in> set r" "sg_direction g = SD_BUY" by simp_all
  have "rs_donchian_period sample_strategy = 1" by (simp add: sample_strategy_def)
  with breakout_signal_sound [OF r(1) g(1)] g(2)
  have "breaks_channel 1 sample_breakout g \<and> ft_ema_slow (sg_features g) < ft_ema_fast (sg_features g)"
    by simp
  with r(1) g show ?thesis by blast
qed

text \<open>Only the registered parameters pass under the identity of candidate-v0, and an accepted
  candle spans one aligned four-hour interval, is received after it closed, and has a range that
  contains its open and its close.\<close>

theorem registration_and_candles_checked:
  assumes "make_strategy a = Inr s" "make_candle c = Inr b"
  shows "same_registration s candidate_v0 \<and> candle_ok b"
  using make_strategy_frozen [OF assms(1)] make_candle_ok [OF assms(2)] by blast


lemma registration_and_candles_checked_witness:
  "\<exists>s b. make_strategy
      \<lparr> rs_strategy_id = ''candidate-v0'', rs_strategy_version = ''1'', rs_interval = ''4h'',
        rs_ema_fast = 50, rs_ema_slow = 200, rs_donchian_period = 20, rs_atr_period = 14,
        rs_warmup_bars = 1000, rs_signal_expiry_seconds = 900,
        rs_stop_atr_multiple = In_Decimal (Dec 150 (- 2)), rs_target_atr_multiple = In_Int 3,
        rs_max_holding_bars = 12, rs_schema_version = 1 \<rparr> = Inr s
    \<and> make_candle
      \<lparr> ca_instrument = ''BTC'', ca_interval = ''4h'', ca_open_time = 0, ca_close_time = 14400000000,
        ca_received_at = 14400000000, ca_open = In_Int 10, ca_high = In_Int 20, ca_low = In_Int 9,
        ca_close = In_Int 11, ca_volume = In_Int 0, ca_complete = True \<rparr> = Inr b
    \<and> same_registration s candidate_v0 \<and> candle_ok b"
proof -
  obtain s where s: "make_strategy
      \<lparr> rs_strategy_id = ''candidate-v0'', rs_strategy_version = ''1'', rs_interval = ''4h'',
        rs_ema_fast = 50, rs_ema_slow = 200, rs_donchian_period = 20, rs_atr_period = 14,
        rs_warmup_bars = 1000, rs_signal_expiry_seconds = 900,
        rs_stop_atr_multiple = In_Decimal (Dec 150 (- 2)), rs_target_atr_multiple = In_Int 3,
        rs_max_holding_bars = 12, rs_schema_version = 1 \<rparr> = Inr s"
    by (simp add: make_strategy_def lenient_positive_def lenient_decimal_def validate_decimal_bounds_eq
        decimal_eval)
  have "trimmed ''BTC''" by code_simp
  then obtain b where "make_candle
      \<lparr> ca_instrument = ''BTC'', ca_interval = ''4h'', ca_open_time = 0, ca_close_time = 14400000000,
        ca_received_at = 14400000000, ca_open = In_Int 10, ca_high = In_Int 20, ca_low = In_Int 9,
        ca_close = In_Int 11, ca_volume = In_Int 0, ca_complete = True \<rparr> = Inr b"
    by (simp add: make_candle_def lenient_positive_def lenient_nonnegative_def lenient_decimal_def
        validate_decimal_bounds_eq decimal_eval four_hours_def aligned_def microsecond_day_def)
  with registration_and_candles_checked [OF s this] s show ?thesis by blast
qed

end
