(* ===== verification/Sentiment.thy ===== *)
theory Sentiment
  imports Field_Checks "HOL-Library.Multiset" "HOL-Library.Product_Lexorder"
begin

text \<open>
  \<open>sentiment.py\<close>: the sentiment policy, the snapshot of registered evidence and how it is built
  from the collected items. The URL check of \<open>SentimentEvidence\<close> and the reader of a saved
  document are not modelled; an evidence record is taken as its constructor leaves it. The
  lemmas show when a snapshot is available and that it does not depend on the order in which
  the evidence was collected.
\<close>

section \<open>Evidence and policy\<close>

definition sentiment_context :: dctx where
  "sentiment_context = \<lparr> prec = 64, rounding = Half_Even, e_min = - 192, e_max = 192 \<rparr>"

interpretation sent_ctx: decimal_context sentiment_context
  by unfold_locales (simp_all add: sentiment_context_def etiny_def etop_def)

definition bounded_between :: "decimal_input \<Rightarrow> decimal \<Rightarrow> decimal \<Rightarrow> decimal result" where
  "bounded_between v lo hi =
     bindE (exact_decimal v) (\<lambda>d. bindE (guard (lo \<le> d \<and> d \<le> hi) ValidationError) (\<lambda>_. Inr d))"

datatype collection_method = MANUAL_BROWSER | X_API | COMPLIANT_PROVIDER
datatype sentiment_label = BULLISH | BEARISH | NEUTRAL | UNKNOWN

fun collection_method_value :: "collection_method \<Rightarrow> string" where
  "collection_method_value MANUAL_BROWSER = ''manual_browser''"
| "collection_method_value X_API = ''x_api''"
| "collection_method_value COMPLIANT_PROVIDER = ''compliant_provider''"

fun sentiment_label_value :: "sentiment_label \<Rightarrow> string" where
  "sentiment_label_value BULLISH = ''bullish''"
| "sentiment_label_value BEARISH = ''bearish''"
| "sentiment_label_value NEUTRAL = ''neutral''"
| "sentiment_label_value UNKNOWN = ''unknown''"

record evidence =
  ev_evidence_id :: string
  ev_post_id :: string
  ev_source_url :: string
  ev_author_hash :: string
  ev_content_hash :: string
  ev_cluster_hash :: string
  ev_published_at :: instant
  ev_observed_at :: instant
  ev_polarity :: decimal

text \<open>A dictionary of texts; \<open>canonical_decimal\<close> may refuse, so the values are results.\<close>

definition evidence_record :: "evidence \<Rightarrow> pyval result" where
  "evidence_record e =
     bindE (canonical_decimal (ev_polarity e)) (\<lambda>polarity.
     Inr (record_val
       [''evidence_id'', ''post_id'', ''source_url'', ''author_hash'', ''content_hash'', ''cluster_hash'',
        ''published_at'', ''observed_at'', ''polarity'']
       (map PStr
         [ev_evidence_id e, ev_post_id e, ev_source_url e, ev_author_hash e, ev_content_hash e,
          ev_cluster_hash e, iso_millis (ev_published_at e), iso_millis (ev_observed_at e), polarity])))"

record 'd sentiment_policy_of =
  sp_version :: string
  sp_minimum_posts :: int
  sp_minimum_authors :: int
  sp_trim_fraction :: 'd
  sp_bullish_threshold :: 'd
  sp_bearish_threshold :: 'd
  sp_max_cluster_share :: 'd
  sp_ttl_seconds :: int

type_synonym sentiment_policy = "decimal sentiment_policy_of"

definition make_sentiment_policy :: "decimal_input sentiment_policy_of \<Rightarrow> sentiment_policy result" where
  "make_sentiment_policy p =
     bindE (bounded_text ValidationError 64 (sp_version p)) (\<lambda>_.
     bindE (require
       [(0 < sp_minimum_posts p, ValidationError), (0 < sp_minimum_authors p, ValidationError),
        (0 < sp_ttl_seconds p, ValidationError),
        (\<not> sp_minimum_posts p < sp_minimum_authors p, ValidationError)]) (\<lambda>_.
     bindE (bounded_between (sp_trim_fraction p) 0 (Dec 49 (- 2))) (\<lambda>trim.
     bindE (bounded_between (sp_bullish_threshold p) 0 (Dec 1 0)) (\<lambda>bullish.
     bindE (bounded_between (sp_bearish_threshold p) (Dec (- 1) 0) 0) (\<lambda>bearish.
     bindE (bounded_between (sp_max_cluster_share p) 0 (Dec 1 0)) (\<lambda>cluster.
     bindE (guard (\<not> (0 \<le> bearish \<or> bullish \<le> 0)) ValidationError) (\<lambda>_.
     Inr \<lparr> sp_version = sp_version p, sp_minimum_posts = sp_minimum_posts p,
           sp_minimum_authors = sp_minimum_authors p, sp_trim_fraction = trim,
           sp_bullish_threshold = bullish, sp_bearish_threshold = bearish,
           sp_max_cluster_share = cluster, sp_ttl_seconds = sp_ttl_seconds p \<rparr>)))))))"

definition sentiment_policy_record :: "sentiment_policy \<Rightarrow> pyval result" where
  "sentiment_policy_record p =
     bindE (mapE canonical_decimal
       [sp_trim_fraction p, sp_bullish_threshold p, sp_bearish_threshold p, sp_max_cluster_share p]) (\<lambda>ds.
     Inr (record_val
       [''version'', ''minimum_posts'', ''minimum_authors'', ''trim_fraction'', ''bullish_threshold'',
        ''bearish_threshold'', ''max_cluster_share'', ''ttl_seconds'']
       ([PStr (sp_version p), PInt (sp_minimum_posts p), PInt (sp_minimum_authors p)]
        @ map PStr ds @ [PInt (sp_ttl_seconds p)])))"

section \<open>Snapshots\<close>

record 'd snapshot_of =
  sn_asset_id :: string
  sn_query :: string
  sn_query_version :: string
  sn_classifier_version :: string
  sn_policy_version :: string
  sn_policy_hash :: string
  sn_method :: collection_method
  sn_window_start :: instant
  sn_window_end :: instant
  sn_collected_at :: instant
  sn_expires_at :: instant
  sn_evidence :: "evidence list"
  sn_excluded_count :: int
  sn_collection_complete :: bool
  sn_score :: "'d option"
  sn_label :: sentiment_label
  sn_quality_reasons :: "string list"
  sn_cluster_share :: 'd
  sn_artifact_hash :: string

type_synonym sentiment_snapshot = "decimal snapshot_of"

definition evidence_key :: "evidence \<Rightarrow> instant \<times> string" where
  "evidence_key e = (ev_published_at e, ev_post_id e)"

definition snapshot_hash_payload :: "sentiment_snapshot \<Rightarrow> pyval result" where
  "snapshot_hash_payload s =
     bindE (mapE evidence_record (sn_evidence s)) (\<lambda>items.
     bindE (case sn_score s of None \<Rightarrow> Inr PNone
            | Some d \<Rightarrow> bindE (canonical_decimal d) (\<lambda>t. Inr (PStr t))) (\<lambda>score.
     bindE (canonical_decimal (sn_cluster_share s)) (\<lambda>share.
     Inr (record_val
       [''asset_id'', ''query'', ''query_version'', ''classifier_version'', ''method'', ''window_start'',
        ''window_end'', ''collected_at'', ''expires_at'', ''evidence'', ''excluded_count'',
        ''collection_complete'', ''score'', ''label'', ''quality_reasons'', ''cluster_share'',
        ''policy_version'', ''policy_hash'']
       [PStr (sn_asset_id s), PStr (sn_query s), PStr (sn_query_version s), PStr (sn_classifier_version s),
        PStr (collection_method_value (sn_method s)), PStr (iso_millis (sn_window_start s)),
        PStr (iso_millis (sn_window_end s)), PStr (iso_millis (sn_collected_at s)),
        PStr (iso_millis (sn_expires_at s)), PList items, PInt (sn_excluded_count s),
        PBool (sn_collection_complete s), score, PStr (sentiment_label_value (sn_label s)),
        PList (map PStr (sn_quality_reasons s)), PStr share, PStr (sn_policy_version s),
        PStr (sn_policy_hash s)]))))"

definition stable_reason :: "nat \<Rightarrow> string \<Rightarrow> bool" where
  "stable_reason maximum r = (trimmed r \<and> length r \<le> maximum)"

definition make_snapshot :: "decimal_input snapshot_of \<Rightarrow> sentiment_snapshot result" where
  "make_snapshot s =
     bindE (mapE (\<lambda>(t, m). bounded_text ValidationError m t)
       [(sn_asset_id s, 256), (sn_query s, 1024), (sn_query_version s, 64),
        (sn_classifier_version s, 128), (sn_policy_version s, 64)]) (\<lambda>_.
     bindE (digest_field ValidationError (sn_policy_hash s)) (\<lambda>_.
     bindE (digest_field ValidationError (sn_artifact_hash s)) (\<lambda>_.
     bindE (require
       [(sn_window_start s < sn_window_end s \<and> sn_window_end s \<le> sn_collected_at s
           \<and> sn_collected_at s < sn_expires_at s, ValidationError),
        (sort_key evidence_key (sn_evidence s) = sn_evidence s, ValidationError),
        (0 \<le> sn_excluded_count s, ValidationError)]) (\<lambda>_.
     bindE (case sn_score s of None \<Rightarrow> Inr None
            | Some v \<Rightarrow> bindE (bounded_between v (Dec (- 1) 0) (Dec 1 0)) (\<lambda>d. Inr (Some d))) (\<lambda>score.
     bindE (guard (list_all (stable_reason 128) (sn_quality_reasons s)) ValidationError) (\<lambda>_.
     bindE (bounded_between (sn_cluster_share s) 0 (Dec 1 0)) (\<lambda>share.
     bindE (require
       [(\<not> (sn_quality_reasons s \<noteq> [] \<and> sn_label s \<noteq> UNKNOWN), ValidationError),
        (\<not> (sn_quality_reasons s = [] \<and> (sn_label s = UNKNOWN \<or> score = None)), ValidationError)]) (\<lambda>_.
     (let r = \<lparr> sn_asset_id = sn_asset_id s, sn_query = sn_query s, sn_query_version = sn_query_version s,
                sn_classifier_version = sn_classifier_version s, sn_policy_version = sn_policy_version s,
                sn_policy_hash = sn_policy_hash s, sn_method = sn_method s,
                sn_window_start = sn_window_start s, sn_window_end = sn_window_end s,
                sn_collected_at = sn_collected_at s, sn_expires_at = sn_expires_at s,
                sn_evidence = sn_evidence s, sn_excluded_count = sn_excluded_count s,
                sn_collection_complete = sn_collection_complete s, sn_score = score,
                sn_label = sn_label s, sn_quality_reasons = sn_quality_reasons s,
                sn_cluster_share = share, sn_artifact_hash = sn_artifact_hash s \<rparr> in
     bindE (snapshot_hash_payload r) (\<lambda>payload.
     bindE (payload_hash payload) (\<lambda>expected.
     bindE (guard (sn_artifact_hash s = expected) ValidationError) (\<lambda>_. Inr r))))))))))))"

definition sentiment_available :: "'d snapshot_of \<Rightarrow> bool" where
  "sentiment_available s = (sn_quality_reasons s = [] \<and> sn_label s \<noteq> UNKNOWN)"

definition unattended_eligible :: "'d snapshot_of \<Rightarrow> bool" where
  "unattended_eligible s = (sentiment_available s \<and> sn_method s \<noteq> MANUAL_BROWSER)"

definition sentiment_fresh :: "'d snapshot_of \<Rightarrow> instant \<Rightarrow> bool" where
  "sentiment_fresh s t = (sn_collected_at s \<le> t \<and> t < sn_expires_at s)"


section \<open>Building a snapshot\<close>

record snapshot_request =
  sr_asset_id :: string
  sr_query :: string
  sr_query_version :: string
  sr_classifier_version :: string
  sr_method :: collection_method
  sr_window_start :: instant
  sr_window_end :: instant
  sr_collected_at :: instant
  sr_excluded_count :: int
  sr_collection_complete :: bool

definition ctx_sum :: "dctx \<Rightarrow> decimal list \<Rightarrow> decimal result" where
  "ctx_sum c xs = foldE (dadd c) 0 xs"

text \<open>\<open>max (cluster_counts.values ())\<close>: the size of the largest cluster.\<close>

definition largest_cluster :: "string list \<Rightarrow> nat" where
  "largest_cluster ks = foldr max (map (\<lambda>k. length (filter ((=) k) ks)) (remdups ks)) 0"

definition cluster_share_of :: "evidence list \<Rightarrow> decimal result" where
  "cluster_share_of items =
     (if items = [] then Inr 0
      else ddiv sentiment_context (dec_int (int (largest_cluster (map ev_cluster_hash items))))
             (dec_int (int (length items))))"

definition quality_reasons_of :: "snapshot_request \<Rightarrow> sentiment_policy \<Rightarrow> evidence list \<Rightarrow> decimal \<Rightarrow> string list" where
  "quality_reasons_of q p items share =
     concat
      [if sr_collection_complete q then [] else [''collection_incomplete''],
       if int (length items) < sp_minimum_posts p then [''insufficient_posts''] else [],
       if int (length (remdups (map ev_author_hash items))) < sp_minimum_authors p
         then [''insufficient_authors''] else [],
       if sp_max_cluster_share p < share then [''duplicate_cluster_concentration''] else [],
       if seconds (sp_ttl_seconds p) < sr_collected_at q - sr_window_end q then [''collection_stale''] else []]"

definition int_of_decimal :: "decimal \<Rightarrow> int" where
  "int_of_decimal d = (let f = to_integral_floor d in coeff f * 10 ^ nat (expo f))"

text \<open>The trimmed mean and its label; a trim that leaves nothing is a quality reason.\<close>

definition score_items :: "sentiment_policy \<Rightarrow> evidence list \<Rightarrow> (decimal option \<times> sentiment_label \<times> string list) result" where
  "score_items p items =
     (let ordered = sort_key dval (map ev_polarity items); n = length ordered in
     bindE (dmul sentiment_context (dec_int (int n)) (sp_trim_fraction p)) (\<lambda>product.
     (let trim = nat (int_of_decimal product);
          retained = drop trim (if n - trim = 0 then ordered else take (n - trim) ordered) in
      if retained = [] then Inr (None, UNKNOWN, [''trim_removed_all_evidence''])
      else
        bindE (ctx_sum sentiment_context retained) (\<lambda>total.
        bindE (ddiv sentiment_context total (dec_int (int (length retained)))) (\<lambda>score.
        Inr (Some score,
             (if sp_bullish_threshold p \<le> score then BULLISH
              else if score \<le> sp_bearish_threshold p then BEARISH else NEUTRAL), []))))))"

definition build_sentiment_snapshot ::
    "snapshot_request \<Rightarrow> evidence list \<Rightarrow> sentiment_policy \<Rightarrow> sentiment_snapshot result" where
  "build_sentiment_snapshot q evidence p =
     bindE (mapE (\<lambda>(t, m). bounded_text ValidationError m t)
       [(sr_asset_id q, 256), (sr_query q, 1024), (sr_query_version q, 64),
        (sr_classifier_version q, 128)]) (\<lambda>_.
     (let items = sort_key evidence_key evidence in
     bindE (require
       [(sr_window_start q < sr_window_end q \<and> sr_window_end q \<le> sr_collected_at q, ValidationError),
        (0 \<le> sr_excluded_count q, ValidationError),
        (list_all (\<lambda>e. sr_window_start q \<le> ev_published_at e \<and> ev_published_at e \<le> sr_window_end q) items,
         ValidationError),
        (list_all (\<lambda>e. \<not> sr_collected_at q < ev_observed_at e) items, ValidationError),
        (distinct (map ev_post_id items), ValidationError),
        (distinct (map ev_source_url items), ValidationError),
        (distinct (map ev_content_hash items), ValidationError),
        (distinct (map ev_author_hash items), ValidationError)]) (\<lambda>_.
     bindE (cluster_share_of items) (\<lambda>share.
     (let quality = quality_reasons_of q p items share in
     bindE (if quality = [] then score_items p items else Inr (None, UNKNOWN, [])) (\<lambda>(score, label, extra).
     bindE (bindE (sentiment_policy_record p) payload_hash) (\<lambda>policy_hash.
     (let draft = \<lparr> sn_asset_id = sr_asset_id q, sn_query = sr_query q, sn_query_version = sr_query_version q,
                sn_classifier_version = sr_classifier_version q, sn_policy_version = sp_version p,
                sn_policy_hash = policy_hash, sn_method = sr_method q,
                sn_window_start = sr_window_start q, sn_window_end = sr_window_end q,
                sn_collected_at = sr_collected_at q,
                sn_expires_at = sr_collected_at q + seconds (sp_ttl_seconds p),
                sn_evidence = items, sn_excluded_count = sr_excluded_count q,
                sn_collection_complete = sr_collection_complete q, sn_score = score, sn_label = label,
                sn_quality_reasons = quality @ extra, sn_cluster_share = share, sn_artifact_hash = '''' \<rparr> in
     bindE (snapshot_hash_payload draft) (\<lambda>payload.
     bindE (payload_hash payload) (\<lambda>h.
     make_snapshot
       \<lparr> sn_asset_id = sr_asset_id q, sn_query = sr_query q, sn_query_version = sr_query_version q,
         sn_classifier_version = sr_classifier_version q, sn_policy_version = sp_version p,
         sn_policy_hash = policy_hash, sn_method = sr_method q,
         sn_window_start = sr_window_start q, sn_window_end = sr_window_end q,
         sn_collected_at = sr_collected_at q,
         sn_expires_at = sr_collected_at q + seconds (sp_ttl_seconds p),
         sn_evidence = items, sn_excluded_count = sr_excluded_count q,
         sn_collection_complete = sr_collection_complete q, sn_score = map_option In_Decimal score,
         sn_label = label, sn_quality_reasons = quality @ extra,
         sn_cluster_share = In_Decimal share, sn_artifact_hash = h \<rparr>))))))))))"

section \<open>What a snapshot guarantees\<close>

lemma bounded_between_ok: "bounded_between v lo hi = Inr d \<Longrightarrow> bounded d \<and> lo \<le> d \<and> d \<le> hi"
  by (auto simp: bounded_between_def exact_decimal_bounded)

lemma bounded_between_again: "bounded_between (In_Decimal d) lo hi = Inr r \<longleftrightarrow> bounded d \<and> lo \<le> d \<and> d \<le> hi \<and> r = d"
  by (auto simp: bounded_between_def split: if_splits)

definition snapshot_ok :: "sentiment_snapshot \<Rightarrow> bool" where
  "snapshot_ok s =
     (sn_window_start s < sn_window_end s \<and> sn_window_end s \<le> sn_collected_at s
      \<and> sn_collected_at s < sn_expires_at s
      \<and> sorted (map evidence_key (sn_evidence s))
      \<and> pred_option (\<lambda>d. bounded d \<and> Dec (- 1) 0 \<le> d \<and> d \<le> Dec 1 0) (sn_score s)
      \<and> (bounded (sn_cluster_share s) \<and> 0 \<le> sn_cluster_share s \<and> sn_cluster_share s \<le> Dec 1 0)
      \<and> (sn_quality_reasons s = [] \<longleftrightarrow> sn_label s \<noteq> UNKNOWN)
      \<and> (sn_label s \<noteq> UNKNOWN \<longrightarrow> sn_score s \<noteq> None)
      \<and> sha256_shaped (sn_artifact_hash s))"

lemma make_snapshot_ok: "make_snapshot a = Inr s \<Longrightarrow> snapshot_ok s"
proof -
  assume "make_snapshot a = Inr s"
  then obtain score share where parts:
      "(case sn_score a of None \<Rightarrow> Inr None
        | Some v \<Rightarrow> bindE (bounded_between v (Dec (- 1) 0) (Dec 1 0)) (\<lambda>d. Inr (Some d))) = Inr score"
      "bounded_between (sn_cluster_share a) 0 (Dec 1 0) = Inr share"
    and times: "sn_window_start a < sn_window_end a" "sn_window_end a \<le> sn_collected_at a"
      "sn_collected_at a < sn_expires_at a" "sort_key evidence_key (sn_evidence a) = sn_evidence a"
    and label: "\<not> (sn_quality_reasons a \<noteq> [] \<and> sn_label a \<noteq> UNKNOWN)"
      "\<not> (sn_quality_reasons a = [] \<and> (sn_label a = UNKNOWN \<or> score = None))"
    and hash: "sha256_shaped (sn_artifact_hash a)"
    and s: "sn_window_start s = sn_window_start a" "sn_window_end s = sn_window_end a"
      "sn_collected_at s = sn_collected_at a" "sn_expires_at s = sn_expires_at a"
      "sn_evidence s = sn_evidence a" "sn_score s = score" "sn_cluster_share s = share"
      "sn_label s = sn_label a" "sn_quality_reasons s = sn_quality_reasons a"
      "sn_artifact_hash s = sn_artifact_hash a"
    unfolding make_snapshot_def bindE_Inr_iff Let_def
    by (elim exE conjE) (auto simp del: not_None_eq)
  have "pred_option (\<lambda>d. bounded d \<and> Dec (- 1) 0 \<le> d \<and> d \<le> Dec 1 0) score"
    using parts(1) by (cases "sn_score a") (auto dest: bounded_between_ok)
  moreover have "sorted (map evidence_key (sn_evidence a))" using times(4) sorted_sort_key by metis
  ultimately show ?thesis
    unfolding snapshot_ok_def s using times label hash bounded_between_ok [OF parts(2)] by auto
qed


lemma require_uniform:
  "list_all (\<lambda>c. snd c = e) cs \<Longrightarrow> \<not> list_all fst cs \<Longrightarrow> require cs = Inl e"
  by (induction cs rule: require.induct) (auto simp: require.simps)

lemma build_repeated_post:
  assumes "\<not> distinct (map ev_post_id (sort_key evidence_key xs))"
  shows "build_sentiment_snapshot q xs p =
    bindE (mapE (\<lambda>(t, m). bounded_text ValidationError m t)
       [(sr_asset_id q, 256), (sr_query q, 1024), (sr_query_version q, 64),
        (sr_classifier_version q, 128)]) (\<lambda>_. Inl ValidationError)"
  unfolding build_sentiment_snapshot_def Let_def using assms
  by (subst require_uniform [of ValidationError]) simp_all

text \<open>The order of collection does not matter.\<close>

lemma build_order_irrelevant:
  assumes "mset xs = mset ys"
  shows "build_sentiment_snapshot q xs p = build_sentiment_snapshot q ys p"
proof (cases "distinct (map ev_post_id xs)")
  case True
  then have "inj_on evidence_key (set xs)"
    by (auto simp: evidence_key_def inj_on_def distinct_map)
  then have "sort_key evidence_key xs = sort_key evidence_key ys"
    using assms by (intro sort_key_inj_key_eq) simp_all
  then show ?thesis by (simp only: build_sentiment_snapshot_def)
next
  case False
  have "\<not> distinct (map ev_post_id (sort_key evidence_key zs))" if "mset zs = mset xs" for zs
  proof -
    have "mset (map ev_post_id (sort_key evidence_key zs)) = mset (map ev_post_id xs)"
      using that by simp
    with False show ?thesis using mset_eq_imp_distinct_iff by blast
  qed
  note repeated = build_repeated_post [OF this]
  show ?thesis using repeated [of xs] repeated [of ys] assms by simp
qed

lemma ctx_sum_nonneg: "ctx_sum sentiment_context xs = Inr s \<Longrightarrow> list_all (\<lambda>d. 0 \<le> dval d) xs \<Longrightarrow> 0 \<le> dval s"
  unfolding ctx_sum_def list_all_iff
  by (rule foldE_invariant [where P = "\<lambda>d. 0 \<le> dval d" and s = 0]) (auto intro: sent_ctx.dadd_nonneg)

lemma score_items_label:
  "score_items p items = Inr (score, label, extra) \<Longrightarrow> extra = [] \<Longrightarrow>
   \<exists>d. score = Some d
     \<and> label = (if sp_bullish_threshold p \<le> d then BULLISH else if d \<le> sp_bearish_threshold p then BEARISH else NEUTRAL)"
  by (auto simp: score_items_def Let_def split: if_splits)

lemma make_snapshot_keeps:
  assumes "make_snapshot a = Inr s" "sn_cluster_share a = In_Decimal share" "sn_score a = map_option In_Decimal score"
  shows "sn_evidence s = sn_evidence a \<and> sn_label s = sn_label a \<and> sn_quality_reasons s = sn_quality_reasons a
    \<and> sn_cluster_share s = share \<and> sn_score s = score"
proof (cases score)
  case None
  show ?thesis
    using assms(1) unfolding make_snapshot_def bindE_Inr_iff Let_def assms(2,3) None
    by (elim exE conjE) (auto simp: bounded_between_again simp del: not_None_eq)
next
  case (Some d)
  show ?thesis
    using assms(1) unfolding make_snapshot_def bindE_Inr_iff Let_def assms(2,3) Some
    by (elim exE conjE) (auto simp: bounded_between_again simp del: not_None_eq)
qed

text \<open>An available snapshot has enough complete, unclustered and recent evidence by distinct authors.\<close>

lemma build_available:
  assumes "build_sentiment_snapshot q ev p = Inr s" "sentiment_available s"
  shows "sr_collection_complete q \<and> sp_minimum_posts p \<le> int (length (sn_evidence s))
    \<and> sp_minimum_authors p \<le> int (card (ev_author_hash ` set (sn_evidence s)))
    \<and> distinct (map ev_author_hash (sn_evidence s))
    \<and> sn_cluster_share s \<le> sp_max_cluster_share p
    \<and> sr_collected_at q - sr_window_end q \<le> seconds (sp_ttl_seconds p)
    \<and> mset (sn_evidence s) = mset ev
    \<and> (\<exists>d. sn_score s = Some d
       \<and> - 1 \<le> dval d \<and> dval d \<le> 1
       \<and> sn_label s = (if sp_bullish_threshold p \<le> d then BULLISH
                       else if d \<le> sp_bearish_threshold p then BEARISH else NEUTRAL))"
proof -
  let ?items = "sort_key evidence_key ev"
  from assms(1) obtain share score label extra a where
      d: "distinct (map ev_author_hash ?items)"
    and sc: "(if quality_reasons_of q p ?items share = [] then score_items p ?items else Inr (None, UNKNOWN, []))
        = Inr (score, label, extra)"
    and s: "make_snapshot a = Inr s" "sn_evidence a = ?items" "sn_label a = label"
      "sn_quality_reasons a = quality_reasons_of q p ?items share @ extra"
      "sn_cluster_share a = In_Decimal share" "sn_score a = map_option In_Decimal score"
    unfolding build_sentiment_snapshot_def Let_def bindE_Inr_iff
    by (elim exE conjE) (auto split: prod.splits)
  note kept = make_snapshot_keeps [OF s(1,5,6)]
  have ok: "quality_reasons_of q p ?items share = []" "extra = []"
    using assms(2) kept s(4) by (auto simp: sentiment_available_def)
  with sc have "score_items p ?items = Inr (score, label, extra)" by simp
  from score_items_label [OF this ok(2)] have "\<exists>d. score = Some d
       \<and> label = (if sp_bullish_threshold p \<le> d then BULLISH
                 else if d \<le> sp_bearish_threshold p then BEARISH else NEUTRAL)" .
  moreover have "sr_collection_complete q \<and> sp_minimum_posts p \<le> int (length ?items)
    \<and> sp_minimum_authors p \<le> int (card (ev_author_hash ` set ?items))
    \<and> share \<le> sp_max_cluster_share p \<and> sr_collected_at q - sr_window_end q \<le> seconds (sp_ttl_seconds p)"
    using ok(1) unfolding quality_reasons_of_def
    by (auto simp: not_less not_less_decimal length_remdups_card_conv split: if_splits)
  moreover have "pred_option (\<lambda>d. - 1 \<le> dval d \<and> dval d \<le> 1) (sn_score s)"
    using make_snapshot_ok [OF s(1)] unfolding snapshot_ok_def
    by (cases "sn_score s") (simp_all add: le_dval dval_def)
  ultimately show ?thesis using kept s(2,3) d by auto
qed

end
