(* ===== verification/Registered_Decision.thy ===== *)
theory Registered_Decision
  imports Strategy Sentiment
begin

text \<open>
  \<open>registered_decision.py\<close>: the profitability attestation, the registered assessment and the
  decision that combines a strategy signal with sentiment and attestation. The lemmas give
  what the constructors establish and when an assessment may be sized for risk.
\<close>

section \<open>Profitability attestations\<close>

definition decision_context :: dctx where
  "decision_context = \<lparr> prec = 96, rounding = Half_Even, e_min = - 192, e_max = 192 \<rparr>"

interpretation decision_ctx: decimal_context decision_context
  by unfold_locales (simp_all add: decision_context_def etiny_def etop_def)

definition hash_field :: "string \<Rightarrow> string result" where
  "hash_field v = bindE (guard (sha256_shaped v) ValidationError) (\<lambda>_. Inr v)"

datatype attestation_status = PA_QUALIFIED | PA_INCONCLUSIVE | PA_REJECTED | PA_SUSPENDED | PA_RETIRED

fun attestation_status_value :: "attestation_status \<Rightarrow> string" where
  "attestation_status_value PA_QUALIFIED = ''qualified''"
| "attestation_status_value PA_INCONCLUSIVE = ''inconclusive''"
| "attestation_status_value PA_REJECTED = ''rejected''"
| "attestation_status_value PA_SUSPENDED = ''suspended''"
| "attestation_status_value PA_RETIRED = ''retired''"

record 'd attestation_of =
  pa_attestation_id :: string
  pa_asset_id :: string
  pa_strategy_hash :: string
  pa_validation_artifact_hash :: string
  pa_shadow_artifact_hash :: string
  pa_status :: attestation_status
  pa_issued_at :: instant
  pa_expires_at :: instant
  pa_oos_trades :: int
  pa_oos_expectancy_r :: 'd
  pa_oos_lower_bound_r :: 'd
  pa_shadow_closed_signals :: int
  pa_shadow_elapsed_days :: int
  pa_shadow_expectancy_r :: 'd
  pa_shadow_lower_bound_r :: 'd
  pa_cost_stress_positive :: bool
  pa_sentiment_incremental_passed :: bool
  pa_drift_passed :: bool
  pa_independent_reviewed :: bool

type_synonym attestation = "decimal attestation_of"

definition make_attestation :: "decimal_input attestation_of \<Rightarrow> attestation result" where
  "make_attestation a =
     bindE (mapE (bounded_text ValidationError 256) [pa_attestation_id a, pa_asset_id a]) (\<lambda>_.
     bindE (mapE hash_field
       [pa_strategy_hash a, pa_validation_artifact_hash a, pa_shadow_artifact_hash a]) (\<lambda>_.
     bindE (require
       [(\<not> pa_expires_at a \<le> pa_issued_at a, ValidationError),
        (0 \<le> pa_oos_trades a, ValidationError), (0 \<le> pa_shadow_closed_signals a, ValidationError),
        (0 \<le> pa_shadow_elapsed_days a, ValidationError)]) (\<lambda>_.
     bindE (lenient_decimal ValidationError (pa_oos_expectancy_r a)) (\<lambda>oe.
     bindE (lenient_decimal ValidationError (pa_oos_lower_bound_r a)) (\<lambda>ol.
     bindE (lenient_decimal ValidationError (pa_shadow_expectancy_r a)) (\<lambda>se.
     bindE (lenient_decimal ValidationError (pa_shadow_lower_bound_r a)) (\<lambda>sl.
     Inr \<lparr> pa_attestation_id = pa_attestation_id a, pa_asset_id = pa_asset_id a,
           pa_strategy_hash = pa_strategy_hash a, pa_validation_artifact_hash = pa_validation_artifact_hash a,
           pa_shadow_artifact_hash = pa_shadow_artifact_hash a, pa_status = pa_status a,
           pa_issued_at = pa_issued_at a, pa_expires_at = pa_expires_at a,
           pa_oos_trades = pa_oos_trades a, pa_oos_expectancy_r = oe, pa_oos_lower_bound_r = ol,
           pa_shadow_closed_signals = pa_shadow_closed_signals a,
           pa_shadow_elapsed_days = pa_shadow_elapsed_days a, pa_shadow_expectancy_r = se,
           pa_shadow_lower_bound_r = sl, pa_cost_stress_positive = pa_cost_stress_positive a,
           pa_sentiment_incremental_passed = pa_sentiment_incremental_passed a,
           pa_drift_passed = pa_drift_passed a,
           pa_independent_reviewed = pa_independent_reviewed a \<rparr>)))))))"

definition attestation_val :: "attestation \<Rightarrow> pyval" where
  "attestation_val a = record_val
     [''attestation_id'', ''asset_id'', ''strategy_hash'', ''validation_artifact_hash'',
      ''shadow_artifact_hash'', ''status'', ''issued_at'', ''expires_at'', ''oos_trades'',
      ''oos_expectancy_r'', ''oos_lower_bound_r'', ''shadow_closed_signals'', ''shadow_elapsed_days'',
      ''shadow_expectancy_r'', ''shadow_lower_bound_r'', ''cost_stress_positive'',
      ''sentiment_incremental_passed'', ''drift_passed'', ''independent_reviewed'']
     [PStr (pa_attestation_id a), PStr (pa_asset_id a), PStr (pa_strategy_hash a),
      PStr (pa_validation_artifact_hash a), PStr (pa_shadow_artifact_hash a),
      PStr (attestation_status_value (pa_status a)), PInstant (pa_issued_at a), PInstant (pa_expires_at a),
      PInt (pa_oos_trades a), PDec (pa_oos_expectancy_r a), PDec (pa_oos_lower_bound_r a),
      PInt (pa_shadow_closed_signals a), PInt (pa_shadow_elapsed_days a), PDec (pa_shadow_expectancy_r a),
      PDec (pa_shadow_lower_bound_r a), PBool (pa_cost_stress_positive a),
      PBool (pa_sentiment_incremental_passed a), PBool (pa_drift_passed a), PBool (pa_independent_reviewed a)]"

definition attestation_hash :: "attestation \<Rightarrow> string result" where
  "attestation_hash a = domain_hash ''trading-harness/profitability-attestation/v1'' (attestation_val a)"

definition attestation_active :: "attestation \<Rightarrow> instant \<Rightarrow> bool" where
  "attestation_active a t =
     (pa_status a = PA_QUALIFIED \<and> pa_issued_at a \<le> t \<and> t < pa_expires_at a
      \<and> 100 \<le> pa_oos_trades a \<and> 0 < pa_oos_expectancy_r a \<and> 0 < pa_oos_lower_bound_r a
      \<and> 50 \<le> pa_shadow_closed_signals a \<and> 90 \<le> pa_shadow_elapsed_days a
      \<and> 0 < pa_shadow_expectancy_r a \<and> 0 < pa_shadow_lower_bound_r a
      \<and> pa_cost_stress_positive a \<and> pa_sentiment_incremental_passed a
      \<and> pa_drift_passed a \<and> pa_independent_reviewed a)"

section \<open>Registered assessments\<close>

datatype registered_verdict = RV_BUY | RV_SELL | RV_NOTHING | RV_UNAVAILABLE

fun registered_verdict_value :: "registered_verdict \<Rightarrow> string" where
  "registered_verdict_value RV_BUY = ''buy''"
| "registered_verdict_value RV_SELL = ''sell''"
| "registered_verdict_value RV_NOTHING = ''nothing''"
| "registered_verdict_value RV_UNAVAILABLE = ''unavailable''"

record 'd registered_assessment_of =
  ra_assessment_id :: string
  ra_asset_id :: string
  ra_instrument :: string
  ra_created_at :: instant
  ra_expires_at :: instant
  ra_strategy_hash :: string
  ra_signal_hash :: string
  ra_sentiment_hash :: string
  ra_attestation_hash :: "string option"
  ra_verdict :: registered_verdict
  ra_reason_codes :: "string list"
  ra_reference_price :: "'d option"
  ra_stop_price :: "'d option"
  ra_target_price :: "'d option"
  ra_eligible_for_risk_quote :: bool
  ra_eligible_to_trade :: bool
  ra_artifact_hash :: string

type_synonym registered_assessment = "decimal registered_assessment_of"

definition registered_payload :: "registered_assessment \<Rightarrow> pyval" where
  "registered_payload a = record_val
     [''assessment_id'', ''asset_id'', ''instrument'', ''created_at'', ''expires_at'', ''strategy_hash'',
      ''signal_hash'', ''sentiment_hash'', ''profitability_attestation_hash'', ''verdict'',
      ''reason_codes'', ''reference_price'', ''stop_price'', ''target_price'',
      ''eligible_for_risk_quote'', ''eligible_to_trade'']
     [PStr (ra_assessment_id a), PStr (ra_asset_id a), PStr (ra_instrument a), PInstant (ra_created_at a),
      PInstant (ra_expires_at a), PStr (ra_strategy_hash a), PStr (ra_signal_hash a),
      PStr (ra_sentiment_hash a), opt_val PStr (ra_attestation_hash a),
      PStr (registered_verdict_value (ra_verdict a)), PList (map PStr (ra_reason_codes a)),
      opt_val PDec (ra_reference_price a), opt_val PDec (ra_stop_price a), opt_val PDec (ra_target_price a),
      PBool (ra_eligible_for_risk_quote a), PBool False]"

definition registered_artifact_hash :: "registered_assessment \<Rightarrow> string result" where
  "registered_artifact_hash a =
     domain_hash ''trading-harness/registered-opportunity-assessment/v1'' (registered_payload a)"

definition directional_verdict :: "registered_verdict \<Rightarrow> bool" where
  "directional_verdict v = (v = RV_BUY \<or> v = RV_SELL)"

definition optional_price :: "decimal_input option \<Rightarrow> decimal option result" where
  "optional_price v =
     (case v of None \<Rightarrow> Inr None
      | Some x \<Rightarrow> bindE (lenient_positive ValidationError x) (\<lambda>d. Inr (Some d)))"

text \<open>Stop, reference and target in the order of the side; three missing prices are not ordered.\<close>

definition ordered_bracket :: "bool \<Rightarrow> 'd::ord option \<Rightarrow> 'd option \<Rightarrow> 'd option \<Rightarrow> bool" where
  "ordered_bracket buy stop reference target =
     (case (stop, reference, target) of
        (Some s, Some r, Some t) \<Rightarrow> if buy then s < r \<and> r < t else t < r \<and> r < s
      | _ \<Rightarrow> False)"

definition make_registered_assessment ::
    "decimal_input registered_assessment_of \<Rightarrow> registered_assessment result" where
  "make_registered_assessment a =
     bindE (mapE (\<lambda>(t, m). bounded_text ValidationError m t)
       [(ra_assessment_id a, 256), (ra_asset_id a, 256), (ra_instrument a, 64)]) (\<lambda>_.
     bindE (guard (\<not> ra_expires_at a < ra_created_at a) ValidationError) (\<lambda>_.
     bindE (mapE hash_field [ra_strategy_hash a, ra_signal_hash a, ra_sentiment_hash a]) (\<lambda>_.
     bindE (case ra_attestation_hash a of None \<Rightarrow> Inr '''' | Some h \<Rightarrow> hash_field h) (\<lambda>_.
     bindE (guard (ra_reason_codes a \<noteq> [] \<and> list_all (stable_reason 128) (ra_reason_codes a))
       ValidationError) (\<lambda>_.
     bindE (optional_price (ra_reference_price a)) (\<lambda>reference.
     bindE (optional_price (ra_stop_price a)) (\<lambda>stop.
     bindE (optional_price (ra_target_price a)) (\<lambda>target.
     (let directional = directional_verdict (ra_verdict a);
          has_bracket = (reference \<noteq> None \<and> stop \<noteq> None \<and> target \<noteq> None) in
     bindE (require
       [(\<not> ra_eligible_to_trade a, ValidationError),
        (directional = has_bracket, ValidationError),
        (\<not> (ra_eligible_for_risk_quote a \<and> \<not> directional), ValidationError),
        (ra_verdict a = RV_BUY \<longrightarrow> ordered_bracket True stop reference target, ValidationError),
        (ra_verdict a = RV_SELL \<longrightarrow> ordered_bracket False stop reference target, ValidationError)]) (\<lambda>_.
     (let r = \<lparr> ra_assessment_id = ra_assessment_id a, ra_asset_id = ra_asset_id a,
                ra_instrument = ra_instrument a, ra_created_at = ra_created_at a,
                ra_expires_at = ra_expires_at a, ra_strategy_hash = ra_strategy_hash a,
                ra_signal_hash = ra_signal_hash a, ra_sentiment_hash = ra_sentiment_hash a,
                ra_attestation_hash = ra_attestation_hash a, ra_verdict = ra_verdict a,
                ra_reason_codes = ra_reason_codes a, ra_reference_price = reference,
                ra_stop_price = stop, ra_target_price = target,
                ra_eligible_for_risk_quote = ra_eligible_for_risk_quote a,
                ra_eligible_to_trade = ra_eligible_to_trade a,
                ra_artifact_hash = ra_artifact_hash a \<rparr> in
     bindE (registered_artifact_hash r) (\<lambda>expected.
     bindE (guard (ra_artifact_hash a = expected) ValidationError) (\<lambda>_. Inr r)))))))))))))"

definition assessment_fresh :: "'d registered_assessment_of \<Rightarrow> instant \<Rightarrow> bool" where
  "assessment_fresh a t = (ra_created_at a \<le> t \<and> t < ra_expires_at a)"

section \<open>The decision\<close>

definition decide ::
    "strategy_signal \<Rightarrow> sentiment_snapshot \<Rightarrow> instant \<Rightarrow> registered_verdict \<times> string list" where
  "decide g s t =
     (if t < sg_observed_at g then (RV_UNAVAILABLE, [''signal_not_yet_observed''])
      else if \<not> (sg_observed_at g \<le> t \<and> t < sg_expires_at g) then (RV_UNAVAILABLE, [''registered_signal_stale''])
      else if sg_direction g = SD_NOTHING then (RV_NOTHING, [sg_reason g])
      else if \<not> sentiment_fresh s t then (RV_UNAVAILABLE, [''sentiment_stale''])
      else if \<not> sentiment_available s then
        (RV_UNAVAILABLE, if sn_quality_reasons s = [] then [''sentiment_unavailable''] else sn_quality_reasons s)
      else if sg_direction g = SD_BUY \<and> sn_label s = BEARISH then (RV_NOTHING, [''bearish_sentiment_veto''])
      else if sg_direction g = SD_SELL \<and> sn_label s = BULLISH then (RV_NOTHING, [''bullish_sentiment_veto''])
      else if sg_direction g = SD_BUY then (RV_BUY, [''registered_buy_sentiment_not_bearish''])
      else (RV_SELL, [''registered_sell_sentiment_not_bullish'']))"

definition attestation_qualifies :: "attestation option \<Rightarrow> string \<Rightarrow> string \<Rightarrow> instant \<Rightarrow> bool" where
  "attestation_qualifies p asset strategy t =
     (case p of None \<Rightarrow> False
      | Some a \<Rightarrow> pa_asset_id a = asset \<and> pa_strategy_hash a = strategy \<and> attestation_active a t)"

definition attestation_reasons :: "attestation option \<Rightarrow> string \<Rightarrow> string \<Rightarrow> instant \<Rightarrow> string list" where
  "attestation_reasons p asset strategy t =
     (case p of None \<Rightarrow> [''profitability_attestation_missing'']
      | Some a \<Rightarrow>
          if pa_asset_id a \<noteq> asset then [''profitability_asset_mismatch'']
          else if pa_strategy_hash a \<noteq> strategy then [''profitability_strategy_mismatch'']
          else if \<not> attestation_active a t then [''profitability_not_qualified''] else [])"

definition sentiment_method_reasons :: "sentiment_snapshot \<Rightarrow> bool \<Rightarrow> string list" where
  "sentiment_method_reasons s attended =
     (if sn_method s = MANUAL_BROWSER
      then [if attended then ''manual_sentiment_requires_attended_approval''
            else ''manual_sentiment_not_unattended''] else [])"

text \<open>Stop and target at registered multiples of the ATR; none when one is not positive.\<close>

definition bracket ::
    "registered_verdict \<Rightarrow> strategy_signal \<Rightarrow> registered_strategy \<Rightarrow> (decimal \<times> decimal \<times> decimal) option result" where
  "bracket verdict g s =
     bindE (dmul decision_context (ft_atr (sg_features g)) (rs_stop_atr_multiple s)) (\<lambda>stop_distance.
     bindE (dmul decision_context (ft_atr (sg_features g)) (rs_target_atr_multiple s)) (\<lambda>target_distance.
     bindE (if verdict = RV_BUY then dsub decision_context (sg_close g) stop_distance
            else dadd decision_context (sg_close g) stop_distance) (\<lambda>stop.
     bindE (if verdict = RV_BUY then dadd decision_context (sg_close g) target_distance
            else dsub decision_context (sg_close g) target_distance) (\<lambda>target.
     Inr (if stop \<le> 0 \<or> target \<le> 0 then None else Some (sg_close g, stop, target))))))"

definition risk_eligible ::
    "bool \<Rightarrow> bool \<Rightarrow> sentiment_snapshot \<Rightarrow> bool \<Rightarrow> instant \<Rightarrow> instant \<Rightarrow> bool" where
  "risk_eligible directional qualified s attended t expires =
     (directional \<and> qualified
      \<and> (unattended_eligible s
         \<or> attended \<and> sn_method s = MANUAL_BROWSER \<and> sentiment_available s \<and> sentiment_fresh s t)
      \<and> t < expires)"


definition build_registered_assessment ::
    "string \<Rightarrow> string \<Rightarrow> strategy_signal \<Rightarrow> sentiment_snapshot \<Rightarrow> attestation option \<Rightarrow> instant \<Rightarrow>
     registered_strategy \<Rightarrow> bool \<Rightarrow> registered_assessment result" where
  "build_registered_assessment assessment_id asset g s p t strategy attended =
     bindE (mapE (bounded_text ValidationError 256) [assessment_id, asset]) (\<lambda>_.
     bindE (registration_hash strategy) (\<lambda>registered.
     bindE (require
       [(sg_strategy_hash g = registered, ValidationError), (sn_asset_id s = asset, ValidationError)]) (\<lambda>_.
     (let expires = max t (min (sg_expires_at g) (sn_expires_at s));
          first = decide g s t;
          qualified = attestation_qualifies p asset (sg_strategy_hash g) t;
          reasons = snd first @ attestation_reasons p asset (sg_strategy_hash g) t
            @ sentiment_method_reasons s attended in
     bindE (if directional_verdict (fst first) then bracket (fst first) g strategy else Inr None) (\<lambda>prices.
     (let invalid = (directional_verdict (fst first) \<and> prices = None);
          verdict = (if invalid then RV_UNAVAILABLE else fst first);
          directional = directional_verdict verdict;
          eligible = risk_eligible directional qualified s attended t expires;
          codes = reasons @ (if invalid then [''invalid_bracket_geometry''] else [])
            @ (if directional \<and> \<not> eligible then [''risk_quote_ineligible''] else []) in
     bindE (signal_hash g) (\<lambda>signal.
     bindE (case p of None \<Rightarrow> Inr None | Some a \<Rightarrow> bindE (attestation_hash a) (\<lambda>h. Inr (Some h))) (\<lambda>attestation.
     (let draft = \<lparr> ra_assessment_id = assessment_id, ra_asset_id = asset,
                ra_instrument = sg_instrument g, ra_created_at = t, ra_expires_at = expires,
                ra_strategy_hash = sg_strategy_hash g, ra_signal_hash = signal,
                ra_sentiment_hash = sn_artifact_hash s, ra_attestation_hash = attestation,
                ra_verdict = verdict, ra_reason_codes = codes,
                ra_reference_price = map_option fst prices,
                ra_stop_price = map_option (fst \<circ> snd) prices,
                ra_target_price = map_option (snd \<circ> snd) prices,
                ra_eligible_for_risk_quote = eligible, ra_eligible_to_trade = False,
                ra_artifact_hash = '''' \<rparr> in
     bindE (registered_artifact_hash draft) (\<lambda>h.
     make_registered_assessment
       \<lparr> ra_assessment_id = assessment_id, ra_asset_id = asset,
         ra_instrument = sg_instrument g, ra_created_at = t, ra_expires_at = expires,
         ra_strategy_hash = sg_strategy_hash g, ra_signal_hash = signal,
         ra_sentiment_hash = sn_artifact_hash s, ra_attestation_hash = attestation,
         ra_verdict = verdict, ra_reason_codes = codes,
         ra_reference_price = map_option (In_Decimal \<circ> fst) prices,
         ra_stop_price = map_option (In_Decimal \<circ> fst \<circ> snd) prices,
         ra_target_price = map_option (In_Decimal \<circ> snd \<circ> snd) prices,
         ra_eligible_for_risk_quote = eligible, ra_eligible_to_trade = False,
         ra_artifact_hash = h \<rparr>))))))))))"

section \<open>What an assessment guarantees\<close>

lemma hash_field_Inr_iff [simp]: "hash_field v = Inr r \<longleftrightarrow> sha256_shaped v \<and> r = v"
  by (auto simp: hash_field_def)

lemma optional_price_ok: "optional_price v = Inr r \<Longrightarrow> pred_option positive r"
  by (cases v) (auto simp: optional_price_def dest: lenient_positive_ok)

lemma optional_price_again:
  "optional_price (map_option In_Decimal v) = Inr r \<Longrightarrow> r = v"
  by (cases v) (auto simp: optional_price_def)

definition assessment_ok :: "registered_assessment \<Rightarrow> bool" where
  "assessment_ok a =
     (ra_created_at a \<le> ra_expires_at a
      \<and> list_all (pred_option positive) [ra_reference_price a, ra_stop_price a, ra_target_price a]
      \<and> \<not> ra_eligible_to_trade a
      \<and> directional_verdict (ra_verdict a) =
          (ra_reference_price a \<noteq> None \<and> ra_stop_price a \<noteq> None \<and> ra_target_price a \<noteq> None)
      \<and> (ra_eligible_for_risk_quote a \<longrightarrow> directional_verdict (ra_verdict a))
      \<and> (ra_verdict a = RV_BUY \<longrightarrow> ordered_bracket True (ra_stop_price a) (ra_reference_price a) (ra_target_price a))
      \<and> (ra_verdict a = RV_SELL \<longrightarrow> ordered_bracket False (ra_stop_price a) (ra_reference_price a) (ra_target_price a))
      \<and> registered_artifact_hash a = Inr (ra_artifact_hash a)
      \<and> list_all sha256_shaped [ra_strategy_hash a, ra_signal_hash a, ra_sentiment_hash a, ra_artifact_hash a])"

lemma artifact_hash_ignores: "registered_artifact_hash (a\<lparr>ra_artifact_hash := h\<rparr>) = registered_artifact_hash a"
  by (simp add: registered_artifact_hash_def registered_payload_def)

lemma make_registered_assessmentE:
  assumes "make_registered_assessment a = Inr r"
  obtains reference stop target where
    "optional_price (ra_reference_price a) = Inr reference" "optional_price (ra_stop_price a) = Inr stop"
    "optional_price (ra_target_price a) = Inr target"
    "ra_created_at a \<le> ra_expires_at a" "\<not> ra_eligible_to_trade a"
    "directional_verdict (ra_verdict a) = (reference \<noteq> None \<and> stop \<noteq> None \<and> target \<noteq> None)"
    "\<not> (ra_eligible_for_risk_quote a \<and> \<not> directional_verdict (ra_verdict a))"
    "ra_verdict a = RV_BUY \<longrightarrow> ordered_bracket True stop reference target"
    "ra_verdict a = RV_SELL \<longrightarrow> ordered_bracket False stop reference target"
    "list_all sha256_shaped [ra_strategy_hash a, ra_signal_hash a, ra_sentiment_hash a]"
    "r = \<lparr> ra_assessment_id = ra_assessment_id a, ra_asset_id = ra_asset_id a,
                ra_instrument = ra_instrument a, ra_created_at = ra_created_at a,
                ra_expires_at = ra_expires_at a, ra_strategy_hash = ra_strategy_hash a,
                ra_signal_hash = ra_signal_hash a, ra_sentiment_hash = ra_sentiment_hash a,
                ra_attestation_hash = ra_attestation_hash a, ra_verdict = ra_verdict a,
                ra_reason_codes = ra_reason_codes a, ra_reference_price = reference,
                ra_stop_price = stop, ra_target_price = target,
                ra_eligible_for_risk_quote = ra_eligible_for_risk_quote a,
                ra_eligible_to_trade = ra_eligible_to_trade a,
                ra_artifact_hash = ra_artifact_hash a \<rparr>"
    "registered_artifact_hash r = Inr (ra_artifact_hash a)"
  using assms unfolding make_registered_assessment_def bindE_Inr_iff Let_def require_Inr_iff guard_Inr_iff
  by (elim exE conjE) (simp only: list.pred_inject fst_conv prod.inject sum.inject not_less
    not_le HOL.simp_thms mapE.simps bindE_Inr_iff hash_field_Inr_iff, elim exE conjE, blast)

lemma make_registered_assessment_ok:
  assumes "make_registered_assessment a = Inr r"
  shows "assessment_ok r"
proof -
  from assms obtain reference stop target where parts:
    "optional_price (ra_reference_price a) = Inr reference" "optional_price (ra_stop_price a) = Inr stop"
    "optional_price (ra_target_price a) = Inr target"
    by (rule make_registered_assessmentE)
  then have "list_all (pred_option positive) [reference, stop, target]"
    by (simp add: optional_price_ok)
  with parts show ?thesis
    using assms
    by (elim make_registered_assessmentE)
      (auto simp: assessment_ok_def registered_artifact_hash_def simp del: not_None_eq dest: domain_hash_shaped)
qed

text \<open>The verdict follows the signal unless sentiment vetoes it.\<close>

lemma decide_directional:
  "decide g s t = (v, rs) \<Longrightarrow> directional_verdict v \<Longrightarrow>
   sg_observed_at g \<le> t \<and> t < sg_expires_at g \<and> sentiment_fresh s t \<and> sentiment_available s
   \<and> (v = RV_BUY \<longrightarrow> sg_direction g = SD_BUY \<and> sn_label s \<noteq> BEARISH)
   \<and> (v = RV_SELL \<longrightarrow> sg_direction g = SD_SELL \<and> sn_label s \<noteq> BULLISH)"
  by (cases "sg_direction g") (auto simp: decide_def directional_verdict_def split: if_splits)



lemma make_registered_assessment_keeps:
  assumes "make_registered_assessment a = Inr r"
  shows "ra_verdict r = ra_verdict a \<and> ra_eligible_for_risk_quote r = ra_eligible_for_risk_quote a
    \<and> ra_strategy_hash r = ra_strategy_hash a \<and> ra_created_at r = ra_created_at a
    \<and> ra_expires_at r = ra_expires_at a \<and> ra_asset_id r = ra_asset_id a
    \<and> ra_signal_hash r = ra_signal_hash a \<and> ra_sentiment_hash r = ra_sentiment_hash a
    \<and> (\<forall>x. ra_reference_price a = map_option In_Decimal x \<longrightarrow> ra_reference_price r = x)
    \<and> (\<forall>x. ra_stop_price a = map_option In_Decimal x \<longrightarrow> ra_stop_price r = x)
    \<and> (\<forall>x. ra_target_price a = map_option In_Decimal x \<longrightarrow> ra_target_price r = x)"
  using assms by (elim make_registered_assessmentE) (auto dest: optional_price_again)

lemma build_registeredE:
  assumes "build_registered_assessment i asset g s p t strategy attended = Inr a"
  obtains prices expires where
    "registration_hash strategy = Inr (sg_strategy_hash g)" "sn_asset_id s = asset"
    "(if directional_verdict (fst (decide g s t)) then bracket (fst (decide g s t)) g strategy else Inr None) = Inr prices"
    "expires = max t (min (sg_expires_at g) (sn_expires_at s))"
    "ra_verdict a = (if directional_verdict (fst (decide g s t)) \<and> prices = None then RV_UNAVAILABLE
       else fst (decide g s t))"
    "ra_eligible_for_risk_quote a = risk_eligible (directional_verdict (ra_verdict a))
       (attestation_qualifies p asset (sg_strategy_hash g) t) s attended t expires"
    "ra_strategy_hash a = sg_strategy_hash g" "ra_created_at a = t" "ra_expires_at a = expires"
    "ra_asset_id a = asset" "signal_hash g = Inr (ra_signal_hash a)" "ra_sentiment_hash a = sn_artifact_hash s"
    "ra_reference_price a = map_option fst prices" "ra_stop_price a = map_option (fst \<circ> snd) prices"
    "ra_target_price a = map_option (snd \<circ> snd) prices"
    "assessment_ok a"
proof -
  from assms obtain registered prices signal A where
      reg: "registration_hash strategy = Inr registered"
    and req: "sg_strategy_hash g = registered" "sn_asset_id s = asset"
    and prices: "(if directional_verdict (fst (decide g s t)) then bracket (fst (decide g s t)) g strategy else Inr None) = Inr prices"
    and signal: "signal_hash g = Inr signal"
    and a: "make_registered_assessment A = Inr a"
    and A: "ra_verdict A = (if directional_verdict (fst (decide g s t)) \<and> prices = None then RV_UNAVAILABLE
       else fst (decide g s t))"
    "ra_eligible_for_risk_quote A = risk_eligible (directional_verdict (ra_verdict A))
       (attestation_qualifies p asset (sg_strategy_hash g) t) s attended t (max t (min (sg_expires_at g) (sn_expires_at s)))"
    "ra_strategy_hash A = sg_strategy_hash g" "ra_created_at A = t"
    "ra_expires_at A = max t (min (sg_expires_at g) (sn_expires_at s))"
    "ra_asset_id A = asset" "ra_signal_hash A = signal" "ra_sentiment_hash A = sn_artifact_hash s"
    "ra_reference_price A = map_option In_Decimal (map_option fst prices)"
    "ra_stop_price A = map_option In_Decimal (map_option (fst \<circ> snd) prices)"
    "ra_target_price A = map_option In_Decimal (map_option (snd \<circ> snd) prices)"
    unfolding build_registered_assessment_def Let_def bindE_Inr_iff
    by (elim exE conjE) (simp add: option.map_comp comp_assoc)
  note kept = make_registered_assessment_keeps [OF a]
  have "ra_reference_price a = map_option fst prices" "ra_stop_price a = map_option (fst \<circ> snd) prices"
      "ra_target_price a = map_option (snd \<circ> snd) prices"
    using kept A(9-11) by blast+
  moreover have "ra_verdict a = ra_verdict A" "ra_eligible_for_risk_quote a = ra_eligible_for_risk_quote A"
      "ra_strategy_hash a = ra_strategy_hash A" "ra_created_at a = ra_created_at A"
      "ra_expires_at a = ra_expires_at A" "ra_asset_id a = ra_asset_id A"
      "ra_signal_hash a = ra_signal_hash A" "ra_sentiment_hash a = ra_sentiment_hash A"
    using kept by blast+
  ultimately show ?thesis
    using that [of prices] reg req prices signal A(1-8) make_registered_assessment_ok [OF a]
    by (simp only: HOL.simp_thms)
qed

end
