(* ===== verification/Analysis.thy ===== *)
theory Analysis
  imports Sentiment Decimal_Eval
begin

text \<open>
  \<open>analysis.py\<close> and \<open>assessment.py\<close>: the descriptive technical analysis of completed candles and
  the assessment that combines it with sentiment and a profitability gate. The lemmas give the
  order of stop, close and target, the range of the RSI, and when an assessment may be sized.
\<close>

section \<open>Candles and configuration\<close>

definition analysis_context :: dctx where
  "analysis_context = \<lparr> prec = 96, rounding = Half_Even, e_min = - 192, e_max = 192 \<rparr>"

interpretation analysis_ctx: decimal_context analysis_context
  by unfold_locales (simp_all add: analysis_context_def etiny_def etop_def)

definition decimal_text :: "decimal \<Rightarrow> string result" where
  "decimal_text d = bindE (checked_result d) canonical_decimal"

record 'd tech_candle_of =
  tc_symbol :: string
  tc_interval :: string
  tc_open_time :: instant
  tc_close_time :: instant
  tc_open :: 'd
  tc_high :: 'd
  tc_low :: 'd
  tc_close :: 'd
  tc_volume :: 'd

type_synonym tech_candle = "decimal tech_candle_of"

definition make_tech_candle :: "decimal_input tech_candle_of \<Rightarrow> tech_candle result" where
  "make_tech_candle c =
     bindE (bounded_text ValidationError 64 (tc_symbol c)) (\<lambda>_.
     bindE (bounded_text ValidationError 16 (tc_interval c)) (\<lambda>_.
     bindE (guard (\<not> tc_close_time c \<le> tc_open_time c) ValidationError) (\<lambda>_.
     bindE (policy_positive (tc_open c)) (\<lambda>opened.
     bindE (policy_positive (tc_high c)) (\<lambda>high.
     bindE (policy_positive (tc_low c)) (\<lambda>low.
     bindE (policy_positive (tc_close c)) (\<lambda>close.
     bindE (policy_nonnegative (tc_volume c)) (\<lambda>volume.
     bindE (require
       [(\<not> high < dmax (dmax opened close) low, ValidationError),
        (\<not> dmin (dmin opened close) high < low, ValidationError)]) (\<lambda>_.
     Inr \<lparr> tc_symbol = tc_symbol c, tc_interval = tc_interval c, tc_open_time = tc_open_time c,
           tc_close_time = tc_close_time c, tc_open = opened, tc_high = high, tc_low = low,
           tc_close = close, tc_volume = volume \<rparr>)))))))))"

definition tech_candle_record :: "tech_candle \<Rightarrow> pyval result" where
  "tech_candle_record c =
     bindE (mapE decimal_text [tc_open c, tc_high c, tc_low c, tc_close c, tc_volume c]) (\<lambda>ds.
     Inr (record_val
       [''symbol'', ''interval'', ''open_time'', ''close_time'', ''open'', ''high'', ''low'', ''close'', ''volume'']
       (map PStr ([tc_symbol c, tc_interval c, iso_millis (tc_open_time c), iso_millis (tc_close_time c)] @ ds))))"

record 'd technical_config_of =
  tf_version :: string
  tf_fast_period :: nat
  tf_slow_period :: nat
  tf_trend_period :: nat
  tf_rsi_period :: nat
  tf_atr_period :: nat
  tf_rsi_buy_min :: 'd
  tf_rsi_buy_max :: 'd
  tf_rsi_sell_min :: 'd
  tf_rsi_sell_max :: 'd
  tf_stop_atr_multiple :: 'd
  tf_reward_risk_multiple :: 'd

type_synonym technical_config = "decimal technical_config_of"

definition rsi_bound :: "decimal_input \<Rightarrow> decimal result" where
  "rsi_bound v =
     bindE (policy_nonnegative v) (\<lambda>d. bindE (guard (\<not> Dec 100 0 < d) ValidationError) (\<lambda>_. Inr d))"

definition make_technical_config :: "decimal_input technical_config_of \<Rightarrow> technical_config result" where
  "make_technical_config c =
     bindE (bounded_text ValidationError 64 (tf_version c)) (\<lambda>_.
     bindE (require (map (\<lambda>n. (2 \<le> n \<and> n \<le> 10000, ValidationError))
        [tf_fast_period c, tf_slow_period c, tf_trend_period c, tf_rsi_period c, tf_atr_period c])) (\<lambda>_.
     bindE (guard (tf_fast_period c < tf_slow_period c \<and> tf_slow_period c < tf_trend_period c)
        ValidationError) (\<lambda>_.
     bindE (rsi_bound (tf_rsi_buy_min c)) (\<lambda>buy_min.
     bindE (rsi_bound (tf_rsi_buy_max c)) (\<lambda>buy_max.
     bindE (rsi_bound (tf_rsi_sell_min c)) (\<lambda>sell_min.
     bindE (rsi_bound (tf_rsi_sell_max c)) (\<lambda>sell_max.
     bindE (guard (sell_min \<le> sell_max \<and> sell_max < buy_min \<and> buy_min \<le> buy_max) ValidationError) (\<lambda>_.
     bindE (policy_positive (tf_stop_atr_multiple c)) (\<lambda>stop.
     bindE (policy_positive (tf_reward_risk_multiple c)) (\<lambda>reward.
     Inr \<lparr> tf_version = tf_version c, tf_fast_period = tf_fast_period c, tf_slow_period = tf_slow_period c,
           tf_trend_period = tf_trend_period c, tf_rsi_period = tf_rsi_period c,
           tf_atr_period = tf_atr_period c, tf_rsi_buy_min = buy_min, tf_rsi_buy_max = buy_max,
           tf_rsi_sell_min = sell_min, tf_rsi_sell_max = sell_max, tf_stop_atr_multiple = stop,
           tf_reward_risk_multiple = reward \<rparr>))))))))))"

definition minimum_candles :: "'d technical_config_of \<Rightarrow> nat" where
  "minimum_candles c = max (max (tf_trend_period c) (tf_rsi_period c + 1)) (tf_atr_period c + 1)"

definition technical_config_record :: "technical_config \<Rightarrow> pyval result" where
  "technical_config_record c =
     bindE (mapE decimal_text
       [tf_rsi_buy_min c, tf_rsi_buy_max c, tf_rsi_sell_min c, tf_rsi_sell_max c, tf_stop_atr_multiple c,
        tf_reward_risk_multiple c]) (\<lambda>ds.
     Inr (record_val
       [''version'', ''fast_period'', ''slow_period'', ''trend_period'', ''rsi_period'', ''atr_period'',
        ''rsi_buy_min'', ''rsi_buy_max'', ''rsi_sell_min'', ''rsi_sell_max'', ''stop_atr_multiple'',
        ''reward_risk_multiple'']
       ([PStr (tf_version c), PInt (int (tf_fast_period c)), PInt (int (tf_slow_period c)),
         PInt (int (tf_trend_period c)), PInt (int (tf_rsi_period c)), PInt (int (tf_atr_period c))]
        @ map PStr ds)))"

section \<open>Indicators\<close>

definition descriptive_ema :: "decimal list \<Rightarrow> nat \<Rightarrow> decimal result" where
  "descriptive_ema xs period =
     bindE (guard (\<not> length xs < period) ValidationError) (\<lambda>_.
     bindE (bindE (ctx_sum analysis_context (take period xs))
        (\<lambda>s. ddiv analysis_context s (dec_int (int period)))) (\<lambda>seed.
     bindE (ddiv analysis_context (dec_int 2) (dec_int (int period + 1))) (\<lambda>multiplier.
     bindE (foldE (\<lambda>r v.
        bindE (dsub analysis_context v r) (\<lambda>d.
        bindE (dmul analysis_context d multiplier) (\<lambda>m. dadd analysis_context r m))) seed (drop period xs))
     checked_result)))"

text \<open>One step of Wilder's average: \<open>(average * (period - 1) + value) / period\<close>.\<close>

definition wilder :: "nat \<Rightarrow> decimal \<Rightarrow> decimal \<Rightarrow> decimal result" where
  "wilder period average v =
     bindE (dmul analysis_context average (dec_int (int period - 1))) (\<lambda>a.
     bindE (dadd analysis_context a v) (\<lambda>b.
     ddiv analysis_context b (dec_int (int period))))"

definition wilder_average :: "nat \<Rightarrow> decimal list \<Rightarrow> decimal result" where
  "wilder_average period xs =
     bindE (bindE (ctx_sum analysis_context (take period xs))
        (\<lambda>s. ddiv analysis_context s (dec_int (int period)))) (\<lambda>seed.
     foldE (wilder period) seed (drop period xs))"

fun changes :: "decimal list \<Rightarrow> decimal list result" where
  "changes (x # y # r) =
     bindE (dsub analysis_context y x) (\<lambda>d. bindE (changes (y # r)) (\<lambda>ds. Inr (d # ds)))"
| "changes xs = Inr []"

text \<open>\<open>- change\<close> rounds in the current context; \<open>max (a, b)\<close> keeps the first of equal values.\<close>

definition gain_of :: "decimal \<Rightarrow> decimal" where "gain_of c = dmax c 0"

definition loss_of :: "decimal \<Rightarrow> decimal result" where
  "loss_of c = bindE (dfix analysis_context (exact_neg c)) (\<lambda>n. Inr (dmax n 0))"

definition rsi :: "decimal list \<Rightarrow> nat \<Rightarrow> decimal result" where
  "rsi xs period =
     bindE (guard (\<not> length xs < period + 1) ValidationError) (\<lambda>_.
     bindE (changes xs) (\<lambda>cs.
     (let gains = map gain_of cs in
     bindE (mapE loss_of cs) (\<lambda>losses.
     bindE (wilder_average period gains) (\<lambda>average_gain.
     bindE (wilder_average period losses) (\<lambda>average_loss.
     bindE (if deq average_gain 0 \<and> deq average_loss 0 then Inr (Dec 50 0)
            else if deq average_loss 0 then Inr (Dec 100 0)
            else if deq average_gain 0 then Inr 0
            else
              bindE (ddiv analysis_context average_gain average_loss) (\<lambda>strength.
              bindE (dadd analysis_context (dec_int 1) strength) (\<lambda>d.
              bindE (ddiv analysis_context (Dec 100 0) d) (\<lambda>q.
              dsub analysis_context (Dec 100 0) q))))
     checked_result))))))"

fun descriptive_ranges :: "tech_candle list \<Rightarrow> decimal list result" where
  "descriptive_ranges (p # c # r) =
     bindE (dsub analysis_context (tc_high c) (tc_low c)) (\<lambda>spread.
     bindE (bindE (dsub analysis_context (tc_high c) (tc_close p)) (dabs analysis_context)) (\<lambda>up.
     bindE (bindE (dsub analysis_context (tc_low c) (tc_close p)) (dabs analysis_context)) (\<lambda>down.
     bindE (descriptive_ranges (c # r)) (\<lambda>rs. Inr (dmax (dmax spread up) down # rs)))))"
| "descriptive_ranges cs = Inr []"

definition descriptive_atr :: "tech_candle list \<Rightarrow> nat \<Rightarrow> decimal result" where
  "descriptive_atr cs period =
     bindE (guard (\<not> length cs < period + 1) ValidationError) (\<lambda>_.
     bindE (descriptive_ranges cs) (\<lambda>ranges.
     bindE (wilder_average period ranges) checked_result))"


section \<open>The technical snapshot\<close>

datatype technical_bias = TB_BUY | TB_SELL | TB_NOTHING

fun technical_bias_value :: "technical_bias \<Rightarrow> string" where
  "technical_bias_value TB_BUY = ''buy''"
| "technical_bias_value TB_SELL = ''sell''"
| "technical_bias_value TB_NOTHING = ''nothing''"

record technical_snapshot =
  ts_symbol :: string
  ts_interval :: string
  ts_as_of :: instant
  ts_candle_close_time :: instant
  ts_config_version :: string
  ts_config_hash :: string
  ts_data_hash :: string
  ts_completed_candles :: nat
  ts_ignored_incomplete_candles :: nat
  ts_close :: decimal
  ts_ema_fast :: decimal
  ts_ema_slow :: decimal
  ts_ema_trend :: decimal
  ts_rsi :: decimal
  ts_atr :: decimal
  ts_bias :: technical_bias
  ts_stop_price :: "decimal option"
  ts_target_price :: "decimal option"
  ts_reasons :: "string list"
  ts_executable :: bool

definition opt_text :: "decimal option \<Rightarrow> pyval result" where
  "opt_text x = (case x of None \<Rightarrow> Inr PNone | Some d \<Rightarrow> bindE (decimal_text d) (\<lambda>t. Inr (PStr t)))"

definition technical_dict :: "technical_snapshot \<Rightarrow> pyval result" where
  "technical_dict s =
     bindE (mapE decimal_text
       [ts_close s, ts_ema_fast s, ts_ema_slow s, ts_ema_trend s, ts_rsi s, ts_atr s]) (\<lambda>ds.
     bindE (opt_text (ts_stop_price s)) (\<lambda>stop.
     bindE (opt_text (ts_target_price s)) (\<lambda>target.
     Inr (record_val
       [''schema_version'', ''symbol'', ''interval'', ''as_of'', ''candle_close_time'', ''config_version'',
        ''config_hash'', ''data_hash'', ''completed_candles'', ''ignored_incomplete_candles'', ''close'',
        ''ema_fast'', ''ema_slow'', ''ema_trend'', ''rsi'', ''atr'', ''bias'', ''stop_price'',
        ''target_price'', ''reasons'', ''executable'', ''evidence_status'']
       ([PStr ''technical_snapshot.v1'', PStr (ts_symbol s), PStr (ts_interval s),
         PStr (iso_millis (ts_as_of s)), PStr (iso_millis (ts_candle_close_time s)),
         PStr (ts_config_version s), PStr (ts_config_hash s), PStr (ts_data_hash s),
         PInt (int (ts_completed_candles s)), PInt (int (ts_ignored_incomplete_candles s))]
        @ map PStr ds
        @ [PStr (technical_bias_value (ts_bias s)), stop, target, PList (map PStr (ts_reasons s)),
           PBool (ts_executable s), PStr ''research_candidate''])))))"

definition technical_hash :: "technical_snapshot \<Rightarrow> string result" where
  "technical_hash s = bindE (technical_dict s) payload_hash"

text \<open>Bias, stop, target and the reasons of an aligned bias.\<close>

definition technical_bias_of ::
    "technical_config \<Rightarrow> decimal \<Rightarrow> decimal \<Rightarrow> decimal \<Rightarrow> decimal \<Rightarrow> decimal \<Rightarrow> decimal \<Rightarrow>
     (technical_bias \<times> decimal option \<times> decimal option \<times> string list) result" where
  "technical_bias_of c close fast slow trend strength spread =
     (let buy = (trend < close \<and> slow < fast \<and> tf_rsi_buy_min c \<le> strength \<and> strength \<le> tf_rsi_buy_max c);
          sell = (close < trend \<and> fast < slow \<and> tf_rsi_sell_min c \<le> strength \<and> strength \<le> tf_rsi_sell_max c)
      in reraise ValidationError
     (bindE (dmul analysis_context spread (tf_stop_atr_multiple c)) (\<lambda>stop_distance.
      bindE (dmul analysis_context stop_distance (tf_reward_risk_multiple c)) (\<lambda>target_distance.
      if buy \<and> 0 < spread then
        bindE (dsub analysis_context close stop_distance) (\<lambda>stop.
        if 0 < stop then
          bindE (checked_result stop) (\<lambda>s.
          bindE (bindE (dadd analysis_context close target_distance) checked_result) (\<lambda>t.
          Inr (TB_BUY, Some s, Some t, [''close_above_trend'', ''fast_above_slow'', ''rsi_buy_band''])))
        else Inr (TB_NOTHING, None, None, []))
      else if sell \<and> 0 < spread then
        bindE (bindE (dadd analysis_context close stop_distance) checked_result) (\<lambda>s.
        bindE (bindE (dsub analysis_context close target_distance) checked_result) (\<lambda>t.
        if t \<le> 0 then Inr (TB_NOTHING, None, None, [])
        else Inr (TB_SELL, Some s, Some t, [''close_below_trend'', ''fast_below_slow'', ''rsi_sell_band''])))
      else Inr (TB_NOTHING, None, None, [])))))"

definition records_hash :: "pyval result \<Rightarrow> string result" where
  "records_hash v = bindE v payload_hash"

definition analyze_technical :: "tech_candle list \<Rightarrow> instant \<Rightarrow> technical_config \<Rightarrow> technical_snapshot result" where
  "analyze_technical cs as_of c =
     bindE (guard (cs \<noteq> []) ValidationError) (\<lambda>_.
     (let symbol = tc_symbol (hd cs); interval = tc_interval (hd cs);
          completed = filter (\<lambda>k. tc_close_time k \<le> as_of) cs in
     bindE (require
       [(list_all (\<lambda>(l, r). \<not> tc_open_time r \<le> tc_open_time l) (zip cs (tl cs)), ValidationError),
        (list_all (\<lambda>k. tc_symbol k = symbol \<and> tc_interval k = interval) cs, ValidationError),
        (list_all (\<lambda>k. \<not> as_of < tc_close_time k) (take (length completed) cs), ValidationError),
        (\<not> length completed < minimum_candles c, ValidationError)]) (\<lambda>_.
     (let closes = map tc_close completed in
     bindE (descriptive_ema closes (tf_fast_period c)) (\<lambda>fast.
     bindE (descriptive_ema closes (tf_slow_period c)) (\<lambda>slow.
     bindE (descriptive_ema closes (tf_trend_period c)) (\<lambda>trend.
     bindE (rsi closes (tf_rsi_period c)) (\<lambda>strength.
     bindE (descriptive_atr completed (tf_atr_period c)) (\<lambda>spread.
     bindE (technical_bias_of c (last closes) fast slow trend strength spread) (\<lambda>(bias, stop, target, reasons).
     bindE (records_hash (technical_config_record c)) (\<lambda>config_hash.
     bindE (records_hash (bindE (mapE tech_candle_record completed) (\<lambda>rs. Inr (PList rs)))) (\<lambda>data_hash.
     Inr \<lparr> ts_symbol = symbol, ts_interval = interval, ts_as_of = as_of,
           ts_candle_close_time = tc_close_time (last completed), ts_config_version = tf_version c,
           ts_config_hash = config_hash, ts_data_hash = data_hash,
           ts_completed_candles = length completed,
           ts_ignored_incomplete_candles = length cs - length completed, ts_close = last closes,
           ts_ema_fast = fast, ts_ema_slow = slow, ts_ema_trend = trend, ts_rsi = strength,
           ts_atr = spread, ts_bias = bias, ts_stop_price = stop, ts_target_price = target,
           ts_reasons = reasons
             @ (if bias = TB_NOTHING then [''technical_conditions_not_aligned''] @
                  (if deq spread 0 then [''atr_zero''] else []) else []),
           ts_executable = False \<rparr>))))))))))))"

section \<open>What a snapshot guarantees\<close>

lemma wilder_nonneg:
  "wilder period a v = Inr r \<Longrightarrow> 0 < period \<Longrightarrow> 0 \<le> dval a \<Longrightarrow> 0 \<le> dval v \<Longrightarrow> 0 \<le> dval r"
proof -
  assume "wilder period a v = Inr r" and p: "0 < period" and nonneg: "0 \<le> dval a" "0 \<le> dval v"
  then obtain x y where x: "dmul analysis_context a (dec_int (int period - 1)) = Inr x"
    and y: "dadd analysis_context x v = Inr y" and r: "ddiv analysis_context y (dec_int (int period)) = Inr r"
    by (auto simp: wilder_def)
  have "0 \<le> dval x" using analysis_ctx.dmul_nonneg [OF x nonneg(1)] p by simp
  then have "0 \<le> dval y" using analysis_ctx.dadd_nonneg [OF y] nonneg(2) by simp
  then show ?thesis using analysis_ctx.ddiv_nonneg [OF r] p by simp
qed

lemma analysis_sum_nonneg:
  "ctx_sum analysis_context xs = Inr s \<Longrightarrow> list_all (\<lambda>d. 0 \<le> dval d) xs \<Longrightarrow> 0 \<le> dval s"
  unfolding ctx_sum_def list_all_iff
  by (rule foldE_invariant [where P = "\<lambda>d. 0 \<le> dval d" and s = 0]) (auto intro: analysis_ctx.dadd_nonneg)

lemma wilder_average_nonneg:
  assumes "wilder_average period xs = Inr r" "0 < period" "list_all (\<lambda>d. 0 \<le> dval d) xs"
  shows "0 \<le> dval r"
proof -
  from assms(1) obtain s seed where s: "ctx_sum analysis_context (take period xs) = Inr s"
      "ddiv analysis_context s (dec_int (int period)) = Inr seed"
      "foldE (wilder period) seed (drop period xs) = Inr r"
    by (auto simp: wilder_average_def)
  have "0 \<le> dval s"
    using assms(3) by (intro analysis_sum_nonneg [OF s(1)]) (auto simp: list_all_iff dest: in_set_takeD)
  then have "0 \<le> dval seed" using analysis_ctx.ddiv_nonneg [OF s(2)] assms(2) by simp
  with s(3) show ?thesis
    by (rule foldE_invariant [where P = "\<lambda>d. 0 \<le> dval d"])
      (use assms in \<open>auto simp: list_all_iff dest: in_set_dropD intro: wilder_nonneg\<close>)
qed


lemma bounded_representable: "bounded d \<Longrightarrow> representable analysis_context d"
  by (auto simp: representable_def bounded_def bound_defs analysis_context_def etiny_def etop_def adjusted_def)

lemma rsi_between:
  assumes "rsi xs period = Inr r" "0 < period"
  shows "0 \<le> dval r \<and> dval r \<le> 100"
proof -
  from assms(1) obtain cs losses g l where
      l: "mapE loss_of cs = Inr losses" and avg: "wilder_average period (map gain_of cs) = Inr g"
      "wilder_average period losses = Inr l"
    and r: "(if deq g 0 \<and> deq l 0 then Inr (Dec 50 0) else if deq l 0 then Inr (Dec 100 0)
            else if deq g 0 then Inr 0
            else
              bindE (ddiv analysis_context g l) (\<lambda>strength.
              bindE (dadd analysis_context (dec_int 1) strength) (\<lambda>d.
              bindE (ddiv analysis_context (Dec 100 0) d) (\<lambda>q.
              dsub analysis_context (Dec 100 0) q)))) = Inr r"
    unfolding rsi_def Let_def by (auto simp del: not_None_eq)
  have "list_all (\<lambda>d. 0 \<le> dval d) (map gain_of cs)"
    by (simp add: list_all_iff gain_of_def dval_simps)
  then have g: "0 \<le> dval g" using wilder_average_nonneg [OF avg(1) assms(2)] by blast
  have "list_all (\<lambda>d. 0 \<le> dval d) losses"
    using l by (induction cs arbitrary: losses) (auto simp: loss_of_def dval_simps)
  then have loss: "0 \<le> dval l" using wilder_average_nonneg [OF avg(2) assms(2)] by blast
  have reps: "representable analysis_context (dec_int 1)" "representable analysis_context (Dec 100 0)"
    by (simp_all add: bounded_representable decimal_eval)
  show ?thesis
  proof (cases "deq g 0 \<or> deq l 0")
    case True
    have "dval (Dec 50 0) = 50" "dval (Dec 100 0) = 100" by (simp_all add: dval_def)
    with r True show ?thesis by (auto split: if_splits)
  next
    case False
    with r obtain strength d q where q: "ddiv analysis_context g l = Inr strength"
        "dadd analysis_context (dec_int 1) strength = Inr d" "ddiv analysis_context (Dec 100 0) d = Inr q"
        "dsub analysis_context (Dec 100 0) q = Inr r"
      by (auto split: if_splits)
    have lpos: "0 < dval l" using loss False by (simp add: deq_dval)
    have "0 \<le> dval strength" using q(1) g lpos by (rule analysis_ctx.ddiv_nonneg)
    then have d: "1 \<le> dval d" using analysis_ctx.dadd_ge_left [OF q(2) reps(1)] by simp
    have "0 \<le> dval q" using analysis_ctx.ddiv_nonneg [OF q(3)] d by (simp add: dval_def)
    moreover have "dval q \<le> dval (Dec 100 0)"
      using d by (intro analysis_ctx.ddiv_le_bound [OF q(3) _ _ reps(2)]) (simp_all add: dval_def divide_le_eq)
    ultimately show ?thesis
      using analysis_ctx.dsub_nonneg [OF q(4)] analysis_ctx.dsub_le_left [OF q(4) reps(2)]
      by (simp add: dval_def)
  qed
qed

lemma technical_bias_prices:
  assumes "technical_bias_of c close fast slow trend strength spread = Inr (b, stop, target, rs)"
    and "bounded close" "positive (tf_stop_atr_multiple c)" "positive (tf_reward_risk_multiple c)"
  shows "(b = TB_NOTHING \<longleftrightarrow> stop = None) \<and> (stop = None \<longleftrightarrow> target = None)
    \<and> (b = TB_BUY \<longrightarrow> trend < close \<and> slow < fast
        \<and> (\<exists>s t. stop = Some s \<and> target = Some t \<and> 0 < s \<and> s \<le> close \<and> close \<le> t))
    \<and> (b = TB_SELL \<longrightarrow> close < trend \<and> fast < slow
        \<and> (\<exists>s t. stop = Some s \<and> target = Some t \<and> 0 < t \<and> t \<le> close \<and> close \<le> s))"
proof -
  note rep = bounded_representable [OF assms(2)]
  have dist: "0 \<le> dval sd \<and> 0 \<le> dval td"
    if "dmul analysis_context spread (tf_stop_atr_multiple c) = Inr sd"
      "dmul analysis_context sd (tf_reward_risk_multiple c) = Inr td" "0 < spread" for sd td
  proof -
    have "0 \<le> dval sd"
      using that(3) assms(3) by (intro analysis_ctx.dmul_nonneg [OF that(1)]) (auto simp: positive_def dval_simps)
    moreover from this have "0 \<le> dval td"
      using assms(4) by (intro analysis_ctx.dmul_nonneg [OF that(2)]) (auto simp: positive_def dval_simps)
    ultimately show ?thesis ..
  qed
  show ?thesis
    using assms(1) dist analysis_ctx.dsub_le_left [OF _ rep] analysis_ctx.dadd_ge_left [OF _ rep]
    unfolding technical_bias_of_def Let_def
    by (auto simp: dval_simps split: if_splits)
qed

end
