(* ===== verification/Assessment.thy ===== *)
theory Assessment
  imports Analysis
begin

text \<open>
  \<open>assessment.py\<close>: the profitability gate, the assessment policy and the deterministic
  buy/sell/nothing assessment of technical and sentiment evidence.
\<close>

datatype profitability_status = PS_DRAFT | PS_INCONCLUSIVE | PS_REJECTED | PS_QUALIFIED | PS_SUSPENDED | PS_RETIRED

record 'd gate_of =
  pg_gate_id :: string
  pg_asset_id :: string
  pg_thesis_id :: string
  pg_thesis_version :: string
  pg_strategy_version :: string
  pg_artifact_hash :: string
  pg_status :: profitability_status
  pg_issued_at :: instant
  pg_expires_at :: instant
  pg_oos_trades :: int
  pg_shadow_closed_signals :: int
  pg_net_expectancy_r :: 'd
  pg_lower_confidence_bound_r :: 'd

type_synonym profitability_gate = "decimal gate_of"

definition make_gate :: "decimal_input gate_of \<Rightarrow> profitability_gate result" where
  "make_gate g =
     bindE (mapE (bounded_text ValidationError 256)
       [pg_gate_id g, pg_asset_id g, pg_thesis_id g, pg_thesis_version g, pg_strategy_version g]) (\<lambda>_.
     bindE (digest_field ValidationError (pg_artifact_hash g)) (\<lambda>_.
     bindE (require
       [(\<not> pg_expires_at g \<le> pg_issued_at g, ValidationError),
        (0 \<le> pg_oos_trades g, ValidationError), (0 \<le> pg_shadow_closed_signals g, ValidationError)]) (\<lambda>_.
     bindE (exact_decimal (pg_net_expectancy_r g)) (\<lambda>net.
     bindE (exact_decimal (pg_lower_confidence_bound_r g)) (\<lambda>lower.
     Inr \<lparr> pg_gate_id = pg_gate_id g, pg_asset_id = pg_asset_id g, pg_thesis_id = pg_thesis_id g,
           pg_thesis_version = pg_thesis_version g, pg_strategy_version = pg_strategy_version g,
           pg_artifact_hash = pg_artifact_hash g, pg_status = pg_status g, pg_issued_at = pg_issued_at g,
           pg_expires_at = pg_expires_at g, pg_oos_trades = pg_oos_trades g,
           pg_shadow_closed_signals = pg_shadow_closed_signals g, pg_net_expectancy_r = net,
           pg_lower_confidence_bound_r = lower \<rparr>)))))"

definition gate_active :: "profitability_gate \<Rightarrow> instant \<Rightarrow> bool" where
  "gate_active g t =
     (pg_status g = PS_QUALIFIED \<and> pg_issued_at g \<le> t \<and> t < pg_expires_at g
      \<and> 0 < pg_net_expectancy_r g \<and> 0 < pg_lower_confidence_bound_r g)"

record assessment_policy =
  ap_version :: string
  ap_signal_ttl_seconds :: int

definition make_assessment_policy :: "assessment_policy \<Rightarrow> assessment_policy result" where
  "make_assessment_policy p =
     bindE (bounded_text ValidationError 64 (ap_version p)) (\<lambda>_.
     bindE (guard (0 < ap_signal_ttl_seconds p) ValidationError) (\<lambda>_. Inr p))"

datatype assessment_verdict = AV_BUY | AV_SELL | AV_NOTHING | AV_UNAVAILABLE

fun assessment_verdict_value :: "assessment_verdict \<Rightarrow> string" where
  "assessment_verdict_value AV_BUY = ''buy''"
| "assessment_verdict_value AV_SELL = ''sell''"
| "assessment_verdict_value AV_NOTHING = ''nothing''"
| "assessment_verdict_value AV_UNAVAILABLE = ''unavailable''"

record opportunity_assessment =
  oa_assessment_id :: string
  oa_asset_id :: string
  oa_created_at :: instant
  oa_expires_at :: instant
  oa_policy_version :: string
  oa_technical_hash :: string
  oa_sentiment_hash :: string
  oa_profitability_gate_id :: "string option"
  oa_verdict :: assessment_verdict
  oa_reason_codes :: "string list"
  oa_eligible_for_risk_quote :: bool
  oa_eligible_to_trade :: bool
  oa_artifact_hash :: string

definition opportunity_fresh :: "opportunity_assessment \<Rightarrow> instant \<Rightarrow> bool" where
  "opportunity_fresh a t = (oa_created_at a \<le> t \<and> t < oa_expires_at a)"

definition assess ::
    "technical_snapshot \<Rightarrow> sentiment_snapshot \<Rightarrow> instant \<Rightarrow> instant \<Rightarrow> assessment_verdict \<times> string list" where
  "assess k s technical_expiry t =
     (if \<not> (ts_candle_close_time k \<le> t \<and> t < technical_expiry) then (AV_UNAVAILABLE, [''technical_signal_stale''])
      else if \<not> sentiment_fresh s t then (AV_UNAVAILABLE, [''sentiment_stale''])
      else if \<not> sentiment_available s then
        (AV_UNAVAILABLE, if sn_quality_reasons s = [] then [''sentiment_unavailable''] else sn_quality_reasons s)
      else if ts_bias k = TB_NOTHING then (AV_NOTHING, [''technical_conditions_not_aligned''])
      else if ts_bias k = TB_BUY \<and> sn_label s = BEARISH then (AV_NOTHING, [''bearish_sentiment_veto''])
      else if ts_bias k = TB_SELL \<and> sn_label s = BULLISH then (AV_NOTHING, [''bullish_sentiment_veto''])
      else if ts_bias k = TB_BUY then (AV_BUY, [''technical_buy_sentiment_not_bearish''])
      else (AV_SELL, [''technical_sell_sentiment_not_bullish'']))"

definition gate_qualifies :: "profitability_gate option \<Rightarrow> string \<Rightarrow> string \<Rightarrow> instant \<Rightarrow> bool" where
  "gate_qualifies p asset version t =
     (case p of None \<Rightarrow> False
      | Some g \<Rightarrow> pg_asset_id g = asset \<and> pg_strategy_version g = version \<and> gate_active g t)"

definition gate_reasons :: "profitability_gate option \<Rightarrow> string \<Rightarrow> string \<Rightarrow> instant \<Rightarrow> string list" where
  "gate_reasons p asset version t =
     (case p of None \<Rightarrow> [''profitability_gate_missing'']
      | Some g \<Rightarrow>
          if pg_asset_id g \<noteq> asset then [''profitability_asset_mismatch'']
          else if pg_strategy_version g \<noteq> version then [''profitability_strategy_mismatch'']
          else if \<not> gate_active g t then [''profitability_not_qualified''] else [])"

definition build_opportunity_assessment ::
    "string \<Rightarrow> string \<Rightarrow> technical_snapshot \<Rightarrow> sentiment_snapshot \<Rightarrow> profitability_gate option \<Rightarrow> instant \<Rightarrow>
     assessment_policy \<Rightarrow> opportunity_assessment result" where
  "build_opportunity_assessment assessment_id asset k s p t policy =
     bindE (mapE (bounded_text ValidationError 256) [assessment_id, asset]) (\<lambda>_.
     bindE (guard (sn_asset_id s = asset) ValidationError) (\<lambda>_.
     bindE (technical_hash k) (\<lambda>technical.
     (let technical_expiry = ts_candle_close_time k + seconds (ap_signal_ttl_seconds policy);
          expires = min technical_expiry (sn_expires_at s);
          (verdict, first) = assess k s technical_expiry t;
          directional = (verdict = AV_BUY \<or> verdict = AV_SELL);
          eligible = (directional \<and> gate_qualifies p asset (ts_config_version k) t
            \<and> unattended_eligible s \<and> t < expires);
          reasons = first @ gate_reasons p asset (ts_config_version k) t
            @ (if sn_method s = MANUAL_BROWSER then [''manual_sentiment_not_unattended''] else [])
            @ (if directional \<and> \<not> eligible then [''risk_quote_ineligible''] else []);
          gate_id = map_option pg_gate_id p in
     bindE (payload_hash (record_val
        [''assessment_id'', ''asset_id'', ''created_at'', ''expires_at'', ''policy_version'', ''technical_hash'',
         ''sentiment_hash'', ''profitability_gate_id'', ''verdict'', ''reason_codes'',
         ''eligible_for_risk_quote'', ''eligible_to_trade'']
        [PStr assessment_id, PStr asset, PStr (iso_millis t), PStr (iso_millis expires),
         PStr (ap_version policy), PStr technical, PStr (sn_artifact_hash s), opt_val PStr gate_id,
         PStr (assessment_verdict_value verdict), PList (map PStr reasons), PBool eligible, PBool False])) (\<lambda>h.
     Inr \<lparr> oa_assessment_id = assessment_id, oa_asset_id = asset, oa_created_at = t,
           oa_expires_at = expires, oa_policy_version = ap_version policy, oa_technical_hash = technical,
           oa_sentiment_hash = sn_artifact_hash s, oa_profitability_gate_id = gate_id,
           oa_verdict = verdict, oa_reason_codes = reasons, oa_eligible_for_risk_quote = eligible,
           oa_eligible_to_trade = False, oa_artifact_hash = h \<rparr>)))))"

lemma assess_directional:
  "assess k s e t = (v, rs) \<Longrightarrow> v = AV_BUY \<or> v = AV_SELL \<Longrightarrow>
   ts_candle_close_time k \<le> t \<and> t < e \<and> sentiment_fresh s t \<and> sentiment_available s
   \<and> (v = AV_BUY \<longrightarrow> ts_bias k = TB_BUY \<and> sn_label s \<noteq> BEARISH)
   \<and> (v = AV_SELL \<longrightarrow> ts_bias k = TB_SELL \<and> sn_label s \<noteq> BULLISH)"
  by (cases "ts_bias k") (auto simp: assess_def split: if_splits)

lemma build_opportunity_eligible:
  assumes "build_opportunity_assessment i asset k s p t policy = Inr a" "oa_eligible_for_risk_quote a"
  shows "(oa_verdict a = AV_BUY \<or> oa_verdict a = AV_SELL)
    \<and> (oa_verdict a = AV_BUY \<longrightarrow> ts_bias k = TB_BUY \<and> sn_label s \<noteq> BEARISH)
    \<and> (oa_verdict a = AV_SELL \<longrightarrow> ts_bias k = TB_SELL \<and> sn_label s \<noteq> BULLISH)
    \<and> unattended_eligible s \<and> sentiment_fresh s t
    \<and> gate_qualifies p asset (ts_config_version k) t \<and> t < oa_expires_at a
    \<and> technical_hash k = Inr (oa_technical_hash a) \<and> \<not> oa_eligible_to_trade a"
proof -
  let ?e = "ts_candle_close_time k + seconds (ap_signal_ttl_seconds policy)"
  from assms have "oa_verdict a = fst (assess k s ?e t)" "oa_verdict a = AV_BUY \<or> oa_verdict a = AV_SELL"
    "unattended_eligible s" "gate_qualifies p asset (ts_config_version k) t" "t < oa_expires_at a"
    "technical_hash k = Inr (oa_technical_hash a)" "\<not> oa_eligible_to_trade a"
    unfolding build_opportunity_assessment_def Let_def case_prod_beta bindE_Inr_iff
    by (elim exE conjE; auto)+
  then show ?thesis
    using assess_directional [of k s ?e t "oa_verdict a" "snd (assess k s ?e t)"] by simp
qed

end
