(* ===== verification/Planning.thy ===== *)
theory Planning
  imports Registered_Decision Assessment
begin

text \<open>
  \<open>planning.py\<close>: account snapshots, the risk sizing policy, protected plans of three legs, risk
  tickets and how they are quoted. \<open>Decimal\<close> operations outside the module's own context run in
  the host's ambient context, which is an argument of the quote. The lemmas give what a plan
  and a ticket guarantee once constructed, and the bounds a passing ticket keeps.
\<close>

section \<open>Inputs of a quote\<close>

definition planning_context :: dctx where
  "planning_context = \<lparr> prec = 96, rounding = Half_Even, e_min = - 192, e_max = 192 \<rparr>"

interpretation plan_ctx: decimal_context planning_context
  by unfold_locales (simp_all add: planning_context_def etiny_def etop_def)

definition floor_to_step :: "decimal \<Rightarrow> decimal \<Rightarrow> decimal result" where
  "floor_to_step v step =
     bindE (ddiv planning_context v step) (\<lambda>q. dmul planning_context (to_integral_floor q) step)"

definition cloid :: "string \<Rightarrow> string \<Rightarrow> string" where
  "cloid plan_seed leg =
     ''0x'' @ take 32 (sha256_hex (utf8 (''protected-plan-v1:'' @ plan_seed @ '':'' @ leg)))"

record plan_identity =
  pi_thesis_id :: string
  pi_thesis_version :: string
  pi_strategy_version :: string
  pi_venue :: string
  pi_account_id :: string
  pi_environment :: environment
  pi_instrument :: string

definition make_identity :: "plan_identity \<Rightarrow> plan_identity result" where
  "make_identity p =
     bindE (mapE (bounded_text ValidationError 256)
       [pi_thesis_id p, pi_thesis_version p, pi_strategy_version p, pi_venue p, pi_account_id p,
        pi_instrument p]) (\<lambda>_. Inr p)"

record 'd account_snapshot_of =
  ac_account_id :: string
  ac_environment :: environment
  ac_observed_at :: instant
  ac_received_at :: instant
  ac_equity :: 'd
  ac_available_collateral :: 'd
  ac_daily_loss_remaining :: 'd
  ac_open_risk_remaining :: 'd
  ac_max_notional :: 'd
  ac_lot_size :: 'd
  ac_leverage :: 'd
  ac_artifact_hash :: string

type_synonym account_snapshot = "decimal account_snapshot_of"

definition make_account_snapshot :: "decimal_input account_snapshot_of \<Rightarrow> account_snapshot result" where
  "make_account_snapshot a =
     bindE (bounded_text ValidationError 256 (ac_account_id a)) (\<lambda>_.
     bindE (guard (\<not> ac_received_at a < ac_observed_at a) ValidationError) (\<lambda>_.
     bindE (policy_positive (ac_equity a)) (\<lambda>equity.
     bindE (policy_positive (ac_available_collateral a)) (\<lambda>collateral.
     bindE (policy_positive (ac_max_notional a)) (\<lambda>notional.
     bindE (policy_positive (ac_lot_size a)) (\<lambda>lot.
     bindE (policy_positive (ac_leverage a)) (\<lambda>leverage.
     bindE (policy_nonnegative (ac_daily_loss_remaining a)) (\<lambda>daily.
     bindE (policy_nonnegative (ac_open_risk_remaining a)) (\<lambda>open_risk.
     bindE (digest_field ValidationError (ac_artifact_hash a)) (\<lambda>_.
     Inr \<lparr> ac_account_id = ac_account_id a, ac_environment = ac_environment a,
           ac_observed_at = ac_observed_at a, ac_received_at = ac_received_at a,
           ac_equity = equity, ac_available_collateral = collateral, ac_daily_loss_remaining = daily,
           ac_open_risk_remaining = open_risk, ac_max_notional = notional, ac_lot_size = lot,
           ac_leverage = leverage, ac_artifact_hash = ac_artifact_hash a \<rparr>))))))))))"

definition account_fresh :: "'d account_snapshot_of \<Rightarrow> instant \<Rightarrow> int \<Rightarrow> bool" where
  "account_fresh a t maximum_age =
     (ac_observed_at a \<le> ac_received_at a \<and> ac_received_at a \<le> t
      \<and> t - ac_received_at a \<le> seconds maximum_age)"

record 'd sizing_policy_of =
  zp_version :: string
  zp_risk_fraction :: 'd
  zp_minimum_net_reward_risk :: 'd
  zp_entry_slippage_bps :: 'd
  zp_exit_slippage_bps :: 'd
  zp_stop_gap_bps :: 'd
  zp_round_trip_fee_bps :: 'd
  zp_max_leverage :: 'd
  zp_account_max_age_seconds :: int
  zp_ticket_ttl_seconds :: int

type_synonym sizing_policy = "decimal sizing_policy_of"

definition bounded_bps :: "decimal_input \<Rightarrow> decimal result" where
  "bounded_bps v =
     bindE (policy_nonnegative v) (\<lambda>d. bindE (guard (\<not> Dec 2500 0 < d) ValidationError) (\<lambda>_. Inr d))"

definition make_sizing_policy :: "decimal_input sizing_policy_of \<Rightarrow> sizing_policy result" where
  "make_sizing_policy p =
     bindE (bounded_text ValidationError 64 (zp_version p)) (\<lambda>_.
     bindE (policy_positive (zp_risk_fraction p)) (\<lambda>fraction.
     bindE (guard (\<not> Dec 25 (- 4) < fraction) ValidationError) (\<lambda>_.
     bindE (policy_positive (zp_minimum_net_reward_risk p)) (\<lambda>minimum.
     bindE (bounded_bps (zp_entry_slippage_bps p)) (\<lambda>entry.
     bindE (bounded_bps (zp_exit_slippage_bps p)) (\<lambda>exit.
     bindE (bounded_bps (zp_stop_gap_bps p)) (\<lambda>gap.
     bindE (bounded_bps (zp_round_trip_fee_bps p)) (\<lambda>fee.
     bindE (policy_positive (zp_max_leverage p)) (\<lambda>leverage.
     bindE (require
       [(\<not> Dec 2 0 < leverage, ValidationError), (0 < zp_account_max_age_seconds p, ValidationError),
        (0 < zp_ticket_ttl_seconds p, ValidationError)]) (\<lambda>_.
     Inr \<lparr> zp_version = zp_version p, zp_risk_fraction = fraction, zp_minimum_net_reward_risk = minimum,
           zp_entry_slippage_bps = entry, zp_exit_slippage_bps = exit, zp_stop_gap_bps = gap,
           zp_round_trip_fee_bps = fee, zp_max_leverage = leverage,
           zp_account_max_age_seconds = zp_account_max_age_seconds p,
           zp_ticket_ttl_seconds = zp_ticket_ttl_seconds p \<rparr>))))))))))"

definition default_sizing_policy :: sizing_policy where
  "default_sizing_policy =
     \<lparr> zp_version = ''initial-testnet-risk-v1'', zp_risk_fraction = Dec 25 (- 4),
       zp_minimum_net_reward_risk = Dec 2 0, zp_entry_slippage_bps = Dec 20 0,
       zp_exit_slippage_bps = Dec 50 0, zp_stop_gap_bps = Dec 100 0, zp_round_trip_fee_bps = Dec 10 0,
       zp_max_leverage = Dec 2 0, zp_account_max_age_seconds = 5, zp_ticket_ttl_seconds = 60 \<rparr>"

definition sizing_policy_val :: "sizing_policy \<Rightarrow> pyval" where
  "sizing_policy_val p = record_val
     [''version'', ''risk_fraction'', ''minimum_net_reward_risk'', ''entry_slippage_bps'',
      ''exit_slippage_bps'', ''stop_gap_bps'', ''round_trip_fee_bps'', ''max_leverage'',
      ''account_max_age_seconds'', ''ticket_ttl_seconds'']
     [PStr (zp_version p), PDec (zp_risk_fraction p), PDec (zp_minimum_net_reward_risk p),
      PDec (zp_entry_slippage_bps p), PDec (zp_exit_slippage_bps p), PDec (zp_stop_gap_bps p),
      PDec (zp_round_trip_fee_bps p), PDec (zp_max_leverage p), PInt (zp_account_max_age_seconds p),
      PInt (zp_ticket_ttl_seconds p)]"

definition sizing_policy_hash :: "sizing_policy \<Rightarrow> string result" where
  "sizing_policy_hash p = domain_hash ''trading-harness/risk-sizing-policy/v1'' (sizing_policy_val p)"

section \<open>Protected plans\<close>

record protected_plan =
  pp_assessment_hash :: string
  pp_entry :: semantic_intent
  pp_stop :: semantic_intent
  pp_target :: semantic_intent
  pp_plan_hash :: string

definition plan_payload :: "protected_plan \<Rightarrow> pyval" where
  "plan_payload p = record_val
     [''domain'', ''assessment_hash'', ''grouping'', ''legs'']
     [PStr ''protected-trade-plan-v1'', PStr (pp_assessment_hash p), PStr ''normalTpsl'',
      PList [intent_val (pp_entry p), intent_val (pp_stop p), intent_val (pp_target p)]]"

definition shared_fields :: "semantic_intent \<Rightarrow> string list \<times> environment" where
  "shared_fields i =
     ([si_thesis_id i, si_thesis_version i, si_strategy_version i, si_code_hash i, si_venue i,
       si_account_id i, si_instrument i], si_environment i)"

text \<open>\<open>0x\<close> and 32 lower-case hexadecimal digits.\<close>

definition cloid_shaped :: "string \<Rightarrow> bool" where
  "cloid_shaped s = (length s = 34 \<and> take 2 s = ''0x'' \<and> list_all is_lower_hex (drop 2 s))"

definition legs_agree :: "protected_plan \<Rightarrow> bool" where
  "legs_agree p =
     (shared_fields (pp_stop p) = shared_fields (pp_entry p)
      \<and> shared_fields (pp_target p) = shared_fields (pp_entry p))"

definition leg_roles :: "protected_plan \<Rightarrow> bool" where
  "leg_roles p =
     (let entry = pp_entry p; stop = pp_stop p; target = pp_target p in
      \<not> si_reduce_only entry \<and> si_order_type entry = MARKET
      \<and> si_order_type stop = STOP \<and> si_order_type target = STOP
      \<and> si_action entry = ''place_order'' \<and> si_action stop = ''place_stop''
      \<and> si_action target = ''place_take_profit''
      \<and> si_side stop \<noteq> si_side entry \<and> si_side target \<noteq> si_side entry
      \<and> si_reduce_only stop \<and> si_reduce_only target
      \<and> deq (si_quantity stop) (si_quantity entry) \<and> deq (si_quantity target) (si_quantity entry))"

text \<open>Trigger and bound of each leg, ordered along the side of the entry.\<close>

definition leg_prices :: "protected_plan \<Rightarrow> bool" where
  "leg_prices p =
     (case (si_stop_price (pp_stop p), si_stop_price (pp_target p), si_price_bound (pp_stop p),
            si_protection_limit_price (pp_stop p), si_price_bound (pp_target p), si_price_bound (pp_entry p)) of
        (Some stop, Some target, Some stop_bound, Some protection, Some target_bound, Some entry) \<Rightarrow>
          if si_side (pp_entry p) = BUY
          then stop < entry \<and> entry < target \<and> stop_bound \<le> stop \<and> entry < target_bound
          else target < entry \<and> entry < stop \<and> stop \<le> stop_bound \<and> target_bound < entry
      | _ \<Rightarrow> False)"

definition leg_ids :: "protected_plan \<Rightarrow> string list" where
  "leg_ids p = map si_client_order_id [pp_entry p, pp_stop p, pp_target p]"

definition make_plan :: "protected_plan \<Rightarrow> protected_plan result" where
  "make_plan p =
     bindE (digest_field ValidationError (pp_assessment_hash p)) (\<lambda>_.
     bindE (require
       [(legs_agree p, ValidationError), (leg_roles p, ValidationError), (leg_prices p, ValidationError),
        (distinct (leg_ids p), ValidationError), (list_all cloid_shaped (leg_ids p), ValidationError)]) (\<lambda>_.
     bindE (payload_hash (plan_payload p)) (\<lambda>expected.
     bindE (guard (pp_plan_hash p = expected) ValidationError) (\<lambda>_. Inr p))))"

section \<open>Risk tickets\<close>

datatype ticket_status = RT_DENIED | RT_AWAITING_APPROVAL

fun ticket_status_value :: "ticket_status \<Rightarrow> string" where
  "ticket_status_value RT_DENIED = ''denied''"
| "ticket_status_value RT_AWAITING_APPROVAL = ''awaiting_approval''"

record 'd risk_ticket_of =
  tk_ticket_id :: string
  tk_assessment_hash :: string
  tk_account_snapshot_hash :: string
  tk_policy_version :: string
  tk_policy_hash :: string
  tk_created_at :: instant
  tk_expires_at :: instant
  tk_status :: ticket_status
  tk_reason_codes :: "string list"
  tk_risk_budget :: 'd
  tk_quantity :: 'd
  tk_expected_loss :: 'd
  tk_stressed_loss :: 'd
  tk_expected_reward :: 'd
  tk_net_reward_risk :: "'d option"
  tk_catastrophic_loss_bound :: 'd
  tk_plan :: "protected_plan option"
  tk_ticket_hash :: string

type_synonym risk_ticket = "decimal risk_ticket_of"

definition ticket_payload :: "risk_ticket \<Rightarrow> pyval result" where
  "ticket_payload t =
     bindE (mapE canonical_decimal
       [tk_risk_budget t, tk_quantity t, tk_expected_loss t, tk_stressed_loss t, tk_expected_reward t]) (\<lambda>ds.
     bindE (case tk_net_reward_risk t of None \<Rightarrow> Inr PNone
            | Some d \<Rightarrow> bindE (canonical_decimal d) (\<lambda>s. Inr (PStr s))) (\<lambda>net.
     bindE (canonical_decimal (tk_catastrophic_loss_bound t)) (\<lambda>bound.
     Inr (record_val
       [''domain'', ''ticket_id'', ''assessment_hash'', ''account_snapshot_hash'', ''policy_version'',
        ''policy_hash'', ''created_at'', ''expires_at'', ''status'', ''reason_codes'', ''risk_budget'',
        ''quantity'', ''expected_loss'', ''stressed_loss'', ''expected_reward'', ''net_reward_risk'',
        ''catastrophic_loss_bound'', ''plan_hash'']
       ([PStr ''risk-ticket-v1'', PStr (tk_ticket_id t), PStr (tk_assessment_hash t),
         PStr (tk_account_snapshot_hash t), PStr (tk_policy_version t), PStr (tk_policy_hash t),
         PStr (iso_millis (tk_created_at t)), PStr (iso_millis (tk_expires_at t)),
         PStr (ticket_status_value (tk_status t)), PList (map PStr (tk_reason_codes t))]
        @ map PStr ds @ [net, PStr bound, opt_val PStr (map_option pp_plan_hash (tk_plan t))])))))"

definition optional_nonnegative :: "decimal_input option \<Rightarrow> decimal option result" where
  "optional_nonnegative v =
     (case v of None \<Rightarrow> Inr None | Some x \<Rightarrow> bindE (policy_nonnegative x) (\<lambda>d. Inr (Some d)))"

definition make_ticket :: "decimal_input risk_ticket_of \<Rightarrow> risk_ticket result" where
  "make_ticket t =
     bindE (bounded_text ValidationError 256 (tk_ticket_id t)) (\<lambda>_.
     bindE (mapE (digest_field ValidationError) [tk_assessment_hash t, tk_account_snapshot_hash t]) (\<lambda>_.
     bindE (bounded_text ValidationError 256 (tk_policy_version t)) (\<lambda>_.
     bindE (digest_field ValidationError (tk_policy_hash t)) (\<lambda>_.
     bindE (require
       [(\<not> tk_expires_at t \<le> tk_created_at t, ValidationError),
        (tk_reason_codes t \<noteq> [] \<and> list_all trimmed (tk_reason_codes t), ValidationError)]) (\<lambda>_.
     bindE (policy_nonnegative (tk_risk_budget t)) (\<lambda>budget.
     bindE (policy_nonnegative (tk_quantity t)) (\<lambda>quantity.
     bindE (policy_nonnegative (tk_expected_loss t)) (\<lambda>loss.
     bindE (policy_nonnegative (tk_stressed_loss t)) (\<lambda>stressed.
     bindE (policy_nonnegative (tk_expected_reward t)) (\<lambda>reward.
     bindE (policy_nonnegative (tk_catastrophic_loss_bound t)) (\<lambda>catastrophic.
     bindE (optional_nonnegative (tk_net_reward_risk t)) (\<lambda>net.
     bindE (case tk_status t of
        RT_DENIED \<Rightarrow> guard (tk_plan t = None \<and> deq quantity 0) ValidationError
      | RT_AWAITING_APPROVAL \<Rightarrow> require
          [(tk_plan t \<noteq> None, ValidationError), (\<not> (quantity \<le> 0 \<or> stressed \<le> 0), ValidationError),
           (net \<noteq> None, ValidationError)]) (\<lambda>_.
     (let r = \<lparr> tk_ticket_id = tk_ticket_id t, tk_assessment_hash = tk_assessment_hash t,
                tk_account_snapshot_hash = tk_account_snapshot_hash t,
                tk_policy_version = tk_policy_version t, tk_policy_hash = tk_policy_hash t,
                tk_created_at = tk_created_at t, tk_expires_at = tk_expires_at t,
                tk_status = tk_status t, tk_reason_codes = tk_reason_codes t, tk_risk_budget = budget,
                tk_quantity = quantity, tk_expected_loss = loss, tk_stressed_loss = stressed,
                tk_expected_reward = reward, tk_net_reward_risk = net,
                tk_catastrophic_loss_bound = catastrophic, tk_plan = tk_plan t, tk_ticket_hash = '''' \<rparr> in
     bindE (ticket_payload r) (\<lambda>payload.
     bindE (payload_hash payload) (\<lambda>expected.
     bindE (if tk_ticket_hash t = [] then Inr expected
            else bindE (digest_field ValidationError (tk_ticket_hash t)) (\<lambda>supplied.
                 bindE (guard (supplied = expected) ValidationError) (\<lambda>_. Inr expected))) (\<lambda>h.
     Inr (r\<lparr>tk_ticket_hash := h\<rparr>))))))))))))))))))"


section \<open>The evidence of a quote\<close>

text \<open>
  The two supported assessments, each with the second argument its branch requires; the
  constructor is the \<open>isinstance\<close> test.
\<close>

datatype quote_evidence =
    Legacy opportunity_assessment technical_snapshot
  | Registered registered_assessment registered_strategy

record quote_basis =
  qb_registered :: bool
  qb_directional :: bool
  qb_side :: side
  qb_entry :: "decimal option"
  qb_stop :: "decimal option"
  qb_target :: "decimal option"
  qb_strategy_version :: string
  qb_code_hash :: string
  qb_signal_hash :: "string option"
  qb_reasons :: "string list"
  qb_eligible :: bool
  qb_created_at :: instant
  qb_expires_at :: instant
  qb_artifact_hash :: string

definition in_scope :: "string \<Rightarrow> string \<Rightarrow> bool" where
  "in_scope instrument asset = (instrument = asset \<or> instrument = asset @ ''-PERP'')"

definition basis_of :: "quote_evidence \<Rightarrow> plan_identity \<Rightarrow> quote_basis result" where
  "basis_of e identity =
     (case e of
        Legacy a k \<Rightarrow>
          bindE (technical_hash k) (\<lambda>h.
          Inr \<lparr> qb_registered = False, qb_directional = (oa_verdict a = AV_BUY \<or> oa_verdict a = AV_SELL),
                qb_side = (if oa_verdict a = AV_BUY then BUY else SELL), qb_entry = Some (ts_close k),
                qb_stop = ts_stop_price k, qb_target = ts_target_price k,
                qb_strategy_version = ts_config_version k, qb_code_hash = ts_config_hash k,
                qb_signal_hash = None,
                qb_reasons = (if oa_technical_hash a \<noteq> h then [''technical_artifact_mismatch''] else []),
                qb_eligible = oa_eligible_for_risk_quote a, qb_created_at = oa_created_at a,
                qb_expires_at = oa_expires_at a, qb_artifact_hash = oa_artifact_hash a \<rparr>)
      | Registered a s \<Rightarrow>
          bindE (registration_hash s) (\<lambda>h.
          Inr \<lparr> qb_registered = True, qb_directional = directional_verdict (ra_verdict a),
                qb_side = (if ra_verdict a = RV_BUY then BUY else SELL),
                qb_entry = ra_reference_price a, qb_stop = ra_stop_price a, qb_target = ra_target_price a,
                qb_strategy_version = rs_strategy_version s, qb_code_hash = h,
                qb_signal_hash = Some (ra_signal_hash a),
                qb_reasons =
                  (if ra_strategy_hash a \<noteq> h then [''registered_strategy_hash_mismatch''] else [])
                  @ (if \<not> in_scope (pi_instrument identity) (ra_instrument a)
                     then [''registered_asset_scope_mismatch''] else []),
                qb_eligible = ra_eligible_for_risk_quote a, qb_created_at = ra_created_at a,
                qb_expires_at = ra_expires_at a, qb_artifact_hash = ra_artifact_hash a \<rparr>))"

definition learning_eligible :: "bool \<Rightarrow> quote_basis \<Rightarrow> plan_identity \<Rightarrow> bool" where
  "learning_eligible learning b identity =
     (learning \<and> qb_registered b \<and> qb_directional b \<and> pi_environment identity = TESTNET)"

text \<open>Why a quote is denied before any arithmetic, in the order the code checks.\<close>

definition denial_reasons ::
    "quote_basis \<Rightarrow> plan_identity \<Rightarrow> account_snapshot \<Rightarrow> instant \<Rightarrow> sizing_policy \<Rightarrow> bool \<Rightarrow> string list" where
  "denial_reasons b identity account t policy learning =
     qb_reasons b @ concat
      [if \<not> qb_directional b then [''assessment_not_directional''] else [],
       if \<not> qb_eligible b \<and> \<not> learning_eligible learning b identity then [''assessment_not_risk_eligible''] else [],
       if \<not> (qb_created_at b \<le> t \<and> t < qb_expires_at b) then [''assessment_stale''] else [],
       if pi_account_id identity \<noteq> ac_account_id account \<or> pi_environment identity \<noteq> ac_environment account
         then [''account_scope_mismatch''] else [],
       if pi_strategy_version identity \<noteq> qb_strategy_version b then [''strategy_version_mismatch''] else [],
       if \<not> account_fresh account t (zp_account_max_age_seconds policy) then [''account_snapshot_stale''] else [],
       if zp_max_leverage policy < ac_leverage account then [''leverage_limit''] else [],
       if qb_entry b = None \<or> qb_stop b = None \<or> qb_target b = None
         then [''mandatory_stop_or_target_missing''] else [],
       if pi_environment identity = MAINNET \<and> Dec 1 (- 3) < zp_risk_fraction policy
         then [''mainnet_canary_risk_fraction_exceeded''] else []]"

definition denied_ticket ::
    "string \<Rightarrow> quote_basis \<Rightarrow> account_snapshot \<Rightarrow> sizing_policy \<Rightarrow> instant \<Rightarrow> string list \<Rightarrow> risk_ticket result" where
  "denied_ticket ticket_id b account policy t reasons =
     bindE (sizing_policy_hash policy) (\<lambda>h.
     make_ticket
       \<lparr> tk_ticket_id = ticket_id, tk_assessment_hash = qb_artifact_hash b,
         tk_account_snapshot_hash = ac_artifact_hash account, tk_policy_version = zp_version policy,
         tk_policy_hash = h, tk_created_at = t, tk_expires_at = t + seconds (zp_ticket_ttl_seconds policy),
         tk_status = RT_DENIED, tk_reason_codes = reasons, tk_risk_budget = In_Decimal 0,
         tk_quantity = In_Decimal 0, tk_expected_loss = In_Decimal 0, tk_stressed_loss = In_Decimal 0,
         tk_expected_reward = In_Decimal 0, tk_net_reward_risk = None,
         tk_catastrophic_loss_bound = In_Decimal (ac_equity account), tk_plan = None,
         tk_ticket_hash = '''' \<rparr>)"

section \<open>Sizing\<close>

record sizing =
  sz_worst_entry :: decimal
  sz_stressed_stop :: decimal
  sz_worst_target :: decimal
  sz_risk_budget :: decimal
  sz_quantity :: decimal
  sz_stressed_loss :: decimal
  sz_expected_loss :: decimal
  sz_expected_reward :: decimal
  sz_net_rr :: "decimal option"
  sz_reasons :: "string list"

definition bps_fraction :: "decimal \<Rightarrow> decimal result" where
  "bps_fraction d = ddiv planning_context d (dec_int 10000)"

text \<open>\<open>price * (1 + fraction)\<close> or \<open>price * (1 - fraction)\<close>.\<close>

definition scaled :: "bool \<Rightarrow> decimal \<Rightarrow> decimal \<Rightarrow> decimal result" where
  "scaled up price fraction =
     bindE (if up then dadd planning_context (dec_int 1) fraction
            else dsub planning_context (dec_int 1) fraction) (dmul planning_context price)"

definition distance :: "decimal \<Rightarrow> decimal \<Rightarrow> decimal result" where
  "distance a b = bindE (dsub planning_context a b) (dabs planning_context)"

definition worst_prices ::
    "side \<Rightarrow> decimal \<Rightarrow> decimal \<Rightarrow> decimal \<Rightarrow> sizing_policy \<Rightarrow> (decimal \<times> decimal \<times> decimal) result" where
  "worst_prices side entry stop target policy =
     bindE (bps_fraction (zp_entry_slippage_bps policy)) (\<lambda>entry_slippage.
     bindE (bindE (dadd planning_context (zp_exit_slippage_bps policy) (zp_stop_gap_bps policy)) bps_fraction) (\<lambda>exit_stress.
     bindE (bps_fraction (zp_exit_slippage_bps policy)) (\<lambda>target_slippage.
     bindE (scaled (side = BUY) entry entry_slippage) (\<lambda>worst_entry.
     bindE (scaled (side = SELL) stop exit_stress) (\<lambda>stressed_stop.
     bindE (scaled (side = SELL) target target_slippage) (\<lambda>worst_target.
     Inr (worst_entry, stressed_stop, worst_target)))))))"

text \<open>Loss and reward of one unit, fees on both sides included.\<close>

definition unit_economics ::
    "decimal \<Rightarrow> decimal \<Rightarrow> decimal \<Rightarrow> decimal \<Rightarrow> sizing_policy \<Rightarrow> (decimal \<times> decimal) result" where
  "unit_economics entry worst_entry stressed_stop worst_target policy =
     bindE (bindE (bps_fraction (zp_round_trip_fee_bps policy)) (dmul planning_context entry)) (\<lambda>fee.
     bindE (bindE (distance worst_entry stressed_stop) (\<lambda>d. dadd planning_context d fee)) (\<lambda>loss.
     bindE (bindE (distance worst_target worst_entry) (\<lambda>d. dsub planning_context d fee)) (\<lambda>reward.
     Inr (loss, reward))))"

definition sizing_reasons ::
    "bool \<Rightarrow> decimal \<Rightarrow> decimal \<Rightarrow> decimal option \<Rightarrow> decimal \<Rightarrow> decimal \<Rightarrow> decimal \<Rightarrow> string list" where
  "sizing_reasons uneconomic worst_entry quantity net_rr minimum budget stressed_loss =
     concat
      [if uneconomic then [''non_positive_trade_economics''] else [],
       if worst_entry \<le> 0 then [''invalid_entry_bound''] else [],
       if quantity \<le> 0 then [''quantity_below_lot''] else [],
       if pred_option (\<lambda>r. r < minimum) net_rr then [''net_reward_risk_below_minimum''] else [],
       if budget < stressed_loss then [''risk_budget_exceeded''] else []]"

definition size_position ::
    "side \<Rightarrow> decimal \<Rightarrow> decimal \<Rightarrow> decimal \<Rightarrow> account_snapshot \<Rightarrow> sizing_policy \<Rightarrow> sizing result" where
  "size_position side entry stop target account policy =
     bindE (worst_prices side entry stop target policy) (\<lambda>(worst_entry, stressed_stop, worst_target).
     bindE (unit_economics entry worst_entry stressed_stop worst_target policy) (\<lambda>(loss, reward).
     bindE (dmul planning_context (ac_equity account) (zp_risk_fraction policy)) (\<lambda>fraction.
     (let budget = dmin (dmin fraction (ac_daily_loss_remaining account)) (ac_open_risk_remaining account);
          uneconomic = (loss \<le> 0 \<or> reward \<le> 0 \<or> budget \<le> 0) in
     bindE (if uneconomic then Inr 0 else ddiv planning_context budget loss) (\<lambda>raw.
     bindE (dmul planning_context (ac_available_collateral account) (ac_leverage account)) (\<lambda>buying_power.
     bindE (if worst_entry \<le> 0 then Inr 0
            else ddiv planning_context (dmin (ac_max_notional account) buying_power) worst_entry) (\<lambda>by_notional.
     bindE (floor_to_step (dmin raw by_notional) (ac_lot_size account)) (\<lambda>quantity.
     bindE (dmul planning_context quantity loss) (\<lambda>stressed_loss.
     bindE (bindE (distance entry stop) (dmul planning_context quantity)) (\<lambda>expected_loss.
     bindE (dmul planning_context quantity reward) (\<lambda>expected_reward.
     bindE (if stressed_loss \<le> 0 then Inr None
            else bindE (ddiv planning_context expected_reward stressed_loss) (\<lambda>r. Inr (Some r))) (\<lambda>net_rr.
     Inr \<lparr> sz_worst_entry = worst_entry, sz_stressed_stop = stressed_stop, sz_worst_target = worst_target,
           sz_risk_budget = budget, sz_quantity = quantity, sz_stressed_loss = stressed_loss,
           sz_expected_loss = expected_loss, sz_expected_reward = expected_reward, sz_net_rr = net_rr,
           sz_reasons = sizing_reasons uneconomic worst_entry quantity net_rr
             (zp_minimum_net_reward_risk policy) budget stressed_loss \<rparr>))))))))))))"


section \<open>The plan and the ticket\<close>

definition default_runtime_fields :: "string list" where
  "default_runtime_fields = [''nonce'', ''signature'', ''signing_timestamp'']"

text \<open>The arguments the three legs share, as an entry order without its own fields.\<close>

definition leg_template ::
    "plan_identity \<Rightarrow> quote_basis \<Rightarrow> account_snapshot \<Rightarrow> sizing_policy \<Rightarrow> decimal \<Rightarrow> instant \<Rightarrow> decimal_input intent" where
  "leg_template identity b account policy quantity expires =
     \<lparr> si_intent_id = '''', si_thesis_id = pi_thesis_id identity,
       si_thesis_version = pi_thesis_version identity, si_strategy_version = pi_strategy_version identity,
       si_code_hash = qb_code_hash b, si_venue = pi_venue identity, si_account_id = pi_account_id identity,
       si_environment = pi_environment identity, si_instrument = pi_instrument identity,
       si_action = '''', si_side = qb_side b, si_quantity = In_Decimal quantity, si_order_type = MARKET,
       si_expires_at = expires, si_client_order_id = '''', si_limit_price = None, si_price_bound = None,
       si_stop_price = None, si_protection_limit_price = None, si_reduce_only = False,
       si_leverage = Some (In_Decimal (ac_leverage account)), si_max_slippage_bps = In_Int 0,
       si_fee_bps = In_Decimal (zp_round_trip_fee_bps policy), si_time_in_force = None,
       si_signal_instance_hash = qb_signal_hash b, si_allowed_runtime_fields = default_runtime_fields,
       si_schema_version = 1 \<rparr>"

definition opposite :: "side \<Rightarrow> side" where
  "opposite s = (if s = BUY then SELL else BUY)"

definition entry_leg :: "decimal_input intent \<Rightarrow> string \<Rightarrow> string \<Rightarrow> sizing \<Rightarrow> decimal \<Rightarrow> sizing_policy \<Rightarrow> decimal_input intent" where
  "entry_leg base ticket_id seed z stop policy =
     base\<lparr> si_intent_id := ticket_id @ ''-entry'', si_action := ''place_order'',
           si_client_order_id := cloid seed ''entry'',
           si_price_bound := Some (In_Decimal (sz_worst_entry z)), si_stop_price := Some (In_Decimal stop),
           si_protection_limit_price := Some (In_Decimal (sz_stressed_stop z)),
           si_max_slippage_bps := In_Decimal (zp_entry_slippage_bps policy),
           si_time_in_force := Some ''Ioc'' \<rparr>"

definition stop_leg :: "decimal_input intent \<Rightarrow> string \<Rightarrow> string \<Rightarrow> sizing \<Rightarrow> decimal \<Rightarrow> decimal \<Rightarrow> decimal_input intent" where
  "stop_leg base ticket_id seed z stop slippage =
     base\<lparr> si_intent_id := ticket_id @ ''-stop'', si_action := ''place_stop'',
           si_side := opposite (si_side base), si_order_type := STOP,
           si_client_order_id := cloid seed ''stop'',
           si_price_bound := Some (In_Decimal (sz_stressed_stop z)), si_stop_price := Some (In_Decimal stop),
           si_protection_limit_price := Some (In_Decimal (sz_stressed_stop z)),
           si_reduce_only := True, si_max_slippage_bps := In_Decimal slippage \<rparr>"

definition target_leg :: "decimal_input intent \<Rightarrow> string \<Rightarrow> string \<Rightarrow> sizing \<Rightarrow> decimal \<Rightarrow> sizing_policy \<Rightarrow> decimal_input intent" where
  "target_leg base ticket_id seed z target policy =
     base\<lparr> si_intent_id := ticket_id @ ''-take-profit'', si_action := ''place_take_profit'',
           si_side := opposite (si_side base), si_order_type := STOP,
           si_client_order_id := cloid seed ''target'',
           si_price_bound := Some (In_Decimal (sz_worst_target z)), si_stop_price := Some (In_Decimal target),
           si_reduce_only := True, si_max_slippage_bps := In_Decimal (zp_exit_slippage_bps policy) \<rparr>"

text \<open>The stop's slippage is added in the ambient context \<open>amb\<close>, outside the module's own.\<close>

definition build_plan ::
    "dctx \<Rightarrow> string \<Rightarrow> quote_basis \<Rightarrow> plan_identity \<Rightarrow> account_snapshot \<Rightarrow> sizing_policy \<Rightarrow> instant \<Rightarrow>
     decimal \<Rightarrow> decimal \<Rightarrow> sizing \<Rightarrow> protected_plan result" where
  "build_plan amb ticket_id b identity account policy expires stop target z =
     (let seed = qb_artifact_hash b @ '':'' @ ac_artifact_hash account @ '':'' @ ticket_id;
          base = leg_template identity b account policy (sz_quantity z) expires in
     bindE (make_intent (entry_leg base ticket_id seed z stop policy)) (\<lambda>entry.
     bindE (dadd amb (zp_exit_slippage_bps policy) (zp_stop_gap_bps policy)) (\<lambda>slippage.
     bindE (make_intent (stop_leg base ticket_id seed z stop slippage)) (\<lambda>protective.
     bindE (make_intent (target_leg base ticket_id seed z target policy)) (\<lambda>profit.
     (let draft = \<lparr> pp_assessment_hash = qb_artifact_hash b, pp_entry = entry, pp_stop = protective,
                pp_target = profit, pp_plan_hash = '''' \<rparr> in
     bindE (payload_hash (plan_payload draft)) (\<lambda>h. make_plan (draft\<lparr>pp_plan_hash := h\<rparr>))))))))"

definition passing_ticket ::
    "string \<Rightarrow> quote_basis \<Rightarrow> account_snapshot \<Rightarrow> sizing_policy \<Rightarrow> instant \<Rightarrow> instant \<Rightarrow> sizing \<Rightarrow>
     protected_plan \<Rightarrow> risk_ticket result" where
  "passing_ticket ticket_id b account policy t expires z plan =
     bindE (sizing_policy_hash policy) (\<lambda>h.
     make_ticket
       \<lparr> tk_ticket_id = ticket_id, tk_assessment_hash = qb_artifact_hash b,
         tk_account_snapshot_hash = ac_artifact_hash account, tk_policy_version = zp_version policy,
         tk_policy_hash = h, tk_created_at = t, tk_expires_at = expires,
         tk_status = RT_AWAITING_APPROVAL,
         tk_reason_codes = [''risk_checks_passed'', ''trusted_approval_required''],
         tk_risk_budget = In_Decimal (sz_risk_budget z), tk_quantity = In_Decimal (sz_quantity z),
         tk_expected_loss = In_Decimal (sz_expected_loss z),
         tk_stressed_loss = In_Decimal (sz_stressed_loss z),
         tk_expected_reward = In_Decimal (sz_expected_reward z),
         tk_net_reward_risk = map_option In_Decimal (sz_net_rr z),
         tk_catastrophic_loss_bound = In_Decimal (ac_equity account), tk_plan = Some plan,
         tk_ticket_hash = '''' \<rparr>)"

definition quote_risk_ticket ::
    "dctx \<Rightarrow> string \<Rightarrow> quote_evidence \<Rightarrow> plan_identity \<Rightarrow> account_snapshot \<Rightarrow> instant \<Rightarrow> sizing_policy \<Rightarrow>
     bool \<Rightarrow> risk_ticket result" where
  "quote_risk_ticket amb ticket_id evidence identity account t policy learning =
     bindE (bounded_text ValidationError 256 ticket_id) (\<lambda>_.
     bindE (basis_of evidence identity) (\<lambda>b.
     (let reasons = denial_reasons b identity account t policy learning in
      if reasons \<noteq> [] then denied_ticket ticket_id b account policy t reasons
      else
        (case (qb_entry b, qb_stop b, qb_target b) of
           (Some entry, Some stop, Some target) \<Rightarrow>
             bindE (size_position (qb_side b) entry stop target account policy) (\<lambda>z.
             if sz_reasons z \<noteq> []
             then denied_ticket ticket_id b account policy t (sort (remdups (sz_reasons z)))
             else
               (let expires = min (qb_expires_at b) (t + seconds (zp_ticket_ttl_seconds policy)) in
               bindE (build_plan amb ticket_id b identity account policy expires stop target z)
                 (passing_ticket ticket_id b account policy t expires z)))
         | _ \<Rightarrow> Inl AssertionError))))"

text \<open>
  The attributes of \<open>SignedInfrastructureGrant\<close> and \<open>TrustedInfrastructureGrant\<close> a learning quote
  reads; both check their time window alike.
\<close>

record learning_grant =
  lg_account_id :: string
  lg_environment :: environment
  lg_allowed_instruments :: "string list"
  lg_risk_policy_hash :: string
  lg_max_loss :: decimal
  lg_max_notional :: decimal
  lg_max_leverage :: decimal
  lg_not_before :: instant
  lg_expires_at :: instant

definition learning_grant_active :: "learning_grant \<Rightarrow> instant \<Rightarrow> bool" where
  "learning_grant_active g t = (lg_not_before g \<le> t \<and> t < lg_expires_at g)"

definition quote_infrastructure_learning_ticket ::
    "dctx \<Rightarrow> string \<Rightarrow> registered_assessment \<Rightarrow> plan_identity \<Rightarrow> account_snapshot \<Rightarrow> learning_grant \<Rightarrow>
     instant \<Rightarrow> sizing_policy \<Rightarrow> registered_strategy \<Rightarrow> risk_ticket result" where
  "quote_infrastructure_learning_ticket amb ticket_id a identity account g t policy strategy =
     bindE (sizing_policy_hash policy) (\<lambda>policy_hash.
     bindE (guard
       (pi_environment identity = TESTNET \<and> ac_environment account = TESTNET \<and> lg_environment g = TESTNET
        \<and> lg_account_id g = pi_account_id identity \<and> lg_account_id g = ac_account_id account
        \<and> pi_instrument identity \<in> set (lg_allowed_instruments g)
        \<and> in_scope (pi_instrument identity) (ra_instrument a)
        \<and> policy_hash = lg_risk_policy_hash g \<and> learning_grant_active g t) ValidationError) (\<lambda>_.
     bindE (quote_risk_ticket amb ticket_id (Registered a strategy) identity account t policy True) (\<lambda>ticket.
     (case (tk_status ticket, tk_plan ticket) of
        (RT_AWAITING_APPROVAL, None) \<Rightarrow> Inl AssertionError
      | (RT_AWAITING_APPROVAL, Some plan) \<Rightarrow>
          bindE (of_option AssertionError (si_price_bound (pp_entry plan))) (\<lambda>price.
          bindE (dmul amb (si_quantity (pp_entry plan)) price) (\<lambda>notional.
          bindE (guard (\<not> (lg_max_loss g < tk_stressed_loss ticket \<or> lg_max_notional g < notional
               \<or> \<not> pred_option (\<lambda>l. \<not> lg_max_leverage g < l) (si_leverage (pp_entry plan))
               \<or> si_leverage (pp_entry plan) = None)) ValidationError) (\<lambda>_.
          Inr ticket)))
      | _ \<Rightarrow> Inr ticket))))"


section \<open>What plans and tickets guarantee\<close>

definition plan_ok :: "protected_plan \<Rightarrow> bool" where
  "plan_ok p =
     (legs_agree p \<and> leg_roles p \<and> leg_prices p \<and> distinct (leg_ids p) \<and> list_all cloid_shaped (leg_ids p)
      \<and> payload_hash (plan_payload p) = Inr (pp_plan_hash p))"

lemma make_plan_Inr_iff: "make_plan p = Inr q \<longleftrightarrow> sha256_shaped (pp_assessment_hash p) \<and> plan_ok p \<and> q = p"
  by (auto simp: make_plan_def plan_ok_def)

definition ticket_ok :: "risk_ticket \<Rightarrow> bool" where
  "ticket_ok t =
     (tk_created_at t < tk_expires_at t \<and> tk_reason_codes t \<noteq> []
      \<and> list_all nonnegative [tk_risk_budget t, tk_quantity t, tk_expected_loss t, tk_stressed_loss t,
          tk_expected_reward t, tk_catastrophic_loss_bound t]
      \<and> pred_option nonnegative (tk_net_reward_risk t)
      \<and> (case tk_status t of
           RT_DENIED \<Rightarrow> tk_plan t = None \<and> deq (tk_quantity t) 0
         | RT_AWAITING_APPROVAL \<Rightarrow> tk_plan t \<noteq> None \<and> 0 < tk_quantity t \<and> 0 < tk_stressed_loss t
             \<and> tk_net_reward_risk t \<noteq> None)
      \<and> bindE (ticket_payload t) payload_hash = Inr (tk_ticket_hash t))"

lemma policy_positive_In_Decimal [simp]: "policy_positive (In_Decimal d) = Inr r \<longleftrightarrow> positive d \<and> r = d"
  by (auto simp: policy_positive_def positive_def not_le_decimal split: if_splits)

lemma policy_nonnegative_In_Decimal [simp]: "policy_nonnegative (In_Decimal d) = Inr r \<longleftrightarrow> nonnegative d \<and> r = d"
  by (auto simp: policy_nonnegative_def nonnegative_def not_less_decimal split: if_splits)

lemma optional_nonnegative_ok: "optional_nonnegative v = Inr r \<Longrightarrow> pred_option nonnegative r"
  by (cases v) (auto simp: optional_nonnegative_def dest: policy_nonnegative_ok)

lemma optional_nonnegative_again: "optional_nonnegative (map_option In_Decimal v) = Inr r \<Longrightarrow> r = v"
  by (cases v) (auto simp: optional_nonnegative_def)

lemma ticket_payload_ignores: "ticket_payload (t\<lparr>tk_ticket_hash := h\<rparr>) = ticket_payload t"
  by (simp add: ticket_payload_def)


lemma make_ticket_facts:
  assumes "make_ticket t = Inr r"
  shows "policy_nonnegative (tk_risk_budget t) = Inr (tk_risk_budget r)
    \<and> policy_nonnegative (tk_quantity t) = Inr (tk_quantity r)
    \<and> policy_nonnegative (tk_expected_loss t) = Inr (tk_expected_loss r)
    \<and> policy_nonnegative (tk_stressed_loss t) = Inr (tk_stressed_loss r)
    \<and> policy_nonnegative (tk_expected_reward t) = Inr (tk_expected_reward r)
    \<and> policy_nonnegative (tk_catastrophic_loss_bound t) = Inr (tk_catastrophic_loss_bound r)
    \<and> optional_nonnegative (tk_net_reward_risk t) = Inr (tk_net_reward_risk r)
    \<and> tk_assessment_hash r = tk_assessment_hash t \<and> tk_policy_hash r = tk_policy_hash t
    \<and> tk_account_snapshot_hash r = tk_account_snapshot_hash t
    \<and> tk_created_at r = tk_created_at t \<and> tk_expires_at r = tk_expires_at t
    \<and> tk_status r = tk_status t \<and> tk_reason_codes r = tk_reason_codes t \<and> tk_plan r = tk_plan t
    \<and> ticket_ok r"
proof -
  from assms obtain payload where payload: "ticket_payload (r\<lparr>tk_ticket_hash := ''''\<rparr>) = Inr payload"
      "payload_hash payload = Inr (tk_ticket_hash r)"
    and fields: "policy_nonnegative (tk_risk_budget t) = Inr (tk_risk_budget r)"
      "policy_nonnegative (tk_quantity t) = Inr (tk_quantity r)"
      "policy_nonnegative (tk_expected_loss t) = Inr (tk_expected_loss r)"
      "policy_nonnegative (tk_stressed_loss t) = Inr (tk_stressed_loss r)"
      "policy_nonnegative (tk_expected_reward t) = Inr (tk_expected_reward r)"
      "policy_nonnegative (tk_catastrophic_loss_bound t) = Inr (tk_catastrophic_loss_bound r)"
      "optional_nonnegative (tk_net_reward_risk t) = Inr (tk_net_reward_risk r)"
    and status: "is_ok (case tk_status t of
        RT_DENIED \<Rightarrow> guard (tk_plan t = None \<and> deq (tk_quantity r) 0) ValidationError
      | RT_AWAITING_APPROVAL \<Rightarrow> require
          [(tk_plan t \<noteq> None, ValidationError), (\<not> (tk_quantity r \<le> 0 \<or> tk_stressed_loss r \<le> 0), ValidationError),
           (tk_net_reward_risk r \<noteq> None, ValidationError)])"
    and copied: "tk_assessment_hash r = tk_assessment_hash t" "tk_policy_hash r = tk_policy_hash t"
      "tk_account_snapshot_hash r = tk_account_snapshot_hash t"
      "tk_created_at r = tk_created_at t" "tk_expires_at r = tk_expires_at t"
      "tk_status r = tk_status t" "tk_reason_codes r = tk_reason_codes t" "tk_plan r = tk_plan t"
    and live: "tk_created_at t < tk_expires_at t" "tk_reason_codes t \<noteq> []"
    unfolding make_ticket_def bindE_Inr_iff Let_def
    by (elim exE conjE) (auto simp del: not_None_eq split: if_splits)
  have "case tk_status t of RT_DENIED \<Rightarrow> tk_plan t = None \<and> deq (tk_quantity r) 0
     | RT_AWAITING_APPROVAL \<Rightarrow> tk_plan t \<noteq> None \<and> 0 < tk_quantity r \<and> 0 < tk_stressed_loss r
         \<and> tk_net_reward_risk r \<noteq> None"
    using status by (cases "tk_status t") (auto simp: not_le_decimal elim!: is_okE)
  moreover have "bindE (ticket_payload r) payload_hash = Inr (tk_ticket_hash r)"
    using payload by (simp add: ticket_payload_ignores)
  ultimately have "ticket_ok r"
    unfolding ticket_ok_def copied
    using fields live by (auto dest!: policy_nonnegative_ok optional_nonnegative_ok)
  with fields copied show ?thesis by blast
qed


text \<open>A constructed intent carries the decimals it was given.\<close>

lemma positive_decimal_In_Decimal [simp]: "positive_decimal (In_Decimal d) = Inr r \<longleftrightarrow> positive d \<and> r = d"
  by (auto simp: positive_decimal_def domain_decimal_def positive_def not_le_decimal)

lemma optional_positive_Some [simp]:
  "optional_positive (Some (In_Decimal d)) = Inr r \<longleftrightarrow> positive d \<and> r = Some d"
  by (auto simp: optional_positive_def)

lemma make_intent_keeps:
  assumes "make_intent a = Inr i"
  shows "positive_decimal (si_quantity a) = Inr (si_quantity i)
    \<and> optional_positive (si_price_bound a) = Inr (si_price_bound i)
    \<and> optional_positive (si_stop_price a) = Inr (si_stop_price i)
    \<and> optional_positive (si_leverage a) = Inr (si_leverage i)
    \<and> si_side i = si_side a \<and> si_expires_at i = si_expires_at a \<and> si_account_id i = si_account_id a
    \<and> si_environment i = si_environment a \<and> si_instrument i = si_instrument a
    \<and> si_code_hash i = si_code_hash a \<and> si_reduce_only i = si_reduce_only a"
  using assms unfolding make_intent_def bindE_Inr_iff sum.inject
  by (elim exE conjE) (hypsubst, simp only: intent.select_convs simp_thms)

lemma build_plan_facts:
  assumes "build_plan amb ticket_id b identity account policy expires stop target z = Inr p"
  shows "plan_ok p \<and> pp_assessment_hash p = qb_artifact_hash b
    \<and> si_quantity (pp_entry p) = sz_quantity z \<and> si_side (pp_entry p) = qb_side b
    \<and> si_price_bound (pp_entry p) = Some (sz_worst_entry z)
    \<and> si_price_bound (pp_stop p) = Some (sz_stressed_stop z) \<and> si_stop_price (pp_stop p) = Some stop
    \<and> si_price_bound (pp_target p) = Some (sz_worst_target z) \<and> si_stop_price (pp_target p) = Some target
    \<and> si_leverage (pp_entry p) = Some (ac_leverage account)
    \<and> si_account_id (pp_entry p) = pi_account_id identity \<and> si_environment (pp_entry p) = pi_environment identity
    \<and> si_instrument (pp_entry p) = pi_instrument identity \<and> si_code_hash (pp_entry p) = qb_code_hash b
    \<and> list_all (\<lambda>l. si_expires_at l = expires) [pp_entry p, pp_stop p, pp_target p]"
proof -
  define seed where "seed = qb_artifact_hash b @ '':'' @ ac_artifact_hash account @ '':'' @ ticket_id"
  define base where "base = leg_template identity b account policy (sz_quantity z) expires"
  from assms obtain entry protective profit slippage h where
      legs: "make_intent (entry_leg base ticket_id seed z stop policy) = Inr entry"
        "make_intent (stop_leg base ticket_id seed z stop slippage) = Inr protective"
        "make_intent (target_leg base ticket_id seed z target policy) = Inr profit"
    and p: "make_plan \<lparr> pp_assessment_hash = qb_artifact_hash b, pp_entry = entry, pp_stop = protective,
        pp_target = profit, pp_plan_hash = h \<rparr> = Inr p"
    unfolding build_plan_def Let_def bindE_Inr_iff seed_def [symmetric] base_def [symmetric]
    by (elim exE conjE) simp
  note args = entry_leg_def stop_leg_def target_leg_def base_def leg_template_def
  have e: "si_quantity entry = sz_quantity z" "si_side entry = qb_side b"
      "si_price_bound entry = Some (sz_worst_entry z)" "si_leverage entry = Some (ac_leverage account)"
      "si_account_id entry = pi_account_id identity" "si_environment entry = pi_environment identity"
      "si_instrument entry = pi_instrument identity" "si_code_hash entry = qb_code_hash b"
      "si_expires_at entry = expires"
    using make_intent_keeps [OF legs(1)] by (simp_all add: args)
  have s: "si_price_bound protective = Some (sz_stressed_stop z)" "si_stop_price protective = Some stop"
      "si_expires_at protective = expires"
    using make_intent_keeps [OF legs(2)] by (simp_all add: args)
  have t: "si_price_bound profit = Some (sz_worst_target z)" "si_stop_price profit = Some target"
      "si_expires_at profit = expires"
    using make_intent_keeps [OF legs(3)] by (simp_all add: args)
  from p have "plan_ok p" and lit: "p = \<lparr> pp_assessment_hash = qb_artifact_hash b, pp_entry = entry,
      pp_stop = protective, pp_target = profit, pp_plan_hash = h \<rparr>"
    by (auto simp: make_plan_Inr_iff)
  then show ?thesis by (simp add: e s t)
qed

lemma denied_ticket_status:
  "denied_ticket ticket_id b account policy t reasons = Inr tk \<Longrightarrow>
   tk_status tk = RT_DENIED \<and> tk_reason_codes tk = reasons \<and> tk_plan tk = None \<and> dval (tk_quantity tk) = 0
   \<and> dval (tk_stressed_loss tk) = 0 \<and> ticket_ok tk"
  unfolding denied_ticket_def bindE_Inr_iff
  by (elim exE conjE) (drule make_ticket_facts, auto)

lemma quote_awaitingE:
  assumes "quote_risk_ticket amb ticket_id evidence identity account t policy learning = Inr tk"
    and "tk_status tk = RT_AWAITING_APPROVAL"
  obtains b entry stop target z plan where
    "basis_of evidence identity = Inr b" "denial_reasons b identity account t policy learning = []"
    "qb_entry b = Some entry" "qb_stop b = Some stop" "qb_target b = Some target"
    "size_position (qb_side b) entry stop target account policy = Inr z" "sz_reasons z = []"
    "build_plan amb ticket_id b identity account policy
       (min (qb_expires_at b) (t + seconds (zp_ticket_ttl_seconds policy))) stop target z = Inr plan"
    "passing_ticket ticket_id b account policy t
       (min (qb_expires_at b) (t + seconds (zp_ticket_ttl_seconds policy))) z plan = Inr tk"
proof -
  have no: "denied_ticket ticket_id b account policy t reasons \<noteq> Inr tk" for b reasons
    using assms(2) denied_ticket_status by fastforce
  from assms(1) show ?thesis
    unfolding quote_risk_ticket_def Let_def bindE_Inr_iff
    by (elim exE conjE) (auto simp: no split: if_splits option.splits intro: that)
qed

lemma passing_ticket_facts:
  "passing_ticket ticket_id b account policy t expires z plan = Inr tk \<Longrightarrow>
   ticket_ok tk \<and> tk_plan tk = Some plan \<and> tk_quantity tk = sz_quantity z
   \<and> tk_risk_budget tk = sz_risk_budget z \<and> tk_stressed_loss tk = sz_stressed_loss z
   \<and> tk_net_reward_risk tk = sz_net_rr z \<and> tk_created_at tk = t \<and> tk_expires_at tk = expires
   \<and> tk_assessment_hash tk = qb_artifact_hash b \<and> tk_account_snapshot_hash tk = ac_artifact_hash account
   \<and> sizing_policy_hash policy = Inr (tk_policy_hash tk) \<and> tk_status tk = RT_AWAITING_APPROVAL"
  unfolding passing_ticket_def bindE_Inr_iff
  by (elim exE conjE) (drule make_ticket_facts, auto dest: optional_nonnegative_again)

lemma sizing_reasons_Nil:
  "sizing_reasons u worst_entry quantity net_rr minimum budget stressed_loss = [] \<longleftrightarrow>
   \<not> u \<and> \<not> worst_entry \<le> 0 \<and> \<not> quantity \<le> 0 \<and> \<not> pred_option (\<lambda>r. r < minimum) net_rr
   \<and> \<not> budget < stressed_loss"
  by (simp add: sizing_reasons_def)

lemma size_position_limits:
  assumes "size_position side entry stop target account policy = Inr z" "sz_reasons z = []"
  shows "sz_stressed_loss z \<le> sz_risk_budget z \<and> 0 < sz_risk_budget z \<and> 0 < sz_quantity z
    \<and> sz_risk_budget z \<le> ac_daily_loss_remaining account \<and> sz_risk_budget z \<le> ac_open_risk_remaining account
    \<and> (\<exists>f. dmul planning_context (ac_equity account) (zp_risk_fraction policy) = Inr f \<and> sz_risk_budget z \<le> f)
    \<and> (\<exists>r. sz_net_rr z = Some r \<and> zp_minimum_net_reward_risk policy \<le> r)
    \<and> 0 < sz_worst_entry z"
proof -
  from assms(1) obtain fraction where
      f: "dmul planning_context (ac_equity account) (zp_risk_fraction policy) = Inr fraction"
    and budget: "sz_risk_budget z = dmin (dmin fraction (ac_daily_loss_remaining account)) (ac_open_risk_remaining account)"
    and reasons: "sz_reasons z = [] \<longrightarrow> \<not> sz_risk_budget z \<le> 0 \<and> \<not> sz_worst_entry z \<le> 0
      \<and> \<not> sz_quantity z \<le> 0 \<and> \<not> sz_risk_budget z < sz_stressed_loss z
      \<and> \<not> pred_option (\<lambda>r. r < zp_minimum_net_reward_risk policy) (sz_net_rr z)"
    unfolding size_position_def Let_def bindE_Inr_iff case_prod_beta
    by (elim exE conjE) (simp only: sum.inject, hypsubst, simp add: sizing_reasons_Nil split del: if_split)
  note r = reasons [rule_format, OF assms(2)]
  have "sz_risk_budget z \<le> fraction" "sz_risk_budget z \<le> ac_daily_loss_remaining account"
      "sz_risk_budget z \<le> ac_open_risk_remaining account"
    unfolding budget by (simp_all add: dval_simps)
  moreover have "\<exists>r. sz_net_rr z = Some r \<and> zp_minimum_net_reward_risk policy \<le> r"
    using r by (cases "sz_net_rr z") (simp_all add: not_less_decimal)
  ultimately show ?thesis
    using f r by (simp add: not_le_decimal not_less_decimal)
qed


text \<open>The evidence behind a passing quote.\<close>

definition evidence_supports :: "quote_evidence \<Rightarrow> plan_identity \<Rightarrow> account_snapshot \<Rightarrow> instant \<Rightarrow> sizing_policy \<Rightarrow> bool \<Rightarrow> bool" where
  "evidence_supports e identity account t policy learning =
     (case e of
        Legacy a k \<Rightarrow> (oa_verdict a = AV_BUY \<or> oa_verdict a = AV_SELL) \<and> oa_eligible_for_risk_quote a
          \<and> opportunity_fresh a t \<and> technical_hash k = Inr (oa_technical_hash a)
          \<and> pi_strategy_version identity = ts_config_version k
      | Registered a s \<Rightarrow> directional_verdict (ra_verdict a)
          \<and> (ra_eligible_for_risk_quote a \<or> learning \<and> pi_environment identity = TESTNET)
          \<and> assessment_fresh a t \<and> registration_hash s = Inr (ra_strategy_hash a)
          \<and> in_scope (pi_instrument identity) (ra_instrument a)
          \<and> pi_strategy_version identity = rs_strategy_version s)"

lemma no_denial_support:
  assumes "basis_of e identity = Inr b" "denial_reasons b identity account t policy learning = []"
  shows "evidence_supports e identity account t policy learning
    \<and> pi_account_id identity = ac_account_id account \<and> pi_environment identity = ac_environment account
    \<and> account_fresh account t (zp_account_max_age_seconds policy)
    \<and> ac_leverage account \<le> zp_max_leverage policy
    \<and> (pi_environment identity = MAINNET \<longrightarrow> zp_risk_fraction policy \<le> Dec 1 (- 3))
    \<and> t < qb_expires_at b"
proof (cases e)
  case (Legacy a k)
  with assms show ?thesis
    by (auto simp: basis_of_def denial_reasons_def learning_eligible_def evidence_supports_def
        opportunity_fresh_def not_less_decimal split: if_splits)
next
  case (Registered a s)
  with assms show ?thesis
    by (auto simp: basis_of_def denial_reasons_def learning_eligible_def evidence_supports_def
        assessment_fresh_def not_less_decimal split: if_splits)
qed

definition plan_covers :: "risk_ticket \<Rightarrow> plan_identity \<Rightarrow> account_snapshot \<Rightarrow> bool" where
  "plan_covers tk identity account =
     (case tk_plan tk of None \<Rightarrow> False
      | Some p \<Rightarrow> plan_ok p \<and> pp_assessment_hash p = tk_assessment_hash tk
          \<and> si_quantity (pp_entry p) = tk_quantity tk
          \<and> si_account_id (pp_entry p) = pi_account_id identity
          \<and> si_environment (pp_entry p) = pi_environment identity
          \<and> si_instrument (pp_entry p) = pi_instrument identity
          \<and> si_leverage (pp_entry p) = Some (ac_leverage account)
          \<and> list_all (\<lambda>l. si_expires_at l = tk_expires_at tk) [pp_entry p, pp_stop p, pp_target p])"

lemma quote_awaiting_sound:
  assumes "quote_risk_ticket amb ticket_id evidence identity account t policy learning = Inr tk"
    and "tk_status tk = RT_AWAITING_APPROVAL"
  shows "evidence_supports evidence identity account t policy learning
    \<and> pi_account_id identity = ac_account_id account \<and> pi_environment identity = ac_environment account
    \<and> account_fresh account t (zp_account_max_age_seconds policy)
    \<and> ac_leverage account \<le> zp_max_leverage policy
    \<and> (pi_environment identity = MAINNET \<longrightarrow> zp_risk_fraction policy \<le> Dec 1 (- 3))
    \<and> tk_stressed_loss tk \<le> tk_risk_budget tk \<and> 0 < tk_quantity tk
    \<and> tk_risk_budget tk \<le> ac_daily_loss_remaining account \<and> tk_risk_budget tk \<le> ac_open_risk_remaining account
    \<and> (\<exists>f. dmul planning_context (ac_equity account) (zp_risk_fraction policy) = Inr f \<and> tk_risk_budget tk \<le> f)
    \<and> (\<exists>r. tk_net_reward_risk tk = Some r \<and> zp_minimum_net_reward_risk policy \<le> r)
    \<and> plan_covers tk identity account
    \<and> tk_created_at tk = t \<and> t < tk_expires_at tk \<and> tk_expires_at tk \<le> t + seconds (zp_ticket_ttl_seconds policy)"
proof -
  from assms obtain b entry stop target z plan where
      b: "basis_of evidence identity = Inr b" "denial_reasons b identity account t policy learning = []"
    and z: "size_position (qb_side b) entry stop target account policy = Inr z" "sz_reasons z = []"
    and plan: "build_plan amb ticket_id b identity account policy
       (min (qb_expires_at b) (t + seconds (zp_ticket_ttl_seconds policy))) stop target z = Inr plan"
    and tk: "passing_ticket ticket_id b account policy t
       (min (qb_expires_at b) (t + seconds (zp_ticket_ttl_seconds policy))) z plan = Inr tk"
    by (rule quote_awaitingE)
  note facts = passing_ticket_facts [OF tk] and limits = size_position_limits [OF z]
  have "plan_covers tk identity account"
    using facts build_plan_facts [OF plan] by (simp add: plan_covers_def)
  moreover have "t < tk_expires_at tk"
  proof -
    from facts have "ticket_ok tk" "tk_created_at tk = t" by simp_all
    then show ?thesis unfolding ticket_ok_def by blast
  qed
  ultimately show ?thesis
    using no_denial_support [OF b] limits facts by simp
qed

text \<open>Every returned ticket is well formed, and a denied one carries no plan and no quantity.\<close>

lemma quote_ticket_ok:
  assumes "quote_risk_ticket amb ticket_id evidence identity account t policy learning = Inr tk"
  shows "ticket_ok tk \<and> (tk_status tk = RT_DENIED \<longrightarrow> tk_plan tk = None \<and> dval (tk_quantity tk) = 0
    \<and> dval (tk_stressed_loss tk) = 0)"
  using assms denied_ticket_status passing_ticket_facts
  unfolding quote_risk_ticket_def Let_def bindE_Inr_iff
  by (elim exE conjE) (fastforce split: if_splits option.splits)

lemma quote_denies:
  assumes "quote_risk_ticket amb ticket_id evidence identity account t policy learning = Inr tk"
    and "basis_of evidence identity = Inr b" "r \<in> set (denial_reasons b identity account t policy learning)"
  shows "tk_status tk = RT_DENIED \<and> r \<in> set (tk_reason_codes tk) \<and> tk_plan tk = None"
proof -
  from assms(3) have "denial_reasons b identity account t policy learning \<noteq> []" by auto
  with assms(1,2) have "denied_ticket ticket_id b account policy t (denial_reasons b identity account t policy learning) = Inr tk"
    unfolding quote_risk_ticket_def Let_def by simp
  from denied_ticket_status [OF this] assms(3) show ?thesis by simp
qed

lemma quote_learning_sound:
  assumes "quote_infrastructure_learning_ticket amb ticket_id a identity account g t policy strategy = Inr tk"
  shows "quote_risk_ticket amb ticket_id (Registered a strategy) identity account t policy True = Inr tk
    \<and> pi_environment identity = TESTNET \<and> pi_account_id identity = lg_account_id g
    \<and> pi_instrument identity \<in> set (lg_allowed_instruments g) \<and> learning_grant_active g t
    \<and> sizing_policy_hash policy = Inr (lg_risk_policy_hash g)
    \<and> (tk_status tk = RT_AWAITING_APPROVAL \<longrightarrow> tk_stressed_loss tk \<le> lg_max_loss g
        \<and> (\<exists>p l. tk_plan tk = Some p \<and> si_leverage (pp_entry p) = Some l \<and> l \<le> lg_max_leverage g))"
  using assms unfolding quote_infrastructure_learning_ticket_def bindE_Inr_iff
  by (elim exE conjE) (auto simp: not_less_decimal split: ticket_status.splits option.splits)

end
