(* ===== verification/Decision_Properties.thy ===== *)
theory Decision_Properties
  imports Planning Decimal_Eval
begin

text \<open>
  The properties of sentiment evidence, technical analysis, assessments, plans and risk
  tickets, with the concrete run that shows each can apply.
\<close>

lemmas context_eval = decimal_eval planning_context_def analysis_context_def decision_context_def
  sentiment_context_def ddiv_def dabs_def scale_to_def

definition sample_digest :: string where
  "sample_digest = replicate 64 (CHR ''a'')"

lemma sample_digest_shaped: "sha256_shaped sample_digest"
  by (simp add: sample_digest_def sha256_shaped_def is_lower_hex_def list_all_iff)

lemma canonical_decimal_bounded: "bounded d \<Longrightarrow> canonical_decimal d = Inr (canonical_text d)"
  by (simp add: canonical_decimal_Inr_iff)

lemma record_payload_ok:
  "length names = length vs \<Longrightarrow> \<forall>v \<in> set vs. is_ok (canonical_data v) \<Longrightarrow>
   \<exists>h. payload_hash (record_val names vs) = Inr h"
  using record_payload_hash_total by blast

section \<open>Sentiment\<close>

definition sample_evidence :: "string \<Rightarrow> instant \<Rightarrow> evidence" where
  "sample_evidence n at_time =
     \<lparr> ev_evidence_id = n, ev_post_id = n, ev_source_url = ''https://x.com/'' @ n,
       ev_author_hash = n, ev_content_hash = n, ev_cluster_hash = n,
       ev_published_at = at_time, ev_observed_at = at_time, ev_polarity = Dec 1 0 \<rparr>"

definition sample_sentiment_policy :: sentiment_policy where
  "sample_sentiment_policy =
     \<lparr> sp_version = ''v'', sp_minimum_posts = 1, sp_minimum_authors = 1, sp_trim_fraction = Dec 0 0,
       sp_bullish_threshold = Dec 15 (- 2), sp_bearish_threshold = Dec (- 15) (- 2),
       sp_max_cluster_share = Dec 1 0, sp_ttl_seconds = 900 \<rparr>"

definition sample_request :: snapshot_request where
  "sample_request =
     \<lparr> sr_asset_id = ''BTC'', sr_query = ''btc'', sr_query_version = ''1'', sr_classifier_version = ''1'',
       sr_method = X_API, sr_window_start = 0, sr_window_end = 10, sr_collected_at = 20,
       sr_excluded_count = 0, sr_collection_complete = True \<rparr>"

lemma sample_texts: "bounded_text_ok 256 ''BTC''" "bounded_text_ok 1024 ''btc''" "bounded_text_ok 64 ''1''"
  "bounded_text_ok 128 ''1''" "bounded_text_ok 64 ''v''" "bounded_text_ok 256 ''v''"
  by code_simp+

lemma sample_share: "cluster_share_of [sample_evidence n t] = Inr (Dec 1 0)"
proof -
  have "quotient_digits 64 (Dec 1 0) (Dec 1 0) = Dec 1 0"
    by (rule quotient_exact [where m = 0, THEN trans]; simp add: ndigits.simps)
  then show ?thesis
    by (simp add: cluster_share_of_def largest_cluster_def sample_evidence_def context_eval)
qed

lemma sample_score:
  "score_items sample_sentiment_policy [sample_evidence n t] = Inr (Some (Dec 1 0), BULLISH, [])"
proof -
  have "quotient_digits 64 (Dec 1 0) (Dec 1 0) = Dec 1 0"
    by (rule quotient_exact [where m = 0, THEN trans]; simp add: ndigits.simps)
  then show ?thesis
    by (simp add: score_items_def sample_sentiment_policy_def sample_evidence_def ctx_sum_def
        int_of_decimal_def to_integral_floor_def context_eval)
qed

lemma sample_policy_hash:
  "\<exists>h. bindE (sentiment_policy_record sample_sentiment_policy) payload_hash = Inr h \<and> sha256_shaped h"
proof -
  have b: "bounded (Dec 0 0)" "bounded (Dec 15 (- 2))" "bounded (Dec (- 15) (- 2))" "bounded (Dec 1 0)"
    by (simp_all add: decimal_eval)
  then show ?thesis
    unfolding sentiment_policy_record_def sample_sentiment_policy_def
    by (simp add: canonical_decimal_bounded) (rule record_payload_hash_total, simp_all)
qed

definition sample_payload_of :: "string \<Rightarrow> string \<Rightarrow> instant \<Rightarrow> sentiment_snapshot" where
  "sample_payload_of h n t =
     \<lparr> sn_asset_id = ''BTC'', sn_query = ''btc'', sn_query_version = ''1'', sn_classifier_version = ''1'',
       sn_policy_version = ''v'', sn_policy_hash = h, sn_method = X_API, sn_window_start = 0,
       sn_window_end = 10, sn_collected_at = 20, sn_expires_at = 20 + seconds 900,
       sn_evidence = [sample_evidence n t], sn_excluded_count = 0, sn_collection_complete = True,
       sn_score = Some (Dec 1 0), sn_label = BULLISH, sn_quality_reasons = [],
       sn_cluster_share = Dec 1 0, sn_artifact_hash = '''' \<rparr>"

lemma sample_payload_hash:
  "\<exists>p k. snapshot_hash_payload (sample_payload_of h n t) = Inr p \<and> payload_hash p = Inr k \<and> sha256_shaped k"
proof -
  have b: "bounded (Dec 1 0)" by (simp add: decimal_eval)
  define e where "e = record_val
       [''evidence_id'', ''post_id'', ''source_url'', ''author_hash'', ''content_hash'', ''cluster_hash'',
        ''published_at'', ''observed_at'', ''polarity'']
       (map PStr [n, n, ''https://x.com/'' @ n, n, n, n, iso_millis t, iso_millis t, canonical_text (Dec 1 0)])"
  have "evidence_record (sample_evidence n t) = Inr e"
    using b by (simp add: evidence_record_def sample_evidence_def canonical_decimal_bounded e_def)
  moreover have "is_ok (canonical_data e)"
    unfolding e_def by (rule is_ok_record_val) simp_all
  then obtain j where "canonical_data e = Inr j" by (rule is_okE)
  ultimately show ?thesis
    using b unfolding snapshot_hash_payload_def sample_payload_of_def
    by (simp add: canonical_decimal_bounded) (rule record_payload_hash_total, simp_all)
qed

lemma build_sample_snapshot:
  assumes "0 \<le> t" "t \<le> 10"
  shows "\<exists>s. build_sentiment_snapshot sample_request [sample_evidence n t] sample_sentiment_policy = Inr s
    \<and> sentiment_available s"
proof -
  obtain r h where h: "sentiment_policy_record sample_sentiment_policy = Inr r" "payload_hash r = Inr h"
      "sha256_shaped h"
    using sample_policy_hash by auto

  obtain p k where pk: "snapshot_hash_payload (sample_payload_of h n t) = Inr p" "payload_hash p = Inr k"
      "sha256_shaped k"
    using sample_payload_hash by blast
  have q: "quality_reasons_of sample_request sample_sentiment_policy [sample_evidence n t] (Dec 1 0) = []"
    by (simp add: quality_reasons_of_def sample_request_def sample_sentiment_policy_def seconds_def
        microsecond_second_def decimal_eval)
  have b: "bounded_between (In_Decimal (Dec 1 0)) (Dec (- 1) 0) (Dec 1 0) = Inr (Dec 1 0)"
    "bounded_between (In_Decimal (Dec 1 0)) 0 (Dec 1 0) = Inr (Dec 1 0)"
    by (simp_all add: bounded_between_again decimal_eval)
  have times: "0 < seconds 900" by (simp add: seconds_def microsecond_second_def)
  have same: "snapshot_hash_payload (s\<lparr>sn_artifact_hash := x\<rparr>) = snapshot_hash_payload s" for s x
    by (simp add: snapshot_hash_payload_def)
  have "snapshot_hash_payload ((sample_payload_of h n t)\<lparr>sn_artifact_hash := k\<rparr>) = Inr p"
    using pk(1) by (simp only: same)
  then have made: "make_snapshot
      \<lparr> sn_asset_id = ''BTC'', sn_query = ''btc'', sn_query_version = ''1'', sn_classifier_version = ''1'',
       sn_policy_version = ''v'', sn_policy_hash = h, sn_method = X_API, sn_window_start = 0,
       sn_window_end = 10, sn_collected_at = 20, sn_expires_at = 20 + seconds 900,
       sn_evidence = [sample_evidence n t], sn_excluded_count = 0, sn_collection_complete = True,
       sn_score = Some (In_Decimal (Dec 1 0)), sn_label = BULLISH, sn_quality_reasons = [],
       sn_cluster_share = In_Decimal (Dec 1 0), sn_artifact_hash = k \<rparr>
      = Inr ((sample_payload_of h n t)\<lparr>sn_artifact_hash := k\<rparr>)"
    using h(3) pk(2,3) b times sample_texts
    by (simp add: make_snapshot_def sample_payload_of_def)
  have policy: "sp_version sample_sentiment_policy = ''v''" "sp_ttl_seconds sample_sentiment_policy = 900"
    by (simp_all add: sample_sentiment_policy_def)
  have item: "ev_published_at (sample_evidence n t) = t" "ev_observed_at (sample_evidence n t) = t"
    by (simp_all add: sample_evidence_def)
  have request: "sr_asset_id sample_request = ''BTC''" "sr_query sample_request = ''btc''"
      "sr_query_version sample_request = ''1''" "sr_classifier_version sample_request = ''1''"
      "sr_method sample_request = X_API" "sr_window_start sample_request = 0"
      "sr_window_end sample_request = 10" "sr_collected_at sample_request = 20"
      "sr_excluded_count sample_request = 0" "sr_collection_complete sample_request"
    by (simp_all add: sample_request_def)
  have "build_sentiment_snapshot sample_request [sample_evidence n t] sample_sentiment_policy
      = Inr ((sample_payload_of h n t)\<lparr>sn_artifact_hash := k\<rparr>)"
    using assms h(1,2) pk(1,2) made sample_texts
    by (simp add: build_sentiment_snapshot_def request policy item sample_share q sample_score
        sample_payload_of_def)
  then show ?thesis by (simp add: sentiment_available_def sample_payload_of_def)
qed

text \<open>C27: An available snapshot rests on complete, recent evidence by enough distinct authors without
  a dominant cluster, keeps exactly the collected items, and has a score between -1 and 1 whose side
  of the thresholds is its label.\<close>

theorem available_sentiment_supported:
  assumes "build_sentiment_snapshot q ev p = Inr s" "sentiment_available s"
  shows "sr_collection_complete q \<and> sp_minimum_posts p \<le> int (length (sn_evidence s))
    \<and> sp_minimum_authors p \<le> int (card (ev_author_hash ` set (sn_evidence s)))
    \<and> distinct (map ev_author_hash (sn_evidence s))
    \<and> sn_cluster_share s \<le> sp_max_cluster_share p
    \<and> sr_collected_at q - sr_window_end q \<le> seconds (sp_ttl_seconds p)
    \<and> mset (sn_evidence s) = mset ev
    \<and> (\<exists>d. sn_score s = Some d
       \<and> - 1 \<le> dval d \<and> dval d \<le> 1
       \<and> sn_label s = (if sp_bullish_threshold p \<le> d then BULLISH
                       else if d \<le> sp_bearish_threshold p then BEARISH else NEUTRAL))"
  by (rule build_available [OF assms])

lemma available_sentiment_supported_witness:
  "\<exists>s. build_sentiment_snapshot sample_request [sample_evidence ''p1'' 5] sample_sentiment_policy = Inr s
    \<and> mset (sn_evidence s) = {#sample_evidence ''p1'' 5#} \<and> 1 \<le> int (length (sn_evidence s))"
proof -
  obtain s where s: "build_sentiment_snapshot sample_request [sample_evidence ''p1'' 5] sample_sentiment_policy = Inr s"
      "sentiment_available s"
    using build_sample_snapshot [of 5 "''p1''"] by auto
  have "sp_minimum_posts sample_sentiment_policy = 1" by (simp add: sample_sentiment_policy_def)
  with available_sentiment_supported [OF s] s(1) show ?thesis by auto
qed

text \<open>C28: The order in which evidence is collected does not change the snapshot or its digest.\<close>

theorem sentiment_order_irrelevant:
  assumes "mset xs = mset ys"
  shows "build_sentiment_snapshot q xs p = build_sentiment_snapshot q ys p"
  by (rule build_order_irrelevant [OF assms])

lemma sentiment_order_irrelevant_witness:
  "build_sentiment_snapshot sample_request [sample_evidence ''p1'' 5, sample_evidence ''p2'' 4] sample_sentiment_policy
   = build_sentiment_snapshot sample_request [sample_evidence ''p2'' 4, sample_evidence ''p1'' 5] sample_sentiment_policy"
  by (rule sentiment_order_irrelevant) simp


section \<open>Technical analysis and its assessment\<close>

definition sample_tech_candle :: "int \<Rightarrow> tech_candle" where
  "sample_tech_candle n =
     \<lparr> tc_symbol = ''BTC'', tc_interval = ''4h'', tc_open_time = n, tc_close_time = n + 1,
       tc_open = Dec 10 0, tc_high = Dec 10 0, tc_low = Dec 10 0, tc_close = Dec 10 0, tc_volume = Dec 0 0 \<rparr>"

definition sample_config :: technical_config where
  "sample_config =
     \<lparr> tf_version = ''v'', tf_fast_period = 1, tf_slow_period = 1, tf_trend_period = 1, tf_rsi_period = 1,
       tf_atr_period = 1, tf_rsi_buy_min = Dec 52 0, tf_rsi_buy_max = Dec 70 0, tf_rsi_sell_min = Dec 30 0,
       tf_rsi_sell_max = Dec 48 0, tf_stop_atr_multiple = Dec 2 0, tf_reward_risk_multiple = Dec 3 0 \<rparr>"

text \<open>A technical snapshot has an RSI between 0 and 100 and is never executable; a bias is backed
  by the order of close and averages, with stop, close and target in the order of its side, and
  no bias carries no prices.\<close>

theorem technical_snapshot_consistent:
  assumes "analyze_technical cs t c = Inr s"
    and "0 < tf_rsi_period c" "positive (tf_stop_atr_multiple c)" "positive (tf_reward_risk_multiple c)"
    and "list_all (\<lambda>k. bounded (tc_close k)) cs"
  shows "0 \<le> dval (ts_rsi s) \<and> dval (ts_rsi s) \<le> 100 \<and> \<not> ts_executable s
    \<and> (ts_bias s = TB_NOTHING \<longleftrightarrow> ts_stop_price s = None) \<and> (ts_stop_price s = None \<longleftrightarrow> ts_target_price s = None)
    \<and> (ts_bias s = TB_BUY \<longrightarrow> ts_ema_trend s < ts_close s \<and> ts_ema_slow s < ts_ema_fast s
        \<and> (\<exists>p q. ts_stop_price s = Some p \<and> ts_target_price s = Some q \<and> 0 < p \<and> p \<le> ts_close s \<and> ts_close s \<le> q))
    \<and> (ts_bias s = TB_SELL \<longrightarrow> ts_close s < ts_ema_trend s \<and> ts_ema_fast s < ts_ema_slow s
        \<and> (\<exists>p q. ts_stop_price s = Some p \<and> ts_target_price s = Some q \<and> 0 < q \<and> q \<le> ts_close s \<and> ts_close s \<le> p))"
proof -
  let ?done = "filter (\<lambda>k. tc_close_time k \<le> t) cs"
  from assms(1) obtain res where
      r: "rsi (map tc_close ?done) (tf_rsi_period c) = Inr (ts_rsi s)"
    and b: "technical_bias_of c (ts_close s) (ts_ema_fast s) (ts_ema_slow s) (ts_ema_trend s) (ts_rsi s) (ts_atr s)
        = Inr res"
    and res: "ts_bias s = fst res" "ts_stop_price s = fst (snd res)" "ts_target_price s = fst (snd (snd res))"
    and last: "ts_close s = last (map tc_close ?done)" and exec: "\<not> ts_executable s"
    unfolding analyze_technical_def Let_def bindE_Inr_iff case_prod_beta
    by (elim exE conjE) (simp only: sum.inject, hypsubst, simp)
  have b: "technical_bias_of c (ts_close s) (ts_ema_fast s) (ts_ema_slow s) (ts_ema_trend s) (ts_rsi s) (ts_atr s)
      = Inr (ts_bias s, ts_stop_price s, ts_target_price s, snd (snd (snd res)))"
    using b by (simp add: res)
  have "?done \<noteq> []" using r by (auto simp: rsi_def)
  then have "last (map tc_close ?done) \<in> tc_close ` set ?done"
    by (metis last_in_set list.map_disc_iff list.set_map)
  then have "bounded (ts_close s)" unfolding last using assms(5) by (auto simp: list_all_iff)
  with technical_bias_prices [OF b] rsi_between [OF r assms(2)] assms(3,4) exec show ?thesis by blast
qed

lemma analysis_quotients:
  "ddiv analysis_context (Dec 10 0) (dec_int 1) = Inr (Dec 10 0)"
  "ddiv analysis_context (Dec 0 0) (dec_int 1) = Inr (Dec 0 0)"
  "ddiv analysis_context (dec_int 2) (dec_int 2) = Inr (Dec 1 0)"
proof -
  have "quotient_digits 96 (Dec 10 0) (Dec 1 0) = Dec 10 0" "quotient_digits 96 (Dec 2 0) (Dec 2 0) = Dec 1 0"
    by (rule quotient_exact [where m = 0, THEN trans]; simp add: ndigits.simps)+
  then show "ddiv analysis_context (Dec 10 0) (dec_int 1) = Inr (Dec 10 0)"
    "ddiv analysis_context (Dec 0 0) (dec_int 1) = Inr (Dec 0 0)"
    "ddiv analysis_context (dec_int 2) (dec_int 2) = Inr (Dec 1 0)"
    by (simp_all add: context_eval)
qed

lemma sample_indicators:
  "descriptive_ema [Dec 10 0, Dec 10 0] 1 = Inr (Dec 10 0)"
  "rsi [Dec 10 0, Dec 10 0] 1 = Inr (Dec 50 0)"
  "descriptive_atr [sample_tech_candle m, sample_tech_candle n] 1 = Inr (Dec 0 0)"
proof -
  have sums: "ctx_sum analysis_context [Dec 10 0] = Inr (Dec 10 0)" "ctx_sum analysis_context [Dec 0 0] = Inr (Dec 0 0)"
    by (simp_all add: ctx_sum_def context_eval)
  have steps: "dsub analysis_context (Dec 10 0) (Dec 10 0) = Inr (Dec 0 0)"
    "dmul analysis_context (Dec 0 0) (Dec 1 0) = Inr (Dec 0 0)" "dadd analysis_context (Dec 10 0) (Dec 0 0) = Inr (Dec 10 0)"
    "dfix analysis_context (exact_neg (Dec 0 0)) = Inr (Dec 0 0)" "dmax (Dec 0 0) 0 = Dec 0 0"
    "dmax (Dec 0 0) (Dec 0 0) = Dec 0 0" "dabs analysis_context (Dec 0 0) = Inr (Dec 0 0)"
    "checked_result (Dec 10 0) = Inr (Dec 10 0)" "checked_result (Dec 0 0) = Inr (Dec 0 0)"
    "checked_result (Dec 50 0) = Inr (Dec 50 0)" "deq (Dec 0 0) 0"
    by (simp_all add: context_eval)
  show "descriptive_ema [Dec 10 0, Dec 10 0] 1 = Inr (Dec 10 0)"
    by (simp add: descriptive_ema_def sums steps analysis_quotients)
  show "rsi [Dec 10 0, Dec 10 0] 1 = Inr (Dec 50 0)"
    by (simp add: rsi_def wilder_average_def gain_of_def loss_of_def sums steps analysis_quotients)
  show "descriptive_atr [sample_tech_candle m, sample_tech_candle n] 1 = Inr (Dec 0 0)"
    by (simp add: descriptive_atr_def wilder_average_def sample_tech_candle_def sums steps analysis_quotients)
qed

lemma sample_bias:
  "technical_bias_of sample_config (Dec 10 0) (Dec 10 0) (Dec 10 0) (Dec 10 0) (Dec 50 0) (Dec 0 0)
   = Inr (TB_NOTHING, None, None, [])"
  by (simp add: technical_bias_of_def sample_config_def context_eval)

lemma sample_analysis:
  "\<exists>s. analyze_technical [sample_tech_candle 0, sample_tech_candle 1] 5 sample_config = Inr s"
proof -
  have b: "bounded (Dec 52 0)" "bounded (Dec 70 0)" "bounded (Dec 30 0)" "bounded (Dec 48 0)" "bounded (Dec 2 0)"
    "bounded (Dec 3 0)" "bounded (Dec 10 0)" "bounded (Dec 0 0)"
    by (simp_all add: decimal_eval)
  have config: "\<exists>h. records_hash (technical_config_record sample_config) = Inr h"
    using b unfolding records_hash_def technical_config_record_def sample_config_def decimal_text_def
    by (simp add: canonical_decimal_bounded) (rule record_payload_ok, simp_all)
  have candle: "\<exists>v. tech_candle_record (sample_tech_candle n) = Inr v \<and> is_ok (canonical_data v)" for n
    using b unfolding tech_candle_record_def sample_tech_candle_def decimal_text_def
    by (simp add: canonical_decimal_bounded is_ok_record_val)
  obtain v w where vw: "tech_candle_record (sample_tech_candle 0) = Inr v" "is_ok (canonical_data v)"
      "tech_candle_record (sample_tech_candle 1) = Inr w" "is_ok (canonical_data w)"
    using candle by blast
  then obtain i j where "canonical_data v = Inr i" "canonical_data w = Inr j" by (auto elim!: is_okE)
  then have data: "\<exists>h. payload_hash (PList [v, w]) = Inr h"
    by (simp add: payload_hash_def canonical_bytes_def canonical_json_def)
  have fields: "tf_fast_period sample_config = 1" "tf_slow_period sample_config = 1"
    "tf_trend_period sample_config = 1" "tf_rsi_period sample_config = 1" "tf_atr_period sample_config = 1"
    "minimum_candles sample_config = 2"
    by (simp_all add: sample_config_def minimum_candles_def)
  have candles: "tc_close_time (sample_tech_candle n) = n + 1" "tc_open_time (sample_tech_candle n) = n"
    "tc_symbol (sample_tech_candle n) = ''BTC''" "tc_interval (sample_tech_candle n) = ''4h''"
    "tc_close (sample_tech_candle n) = Dec 10 0" for n
    by (simp_all add: sample_tech_candle_def)
  show ?thesis
    using config data vw(1,3)
    by (auto simp: analyze_technical_def candles fields sample_indicators [unfolded One_nat_def] sample_bias
        records_hash_def)
qed

lemma technical_snapshot_consistent_witness:
  "\<exists>s. analyze_technical [sample_tech_candle 0, sample_tech_candle 1] 5 sample_config = Inr s
    \<and> dval (ts_rsi s) \<le> 100 \<and> (ts_bias s = TB_NOTHING \<longleftrightarrow> ts_stop_price s = None)"
proof -
  obtain s where s: "analyze_technical [sample_tech_candle 0, sample_tech_candle 1] 5 sample_config = Inr s"
    using sample_analysis by blast
  have "0 < tf_rsi_period sample_config" "positive (tf_stop_atr_multiple sample_config)"
      "positive (tf_reward_risk_multiple sample_config)"
      "list_all (\<lambda>k. bounded (tc_close k)) [sample_tech_candle 0, sample_tech_candle 1]"
    by (simp_all add: sample_config_def sample_tech_candle_def decimal_eval)
  from technical_snapshot_consistent [OF s this] s show ?thesis by (intro exI [of _ s] conjI) simp_all
qed

text \<open>A descriptive assessment may be sized only when it is directional, follows the technical
  bias, sentiment is fresh, unattended and not opposed, and a live profitability gate covers
  the asset and configuration; it never confers trade authority.\<close>

theorem opportunity_eligibility:
  assumes "build_opportunity_assessment i asset k s p t policy = Inr a" "oa_eligible_for_risk_quote a"
  shows "(oa_verdict a = AV_BUY \<or> oa_verdict a = AV_SELL)
    \<and> (oa_verdict a = AV_BUY \<longrightarrow> ts_bias k = TB_BUY \<and> sn_label s \<noteq> BEARISH)
    \<and> (oa_verdict a = AV_SELL \<longrightarrow> ts_bias k = TB_SELL \<and> sn_label s \<noteq> BULLISH)
    \<and> unattended_eligible s \<and> sentiment_fresh s t
    \<and> gate_qualifies p asset (ts_config_version k) t \<and> t < oa_expires_at a
    \<and> technical_hash k = Inr (oa_technical_hash a) \<and> \<not> oa_eligible_to_trade a"
  by (rule build_opportunity_eligible [OF assms])

definition sample_snapshot :: sentiment_snapshot where
  "sample_snapshot = (sample_payload_of sample_digest ''p1'' 5)\<lparr>sn_artifact_hash := sample_digest\<rparr>"

definition sample_technical :: technical_snapshot where
  "sample_technical =
     \<lparr> ts_symbol = ''BTC'', ts_interval = ''4h'', ts_as_of = 20, ts_candle_close_time = 20,
       ts_config_version = ''v'', ts_config_hash = sample_digest, ts_data_hash = sample_digest,
       ts_completed_candles = 200, ts_ignored_incomplete_candles = 0, ts_close = Dec 100 0,
       ts_ema_fast = Dec 99 0, ts_ema_slow = Dec 98 0, ts_ema_trend = Dec 97 0, ts_rsi = Dec 60 0,
       ts_atr = Dec 5 0, ts_bias = TB_BUY, ts_stop_price = Some (Dec 90 0),
       ts_target_price = Some (Dec 130 0), ts_reasons = [''rsi_buy_band''], ts_executable = False \<rparr>"

definition sample_gate :: profitability_gate where
  "sample_gate =
     \<lparr> pg_gate_id = ''g'', pg_asset_id = ''BTC'', pg_thesis_id = ''t'', pg_thesis_version = ''1'',
       pg_strategy_version = ''v'', pg_artifact_hash = sample_digest, pg_status = PS_QUALIFIED,
       pg_issued_at = 0, pg_expires_at = 1000, pg_oos_trades = 1, pg_shadow_closed_signals = 1,
       pg_net_expectancy_r = Dec 1 0, pg_lower_confidence_bound_r = Dec 1 (- 1) \<rparr>"

lemma sample_technical_hash: "\<exists>h. technical_hash sample_technical = Inr h"
proof -
  have "bounded (Dec 100 0)" "bounded (Dec 99 0)" "bounded (Dec 98 0)" "bounded (Dec 97 0)" "bounded (Dec 60 0)"
    "bounded (Dec 5 0)" "bounded (Dec 90 0)" "bounded (Dec 130 0)"
    by (simp_all add: decimal_eval)
  then show ?thesis
    unfolding technical_hash_def technical_dict_def sample_technical_def decimal_text_def opt_text_def
    by (simp add: canonical_decimal_bounded) (rule record_payload_ok, simp_all)
qed

lemma sample_sentiment_live:
  "sentiment_fresh sample_snapshot 30" "sentiment_available sample_snapshot" "unattended_eligible sample_snapshot"
  "sn_label sample_snapshot = BULLISH" "sn_asset_id sample_snapshot = ''BTC''" "sn_method sample_snapshot = X_API"
  "sn_expires_at sample_snapshot = 900000020" "sn_artifact_hash sample_snapshot = sample_digest"
  by (simp_all add: sample_snapshot_def sample_payload_of_def sentiment_fresh_def sentiment_available_def
      unattended_eligible_def seconds_def microsecond_second_def)

lemma opportunity_eligibility_witness:
  "\<exists>a. build_opportunity_assessment ''v'' ''BTC'' sample_technical sample_snapshot (Some sample_gate) 30
      \<lparr> ap_version = ''v'', ap_signal_ttl_seconds = 900 \<rparr> = Inr a
    \<and> oa_verdict a = AV_BUY \<and> oa_eligible_for_risk_quote a \<and> \<not> oa_eligible_to_trade a"
proof -
  let ?p = "\<lparr> ap_version = ''v'', ap_signal_ttl_seconds = 900 \<rparr>"
  obtain h where h: "technical_hash sample_technical = Inr h" using sample_technical_hash by blast
  have gate: "gate_qualifies (Some sample_gate) ''BTC'' ''v'' 30" "pg_gate_id sample_gate = ''g''"
    "gate_reasons (Some sample_gate) ''BTC'' ''v'' 30 = []"
    by (simp_all add: gate_qualifies_def gate_reasons_def gate_active_def sample_gate_def decimal_eval)
  have k: "ts_candle_close_time sample_technical = 20" "ts_config_version sample_technical = ''v''"
    "assess sample_technical sample_snapshot 900000020 30 = (AV_BUY, [''technical_buy_sentiment_not_bearish''])"
    by (simp_all add: assess_def sample_sentiment_live) (simp_all add: sample_technical_def)
  have "\<exists>a. build_opportunity_assessment ''v'' ''BTC'' sample_technical sample_snapshot (Some sample_gate) 30 ?p = Inr a
      \<and> oa_verdict a = AV_BUY \<and> oa_eligible_for_risk_quote a"
    using sample_texts(1,6) record_payload_ok [of
       "[''assessment_id'', ''asset_id'', ''created_at'', ''expires_at'', ''policy_version'', ''technical_hash'',
         ''sentiment_hash'', ''profitability_gate_id'', ''verdict'', ''reason_codes'',
         ''eligible_for_risk_quote'', ''eligible_to_trade'']"
       "[PStr ''v'', PStr ''BTC'', PStr (iso_millis 30), PStr (iso_millis 900000020), PStr ''v'', PStr h,
         PStr sample_digest, PStr ''g'', PStr ''buy'', PList [PStr ''technical_buy_sentiment_not_bearish''],
         PBool True, PBool False]"]
    by (simp add: build_opportunity_assessment_def h gate k sample_sentiment_live seconds_def microsecond_second_def
        opt_val_def)
      (erule exE, simp)
  then obtain a where a: "build_opportunity_assessment ''v'' ''BTC'' sample_technical sample_snapshot (Some sample_gate) 30 ?p = Inr a"
      "oa_verdict a = AV_BUY" "oa_eligible_for_risk_quote a" by (elim exE conjE)
  from opportunity_eligibility [OF a(1,3)] a show ?thesis by (intro exI [of _ a] conjI) simp_all
qed


section \<open>Registered decisions\<close>

text \<open>C29: A registered assessment may be sized only when the signal of the registered strategy is
  live, sentiment is fresh and does not oppose it, an active attestation covers the asset and
  the strategy, and the prices form an ordered bracket; it never confers trade authority and
  expires with its evidence.\<close>

theorem registered_eligibility:
  assumes "build_registered_assessment i asset g s p t strategy attended = Inr a" "ra_eligible_for_risk_quote a"
  shows "sg_observed_at g \<le> t \<and> t < sg_expires_at g \<and> sentiment_fresh s t \<and> sentiment_available s
    \<and> (ra_verdict a = RV_BUY \<longrightarrow> sg_direction g = SD_BUY \<and> sn_label s \<noteq> BEARISH)
    \<and> (ra_verdict a = RV_SELL \<longrightarrow> sg_direction g = SD_SELL \<and> sn_label s \<noteq> BULLISH)
    \<and> directional_verdict (ra_verdict a)
    \<and> attestation_qualifies p asset (ra_strategy_hash a) t
    \<and> (unattended_eligible s \<or> attended \<and> sn_method s = MANUAL_BROWSER)
    \<and> registration_hash strategy = Inr (ra_strategy_hash a) \<and> sn_asset_id s = asset
    \<and> assessment_ok a \<and> \<not> ra_eligible_to_trade a
    \<and> t < ra_expires_at a \<and> ra_expires_at a \<le> sg_expires_at g \<and> ra_expires_at a \<le> sn_expires_at s"
proof (rule build_registeredE [OF assms(1)])
  fix prices expires
  assume reg: "registration_hash strategy = Inr (sg_strategy_hash g)" "sn_asset_id s = asset"
    and expires: "expires = max t (min (sg_expires_at g) (sn_expires_at s))"
    and verdict: "ra_verdict a = (if directional_verdict (fst (decide g s t)) \<and> prices = None then RV_UNAVAILABLE
       else fst (decide g s t))"
    and eligible: "ra_eligible_for_risk_quote a = risk_eligible (directional_verdict (ra_verdict a))
       (attestation_qualifies p asset (sg_strategy_hash g) t) s attended t expires"
    and a: "ra_strategy_hash a = sg_strategy_hash g" "ra_expires_at a = expires" "assessment_ok a"
  from eligible assms(2) have el: "directional_verdict (ra_verdict a)"
      "attestation_qualifies p asset (sg_strategy_hash g) t" "t < expires"
      "unattended_eligible s \<or> attended \<and> sn_method s = MANUAL_BROWSER"
    by (auto simp: risk_eligible_def)
  then have v: "ra_verdict a = fst (decide g s t)"
    using verdict by (auto simp: directional_verdict_def split: if_splits)
  have d: "decide g s t = (ra_verdict a, snd (decide g s t))" by (simp add: v)
  have "\<not> ra_eligible_to_trade a" using a(3) by (simp add: assessment_ok_def)
  moreover have "expires \<le> sg_expires_at g" "expires \<le> sn_expires_at s" using el(3) by (auto simp: expires)
  ultimately show ?thesis
    using decide_directional [OF d el(1)] el reg a by simp
qed

definition sample_attestation :: "string \<Rightarrow> attestation" where
  "sample_attestation h =
     \<lparr> pa_attestation_id = ''v'', pa_asset_id = ''BTC'', pa_strategy_hash = h,
       pa_validation_artifact_hash = sample_digest, pa_shadow_artifact_hash = sample_digest,
       pa_status = PA_QUALIFIED, pa_issued_at = 0, pa_expires_at = 1000, pa_oos_trades = 120,
       pa_oos_expectancy_r = Dec 2 (- 1), pa_oos_lower_bound_r = Dec 1 (- 1),
       pa_shadow_closed_signals = 60, pa_shadow_elapsed_days = 100,
       pa_shadow_expectancy_r = Dec 2 (- 1), pa_shadow_lower_bound_r = Dec 1 (- 1),
       pa_cost_stress_positive = True, pa_sentiment_incremental_passed = True, pa_drift_passed = True,
       pa_independent_reviewed = True \<rparr>"

definition sample_signal :: "string \<Rightarrow> strategy_signal" where
  "sample_signal h =
     \<lparr> sg_strategy_id = ''candidate-v0'', sg_strategy_version = ''1'', sg_strategy_hash = h,
       sg_instrument = ''BTC'', sg_bar_index = 1000, sg_signal_time = 10, sg_observed_at = 20,
       sg_expires_at = 1000, sg_direction = SD_BUY, sg_reason = ''r'', sg_close = Dec 100 0,
       sg_features = \<lparr> ft_bar_index = 1000, ft_ema_fast = Dec 99 0, ft_ema_slow = Dec 98 0, ft_atr = Dec 10 0,
         ft_donchian_high = Dec 99 0, ft_donchian_low = Dec 90 0, ft_previous_donchian_high = Dec 99 0,
         ft_previous_donchian_low = Dec 90 0 \<rparr>, sg_candle_chain_hash = sample_digest \<rparr>"

lemma sample_bracket:
  "bracket RV_BUY (sample_signal h) candidate_v0 = Inr (Some (Dec 100 0, Dec 850 (- 1), Dec 130 0))"
  by (simp add: bracket_def sample_signal_def candidate_v0_def context_eval)

lemma sample_hashes:
  "\<exists>k. signal_hash (sample_signal h) = Inr k \<and> sha256_shaped k"
  "\<exists>k. attestation_hash (sample_attestation h) = Inr k \<and> sha256_shaped k"
proof -
  have b: "bounded (Dec 99 0)" "bounded (Dec 98 0)" "bounded (Dec 10 0)" "bounded (Dec 90 0)" "bounded (Dec 100 0)"
    "bounded (Dec 2 (- 1))" "bounded (Dec 1 (- 1))"
    by (simp_all add: decimal_eval)
  have "is_ok (canonical_data (features_val (sg_features (sample_signal h))))"
    unfolding features_val_def sample_signal_def
    by (intro is_ok_record_val) (simp_all add: b del: canonical_data.simps(2))
  then show "\<exists>k. signal_hash (sample_signal h) = Inr k \<and> sha256_shaped k"
    unfolding signal_hash_def using b
    by (intro record_hash_total) (simp_all add: sample_signal_def del: canonical_data.simps(2))
  show "\<exists>k. attestation_hash (sample_attestation h) = Inr k \<and> sha256_shaped k"
    unfolding attestation_hash_def attestation_val_def using b
    by (intro record_hash_total) (simp_all add: sample_attestation_def del: canonical_data.simps(2))
qed

definition sample_assessment :: "string \<Rightarrow> string \<Rightarrow> string \<Rightarrow> string \<Rightarrow> registered_assessment" where
  "sample_assessment h signal attestation artifact =
     \<lparr> ra_assessment_id = ''v'', ra_asset_id = ''BTC'', ra_instrument = ''BTC'', ra_created_at = 30,
       ra_expires_at = 1000, ra_strategy_hash = h, ra_signal_hash = signal,
       ra_sentiment_hash = sample_digest, ra_attestation_hash = Some attestation, ra_verdict = RV_BUY,
       ra_reason_codes = [''registered_buy_sentiment_not_bearish''],
       ra_reference_price = Some (Dec 100 0), ra_stop_price = Some (Dec 850 (- 1)),
       ra_target_price = Some (Dec 130 0), ra_eligible_for_risk_quote = True,
       ra_eligible_to_trade = False, ra_artifact_hash = artifact \<rparr>"

lemma sample_artifact:
  "\<exists>k. registered_artifact_hash (sample_assessment h signal attestation x) = Inr k \<and> sha256_shaped k"
proof -
  have b: "bounded (Dec 100 0)" "bounded (Dec 850 (- 1))" "bounded (Dec 130 0)"
    by (simp_all add: decimal_eval)
  then show ?thesis
    unfolding registered_artifact_hash_def registered_payload_def sample_assessment_def
    by (intro record_hash_total) (simp_all add: opt_val_def del: canonical_data.simps(2))
qed

lemma sample_registered:
  "\<exists>h a. registration_hash candidate_v0 = Inr h
    \<and> build_registered_assessment ''v'' ''BTC'' (sample_signal h) sample_snapshot
      (Some (sample_attestation h)) 30 candidate_v0 False = Inr a
    \<and> ra_verdict a = RV_BUY \<and> ra_eligible_for_risk_quote a"
proof -
  have "bounded (rs_stop_atr_multiple candidate_v0)" "bounded (rs_target_atr_multiple candidate_v0)"
    by (simp_all add: candidate_v0_def decimal_eval)
  then obtain h where h: "registration_hash candidate_v0 = Inr h" "sha256_shaped h"
    using registration_hash_total by blast
  obtain k m where km: "signal_hash (sample_signal h) = Inr k" "sha256_shaped k"
      "attestation_hash (sample_attestation h) = Inr m" "sha256_shaped m"
    using sample_hashes by blast
  obtain x where x: "registered_artifact_hash (sample_assessment h k m '''') = Inr x" "sha256_shaped x"
    using sample_artifact by blast
  have "registered_artifact_hash ((sample_assessment h k m '''')\<lparr>ra_artifact_hash := x\<rparr>) = Inr x"
    using x(1) by (simp only: artifact_hash_ignores)
  moreover have "lenient_positive ValidationError (In_Decimal (Dec 100 0)) = Inr (Dec 100 0)"
      "lenient_positive ValidationError (In_Decimal (Dec 850 (- 1))) = Inr (Dec 850 (- 1))"
      "lenient_positive ValidationError (In_Decimal (Dec 130 0)) = Inr (Dec 130 0)"
      "Dec 850 (- 1) < Dec 100 0" "Dec 100 0 < Dec 130 0"
    by (simp_all add: decimal_eval)
  moreover have "bounded_text_ok 64 ''BTC''" "stable_reason 128 ''registered_buy_sentiment_not_bearish''"
    by code_simp+
  ultimately have made: "make_registered_assessment
     \<lparr> ra_assessment_id = ''v'', ra_asset_id = ''BTC'', ra_instrument = ''BTC'', ra_created_at = 30,
       ra_expires_at = 1000, ra_strategy_hash = h, ra_signal_hash = k,
       ra_sentiment_hash = sample_digest, ra_attestation_hash = Some m, ra_verdict = RV_BUY,
       ra_reason_codes = [''registered_buy_sentiment_not_bearish''],
       ra_reference_price = Some (In_Decimal (Dec 100 0)), ra_stop_price = Some (In_Decimal (Dec 850 (- 1))),
       ra_target_price = Some (In_Decimal (Dec 130 0)), ra_eligible_for_risk_quote = True,
       ra_eligible_to_trade = False, ra_artifact_hash = x \<rparr> = Inr (sample_assessment h k m x)"
    using h(2) km(2,4) sample_digest_shaped sample_texts
    by (simp add: make_registered_assessment_def sample_assessment_def optional_price_def directional_verdict_def
        ordered_bracket_def)
  have live: "attestation_qualifies (Some (sample_attestation h)) ''BTC'' h 30"
      "attestation_reasons (Some (sample_attestation h)) ''BTC'' h 30 = []"
    by (simp_all add: attestation_qualifies_def attestation_reasons_def attestation_active_def
        sample_attestation_def decimal_eval)
  have g: "sg_strategy_hash (sample_signal h) = h" "sg_expires_at (sample_signal h) = 1000"
      "sg_instrument (sample_signal h) = ''BTC''"
      "decide (sample_signal h) sample_snapshot 30 = (RV_BUY, [''registered_buy_sentiment_not_bearish''])"
    by (simp_all add: decide_def sample_sentiment_live) (simp_all add: sample_signal_def)
  have "build_registered_assessment ''v'' ''BTC'' (sample_signal h) sample_snapshot
      (Some (sample_attestation h)) 30 candidate_v0 False = Inr (sample_assessment h k m x)"
    using made x(1) sample_texts
    by (simp add: build_registered_assessment_def h g live km sample_sentiment_live sample_bracket
        directional_verdict_def risk_eligible_def sentiment_method_reasons_def sample_assessment_def)
  with h(1) show ?thesis
    by (intro exI [of _ h] exI [of _ "sample_assessment h k m x"]) (simp add: sample_assessment_def)
qed

lemma registered_eligibility_witness:
  "\<exists>h a. build_registered_assessment ''v'' ''BTC'' (sample_signal h) sample_snapshot
      (Some (sample_attestation h)) 30 candidate_v0 False = Inr a
    \<and> ra_verdict a = RV_BUY \<and> ra_eligible_for_risk_quote a \<and> \<not> ra_eligible_to_trade a"
proof -
  obtain h a where a: "build_registered_assessment ''v'' ''BTC'' (sample_signal h) sample_snapshot
      (Some (sample_attestation h)) 30 candidate_v0 False = Inr a" "ra_verdict a = RV_BUY"
      "ra_eligible_for_risk_quote a"
    using sample_registered by (elim exE conjE)
  from registered_eligibility [OF a(1,3)] a show ?thesis
    by (intro exI [of _ h] exI [of _ a] conjI) simp_all
qed

end
