(* ===== verification/Sha256_Eval.thy ===== *)
theory Sha256_Eval
  imports Sha256
begin

text \<open>
  An evaluation scheme for SHA-256 on natural-number literals, proved equal to the definition:
  the message schedule becomes a sliding window of sixteen words and every 32-bit operation an
  operation on \<open>nat\<close> whose result is cut at 32 bits.  With it the simplifier computes the
  digest of a concrete message, which the known-answer tests at the end do.
\<close>

unbundle bit_operations_syntax

section \<open>The schedule as a sliding window\<close>

definition extend :: "32 word list \<Rightarrow> nat \<Rightarrow> 32 word" where
  "extend acc t =
     acc ! (t - 16)
     + (word_rotr 7 (acc ! (t - 15)) XOR word_rotr 18 (acc ! (t - 15)) XOR drop_bit 3 (acc ! (t - 15)))
     + acc ! (t - 7)
     + (word_rotr 17 (acc ! (t - 2)) XOR word_rotr 19 (acc ! (t - 2)) XOR drop_bit 10 (acc ! (t - 2)))"

definition schedule_to :: "32 word list \<Rightarrow> nat \<Rightarrow> 32 word list" where
  "schedule_to ws n = foldl (\<lambda>acc t. acc @ [extend acc t]) ws [16..<n]"

lemma schedule_to: "schedule ws = schedule_to ws 64"
  unfolding schedule_def schedule_to_def extend_def Let_def by (simp only: ac_simps)

lemma schedule_to_Suc: "16 \<le> n \<Longrightarrow> schedule_to ws (Suc n) = schedule_to ws n @ [extend (schedule_to ws n) n]"
  by (simp add: schedule_to_def)

lemma schedule_to_16 [simp]: "schedule_to ws 16 = ws"
  by (simp add: schedule_to_def)

lemma length_schedule_to:
  assumes "length ws = 16" "16 \<le> n"
  shows "length (schedule_to ws n) = n"
  using assms(2)
proof (induction n rule: dec_induct)
  case base
  show ?case by (simp add: assms(1))
next
  case (step n)
  then show ?case by (simp add: schedule_to_Suc)
qed

lemma schedule_to_prefix:
  assumes "length ws = 16" "16 \<le> m" "m \<le> n"
  shows "take m (schedule_to ws n) = schedule_to ws m"
  using assms(3)
proof (induction n rule: dec_induct)
  case base
  show ?case by (simp add: assms length_schedule_to)
next
  case (step n)
  then show ?case using assms(1,2) by (simp add: schedule_to_Suc length_schedule_to)
qed

definition slide :: "32 word list \<Rightarrow> 32 word list" where
  "slide w = tl w @ [extend w 16]"

lemma slide_window:
  assumes "length ws = 16"
  shows "slide (drop i (schedule_to ws (i + 16))) = drop (Suc i) (schedule_to ws (Suc i + 16))"
proof -
  let ?s = "schedule_to ws (i + 16)"
  have len: "length ?s = i + 16" using assms by (simp add: length_schedule_to)
  have "extend (drop i ?s) 16 = extend ?s (i + 16)"
    by (simp add: extend_def len algebra_simps)
  moreover have "schedule_to ws (Suc i + 16) = ?s @ [extend ?s (i + 16)]"
    using schedule_to_Suc [of "i + 16" ws] by simp
  ultimately show ?thesis using len
    by (simp add: slide_def tl_drop drop_Suc)
qed

fun wrun :: "32 word list \<Rightarrow> 32 word list \<Rightarrow> 32 word list \<Rightarrow> 32 word list" where
  "wrun [] w hs = hs"
| "wrun (k # ks) w hs = wrun ks (slide w) (round256 hs (k, hd w))"

lemma wrun_rounds:
  assumes "length ws = 16" "i + length ks \<le> 64"
  shows "wrun ks (drop i (schedule_to ws (i + 16))) hs = foldl round256 hs (zip ks (drop i (schedule ws)))"
  using assms(2)
proof (induction ks arbitrary: i hs)
  case (Cons k ks)
  have i: "i < 64" "i + 16 \<le> 80" using Cons.prems by simp_all
  have len: "length (schedule ws) = 64" using assms(1) by (simp add: schedule_to length_schedule_to)
  have all: "schedule ws ! i = schedule_to ws (i + 16) ! i"
  proof -
    have "take 64 (schedule_to ws 80) = schedule ws" "take (i + 16) (schedule_to ws 80) = schedule_to ws (i + 16)"
      using assms(1) i by (simp_all add: schedule_to schedule_to_prefix)
    then show ?thesis using i(1) by (metis nth_take less_add_same_cancel1 zero_less_numeral)
  qed
  have "hd (drop i (schedule_to ws (i + 16))) = schedule ws ! i"
    using assms(1) by (simp add: all hd_drop_conv_nth length_schedule_to)
  moreover have "drop i (schedule ws) = schedule ws ! i # drop (Suc i) (schedule ws)"
    using i(1) len by (simp add: Cons_nth_drop_Suc)
  ultimately show ?case
    using Cons.IH [of "Suc i"] Cons.prems by (simp add: slide_window [OF assms(1), simplified])
qed simp

lemma block256_wrun: "length ws = 16 \<Longrightarrow> block256 hs ws = map2 (+) hs (wrun k256 ws hs)"
  using wrun_rounds [of ws 0 k256 hs] by (simp add: block256_def k256_def)


section \<open>Words as natural numbers\<close>

definition rot :: "nat \<Rightarrow> nat \<Rightarrow> nat" where
  "rot n x = drop_bit n x OR push_bit (32 - n) (take_bit n x)"

lemma unat_rotr: "0 < n \<Longrightarrow> n < 32 \<Longrightarrow> unat (word_rotr n (w :: 32 word)) = rot n (unat w)"
proof (rule bit_eqI)
  fix i assume n: "0 < n" "n < 32"
  show "bit (unat (word_rotr n w)) i = bit (rot n (unat w)) i"
  proof (cases "i < 32")
    case True
    then have "(i + n) mod 32 = (if i + n < 32 then i + n else i + n - 32)"
      using n by (simp add: le_mod_geq)
    then show ?thesis using n True
      by (auto simp: rot_def bit_simps bit_word_rotr_iff add.commute dest: bit_imp_le_length)
  next
    case False
    then show ?thesis using n
      by (auto simp: rot_def bit_simps bit_word_rotr_iff dest: bit_imp_le_length)
  qed
qed

lemma unat_add32: "unat (a + b :: 32 word) = take_bit 32 (unat a + unat b)"
  by (simp add: unat_word_ariths take_bit_eq_mod)

lemma unat_choose: "unat (NOT e :: 32 word) AND unat (g :: 32 word) = unat g XOR (unat e AND unat g)"
proof -
  have "NOT e AND g = g XOR (e AND g)"
    by (rule bit_word_eqI) (auto simp: bit_simps)
  then show ?thesis by (simp flip: unsigned_xor_eq unsigned_and_eq)
qed

lemma unat_drop32: "unat (drop_bit n (a :: 32 word)) = drop_bit n (unat a)"
  by (simp add: unsigned_drop_bit_eq take_bit_word_eq_self flip: unsigned_take_bit_eq)

lemmas unat_ops = unat_rotr unat_add32 unat_choose unat_drop32 unsigned_xor_eq unsigned_and_eq

definition finish :: "nat \<Rightarrow> nat \<Rightarrow> nat \<Rightarrow> nat \<Rightarrow> nat \<Rightarrow> nat \<Rightarrow> nat \<Rightarrow> nat \<Rightarrow> nat \<Rightarrow> nat list" where
  "finish a b c d e f g t1 t2 = [take_bit 32 (t1 + t2), a, b, c, take_bit 32 (d + t1), e, f, g]"

fun nround :: "nat list \<Rightarrow> nat \<times> nat \<Rightarrow> nat list" where
  "nround [a, b, c, d, e, f, g, h] (k, w) =
     finish a b c d e f g
       (take_bit 32 (h + (rot 6 e XOR rot 11 e XOR rot 25 e) + ((e AND f) XOR (g XOR (e AND g))) + k + w))
       (take_bit 32 ((rot 2 a XOR rot 13 a XOR rot 22 a) + ((a AND b) XOR (a AND c) XOR (b AND c))))"
| "nround hs _ = hs"

fun nslide :: "nat list \<Rightarrow> nat list" where
  "nslide [w0, w1, w2, w3, w4, w5, w6, w7, w8, w9, w10, w11, w12, w13, w14, w15] =
     [w1, w2, w3, w4, w5, w6, w7, w8, w9, w10, w11, w12, w13, w14, w15,
      take_bit 32 (w0 + (rot 7 w1 XOR rot 18 w1 XOR drop_bit 3 w1) + w9
        + (rot 17 w14 XOR rot 19 w14 XOR drop_bit 10 w14))]"
| "nslide w = w"

fun nrun :: "nat list \<Rightarrow> nat list \<Rightarrow> nat list \<Rightarrow> nat list" where
  "nrun [] w hs = hs"
| "nrun (k # ks) w hs = nrun ks (nslide w) (nround hs (k, hd w))"

lemma take_add32: "take_bit 32 (take_bit 32 a + b) = take_bit 32 (a + b :: nat)"
  "take_bit 32 (b + take_bit 32 a) = take_bit 32 (b + a :: nat)"
  by (simp_all add: take_bit_eq_mod mod_simps)

lemma unat_round:
  assumes "length hs = 8"
  shows "map unat (round256 hs (k, w)) = nround (map unat hs) (unat k, unat w)"
proof -
  from assms obtain a b c d e f g h where "hs = [a, b, c, d, e, f, g, h]"
    by (auto simp: numeral_eq_Suc length_Suc_conv)
  then show ?thesis
    by (simp add: Let_def finish_def unat_ops take_add32)
qed

lemma unat_slide:
  assumes "length w = 16"
  shows "map unat (slide w) = nslide (map unat w)"
proof -
  from assms obtain a0 a1 a2 a3 a4 a5 a6 a7 a8 a9 a10 a11 a12 a13 a14 a15 where
      "w = [a0, a1, a2, a3, a4, a5, a6, a7, a8, a9, a10, a11, a12, a13, a14, a15]"
    by (auto simp: numeral_eq_Suc length_Suc_conv)
  then show ?thesis
    by (simp add: slide_def extend_def unat_ops take_add32)
qed

lemma unat_run:
  "length w = 16 \<Longrightarrow> length hs = 8 \<Longrightarrow> map unat (wrun ks w hs) = nrun (map unat ks) (map unat w) (map unat hs)"
proof (induction ks arbitrary: w hs)
  case (Cons k ks)
  have "length (slide w) = 16" "length (round256 hs (k, hd w)) = 8" "w \<noteq> []"
    using Cons.prems by (auto simp: slide_def length_round256)
  then show ?case
    using Cons.prems by (simp add: Cons.IH unat_round unat_slide hd_map)
qed simp


definition nk256 :: "nat list" where
  "nk256 = [
    1116352408, 1899447441, 3049323471, 3921009573, 961987163, 1508970993, 2453635748, 2870763221,
    3624381080, 310598401, 607225278, 1426881987, 1925078388, 2162078206, 2614888103, 3248222580,
    3835390401, 4022224774, 264347078, 604807628, 770255983, 1249150122, 1555081692, 1996064986,
    2554220882, 2821834349, 2952996808, 3210313671, 3336571891, 3584528711, 113926993, 338241895,
    666307205, 773529912, 1294757372, 1396182291, 1695183700, 1986661051, 2177026350, 2456956037,
    2730485921, 2820302411, 3259730800, 3345764771, 3516065817, 3600352804, 4094571909, 275423344,
    430227734, 506948616, 659060556, 883997877, 958139571, 1322822218, 1537002063, 1747873779,
    1955562222, 2024104815, 2227730452, 2361852424, 2428436474, 2756734187, 3204031479, 3329325298]"

lemma nk256: "map unat k256 = nk256"
  by (simp add: k256_def nk256_def)

definition nh256 :: "nat list" where
  "nh256 = [1779033703, 3144134277, 1013904242, 2773480762, 1359893119, 2600822924, 528734635, 1541459225]"

lemma nh256: "map unat h256 = nh256"
  by (simp add: h256_def nh256_def)

definition nblock :: "nat list \<Rightarrow> nat list \<Rightarrow> nat list" where
  "nblock hs w = map2 (\<lambda>a b. take_bit 32 (a + b)) hs (nrun nk256 w hs)"

lemma map_unat_add: "map unat (map2 (+) as bs) = map2 (\<lambda>a b. take_bit 32 (a + b)) (map unat as) (map unat bs)"
  for as :: "32 word list"
  by (induction as bs rule: list_induct2') (simp_all add: unat_add32)

lemma unat_block:
  "length w = 16 \<Longrightarrow> length hs = 8 \<Longrightarrow> map unat (block256 hs w) = nblock (map unat hs) (map unat w)"
  by (simp only: block256_wrun map_unat_add unat_run nk256 nblock_def)

lemma unat_blocks:
  "list_all (\<lambda>b. length b = 16) bs \<Longrightarrow> length hs = 8 \<Longrightarrow> map unat ws = concat bs \<Longrightarrow>
   map unat (blocks256 hs ws) = foldl nblock (map unat hs) bs"
proof (induction bs arbitrary: hs ws)
  case Nil
  then show ?case by (simp add: blocks256.simps)
next
  case (Cons b bs)
  have b: "map unat (take 16 ws) = b" "map unat (drop 16 ws) = concat bs"
    using Cons.prems by (simp_all flip: take_map drop_map)
  then have "length (take 16 ws) = 16"
    using Cons.prems(1) length_map [of unat "take 16 ws"] by (simp only: b(1) list.pred_inject simp_thms)
  moreover have "length (block256 hs (take 16 ws)) = 8"
    using Cons.prems(2) by (simp add: block256_def length_rounds256)
  moreover have "ws \<noteq> []" using \<open>length (take 16 ws) = 16\<close> by auto
  ultimately show ?case
    using Cons.prems b by (subst blocks256.simps) (simp add: Cons.IH unat_block)
qed

definition nhex :: "nat \<Rightarrow> string" where
  "nhex n = map (\<lambda>i. hex_digit (n div 16 ^ (7 - i))) [0..<8]"

lemma length_h256: "length h256 = 8"
  by (simp add: h256_def)

lemma sha256_by_blocks:
  assumes "map unat (be32 (pad256 m)) = concat bs" "list_all (\<lambda>b. length b = 16) bs"
    and "foldl nblock nh256 bs = hs"
  shows "sha256_hex m = concat (map nhex hs)"
proof -
  have "map unat (blocks256 h256 (be32 (pad256 m))) = hs"
    using unat_blocks [OF assms(2) _ assms(1), of h256] assms(3) by (simp only: nh256 length_h256)
  moreover have "map hex32 ws = map nhex (map unat ws)" for ws
    by (simp add: hex32_def nhex_def)
  ultimately show ?thesis by (simp only: sha256_hex_def)
qed


section \<open>Padding\<close>

lemma unat_utf8: "list_all (\<lambda>c. (of_char c :: nat) < 128) s \<Longrightarrow> map unat (utf8 s) = map of_char s"
  by (induction s) (simp_all add: utf8_def Let_def unat_of_nat)

definition padding :: "nat \<Rightarrow> nat list" where
  "padding n = 128 # replicate ((119 - n mod 64) mod 64) 0 @ map (\<lambda>i. (8 * n div 256 ^ (7 - i)) mod 256) [0..<8]"

lemma unat_pad: "map unat (pad256 m) = map unat m @ padding (length m)"
  by (simp add: pad256_def padding_def Let_def unat_of_nat)

fun nbe32 :: "nat list \<Rightarrow> nat list" where
  "nbe32 (a # b # c # d # r) = take_bit 32 (((a * 256 + b) * 256 + c) * 256 + d) # nbe32 r"
| "nbe32 _ = []"

lemma unat_be32: "map unat (be32 bs) = nbe32 (map unat bs)"
proof (induction bs rule: be32.induct)
  case (1 a b c d r)
  have "unat (word_of_nat n :: 32 word) = take_bit 32 n" for n
    by (simp add: unat_of_nat take_bit_eq_mod)
  with 1 show ?case by (simp only: be32.simps nbe32.simps list.map)
qed simp_all

lemma sha256_text:
  assumes "list_all (\<lambda>c. (of_char c :: nat) < 128) s" "length s = n" "map of_char s = cs"
    and "nbe32 (cs @ padding n) = concat bs"
    and "list_all (\<lambda>b. length b = 16) bs" "foldl nblock nh256 bs = hs"
  shows "sha256_hex (utf8 s) = concat (map nhex hs)"
proof (rule sha256_by_blocks [OF _ assms(5,6)])
  have "length (utf8 s) = n" using unat_utf8 [OF assms(1)] assms(2) by (metis length_map)
  then show "map unat (be32 (pad256 (utf8 s))) = concat bs"
    by (simp add: unat_be32 unat_pad unat_utf8 [OF assms(1)] assms(3,4))
qed

lemma replicate_numeral: "replicate (numeral k) x = x # replicate (pred_numeral k) x"
  by (simp add: numeral_eq_Suc)

lemma eight_places: "[0..<8] = [0, 1, 2, 3, 4, 5, 6, 7]"
  by (simp add: upt_rec)

lemmas padding_eval = padding_def eight_places replicate_numeral
lemmas round_eval = nblock_def nh256_def nk256_def finish_def rot_def

section \<open>Known answers\<close>

lemma nhex_digits: "nhex n = map hex_digit [n div 268435456, n div 16777216, n div 1048576, n div 65536,
    n div 4096, n div 256, n div 16, n]"
  by (simp add: nhex_def eight_places)

lemmas hex_eval = nhex_digits hex_digit_def

lemma abc_digest:
  "sha256_hex (utf8 ''abc'') = ''ba7816bf8f01cfea414140de5dae2223b00361a396177a9cb410ff61f20015ad''"
proof -
  have "foldl nblock nh256 [[1633837952, 0, 0, 0, 0, 0, 0, 0, 0, 0, 0, 0, 0, 0, 0, 24]]
      = [3128432319, 2399260650, 1094795486, 1571693091, 2953011619, 2518121116, 3021012833, 4060091821]"
    by (simp add: round_eval)
  then have "sha256_hex (utf8 ''abc'') = concat (map nhex
      [3128432319, 2399260650, 1094795486, 1571693091, 2953011619, 2518121116, 3021012833, 4060091821])"
    by (intro sha256_text [where n = 3 and cs = "[97, 98, 99]"
        and bs = "[[1633837952, 0, 0, 0, 0, 0, 0, 0, 0, 0, 0, 0, 0, 0, 0, 24]]"]) (simp_all add: padding_eval)
  then show ?thesis by (simp add: hex_eval)
qed

end
