(* ===== verification/Sample_Cloids.thy ===== *)
theory Sample_Cloids
  imports Decision_Properties Sha256_Eval
begin

text \<open>
  The client order IDs of the three legs of a sample plan, computed by the SHA-256 of the model
  block by block, so that the witness of a passing risk ticket can run the whole quote.
\<close>

section \<open>Client order IDs\<close>

lemma seed_block:
  "nblock nh256
     [1886547828, 1701016677, 1680699500, 1634610550, 825909601, 1633771873, 1633771873, 1633771873, 1633771873, 1633771873, 1633771873, 1633771873, 1633771873, 1633771873, 1633771873, 1633771873]
   = [3808021210, 1925025363, 541340156, 3204898556, 2691079889, 2356572004, 803880265, 213184731]"
  by (simp add: round_eval)

lemma seed_block2:
  "nblock [3808021210, 1925025363, 541340156, 3204898556, 2691079889, 2356572004, 803880265, 213184731]
     [1633771873, 1633771873, 1633771873, 1633771873, 1633761889, 1633771873, 1633771873, 1633771873, 1633771873, 1633771873, 1633771873, 1633771873, 1633771873, 1633771873, 1633771873, 1633771873]
   = [853180171, 879604608, 2485103072, 4244120996, 3828393948, 3711957907, 280263082, 2019742619]"
  by (simp add: round_eval)

lemma entry_block:
  "nblock [853180171, 879604608, 2485103072, 4244120996, 3828393948, 3711957907, 280263082, 2019742619]
     [1633771873, 1633771873, 1633771873, 1633771873, 1633771834, 1949984110, 1953659264, 0, 0, 0, 0, 0, 0, 0, 0, 1240]
   = [753177148, 2814645752, 2376612535, 2931430358, 1262472333, 2576081843, 1014873125, 3096719363]"
  by (simp add: round_eval)

lemma stop_block:
  "nblock [853180171, 879604608, 2485103072, 4244120996, 3828393948, 3711957907, 280263082, 2019742619]
     [1633771873, 1633771873, 1633771873, 1633771873, 1633771834, 1949987700, 1869643776, 0, 0, 0, 0, 0, 0, 0, 0, 1232]
   = [2944136, 1458241175, 4175308409, 3904249059, 4261454500, 2026402602, 2642085987, 1852533240]"
  by (simp add: round_eval)

lemma target_block:
  "nblock [853180171, 879604608, 2485103072, 4244120996, 3828393948, 3711957907, 280263082, 2019742619]
     [1633771873, 1633771873, 1633771873, 1633771873, 1633771834, 1949987937, 1919378804, 2147483648, 0, 0, 0, 0, 0, 0, 0, 1248]
   = [3607307734, 2375368144, 729156, 2697330490, 1144537289, 1166995409, 1933682081, 2402688788]"
  by (simp add: round_eval)


definition sample_seed :: string where
  "sample_seed = sample_digest @ '':'' @ sample_digest @ '':t''"

lemma sample_digest_chars: "map of_char sample_digest = replicate 64 (97 :: nat)"
  by (simp add: sample_digest_def)

lemma length_sample_digest: "length sample_digest = 64"
  by (simp add: sample_digest_def)

lemma digest_ascii: "list_all (\<lambda>c. (of_char c :: nat) < 128) sample_digest"
  by (simp add: sample_digest_def list_all_iff)

lemmas seed_eval = sample_seed_def sample_digest_chars length_sample_digest digest_ascii

lemma entry_cloid: "cloid sample_seed ''entry'' = ''0x2ce4923ca7c415f88da83ab7aeba13d6''"
proof -
  have "sha256_hex (utf8 (''protected-plan-v1:'' @ sample_seed @ '':'' @ ''entry'')) = concat (map nhex
      [753177148, 2814645752, 2376612535, 2931430358, 1262472333, 2576081843, 1014873125, 3096719363])"
    by (rule sha256_text [where n = 155 and bs = "[[1886547828, 1701016677, 1680699500, 1634610550, 825909601, 1633771873, 1633771873, 1633771873, 1633771873, 1633771873, 1633771873, 1633771873, 1633771873, 1633771873, 1633771873, 1633771873],
        [1633771873, 1633771873, 1633771873, 1633771873, 1633761889, 1633771873, 1633771873, 1633771873, 1633771873, 1633771873, 1633771873, 1633771873, 1633771873, 1633771873, 1633771873, 1633771873],
        [1633771873, 1633771873, 1633771873, 1633771873, 1633771834, 1949984110, 1953659264, 0, 0, 0, 0, 0, 0, 0, 0, 1240]]", OF _ _ refl])
      (simp_all add: seed_eval padding_eval seed_block seed_block2 entry_block)
  then show ?thesis by (simp add: cloid_def hex_eval)
qed

lemma stop_cloid: "cloid sample_seed ''stop'' = ''0x002cec8856eafe97f8de2679e8b61ce3''"
proof -
  have "sha256_hex (utf8 (''protected-plan-v1:'' @ sample_seed @ '':'' @ ''stop'')) = concat (map nhex
      [2944136, 1458241175, 4175308409, 3904249059, 4261454500, 2026402602, 2642085987, 1852533240])"
    by (rule sha256_text [where n = 154 and bs = "[[1886547828, 1701016677, 1680699500, 1634610550, 825909601, 1633771873, 1633771873, 1633771873, 1633771873, 1633771873, 1633771873, 1633771873, 1633771873, 1633771873, 1633771873, 1633771873],
        [1633771873, 1633771873, 1633771873, 1633771873, 1633761889, 1633771873, 1633771873, 1633771873, 1633771873, 1633771873, 1633771873, 1633771873, 1633771873, 1633771873, 1633771873, 1633771873],
        [1633771873, 1633771873, 1633771873, 1633771873, 1633771834, 1949987700, 1869643776, 0, 0, 0, 0, 0, 0, 0, 0, 1232]]", OF _ _ refl])
      (simp_all add: seed_eval padding_eval seed_block seed_block2 stop_block)
  then show ?thesis by (simp add: cloid_def hex_eval)
qed

lemma target_cloid: "cloid sample_seed ''target'' = ''0xd70325d68d953dd0000b2044a0c5ff3a''"
proof -
  have "sha256_hex (utf8 (''protected-plan-v1:'' @ sample_seed @ '':'' @ ''target'')) = concat (map nhex
      [3607307734, 2375368144, 729156, 2697330490, 1144537289, 1166995409, 1933682081, 2402688788])"
    by (rule sha256_text [where n = 156 and bs = "[[1886547828, 1701016677, 1680699500, 1634610550, 825909601, 1633771873, 1633771873, 1633771873, 1633771873, 1633771873, 1633771873, 1633771873, 1633771873, 1633771873, 1633771873, 1633771873],
        [1633771873, 1633771873, 1633771873, 1633771873, 1633761889, 1633771873, 1633771873, 1633771873, 1633771873, 1633771873, 1633771873, 1633771873, 1633771873, 1633771873, 1633771873, 1633771873],
        [1633771873, 1633771873, 1633771873, 1633771873, 1633771834, 1949987937, 1919378804, 2147483648, 0, 0, 0, 0, 0, 0, 0, 1248]]", OF _ _ refl])
      (simp_all add: seed_eval padding_eval seed_block seed_block2 target_block)
  then show ?thesis by (simp add: cloid_def hex_eval)
qed

end
