(* ===== verification/Quote_Properties.thy ===== *)
theory Quote_Properties
  imports Sample_Cloids
begin

text \<open>
  The properties of position sizing, protected plans and risk tickets. The witness of a ticket
  that passes runs the whole quote, down to the client order IDs of its three legs.
\<close>

section \<open>Sizing\<close>

text \<open>A position sized without objection loses no more than the risk budget when it is entered at
  the worst price and stopped at the stressed stop; the budget is within the fraction of equity,
  the remaining daily loss and the remaining open risk, and the reward is worth the risk.\<close>

theorem sizing_within_budget:
  assumes "size_position side entry stop target account policy = Inr z" "sz_reasons z = []"
  shows "sz_stressed_loss z \<le> sz_risk_budget z \<and> 0 < sz_risk_budget z \<and> 0 < sz_quantity z
    \<and> sz_risk_budget z \<le> ac_daily_loss_remaining account \<and> sz_risk_budget z \<le> ac_open_risk_remaining account
    \<and> (\<exists>f. dmul planning_context (ac_equity account) (zp_risk_fraction policy) = Inr f \<and> sz_risk_budget z \<le> f)
    \<and> (\<exists>r. sz_net_rr z = Some r \<and> zp_minimum_net_reward_risk policy \<le> r)
    \<and> 0 < sz_worst_entry z"
  by (rule size_position_limits [OF assms])

definition sample_account :: account_snapshot where
  "sample_account =
     \<lparr> ac_account_id = ''acct'', ac_environment = TESTNET, ac_observed_at = 10, ac_received_at = 20,
       ac_equity = Dec 10000 0, ac_available_collateral = Dec 5000 0,
       ac_daily_loss_remaining = Dec 224 (- 1), ac_open_risk_remaining = Dec 1000 0,
       ac_max_notional = Dec 1002 0, ac_lot_size = Dec 1 (- 3), ac_leverage = Dec 2 0,
       ac_artifact_hash = sample_digest \<rparr>"

definition sample_sizing_policy :: sizing_policy where
  "sample_sizing_policy = default_sizing_policy\<lparr>zp_exit_slippage_bps := Dec 0 0\<rparr>"

definition sample_sizing :: sizing where
  "sample_sizing =
     \<lparr> sz_worst_entry = Dec 100200 (- 3), sz_stressed_stop = Dec 8910 (- 2), sz_worst_target = Dec 1339 (- 1),
       sz_risk_budget = Dec 224 (- 1), sz_quantity = Dec 2 0, sz_stressed_loss = Dec 22400 (- 3),
       sz_expected_loss = Dec 20 0, sz_expected_reward = Dec 67200 (- 3), sz_net_rr = Some (Dec 3 0),
       sz_reasons = [] \<rparr>"

lemma sample_fractions:
  "bps_fraction (Dec 20 0) = Inr (Dec 2 (- 3))" "bps_fraction (Dec 100 0) = Inr (Dec 1 (- 2))"
  "bps_fraction (Dec 10 0) = Inr (Dec 1 (- 3))" "bps_fraction (Dec 0 0) = Inr (Dec 0 0)"
proof -
  have "quotient_digits 96 (Dec 20 0) (Dec 10000 0) = Dec 2 (- 3)"
    by (rule quotient_exact [where m = 3, THEN trans]; simp add: ndigits.simps)
  moreover have "quotient_digits 96 (Dec 100 0) (Dec 10000 0) = Dec 1 (- 2)"
    by (rule quotient_exact [where m = 2, THEN trans]; simp add: ndigits.simps)
  moreover have "quotient_digits 96 (Dec 10 0) (Dec 10000 0) = Dec 1 (- 3)"
    by (rule quotient_exact [where m = 3, THEN trans]; simp add: ndigits.simps)
  ultimately show "bps_fraction (Dec 20 0) = Inr (Dec 2 (- 3))" "bps_fraction (Dec 100 0) = Inr (Dec 1 (- 2))"
    "bps_fraction (Dec 10 0) = Inr (Dec 1 (- 3))" "bps_fraction (Dec 0 0) = Inr (Dec 0 0)"
    by (simp_all add: bps_fraction_def context_eval)
qed

lemma sample_sums:
  "dadd planning_context (Dec 0 0) (Dec 100 0) = Inr (Dec 100 0)"
  "scaled True (Dec 100 0) (Dec 2 (- 3)) = Inr (Dec 100200 (- 3))"
  "scaled False (Dec 90 0) (Dec 1 (- 2)) = Inr (Dec 8910 (- 2))"
  "scaled False (Dec 1339 (- 1)) (Dec 0 0) = Inr (Dec 1339 (- 1))"
  by (simp_all add: scaled_def context_eval)

lemma sample_worst_prices:
  "worst_prices BUY (Dec 100 0) (Dec 90 0) (Dec 1339 (- 1)) sample_sizing_policy
   = Inr (Dec 100200 (- 3), Dec 8910 (- 2), Dec 1339 (- 1))"
  by (simp add: worst_prices_def sample_sizing_policy_def default_sizing_policy_def sample_fractions sample_sums)

lemma sample_distances:
  "dmul planning_context (Dec 100 0) (Dec 1 (- 3)) = Inr (Dec 100 (- 3))"
  "distance (Dec 100200 (- 3)) (Dec 8910 (- 2)) = Inr (Dec 11100 (- 3))"
  "dadd planning_context (Dec 11100 (- 3)) (Dec 100 (- 3)) = Inr (Dec 11200 (- 3))"
  "distance (Dec 1339 (- 1)) (Dec 100200 (- 3)) = Inr (Dec 33700 (- 3))"
  "dsub planning_context (Dec 33700 (- 3)) (Dec 100 (- 3)) = Inr (Dec 33600 (- 3))"
  "distance (Dec 100 0) (Dec 90 0) = Inr (Dec 10 0)"
  by (simp_all add: distance_def context_eval)

lemma sample_unit_economics:
  "unit_economics (Dec 100 0) (Dec 100200 (- 3)) (Dec 8910 (- 2)) (Dec 1339 (- 1)) sample_sizing_policy
   = Inr (Dec 11200 (- 3), Dec 33600 (- 3))"
  by (simp add: unit_economics_def sample_sizing_policy_def default_sizing_policy_def sample_fractions sample_distances)

lemma sample_quotients:
  "ddiv planning_context (Dec 224 (- 1)) (Dec 11200 (- 3)) = Inr (Dec 2 0)"
  "ddiv planning_context (Dec 1002 0) (Dec 100200 (- 3)) = Inr (Dec 1 1)"
  "floor_to_step (Dec 2 0) (Dec 1 (- 3)) = Inr (Dec 2 0)"
  "ddiv planning_context (Dec 67200 (- 3)) (Dec 22400 (- 3)) = Inr (Dec 3 0)"
proof -
  have "quotient_digits 96 (Dec 224 (- 1)) (Dec 11200 (- 3)) = Dec 2 0"
    by (rule quotient_exact [where m = 2, THEN trans]; simp add: ndigits.simps)
  then show "ddiv planning_context (Dec 224 (- 1)) (Dec 11200 (- 3)) = Inr (Dec 2 0)"
    by (simp add: context_eval)
  have "quotient_digits 96 (Dec 1002 0) (Dec 100200 (- 3)) = Dec 1 1"
    by (rule quotient_exact [where m = 2, THEN trans]; simp add: ndigits.simps)
  then show "ddiv planning_context (Dec 1002 0) (Dec 100200 (- 3)) = Inr (Dec 1 1)"
    by (simp add: context_eval)
  have "quotient_digits 96 (Dec 2 0) (Dec 1 (- 3)) = Dec 2 3"
    by (rule quotient_exact [where m = 0, THEN trans]; simp add: ndigits.simps)
  then show "floor_to_step (Dec 2 0) (Dec 1 (- 3)) = Inr (Dec 2 0)"
    by (simp add: floor_to_step_def to_integral_floor_def context_eval)
  have "quotient_digits 96 (Dec 67200 (- 3)) (Dec 22400 (- 3)) = Dec 3 0"
    by (rule quotient_exact [where m = 0, THEN trans]; simp add: ndigits.simps)
  then show "ddiv planning_context (Dec 67200 (- 3)) (Dec 22400 (- 3)) = Inr (Dec 3 0)"
    by (simp add: context_eval)
qed

lemma sample_products:
  "dmul planning_context (Dec 10000 0) (Dec 25 (- 4)) = Inr (Dec 250000 (- 4))"
  "dmul planning_context (Dec 5000 0) (Dec 2 0) = Inr (Dec 10000 0)"
  "dmul planning_context (Dec 2 0) (Dec 11200 (- 3)) = Inr (Dec 22400 (- 3))"
  "dmul planning_context (Dec 2 0) (Dec 33600 (- 3)) = Inr (Dec 67200 (- 3))"
  "dmul planning_context (Dec 2 0) (Dec 10 0) = Inr (Dec 20 0)"
  "dmin (dmin (Dec 250000 (- 4)) (Dec 224 (- 1))) (Dec 1000 0) = Dec 224 (- 1)"
  "dmin (Dec 1002 0) (Dec 10000 0) = Dec 1002 0" "dmin (Dec 2 0) (Dec 1 1) = Dec 2 0"
  "\<not> Dec 11200 (- 3) \<le> 0" "\<not> Dec 33600 (- 3) \<le> 0" "\<not> Dec 224 (- 1) \<le> 0"
  "\<not> Dec 100200 (- 3) \<le> 0" "\<not> Dec 22400 (- 3) \<le> 0" "\<not> Dec 2 0 \<le> 0"
  "\<not> Dec 3 0 < Dec 2 0" "\<not> Dec 224 (- 1) < Dec 22400 (- 3)"
  by (simp_all add: context_eval)

lemma sample_position:
  "size_position BUY (Dec 100 0) (Dec 90 0) (Dec 1339 (- 1)) sample_account sample_sizing_policy = Inr sample_sizing"
proof -
  have p: "zp_risk_fraction sample_sizing_policy = Dec 25 (- 4)"
    "zp_minimum_net_reward_risk sample_sizing_policy = Dec 2 0"
    by (simp_all add: sample_sizing_policy_def default_sizing_policy_def)
  show ?thesis
    by (simp add: size_position_def sample_worst_prices sample_unit_economics p sample_account_def sample_products
        sample_quotients sample_distances Let_def sizing_reasons_def sample_sizing_def)
qed

lemma sizing_within_budget_witness:
  "sz_stressed_loss sample_sizing \<le> sz_risk_budget sample_sizing \<and> 0 < sz_quantity sample_sizing"
proof -
  have "sz_reasons sample_sizing = []" by (simp add: sample_sizing_def)
  from sizing_within_budget [OF sample_position this] show ?thesis by blast
qed


section \<open>A ticket that passes\<close>

definition sample_identity :: plan_identity where
  "sample_identity =
     \<lparr> pi_thesis_id = ''thesis'', pi_thesis_version = ''1'', pi_strategy_version = ''v'', pi_venue = ''sim'',
       pi_account_id = ''acct'', pi_environment = TESTNET, pi_instrument = ''BTC'' \<rparr>"

definition sample_priced :: technical_snapshot where
  "sample_priced = sample_technical\<lparr>ts_target_price := Some (Dec 1339 (- 1))\<rparr>"

definition sample_opportunity :: "string \<Rightarrow> opportunity_assessment" where
  "sample_opportunity h =
     \<lparr> oa_assessment_id = ''a'', oa_asset_id = ''BTC'', oa_created_at = 25, oa_expires_at = 900000020,
       oa_policy_version = ''v'', oa_technical_hash = h, oa_sentiment_hash = sample_digest,
       oa_profitability_gate_id = Some ''g'', oa_verdict = AV_BUY, oa_reason_codes = [''r''],
       oa_eligible_for_risk_quote = True, oa_eligible_to_trade = False, oa_artifact_hash = sample_digest \<rparr>"

definition sample_basis :: quote_basis where
  "sample_basis =
     \<lparr> qb_registered = False, qb_directional = True, qb_side = BUY, qb_entry = Some (Dec 100 0),
       qb_stop = Some (Dec 90 0), qb_target = Some (Dec 1339 (- 1)), qb_strategy_version = ''v'',
       qb_code_hash = sample_digest, qb_signal_hash = None, qb_reasons = [], qb_eligible = True,
       qb_created_at = 25, qb_expires_at = 900000020, qb_artifact_hash = sample_digest \<rparr>"

definition sample_ambient :: dctx where
  "sample_ambient = \<lparr> prec = 28, rounding = Half_Even, e_min = - 999999, e_max = 999999 \<rparr>"

lemma sample_basis_of:
  "technical_hash sample_priced = Inr h \<Longrightarrow>
   basis_of (Legacy (sample_opportunity h) sample_priced) sample_identity = Inr sample_basis"
  by (simp add: basis_of_def sample_basis_def sample_opportunity_def)
    (simp add: sample_priced_def sample_technical_def)

lemma sample_not_denied: "denial_reasons sample_basis sample_identity sample_account 30 sample_sizing_policy learning = []"
proof -
  have "\<not> Dec 2 0 < Dec 2 0" by (simp add: decimal_eval)
  then show ?thesis
    by (simp add: denial_reasons_def account_fresh_def sample_basis_def sample_identity_def sample_account_def
        sample_sizing_policy_def default_sizing_policy_def seconds_def microsecond_second_def)
qed

definition sample_base :: "decimal_input intent" where
  "sample_base = leg_template sample_identity sample_basis sample_account sample_sizing_policy (Dec 2 0) 60000030"


definition sample_leg :: "string \<Rightarrow> string \<Rightarrow> string \<Rightarrow> semantic_intent" where
  "sample_leg n act ident =
     \<lparr> si_intent_id = n, si_thesis_id = ''thesis'', si_thesis_version = ''1'', si_strategy_version = ''v'',
       si_code_hash = sample_digest, si_venue = ''sim'', si_account_id = ''acct'', si_environment = TESTNET,
       si_instrument = ''BTC'', si_action = act, si_side = SELL, si_quantity = Dec 2 0, si_order_type = STOP,
       si_expires_at = 60000030, si_client_order_id = ident, si_limit_price = None,
       si_price_bound = Some (Dec 8910 (- 2)), si_stop_price = Some (Dec 90 0),
       si_protection_limit_price = Some (Dec 8910 (- 2)), si_reduce_only = True,
       si_leverage = Some (Dec 2 0), si_max_slippage_bps = Dec 100 0, si_fee_bps = Dec 10 0,
       si_time_in_force = None, si_signal_instance_hash = None,
       si_allowed_runtime_fields = [''nonce'', ''signature'', ''signing_timestamp''], si_schema_version = 1 \<rparr>"

definition sample_plan :: "string \<Rightarrow> protected_plan" where
  "sample_plan h =
     \<lparr> pp_assessment_hash = sample_digest,
       pp_entry = (sample_leg ''t-entry'' ''place_order'' ''0x2ce4923ca7c415f88da83ab7aeba13d6'')
         \<lparr> si_side := BUY, si_order_type := MARKET, si_price_bound := Some (Dec 100200 (- 3)),
           si_reduce_only := False, si_max_slippage_bps := Dec 20 0, si_time_in_force := Some ''Ioc'' \<rparr>,
       pp_stop = sample_leg ''t-stop'' ''place_stop'' ''0x002cec8856eafe97f8de2679e8b61ce3'',
       pp_target = (sample_leg ''t-take-profit'' ''place_take_profit'' ''0xd70325d68d953dd0000b2044a0c5ff3a'')
         \<lparr> si_price_bound := Some (Dec 1339 (- 1)), si_stop_price := Some (Dec 1339 (- 1)),
           si_protection_limit_price := None, si_max_slippage_bps := Dec 0 0 \<rparr>,
       pp_plan_hash = h \<rparr>"

lemma sample_legs:
  "make_intent (entry_leg sample_base ''t'' sample_seed sample_sizing (Dec 90 0) sample_sizing_policy)
   = Inr (pp_entry (sample_plan h))"
  "make_intent (stop_leg sample_base ''t'' sample_seed sample_sizing (Dec 90 0) (Dec 100 0))
   = Inr (pp_stop (sample_plan h))"
  "make_intent (target_leg sample_base ''t'' sample_seed sample_sizing (Dec 1339 (- 1)) sample_sizing_policy)
   = Inr (pp_target (sample_plan h))"
  unfolding entry_leg_def stop_leg_def target_leg_def entry_cloid stop_cloid target_cloid
  by code_simp+

lemma plan_payload_hash_total:
  assumes "intent_ok (pp_entry p)" "intent_ok (pp_stop p)" "intent_ok (pp_target p)"
  shows "\<exists>h. payload_hash (plan_payload p) = Inr h \<and> sha256_shaped h"
proof -
  have "is_ok (canonical_data (intent_val i))" if "intent_ok i" for i
    using intent_json_total [OF that] unfolding intent_val_def
    by (intro is_ok_record_val) (auto simp: intent_fields_def intent_values_def seqE_ok)
  with assms have "is_ok (canonical_data (PList [intent_val (pp_entry p), intent_val (pp_stop p), intent_val (pp_target p)]))"
    by (intro is_ok_PList) (auto simp del: canonical_data.simps)
  moreover have "is_ok (canonical_data (PStr x))" for x by simp
  ultimately show ?thesis
    unfolding plan_payload_def
    by (intro record_payload_hash_total) (auto simp del: canonical_data.simps)
qed


lemma sample_plan_built:
  "\<exists>h. build_plan sample_ambient ''t'' sample_basis sample_identity sample_account sample_sizing_policy 60000030
      (Dec 90 0) (Dec 1339 (- 1)) sample_sizing = Inr (sample_plan h)"
proof -
  have "intent_ok (pp_entry (sample_plan ''''))" "intent_ok (pp_stop (sample_plan ''''))"
      "intent_ok (pp_target (sample_plan ''''))"
    using sample_legs [THEN make_intent_ok] by blast+
  then obtain h where h: "payload_hash (plan_payload (sample_plan '''')) = Inr h" "sha256_shaped h"
    using plan_payload_hash_total by blast
  have payload: "plan_payload (sample_plan k) = plan_payload (sample_plan '''')" for k
    by (simp add: plan_payload_def sample_plan_def)
  have "legs_agree (sample_plan h)" "leg_roles (sample_plan h)" "leg_prices (sample_plan h)"
      "distinct (leg_ids (sample_plan h))" "list_all cloid_shaped (leg_ids (sample_plan h))"
    by (simp_all add: legs_agree_def leg_roles_def leg_prices_def leg_ids_def sample_plan_def sample_leg_def
        shared_fields_def cloid_shaped_def is_lower_hex_def decimal_eval)
  then have made: "make_plan (sample_plan h) = Inr (sample_plan h)"
    using sample_digest_shaped h(1) by (simp add: make_plan_Inr_iff plan_ok_def payload [of h]) (simp add: sample_plan_def)
  have slippage: "dadd sample_ambient (Dec 0 0) (Dec 100 0) = Inr (Dec 100 0)"
    by (simp add: sample_ambient_def decimal_eval)
  have draft: "sample_plan h = \<lparr> pp_assessment_hash = sample_digest, pp_entry = pp_entry (sample_plan h),
      pp_stop = pp_stop (sample_plan h), pp_target = pp_target (sample_plan h), pp_plan_hash = h \<rparr>" for h
    by (simp add: sample_plan_def)
  have rehash: "(sample_plan k)\<lparr>pp_plan_hash := h\<rparr> = sample_plan h" for k
    by (simp add: sample_plan_def)
  have keys: "qb_artifact_hash sample_basis = sample_digest" "ac_artifact_hash sample_account = sample_digest"
      "sz_quantity sample_sizing = Dec 2 0" "zp_exit_slippage_bps sample_sizing_policy = Dec 0 0"
      "zp_stop_gap_bps sample_sizing_policy = Dec 100 0"
    by (simp_all add: sample_basis_def sample_account_def sample_sizing_def sample_sizing_policy_def
        default_sizing_policy_def)
  have seed: "sample_digest @ '':'' @ sample_digest @ '':'' @ ''t'' = sample_seed"
    by (simp add: sample_seed_def)
  show ?thesis
    unfolding build_plan_def keys seed Let_def sample_base_def [symmetric] slippage
      sample_legs [where h = "''''"] bindE_simps
    using made h(1) rehash by (intro exI [of _ h]) (simp flip: draft)
qed


lemma sample_priced_hash: "\<exists>h. technical_hash sample_priced = Inr h"
proof -
  have "bounded (Dec 100 0)" "bounded (Dec 99 0)" "bounded (Dec 98 0)" "bounded (Dec 97 0)" "bounded (Dec 60 0)"
    "bounded (Dec 5 0)" "bounded (Dec 90 0)" "bounded (Dec 1339 (- 1))"
    by (simp_all add: decimal_eval)
  then show ?thesis
    unfolding technical_hash_def technical_dict_def sample_priced_def sample_technical_def decimal_text_def opt_text_def
    by (simp add: canonical_decimal_bounded) (rule record_payload_ok, simp_all)
qed

lemma sample_sizing_policy_hash: "\<exists>h. sizing_policy_hash sample_sizing_policy = Inr h \<and> sha256_shaped h"
proof -
  have "bounded (Dec 25 (- 4))" "bounded (Dec 2 0)" "bounded (Dec 20 0)" "bounded (Dec 0 0)" "bounded (Dec 100 0)"
    "bounded (Dec 10 0)"
    by (simp_all add: decimal_eval)
  then show ?thesis
    unfolding sizing_policy_hash_def sizing_policy_val_def
    by (intro record_hash_total)
      (simp_all add: sample_sizing_policy_def default_sizing_policy_def del: canonical_data.simps(2))
qed

lemma sample_ticket:
  "\<exists>tk. passing_ticket ''t'' sample_basis sample_account sample_sizing_policy 30 60000030 sample_sizing
      (sample_plan k) = Inr tk"
proof -
  obtain p where p: "sizing_policy_hash sample_sizing_policy = Inr p" "sha256_shaped p"
    using sample_sizing_policy_hash by blast
  have b: "bounded (Dec 224 (- 1))" "bounded (Dec 2 0)" "bounded (Dec 20 0)" "bounded (Dec 22400 (- 3))"
    "bounded (Dec 67200 (- 3))" "bounded (Dec 3 0)" "bounded (Dec 10000 0)"
    "nonnegative (Dec 224 (- 1))" "nonnegative (Dec 2 0)" "nonnegative (Dec 20 0)" "nonnegative (Dec 22400 (- 3))"
    "nonnegative (Dec 67200 (- 3))" "nonnegative (Dec 3 0)" "nonnegative (Dec 10000 0)"
    "0 < Dec 2 0" "0 < Dec 22400 (- 3)"
    by (simp_all add: decimal_eval)
  have texts: "bounded_text_ok 256 ''t''" "bounded_text_ok 256 ''initial-testnet-risk-v1''"
    by code_simp+
  have reasons: "trimmed ''risk_checks_passed''" "trimmed ''trusted_approval_required''"
    by code_simp+
  have facts: "zp_version sample_sizing_policy = ''initial-testnet-risk-v1''"
    "optional_nonnegative (Some (In_Decimal (Dec 3 0))) = Inr (Some (Dec 3 0))"
    "\<not> Dec 2 0 \<le> 0" "\<not> Dec 22400 (- 3) \<le> 0"
    using b by (simp_all add: sample_sizing_policy_def default_sizing_policy_def optional_nonnegative_def
        not_le_decimal)
  obtain x where "payload_hash (record_val
      [''domain'', ''ticket_id'', ''assessment_hash'', ''account_snapshot_hash'', ''policy_version'',
       ''policy_hash'', ''created_at'', ''expires_at'', ''status'', ''reason_codes'', ''risk_budget'',
       ''quantity'', ''expected_loss'', ''stressed_loss'', ''expected_reward'', ''net_reward_risk'',
       ''catastrophic_loss_bound'', ''plan_hash'']
      [PStr ''risk-ticket-v1'', PStr ''t'', PStr sample_digest, PStr sample_digest,
       PStr ''initial-testnet-risk-v1'', PStr p, PStr (iso_millis 30), PStr (iso_millis 60000030),
       PStr ''awaiting_approval'', PList [PStr ''risk_checks_passed'', PStr ''trusted_approval_required''],
       PStr (canonical_text (Dec 224 (- 1))), PStr (canonical_text (Dec 2 0)), PStr (canonical_text (Dec 20 0)),
       PStr (canonical_text (Dec 22400 (- 3))), PStr (canonical_text (Dec 67200 (- 3))),
       PStr (canonical_text (Dec 3 0)), PStr (canonical_text (Dec 10000 0)), PStr k]) = Inr x"
    using record_payload_ok by fastforce
  then show ?thesis
    unfolding passing_ticket_def make_ticket_def
    using p b texts reasons facts sample_digest_shaped
    by (simp add: sample_sizing_def sample_basis_def sample_account_def sample_plan_def
      ticket_payload_def canonical_decimal_bounded Let_def opt_val_def)
qed

lemma sample_passing:
  "\<exists>h tk. technical_hash sample_priced = Inr h
    \<and> quote_risk_ticket sample_ambient ''t'' (Legacy (sample_opportunity h) sample_priced) sample_identity
        sample_account 30 sample_sizing_policy False = Inr tk
    \<and> tk_status tk = RT_AWAITING_APPROVAL \<and> tk_quantity tk = Dec 2 0"
proof -
  obtain h where h: "technical_hash sample_priced = Inr h" using sample_priced_hash by blast
  obtain k where k: "build_plan sample_ambient ''t'' sample_basis sample_identity sample_account sample_sizing_policy
      60000030 (Dec 90 0) (Dec 1339 (- 1)) sample_sizing = Inr (sample_plan k)"
    using sample_plan_built by blast
  obtain tk where tk: "passing_ticket ''t'' sample_basis sample_account sample_sizing_policy 30 60000030 sample_sizing
      (sample_plan k) = Inr tk"
    using sample_ticket by blast
  have basis: "qb_side sample_basis = BUY" "qb_entry sample_basis = Some (Dec 100 0)"
    "qb_stop sample_basis = Some (Dec 90 0)" "qb_target sample_basis = Some (Dec 1339 (- 1))"
    "min (qb_expires_at sample_basis) (30 + seconds (zp_ticket_ttl_seconds sample_sizing_policy)) = 60000030"
    "sz_reasons sample_sizing = []"
    by (simp_all add: sample_basis_def sample_sizing_policy_def default_sizing_policy_def seconds_def
        microsecond_second_def sample_sizing_def)
  have name: "bounded_text_ok 256 ''t''" by code_simp
  have "quote_risk_ticket sample_ambient ''t'' (Legacy (sample_opportunity h) sample_priced) sample_identity
      sample_account 30 sample_sizing_policy False = Inr tk"
    by (simp add: quote_risk_ticket_def name sample_basis_of [OF h] sample_not_denied basis sample_position k tk)
  moreover have "tk_status tk = RT_AWAITING_APPROVAL" "tk_quantity tk = Dec 2 0"
    using passing_ticket_facts [OF tk] by (simp_all add: sample_sizing_def)
  ultimately show ?thesis using h by blast
qed


text \<open>C30: A ticket that awaits approval rests on fresh evidence for the identity it names, on a fresh
  snapshot of the same account within the leverage limit, and carries a well-formed protected
  plan for exactly its quantity whose stressed loss stays within every budget; it expires with
  its evidence or its time to live, whichever is first.\<close>

theorem passing_ticket_sound:
  assumes "quote_risk_ticket amb ticket_id evidence identity account t policy learning = Inr tk"
    and "tk_status tk = RT_AWAITING_APPROVAL"
  shows "evidence_supports evidence identity account t policy learning
    \<and> pi_account_id identity = ac_account_id account \<and> pi_environment identity = ac_environment account
    \<and> account_fresh account t (zp_account_max_age_seconds policy)
    \<and> ac_leverage account \<le> zp_max_leverage policy
    \<and> (pi_environment identity = MAINNET \<longrightarrow> zp_risk_fraction policy \<le> Dec 1 (- 3))
    \<and> tk_stressed_loss tk \<le> tk_risk_budget tk \<and> 0 < tk_quantity tk
    \<and> tk_risk_budget tk \<le> ac_daily_loss_remaining account \<and> tk_risk_budget tk \<le> ac_open_risk_remaining account
    \<and> (\<exists>f. dmul planning_context (ac_equity account) (zp_risk_fraction policy) = Inr f \<and> tk_risk_budget tk \<le> f)
    \<and> (\<exists>r. tk_net_reward_risk tk = Some r \<and> zp_minimum_net_reward_risk policy \<le> r)
    \<and> plan_covers tk identity account
    \<and> tk_created_at tk = t \<and> t < tk_expires_at tk \<and> tk_expires_at tk \<le> t + seconds (zp_ticket_ttl_seconds policy)"
  by (rule quote_awaiting_sound [OF assms])

lemma passing_ticket_sound_witness:
  "\<exists>h tk. quote_risk_ticket sample_ambient ''t'' (Legacy (sample_opportunity h) sample_priced) sample_identity
        sample_account 30 sample_sizing_policy False = Inr tk
    \<and> tk_status tk = RT_AWAITING_APPROVAL \<and> plan_covers tk sample_identity sample_account"
proof -
  obtain h tk where q: "quote_risk_ticket sample_ambient ''t'' (Legacy (sample_opportunity h) sample_priced)
      sample_identity sample_account 30 sample_sizing_policy False = Inr tk" "tk_status tk = RT_AWAITING_APPROVAL"
    using sample_passing by blast
  from passing_ticket_sound [OF q] have "plan_covers tk sample_identity sample_account" by (elim conjE)
  with q show ?thesis by blast
qed

text \<open>Any objection to the evidence, the account or the prices denies the quote: the ticket names the
  reason, carries no plan and no quantity and is well formed.\<close>

theorem objection_denies_ticket:
  assumes "quote_risk_ticket amb ticket_id evidence identity account t policy learning = Inr tk"
    and "basis_of evidence identity = Inr b" "r \<in> set (denial_reasons b identity account t policy learning)"
  shows "tk_status tk = RT_DENIED \<and> r \<in> set (tk_reason_codes tk) \<and> tk_plan tk = None
    \<and> dval (tk_quantity tk) = 0 \<and> dval (tk_stressed_loss tk) = 0 \<and> ticket_ok tk"
proof -
  from quote_denies [OF assms] have "tk_status tk = RT_DENIED" by blast
  with quote_denies [OF assms] quote_ticket_ok [OF assms(1)] show ?thesis by blast
qed


text \<open>A minute after the account was read the same quote is denied.\<close>

lemma sample_stale:
  "denial_reasons sample_basis sample_identity sample_account 60000030 sample_sizing_policy False = [''account_snapshot_stale'']"
proof -
  have "\<not> Dec 2 0 < Dec 2 0" by (simp add: decimal_eval)
  then show ?thesis
    by (simp add: denial_reasons_def account_fresh_def sample_basis_def sample_identity_def sample_account_def
        sample_sizing_policy_def default_sizing_policy_def seconds_def microsecond_second_def)
qed

lemma denied_ticket_total:
  assumes "sha256_shaped (qb_artifact_hash b)" "sha256_shaped (ac_artifact_hash account)"
    and "bounded_text_ok 256 ticket_id" "bounded_text_ok 256 (zp_version policy)" "0 < zp_ticket_ttl_seconds policy"
    and "sizing_policy_hash policy = Inr p" "sha256_shaped p" "reasons \<noteq> []" "list_all trimmed reasons"
    and "positive (ac_equity account)"
  shows "\<exists>tk. denied_ticket ticket_id b account policy t reasons = Inr tk"
proof -
  have zero: "bounded (Dec 0 0)" "nonnegative (Dec 0 0)" "deq (Dec 0 0) 0" "nonnegative 0"
      "bounded (0 :: decimal)" "deq 0 0"
    by (simp_all add: decimal_eval)
  have equity: "nonnegative (ac_equity account)" "bounded (ac_equity account)"
    using assms(10) unfolding positive_def nonnegative_def by (simp_all add: dval_simps)
  have "\<not> t + seconds (zp_ticket_ttl_seconds policy) \<le> t"
    using assms(5) by (simp add: seconds_def microsecond_second_def)
  moreover obtain x where "payload_hash (record_val
      [''domain'', ''ticket_id'', ''assessment_hash'', ''account_snapshot_hash'', ''policy_version'',
       ''policy_hash'', ''created_at'', ''expires_at'', ''status'', ''reason_codes'', ''risk_budget'',
       ''quantity'', ''expected_loss'', ''stressed_loss'', ''expected_reward'', ''net_reward_risk'',
       ''catastrophic_loss_bound'', ''plan_hash'']
      [PStr ''risk-ticket-v1'', PStr ticket_id, PStr (qb_artifact_hash b), PStr (ac_artifact_hash account),
       PStr (zp_version policy), PStr p, PStr (iso_millis t), PStr (iso_millis (t + seconds (zp_ticket_ttl_seconds policy))),
       PStr ''denied'', PList (map PStr reasons),
       PStr (canonical_text 0), PStr (canonical_text 0), PStr (canonical_text 0),
       PStr (canonical_text 0), PStr (canonical_text 0),
       PNone, PStr (canonical_text (ac_equity account)), PNone]) = Inr x"
  proof -
    have "is_ok (canonical_data (PList (map PStr reasons)))" by (rule is_ok_PList) simp
    then show ?thesis using that record_payload_ok by fastforce
  qed
  ultimately show ?thesis
    unfolding denied_ticket_def make_ticket_def
    using assms zero equity
    by (simp add: ticket_payload_def canonical_decimal_bounded Let_def opt_val_def optional_nonnegative_def)
qed


lemma sample_denied:
  "\<exists>h tk. technical_hash sample_priced = Inr h
    \<and> quote_risk_ticket sample_ambient ''t'' (Legacy (sample_opportunity h) sample_priced) sample_identity
        sample_account 60000030 sample_sizing_policy False = Inr tk"
proof -
  obtain h where h: "technical_hash sample_priced = Inr h" using sample_priced_hash by blast
  obtain p where p: "sizing_policy_hash sample_sizing_policy = Inr p" "sha256_shaped p"
    using sample_sizing_policy_hash by blast
  have name: "bounded_text_ok 256 ''t''" "bounded_text_ok 256 (zp_version sample_sizing_policy)"
      "list_all trimmed [''account_snapshot_stale'']"
    by code_simp+
  have "positive (ac_equity sample_account)" "sha256_shaped (qb_artifact_hash sample_basis)"
      "sha256_shaped (ac_artifact_hash sample_account)" "0 < zp_ticket_ttl_seconds sample_sizing_policy"
    by (simp_all add: sample_account_def sample_basis_def sample_digest_shaped decimal_eval
        sample_sizing_policy_def default_sizing_policy_def)
  then obtain tk where "denied_ticket ''t'' sample_basis sample_account sample_sizing_policy 60000030
      [''account_snapshot_stale''] = Inr tk"
    using denied_ticket_total name p by blast
  then have "quote_risk_ticket sample_ambient ''t'' (Legacy (sample_opportunity h) sample_priced) sample_identity
      sample_account 60000030 sample_sizing_policy False = Inr tk"
    by (simp add: quote_risk_ticket_def name sample_basis_of [OF h] sample_stale)
  with h show ?thesis by blast
qed

lemma objection_denies_ticket_witness:
  "\<exists>h tk. quote_risk_ticket sample_ambient ''t'' (Legacy (sample_opportunity h) sample_priced) sample_identity
        sample_account 60000030 sample_sizing_policy False = Inr tk
    \<and> tk_status tk = RT_DENIED \<and> ''account_snapshot_stale'' \<in> set (tk_reason_codes tk)"
proof -
  obtain h tk where h: "technical_hash sample_priced = Inr h"
    and q: "quote_risk_ticket sample_ambient ''t'' (Legacy (sample_opportunity h) sample_priced) sample_identity
        sample_account 60000030 sample_sizing_policy False = Inr tk"
    using sample_denied by blast
  have "''account_snapshot_stale'' \<in> set (denial_reasons sample_basis sample_identity sample_account 60000030
      sample_sizing_policy False)"
    by (simp add: sample_stale)
  from objection_denies_ticket [OF q sample_basis_of [OF h] this] q show ?thesis
    by (intro exI [of _ h] exI [of _ tk] conjI) (elim conjE, assumption)+
qed

section \<open>Protected plans\<close>

text \<open>C38: A constructed plan has one entry and two reduce-only exits of the same quantity on the other side,
  all of one account, environment and instrument, with distinct client order IDs; the stop, the
  entry and the target are in the order of the side, the stop's bound beyond its trigger and the
  target's bound beyond the entry; and the plan hash covers the three legs.\<close>

theorem protected_plan_brackets_entry:
  assumes "make_plan p = Inr q"
  shows "q = p \<and> distinct (leg_ids p) \<and> payload_hash (plan_payload p) = Inr (pp_plan_hash p)
    \<and> \<not> si_reduce_only (pp_entry p)
    \<and> (\<forall>l \<in> {pp_stop p, pp_target p}. si_reduce_only l \<and> si_side l \<noteq> si_side (pp_entry p)
        \<and> dval (si_quantity l) = dval (si_quantity (pp_entry p)) \<and> shared_fields l = shared_fields (pp_entry p))
    \<and> (\<exists>entry stop target stop_bound target_bound. si_price_bound (pp_entry p) = Some entry
        \<and> si_stop_price (pp_stop p) = Some stop \<and> si_stop_price (pp_target p) = Some target
        \<and> si_price_bound (pp_stop p) = Some stop_bound \<and> si_price_bound (pp_target p) = Some target_bound
        \<and> (if si_side (pp_entry p) = BUY
           then stop_bound \<le> stop \<and> stop < entry \<and> entry < target \<and> entry < target_bound
           else target < entry \<and> entry < stop \<and> stop \<le> stop_bound \<and> target_bound < entry))"
proof -
  from assms have ok: "plan_ok p" "q = p" by (simp_all add: make_plan_Inr_iff)
  then have "legs_agree p" "leg_roles p" "leg_prices p" "distinct (leg_ids p)"
      "payload_hash (plan_payload p) = Inr (pp_plan_hash p)"
    by (simp_all add: plan_ok_def)
  moreover have "\<exists>entry stop target stop_bound target_bound. si_price_bound (pp_entry p) = Some entry
      \<and> si_stop_price (pp_stop p) = Some stop \<and> si_stop_price (pp_target p) = Some target
      \<and> si_price_bound (pp_stop p) = Some stop_bound \<and> si_price_bound (pp_target p) = Some target_bound
      \<and> (if si_side (pp_entry p) = BUY
         then stop_bound \<le> stop \<and> stop < entry \<and> entry < target \<and> entry < target_bound
         else target < entry \<and> entry < stop \<and> stop \<le> stop_bound \<and> target_bound < entry)"
    using \<open>leg_prices p\<close> unfolding leg_prices_def
    by (simp split: option.splits prod.splits if_splits)
  ultimately show ?thesis
    using ok(2) by (simp add: legs_agree_def leg_roles_def Let_def deq_dval)
qed

lemma protected_plan_brackets_entry_witness:
  "\<exists>h. make_plan (sample_plan h) = Inr (sample_plan h) \<and> distinct (leg_ids (sample_plan h))"
proof -
  obtain h where h: "build_plan sample_ambient ''t'' sample_basis sample_identity sample_account sample_sizing_policy
      60000030 (Dec 90 0) (Dec 1339 (- 1)) sample_sizing = Inr (sample_plan h)"
    using sample_plan_built by blast
  have "pp_assessment_hash (sample_plan h) = sample_digest" by (simp add: sample_plan_def)
  with build_plan_facts [OF h] have "make_plan (sample_plan h) = Inr (sample_plan h)"
    by (simp add: make_plan_Inr_iff sample_digest_shaped)
  with protected_plan_brackets_entry [OF this] show ?thesis by blast
qed


section \<open>Learning quotes\<close>

text \<open>A learning quote is given only on TESTNET, for the account, an instrument and the sizing policy its
  grant names and while the grant is active; a ticket that passes stays within the grant's loss
  and leverage caps and within every limit of an ordinary quote.\<close>

theorem learning_quote_within_grant:
  assumes "quote_infrastructure_learning_ticket amb ticket_id a identity account g t policy strategy = Inr tk"
  shows "pi_environment identity = TESTNET \<and> pi_account_id identity = lg_account_id g
    \<and> pi_instrument identity \<in> set (lg_allowed_instruments g) \<and> learning_grant_active g t
    \<and> sizing_policy_hash policy = Inr (lg_risk_policy_hash g) \<and> ticket_ok tk
    \<and> (tk_status tk = RT_AWAITING_APPROVAL \<longrightarrow>
        tk_stressed_loss tk \<le> lg_max_loss g \<and> tk_stressed_loss tk \<le> tk_risk_budget tk
        \<and> plan_covers tk identity account
        \<and> (\<exists>p l. tk_plan tk = Some p \<and> si_leverage (pp_entry p) = Some l \<and> l \<le> lg_max_leverage g))"
proof -
  note g = quote_learning_sound [OF assms]
  then have q: "quote_risk_ticket amb ticket_id (Registered a strategy) identity account t policy True = Inr tk"
    by (elim conjE)
  from g quote_ticket_ok [OF q] quote_awaiting_sound [OF q] show ?thesis by blast
qed

definition sample_leveraged :: account_snapshot where
  "sample_leveraged = sample_account\<lparr>ac_leverage := Dec 3 0\<rparr>"

definition sample_scope :: plan_identity where
  "sample_scope = sample_identity\<lparr>pi_strategy_version := rs_strategy_version candidate_v0\<rparr>"

definition sample_grant_of :: "string \<Rightarrow> learning_grant" where
  "sample_grant_of p =
     \<lparr> lg_account_id = ''acct'', lg_environment = TESTNET, lg_allowed_instruments = [''BTC''],
       lg_risk_policy_hash = p, lg_max_loss = Dec 50 0, lg_max_notional = Dec 1000 0,
       lg_max_leverage = Dec 2 0, lg_not_before = 0, lg_expires_at = 1000 \<rparr>"

lemma learning_quote_within_grant_witness:
  "\<exists>h p tk. quote_infrastructure_learning_ticket sample_ambient ''t'' (sample_assessment h h h sample_digest) sample_scope
      sample_leveraged (sample_grant_of p) 30 sample_sizing_policy candidate_v0 = Inr tk \<and> ticket_ok tk"
proof -
  have "bounded (rs_stop_atr_multiple candidate_v0)" "bounded (rs_target_atr_multiple candidate_v0)"
    by (simp_all add: candidate_v0_def decimal_eval)
  then obtain h where h: "registration_hash candidate_v0 = Inr h" "sha256_shaped h"
    using registration_hash_total by blast
  obtain p where p: "sizing_policy_hash sample_sizing_policy = Inr p" "sha256_shaped p"
    using sample_sizing_policy_hash by blast
  let ?a = "sample_assessment h h h sample_digest"
  obtain b where b: "basis_of (Registered ?a candidate_v0) sample_scope = Inr b"
      "qb_artifact_hash b = sample_digest" "qb_reasons b = []" "qb_directional b" "qb_eligible b"
      "qb_created_at b = 30" "qb_expires_at b = 1000" "qb_strategy_version b = rs_strategy_version candidate_v0"
      "qb_entry b \<noteq> None" "qb_stop b \<noteq> None" "qb_target b \<noteq> None"
    by (simp add: basis_of_def h in_scope_def) (simp add: sample_assessment_def directional_verdict_def
        sample_scope_def sample_identity_def)
  have over: "zp_max_leverage sample_sizing_policy < ac_leverage sample_leveraged"
    by (simp add: sample_sizing_policy_def default_sizing_policy_def sample_leveraged_def sample_account_def decimal_eval)
  have reasons: "denial_reasons b sample_scope sample_leveraged 30 sample_sizing_policy True = [''leverage_limit'']"
    using b over by (simp add: denial_reasons_def account_fresh_def sample_scope_def sample_identity_def)
      (simp add: sample_leveraged_def sample_account_def sample_sizing_policy_def default_sizing_policy_def
        seconds_def microsecond_second_def)
  have name: "bounded_text_ok 256 ''t''" "bounded_text_ok 256 (zp_version sample_sizing_policy)"
      "list_all trimmed [''leverage_limit'']"
    by code_simp+
  have "positive (ac_equity sample_leveraged)" "sha256_shaped (qb_artifact_hash b)"
      "sha256_shaped (ac_artifact_hash sample_leveraged)" "0 < zp_ticket_ttl_seconds sample_sizing_policy"
    by (simp_all add: b sample_leveraged_def sample_account_def sample_digest_shaped decimal_eval
        sample_sizing_policy_def default_sizing_policy_def)
  then obtain tk where tk: "denied_ticket ''t'' b sample_leveraged sample_sizing_policy 30 [''leverage_limit''] = Inr tk"
    using denied_ticket_total name p by blast
  then have q: "quote_risk_ticket sample_ambient ''t'' (Registered ?a candidate_v0) sample_scope sample_leveraged 30
      sample_sizing_policy True = Inr tk"
    by (simp add: quote_risk_ticket_def name b reasons)
  have "quote_infrastructure_learning_ticket sample_ambient ''t'' ?a sample_scope sample_leveraged (sample_grant_of p) 30
      sample_sizing_policy candidate_v0 = Inr tk"
    using denied_ticket_status [OF tk]
    by (simp add: quote_infrastructure_learning_ticket_def p q)
      (simp add: sample_grant_of_def sample_scope_def sample_identity_def sample_leveraged_def sample_account_def
        learning_grant_active_def in_scope_def sample_assessment_def)
  from learning_quote_within_grant [OF this] this show ?thesis by (elim conjE) (intro exI conjI)
qed

end
