(* ===== verification/Paper.thy ===== *)
theory Paper
  imports Planning
begin

text \<open>
  \<open>paper.py\<close>: the local-paper order management and protection state machine. Every transition
  builds a new immutable state whose constructor checks the whole state again, the hash chain
  of its events included. An observation is validated by its constructor before a transition
  reads it.
\<close>

section \<open>Costs and observations\<close>

definition paper_context :: dctx where
  "paper_context = \<lparr> prec = 64, rounding = Half_Even, e_min = - 192, e_max = 192 \<rparr>"

interpretation paper_ctx: decimal_context paper_context
  by unfold_locales (simp_all add: paper_context_def etiny_def etop_def)

definition paper_divide :: "decimal \<Rightarrow> decimal \<Rightarrow> decimal result" where
  "paper_divide a b = (if deq b 0 then Inl ZeroDivisionError else ddiv paper_context a b)"

definition bps_amount :: "decimal \<Rightarrow> decimal \<Rightarrow> decimal result" where
  "bps_amount v bps = bindE (dmul paper_context v bps) (\<lambda>m. paper_divide m (dec_int 10000))"

datatype paper_state = FLAT | PENDING | UNPROTECTED | PROTECTED | UNDERPROTECTED | HALTED

datatype leg_status = ACCEPTED | REJECTED | MISSING

datatype paper_event_type =
    PLAN_ACCEPTED | ENTRY_FULL | ENTRY_PARTIAL | ENTRY_UNFILLED
  | PROTECTION_ACTIVATED | PROTECTION_CONFIRMED | PROTECTION_UNDER_SIZED | PROTECTION_REJECTED | PROTECTION_TIMEOUT
  | MARKET_OBSERVED | STOP_FILLED | TARGET_FILLED | STOP_UNFILLED_HALT | TARGET_UNFILLED_HALT
  | EMERGENCY_FLATTEN_FULL | EMERGENCY_FLATTEN_PARTIAL | EMERGENCY_FLATTEN_UNFILLED | HALT_ACKNOWLEDGED

fun paper_event_value :: "paper_event_type \<Rightarrow> string" where
  "paper_event_value PLAN_ACCEPTED = ''plan_accepted''"
| "paper_event_value ENTRY_FULL = ''entry_full''"
| "paper_event_value ENTRY_PARTIAL = ''entry_partial''"
| "paper_event_value ENTRY_UNFILLED = ''entry_unfilled''"
| "paper_event_value PROTECTION_ACTIVATED = ''protection_activated''"
| "paper_event_value PROTECTION_CONFIRMED = ''protection_confirmed''"
| "paper_event_value PROTECTION_UNDER_SIZED = ''protection_under_sized''"
| "paper_event_value PROTECTION_REJECTED = ''protection_rejected''"
| "paper_event_value PROTECTION_TIMEOUT = ''protection_timeout''"
| "paper_event_value MARKET_OBSERVED = ''market_observed''"
| "paper_event_value STOP_FILLED = ''stop_filled''"
| "paper_event_value TARGET_FILLED = ''target_filled''"
| "paper_event_value STOP_UNFILLED_HALT = ''stop_unfilled_halt''"
| "paper_event_value TARGET_UNFILLED_HALT = ''target_unfilled_halt''"
| "paper_event_value EMERGENCY_FLATTEN_FULL = ''emergency_flatten_full''"
| "paper_event_value EMERGENCY_FLATTEN_PARTIAL = ''emergency_flatten_partial''"
| "paper_event_value EMERGENCY_FLATTEN_UNFILLED = ''emergency_flatten_unfilled''"
| "paper_event_value HALT_ACKNOWLEDGED = ''halt_acknowledged''"

record 'd cost_model_of =
  pc_model_id :: string
  pc_version :: string
  pc_fee_bps :: 'd
  pc_entry_slippage_bps :: 'd
  pc_exit_slippage_bps :: 'd
  pc_emergency_slippage_bps :: 'd
  pc_timeout_seconds :: int

type_synonym cost_model = "decimal cost_model_of"

definition paper_bps :: "decimal_input \<Rightarrow> decimal result" where
  "paper_bps v =
     bindE (lenient_nonnegative ValueError v) (\<lambda>d. bindE (guard (\<not> Dec 2500 0 < d) ValueError) (\<lambda>_. Inr d))"

definition make_cost_model :: "decimal_input cost_model_of \<Rightarrow> cost_model result" where
  "make_cost_model m =
     bindE (bounded_text ValueError 64 (pc_model_id m)) (\<lambda>_.
     bindE (bounded_text ValueError 64 (pc_version m)) (\<lambda>_.
     bindE (paper_bps (pc_fee_bps m)) (\<lambda>fee.
     bindE (paper_bps (pc_entry_slippage_bps m)) (\<lambda>entry.
     bindE (paper_bps (pc_exit_slippage_bps m)) (\<lambda>exit.
     bindE (paper_bps (pc_emergency_slippage_bps m)) (\<lambda>emergency.
     bindE (guard (0 < pc_timeout_seconds m) ValueError) (\<lambda>_.
     Inr \<lparr> pc_model_id = pc_model_id m, pc_version = pc_version m, pc_fee_bps = fee,
           pc_entry_slippage_bps = entry, pc_exit_slippage_bps = exit,
           pc_emergency_slippage_bps = emergency, pc_timeout_seconds = pc_timeout_seconds m \<rparr>)))))))"

definition cost_model_val :: "cost_model \<Rightarrow> pyval" where
  "cost_model_val m = record_val
     [''model_id'', ''version'', ''fee_bps_per_fill'', ''entry_slippage_bps'', ''exit_slippage_bps'',
      ''emergency_slippage_bps'', ''protection_timeout_seconds'']
     [PStr (pc_model_id m), PStr (pc_version m), PDec (pc_fee_bps m), PDec (pc_entry_slippage_bps m),
      PDec (pc_exit_slippage_bps m), PDec (pc_emergency_slippage_bps m), PInt (pc_timeout_seconds m)]"

definition model_hash :: "cost_model \<Rightarrow> string result" where
  "model_hash m = domain_hash ''trading-harness/paper-cost-model/v1'' (cost_model_val m)"

record 'd book_of =
  bk_observation_id :: string
  bk_observed_at :: instant
  bk_bid_price :: 'd
  bk_ask_price :: 'd
  bk_bid_size :: 'd
  bk_ask_size :: 'd
  bk_source_hash :: string

type_synonym book = "decimal book_of"

definition make_book :: "decimal_input book_of \<Rightarrow> book result" where
  "make_book b =
     bindE (bounded_text ValueError 256 (bk_observation_id b)) (\<lambda>_.
     bindE (lenient_positive ValueError (bk_bid_price b)) (\<lambda>bid.
     bindE (lenient_positive ValueError (bk_ask_price b)) (\<lambda>ask.
     bindE (lenient_nonnegative ValueError (bk_bid_size b)) (\<lambda>bid_size.
     bindE (lenient_nonnegative ValueError (bk_ask_size b)) (\<lambda>ask_size.
     bindE (guard (\<not> ask < bid) ValueError) (\<lambda>_.
     bindE (digest_field ValueError (bk_source_hash b)) (\<lambda>_.
     Inr \<lparr> bk_observation_id = bk_observation_id b, bk_observed_at = bk_observed_at b,
           bk_bid_price = bid, bk_ask_price = ask, bk_bid_size = bid_size, bk_ask_size = ask_size,
           bk_source_hash = bk_source_hash b \<rparr>)))))))"

record 'd paper_candle_of =
  cn_observation_id :: string
  cn_open_time :: instant
  cn_close_time :: instant
  cn_observed_at :: instant
  cn_open :: 'd
  cn_high :: 'd
  cn_low :: 'd
  cn_close :: 'd
  cn_source_hash :: string
  cn_complete :: bool

type_synonym paper_candle = "decimal paper_candle_of"

definition make_paper_candle :: "decimal_input paper_candle_of \<Rightarrow> paper_candle result" where
  "make_paper_candle c =
     bindE (bounded_text ValueError 256 (cn_observation_id c)) (\<lambda>_.
     bindE (guard (\<not> (cn_close_time c \<le> cn_open_time c \<or> cn_observed_at c < cn_close_time c)) ValueError) (\<lambda>_.
     bindE (guard (cn_complete c) ValueError) (\<lambda>_.
     bindE (lenient_positive ValueError (cn_open c)) (\<lambda>opened.
     bindE (lenient_positive ValueError (cn_high c)) (\<lambda>high.
     bindE (lenient_positive ValueError (cn_low c)) (\<lambda>low.
     bindE (lenient_positive ValueError (cn_close c)) (\<lambda>close.
     bindE (require
       [(\<not> high < dmax (dmax opened close) low, ValueError),
        (\<not> dmin (dmin opened close) high < low, ValueError)]) (\<lambda>_.
     bindE (digest_field ValueError (cn_source_hash c)) (\<lambda>_.
     Inr \<lparr> cn_observation_id = cn_observation_id c, cn_open_time = cn_open_time c,
           cn_close_time = cn_close_time c, cn_observed_at = cn_observed_at c, cn_open = opened,
           cn_high = high, cn_low = low, cn_close = close, cn_source_hash = cn_source_hash c,
           cn_complete = cn_complete c \<rparr>)))))))))"

record 'd protection_of =
  pr_observation_id :: string
  pr_observed_at :: instant
  pr_stop_status :: leg_status
  pr_target_status :: leg_status
  pr_stop_quantity :: 'd
  pr_target_quantity :: 'd
  pr_source_hash :: string

type_synonym protection = "decimal protection_of"

definition make_protection :: "decimal_input protection_of \<Rightarrow> protection result" where
  "make_protection p =
     bindE (bounded_text ValueError 256 (pr_observation_id p)) (\<lambda>_.
     bindE (lenient_nonnegative ValueError (pr_stop_quantity p)) (\<lambda>stop.
     bindE (lenient_nonnegative ValueError (pr_target_quantity p)) (\<lambda>target.
     bindE (require
       [((pr_stop_status p = ACCEPTED) = (0 < stop), ValueError),
        ((pr_target_status p = ACCEPTED) = (0 < target), ValueError)]) (\<lambda>_.
     bindE (digest_field ValueError (pr_source_hash p)) (\<lambda>_.
     Inr \<lparr> pr_observation_id = pr_observation_id p, pr_observed_at = pr_observed_at p,
           pr_stop_status = pr_stop_status p, pr_target_status = pr_target_status p,
           pr_stop_quantity = stop, pr_target_quantity = target, pr_source_hash = pr_source_hash p \<rparr>)))))"


section \<open>The event log\<close>

record paper_event =
  pe_event_id :: string
  pe_type :: paper_event_type
  pe_observed_at :: instant
  pe_reason :: string
  pe_plan_hash :: "string option"
  pe_source_hash :: "string option"
  pe_quantity :: decimal
  pe_secondary :: decimal
  pe_price :: "decimal option"
  pe_fee :: decimal
  pe_pnl :: decimal

text \<open>An event with the defaults of the fields a transition leaves out.\<close>

definition event_for :: "string \<Rightarrow> paper_event_type \<Rightarrow> instant \<Rightarrow> string \<Rightarrow> paper_event" where
  "event_for event_id kind t reason =
     \<lparr> pe_event_id = event_id, pe_type = kind, pe_observed_at = t, pe_reason = reason,
       pe_plan_hash = None, pe_source_hash = None, pe_quantity = 0, pe_secondary = 0, pe_price = None,
       pe_fee = 0, pe_pnl = 0 \<rparr>"

definition make_event :: "paper_event \<Rightarrow> paper_event result" where
  "make_event e =
     bindE (bounded_text ValueError 256 (pe_event_id e)) (\<lambda>_.
     bindE (bounded_text ValueError 256 (pe_reason e)) (\<lambda>_.
     bindE (require
       [(pred_option sha256_shaped (pe_plan_hash e), ValueError),
        (pred_option sha256_shaped (pe_source_hash e), ValueError)]) (\<lambda>_.
     bindE (mapE (\<lambda>d. lenient_nonnegative ValueError (In_Decimal d)) [pe_quantity e, pe_secondary e, pe_fee e]) (\<lambda>_.
     bindE (guard (pred_option positive (pe_price e)) ValueError) (\<lambda>_.
     bindE (lenient_decimal ValueError (In_Decimal (pe_pnl e))) (\<lambda>_. Inr e))))))"

definition event_val :: "paper_event \<Rightarrow> pyval" where
  "event_val e = record_val
     [''event_id'', ''event_type'', ''observed_at'', ''reason'', ''plan_hash'', ''source_hash'', ''quantity'',
      ''secondary_quantity'', ''price'', ''fee'', ''realized_net_pnl_delta'']
     [PStr (pe_event_id e), PStr (paper_event_value (pe_type e)), PInstant (pe_observed_at e), PStr (pe_reason e),
      opt_val PStr (pe_plan_hash e), opt_val PStr (pe_source_hash e), PDec (pe_quantity e),
      PDec (pe_secondary e), opt_val PDec (pe_price e), PDec (pe_fee e), PDec (pe_pnl e)]"

definition event_hash :: "paper_event \<Rightarrow> string result" where
  "event_hash e = domain_hash ''trading-harness/paper-event/v1'' (event_val e)"

definition chain_domain :: string where
  "chain_domain = ''trading-harness/paper-event-chain/v1''"

definition genesis_val :: "string \<Rightarrow> string \<Rightarrow> string \<Rightarrow> pyval" where
  "genesis_val account instrument cost = record_val
     [''account_id'', ''instrument'', ''cost_model_hash'', ''state'']
     [PStr account, PStr instrument, PStr cost, PStr ''empty'']"

definition genesis_hash :: "string \<Rightarrow> string \<Rightarrow> string \<Rightarrow> string result" where
  "genesis_hash account instrument cost = domain_hash chain_domain (genesis_val account instrument cost)"

definition link_val :: "nat \<Rightarrow> string \<Rightarrow> string \<Rightarrow> pyval" where
  "link_val n previous h = record_val [''sequence'', ''previous'', ''event_hash''] [PInt (int n), PStr previous, PStr h]"

definition chain_link :: "nat \<Rightarrow> string \<Rightarrow> paper_event \<Rightarrow> string result" where
  "chain_link n previous e = bindE (event_hash e) (\<lambda>h. domain_hash chain_domain (link_val n previous h))"

fun chain_from :: "nat \<Rightarrow> string \<Rightarrow> paper_event list \<Rightarrow> string result" where
  "chain_from n previous [] = Inr previous"
| "chain_from n previous (e # es) = bindE (chain_link n previous e) (\<lambda>h. chain_from (Suc n) h es)"

definition event_chain_hash :: "string \<Rightarrow> string \<Rightarrow> string \<Rightarrow> paper_event list \<Rightarrow> string result" where
  "event_chain_hash account instrument cost es =
     bindE (genesis_hash account instrument cost) (\<lambda>g. chain_from 0 g es)"

section \<open>The state and its constructor\<close>

record paper_oms =
  po_account_id :: string
  po_instrument :: string
  po_cost_model :: cost_model
  po_state :: paper_state
  po_halted :: bool
  po_plan :: "protected_plan option"
  po_side :: "side option"
  po_position :: decimal
  po_entry_fill :: decimal
  po_average_price :: "decimal option"
  po_stop :: decimal
  po_target :: decimal
  po_open_fee :: decimal
  po_fees :: decimal
  po_pnl :: decimal
  po_last :: "instant option"
  po_events :: "paper_event list"
  po_chain :: string

definition nonzero :: "decimal \<Rightarrow> bool" where
  "nonzero d = (\<not> deq d 0)"

definition has_position :: "paper_oms \<Rightarrow> bool" where
  "has_position s = (0 < po_position s)"

text \<open>Amounts: a position comes with its side, its price, its plan and its fill.\<close>

definition amounts_agree :: "paper_oms \<Rightarrow> bool" where
  "amounts_agree s =
     (has_position s = (po_side s \<noteq> None) \<and> has_position s = (po_average_price s \<noteq> None)
      \<and> (if has_position s then po_plan s \<noteq> None \<and> \<not> po_entry_fill s < po_position s
         else \<not> list_ex nonzero [po_entry_fill s, po_stop s, po_target s, po_open_fee s])
      \<and> \<not> (po_position s < po_stop s \<or> po_position s < po_target s)
      \<and> pred_option (\<lambda>p. si_account_id (pp_entry p) = po_account_id s \<and> si_instrument (pp_entry p) = po_instrument s)
          (po_plan s))"

definition state_agrees :: "paper_oms \<Rightarrow> bool" where
  "state_agrees s =
     (case po_state s of
        FLAT \<Rightarrow> \<not> (has_position s \<or> po_plan s \<noteq> None \<or> po_halted s)
      | PENDING \<Rightarrow> \<not> (has_position s \<or> po_plan s = None \<or> po_halted s)
      | UNPROTECTED \<Rightarrow> \<not> (\<not> has_position s \<or> po_halted s \<or> nonzero (po_stop s) \<or> nonzero (po_target s))
      | PROTECTED \<Rightarrow> \<not> (\<not> has_position s \<or> po_halted s \<or> \<not> deq (po_stop s) (po_position s)
          \<or> \<not> deq (po_target s) (po_position s))
      | UNDERPROTECTED \<Rightarrow> \<not> (\<not> has_position s \<or> \<not> po_halted s \<or> po_position s \<le> po_stop s)
      | HALTED \<Rightarrow> po_halted s \<and> \<not> (has_position s \<and> po_plan s = None))"

fun in_time_order :: "paper_event list \<Rightarrow> bool" where
  "in_time_order (a # b # es) = (\<not> pe_observed_at b < pe_observed_at a \<and> in_time_order (b # es))"
| "in_time_order _ = True"

definition last_time :: "paper_event list \<Rightarrow> instant option" where
  "last_time es = (if es = [] then None else Some (pe_observed_at (last es)))"

definition make_oms :: "paper_oms \<Rightarrow> paper_oms result" where
  "make_oms s =
     bindE (bounded_text ValueError 256 (po_account_id s)) (\<lambda>_.
     bindE (bounded_text ValueError 64 (po_instrument s)) (\<lambda>_.
     bindE (mapE (\<lambda>d. lenient_nonnegative ValueError (In_Decimal d))
       [po_position s, po_entry_fill s, po_stop s, po_target s, po_open_fee s, po_fees s]) (\<lambda>_.
     bindE (guard (pred_option positive (po_average_price s)) ValueError) (\<lambda>_.
     bindE (lenient_decimal ValueError (In_Decimal (po_pnl s))) (\<lambda>_.
     bindE (guard (distinct (map pe_event_id (po_events s))) PaperStateError) (\<lambda>_.
     bindE (model_hash (po_cost_model s)) (\<lambda>cost.
     bindE (event_chain_hash (po_account_id s) (po_instrument s) cost (po_events s)) (\<lambda>expected.
     bindE (digest_field ValueError (po_chain s)) (\<lambda>chain.
     bindE (require
       [(chain = expected, PaperStateError),
        (po_last s = last_time (po_events s), PaperStateError),
        (in_time_order (po_events s), PaperStateError),
        (amounts_agree s, PaperStateError),
        (state_agrees s, PaperStateError)]) (\<lambda>_. Inr s))))))))))"

definition create_oms :: "string \<Rightarrow> string \<Rightarrow> cost_model \<Rightarrow> paper_oms result" where
  "create_oms account instrument m =
     bindE (bounded_text ValueError 256 account) (\<lambda>_.
     bindE (bounded_text ValueError 64 instrument) (\<lambda>_.
     bindE (model_hash m) (\<lambda>cost.
     bindE (genesis_hash account instrument cost) (\<lambda>genesis.
     make_oms
       \<lparr> po_account_id = account, po_instrument = instrument, po_cost_model = m, po_state = FLAT,
         po_halted = False, po_plan = None, po_side = None, po_position = 0, po_entry_fill = 0,
         po_average_price = None, po_stop = 0, po_target = 0, po_open_fee = 0, po_fees = 0, po_pnl = 0,
         po_last = None, po_events = [], po_chain = genesis \<rparr>))))"

definition emergency_flatten_required :: "paper_oms \<Rightarrow> bool" where
  "emergency_flatten_required s =
     (0 < po_position s \<and> (po_halted s \<or> po_state s = UNPROTECTED \<or> po_state s = UNDERPROTECTED))"

text \<open>
  \<open>_append\<close>: the changes to the other fields are already made in \<open>changed\<close>, a copy of \<open>s\<close>; the
  constructor checks the result.
\<close>

definition append_event :: "paper_oms \<Rightarrow> paper_event \<Rightarrow> paper_oms \<Rightarrow> paper_oms result" where
  "append_event s e changed =
     bindE (require
       [(pe_event_id e \<notin> set (map pe_event_id (po_events s)), PaperStateError),
        (pe_source_hash e = None \<or> pe_source_hash e \<notin> set (map pe_source_hash (po_events s)), PaperStateError),
        (pred_option (\<lambda>t. \<not> pe_observed_at e < t) (po_last s), PaperStateError)]) (\<lambda>_.
     bindE (chain_link (length (po_events s)) (po_chain s) e) (\<lambda>h.
     make_oms (changed\<lparr> po_events := po_events s @ [e], po_chain := h, po_last := Some (pe_observed_at e) \<rparr>)))"


section \<open>Transitions\<close>

definition submit_plan :: "protected_plan \<Rightarrow> instant \<Rightarrow> string \<Rightarrow> paper_oms \<Rightarrow> paper_oms result" where
  "submit_plan plan t event_id s =
     bindE (require
       [(po_state s = FLAT \<and> \<not> po_halted s \<and> \<not> nonzero (po_position s), PaperStateError),
        (si_account_id (pp_entry plan) = po_account_id s \<and> si_instrument (pp_entry plan) = po_instrument s, PaperStateError),
        (t < si_expires_at (pp_entry plan), PaperStateError)]) (\<lambda>_.
     bindE (make_event ((event_for event_id PLAN_ACCEPTED t ''local_paper_plan_accepted_no_venue_write'')
       \<lparr>pe_plan_hash := Some (pp_plan_hash plan)\<rparr>)) (\<lambda>e.
     append_event s e (s\<lparr>po_state := PENDING, po_plan := Some plan\<rparr>)))"

text \<open>The price of an entry fill and the size available at it, or the reason there is none.\<close>

definition entry_quote :: "cost_model \<Rightarrow> semantic_intent \<Rightarrow> decimal \<Rightarrow> book \<Rightarrow> (decimal option \<times> decimal \<times> string) result" where
  "entry_quote m entry bound b =
     (if si_expires_at entry \<le> bk_observed_at b then Inr (None, 0, ''entry_expired_before_observation'')
      else if si_max_slippage_bps entry < pc_entry_slippage_bps m
        then Inr (None, 0, ''paper_entry_slippage_exceeds_plan'')
      else if si_side entry = BUY then
        bindE (bps_amount (bk_ask_price b) (pc_entry_slippage_bps m)) (\<lambda>slip.
        bindE (dadd paper_context (bk_ask_price b) slip) (\<lambda>candidate.
        Inr (if candidate \<le> bound then (Some candidate, bk_ask_size b, ''bounded_ioc_unfilled'')
             else (None, 0, ''buy_ioc_price_bound_not_crossable''))))
      else
        bindE (bps_amount (bk_bid_price b) (pc_entry_slippage_bps m)) (\<lambda>slip.
        bindE (dsub paper_context (bk_bid_price b) slip) (\<lambda>candidate.
        Inr (if bound \<le> candidate then (Some candidate, bk_bid_size b, ''bounded_ioc_unfilled'')
             else (None, 0, ''sell_ioc_price_bound_not_crossable'')))))"

definition enter_position ::
    "protected_plan \<Rightarrow> book \<Rightarrow> string \<Rightarrow> decimal \<Rightarrow> decimal \<Rightarrow> paper_oms \<Rightarrow> paper_oms result" where
  "enter_position plan b event_id price quantity s =
     bindE (bindE (dmul paper_context price quantity) (\<lambda>n. bps_amount n (pc_fee_bps (po_cost_model s)))) (\<lambda>fee.
     (let full = deq quantity (si_quantity (pp_entry plan)) in
     bindE (make_event ((event_for event_id (if full then ENTRY_FULL else ENTRY_PARTIAL) (bk_observed_at b)
           (if full then ''bounded_ioc_fully_filled_children_not_yet_active''
            else ''bounded_ioc_partial_fill_requires_emergency_flatten''))
       \<lparr>pe_plan_hash := Some (pp_plan_hash plan), pe_source_hash := Some (bk_source_hash b),
        pe_quantity := quantity, pe_price := Some price, pe_fee := fee\<rparr>)) (\<lambda>e.
     bindE (dadd paper_context (po_fees s) fee) (\<lambda>fees.
     append_event s e (s\<lparr>po_state := (if full then UNPROTECTED else UNDERPROTECTED), po_halted := \<not> full,
       po_side := Some (si_side (pp_entry plan)), po_position := quantity, po_entry_fill := quantity,
       po_average_price := Some price, po_open_fee := fee, po_fees := fees\<rparr>)))))"

definition unfilled_entry :: "protected_plan \<Rightarrow> book \<Rightarrow> string \<Rightarrow> string \<Rightarrow> paper_oms \<Rightarrow> paper_oms result" where
  "unfilled_entry plan b event_id reason s =
     bindE (make_event ((event_for event_id ENTRY_UNFILLED (bk_observed_at b) reason)
       \<lparr>pe_plan_hash := Some (pp_plan_hash plan), pe_source_hash := Some (bk_source_hash b)\<rparr>)) (\<lambda>e.
     append_event s e (s\<lparr>po_state := FLAT, po_plan := None\<rparr>))"

definition observe_entry :: "book \<Rightarrow> string \<Rightarrow> paper_oms \<Rightarrow> paper_oms result" where
  "observe_entry b event_id s =
     (case po_plan s of
        None \<Rightarrow> Inl PaperStateError
      | Some plan \<Rightarrow>
     bindE (guard (po_state s = PENDING) PaperStateError) (\<lambda>_.
     bindE (of_option PaperStateError (si_price_bound (pp_entry plan))) (\<lambda>bound.
     bindE (entry_quote (po_cost_model s) (pp_entry plan) bound b) (\<lambda>(price, available, reason).
     (let quantity = (if price = None then 0 else dmin (si_quantity (pp_entry plan)) available) in
      case price of
        Some p \<Rightarrow>
          if \<not> quantity \<le> 0 then enter_position plan b event_id p quantity s
          else unfilled_entry plan b event_id reason s
      | None \<Rightarrow> unfilled_entry plan b event_id reason s)))))"


definition reconcile_protection :: "protection \<Rightarrow> string \<Rightarrow> paper_oms \<Rightarrow> paper_oms result" where
  "reconcile_protection p event_id s =
     (case po_plan s of
        None \<Rightarrow> Inl PaperStateError
      | Some plan \<Rightarrow>
     bindE (guard (po_state s = UNPROTECTED \<or> po_state s = PROTECTED) PaperStateError) (\<lambda>_.
     (let position = po_position s; stop = pr_stop_quantity p; target = pr_target_quantity p;
          exact = (pr_stop_status p = ACCEPTED \<and> deq stop position
                   \<and> pr_target_status p = ACCEPTED \<and> deq target position);
          under = (pr_stop_status p = ACCEPTED \<and> 0 < stop \<and> stop < position);
          kind = (if exact then (if po_state s = UNPROTECTED then PROTECTION_ACTIVATED else PROTECTION_CONFIRMED)
                  else if under then PROTECTION_UNDER_SIZED else PROTECTION_REJECTED);
          reason = (if exact then ''normalTpsl_children_confirmed_for_full_position''
                    else if under then ''stop_quantity_under_covers_position_emergency_flatten_required''
                    else ''normalTpsl_child_missing_rejected_or_contradictory'')
      in
     bindE (make_event ((event_for event_id kind (pr_observed_at p) reason)
       \<lparr>pe_plan_hash := Some (pp_plan_hash plan), pe_source_hash := Some (pr_source_hash p),
        pe_quantity := stop, pe_secondary := target\<rparr>)) (\<lambda>e.
     append_event s e
       (if exact
        then s\<lparr>po_state := PROTECTED, po_halted := False, po_stop := position, po_target := position\<rparr>
        else s\<lparr>po_state := (if under then UNDERPROTECTED else HALTED), po_halted := True,
               po_stop := dmin stop position, po_target := dmin target position\<rparr>)))))"

definition protection_timeout :: "instant \<Rightarrow> string \<Rightarrow> paper_oms \<Rightarrow> paper_oms result" where
  "protection_timeout t event_id s =
     (case po_plan s of
        None \<Rightarrow> Inl PaperStateError
      | Some plan \<Rightarrow>
     bindE (require
       [(po_state s = UNPROTECTED, PaperStateError),
        (\<not> pred_option (\<lambda>l. t < l + seconds (pc_timeout_seconds (po_cost_model s))) (po_last s), PaperStateError)]) (\<lambda>_.
     bindE (make_event ((event_for event_id PROTECTION_TIMEOUT t ''mandatory_stop_not_confirmed_before_deadline'')
       \<lparr>pe_plan_hash := Some (pp_plan_hash plan)\<rparr>)) (\<lambda>e.
     append_event s e (s\<lparr>po_state := HALTED, po_halted := True\<rparr>))))"

definition adverse_exit :: "paper_oms \<Rightarrow> decimal \<Rightarrow> decimal \<Rightarrow> decimal result" where
  "adverse_exit s reference bps =
     bindE (bps_amount reference bps) (\<lambda>slip.
     if po_side s = Some BUY then dsub paper_context reference slip else dadd paper_context reference slip)"

definition exit_within_bound :: "paper_oms \<Rightarrow> decimal \<Rightarrow> decimal \<Rightarrow> bool" where
  "exit_within_bound s price bound = (if po_side s = Some BUY then bound \<le> price else price \<le> bound)"

definition close_position ::
    "string \<Rightarrow> paper_event_type \<Rightarrow> instant \<Rightarrow> string \<Rightarrow> decimal \<Rightarrow> decimal \<Rightarrow> string \<Rightarrow> paper_state \<Rightarrow> bool \<Rightarrow>
     paper_oms \<Rightarrow> paper_oms result" where
  "close_position event_id kind t source price quantity reason final remain_halted s =
     (case (po_average_price s, po_side s, po_plan s) of
        (Some average, Some side, Some plan) \<Rightarrow>
     bindE (guard (\<not> (quantity \<le> 0 \<or> po_position s < quantity)) PaperStateError) (\<lambda>_.
     bindE (bindE (paper_divide quantity (po_position s)) (dmul paper_context (po_open_fee s))) (\<lambda>entry_fee.
     bindE (bindE (dmul paper_context price quantity) (\<lambda>n. bps_amount n (pc_fee_bps (po_cost_model s)))) (\<lambda>exit_fee.
     bindE (bindE (if side = BUY then dsub paper_context price average else dsub paper_context average price)
       (\<lambda>d. dmul paper_context d quantity)) (\<lambda>gross.
     bindE (bindE (dsub paper_context gross entry_fee) (\<lambda>d. dsub paper_context d exit_fee)) (\<lambda>delta.
     bindE (dsub paper_context (po_position s) quantity) (\<lambda>remaining.
     bindE (make_event ((event_for event_id kind t reason)
       \<lparr>pe_plan_hash := Some (pp_plan_hash plan), pe_source_hash := Some source, pe_quantity := quantity,
        pe_price := Some price, pe_fee := exit_fee, pe_pnl := delta\<rparr>)) (\<lambda>e.
     bindE (dadd paper_context (po_fees s) exit_fee) (\<lambda>fees.
     bindE (dadd paper_context (po_pnl s) delta) (\<lambda>pnl.
     if deq remaining 0 then
       append_event s e (s\<lparr>po_state := final, po_halted := remain_halted, po_plan := None, po_side := None,
         po_position := 0, po_entry_fill := 0, po_average_price := None, po_stop := 0, po_target := 0,
         po_open_fee := 0, po_fees := fees, po_pnl := pnl\<rparr>)
     else
       bindE (dsub paper_context (po_open_fee s) entry_fee) (\<lambda>open_fee.
       (let stop = dmin (po_stop s) remaining in
       append_event s e (s\<lparr>po_state := (if stop < remaining then UNDERPROTECTED else HALTED), po_halted := True,
         po_position := remaining, po_stop := stop, po_target := dmin (po_target s) remaining,
         po_open_fee := open_fee, po_fees := fees, po_pnl := pnl\<rparr>))))))))))))
      | _ \<Rightarrow> Inl PaperStateError)"

definition halt_failed_exit :: "paper_candle \<Rightarrow> string \<Rightarrow> paper_event_type \<Rightarrow> string \<Rightarrow> paper_oms \<Rightarrow> paper_oms result" where
  "halt_failed_exit c event_id kind reason s =
     (case po_plan s of
        None \<Rightarrow> Inl PaperStateError
      | Some plan \<Rightarrow>
     bindE (make_event ((event_for event_id kind (cn_observed_at c) reason)
       \<lparr>pe_plan_hash := Some (pp_plan_hash plan), pe_source_hash := Some (cn_source_hash c)\<rparr>)) (\<lambda>e.
     append_event s e (s\<lparr>po_state := HALTED, po_halted := True, po_stop := 0, po_target := 0\<rparr>)))"

text \<open>Which leg a completed candle reaches, at which reference price; the stop wins a shared bar.\<close>

definition exit_trigger :: "bool \<Rightarrow> decimal \<Rightarrow> decimal \<Rightarrow> paper_candle \<Rightarrow> (decimal \<times> paper_event_type \<times> string) option" where
  "exit_trigger long stop target c =
     (if long then
        (if cn_open c \<le> stop then Some (cn_open c, STOP_FILLED, ''long_gap_through_stop'')
         else if target \<le> cn_open c
           then Some (target, TARGET_FILLED, ''long_gap_above_target_filled_at_registered_target'')
         else if cn_low c \<le> stop then
           Some (stop, STOP_FILLED, if target \<le> cn_high c
             then ''stop_first_when_stop_and_target_share_completed_bar'' else ''long_stop_touched'')
         else if target \<le> cn_high c then Some (target, TARGET_FILLED, ''long_target_touched'')
         else None)
      else
        (if stop \<le> cn_open c then Some (cn_open c, STOP_FILLED, ''short_gap_through_stop'')
         else if cn_open c \<le> target
           then Some (target, TARGET_FILLED, ''short_gap_below_target_filled_at_registered_target'')
         else if stop \<le> cn_high c then
           Some (stop, STOP_FILLED, if cn_low c \<le> target
             then ''stop_first_when_stop_and_target_share_completed_bar'' else ''short_stop_touched'')
         else if cn_low c \<le> target then Some (target, TARGET_FILLED, ''short_target_touched'')
         else None))"

text \<open>A triggered leg fills at its adverse price, or the account is halted.\<close>

definition settle_exit ::
    "protected_plan \<Rightarrow> paper_candle \<Rightarrow> string \<Rightarrow> decimal \<Rightarrow> paper_event_type \<Rightarrow> string \<Rightarrow> paper_oms \<Rightarrow> paper_oms result" where
  "settle_exit plan c event_id reference kind reason s =
     (let leg = (if kind = STOP_FILLED then pp_stop plan else pp_target plan);
          failed = (if kind = STOP_FILLED then STOP_UNFILLED_HALT else TARGET_UNFILLED_HALT) in
      if si_max_slippage_bps leg < pc_exit_slippage_bps (po_cost_model s)
      then halt_failed_exit c event_id failed ''paper_exit_slippage_exceeds_plan'' s
      else
        bindE (adverse_exit s reference (pc_exit_slippage_bps (po_cost_model s))) (\<lambda>price.
        if \<not> pred_option (exit_within_bound s price) (si_price_bound leg) \<or> si_price_bound leg = None
        then halt_failed_exit c event_id failed ''triggered_paper_exit_could_not_fill_within_bound'' s
        else close_position event_id kind (cn_observed_at c) (cn_source_hash c) price (po_position s) reason
               FLAT False s))"

definition observe_protected_candle :: "paper_candle \<Rightarrow> string \<Rightarrow> paper_oms \<Rightarrow> paper_oms result" where
  "observe_protected_candle c event_id s =
     (case po_plan s of
        None \<Rightarrow> Inl PaperStateError
      | Some plan \<Rightarrow>
     bindE (guard (po_state s = PROTECTED) PaperStateError) (\<lambda>_.
     bindE (guard (pred_option (\<lambda>t. \<not> cn_open_time c < t) (po_last s)) PaperStateError) (\<lambda>_.
     bindE (of_option PaperStateError (si_stop_price (pp_stop plan))) (\<lambda>stop_trigger.
     bindE (of_option PaperStateError (si_stop_price (pp_target plan))) (\<lambda>target_trigger.
     (case exit_trigger (po_side s = Some BUY) stop_trigger target_trigger c of
        None \<Rightarrow>
          bindE (make_event ((event_for event_id MARKET_OBSERVED (cn_observed_at c)
              ''completed_candle_touched_neither_bracket_leg'')
            \<lparr>pe_plan_hash := Some (pp_plan_hash plan), pe_source_hash := Some (cn_source_hash c)\<rparr>)) (\<lambda>e.
          append_event s e s)
      | Some (reference, kind, reason) \<Rightarrow> settle_exit plan c event_id reference kind reason s))))))"

definition emergency_flatten :: "book \<Rightarrow> string \<Rightarrow> paper_oms \<Rightarrow> paper_oms result" where
  "emergency_flatten b event_id s =
     (case po_plan s of
        None \<Rightarrow> Inl PaperStateError
      | Some plan \<Rightarrow>
     bindE (guard (emergency_flatten_required s) PaperStateError) (\<lambda>_.
     (let long = (po_side s = Some BUY);
          reference = (if long then bk_bid_price b else bk_ask_price b);
          available = (if long then bk_bid_size b else bk_ask_size b);
          quantity = dmin (po_position s) available in
     if quantity \<le> 0 then
       bindE (make_event ((event_for event_id EMERGENCY_FLATTEN_UNFILLED (bk_observed_at b)
           ''no_visible_liquidity_for_emergency_reduce_only_flatten'')
         \<lparr>pe_plan_hash := Some (pp_plan_hash plan), pe_source_hash := Some (bk_source_hash b)\<rparr>)) (\<lambda>e.
       append_event s e (s\<lparr>po_state := HALTED, po_halted := True\<rparr>))
     else
       bindE (adverse_exit s reference (pc_emergency_slippage_bps (po_cost_model s))) (\<lambda>price.
       bindE (guard (\<not> price \<le> 0) PaperStateError) (\<lambda>_.
       (let full = deq quantity (po_position s) in
       close_position event_id (if full then EMERGENCY_FLATTEN_FULL else EMERGENCY_FLATTEN_PARTIAL)
         (bk_observed_at b) (bk_source_hash b) price quantity
         (if full then ''emergency_reduce_only_paper_flatten_complete''
          else ''emergency_reduce_only_paper_flatten_partial'')
         (if full then HALTED else UNDERPROTECTED) True s))))))"

definition acknowledge_halt :: "instant \<Rightarrow> string \<Rightarrow> string \<Rightarrow> paper_oms \<Rightarrow> paper_oms result" where
  "acknowledge_halt t event_id review s =
     bindE (guard (po_state s = HALTED \<and> \<not> nonzero (po_position s)) PaperStateError) (\<lambda>_.
     bindE (digest_field ValueError review) (\<lambda>_.
     bindE (make_event ((event_for event_id HALT_ACKNOWLEDGED t ''paper_halt_acknowledged_after_flat_review'')
       \<lparr>pe_source_hash := Some review\<rparr>)) (\<lambda>e.
     append_event s e (s\<lparr>po_state := FLAT, po_halted := False\<rparr>))))"

text \<open>The public transitions; an observation or a plan reaches one through its own constructor.\<close>

datatype paper_op =
    Submit protected_plan instant string
  | Entry "decimal_input book_of" string
  | Reconcile "decimal_input protection_of" string
  | Timeout instant string
  | Candle "decimal_input paper_candle_of" string
  | Flatten "decimal_input book_of" string
  | Acknowledge instant string string

fun paper_step :: "paper_op \<Rightarrow> paper_oms \<Rightarrow> paper_oms result" where
  "paper_step (Submit plan t event_id) s = bindE (make_plan plan) (\<lambda>p. submit_plan p t event_id s)"
| "paper_step (Entry b event_id) s = bindE (make_book b) (\<lambda>b. observe_entry b event_id s)"
| "paper_step (Reconcile p event_id) s = bindE (make_protection p) (\<lambda>p. reconcile_protection p event_id s)"
| "paper_step (Timeout t event_id) s = protection_timeout t event_id s"
| "paper_step (Candle c event_id) s = bindE (make_paper_candle c) (\<lambda>c. observe_protected_candle c event_id s)"
| "paper_step (Flatten b event_id) s = bindE (make_book b) (\<lambda>b. emergency_flatten b event_id s)"
| "paper_step (Acknowledge t event_id review) s = acknowledge_halt t event_id review s"


section \<open>Checkpoints\<close>

fun paper_state_value :: "paper_state \<Rightarrow> string" where
  "paper_state_value FLAT = ''flat''"
| "paper_state_value PENDING = ''pending''"
| "paper_state_value UNPROTECTED = ''unprotected''"
| "paper_state_value PROTECTED = ''protected''"
| "paper_state_value UNDERPROTECTED = ''underprotected''"
| "paper_state_value HALTED = ''halted''"

definition plan_val :: "protected_plan \<Rightarrow> pyval" where
  "plan_val p = record_val
     [''assessment_hash'', ''entry'', ''protective_stop'', ''take_profit'', ''grouping'', ''plan_hash'']
     [PStr (pp_assessment_hash p), intent_val (pp_entry p), intent_val (pp_stop p), intent_val (pp_target p),
      PStr ''normalTpsl'', PStr (pp_plan_hash p)]"

definition side_text :: "side \<Rightarrow> pyval" where
  "side_text x = PStr (side_value x)"

definition oms_val :: "paper_oms \<Rightarrow> pyval" where
  "oms_val s = record_val
     [''account_id'', ''instrument'', ''cost_model'', ''state'', ''halted'', ''plan'', ''position_side'',
      ''position_quantity'', ''entry_fill_quantity'', ''average_entry_price'', ''active_stop_quantity'',
      ''active_take_profit_quantity'', ''open_entry_fee'', ''fees_paid'', ''realized_net_pnl'',
      ''last_observed_at'', ''events'', ''chain_hash'', ''schema_version'']
     [PStr (po_account_id s), PStr (po_instrument s), cost_model_val (po_cost_model s),
      PStr (paper_state_value (po_state s)), PBool (po_halted s), opt_val plan_val (po_plan s),
      opt_val side_text (po_side s), PDec (po_position s), PDec (po_entry_fill s), opt_val PDec (po_average_price s),
      PDec (po_stop s), PDec (po_target s), PDec (po_open_fee s), PDec (po_fees s), PDec (po_pnl s),
      opt_val PInstant (po_last s), PList (map event_val (po_events s)), PStr (po_chain s), PInt 1]"

definition snapshot_hash :: "paper_oms \<Rightarrow> string result" where
  "snapshot_hash s = domain_hash ''trading-harness/paper-snapshot/v1'' (oms_val s)"

definition restore_oms :: "paper_oms \<Rightarrow> string \<Rightarrow> paper_oms result" where
  "restore_oms checkpoint expected =
     bindE (snapshot_hash checkpoint) (\<lambda>h.
     bindE (digest_field ValueError expected) (\<lambda>d.
     bindE (guard (h = d) PaperStateError) (\<lambda>_. make_oms checkpoint)))"

datatype entry_fill_status = FULL | PARTIAL | UNFILLED

definition fill_status_of :: "paper_event \<Rightarrow> entry_fill_status option" where
  "fill_status_of e =
     (case pe_type e of
        ENTRY_FULL \<Rightarrow> Some FULL
      | ENTRY_PARTIAL \<Rightarrow> Some PARTIAL
      | ENTRY_UNFILLED \<Rightarrow> Some UNFILLED
      | _ \<Rightarrow> None)"

definition entry_fill_status_of :: "paper_oms \<Rightarrow> entry_fill_status option" where
  "entry_fill_status_of s =
     (case List.find (\<lambda>e. fill_status_of e \<noteq> None) (rev (po_events s)) of
        None \<Rightarrow> None
      | Some e \<Rightarrow> fill_status_of e)"

end
