(* ===== verification/Paper_Invariant.thy ===== *)
theory Paper_Invariant
  imports Paper
begin

text \<open>
  What the transitions of the paper OMS keep: the life cycle of the state as a relation on
  states and event types, the tally of position, fees and profit that the event log alone
  determines, and the invariant of every reachable state.
\<close>

section \<open>The life cycle\<close>

inductive lifecycle :: "paper_state \<Rightarrow> paper_event_type \<Rightarrow> paper_state \<Rightarrow> bool" where
  accepted: "lifecycle FLAT PLAN_ACCEPTED PENDING"
| unfilled: "lifecycle PENDING ENTRY_UNFILLED FLAT"
| entered: "lifecycle PENDING ENTRY_FULL UNPROTECTED"
| part_entered: "lifecycle PENDING ENTRY_PARTIAL UNDERPROTECTED"
| activated: "lifecycle UNPROTECTED PROTECTION_ACTIVATED PROTECTED"
| confirmed: "lifecycle PROTECTED PROTECTION_CONFIRMED PROTECTED"
| under_sized: "s \<in> {UNPROTECTED, PROTECTED} \<Longrightarrow> lifecycle s PROTECTION_UNDER_SIZED UNDERPROTECTED"
| rejected: "s \<in> {UNPROTECTED, PROTECTED} \<Longrightarrow> lifecycle s PROTECTION_REJECTED HALTED"
| timed_out: "lifecycle UNPROTECTED PROTECTION_TIMEOUT HALTED"
| untouched: "lifecycle PROTECTED MARKET_OBSERVED PROTECTED"
| stopped: "lifecycle PROTECTED STOP_FILLED FLAT"
| target_hit: "lifecycle PROTECTED TARGET_FILLED FLAT"
| stop_failed: "lifecycle PROTECTED STOP_UNFILLED_HALT HALTED"
| target_failed: "lifecycle PROTECTED TARGET_UNFILLED_HALT HALTED"
| flattened: "s \<in> {UNPROTECTED, UNDERPROTECTED, HALTED} \<Longrightarrow> lifecycle s EMERGENCY_FLATTEN_FULL HALTED"
| part_flattened: "s \<in> {UNPROTECTED, UNDERPROTECTED, HALTED} \<Longrightarrow> t \<in> {UNDERPROTECTED, HALTED} \<Longrightarrow>
    lifecycle s EMERGENCY_FLATTEN_PARTIAL t"
| not_flattened: "s \<in> {UNPROTECTED, UNDERPROTECTED, HALTED} \<Longrightarrow> lifecycle s EMERGENCY_FLATTEN_UNFILLED HALTED"
| acknowledged: "lifecycle HALTED HALT_ACKNOWLEDGED FLAT"

declare lifecycle.intros [simp, intro]

inductive_cases fromHaltedE: "lifecycle HALTED k t"
inductive_cases fromUnderprotectedE: "lifecycle UNDERPROTECTED k t"
inductive_simps to_pending [simp]: "lifecycle s k PENDING"
inductive_simps to_protected [simp]: "lifecycle s k PROTECTED"

inductive life_path :: "paper_state \<Rightarrow> paper_event_type list \<Rightarrow> paper_state \<Rightarrow> bool" where
  start: "life_path s [] s"
| move: "life_path s ks t \<Longrightarrow> lifecycle t k u \<Longrightarrow> life_path s (ks @ [k]) u"

section \<open>The tally of an event log\<close>

text \<open>Position, fees and realized profit; only fills change them.\<close>

type_synonym tally = "decimal \<times> decimal \<times> decimal"

fun book_event :: "paper_event \<Rightarrow> tally \<Rightarrow> tally result" where
  "book_event e (position, fees, pnl) =
     (if pe_type e \<in> {ENTRY_FULL, ENTRY_PARTIAL} then
        bindE (dadd paper_context fees (pe_fee e)) (\<lambda>f. Inr (pe_quantity e, f, pnl))
      else if pe_type e \<in> {STOP_FILLED, TARGET_FILLED, EMERGENCY_FLATTEN_FULL, EMERGENCY_FLATTEN_PARTIAL} then
        bindE (dsub paper_context position (pe_quantity e)) (\<lambda>remaining.
        bindE (dadd paper_context fees (pe_fee e)) (\<lambda>f.
        bindE (dadd paper_context pnl (pe_pnl e)) (\<lambda>p.
        Inr (if deq remaining 0 then 0 else remaining, f, p))))
      else Inr (position, fees, pnl))"

fun book_events :: "paper_event list \<Rightarrow> tally \<Rightarrow> tally result" where
  "book_events [] t = Inr t"
| "book_events (e # es) t = bindE (book_event e t) (book_events es)"

definition tally_of :: "paper_oms \<Rightarrow> tally" where
  "tally_of s = (po_position s, po_fees s, po_pnl s)"

lemma book_events_snoc: "book_events (es @ [e]) t = bindE (book_events es t) (book_event e)"
  by (induction es t rule: book_events.induct) (simp_all add: bindE_def split: sum.splits)

section \<open>The constructor\<close>

lemma make_oms_facts:
  assumes "make_oms s = Inr t"
  shows "t = s \<and> bounded_text_ok 256 (po_account_id s) \<and> bounded_text_ok 64 (po_instrument s)
    \<and> list_all nonnegative [po_position s, po_entry_fill s, po_stop s, po_target s, po_open_fee s, po_fees s]
    \<and> pred_option positive (po_average_price s) \<and> bounded (po_pnl s)
    \<and> distinct (map pe_event_id (po_events s))
    \<and> (\<exists>cost. model_hash (po_cost_model s) = Inr cost
        \<and> event_chain_hash (po_account_id s) (po_instrument s) cost (po_events s) = Inr (po_chain s))
    \<and> sha256_shaped (po_chain s) \<and> po_last s = last_time (po_events s) \<and> in_time_order (po_events s)
    \<and> amounts_agree s \<and> state_agrees s"
  using assms unfolding make_oms_def
  by (auto split: if_splits)

lemma make_oms_same: "make_oms s = Inr t \<Longrightarrow> t = s"
  using make_oms_facts by blast

lemma make_oms_agrees: "make_oms s = Inr t \<Longrightarrow> amounts_agree s \<and> state_agrees s"
  using make_oms_facts by blast

lemma make_event_same: "make_event e = Inr f \<Longrightarrow> f = e"
  by (auto simp: make_event_def)

lemma append_eventE:
  assumes "append_event s e changed = Inr t"
  obtains h where "chain_link (length (po_events s)) (po_chain s) e = Inr h"
    "t = changed\<lparr>po_events := po_events s @ [e], po_chain := h, po_last := Some (pe_observed_at e)\<rparr>"
    "make_oms t = Inr t" "pe_event_id e \<notin> set (map pe_event_id (po_events s))"
    "pe_source_hash e \<noteq> None \<Longrightarrow> pe_source_hash e \<notin> set (map pe_source_hash (po_events s))"
    "pred_option (\<lambda>l. l \<le> pe_observed_at e) (po_last s)"
proof -
  let ?new = "\<lambda>h. changed\<lparr>po_events := po_events s @ [e], po_chain := h, po_last := Some (pe_observed_at e)\<rparr>"
  from assms obtain h where h: "chain_link (length (po_events s)) (po_chain s) e = Inr h"
    and made: "make_oms (?new h) = Inr t"
    and fresh: "pe_event_id e \<notin> set (map pe_event_id (po_events s))"
      "pe_source_hash e = None \<or> pe_source_hash e \<notin> set (map pe_source_hash (po_events s))"
      "pred_option (\<lambda>l. \<not> pe_observed_at e < l) (po_last s)"
    unfolding append_event_def by auto
  from made have "t = ?new h" by (rule make_oms_same)
  with h made fresh show ?thesis by (intro that) (simp_all add: not_less)
qed


section \<open>One transition\<close>

definition fill_within_bound :: "side \<Rightarrow> decimal \<Rightarrow> decimal \<Rightarrow> bool" where
  "fill_within_bound side price bound = (if side = BUY then price \<le> bound else bound \<le> price)"

text \<open>An open position belongs to its plan: side, quantity and entry price within the plan's bound.\<close>

definition plan_inv :: "paper_oms \<Rightarrow> bool" where
  "plan_inv s =
     (pred_option plan_ok (po_plan s)
      \<and> (has_position s \<longrightarrow>
          (\<exists>p b a. po_plan s = Some p \<and> po_side s = Some (si_side (pp_entry p))
            \<and> po_entry_fill s \<le> si_quantity (pp_entry p)
            \<and> si_price_bound (pp_entry p) = Some b \<and> po_average_price s = Some a
            \<and> fill_within_bound (si_side (pp_entry p)) a b)
          \<and> (deq (po_position s) (po_entry_fill s) \<or> representable paper_context (po_position s)))
      \<and> (po_state s = HALTED \<and> \<not> has_position s \<longrightarrow> po_plan s = None))"

definition paper_inv :: "paper_oms \<Rightarrow> bool" where
  "paper_inv s =
     (make_oms s = Inr s \<and> plan_inv s \<and> book_events (po_events s) (0, 0, 0) = Inr (tally_of s)
      \<and> life_path FLAT (map pe_type (po_events s)) (po_state s))"

definition moves :: "paper_oms \<Rightarrow> paper_event \<Rightarrow> paper_oms \<Rightarrow> bool" where
  "moves s e t =
     (po_events t = po_events s @ [e] \<and> make_oms t = Inr t
      \<and> po_account_id t = po_account_id s \<and> po_instrument t = po_instrument s
      \<and> po_cost_model t = po_cost_model s
      \<and> lifecycle (po_state s) (pe_type e) (po_state t)
      \<and> book_event e (tally_of s) = Inr (tally_of t)
      \<and> (pe_type e \<in> {ENTRY_FULL, ENTRY_PARTIAL} \<or> \<not> has_position t \<or> po_entry_fill t = po_entry_fill s)
      \<and> (pe_type e \<in> {STOP_FILLED, TARGET_FILLED, EMERGENCY_FLATTEN_FULL, EMERGENCY_FLATTEN_PARTIAL} \<longrightarrow> 0 \<le> dval (pe_quantity e)))"

lemma log_irrelevant [simp]:
  "amounts_agree (s\<lparr>po_events := es, po_chain := h, po_last := l\<rparr>) = amounts_agree s"
  "state_agrees (s\<lparr>po_events := es, po_chain := h, po_last := l\<rparr>) = state_agrees s"
  "plan_inv (s\<lparr>po_events := es, po_chain := h, po_last := l\<rparr>) = plan_inv s"
  "tally_of (s\<lparr>po_events := es, po_chain := h, po_last := l\<rparr>) = tally_of s"
  "has_position (s\<lparr>po_events := es, po_chain := h, po_last := l\<rparr>) = has_position s"
  by (simp_all add: amounts_agree_def state_agrees_def plan_inv_def tally_of_def has_position_def
      cong: paper_state.case_cong)

lemma appended:
  assumes "append_event s e c = Inr t"
    and "po_account_id c = po_account_id s" "po_instrument c = po_instrument s" "po_cost_model c = po_cost_model s"
    and "lifecycle (po_state s) (pe_type e) (po_state c)" "book_event e (tally_of s) = Inr (tally_of c)"
    and "pe_type e \<in> {ENTRY_FULL, ENTRY_PARTIAL} \<or> \<not> has_position c \<or> po_entry_fill c = po_entry_fill s"
    and "pe_type e \<in> {STOP_FILLED, TARGET_FILLED, EMERGENCY_FLATTEN_FULL, EMERGENCY_FLATTEN_PARTIAL} \<longrightarrow> 0 \<le> dval (pe_quantity e)"
    and "amounts_agree c \<Longrightarrow> state_agrees c \<Longrightarrow> plan_inv c"
  shows "\<exists>e. moves s e t \<and> plan_inv t"
proof -
  from assms(1) obtain h where t: "t = c\<lparr>po_events := po_events s @ [e], po_chain := h, po_last := Some (pe_observed_at e)\<rparr>"
    and made: "make_oms t = Inr t"
    by (elim append_eventE)
  from make_oms_agrees [OF made] have "amounts_agree c" "state_agrees c" by (simp_all add: t)
  with assms(9) have "plan_inv c" by blast
  with made assms(2-8) have "moves s e t \<and> plan_inv t" by (simp add: moves_def t)
  then show ?thesis ..
qed

lemma event_for_type [simp]: "pe_type (event_for i k t r) = k"
  by (simp add: event_for_def)

lemma paper_inv_agrees: "paper_inv s \<Longrightarrow> amounts_agree s \<and> state_agrees s \<and> plan_inv s"
  using make_oms_agrees unfolding paper_inv_def by blast

lemma submit_moves:
  assumes "paper_inv s" "plan_ok plan" "submit_plan plan t event_id s = Inr r"
  shows "\<exists>e. moves s e r \<and> plan_inv r"
proof -
  from assms(3) obtain e where
      app: "append_event s e (s\<lparr>po_state := PENDING, po_plan := Some plan\<rparr>) = Inr r"
    and e: "pe_type e = PLAN_ACCEPTED" and flat: "po_state s = FLAT"
    unfolding submit_plan_def bindE_Inr_iff
    by (elim exE conjE) (drule make_event_same, rule that, assumption, simp_all)
  show ?thesis
  proof (rule appended [OF app])
    show "plan_inv (s\<lparr>po_state := PENDING, po_plan := Some plan\<rparr>)"
      if "state_agrees (s\<lparr>po_state := PENDING, po_plan := Some plan\<rparr>)"
      using that assms(2) by (simp add: plan_inv_def state_agrees_def has_position_def)
  qed (simp_all add: e flat tally_of_def)
qed

lemma unfilled_moves:
  assumes "unfilled_entry plan b event_id reason s = Inr r" "po_state s = PENDING"
  shows "\<exists>e. moves s e r \<and> plan_inv r"
proof -
  from assms(1) obtain e where app: "append_event s e (s\<lparr>po_state := FLAT, po_plan := None\<rparr>) = Inr r"
    and e: "pe_type e = ENTRY_UNFILLED"
    unfolding unfilled_entry_def bindE_Inr_iff
    by (elim exE conjE) (drule make_event_same, rule that, assumption, simp_all)
  show ?thesis
  proof (rule appended [OF app])
    show "plan_inv (s\<lparr>po_state := FLAT, po_plan := None\<rparr>)"
      if "state_agrees (s\<lparr>po_state := FLAT, po_plan := None\<rparr>)"
      using that by (simp add: plan_inv_def state_agrees_def has_position_def)
  qed (simp_all add: e assms(2) tally_of_def)
qed

lemma entry_quote_within:
  "entry_quote m entry bound b = Inr (Some p, a, r) \<Longrightarrow>
   fill_within_bound (si_side entry) p bound \<and> bk_observed_at b < si_expires_at entry
   \<and> a = (if si_side entry = BUY then bk_ask_size b else bk_bid_size b)"
  by (auto simp: entry_quote_def fill_within_bound_def split: if_splits)

lemma enter_moves:
  assumes "enter_position plan b event_id price quantity s = Inr r" "po_state s = PENDING" "po_plan s = Some plan"
    and "plan_ok plan" "si_price_bound (pp_entry plan) = Some bound"
    and "fill_within_bound (si_side (pp_entry plan)) price bound" "quantity \<le> si_quantity (pp_entry plan)"
  shows "\<exists>e. moves s e r \<and> plan_inv r"
proof -
  define full where "full = deq quantity (si_quantity (pp_entry plan))"
  from assms(1) obtain e fee fees where
      app: "append_event s e (s\<lparr>po_state := (if full then UNPROTECTED else UNDERPROTECTED), po_halted := \<not> full,
       po_side := Some (si_side (pp_entry plan)), po_position := quantity, po_entry_fill := quantity,
       po_average_price := Some price, po_open_fee := fee, po_fees := fees\<rparr>) = Inr r"
    and fees: "dadd paper_context (po_fees s) fee = Inr fees"
    and e: "pe_type e = (if full then ENTRY_FULL else ENTRY_PARTIAL)" "pe_fee e = fee" "pe_quantity e = quantity"
    unfolding enter_position_def Let_def full_def [symmetric] bindE_Inr_iff
    by (elim exE conjE) (drule make_event_same, rule that, assumption, assumption, simp_all)
  show ?thesis
    by (rule appended [OF app]) (use e fees assms in \<open>simp_all add: tally_of_def plan_inv_def has_position_def deq_dval\<close>)
qed


lemma dmin_le [simp]: "dmin a b \<le> a" "dmin a b \<le> b"
  by (simp_all add: dmin_def dval_simps)

lemma observe_entry_moves:
  assumes "paper_inv s" "observe_entry b event_id s = Inr r"
  shows "\<exists>e. moves s e r \<and> plan_inv r"
proof (cases "po_plan s")
  case None
  with assms(2) show ?thesis by (simp add: observe_entry_def)
next
  case (Some plan)
  with assms(2) obtain bound price available reason where
      pending: "po_state s = PENDING" and bound: "si_price_bound (pp_entry plan) = Some bound"
    and quote: "entry_quote (po_cost_model s) (pp_entry plan) bound b = Inr (price, available, reason)"
    and step: "(case price of
        Some p \<Rightarrow> if \<not> dmin (si_quantity (pp_entry plan)) available \<le> 0
          then enter_position plan b event_id p (dmin (si_quantity (pp_entry plan)) available) s
          else unfilled_entry plan b event_id reason s
      | None \<Rightarrow> unfilled_entry plan b event_id reason s) = Inr r"
    unfolding observe_entry_def Let_def
    by (auto split: option.splits if_splits)
  have ok: "plan_ok plan"
    using paper_inv_agrees [OF assms(1)] Some by (simp add: plan_inv_def)
  show ?thesis
  proof (cases price)
    case None
    with step have "unfilled_entry plan b event_id reason s = Inr r" by simp
    then show ?thesis using pending by (rule unfilled_moves)
  next
    case (Some p)
    with quote entry_quote_within have "fill_within_bound (si_side (pp_entry plan)) p bound" by blast
    moreover have "enter_position plan b event_id p (dmin (si_quantity (pp_entry plan)) available) s = Inr r
        \<or> unfilled_entry plan b event_id reason s = Inr r"
      using step Some by (simp split: if_splits)
    ultimately show ?thesis
      using unfilled_moves enter_moves pending \<open>po_plan s = Some plan\<close> ok bound dmin_le(1) by blast
  qed
qed

lemma plan_inv_keeps:
  assumes "plan_inv s" "po_plan c = po_plan s" "po_side c = po_side s" "po_average_price c = po_average_price s"
    and "po_entry_fill c = po_entry_fill s" "has_position s"
    and "has_position c \<Longrightarrow> deq (po_position c) (po_entry_fill c) \<or> representable paper_context (po_position c)"
    and "po_state c = HALTED \<Longrightarrow> has_position c"
  shows "plan_inv c"
  using assms by (auto simp: plan_inv_def)

lemma plan_inv_restated:
  assumes "plan_inv s" "has_position s"
  shows "plan_inv (s\<lparr>po_state := x, po_halted := h\<rparr>)"
    "plan_inv (s\<lparr>po_state := x, po_halted := h, po_stop := a, po_target := b\<rparr>)"
  using assms by (auto simp: plan_inv_def has_position_def)

lemma exposed:
  assumes "paper_inv s" "po_state s \<in> {UNPROTECTED, PROTECTED, UNDERPROTECTED}"
  shows "has_position s"
  using paper_inv_agrees [OF assms(1)] assms(2) by (auto simp: state_agrees_def)

lemma reconcile_moves:
  assumes "paper_inv s" "reconcile_protection p event_id s = Inr r"
  shows "\<exists>e. moves s e r \<and> plan_inv r"
proof (cases "po_plan s")
  case None
  with assms(2) show ?thesis by (simp add: reconcile_protection_def)
next
  case (Some plan)
  define exact where "exact = (pr_stop_status p = ACCEPTED \<and> deq (pr_stop_quantity p) (po_position s)
    \<and> pr_target_status p = ACCEPTED \<and> deq (pr_target_quantity p) (po_position s))"
  define under where "under = (pr_stop_status p = ACCEPTED \<and> 0 < pr_stop_quantity p \<and> pr_stop_quantity p < po_position s)"
  from assms(2) obtain e where
      app: "append_event s e (if exact
        then s\<lparr>po_state := PROTECTED, po_halted := False, po_stop := po_position s, po_target := po_position s\<rparr>
        else s\<lparr>po_state := (if under then UNDERPROTECTED else HALTED), po_halted := True,
               po_stop := dmin (pr_stop_quantity p) (po_position s),
               po_target := dmin (pr_target_quantity p) (po_position s)\<rparr>) = Inr r"
    and state: "po_state s = UNPROTECTED \<or> po_state s = PROTECTED"
    and e: "pe_type e = (if exact then (if po_state s = UNPROTECTED then PROTECTION_ACTIVATED else PROTECTION_CONFIRMED)
                  else if under then PROTECTION_UNDER_SIZED else PROTECTION_REJECTED)"
    unfolding reconcile_protection_def Let_def Some option.case exact_def [symmetric] under_def [symmetric] bindE_Inr_iff
    by (elim exE conjE) (drule make_event_same, rule that, assumption, simp_all)
  have live: "has_position s" "plan_inv s"
    using exposed assms(1) paper_inv_agrees state by auto
  show ?thesis
    by (rule appended [OF app]) (use state live in \<open>auto simp: e tally_of_def plan_inv_restated\<close>)
qed

lemma timeout_moves:
  assumes "paper_inv s" "protection_timeout t event_id s = Inr r"
  shows "\<exists>e. moves s e r \<and> plan_inv r"
proof (cases "po_plan s")
  case None
  with assms(2) show ?thesis by (simp add: protection_timeout_def)
next
  case (Some plan)
  from assms(2) obtain e where app: "append_event s e (s\<lparr>po_state := HALTED, po_halted := True\<rparr>) = Inr r"
    and state: "po_state s = UNPROTECTED" and e: "pe_type e = PROTECTION_TIMEOUT"
    unfolding protection_timeout_def Some option.case bindE_Inr_iff
    by (elim exE conjE) (drule make_event_same, rule that, assumption, simp_all)
  have "has_position s" "plan_inv s" using exposed assms(1) paper_inv_agrees state by auto
  then show ?thesis
    by (intro appended [OF app]) (simp_all add: state e tally_of_def plan_inv_restated)
qed

lemma acknowledge_moves:
  assumes "paper_inv s" "acknowledge_halt t event_id review s = Inr r"
  shows "\<exists>e. moves s e r \<and> plan_inv r"
proof -
  from assms(2) obtain e where app: "append_event s e (s\<lparr>po_state := FLAT, po_halted := False\<rparr>) = Inr r"
    and state: "po_state s = HALTED" and e: "pe_type e = HALT_ACKNOWLEDGED"
    unfolding acknowledge_halt_def bindE_Inr_iff
    by (elim exE conjE) (drule make_event_same, rule that, assumption, simp_all)
  show ?thesis
  proof (rule appended [OF app])
    show "plan_inv (s\<lparr>po_state := FLAT, po_halted := False\<rparr>)"
      if "state_agrees (s\<lparr>po_state := FLAT, po_halted := False\<rparr>)"
      using that by (simp add: plan_inv_def state_agrees_def has_position_def)
  qed (simp_all add: state e tally_of_def)
qed

lemma halt_failed_moves:
  assumes "paper_inv s" "halt_failed_exit c event_id k reason s = Inr r" "po_state s = PROTECTED"
    and "k \<in> {STOP_UNFILLED_HALT, TARGET_UNFILLED_HALT}"
  shows "\<exists>e. moves s e r \<and> plan_inv r"
proof (cases "po_plan s")
  case None
  with assms(2) show ?thesis by (simp add: halt_failed_exit_def)
next
  case (Some plan)
  from assms(2) obtain e where
      app: "append_event s e (s\<lparr>po_state := HALTED, po_halted := True, po_stop := 0, po_target := 0\<rparr>) = Inr r"
    and e: "pe_type e = k"
    unfolding halt_failed_exit_def Some option.case bindE_Inr_iff
    by (elim exE conjE) (drule make_event_same, rule that, assumption, simp_all)
  have "has_position s" "plan_inv s" using exposed assms(1,3) paper_inv_agrees by auto
  with assms(3,4) show ?thesis
    by (intro appended [OF app]) (auto simp: e tally_of_def plan_inv_restated)
qed


lemma dsub_equal:
  assumes "dsub paper_context a b = Inr r" "dval a = dval b"
  shows "deq r 0"
proof -
  have "dval r \<le> 0" "0 \<le> dval r"
    using assms paper_ctx.dfix_nonpos paper_ctx.dfix_nonneg by (auto simp: dsub_def)
  then show ?thesis by (simp add: deq_dval)
qed

lemma close_moves:
  assumes "paper_inv s" "close_position event_id k t source price quantity reason final remain s = Inr r"
    and kind: "k \<in> {STOP_FILLED, TARGET_FILLED, EMERGENCY_FLATTEN_FULL, EMERGENCY_FLATTEN_PARTIAL}"
    and whole: "k \<noteq> EMERGENCY_FLATTEN_PARTIAL \<Longrightarrow> deq quantity (po_position s)"
    and final: "lifecycle (po_state s) k final"
    and part: "k = EMERGENCY_FLATTEN_PARTIAL \<Longrightarrow> po_state s \<in> {UNPROTECTED, UNDERPROTECTED, HALTED}"
  shows "\<exists>e. moves s e r \<and> plan_inv r"
proof -
  from assms(2) obtain average side plan where
      live: "po_average_price s = Some average" "po_side s = Some side" "po_plan s = Some plan"
    by (auto simp: close_position_def split: option.splits)
  let ?rest = "\<lambda>remaining fees pnl open_fee.
      s\<lparr>po_state := (if dmin (po_stop s) remaining < remaining then UNDERPROTECTED else HALTED),
         po_halted := True, po_position := remaining, po_stop := dmin (po_stop s) remaining,
         po_target := dmin (po_target s) remaining, po_open_fee := open_fee, po_fees := fees, po_pnl := pnl\<rparr>"
  from assms(2) obtain remaining e fees pnl entry_fee where
      result: "(if deq remaining 0 then
       append_event s e (s\<lparr>po_state := final, po_halted := remain, po_plan := None, po_side := None,
         po_position := 0, po_entry_fill := 0, po_average_price := None, po_stop := 0, po_target := 0,
         po_open_fee := 0, po_fees := fees, po_pnl := pnl\<rparr>)
     else bindE (dsub paper_context (po_open_fee s) entry_fee)
       (\<lambda>open_fee. append_event s e (?rest remaining fees pnl open_fee))) = Inr r"
    and remaining: "dsub paper_context (po_position s) quantity = Inr remaining"
    and sums: "dadd paper_context (po_fees s) (pe_fee e) = Inr fees" "dadd paper_context (po_pnl s) (pe_pnl e) = Inr pnl"
    and e: "pe_type e = k" "pe_quantity e = quantity" "0 \<le> dval quantity"
    unfolding close_position_def Let_def live option.case prod.case bindE_Inr_iff
    by (elim exE conjE) (drule make_event_same, rule that, assumption, assumption, simp_all add: dval_simps)
  have book: "book_event e (tally_of s) = Inr (if deq remaining 0 then 0 else remaining, fees, pnl)"
    using kind by (auto simp: tally_of_def e remaining sums)
  show ?thesis
  proof (cases "deq remaining 0")
    case True
    with result have app: "append_event s e (s\<lparr>po_state := final, po_halted := remain, po_plan := None, po_side := None,
         po_position := 0, po_entry_fill := 0, po_average_price := None, po_stop := 0, po_target := 0,
         po_open_fee := 0, po_fees := fees, po_pnl := pnl\<rparr>) = Inr r" by simp
    from True book final show ?thesis
      by (intro appended [OF app]) (simp_all add: e tally_of_def plan_inv_def has_position_def less_decimal_def)
  next
    case False
    with result obtain open_fee where app: "append_event s e (?rest remaining fees pnl open_fee) = Inr r" by auto
    let ?c = "?rest remaining fees pnl open_fee"
    have k: "k = EMERGENCY_FLATTEN_PARTIAL"
      using whole dsub_equal [OF remaining] False by (metis deq_dval)
    have "representable paper_context remaining"
      using remaining by (auto simp: dsub_def intro: paper_ctx.dfix_result_representable)
    moreover have "has_position s"
      using paper_inv_agrees [OF assms(1)] live by (simp add: amounts_agree_def)
    moreover have "has_position ?c" if "amounts_agree ?c"
      using that live by (simp add: amounts_agree_def)
    ultimately have "plan_inv ?c" if "amounts_agree ?c"
      using that paper_inv_agrees [OF assms(1)] by (intro plan_inv_keeps [of s ?c]) simp_all
    then show ?thesis
      using False book part [OF k] by (intro appended [OF app]) (simp_all add: e k tally_of_def)
  qed
qed

lemma exit_trigger_kind: "exit_trigger long stop target c = Some (p, k, r) \<Longrightarrow> k \<in> {STOP_FILLED, TARGET_FILLED}"
  by (auto simp: exit_trigger_def split: if_splits)

lemma candle_moves:
  assumes "paper_inv s" "observe_protected_candle c event_id s = Inr r"
  shows "\<exists>e. moves s e r \<and> plan_inv r"
proof (cases "po_plan s")
  case None
  with assms(2) show ?thesis by (simp add: observe_protected_candle_def)
next
  case (Some plan)
  from assms(2) obtain stop target where state: "po_state s = PROTECTED"
    and triggers: "si_stop_price (pp_stop plan) = Some stop" "si_stop_price (pp_target plan) = Some target"
    by (auto simp: observe_protected_candle_def Some)
  show ?thesis
  proof (cases "exit_trigger (po_side s = Some BUY) stop target c")
    case None
    with assms(2) obtain e where app: "append_event s e s = Inr r" and e: "pe_type e = MARKET_OBSERVED"
      unfolding observe_protected_candle_def Some option.case bindE_Inr_iff
      by (elim exE conjE) (simp add: triggers, elim exE conjE, drule make_event_same, rule that, assumption, simp)
    then show ?thesis
      using paper_inv_agrees [OF assms(1)] by (intro appended [OF app]) (simp_all add: e state tally_of_def)
  next
    case hit: (Some x)
    obtain p k reason where x: "x = (p, k, reason)" by (cases x)
    from hit x have k: "k \<in> {STOP_FILLED, TARGET_FILLED}" using exit_trigger_kind by blast
    let ?failed = "if k = STOP_FILLED then STOP_UNFILLED_HALT else TARGET_UNFILLED_HALT"
    have "settle_exit plan c event_id p k reason s = Inr r"
      using assms(2) by (auto simp: observe_protected_candle_def Some triggers hit x)
    then have "(\<exists>why. halt_failed_exit c event_id ?failed why s = Inr r)
        \<or> (\<exists>price. close_position event_id k (cn_observed_at c) (cn_source_hash c) price (po_position s) reason FLAT False s = Inr r)"
      unfolding settle_exit_def Let_def by (simp split: if_splits) blast+
    then show ?thesis
    proof (elim disjE exE)
      fix why assume "halt_failed_exit c event_id ?failed why s = Inr r"
      then show ?thesis using assms(1) state by (intro halt_failed_moves) (auto split: if_splits)
    next
      fix price
      assume "close_position event_id k (cn_observed_at c) (cn_source_hash c) price (po_position s) reason FLAT False s = Inr r"
      then show ?thesis using assms(1) state k by (intro close_moves) (auto simp: deq_dval)
    qed
  qed
qed


lemma flatten_moves:
  assumes "paper_inv s" "emergency_flatten b event_id s = Inr r"
  shows "\<exists>e. moves s e r \<and> plan_inv r"
proof (cases "po_plan s")
  case None
  with assms(2) show ?thesis by (simp add: emergency_flatten_def)
next
  case (Some plan)
  define quantity where "quantity = dmin (po_position s) (if po_side s = Some BUY then bk_bid_size b else bk_ask_size b)"
  from assms(2) have needed: "emergency_flatten_required s"
    by (auto simp: emergency_flatten_def Some)
  then have live: "has_position s" by (simp add: emergency_flatten_required_def has_position_def)
  have state: "po_state s \<in> {UNPROTECTED, UNDERPROTECTED, HALTED}"
    using needed paper_inv_agrees [OF assms(1)]
    by (cases "po_state s") (simp_all add: state_agrees_def emergency_flatten_required_def has_position_def)
  show ?thesis
  proof (cases "quantity \<le> 0")
    case True
    with assms(2) obtain e where app: "append_event s e (s\<lparr>po_state := HALTED, po_halted := True\<rparr>) = Inr r"
      and e: "pe_type e = EMERGENCY_FLATTEN_UNFILLED"
      unfolding emergency_flatten_def Let_def Some option.case quantity_def [symmetric] bindE_Inr_iff
      by (elim exE conjE) (simp only: if_True bindE_Inr_iff, elim exE conjE, drule make_event_same,
        rule that, assumption, simp)
    then show ?thesis
      using state live paper_inv_agrees [OF assms(1)]
      by (intro appended [OF app]) (auto simp: tally_of_def plan_inv_restated)
  next
    case False
    define full where "full = deq quantity (po_position s)"
    from False assms(2) obtain price where "close_position event_id
         (if full then EMERGENCY_FLATTEN_FULL else EMERGENCY_FLATTEN_PARTIAL)
         (bk_observed_at b) (bk_source_hash b) price quantity
         (if full then ''emergency_reduce_only_paper_flatten_complete''
          else ''emergency_reduce_only_paper_flatten_partial'')
         (if full then HALTED else UNDERPROTECTED) True s = Inr r"
      unfolding emergency_flatten_def Let_def Some option.case quantity_def [symmetric] full_def [symmetric] bindE_Inr_iff
      by (elim exE conjE) (simp only: if_False bindE_Inr_iff, elim exE conjE, rule that, assumption)
    then show ?thesis
      using assms(1) state by (intro close_moves) (auto simp: full_def split: if_splits)
  qed
qed

section \<open>Reachable states\<close>

text \<open>Every accepted transition appends one event and moves along the life cycle.\<close>

lemma step_moves:
  assumes "paper_inv s" "paper_step op s = Inr r"
  shows "\<exists>e. moves s e r \<and> plan_inv r"
proof (cases op)
  case (Submit plan t event_id)
  with assms(2) obtain p where "make_plan plan = Inr p" "submit_plan p t event_id s = Inr r" by auto
  then show ?thesis using assms(1) by (intro submit_moves) (auto simp: make_plan_Inr_iff)
qed (use assms(2) in \<open>auto dest!: observe_entry_moves [OF assms(1)] reconcile_moves [OF assms(1)]
  timeout_moves [OF assms(1)] candle_moves [OF assms(1)] flatten_moves [OF assms(1)]
  acknowledge_moves [OF assms(1)]\<close>)

lemma step_inv: "paper_inv s \<Longrightarrow> paper_step op s = Inr r \<Longrightarrow> paper_inv r"
proof -
  assume s: "paper_inv s" and step: "paper_step op s = Inr r"
  from step_moves [OF s step] obtain e where m: "moves s e r" "plan_inv r" by blast
  with s show "paper_inv r" by (auto simp: paper_inv_def moves_def book_events_snoc intro: life_path.move)
qed

definition fresh_oms :: "paper_oms \<Rightarrow> bool" where
  "fresh_oms s = (\<exists>account instrument m. create_oms account instrument m = Inr s)"

lemma fresh_inv: "fresh_oms s \<Longrightarrow> paper_inv s"
proof -
  assume "fresh_oms s"
  then obtain account instrument m g where made: "make_oms
       \<lparr> po_account_id = account, po_instrument = instrument, po_cost_model = m, po_state = FLAT,
         po_halted = False, po_plan = None, po_side = None, po_position = 0, po_entry_fill = 0,
         po_average_price = None, po_stop = 0, po_target = 0, po_open_fee = 0, po_fees = 0, po_pnl = 0,
         po_last = None, po_events = [], po_chain = g \<rparr> = Inr s"
    by (auto simp: fresh_oms_def create_oms_def)
  then show "paper_inv s"
    using make_oms_same [OF made] by (simp add: paper_inv_def plan_inv_def tally_of_def has_position_def less_decimal_def life_path.start)
qed

text \<open>The audit trail and the account of a state only grow.\<close>

definition trail_extends :: "paper_oms \<Rightarrow> paper_oms \<Rightarrow> bool" where
  "trail_extends s t =
     ((\<exists>es. po_events t = po_events s @ es) \<and> po_account_id t = po_account_id s
      \<and> po_instrument t = po_instrument s \<and> po_cost_model t = po_cost_model s)"

interpretation paper: monotone_system fresh_oms paper_step paper_inv trail_extends
proof unfold_locales
  show "trail_extends s r" if "paper_inv s" "paper_step op s = Inr r" for op s r
    using step_moves [OF that] by (auto simp: moves_def trail_extends_def)
qed (auto simp: trail_extends_def intro: fresh_inv step_inv)

section \<open>What a transition may not do\<close>

lemma nonnegative_dval: "nonnegative d \<Longrightarrow> 0 \<le> dval d"
  by (simp add: nonnegative_def dval_simps)

lemma made_nonnegative:
  assumes "make_oms s = Inr s"
  shows "0 \<le> dval (po_position s)" "0 \<le> dval (po_entry_fill s)" "0 \<le> dval (po_stop s)"
  using make_oms_facts [OF assms] nonnegative_dval by auto

text \<open>
  Only an entry fill raises the exposure. A position with at most the context's digits shrinks
  by exact or downward steps; a wider one is bounded by the entry fill the constructor checks.
\<close>

lemma reduces:
  assumes "paper_inv s" "moves s e t" "pe_type e \<notin> {ENTRY_FULL, ENTRY_PARTIAL}"
  shows "po_position t \<le> po_position s"
proof (cases "has_position t")
  case False
  then have "dval (po_position t) \<le> 0" by (simp add: has_position_def dval_simps)
  also have "0 \<le> dval (po_position s)" using assms(1) made_nonnegative by (simp add: paper_inv_def)
  finally show ?thesis by (simp add: dval_simps)
next
  case True
  with assms(2,3) have fill: "po_entry_fill t = po_entry_fill s" by (auto simp: moves_def)
  have "amounts_agree t" using assms(2) make_oms_agrees by (auto simp: moves_def)
  with True have within: "po_position t \<le> po_entry_fill t" by (auto simp: amounts_agree_def not_less dval_simps)
  have book: "book_event e (tally_of s) = Inr (tally_of t)" using assms(2) by (simp add: moves_def)
  then have cases: "po_position t = po_position s \<or>
      dsub paper_context (po_position s) (pe_quantity e) = Inr (po_position t) \<and> 0 \<le> dval (pe_quantity e)"
    using True assms(2,3) by (auto simp: moves_def tally_of_def has_position_def dval_simps split: if_splits)
  show ?thesis
  proof (cases "representable paper_context (po_position s)")
    case rep: True
    with cases paper_ctx.dsub_le_left show ?thesis by (auto simp: dval_simps)
  next
    case wide: False
    show ?thesis
    proof (cases "has_position s")
      case pos: True
      have "deq (po_position s) (po_entry_fill s)"
        using wide pos paper_inv_agrees [OF assms(1)] by (auto simp: plan_inv_def)
      with within fill show ?thesis by (simp add: dval_simps deq_dval)
    next
      case none: False
      have "dval (po_position s) = 0"
        using none made_nonnegative(1) [of s] assms(1) by (simp add: has_position_def paper_inv_def dval_simps)
      moreover from this have "dval r \<le> 0"
        if "dsub paper_context (po_position s) (pe_quantity e) = Inr r" "0 \<le> dval (pe_quantity e)" for r
        using that paper_ctx.dfix_nonpos by (auto simp: dsub_def)
      ultimately show ?thesis using cases by (auto simp: dval_simps)
    qed
  qed
qed

section \<open>Exits of a protected position\<close>

lemma append_event_log:
  assumes "append_event s e c = Inr t"
  shows "po_events t = po_events s @ [e]" "po_position t = po_position c" "po_halted t = po_halted c"
  by (rule append_eventE [OF assms], simp)+

lemma close_event:
  assumes "close_position event_id k t source price quantity reason final remain s = Inr r"
  shows "\<exists>e. po_events r = po_events s @ [e] \<and> pe_type e = k \<and> pe_price e = Some price"
proof -
  from assms obtain average side plan where
      live: "po_average_price s = Some average" "po_side s = Some side" "po_plan s = Some plan"
    by (auto simp: close_position_def split: option.splits)
  from assms obtain e a b remaining fee f where
      result: "(if deq remaining 0 then append_event s e a
        else bindE (dsub paper_context (po_open_fee s) fee) (\<lambda>x. append_event s e (f x))) = Inr r"
    and e: "pe_type e = k" "pe_price e = Some price"
    unfolding close_position_def Let_def live option.case prod.case bindE_Inr_iff
    by (elim exE conjE) (drule make_event_same, rule that, assumption, simp_all)
  then show ?thesis by (auto dest: append_event_log(1) split: if_splits)
qed

lemma failed_event:
  assumes "halt_failed_exit c event_id k reason s = Inr r"
  shows "\<exists>e. po_events r = po_events s @ [e] \<and> pe_type e = k \<and> po_halted r \<and> po_position r = po_position s"
proof -
  from assms obtain plan where plan: "po_plan s = Some plan"
    by (auto simp: halt_failed_exit_def split: option.splits)
  from assms obtain e where
      app: "append_event s e (s\<lparr>po_state := HALTED, po_halted := True, po_stop := 0, po_target := 0\<rparr>) = Inr r"
    and e: "pe_type e = k"
    unfolding halt_failed_exit_def plan option.case bindE_Inr_iff
    by (elim exE conjE) (drule make_event_same, rule that, assumption, simp_all)
  from append_event_log [OF app] e show ?thesis by simp
qed

text \<open>
  What an accepted candle does: nothing is touched, or the triggered leg fills in full at its
  adverse price within the plan's bound, or the account is halted with its position.
\<close>

lemma candle_outcome:
  assumes "observe_protected_candle c event_id s = Inr u" "po_plan s = Some p"
    and "si_stop_price (pp_stop p) = Some stop" "si_stop_price (pp_target p) = Some target"
  obtains e where "po_events u = po_events s @ [e]"
    "case exit_trigger (po_side s = Some BUY) stop target c of
       None \<Rightarrow> pe_type e = MARKET_OBSERVED
     | Some (reference, k, reason) \<Rightarrow>
         pe_type e = k \<and> (\<exists>price bound. adverse_exit s reference (pc_exit_slippage_bps (po_cost_model s)) = Inr price
           \<and> si_price_bound (if k = STOP_FILLED then pp_stop p else pp_target p) = Some bound
           \<and> exit_within_bound s price bound \<and> pe_price e = Some price)
         \<or> pe_type e = (if k = STOP_FILLED then STOP_UNFILLED_HALT else TARGET_UNFILLED_HALT)
           \<and> po_halted u \<and> po_position u = po_position s"
proof (cases "exit_trigger (po_side s = Some BUY) stop target c")
  case None
  with assms obtain e where app: "append_event s e s = Inr u" and e: "pe_type e = MARKET_OBSERVED"
    unfolding observe_protected_candle_def assms(2) option.case bindE_Inr_iff
    by (elim exE conjE) (simp add: assms, elim exE conjE, drule make_event_same, rule that, assumption, simp)
  show ?thesis using append_event_log(1) [OF app] e None by (intro that [of e]) simp_all
next
  case hit: (Some x)
  note that' = that
  obtain reference k reason where x: "x = (reference, k, reason)" by (cases x)
  let ?leg = "if k = STOP_FILLED then pp_stop p else pp_target p"
  let ?failed = "if k = STOP_FILLED then STOP_UNFILLED_HALT else TARGET_UNFILLED_HALT"
  have "settle_exit p c event_id reference k reason s = Inr u"
    using assms by (auto simp: observe_protected_candle_def hit x)
  note outcome = this [unfolded settle_exit_def Let_def]
  have failed: thesis if "halt_failed_exit c event_id ?failed why s = Inr u" for why
    using failed_event [OF that] by (elim exE conjE) (rule that', assumption, simp add: hit x)
  show thesis
  proof (cases "si_max_slippage_bps ?leg < pc_exit_slippage_bps (po_cost_model s)")
    case True
    with outcome show ?thesis by (simp only: if_True) (rule failed)
  next
    case False
    with outcome obtain price where price: "adverse_exit s reference (pc_exit_slippage_bps (po_cost_model s)) = Inr price"
      and rest: "(if \<not> pred_option (exit_within_bound s price) (si_price_bound ?leg) \<or> si_price_bound ?leg = None
        then halt_failed_exit c event_id ?failed ''triggered_paper_exit_could_not_fill_within_bound'' s
        else close_position event_id k (cn_observed_at c) (cn_source_hash c) price (po_position s) reason FLAT False s) = Inr u"
      by (simp only: if_False bindE_Inr_iff) blast
    show ?thesis
    proof (cases "\<not> pred_option (exit_within_bound s price) (si_price_bound ?leg) \<or> si_price_bound ?leg = None")
      case True
      from rest [unfolded if_P [OF True]] show ?thesis by (rule failed)
    next
      case False
      then obtain bound where "si_price_bound ?leg = Some bound" "exit_within_bound s price bound"
        by (cases "si_price_bound ?leg") simp_all
      with close_event [OF rest [unfolded if_not_P [OF False]]] price show ?thesis
        by (elim exE conjE) (rule that', assumption, simp add: hit x)
    qed
  qed
qed

end
