(* ===== verification/Paper_Chain.thy ===== *)
theory Paper_Chain
  imports Paper_Invariant
begin

text \<open>
  What the hash chain of the paper OMS commits to: two equal chain hashes come from the same
  account, instrument, cost model and events, or two of the messages hashed on the way collide.
\<close>

section \<open>The messages a chain hashes\<close>

definition material :: "string \<Rightarrow> pyval \<Rightarrow> 8 word list list" where
  "material d v = (case hash_material d v of Inl _ \<Rightarrow> [] | Inr m \<Rightarrow> [m])"

fun link_messages :: "nat \<Rightarrow> string \<Rightarrow> paper_event list \<Rightarrow> 8 word list list" where
  "link_messages n previous [] = []"
| "link_messages n previous (e # es) =
     material ''trading-harness/paper-event/v1'' (event_val e)
     @ (case event_hash e of Inl _ \<Rightarrow> [] | Inr h \<Rightarrow> material chain_domain (link_val n previous h))
     @ (case chain_link n previous e of Inl _ \<Rightarrow> [] | Inr p \<Rightarrow> link_messages (Suc n) p es)"

definition chain_messages :: "string \<Rightarrow> string \<Rightarrow> string \<Rightarrow> paper_event list \<Rightarrow> 8 word list list" where
  "chain_messages account instrument cost es =
     material chain_domain (genesis_val account instrument cost)
     @ (case genesis_hash account instrument cost of Inl _ \<Rightarrow> [] | Inr g \<Rightarrow> link_messages 0 g es)"

definition collision_between :: "8 word list list \<Rightarrow> 8 word list list \<Rightarrow> bool" where
  "collision_between ms ns = list_ex (\<lambda>m. list_ex (hash_collision m) ns) ms"

lemma collision_between_mono:
  "collision_between ms ns \<Longrightarrow> set ms \<subseteq> set ms' \<Longrightarrow> set ns \<subseteq> set ns' \<Longrightarrow> collision_between ms' ns'"
  by (auto simp: collision_between_def list_ex_iff)

lemma digests_agree:
  assumes "domain_hash d v = Inr h" "domain_hash d' w = Inr h"
  shows "(\<exists>t. canonical_json v = Inr t \<and> canonical_json w = Inr t) \<or> collision_between (material d v) (material d' w)"
proof -
  from assms obtain t m n where t: "canonical_json v = Inr t"
    and m: "hash_material d v = Inr m" "hash_material d' w = Inr n"
    by (auto simp: domain_hash_def hash_material_def canonical_bytes_def)
  from domain_hash_binds [OF assms m] t show ?thesis
    by (auto simp: material_def m collision_between_def)
qed

section \<open>Records of the chain\<close>

lemma texts_bound:
  assumes "canonical_json (record_val names (map PStr xs)) = Inr t" "canonical_json (record_val names (map PStr ys)) = Inr t"
    and "distinct names" "length xs = length names" "length ys = length names"
  shows "xs = ys"
proof -
  have js: "seqE (map canonical_data (map PStr zs)) = Inr (map JStr zs)" for zs by (induction zs) simp_all
  have "map (sort_keys \<circ> JStr) xs = map (sort_keys \<circ> JStr) ys"
    using record_val_binds [OF assms(1,2,3)] assms(4,5) js by simp
  moreover have "sort_keys \<circ> JStr = JStr" by (rule ext) simp
  moreover have "inj JStr" by (simp add: inj_def)
  ultimately show ?thesis by (simp add: inj_map_eq_map)
qed

lemma genesis_bound:
  "canonical_json (genesis_val a i c) = Inr t \<Longrightarrow> canonical_json (genesis_val a' i' c') = Inr t \<Longrightarrow>
   a = a' \<and> i = i' \<and> c = c'"
  using texts_bound [of "[''account_id'', ''instrument'', ''cost_model_hash'', ''state'']" "[a, i, c, ''empty'']" t
      "[a', i', c', ''empty'']"]
  by (simp add: genesis_val_def)

lemma link_bound:
  assumes "canonical_json (link_val n p h) = Inr t" "canonical_json (link_val n' p' h') = Inr t"
  shows "n = n' \<and> p = p' \<and> h = h'"
  using record_val_binds [OF assms [unfolded link_val_def]] by simp

lemma record_json_length:
  assumes "canonical_json (record_val names vs) = Inr t" "canonical_json (record_val names' ws) = Inr t"
    and "length vs = length names" "length ws = length names'"
  shows "length names = length names'"
proof -
  from assms(1,2) obtain j k where jk: "canonical_data (record_val names vs) = Inr j"
      "canonical_data (record_val names' ws) = Inr k" "json_dumps j = json_dumps k"
    by (auto simp: canonical_json_def)
  obtain js where js: "j = JObj (zip names js)" "length js = length names"
    using record_val_data [OF _ jk(1)] assms(3) by auto
  obtain ks where ks: "k = JObj (zip names' ks)" "length ks = length names'"
    using record_val_data [OF _ jk(2)] assms(4) by auto
  from json_dumps_inj [OF jk(3)] js ks show ?thesis
    by (auto dest!: arg_cong [of _ _ length])
qed

lemma genesis_not_link: "canonical_json (genesis_val a i c) = Inr t \<Longrightarrow> canonical_json (link_val n p h) \<noteq> Inr t"
  using record_json_length unfolding genesis_val_def link_val_def by fastforce

section \<open>Equal chains\<close>

lemma chain_from_snoc:
  "chain_from n p (es @ [e]) = bindE (chain_from n p es) (\<lambda>q. chain_link (n + length es) q e)"
  by (induction n p es rule: chain_from.induct) (auto simp: bindE_assoc bindE_def split: sum.splits)

lemma event_chain_snoc:
  "event_chain_hash a i c (es @ [e]) = bindE (event_chain_hash a i c es) (\<lambda>q. chain_link (length es) q e)"
  by (simp add: event_chain_hash_def chain_from_snoc bindE_assoc)

lemma link_messages_snoc:
  "chain_from n p es = Inr q \<Longrightarrow>
   link_messages n p (es @ [e]) = link_messages n p es @ link_messages (n + length es) q [e]"
  by (induction n p es rule: chain_from.induct) auto

lemma chain_messages_snoc:
  "event_chain_hash a i c es = Inr q \<Longrightarrow>
   chain_messages a i c (es @ [e]) = chain_messages a i c es @ link_messages (length es) q [e]"
  by (auto simp: event_chain_hash_def chain_messages_def link_messages_snoc)

text \<open>The last message of a chain: its genesis, or the link to its last event.\<close>

lemma link_agrees:
  assumes "chain_link n p e = Inr h" "chain_link n' p' f = Inr h"
  shows "n = n' \<and> p = p' \<and> (\<exists>t. canonical_json (event_val e) = Inr t \<and> canonical_json (event_val f) = Inr t)
    \<or> collision_between (link_messages n p [e]) (link_messages n' p' [f])"
proof -
  from assms obtain x y where hashes: "event_hash e = Inr x" "event_hash f = Inr y"
    and links: "domain_hash chain_domain (link_val n p x) = Inr h" "domain_hash chain_domain (link_val n' p' y) = Inr h"
    by (auto simp: chain_link_def)
  let ?ms = "link_messages n p [e]" and ?ns = "link_messages n' p' [f]"
  show ?thesis
  proof (cases "collision_between ?ms ?ns")
    case False
    with digests_agree [OF links] have eq: "n = n' \<and> p = p' \<and> x = y"
      using link_bound collision_between_mono [of _ _ ?ms ?ns] by (fastforce simp: hashes)
    then have "event_hash f = Inr x" using hashes by simp
    from digests_agree [OF hashes(1) [unfolded event_hash_def] this [unfolded event_hash_def]] False
    have "\<exists>t. canonical_json (event_val e) = Inr t \<and> canonical_json (event_val f) = Inr t"
      using collision_between_mono [of _ _ ?ms ?ns] by fastforce
    with eq show ?thesis by blast
  qed simp
qed

lemma genesis_and_link_differ:
  assumes "genesis_hash a i c = Inr h" "chain_link n p e = Inr h"
  shows "collision_between (chain_messages a i c []) (link_messages n p [e])"
    and "collision_between (link_messages n p [e]) (chain_messages a i c [])"
proof -
  from assms(2) obtain x where x: "event_hash e = Inr x" "domain_hash chain_domain (link_val n p x) = Inr h"
    by (auto simp: chain_link_def)
  note g = assms(1) [unfolded genesis_hash_def]
  have sub: "set (material chain_domain (genesis_val a i c)) \<subseteq> set (chain_messages a i c [])"
    "set (material chain_domain (link_val n p x)) \<subseteq> set (link_messages n p [e])"
    by (simp_all add: chain_messages_def x)
  show "collision_between (chain_messages a i c []) (link_messages n p [e])"
    using digests_agree [OF g x(2)] genesis_not_link collision_between_mono sub by metis
  show "collision_between (link_messages n p [e]) (chain_messages a i c [])"
    using digests_agree [OF x(2) g] genesis_not_link collision_between_mono sub by metis
qed

definition same_event :: "paper_event \<Rightarrow> paper_event \<Rightarrow> bool" where
  "same_event e f = (\<exists>t. canonical_json (event_val e) = Inr t \<and> canonical_json (event_val f) = Inr t)"

theorem chain_binds_log:
  assumes "event_chain_hash a i c es = Inr h" "event_chain_hash a' i' c' fs = Inr h"
    and "\<not> collision_between (chain_messages a i c es) (chain_messages a' i' c' fs)"
  shows "a = a' \<and> i = i' \<and> c = c' \<and>
list_all2 same_event es fs"
  using assms
proof (induction es arbitrary: fs h rule: rev_induct)
  case Nil
  then have g: "genesis_hash a i c = Inr h" by (simp add: event_chain_hash_def)
  show ?case
  proof (cases fs rule: rev_cases)
    case empty: Nil
    with Nil.prems have "genesis_hash a' i' c' = Inr h" by (simp add: event_chain_hash_def)
    from digests_agree [OF g [unfolded genesis_hash_def] this [unfolded genesis_hash_def]]
    show ?thesis
      using Nil.prems(3) empty genesis_bound collision_between_mono
      by (fastforce simp: chain_messages_def split: sum.splits)
  next
    case (snoc fs' f)
    with Nil.prems obtain q where q: "event_chain_hash a' i' c' fs' = Inr q" "chain_link (length fs') q f = Inr h"
      by (auto simp: event_chain_snoc)
    have "collision_between (chain_messages a i c []) (chain_messages a' i' c' fs)"
      using genesis_and_link_differ(1) [OF g q(2)]
      by (rule collision_between_mono) (simp_all add: snoc chain_messages_snoc [OF q(1)] del: link_messages.simps)
    with Nil.prems(3) show ?thesis by simp
  qed
next
  case (snoc e es)
  then obtain q where q: "event_chain_hash a i c es = Inr q" "chain_link (length es) q e = Inr h"
    by (auto simp: event_chain_snoc)
  note ms = chain_messages_snoc [OF q(1), of e]
  show ?case
  proof (cases fs rule: rev_cases)
    case Nil
    with snoc.prems have g: "genesis_hash a' i' c' = Inr h" by (simp add: event_chain_hash_def)
    have "collision_between (chain_messages a i c (es @ [e])) (chain_messages a' i' c' [])"
      using genesis_and_link_differ(2) [OF g q(2)]
      by (rule collision_between_mono) (simp_all add: ms del: link_messages.simps)
    with snoc.prems(3) Nil show ?thesis by simp
  next
    case (snoc fs' f)
    with snoc.prems obtain r where r: "event_chain_hash a' i' c' fs' = Inr r" "chain_link (length fs') r f = Inr h"
      by (auto simp: event_chain_snoc)
    note ns = chain_messages_snoc [OF r(1), of f]
    have apart: "\<not> collision_between (chain_messages a i c es) (chain_messages a' i' c' fs')"
      "\<not> collision_between (link_messages (length es) q [e]) (link_messages (length fs') r [f])"
      using snoc.prems(3) \<open>fs = fs' @ [f]\<close> collision_between_mono [of _ _ "chain_messages a i c (es @ [e])" "chain_messages a' i' c' fs"]
      by (auto simp: ms ns simp del: link_messages.simps)
    with link_agrees [OF q(2) r(2)] have "q = r" "same_event e f" unfolding same_event_def by blast+
    with snoc.IH [OF q(1) r(1) [folded this(1)] apart(1)] \<open>fs = fs' @ [f]\<close> show ?thesis
      by (auto intro: list_all2_appendI)
  qed
qed

end
