(* ===== verification/Paper_Progress.thy ===== *)
theory Paper_Progress
  imports Paper_Chain
begin

text \<open>
  When a transition of the paper OMS is accepted: an event with a new identifier, a new source
  and a time not before the last one is always appended, because every hash it needs exists and
  the constructor accepts the extended log. From it, the transitions whose success needs no
  arithmetic: submission of a plan, the protection deadline and the release of a halt.
\<close>

lemma make_event_facts:
  "make_event e = Inr f \<longleftrightarrow> f = e \<and> bounded_text_ok 256 (pe_event_id e) \<and> bounded_text_ok 256 (pe_reason e)
    \<and> pred_option sha256_shaped (pe_plan_hash e) \<and> pred_option sha256_shaped (pe_source_hash e)
    \<and> list_all nonnegative [pe_quantity e, pe_secondary e, pe_fee e] \<and> pred_option positive (pe_price e)
    \<and> bounded (pe_pnl e)"
  by (auto simp: make_event_def)

lemma event_hash_total:
  assumes "make_event e = Inr f"
  shows "\<exists>h. event_hash e = Inr h"
proof -
  have price: "pred_option bounded (pe_price e)"
    using assms by (auto simp: make_event_facts elim: option.pred_mono_strong)
  have opt: "is_ok (canonical_data (opt_val PStr x))" for x by (cases x) (simp_all add: opt_val_def)
  show ?thesis
    using assms price opt record_hash_total unfolding event_hash_def event_val_def
    by (auto simp: make_event_facts simp del: canonical_data.simps(2) intro!: record_hash_total [THEN ex_forward])
qed

lemma chain_link_total:
  assumes "make_event e = Inr f"
  shows "\<exists>h. chain_link n p e = Inr h \<and> sha256_shaped h"
proof -
  obtain h where h: "event_hash e = Inr h" using event_hash_total [OF assms] by blast
  have "\<exists>k. domain_hash chain_domain (link_val n p h) = Inr k \<and> sha256_shaped k"
    unfolding link_val_def by (rule record_hash_total) (simp_all add: chain_domain_def)
  with h show ?thesis by (simp add: chain_link_def)
qed

lemma in_time_order_snoc:
  "in_time_order (es @ [e]) \<longleftrightarrow> in_time_order es \<and> (es \<noteq> [] \<longrightarrow> pe_observed_at (last es) \<le> pe_observed_at e)"
  by (induction es rule: in_time_order.induct) (auto simp: not_less)

text \<open>The changed state satisfies the checks that do not concern the log.\<close>

definition amounts_checked :: "paper_oms \<Rightarrow> bool" where
  "amounts_checked s =
     (list_all nonnegative [po_position s, po_entry_fill s, po_stop s, po_target s, po_open_fee s, po_fees s]
      \<and> pred_option positive (po_average_price s) \<and> bounded (po_pnl s) \<and> amounts_agree s \<and> state_agrees s)"

definition fresh_event :: "paper_oms \<Rightarrow> string \<Rightarrow> instant \<Rightarrow> bool" where
  "fresh_event s event_id t =
     (bounded_text_ok 256 event_id \<and> event_id \<notin> set (map pe_event_id (po_events s))
      \<and> pred_option (\<lambda>l. l \<le> t) (po_last s))"

definition fresh_source :: "paper_oms \<Rightarrow> string option \<Rightarrow> bool" where
  "fresh_source s x = (x = None \<or> x \<notin> set (map pe_source_hash (po_events s)))"

lemma append_accepts:
  assumes s: "make_oms s = Inr s" and e: "make_event e = Inr e"
    and "fresh_event s (pe_event_id e) (pe_observed_at e)" "fresh_source s (pe_source_hash e)"
    and same: "po_account_id c = po_account_id s" "po_instrument c = po_instrument s" "po_cost_model c = po_cost_model s"
    and c: "amounts_checked c"
  shows "\<exists>h. append_event s e c =
    Inr (c\<lparr>po_events := po_events s @ [e], po_chain := h, po_last := Some (pe_observed_at e)\<rparr>)"
proof -
  note facts = make_oms_facts [OF s]
  obtain h where h: "chain_link (length (po_events s)) (po_chain s) e = Inr h" "sha256_shaped h"
    using chain_link_total [OF e] by blast
  let ?t = "c\<lparr>po_events := po_events s @ [e], po_chain := h, po_last := Some (pe_observed_at e)\<rparr>"
  have time: "po_events s \<noteq> [] \<longrightarrow> pe_observed_at (last (po_events s)) \<le> pe_observed_at e"
    using assms(3) facts by (auto simp: fresh_event_def last_time_def)
  obtain cost where "model_hash (po_cost_model s) = Inr cost"
      "event_chain_hash (po_account_id s) (po_instrument s) cost (po_events s) = Inr (po_chain s)"
    using facts by blast
  moreover have "make_oms ?t = Inr ?t"
    using facts c assms(3) same calculation h time unfolding make_oms_def
    by (simp add: event_chain_snoc in_time_order_snoc last_time_def amounts_checked_def fresh_event_def)
  ultimately show ?thesis
    using h(1) assms(3,4) unfolding append_event_def
    by (intro exI [of _ h]) (auto simp: fresh_event_def fresh_source_def not_less elim: option.pred_mono_strong)
qed

section \<open>Transitions that always succeed\<close>

lemma inv_amounts: "paper_inv s \<Longrightarrow> amounts_checked s"
  using make_oms_facts [of s s] by (simp add: paper_inv_def amounts_checked_def)

lemma amounts_restated [simp]:
  "amounts_agree (s\<lparr>po_state := x, po_halted := h\<rparr>) = amounts_agree s"
  "has_position (s\<lparr>po_state := x, po_halted := h\<rparr>) = has_position s"
  by (simp_all add: amounts_agree_def has_position_def)

lemma amounts_checked_restated:
  "amounts_checked s \<Longrightarrow> state_agrees (s\<lparr>po_state := x, po_halted := h\<rparr>) \<Longrightarrow>
   amounts_checked (s\<lparr>po_state := x, po_halted := h\<rparr>)"
  by (simp add: amounts_checked_def)

lemma amounts_checked_pending:
  "amounts_checked s \<Longrightarrow> \<not> has_position s \<Longrightarrow> \<not> po_halted s \<Longrightarrow>
   si_account_id (pp_entry p) = po_account_id s \<Longrightarrow> si_instrument (pp_entry p) = po_instrument s \<Longrightarrow>
   amounts_checked (s\<lparr>po_state := PENDING, po_plan := Some p\<rparr>)"
  unfolding amounts_checked_def state_agrees_def [of "s\<lparr>po_state := PENDING, po_plan := Some p\<rparr>"]
  by (auto simp: amounts_agree_def has_position_def)

lemma plan_hash_shaped: "plan_ok p \<Longrightarrow> sha256_shaped (pp_plan_hash p)"
  unfolding plan_ok_def by (elim conjE) (rule payload_hash_shaped)

lemma inv_plan_hash: "paper_inv s \<Longrightarrow> po_plan s = Some p \<Longrightarrow> sha256_shaped (pp_plan_hash p)"
  using paper_inv_agrees [of s] by (simp add: plan_inv_def plan_hash_shaped)

lemma nonnegative_zero [simp]: "nonnegative 0" "bounded 0"
  by (simp_all add: nonnegative_def zero_decimal_def decimal_eval)

lemma timeout_accepted:
  assumes "paper_inv s" "po_state s = UNPROTECTED" "fresh_event s event_id t"
    and "po_last s = Some l" "l + seconds (pc_timeout_seconds (po_cost_model s)) \<le> t"
  shows "\<exists>e h. protection_timeout t event_id s = Inr (s\<lparr>po_state := HALTED, po_halted := True,
      po_events := po_events s @ [e], po_chain := h, po_last := Some t\<rparr>)
    \<and> pe_event_id e = event_id \<and> pe_source_hash e = None"
proof -
  have live: "has_position s" by (rule exposed [OF assms(1)]) (simp add: assms(2))
  then obtain plan where plan: "po_plan s = Some plan"
    using paper_inv_agrees [OF assms(1)] by (auto simp: plan_inv_def)
  let ?e = "(event_for event_id PROTECTION_TIMEOUT t ''mandatory_stop_not_confirmed_before_deadline'')
      \<lparr>pe_plan_hash := Some (pp_plan_hash plan)\<rparr>"
  let ?c = "s\<lparr>po_state := HALTED, po_halted := True\<rparr>"
  have reason: "bounded_text_ok 256 ''mandatory_stop_not_confirmed_before_deadline''" by code_simp
  have e: "make_event ?e = Inr ?e"
    using reason inv_plan_hash [OF assms(1) plan] assms(3)
    by (simp add: make_event_facts event_for_def fresh_event_def)
  have c: "amounts_checked ?c"
    by (rule amounts_checked_restated) (simp_all add: inv_amounts assms(1) state_agrees_def live plan)
  obtain h where "append_event s ?e ?c =
      Inr (?c\<lparr>po_events := po_events s @ [?e], po_chain := h, po_last := Some (pe_observed_at ?e)\<rparr>)"
    using append_accepts [OF _ e, of s ?c] c assms(1,3)
    by (auto simp: paper_inv_def event_for_def fresh_source_def)
  then show ?thesis
    using assms(2,4,5) e plan
    by (intro exI [of _ ?e] exI [of _ h]) (simp add: protection_timeout_def, simp add: event_for_def)
qed

lemma acknowledge_accepted:
  assumes "paper_inv s" "po_state s = HALTED" "\<not> has_position s" "fresh_event s event_id t"
    and "sha256_shaped review" "fresh_source s (Some review)"
  shows "\<exists>e h. acknowledge_halt t event_id review s = Inr (s\<lparr>po_state := FLAT, po_halted := False,
      po_events := po_events s @ [e], po_chain := h, po_last := Some t\<rparr>)
    \<and> pe_event_id e = event_id \<and> pe_source_hash e = Some review"
proof -
  let ?e = "(event_for event_id HALT_ACKNOWLEDGED t ''paper_halt_acknowledged_after_flat_review'')
      \<lparr>pe_source_hash := Some review\<rparr>"
  let ?c = "s\<lparr>po_state := FLAT, po_halted := False\<rparr>"
  have none: "po_plan s = None" using assms(2,3) paper_inv_agrees [OF assms(1)] by (simp add: plan_inv_def)
  have zero: "\<not> nonzero (po_position s)"
    using assms(3) made_nonnegative(1) [of s] assms(1) by (auto simp: paper_inv_def nonzero_def has_position_def dval_simps)
  have reason: "bounded_text_ok 256 ''paper_halt_acknowledged_after_flat_review''" by code_simp
  have e: "make_event ?e = Inr ?e"
    using reason assms(4,5) by (simp add: make_event_facts event_for_def fresh_event_def)
  have c: "amounts_checked ?c"
    by (rule amounts_checked_restated) (simp_all add: inv_amounts assms(1) state_agrees_def none assms(3))
  obtain h where "append_event s ?e ?c =
      Inr (?c\<lparr>po_events := po_events s @ [?e], po_chain := h, po_last := Some (pe_observed_at ?e)\<rparr>)"
    using append_accepts [OF _ e, of s ?c] c assms(1,4,6)
    by (auto simp: paper_inv_def event_for_def)
  then show ?thesis
    using assms(2,5) zero e
    by (intro exI [of _ ?e] exI [of _ h]) (simp add: acknowledge_halt_def, simp add: event_for_def)
qed

lemma submit_accepted:
  assumes "paper_inv s" "po_state s = FLAT" "fresh_event s event_id t" "plan_ok p"
    and "si_account_id (pp_entry p) = po_account_id s" "si_instrument (pp_entry p) = po_instrument s"
    and "t < si_expires_at (pp_entry p)"
  shows "\<exists>e h. submit_plan p t event_id s = Inr (s\<lparr>po_state := PENDING, po_plan := Some p,
      po_events := po_events s @ [e], po_chain := h, po_last := Some t\<rparr>)
    \<and> pe_event_id e = event_id \<and> pe_source_hash e = None"
proof -
  let ?e = "(event_for event_id PLAN_ACCEPTED t ''local_paper_plan_accepted_no_venue_write'')
      \<lparr>pe_plan_hash := Some (pp_plan_hash p)\<rparr>"
  let ?c = "s\<lparr>po_state := PENDING, po_plan := Some p\<rparr>"
  have flat: "\<not> has_position s" "\<not> po_halted s"
    using assms(2) paper_inv_agrees [OF assms(1)] by (simp_all add: state_agrees_def)
  have zero: "\<not> nonzero (po_position s)"
    using flat(1) made_nonnegative(1) [of s] assms(1) by (auto simp: paper_inv_def nonzero_def has_position_def dval_simps)
  have reason: "bounded_text_ok 256 ''local_paper_plan_accepted_no_venue_write''" by code_simp
  have e: "make_event ?e = Inr ?e"
    using reason assms(3) plan_hash_shaped [OF assms(4)]
    by (simp add: make_event_facts event_for_def fresh_event_def)
  have c: "amounts_checked ?c"
    using flat assms(5,6) by (intro amounts_checked_pending inv_amounts assms(1))
  obtain h where "append_event s ?e ?c =
      Inr (?c\<lparr>po_events := po_events s @ [?e], po_chain := h, po_last := Some (pe_observed_at ?e)\<rparr>)"
    using append_accepts [OF _ e, of s ?c] c assms(1,3)
    by (auto simp: paper_inv_def event_for_def fresh_source_def)
  then show ?thesis
    using assms(2,5-7) zero flat e
    by (intro exI [of _ ?e] exI [of _ h]) (simp add: submit_plan_def, simp add: event_for_def)
qed

section \<open>A new account\<close>

lemma create_accepted:
  assumes "bounded_text_ok 256 account" "bounded_text_ok 64 instrument"
    and "list_all bounded [pc_fee_bps m, pc_entry_slippage_bps m, pc_exit_slippage_bps m, pc_emergency_slippage_bps m]"
  shows "\<exists>g. create_oms account instrument m = Inr
       \<lparr> po_account_id = account, po_instrument = instrument, po_cost_model = m, po_state = FLAT,
         po_halted = False, po_plan = None, po_side = None, po_position = 0, po_entry_fill = 0,
         po_average_price = None, po_stop = 0, po_target = 0, po_open_fee = 0, po_fees = 0, po_pnl = 0,
         po_last = None, po_events = [], po_chain = g \<rparr>"
proof -
  obtain cost where cost: "model_hash m = Inr cost"
    using assms(3) record_hash_total [of "''trading-harness/paper-cost-model/v1''"
      "[''model_id'', ''version'', ''fee_bps_per_fill'', ''entry_slippage_bps'', ''exit_slippage_bps'',
      ''emergency_slippage_bps'', ''protection_timeout_seconds'']"
      "[PStr (pc_model_id m), PStr (pc_version m), PDec (pc_fee_bps m), PDec (pc_entry_slippage_bps m),
      PDec (pc_exit_slippage_bps m), PDec (pc_emergency_slippage_bps m), PInt (pc_timeout_seconds m)]"]
    by (auto simp: model_hash_def cost_model_val_def simp del: canonical_data.simps(2))
  obtain g where g: "genesis_hash account instrument cost = Inr g" "sha256_shaped g"
    using record_hash_total [of chain_domain "[''account_id'', ''instrument'', ''cost_model_hash'', ''state'']"
      "[PStr account, PStr instrument, PStr cost, PStr ''empty'']"]
    by (auto simp: genesis_hash_def genesis_val_def chain_domain_def)
  show ?thesis
    unfolding create_oms_def make_oms_def
    using assms(1,2) cost g
    by (intro exI [of _ g]) (simp add: event_chain_hash_def last_time_def amounts_agree_def state_agrees_def
      has_position_def nonzero_def less_decimal_def deq_dval)
qed

end
