(* ===== verification/Paper_Sample.thy ===== *)
theory Paper_Sample
  imports Quote_Properties Paper_Progress
begin

text \<open>
  One run of the paper OMS on concrete observations, shared by the witnesses: the sample plan
  is submitted and filled, its protection is never confirmed, the account is halted at the
  deadline, flattened and released.
\<close>

lemmas paper_eval = decimal_eval paper_context_def

definition sample_cost :: cost_model where
  "sample_cost =
     \<lparr> pc_model_id = ''m'', pc_version = ''1'', pc_fee_bps = Dec 10 0, pc_entry_slippage_bps = Dec 0 0,
       pc_exit_slippage_bps = Dec 0 0, pc_emergency_slippage_bps = Dec 0 0, pc_timeout_seconds = 60 \<rparr>"

lemma sample_cost_made:
  "make_cost_model \<lparr> pc_model_id = ''m'', pc_version = ''1'', pc_fee_bps = In_Decimal (Dec 10 0),
     pc_entry_slippage_bps = In_Decimal (Dec 0 0), pc_exit_slippage_bps = In_Decimal (Dec 0 0),
     pc_emergency_slippage_bps = In_Decimal (Dec 0 0), pc_timeout_seconds = 60 \<rparr> = Inr sample_cost"
proof -
  have "bounded_text_ok 64 ''m''" "bounded_text_ok 64 ''1''" by code_simp+
  moreover have "paper_bps (In_Decimal (Dec 10 0)) = Inr (Dec 10 0)" "paper_bps (In_Decimal (Dec 0 0)) = Inr (Dec 0 0)"
    by (simp_all add: paper_bps_def lenient_nonnegative_def decimal_eval)
  ultimately show ?thesis by (simp add: make_cost_model_def sample_cost_def)
qed

section \<open>Arithmetic of the run\<close>

lemma paper_prec: "prec paper_context = 64"
  by (simp add: paper_context_def)

lemma paper_quotients:
  "paper_divide (Dec 2000 0) (Dec 10000 0) = Inr (Dec 2 (- 1))"
  "paper_divide (Dec 1980 0) (Dec 10000 0) = Inr (Dec 198 (- 3))"
  "paper_divide (Dec 2 0) (Dec 2 0) = Inr (Dec 1 0)"
  "paper_divide (Dec 0 0) (Dec 10000 0) = Inr (Dec 0 0)"
proof -
  have "quotient_digits 64 (Dec 2000 0) (Dec 10000 0) = Dec 2 (- 1)"
    by (rule quotient_exact [where m = 1, THEN trans]; simp add: ndigits.simps)
  moreover have "quotient_digits 64 (Dec 1980 0) (Dec 10000 0) = Dec 198 (- 3)"
    by (rule quotient_exact [where m = 3, THEN trans]; simp add: ndigits.simps)
  moreover have "quotient_digits 64 (Dec 2 0) (Dec 2 0) = Dec 1 0"
    by (rule quotient_exact [where m = 0, THEN trans]; simp add: ndigits.simps)
  ultimately show "paper_divide (Dec 2000 0) (Dec 10000 0) = Inr (Dec 2 (- 1))"
    "paper_divide (Dec 1980 0) (Dec 10000 0) = Inr (Dec 198 (- 3))"
    "paper_divide (Dec 2 0) (Dec 2 0) = Inr (Dec 1 0)"
    "paper_divide (Dec 0 0) (Dec 10000 0) = Inr (Dec 0 0)"
    by (simp_all add: paper_divide_def ddiv_def paper_eval)
qed

lemma paper_amounts:
  "dmul paper_context (Dec 100 0) (Dec 0 0) = Inr (Dec 0 0)"
  "dmul paper_context (Dec 99 0) (Dec 0 0) = Inr (Dec 0 0)"
  "dmul paper_context (Dec 100 0) (Dec 2 0) = Inr (Dec 200 0)"
  "dmul paper_context (Dec 99 0) (Dec 2 0) = Inr (Dec 198 0)"
  "dmul paper_context (Dec 200 0) (Dec 10 0) = Inr (Dec 2000 0)"
  "dmul paper_context (Dec 198 0) (Dec 10 0) = Inr (Dec 1980 0)"
  "dmul paper_context (Dec 2 (- 1)) (Dec 1 0) = Inr (Dec 2 (- 1))"
  "dmul paper_context (Dec (- 1) 0) (Dec 2 0) = Inr (Dec (- 2) 0)"
  "dadd paper_context (Dec 100 0) (Dec 0 0) = Inr (Dec 100 0)"
  "dsub paper_context (Dec 99 0) (Dec 0 0) = Inr (Dec 99 0)"
  "dsub paper_context (Dec 99 0) (Dec 100 0) = Inr (Dec (- 1) 0)"
  "dsub paper_context (Dec (- 2) 0) (Dec 2 (- 1)) = Inr (Dec (- 22) (- 1))"
  "dsub paper_context (Dec (- 22) (- 1)) (Dec 198 (- 3)) = Inr (Dec (- 2398) (- 3))"
  "dsub paper_context (Dec 2 0) (Dec 2 0) = Inr (Dec 0 0)"
  "dadd paper_context 0 (Dec 2 (- 1)) = Inr (Dec 2 (- 1))"
  "dadd paper_context (Dec 2 (- 1)) (Dec 198 (- 3)) = Inr (Dec 398 (- 3))"
  "dadd paper_context 0 (Dec (- 2398) (- 3)) = Inr (Dec (- 2398) (- 3))"
  "dec_int 10000 = Dec 10000 0"
  by (simp_all add: paper_eval)

lemma paper_shares:
  "bps_amount (Dec 100 0) (Dec 0 0) = Inr (Dec 0 0)" "bps_amount (Dec 99 0) (Dec 0 0) = Inr (Dec 0 0)"
  "bps_amount (Dec 200 0) (Dec 10 0) = Inr (Dec 2 (- 1))" "bps_amount (Dec 198 0) (Dec 10 0) = Inr (Dec 198 (- 3))"
  by (simp_all add: bps_amount_def paper_amounts paper_quotients)

section \<open>The run\<close>

definition sample_book :: "decimal \<Rightarrow> decimal \<Rightarrow> string \<Rightarrow> instant \<Rightarrow> decimal_input book_of" where
  "sample_book bid ask source t =
     \<lparr> bk_observation_id = ''b'', bk_observed_at = t, bk_bid_price = In_Decimal bid, bk_ask_price = In_Decimal ask,
       bk_bid_size = In_Decimal (Dec 5 0), bk_ask_size = In_Decimal (Dec 5 0), bk_source_hash = source \<rparr>"

definition other_digest :: string where "other_digest = replicate 64 (CHR ''b'')"
definition review_digest :: string where "review_digest = replicate 64 (CHR ''c'')"

lemma sample_digests:
  "sha256_shaped other_digest" "sha256_shaped review_digest" "sample_digest \<noteq> other_digest"
  "sample_digest \<noteq> review_digest" "other_digest \<noteq> review_digest"
  by (simp_all add: sha256_shaped_def other_digest_def review_digest_def is_lower_hex_def sample_digest_def
      list_all_iff replicate_eq_replicate)

lemma sample_book_made:
  assumes "sha256_shaped h"
  shows "make_book (sample_book (Dec 99 0) (Dec 100 0) h t) = Inr
    \<lparr> bk_observation_id = ''b'', bk_observed_at = t, bk_bid_price = Dec 99 0, bk_ask_price = Dec 100 0,
      bk_bid_size = Dec 5 0, bk_ask_size = Dec 5 0, bk_source_hash = h \<rparr>"
proof -
  have "bounded_text_ok 256 ''b''" by code_simp
  moreover have "lenient_positive ValueError (In_Decimal (Dec 99 0)) = Inr (Dec 99 0)"
    "lenient_positive ValueError (In_Decimal (Dec 100 0)) = Inr (Dec 100 0)"
    "lenient_nonnegative ValueError (In_Decimal (Dec 5 0)) = Inr (Dec 5 0)" "\<not> Dec 100 0 < Dec 99 0"
    by (simp_all add: decimal_eval)
  ultimately show ?thesis
    using assms by (simp add: make_book_def sample_book_def)
qed

definition sample_trade :: "protected_plan \<Rightarrow> paper_op list" where
  "sample_trade p =
     [Submit p 100 ''e1'', Entry (sample_book (Dec 99 0) (Dec 100 0) sample_digest 200) ''e2'', Timeout 60000200 ''e3'',
      Flatten (sample_book (Dec 99 0) (Dec 100 0) other_digest 60000300) ''e4'',
      Acknowledge 60000400 ''e5'' review_digest]"

lemma run_texts: "list_all (bounded_text_ok 256) [''e1'', ''e2'', ''e3'', ''e4'', ''e5'', ''acct'']" "bounded_text_ok 64 ''BTC''"
  by code_simp+

lemma sample_plan_made: "\<exists>h. make_plan (sample_plan h) = Inr (sample_plan h)"
proof -
  obtain h where "build_plan sample_ambient ''t'' sample_basis sample_identity sample_account sample_sizing_policy
      60000030 (Dec 90 0) (Dec 1339 (- 1)) sample_sizing = Inr (sample_plan h)"
    using sample_plan_built by blast
  from build_plan_facts [OF this] have "plan_ok (sample_plan h)" by blast
  then have "make_plan (sample_plan h) = Inr (sample_plan h)"
    by (simp add: make_plan_Inr_iff) (simp add: sample_plan_def sample_digest_shaped)
  then show ?thesis ..
qed

text \<open>The sample plan's entry, as the transitions read it.\<close>

lemma sample_entry:
  "si_account_id (pp_entry (sample_plan h)) = ''acct''" "si_instrument (pp_entry (sample_plan h)) = ''BTC''"
  "si_side (pp_entry (sample_plan h)) = BUY" "si_quantity (pp_entry (sample_plan h)) = Dec 2 0"
  "si_price_bound (pp_entry (sample_plan h)) = Some (Dec 100200 (- 3))"
  "si_expires_at (pp_entry (sample_plan h)) = 60000030" "si_max_slippage_bps (pp_entry (sample_plan h)) = Dec 20 0"
  "pp_plan_hash (sample_plan h) = h"
  by (simp_all add: sample_plan_def sample_leg_def)

lemma sample_filled:
  assumes "paper_inv s" "po_state s = PENDING" "po_plan s = Some (sample_plan h)" "po_cost_model s = sample_cost"
    and "po_fees s = 0" "fresh_event s ''e2'' 200" "fresh_source s (Some sample_digest)"
  shows "\<exists>e g. paper_step (Entry (sample_book (Dec 99 0) (Dec 100 0) sample_digest 200) ''e2'') s =
    Inr (s\<lparr>po_state := UNPROTECTED, po_halted := False, po_side := Some BUY, po_position := Dec 2 0,
      po_entry_fill := Dec 2 0, po_average_price := Some (Dec 100 0), po_open_fee := Dec 2 (- 1),
      po_fees := Dec 2 (- 1), po_events := po_events s @ [e], po_chain := g, po_last := Some 200\<rparr>)
    \<and> pe_event_id e = ''e2'' \<and> pe_source_hash e = Some sample_digest"
proof -
  let ?e = "(event_for ''e2'' ENTRY_FULL 200 ''bounded_ioc_fully_filled_children_not_yet_active'')
       \<lparr>pe_plan_hash := Some h, pe_source_hash := Some sample_digest,
        pe_quantity := Dec 2 0, pe_price := Some (Dec 100 0), pe_fee := Dec 2 (- 1)\<rparr>"
  let ?c = "s\<lparr>po_state := UNPROTECTED, po_halted := False, po_side := Some BUY, po_position := Dec 2 0,
      po_entry_fill := Dec 2 0, po_average_price := Some (Dec 100 0), po_open_fee := Dec 2 (- 1),
      po_fees := Dec 2 (- 1)\<rparr>"
  have amounts: "nonnegative (Dec 2 0)" "nonnegative (Dec 2 (- 1))" "positive (Dec 100 0)" "0 < Dec 2 0"
    "\<not> Dec 2 0 < Dec 2 0" "\<not> Dec 2 0 < 0" "\<not> Dec 2 0 \<le> 0" "Dec 100 0 \<le> Dec 100200 (- 3)" "\<not> Dec 20 0 < Dec 0 0" "dmin (Dec 2 0) (Dec 5 0) = Dec 2 0"
    "deq (Dec 2 0) (Dec 2 0)"
    by (simp_all add: decimal_eval)
  have reason: "bounded_text_ok 256 ''bounded_ioc_fully_filled_children_not_yet_active''" by code_simp
  have none: "\<not> has_position s" "\<not> po_halted s" and a: "amounts_agree s"
    using assms(2) paper_inv_agrees [OF assms(1)] by (simp_all add: state_agrees_def)
  from a none have zero: "\<not> nonzero (po_stop s)" "\<not> nonzero (po_target s)" by (simp_all add: amounts_agree_def)
  have shaped: "sha256_shaped h" using inv_plan_hash [OF assms(1,3)] by (simp add: sample_entry)
  have e: "make_event ?e = Inr ?e"
    using reason shaped sample_digest_shaped assms(6) amounts
    by (simp add: make_event_facts event_for_def fresh_event_def)
  have le: "\<not> Dec 2 0 < po_stop s" "\<not> Dec 2 0 < po_target s"
    using zero amounts(4) by (simp_all add: nonzero_def dval_simps)
  have c: "amounts_checked ?c"
    using inv_amounts [OF assms(1)] assms(3) amounts zero le a
    by (simp add: amounts_checked_def) (simp add: amounts_agree_def state_agrees_def has_position_def sample_entry)
  obtain g where app: "append_event s ?e ?c =
      Inr (?c\<lparr>po_events := po_events s @ [?e], po_chain := g, po_last := Some (pe_observed_at ?e)\<rparr>)"
    using append_accepts [OF _ e, of s ?c] c assms(1,6,7)
    by (auto simp: paper_inv_def event_for_def)
  have "paper_step (Entry (sample_book (Dec 99 0) (Dec 100 0) sample_digest 200) ''e2'') s = append_event s ?e ?c"
    using e
    by (simp add: sample_book_made sample_digest_shaped observe_entry_def assms sample_entry entry_quote_def sample_cost_def
      paper_shares paper_amounts amounts Let_def enter_position_def of_option_def)
  with app show ?thesis
    by (intro exI [of _ ?e] exI [of _ g]) (simp, simp add: event_for_def)
qed

lemma sample_flattened:
  assumes "paper_inv s" "po_state s = HALTED" "po_plan s = Some (sample_plan h)" "po_cost_model s = sample_cost"
    and "po_side s = Some BUY" "po_position s = Dec 2 0" "po_average_price s = Some (Dec 100 0)"
    and "po_open_fee s = Dec 2 (- 1)" "po_fees s = Dec 2 (- 1)" "po_pnl s = 0"
    and "fresh_event s ''e4'' 60000300" "fresh_source s (Some other_digest)"
  shows "\<exists>e g. paper_step (Flatten (sample_book (Dec 99 0) (Dec 100 0) other_digest 60000300) ''e4'') s =
    Inr (s\<lparr>po_state := HALTED, po_halted := True, po_plan := None, po_side := None, po_position := 0,
      po_entry_fill := 0, po_average_price := None, po_stop := 0, po_target := 0, po_open_fee := 0,
      po_fees := Dec 398 (- 3), po_pnl := Dec (- 2398) (- 3),
      po_events := po_events s @ [e], po_chain := g, po_last := Some 60000300\<rparr>)
    \<and> pe_event_id e = ''e4'' \<and> pe_source_hash e = Some other_digest"
proof -
  let ?e = "(event_for ''e4'' EMERGENCY_FLATTEN_FULL 60000300 ''emergency_reduce_only_paper_flatten_complete'')
       \<lparr>pe_plan_hash := Some h, pe_source_hash := Some other_digest, pe_quantity := Dec 2 0,
        pe_price := Some (Dec 99 0), pe_fee := Dec 198 (- 3), pe_pnl := Dec (- 2398) (- 3)\<rparr>"
  let ?c = "s\<lparr>po_state := HALTED, po_halted := True, po_plan := None, po_side := None, po_position := 0,
      po_entry_fill := 0, po_average_price := None, po_stop := 0, po_target := 0, po_open_fee := 0,
      po_fees := Dec 398 (- 3), po_pnl := Dec (- 2398) (- 3)\<rparr>"
  have amounts: "nonnegative (Dec 2 0)" "nonnegative (Dec 198 (- 3))" "nonnegative (Dec 398 (- 3))" "positive (Dec 99 0)"
    "bounded (Dec (- 2398) (- 3))" "0 < Dec 2 0" "\<not> Dec 2 0 < Dec 2 0" "\<not> Dec 2 0 \<le> 0" "\<not> Dec 99 0 \<le> 0"
    "dmin (Dec 2 0) (Dec 5 0) = Dec 2 0" "deq (Dec 2 0) (Dec 2 0)" "deq (Dec 0 0) 0"
    by (simp_all add: decimal_eval)
  have reason: "bounded_text_ok 256 ''emergency_reduce_only_paper_flatten_complete''" by code_simp
  have halted: "po_halted s" using assms(2) paper_inv_agrees [OF assms(1)] by (simp add: state_agrees_def)
  have shaped: "sha256_shaped h" using inv_plan_hash [OF assms(1,3)] by (simp add: sample_entry)
  have e: "make_event ?e = Inr ?e"
    using reason shaped sample_digests assms(11) amounts
    by (simp add: make_event_facts event_for_def fresh_event_def)
  have c: "amounts_checked ?c"
    using amounts
    by (simp add: amounts_checked_def amounts_agree_def state_agrees_def has_position_def nonzero_def deq_dval less_dval)
  obtain g where app: "append_event s ?e ?c =
      Inr (?c\<lparr>po_events := po_events s @ [?e], po_chain := g, po_last := Some (pe_observed_at ?e)\<rparr>)"
    using append_accepts [OF _ e, of s ?c] c assms(1,11,12)
    by (auto simp: paper_inv_def event_for_def)
  have cost: "pc_emergency_slippage_bps sample_cost = Dec 0 0" "pc_fee_bps sample_cost = Dec 10 0"
    by (simp_all add: sample_cost_def)
  have "paper_step (Flatten (sample_book (Dec 99 0) (Dec 100 0) other_digest 60000300) ''e4'') s = append_event s ?e ?c"
    using e halted
    by (simp add: sample_book_made sample_digests emergency_flatten_def emergency_flatten_required_def assms(3-10)
      sample_entry cost adverse_exit_def paper_shares paper_amounts paper_quotients amounts Let_def close_position_def)
  with app show ?thesis
    by (intro exI [of _ ?e] exI [of _ g]) (simp, simp add: event_for_def)
qed

text \<open>The entry of the trade: a new account, the accepted plan and its full fill.\<close>

lemma sample_opened:
  obtains h g g1 g2 e1 e2 s0 s1 s2 where "make_plan (sample_plan h) = Inr (sample_plan h)"
    "s0 = \<lparr> po_account_id = ''acct'', po_instrument = ''BTC'', po_cost_model = sample_cost, po_state = FLAT,
         po_halted = False, po_plan = None, po_side = None, po_position = 0, po_entry_fill = 0,
         po_average_price = None, po_stop = 0, po_target = 0, po_open_fee = 0, po_fees = 0, po_pnl = 0,
         po_last = None, po_events = [], po_chain = g \<rparr>"
    "fresh_oms s0" "paper_step (Submit (sample_plan h) 100 ''e1'') s0 = Inr s1"
    "s1 = s0\<lparr>po_state := PENDING, po_plan := Some (sample_plan h), po_events := [e1], po_chain := g1, po_last := Some 100\<rparr>"
    "paper_step (Entry (sample_book (Dec 99 0) (Dec 100 0) sample_digest 200) ''e2'') s1 = Inr s2"
    "s2 = s1\<lparr>po_state := UNPROTECTED, po_halted := False, po_side := Some BUY, po_position := Dec 2 0,
      po_entry_fill := Dec 2 0, po_average_price := Some (Dec 100 0), po_open_fee := Dec 2 (- 1),
      po_fees := Dec 2 (- 1), po_events := [e1, e2], po_chain := g2, po_last := Some 200\<rparr>"
    "paper_inv s2" "pe_event_id e1 = ''e1''" "pe_source_hash e1 = None" "pe_event_id e2 = ''e2''"
    "pe_source_hash e2 = Some sample_digest"
proof -
  obtain h where plan: "make_plan (sample_plan h) = Inr (sample_plan h)" using sample_plan_made by blast
  then have ok: "plan_ok (sample_plan h)" by (simp add: make_plan_Inr_iff)
  let ?p = "sample_plan h"
  have texts: "bounded_text_ok 256 ''e1''" "bounded_text_ok 256 ''e2''" "bounded_text_ok 256 ''e3''"
    "bounded_text_ok 256 ''e4''" "bounded_text_ok 256 ''e5''" "bounded_text_ok 256 ''acct''"
    using run_texts by simp_all
  have "list_all bounded [pc_fee_bps sample_cost, pc_entry_slippage_bps sample_cost, pc_exit_slippage_bps sample_cost,
      pc_emergency_slippage_bps sample_cost]"
    by (simp add: sample_cost_def decimal_eval)
  then obtain s0 g where s0: "create_oms ''acct'' ''BTC'' sample_cost = Inr s0"
    and start: "s0 = \<lparr> po_account_id = ''acct'', po_instrument = ''BTC'', po_cost_model = sample_cost, po_state = FLAT,
         po_halted = False, po_plan = None, po_side = None, po_position = 0, po_entry_fill = 0,
         po_average_price = None, po_stop = 0, po_target = 0, po_open_fee = 0, po_fees = 0, po_pnl = 0,
         po_last = None, po_events = [], po_chain = g \<rparr>"
    using create_accepted [OF texts(6) run_texts(2)] by blast
  then have fresh: "fresh_oms s0" by (auto simp: fresh_oms_def)
  then have i0: "paper_inv s0" by (rule fresh_inv)
  obtain e1 g1 where "submit_plan ?p 100 ''e1'' s0 = Inr (s0\<lparr>po_state := PENDING, po_plan := Some ?p,
      po_events := po_events s0 @ [e1], po_chain := g1, po_last := Some 100\<rparr>)"
    and e1: "pe_event_id e1 = ''e1''" "pe_source_hash e1 = None"
    using submit_accepted [OF i0, of "''e1''" 100 ?p] ok texts
    by (auto simp: start fresh_event_def sample_entry)
  then obtain s1 where step1: "paper_step (Submit ?p 100 ''e1'') s0 = Inr s1"
    and s1: "s1 = s0\<lparr>po_state := PENDING, po_plan := Some ?p, po_events := [e1], po_chain := g1, po_last := Some 100\<rparr>"
    using plan by (simp add: start)
  have i1: "paper_inv s1" by (rule step_inv [OF i0 step1])
  obtain e2 g2 s2 where step2: "paper_step (Entry (sample_book (Dec 99 0) (Dec 100 0) sample_digest 200) ''e2'') s1 = Inr s2"
    and s2: "s2 = s1\<lparr>po_state := UNPROTECTED, po_halted := False, po_side := Some BUY, po_position := Dec 2 0,
      po_entry_fill := Dec 2 0, po_average_price := Some (Dec 100 0), po_open_fee := Dec 2 (- 1),
      po_fees := Dec 2 (- 1), po_events := [e1, e2], po_chain := g2, po_last := Some 200\<rparr>"
    and e2: "pe_event_id e2 = ''e2''" "pe_source_hash e2 = Some sample_digest"
    using sample_filled [OF i1, of h] texts e1
    by (auto simp: s1 start fresh_event_def fresh_source_def)
  have i2: "paper_inv s2" by (rule step_inv [OF i1 step2])
  show ?thesis by (rule that [OF plan start fresh step1 s1 step2 s2 i2 e1 e2])
qed

text \<open>Every operation of the trade is accepted, up to the flattened and halted account.\<close>

lemma sample_run:
  "\<exists>p s0 s1 s2 s3 s4. fresh_oms s0 \<and> paper_step (sample_trade p ! 0) s0 = Inr s1
    \<and> paper_step (sample_trade p ! 1) s1 = Inr s2 \<and> paper_step (sample_trade p ! 2) s2 = Inr s3
    \<and> paper_step (sample_trade p ! 3) s3 = Inr s4
    \<and> po_state s2 = UNPROTECTED \<and> po_last s2 = Some 200 \<and> po_cost_model s2 = sample_cost
    \<and> fresh_event s2 ''e3'' 60000200 \<and> po_position s1 = 0 \<and> po_position s2 = Dec 2 0
    \<and> po_state s4 = HALTED \<and> \<not> has_position s4 \<and> tally_of s4 = (0, Dec 398 (- 3), Dec (- 2398) (- 3))
    \<and> fresh_event s4 ''e5'' 60000400 \<and> fresh_source s4 (Some review_digest)"
proof -
  obtain h g g1 g2 e1 e2 s0 s1 s2 where plan: "make_plan (sample_plan h) = Inr (sample_plan h)"
    and start: "s0 = \<lparr> po_account_id = ''acct'', po_instrument = ''BTC'', po_cost_model = sample_cost, po_state = FLAT,
         po_halted = False, po_plan = None, po_side = None, po_position = 0, po_entry_fill = 0,
         po_average_price = None, po_stop = 0, po_target = 0, po_open_fee = 0, po_fees = 0, po_pnl = 0,
         po_last = None, po_events = [], po_chain = g \<rparr>"
    and fresh: "fresh_oms s0" and step1: "paper_step (Submit (sample_plan h) 100 ''e1'') s0 = Inr s1"
    and s1: "s1 = s0\<lparr>po_state := PENDING, po_plan := Some (sample_plan h), po_events := [e1], po_chain := g1, po_last := Some 100\<rparr>"
    and step2: "paper_step (Entry (sample_book (Dec 99 0) (Dec 100 0) sample_digest 200) ''e2'') s1 = Inr s2"
    and s2: "s2 = s1\<lparr>po_state := UNPROTECTED, po_halted := False, po_side := Some BUY, po_position := Dec 2 0,
      po_entry_fill := Dec 2 0, po_average_price := Some (Dec 100 0), po_open_fee := Dec 2 (- 1),
      po_fees := Dec 2 (- 1), po_events := [e1, e2], po_chain := g2, po_last := Some 200\<rparr>"
    and i2: "paper_inv s2" and e1: "pe_event_id e1 = ''e1''" "pe_source_hash e1 = None"
    and e2: "pe_event_id e2 = ''e2''" "pe_source_hash e2 = Some sample_digest"
    by (rule sample_opened)
  let ?p = "sample_plan h"
  have texts: "bounded_text_ok 256 ''e3''" "bounded_text_ok 256 ''e4''" "bounded_text_ok 256 ''e5''"
    using run_texts by simp_all
  have f2: "fresh_event s2 ''e3'' 60000200" using texts e1 e2 by (simp add: s2 fresh_event_def)
  obtain e3 g3 s3 where step3: "paper_step (Timeout 60000200 ''e3'') s2 = Inr s3"
    and s3: "s3 = s2\<lparr>po_state := HALTED, po_halted := True, po_events := [e1, e2, e3], po_chain := g3,
      po_last := Some 60000200\<rparr>"
    and e3: "pe_event_id e3 = ''e3''" "pe_source_hash e3 = None"
    using timeout_accepted [OF i2 _ f2, of 200]
    by (auto simp: s2 s1 start sample_cost_def seconds_def microsecond_second_def)
  have i3: "paper_inv s3" by (rule step_inv [OF i2 step3])
  obtain e4 g4 s4 where step4: "paper_step (Flatten (sample_book (Dec 99 0) (Dec 100 0) other_digest 60000300) ''e4'') s3 = Inr s4"
    and s4: "s4 = s3\<lparr>po_state := HALTED, po_halted := True, po_plan := None, po_side := None, po_position := 0,
      po_entry_fill := 0, po_average_price := None, po_stop := 0, po_target := 0, po_open_fee := 0,
      po_fees := Dec 398 (- 3), po_pnl := Dec (- 2398) (- 3),
      po_events := [e1, e2, e3, e4], po_chain := g4, po_last := Some 60000300\<rparr>"
    and e4: "pe_event_id e4 = ''e4''" "pe_source_hash e4 = Some other_digest"
    using sample_flattened [OF i3, of h] texts e1 e2 e3 sample_digests
    by (auto simp: s3 s2 s1 start fresh_event_def fresh_source_def)
  have "fresh_event s4 ''e5'' 60000400" "fresh_source s4 (Some review_digest)"
    using texts e1 e2 e3 e4 sample_digests by (simp_all add: s4 fresh_event_def fresh_source_def)
  with fresh step1 step2 step3 step4 f2 show ?thesis
    by (intro exI [of _ ?p] exI [of _ s0] exI [of _ s1] exI [of _ s2] exI [of _ s3] exI [of _ s4])
      (simp add: sample_trade_def, simp add: s4 s3 s2 s1 start has_position_def tally_of_def less_dval)
qed

end
