(* ===== verification/Paper_Properties.thy ===== *)
theory Paper_Properties
  imports Paper_Sample
begin

text \<open>The properties of the paper OMS, over every state a run of its transitions reaches.\<close>

lemma reached_by_steps:
  "paper_step op s = Inr t \<Longrightarrow> run_ops paper_step s (op # ops) = run_ops paper_step t ops"
  by (simp add: attempt_def)

section \<open>Reachable states\<close>

text \<open>C7: Every state a new paper account reaches passes its own constructor; open exposure is either
  covered in full by its stop and target and not halted, or demands an emergency flatten; and it
  has the side of the accepted plan, at most its quantity, and an entry price within its bound.\<close>

theorem paper_exposure_covered_or_flagged:
  assumes "fresh_oms s" "t = run_ops paper_step s ops"
  shows "make_oms t = Inr t
    \<and> (has_position t \<longrightarrow>
        (po_state t = PROTECTED \<and> \<not> po_halted t \<and> deq (po_stop t) (po_position t) \<and> deq (po_target t) (po_position t)
         \<or> emergency_flatten_required t)
        \<and> (\<exists>p b a. po_plan t = Some p \<and> plan_ok p \<and> po_side t = Some (si_side (pp_entry p))
            \<and> po_position t \<le> si_quantity (pp_entry p) \<and> si_price_bound (pp_entry p) = Some b
            \<and> po_average_price t = Some a \<and> fill_within_bound (si_side (pp_entry p)) a b))"
proof -
  have inv: "paper_inv t" unfolding assms(2) by (rule paper.reachable_inv [OF assms(1)])
  then have a: "amounts_agree t" and st: "state_agrees t" and pl: "plan_inv t" by (simp_all add: paper_inv_agrees)
  have "po_state t = PROTECTED \<and> \<not> po_halted t \<and> deq (po_stop t) (po_position t) \<and> deq (po_target t) (po_position t)
         \<or> emergency_flatten_required t" if "has_position t"
    using st that by (cases "po_state t") (simp_all add: state_agrees_def emergency_flatten_required_def has_position_def)
  moreover have "\<exists>p b a. po_plan t = Some p \<and> plan_ok p \<and> po_side t = Some (si_side (pp_entry p))
            \<and> po_position t \<le> si_quantity (pp_entry p) \<and> si_price_bound (pp_entry p) = Some b
            \<and> po_average_price t = Some a \<and> fill_within_bound (si_side (pp_entry p)) a b" if live: "has_position t"
  proof -
    have "po_position t \<le> po_entry_fill t" using a live by (auto simp: amounts_agree_def not_less dval_simps)
    with pl live show ?thesis by (auto simp: plan_inv_def dval_simps)
  qed
  ultimately show ?thesis using inv by (simp add: paper_inv_def)
qed

lemma paper_exposure_covered_or_flagged_witness:
  "\<exists>p s. fresh_oms s \<and> has_position (run_ops paper_step s (take 2 (sample_trade p)))
    \<and> emergency_flatten_required (run_ops paper_step s (take 2 (sample_trade p)))"
proof -
  obtain p s0 s1 s2 where run: "fresh_oms s0" "paper_step (sample_trade p ! 0) s0 = Inr s1"
      "paper_step (sample_trade p ! 1) s1 = Inr s2" and s2: "po_state s2 = UNPROTECTED" "po_position s2 = Dec 2 0"
    using sample_run by blast
  have "take 2 (sample_trade p) = [sample_trade p ! 0, sample_trade p ! 1]" by (simp add: sample_trade_def)
  with run have eq: "s2 = run_ops paper_step s0 (take 2 (sample_trade p))" by (simp add: attempt_def)
  have "has_position s2" by (simp add: has_position_def s2 decimal_eval)
  with paper_exposure_covered_or_flagged [OF run(1) eq] s2 have "emergency_flatten_required s2" by auto
  with run(1) \<open>has_position s2\<close> eq show ?thesis by blast
qed

text \<open>C8: The paper account implements its abstract life cycle and ledger: the event log of a reachable
  state is a path of the life cycle from flat to the state, position, fees and profit are what
  the log alone books, and the log of every later state extends it.\<close>

theorem paper_log_is_authoritative:
  assumes "fresh_oms s" "t = run_ops paper_step s ops"
  shows "life_path FLAT (map pe_type (po_events t)) (po_state t)
    \<and> book_events (po_events t) (0, 0, 0) = Inr (po_position t, po_fees t, po_pnl t)
    \<and> trail_extends t (run_ops paper_step s (ops @ later))"
proof -
  have "paper_inv t" unfolding assms(2) by (rule paper.reachable_inv [OF assms(1)])
  moreover have "trail_extends t (run_ops paper_step s (ops @ later))"
    unfolding assms(2) by (rule paper.later_below [OF assms(1)])
  ultimately show ?thesis by (simp add: paper_inv_def tally_of_def)
qed

lemma paper_log_is_authoritative_witness:
  "\<exists>p s. fresh_oms s \<and> book_events (po_events (run_ops paper_step s (take 4 (sample_trade p)))) (0, 0, 0)
     = Inr (0, Dec 398 (- 3), Dec (- 2398) (- 3))"
proof -
  obtain p s0 s1 s2 s3 s4 where run: "fresh_oms s0" "paper_step (sample_trade p ! 0) s0 = Inr s1"
      "paper_step (sample_trade p ! 1) s1 = Inr s2" "paper_step (sample_trade p ! 2) s2 = Inr s3"
      "paper_step (sample_trade p ! 3) s3 = Inr s4" and s4: "tally_of s4 = (0, Dec 398 (- 3), Dec (- 2398) (- 3))"
    using sample_run by blast
  have "take 4 (sample_trade p) = [sample_trade p ! 0, sample_trade p ! 1, sample_trade p ! 2, sample_trade p ! 3]"
    by (simp add: sample_trade_def numeral_eq_Suc)
  with run have eq: "s4 = run_ops paper_step s0 (take 4 (sample_trade p))" by (simp add: attempt_def)
  from paper_log_is_authoritative [OF run(1) eq, of "[]"] s4
  have "book_events (po_events s4) (0, 0, 0) = Inr (0, Dec 398 (- 3), Dec (- 2398) (- 3))"
    by (simp add: tally_of_def)
  with run(1) show ?thesis unfolding eq by (intro exI conjI)
qed

text \<open>C9: An accepted transition appends one event. It raises the exposure only as an entry fill of a
  pending plan of an account that is not halted, and it lifts a halt only as the acknowledgement
  of a halted account without position.\<close>

theorem paper_risk_only_by_entry:
  assumes "fresh_oms s" "t = run_ops paper_step s ops" "paper_step op t = Inr u"
  shows "\<exists>e. po_events u = po_events t @ [e] \<and> lifecycle (po_state t) (pe_type e) (po_state u)
    \<and> (po_position t < po_position u \<longrightarrow>
        pe_type e \<in> {ENTRY_FULL, ENTRY_PARTIAL} \<and> po_state t = PENDING \<and> \<not> po_halted t)
    \<and> (po_halted t \<and> \<not> po_halted u \<longrightarrow>
        pe_type e = HALT_ACKNOWLEDGED \<and> po_state t = HALTED \<and> \<not> has_position t)"
proof -
  have inv: "paper_inv t" unfolding assms(2) by (rule paper.reachable_inv [OF assms(1)])
  obtain e where m: "moves t e u" using step_moves [OF inv assms(3)] by blast
  have st: "state_agrees t" "state_agrees u" using paper_inv_agrees inv step_inv [OF inv assms(3)] by blast+
  from m have l: "lifecycle (po_state t) (pe_type e) (po_state u)" by (simp add: moves_def)
  have entry: "pe_type e \<in> {ENTRY_FULL, ENTRY_PARTIAL}" if "po_position t < po_position u"
    using reduces [OF inv m] that by (auto simp: dval_simps)
  have pending: "po_state t = PENDING \<and> \<not> po_halted t" if "pe_type e \<in> {ENTRY_FULL, ENTRY_PARTIAL}"
  proof -
    have "po_state t = PENDING" using l that by (auto elim: lifecycle.cases)
    with st(1) show ?thesis by (simp add: state_agrees_def)
  qed
  have release: "pe_type e = HALT_ACKNOWLEDGED \<and> po_state t = HALTED \<and> \<not> has_position t"
    if "po_halted t" "\<not> po_halted u"
  proof -
    have "po_state t = HALTED \<or> po_state t = UNDERPROTECTED"
      using st(1) that(1) by (cases "po_state t") (simp_all add: state_agrees_def)
    moreover have "po_state u \<noteq> HALTED" "po_state u \<noteq> UNDERPROTECTED"
      using st(2) that(2) by (auto simp: state_agrees_def)
    ultimately have ack: "po_state t = HALTED" "pe_type e = HALT_ACKNOWLEDGED" "po_state u = FLAT"
      using l by (auto elim: fromHaltedE fromUnderprotectedE)
    with m have "po_position u = po_position t" by (auto simp: moves_def tally_of_def)
    with ack st(2) show ?thesis by (simp add: state_agrees_def has_position_def)
  qed
  have "po_events u = po_events t @ [e]" using m by (simp add: moves_def)
  with l entry pending release show ?thesis by blast
qed

lemma paper_risk_only_by_entry_witness:
  "\<exists>p s t u e. fresh_oms s \<and> paper_step (sample_trade p ! 1) t = Inr u \<and> po_events u = po_events t @ [e]
    \<and> pe_type e \<in> {ENTRY_FULL, ENTRY_PARTIAL} \<and> po_state t = PENDING"
proof -
  obtain p s0 s1 s2 where run: "fresh_oms s0" "paper_step (sample_trade p ! 0) s0 = Inr s1"
      "paper_step (sample_trade p ! 1) s1 = Inr s2" and s2: "po_position s1 = 0" "po_position s2 = Dec 2 0"
    using sample_run by blast
  from run have eq: "s1 = run_ops paper_step s0 [sample_trade p ! 0]" by (simp add: attempt_def)
  have "po_position s1 < po_position s2" by (simp add: s2 decimal_eval)
  with paper_risk_only_by_entry [OF run(1) eq run(3)] obtain e where
    e: "po_events s2 = po_events s1 @ [e]" "pe_type e \<in> {ENTRY_FULL, ENTRY_PARTIAL}" "po_state s1 = PENDING"
    by (elim exE conjE) simp
  show ?thesis by (intro exI conjI) (rule run(1), rule run(3), rule e(1), rule e(2), rule e(3))
qed

section \<open>Progress\<close>

text \<open>C11: An entry whose protection is not confirmed cannot stay open silently: from the deadline on, a
  timeout with a new event is accepted, halts the account with its position unchanged and demands
  an emergency flatten; before the deadline it is refused.\<close>

theorem paper_deadline_escalates:
  assumes "fresh_oms s" "u = run_ops paper_step s ops" "po_state u = UNPROTECTED" "po_last u = Some l"
    and "fresh_event u event_id t"
  shows "if l + seconds (pc_timeout_seconds (po_cost_model u)) \<le> t
    then \<exists>r. paper_step (Timeout t event_id) u = Inr r \<and> po_state r = HALTED \<and> po_halted r
      \<and> po_position r = po_position u \<and> emergency_flatten_required r
    else paper_step (Timeout t event_id) u = Inl PaperStateError"
proof -
  have inv: "paper_inv u" unfolding assms(2) by (rule paper.reachable_inv [OF assms(1)])
  have live: "has_position u" by (rule exposed [OF inv]) (simp add: assms(3))
  show ?thesis
  proof (cases "l + seconds (pc_timeout_seconds (po_cost_model u)) \<le> t")
    case True
    from timeout_accepted [OF inv assms(3,5,4) True] live show ?thesis
      using True by (auto simp: emergency_flatten_required_def has_position_def)
  next
    case False
    obtain plan where "po_plan u = Some plan"
      using live paper_inv_agrees [OF inv] by (auto simp: plan_inv_def)
    with False assms(3,4) show ?thesis
      by (simp add: protection_timeout_def require.simps)
  qed
qed

lemma paper_deadline_escalates_witness:
  "\<exists>p s. fresh_oms s \<and> (\<exists>r. paper_step (Timeout 60000200 ''e3'') (run_ops paper_step s (take 2 (sample_trade p))) = Inr r
    \<and> emergency_flatten_required r)"
proof -
  obtain p s0 s1 s2 where run: "fresh_oms s0" "paper_step (sample_trade p ! 0) s0 = Inr s1"
      "paper_step (sample_trade p ! 1) s1 = Inr s2"
    and s2: "po_state s2 = UNPROTECTED" "po_last s2 = Some 200" "po_cost_model s2 = sample_cost"
      "fresh_event s2 ''e3'' 60000200"
    using sample_run by blast
  have "take 2 (sample_trade p) = [sample_trade p ! 0, sample_trade p ! 1]" by (simp add: sample_trade_def)
  with run have eq: "s2 = run_ops paper_step s0 (take 2 (sample_trade p))" by (simp add: attempt_def)
  have "200 + seconds (pc_timeout_seconds (po_cost_model s2)) \<le> 60000200"
    by (simp add: s2 sample_cost_def seconds_def microsecond_second_def)
  with paper_deadline_escalates [OF run(1) eq s2(1,2,4)] obtain r where
    "paper_step (Timeout 60000200 ''e3'') s2 = Inr r" "emergency_flatten_required r" by auto
  with run(1) show ?thesis unfolding eq by blast
qed

text \<open>A halted account without position is never stuck: an acknowledgement with a new event and an
  unused review digest is accepted, and the account it returns accepts every unexpired plan for
  it under a new event.\<close>

theorem paper_flat_halt_released:
  assumes "fresh_oms s" "u = run_ops paper_step s ops" "po_state u = HALTED" "\<not> has_position u"
    and "fresh_event u event_id t" "sha256_shaped review" "fresh_source u (Some review)"
  shows "\<exists>r. paper_step (Acknowledge t event_id review) u = Inr r \<and> po_state r = FLAT \<and> \<not> po_halted r
    \<and> (\<forall>p t' event_id'. make_plan p = Inr p \<and> si_account_id (pp_entry p) = po_account_id u
        \<and> si_instrument (pp_entry p) = po_instrument u \<and> t' < si_expires_at (pp_entry p)
        \<and> fresh_event r event_id' t' \<longrightarrow>
        (\<exists>q. paper_step (Submit p t' event_id') r = Inr q \<and> po_state q = PENDING \<and> po_plan q = Some p))"
proof -
  have inv: "paper_inv u" unfolding assms(2) by (rule paper.reachable_inv [OF assms(1)])
  obtain r where r: "paper_step (Acknowledge t event_id review) u = Inr r"
    and flat: "po_state r = FLAT" "\<not> po_halted r"
    and same: "po_account_id r = po_account_id u" "po_instrument r = po_instrument u"
    using acknowledge_accepted [OF inv assms(3-7)] by auto
  have ir: "paper_inv r" by (rule step_inv [OF inv r])
  have "\<exists>q. paper_step (Submit p t' event_id') r = Inr q \<and> po_state q = PENDING \<and> po_plan q = Some p"
    if "make_plan p = Inr p" "si_account_id (pp_entry p) = po_account_id u" "si_instrument (pp_entry p) = po_instrument u"
      "t' < si_expires_at (pp_entry p)" "fresh_event r event_id' t'" for p t' event_id'
  proof -
    have "plan_ok p" using that(1) by (simp add: make_plan_Inr_iff)
    from submit_accepted [OF ir flat(1) that(5) this] that(1-4) same show ?thesis by auto
  qed
  with r flat show ?thesis by blast
qed

lemma paper_flat_halt_released_witness:
  "\<exists>p s. fresh_oms s \<and> (\<exists>r. paper_step (sample_trade p ! 4) (run_ops paper_step s (take 4 (sample_trade p))) = Inr r
    \<and> po_state r = FLAT)"
proof -
  obtain p s0 s1 s2 s3 s4 where run: "fresh_oms s0" "paper_step (sample_trade p ! 0) s0 = Inr s1"
      "paper_step (sample_trade p ! 1) s1 = Inr s2" "paper_step (sample_trade p ! 2) s2 = Inr s3"
      "paper_step (sample_trade p ! 3) s3 = Inr s4"
    and s4: "po_state s4 = HALTED" "\<not> has_position s4" "fresh_event s4 ''e5'' 60000400" "fresh_source s4 (Some review_digest)"
    using sample_run by blast
  have "take 4 (sample_trade p) = [sample_trade p ! 0, sample_trade p ! 1, sample_trade p ! 2, sample_trade p ! 3]"
    by (simp add: sample_trade_def numeral_eq_Suc)
  with run have eq: "s4 = run_ops paper_step s0 (take 4 (sample_trade p))" by (simp add: attempt_def)
  obtain r where "paper_step (Acknowledge 60000400 ''e5'' review_digest) s4 = Inr r" "po_state r = FLAT"
    using paper_flat_halt_released [OF run(1) eq s4(1-3) sample_digests(2) s4(4)] by blast
  moreover have "sample_trade p ! 4 = Acknowledge 60000400 ''e5'' review_digest"
    by (simp add: sample_trade_def numeral_eq_Suc)
  ultimately show ?thesis using run(1) unfolding eq by metis
qed

section \<open>The hash chain\<close>

text \<open>C12: Two paper states with one chain hash that pass their constructors have the same account,
  instrument, cost model digest and events, text for text, or two of the messages hashed for the
  two chains are a SHA-256 collision.\<close>

theorem paper_chain_commits:
  assumes "make_oms s = Inr s'" "make_oms t = Inr t'" "po_chain s = po_chain t"
    and "model_hash (po_cost_model s) = Inr m" "model_hash (po_cost_model t) = Inr n"
  shows "po_account_id s = po_account_id t \<and> po_instrument s = po_instrument t \<and> m = n
      \<and> list_all2 same_event (po_events s) (po_events t)
    \<or> collision_between (chain_messages (po_account_id s) (po_instrument s) m (po_events s))
        (chain_messages (po_account_id t) (po_instrument t) n (po_events t))"
proof -
  have "event_chain_hash (po_account_id s) (po_instrument s) m (po_events s) = Inr (po_chain s)"
    using make_oms_facts [OF assms(1)] assms(4) by auto
  moreover have "event_chain_hash (po_account_id t) (po_instrument t) n (po_events t) = Inr (po_chain s)"
    using make_oms_facts [OF assms(2)] assms(3,5) by auto
  ultimately show ?thesis using chain_binds_log by blast
qed

lemma paper_chain_commits_witness:
  "\<exists>s m. make_oms s = Inr s \<and> po_events s \<noteq> [] \<and>
    (list_all2 same_event (po_events s) (po_events s)
     \<or> collision_between (chain_messages (po_account_id s) (po_instrument s) m (po_events s))
         (chain_messages (po_account_id s) (po_instrument s) m (po_events s)))"
proof -
  obtain p s0 s1 where run: "fresh_oms s0" "paper_step (sample_trade p ! 0) s0 = Inr s1"
    using sample_run by blast
  have inv: "paper_inv s1" by (rule step_inv [OF fresh_inv [OF run(1)] run(2)])
  then have made: "make_oms s1 = Inr s1" by (simp add: paper_inv_def)
  then obtain m where m: "model_hash (po_cost_model s1) = Inr m" using make_oms_facts by blast
  obtain e where "moves s0 e s1" using step_moves [OF fresh_inv [OF run(1)] run(2)] by blast
  then have "po_events s1 \<noteq> []" by (simp add: moves_def)
  with made paper_chain_commits [OF made made refl m m] show ?thesis by blast
qed

end
