(* ===== verification/Paper_Exit_Properties.thy ===== *)
theory Paper_Exit_Properties
  imports Paper_Properties
begin

text \<open>
  The exits of a protected paper position on a completed candle, with a run whose candle reaches
  the stop and the target.
\<close>

section \<open>Stop before target\<close>

definition stop_gapped :: "bool \<Rightarrow> decimal \<Rightarrow> paper_candle \<Rightarrow> bool" where
  "stop_gapped long stop c = (if long then cn_open c \<le> stop else stop \<le> cn_open c)"

definition stop_touched :: "bool \<Rightarrow> decimal \<Rightarrow> paper_candle \<Rightarrow> bool" where
  "stop_touched long stop c = (if long then cn_low c \<le> stop else stop \<le> cn_high c)"

definition target_gapped :: "bool \<Rightarrow> decimal \<Rightarrow> paper_candle \<Rightarrow> bool" where
  "target_gapped long target c = (if long then target \<le> cn_open c else cn_open c \<le> target)"

definition target_touched :: "bool \<Rightarrow> decimal \<Rightarrow> paper_candle \<Rightarrow> bool" where
  "target_touched long target c = (if long then target \<le> cn_high c else cn_low c \<le> target)"

lemmas touch_defs = stop_gapped_def stop_touched_def target_gapped_def target_touched_def

lemma exit_trigger_touches:
  "map_option (\<lambda>(p, k, r). (p, k)) (exit_trigger long stop target c) =
     (if stop_gapped long stop c then Some (cn_open c, STOP_FILLED)
      else if target_gapped long target c then Some (target, TARGET_FILLED)
      else if stop_touched long stop c then Some (stop, STOP_FILLED)
      else if target_touched long target c then Some (target, TARGET_FILLED)
      else None)"
  by (simp add: exit_trigger_def touch_defs)

text \<open>C10: A completed candle that opens beyond the stop, or reaches it without opening beyond the target,
  is a stop exit even when it also reaches the target; a target exit needs the target to be
  reached. A filled exit pays the slippage from its reference price (the open when the stop was
  gapped, the trigger otherwise), stays within its leg's bound and leaves the account flat; an
  exit that cannot fill halts the account with its position, and demands an emergency flatten.\<close>

theorem paper_stop_first:
  assumes "fresh_oms s" "t = run_ops paper_step s ops" "paper_step (Candle k event_id) t = Inr u"
    and "make_paper_candle k = Inr c" "po_plan t = Some p"
    and "si_stop_price (pp_stop p) = Some stop" "si_stop_price (pp_target p) = Some target"
    and "long = (po_side t = Some BUY)"
  shows "\<exists>e. po_events u = po_events t @ [e]
    \<and> (pe_type e \<in> {STOP_FILLED, STOP_UNFILLED_HALT} \<longleftrightarrow>
        stop_gapped long stop c \<or> stop_touched long stop c \<and> \<not> target_gapped long target c)
    \<and> (pe_type e \<in> {TARGET_FILLED, TARGET_UNFILLED_HALT} \<longrightarrow> target_gapped long target c \<or> target_touched long target c)
    \<and> (pe_type e \<in> {STOP_FILLED, TARGET_FILLED} \<longrightarrow> po_state u = FLAT \<and> \<not> has_position u
        \<and> (\<exists>price bound. adverse_exit t
              (if pe_type e = TARGET_FILLED then target else if stop_gapped long stop c then cn_open c else stop)
              (pc_exit_slippage_bps (po_cost_model t)) = Inr price
            \<and> si_price_bound (if pe_type e = STOP_FILLED then pp_stop p else pp_target p) = Some bound
            \<and> exit_within_bound t price bound \<and> pe_price e = Some price))
    \<and> (pe_type e \<in> {STOP_UNFILLED_HALT, TARGET_UNFILLED_HALT} \<longrightarrow>
        po_position u = po_position t \<and> emergency_flatten_required u)"
proof -
  have inv: "paper_inv t" unfolding assms(2) by (rule paper.reachable_inv [OF assms(1)])
  have candle: "observe_protected_candle c event_id t = Inr u" using assms(3,4) by simp
  have state: "po_state t = PROTECTED" using candle by (auto simp: observe_protected_candle_def assms(5))
  then have live: "has_position t" by (intro exposed [OF inv]) simp
  obtain e where log: "po_events u = po_events t @ [e]"
    and outcome: "case exit_trigger long stop target c of
       None \<Rightarrow> pe_type e = MARKET_OBSERVED
     | Some (reference, k, reason) \<Rightarrow>
         pe_type e = k \<and> (\<exists>price bound. adverse_exit t reference (pc_exit_slippage_bps (po_cost_model t)) = Inr price
           \<and> si_price_bound (if k = STOP_FILLED then pp_stop p else pp_target p) = Some bound
           \<and> exit_within_bound t price bound \<and> pe_price e = Some price)
         \<or> pe_type e = (if k = STOP_FILLED then STOP_UNFILLED_HALT else TARGET_UNFILLED_HALT)
           \<and> po_halted u \<and> po_position u = po_position t"
    using candle_outcome [OF candle assms(5-7)] assms(8) by blast
  obtain f where "moves t f u" using step_moves [OF inv assms(3)] by blast
  with log have move: "lifecycle (po_state t) (pe_type e) (po_state u)" by (simp add: moves_def)
  have "state_agrees u" using paper_inv_agrees step_inv [OF inv assms(3)] by blast
  then have flat: "po_state u = FLAT \<and> \<not> has_position u" if "pe_type e \<in> {STOP_FILLED, TARGET_FILLED}"
    using move that by (auto elim: lifecycle.cases simp: state_agrees_def)
  have flagged: "emergency_flatten_required u" if "po_halted u" "po_position u = po_position t"
    using live that by (simp add: emergency_flatten_required_def has_position_def)
  show ?thesis
    by (rule exI [of _ e], rule conjI [OF log])
      (use outcome exit_trigger_touches [of long stop target c] flat flagged in
        \<open>auto split: option.splits prod.splits if_splits\<close>)
qed

section \<open>A protected trade\<close>

definition sample_report :: "decimal_input protection_of" where
  "sample_report =
     \<lparr> pr_observation_id = ''r'', pr_observed_at = 300, pr_stop_status = ACCEPTED, pr_target_status = ACCEPTED,
       pr_stop_quantity = In_Decimal (Dec 2 0), pr_target_quantity = In_Decimal (Dec 2 0),
       pr_source_hash = other_digest \<rparr>"

text \<open>The candle opens at 95, falls to 89 and rises to 140: it reaches the stop at 90 and the target at 133.9.\<close>

definition sample_shared_bar :: "decimal_input paper_candle_of" where
  "sample_shared_bar =
     \<lparr> cn_observation_id = ''c'', cn_open_time = 400, cn_close_time = 500, cn_observed_at = 600,
       cn_open = In_Decimal (Dec 95 0), cn_high = In_Decimal (Dec 140 0), cn_low = In_Decimal (Dec 89 0),
       cn_close = In_Decimal (Dec 120 0), cn_source_hash = review_digest, cn_complete = True \<rparr>"

lemma sample_report_made:
  "make_protection sample_report = Inr \<lparr> pr_observation_id = ''r'', pr_observed_at = 300, pr_stop_status = ACCEPTED,
     pr_target_status = ACCEPTED, pr_stop_quantity = Dec 2 0, pr_target_quantity = Dec 2 0, pr_source_hash = other_digest \<rparr>"
proof -
  have "bounded_text_ok 256 ''r''" by code_simp
  moreover have "lenient_nonnegative ValueError (In_Decimal (Dec 2 0)) = Inr (Dec 2 0)" "0 < Dec 2 0"
    by (simp_all add: decimal_eval)
  ultimately show ?thesis by (simp add: make_protection_def sample_report_def sample_digests require.simps)
qed

lemma sample_bar_made:
  "make_paper_candle sample_shared_bar = Inr \<lparr> cn_observation_id = ''c'', cn_open_time = 400, cn_close_time = 500,
     cn_observed_at = 600, cn_open = Dec 95 0, cn_high = Dec 140 0, cn_low = Dec 89 0, cn_close = Dec 120 0,
     cn_source_hash = review_digest, cn_complete = True \<rparr>"
proof -
  have "bounded_text_ok 256 ''c''" by code_simp
  moreover have "lenient_positive ValueError (In_Decimal (Dec 95 0)) = Inr (Dec 95 0)"
    "lenient_positive ValueError (In_Decimal (Dec 140 0)) = Inr (Dec 140 0)"
    "lenient_positive ValueError (In_Decimal (Dec 89 0)) = Inr (Dec 89 0)"
    "lenient_positive ValueError (In_Decimal (Dec 120 0)) = Inr (Dec 120 0)"
    "\<not> Dec 140 0 < dmax (dmax (Dec 95 0) (Dec 120 0)) (Dec 89 0)"
    "\<not> dmin (dmin (Dec 95 0) (Dec 120 0)) (Dec 140 0) < Dec 89 0"
    by (simp_all add: decimal_eval)
  ultimately show ?thesis by (simp add: make_paper_candle_def sample_shared_bar_def sample_digests require.simps)
qed

lemma sample_exit_amounts:
  "bps_amount (Dec 90 0) (Dec 0 0) = Inr (Dec 0 0)" "dsub paper_context (Dec 90 0) (Dec 0 0) = Inr (Dec 90 0)"
  "dmul paper_context (Dec 90 0) (Dec 2 0) = Inr (Dec 180 0)" "bps_amount (Dec 180 0) (Dec 10 0) = Inr (Dec 18 (- 2))"
  "dsub paper_context (Dec 90 0) (Dec 100 0) = Inr (Dec (- 10) 0)"
  "dmul paper_context (Dec (- 10) 0) (Dec 2 0) = Inr (Dec (- 20) 0)"
  "dsub paper_context (Dec (- 20) 0) (Dec 2 (- 1)) = Inr (Dec (- 202) (- 1))"
  "dsub paper_context (Dec (- 202) (- 1)) (Dec 18 (- 2)) = Inr (Dec (- 2038) (- 2))"
  "dadd paper_context (Dec 2 (- 1)) (Dec 18 (- 2)) = Inr (Dec 38 (- 2))"
  "dadd paper_context 0 (Dec (- 2038) (- 2)) = Inr (Dec (- 2038) (- 2))"
proof -
  have "quotient_digits 64 (Dec 1800 0) (Dec 10000 0) = Dec 18 (- 2)"
    by (rule quotient_exact [where m = 2, THEN trans]; simp add: ndigits.simps)
  then show "bps_amount (Dec 180 0) (Dec 10 0) = Inr (Dec 18 (- 2))"
    by (simp add: bps_amount_def paper_divide_def ddiv_def paper_eval)
  have "dmul paper_context (Dec 90 0) (Dec 0 0) = Inr (Dec 0 0)" by (simp add: paper_eval)
  then show "bps_amount (Dec 90 0) (Dec 0 0) = Inr (Dec 0 0)"
    by (simp add: bps_amount_def paper_amounts paper_quotients)
qed (simp_all add: paper_eval)

lemma sample_exit_legs:
  "si_stop_price (pp_stop (sample_plan h)) = Some (Dec 90 0)"
  "si_stop_price (pp_target (sample_plan h)) = Some (Dec 1339 (- 1))"
  "si_price_bound (pp_stop (sample_plan h)) = Some (Dec 8910 (- 2))"
  "si_max_slippage_bps (pp_stop (sample_plan h)) = Dec 100 0"
  by (simp_all add: sample_plan_def sample_leg_def)

lemma sample_protected:
  assumes "paper_inv s" "po_state s = UNPROTECTED" "po_plan s = Some (sample_plan h)"
    and "po_position s = Dec 2 0" "fresh_event s ''e3'' 300" "fresh_source s (Some other_digest)"
  shows "\<exists>e g. paper_step (Reconcile sample_report ''e3'') s =
    Inr (s\<lparr>po_state := PROTECTED, po_halted := False, po_stop := Dec 2 0, po_target := Dec 2 0,
      po_events := po_events s @ [e], po_chain := g, po_last := Some 300\<rparr>)
    \<and> pe_event_id e = ''e3'' \<and> pe_source_hash e = Some other_digest"
proof -
  let ?e = "(event_for ''e3'' PROTECTION_ACTIVATED 300 ''normalTpsl_children_confirmed_for_full_position'')
       \<lparr>pe_plan_hash := Some h, pe_source_hash := Some other_digest, pe_quantity := Dec 2 0, pe_secondary := Dec 2 0\<rparr>"
  let ?c = "s\<lparr>po_state := PROTECTED, po_halted := False, po_stop := Dec 2 0, po_target := Dec 2 0\<rparr>"
  have amounts: "nonnegative (Dec 2 0)" "\<not> Dec 2 0 < Dec 2 0" "0 < Dec 2 0" "deq (Dec 2 0) (Dec 2 0)"
    by (simp_all add: decimal_eval)
  have reason: "bounded_text_ok 256 ''normalTpsl_children_confirmed_for_full_position''" by code_simp
  have shaped: "sha256_shaped h" using inv_plan_hash [OF assms(1,3)] by (simp add: sample_entry)
  have e: "make_event ?e = Inr ?e"
    using reason shaped sample_digests assms(5) amounts by (simp add: make_event_facts event_for_def fresh_event_def)
  have "amounts_agree ?c"
    using inv_amounts [OF assms(1)] assms(4) amounts by (simp add: amounts_checked_def amounts_agree_def has_position_def)
  moreover have "state_agrees ?c"
    using assms(4) amounts by (simp add: state_agrees_def has_position_def)
  ultimately have c: "amounts_checked ?c"
    using inv_amounts [OF assms(1)] amounts by (simp add: amounts_checked_def)
  obtain g where app: "append_event s ?e ?c =
      Inr (?c\<lparr>po_events := po_events s @ [?e], po_chain := g, po_last := Some (pe_observed_at ?e)\<rparr>)"
    using append_accepts [OF _ e, of s ?c] c assms(1,5,6) by (auto simp: paper_inv_def event_for_def)
  have "paper_step (Reconcile sample_report ''e3'') s = append_event s ?e ?c"
    using e by (simp add: sample_report_made reconcile_protection_def assms(2-4) amounts sample_entry Let_def)
  with app show ?thesis
    by (intro exI [of _ ?e] exI [of _ g]) (simp, simp add: event_for_def)
qed

lemma sample_stopped:
  assumes "paper_inv s" "po_state s = PROTECTED" "po_plan s = Some (sample_plan h)" "po_cost_model s = sample_cost"
    and "po_side s = Some BUY" "po_position s = Dec 2 0" "po_average_price s = Some (Dec 100 0)"
    and "po_open_fee s = Dec 2 (- 1)" "po_fees s = Dec 2 (- 1)" "po_pnl s = 0" "po_last s = Some 300"
    and "fresh_event s ''e4'' 600" "fresh_source s (Some review_digest)"
  shows "\<exists>u. paper_step (Candle sample_shared_bar ''e4'') s = Inr u"
proof -
  let ?e = "(event_for ''e4'' STOP_FILLED 600 ''stop_first_when_stop_and_target_share_completed_bar'')
       \<lparr>pe_plan_hash := Some h, pe_source_hash := Some review_digest, pe_quantity := Dec 2 0,
        pe_price := Some (Dec 90 0), pe_fee := Dec 18 (- 2), pe_pnl := Dec (- 2038) (- 2)\<rparr>"
  let ?c = "s\<lparr>po_state := FLAT, po_halted := False, po_plan := None, po_side := None, po_position := 0,
      po_entry_fill := 0, po_average_price := None, po_stop := 0, po_target := 0, po_open_fee := 0,
      po_fees := Dec 38 (- 2), po_pnl := Dec (- 2038) (- 2)\<rparr>"
  have amounts: "nonnegative (Dec 2 0)" "nonnegative (Dec 18 (- 2))" "nonnegative (Dec 38 (- 2))" "positive (Dec 90 0)"
    "bounded (Dec (- 2038) (- 2))" "0 < Dec 2 0" "\<not> Dec 2 0 < Dec 2 0" "\<not> Dec 2 0 \<le> 0" "\<not> Dec 100 0 < Dec 0 0"
    "deq (Dec 0 0) 0" "Dec 8910 (- 2) \<le> Dec 90 0" "\<not> Dec 95 0 \<le> Dec 90 0" "\<not> Dec 1339 (- 1) \<le> Dec 95 0"
    "Dec 89 0 \<le> Dec 90 0" "Dec 1339 (- 1) \<le> Dec 140 0"
    by (simp_all add: decimal_eval)
  have reason: "bounded_text_ok 256 ''stop_first_when_stop_and_target_share_completed_bar''" by code_simp
  have shaped: "sha256_shaped h" using inv_plan_hash [OF assms(1,3)] by (simp add: sample_entry)
  have e: "make_event ?e = Inr ?e"
    using reason shaped sample_digests assms(12) amounts by (simp add: make_event_facts event_for_def fresh_event_def)
  have c: "amounts_checked ?c"
    using amounts
    by (simp add: amounts_checked_def amounts_agree_def state_agrees_def has_position_def nonzero_def deq_dval less_dval)
  obtain g where app: "append_event s ?e ?c =
      Inr (?c\<lparr>po_events := po_events s @ [?e], po_chain := g, po_last := Some (pe_observed_at ?e)\<rparr>)"
    using append_accepts [OF _ e, of s ?c] c assms(1,12,13) by (auto simp: paper_inv_def event_for_def)
  have cost: "pc_exit_slippage_bps sample_cost = Dec 0 0" "pc_fee_bps sample_cost = Dec 10 0"
    by (simp_all add: sample_cost_def)
  have "paper_step (Candle sample_shared_bar ''e4'') s = append_event s ?e ?c"
    using e
    by (simp add: sample_bar_made observe_protected_candle_def assms(2-11) sample_exit_legs sample_entry of_option_def
      exit_trigger_def amounts settle_exit_def cost adverse_exit_def sample_exit_amounts exit_within_bound_def
      close_position_def paper_quotients paper_amounts Let_def)
  with app show ?thesis by auto
qed

lemma paper_stop_first_witness:
  "\<exists>s t u e. fresh_oms s \<and> paper_step (Candle sample_shared_bar ''e4'') t = Inr u \<and> po_events u = po_events t @ [e]
    \<and> pe_type e \<in> {STOP_FILLED, STOP_UNFILLED_HALT}"
proof -
  obtain h g g1 g2 e1 e2 s0 s1 s2 where plan: "make_plan (sample_plan h) = Inr (sample_plan h)"
    and start: "s0 = \<lparr> po_account_id = ''acct'', po_instrument = ''BTC'', po_cost_model = sample_cost, po_state = FLAT,
         po_halted = False, po_plan = None, po_side = None, po_position = 0, po_entry_fill = 0,
         po_average_price = None, po_stop = 0, po_target = 0, po_open_fee = 0, po_fees = 0, po_pnl = 0,
         po_last = None, po_events = [], po_chain = g \<rparr>"
    and fresh: "fresh_oms s0" and step1: "paper_step (Submit (sample_plan h) 100 ''e1'') s0 = Inr s1"
    and s1: "s1 = s0\<lparr>po_state := PENDING, po_plan := Some (sample_plan h), po_events := [e1], po_chain := g1, po_last := Some 100\<rparr>"
    and step2: "paper_step (Entry (sample_book (Dec 99 0) (Dec 100 0) sample_digest 200) ''e2'') s1 = Inr s2"
    and s2: "s2 = s1\<lparr>po_state := UNPROTECTED, po_halted := False, po_side := Some BUY, po_position := Dec 2 0,
      po_entry_fill := Dec 2 0, po_average_price := Some (Dec 100 0), po_open_fee := Dec 2 (- 1),
      po_fees := Dec 2 (- 1), po_events := [e1, e2], po_chain := g2, po_last := Some 200\<rparr>"
    and i2: "paper_inv s2" and e1: "pe_event_id e1 = ''e1''" "pe_source_hash e1 = None"
    and e2: "pe_event_id e2 = ''e2''" "pe_source_hash e2 = Some sample_digest"
    by (rule sample_opened)
  let ?p = "sample_plan h"
  have texts: "bounded_text_ok 256 ''e3''" "bounded_text_ok 256 ''e4''"
    using run_texts by simp_all
  obtain e3 g3 s3 where step3: "paper_step (Reconcile sample_report ''e3'') s2 = Inr s3"
    and s3: "s3 = s2\<lparr>po_state := PROTECTED, po_halted := False, po_stop := Dec 2 0, po_target := Dec 2 0,
      po_events := [e1, e2, e3], po_chain := g3, po_last := Some 300\<rparr>"
    and e3: "pe_event_id e3 = ''e3''" "pe_source_hash e3 = Some other_digest"
    using sample_protected [OF i2, of h] texts e1 e2 sample_digests
    by (auto simp: s2 s1 start fresh_event_def fresh_source_def)
  have i3: "paper_inv s3" by (rule step_inv [OF i2 step3])
  obtain u where step4: "paper_step (Candle sample_shared_bar ''e4'') s3 = Inr u"
    using sample_stopped [OF i3, of h] texts e1 e2 e3 sample_digests
    by (auto simp: s3 s2 s1 start fresh_event_def fresh_source_def)
  have run: "s3 = run_ops paper_step s0 [Submit ?p 100 ''e1'', Entry (sample_book (Dec 99 0) (Dec 100 0) sample_digest 200) ''e2'',
      Reconcile sample_report ''e3'']"
    by (simp add: attempt_def step1 step2 step3 del: paper_step.simps)
  have held: "po_plan s3 = Some ?p" "True = (po_side s3 = Some BUY)" by (simp_all add: s3 s2 s1)
  have "Dec 89 0 \<le> Dec 90 0" "\<not> Dec 1339 (- 1) \<le> Dec 95 0" by (simp_all add: decimal_eval)
  with paper_stop_first [OF fresh run step4 sample_bar_made held(1) sample_exit_legs(1,2) held(2)]
  obtain e where "po_events u = po_events s3 @ [e]" "pe_type e \<in> {STOP_FILLED, STOP_UNFILLED_HALT}"
    by (elim exE conjE) (simp add: stop_touched_def target_gapped_def)
  with fresh step4 show ?thesis by blast
qed

end
