(* ===== verification/Backtest.thy ===== *)
theory Backtest
  imports Strategy
begin

text \<open>
  \<open>backtest.py\<close>: the evaluation of the registered strategy on completed candles: fills with
  costs, one simulated trade, the loop over the signals with a single open position, the
  performance metrics with their block bootstrap, chronological folds and the promotion gate.
  The ambient decimal context, in which \<open>abs\<close> rounds outside the module's own context, is a
  parameter of the metrics.
\<close>

section \<open>Arithmetic and costs\<close>

definition backtest_context :: dctx where
  "backtest_context = \<lparr> prec = 64, rounding = Half_Even, e_min = - 192, e_max = 192 \<rparr>"

interpretation backtest_ctx: decimal_context backtest_context
  by unfold_locales (simp_all add: backtest_context_def etiny_def etop_def)

definition bt_sum :: "decimal list \<Rightarrow> decimal result" where
  "bt_sum xs = foldE (dadd backtest_context) 0 xs"

definition bt_divide :: "decimal \<Rightarrow> decimal \<Rightarrow> decimal result" where
  "bt_divide a b = (if deq b 0 then Inl ZeroDivisionError else ddiv backtest_context a b)"

definition bt_bps :: "decimal \<Rightarrow> decimal \<Rightarrow> decimal result" where
  "bt_bps price bps = bindE (dmul backtest_context price bps) (\<lambda>m. bt_divide m (dec_int 10000))"

record 'd bt_costs_of =
  bc_model_id :: string
  bc_version :: string
  bc_fee :: 'd
  bc_slippage :: 'd
  bc_holding :: 'd

type_synonym bt_costs = "decimal bt_costs_of"

definition research_bps :: "decimal_input \<Rightarrow> decimal result" where
  "research_bps v =
     bindE (lenient_nonnegative ValueError v) (\<lambda>d. bindE (guard (\<not> Dec 1000 0 < d) ValueError) (\<lambda>_. Inr d))"

definition make_bt_costs :: "decimal_input bt_costs_of \<Rightarrow> bt_costs result" where
  "make_bt_costs c =
     bindE (require [(trimmed (bc_model_id c), ValueError), (trimmed (bc_version c), ValueError)]) (\<lambda>_.
     bindE (research_bps (bc_fee c)) (\<lambda>fee.
     bindE (research_bps (bc_slippage c)) (\<lambda>slippage.
     bindE (research_bps (bc_holding c)) (\<lambda>holding.
     Inr \<lparr> bc_model_id = bc_model_id c, bc_version = bc_version c, bc_fee = fee,
           bc_slippage = slippage, bc_holding = holding \<rparr>))))"

definition bt_costs_val :: "bt_costs \<Rightarrow> pyval" where
  "bt_costs_val c = record_val
     [''model_id'', ''version'', ''fee_bps_per_side'', ''slippage_bps_per_side'', ''holding_cost_bps_per_bar'']
     [PStr (bc_model_id c), PStr (bc_version c), PDec (bc_fee c), PDec (bc_slippage c), PDec (bc_holding c)]"

definition bt_costs_hash :: "bt_costs \<Rightarrow> string result" where
  "bt_costs_hash c = domain_hash ''trading-harness/cost-model/v1'' (bt_costs_val c)"

definition stressed :: "bt_costs \<Rightarrow> bt_costs result" where
  "stressed c =
     bindE (dmul backtest_context (bc_fee c) (dec_int 2)) (\<lambda>fee.
     bindE (dmul backtest_context (bc_slippage c) (dec_int 2)) (\<lambda>slippage.
     bindE (dmul backtest_context (bc_holding c) (dec_int 2)) (\<lambda>holding.
     make_bt_costs \<lparr> bc_model_id = bc_model_id c @ ''-stress-2x'', bc_version = bc_version c,
       bc_fee = In_Decimal fee, bc_slippage = In_Decimal slippage, bc_holding = In_Decimal holding \<rparr>)))"

section \<open>One trade\<close>

datatype exit_reason = ER_STOP | ER_GAP_STOP | ER_STOP_FIRST_AMBIGUOUS_BAR | ER_TARGET | ER_TIME

record trade_result =
  tr_signal_hash :: string
  tr_direction :: signal_direction
  tr_signal_index :: nat
  tr_entry_index :: nat
  tr_exit_index :: nat
  tr_signal_time :: instant
  tr_entry_time :: instant
  tr_exit_time :: instant
  tr_entry_price :: decimal
  tr_stop_price :: decimal
  tr_target_price :: decimal
  tr_exit_price :: decimal
  tr_bars_held :: nat
  tr_exit_reason :: exit_reason
  tr_gross_pnl :: decimal
  tr_total_cost :: decimal
  tr_net_pnl :: decimal
  tr_net_r :: decimal

definition make_trade :: "trade_result \<Rightarrow> trade_result result" where
  "make_trade t =
     bindE (require
       [(tr_direction t = SD_BUY \<or> tr_direction t = SD_SELL, ValueError),
        (tr_signal_index t < tr_entry_index t \<and> tr_entry_index t \<le> tr_exit_index t, ValueError),
        (int (tr_bars_held t) = int (tr_exit_index t) - int (tr_entry_index t) + 1, ValueError)]) (\<lambda>_. Inr t)"

text \<open>Buy fills are worse above the reference, sell fills below it.\<close>

definition adverse_fill :: "decimal \<Rightarrow> signal_direction \<Rightarrow> bool \<Rightarrow> decimal \<Rightarrow> decimal result" where
  "adverse_fill reference direction entering slippage =
     bindE (bt_bps reference slippage) (\<lambda>slip.
     if (direction = SD_BUY) = entering then dadd backtest_context reference slip
     else dsub backtest_context reference slip)"

definition exit_reference ::
    "bar \<Rightarrow> signal_direction \<Rightarrow> decimal \<Rightarrow> decimal \<Rightarrow> bool \<Rightarrow> (decimal \<times> exit_reason) option" where
  "exit_reference c direction stop target time_exit =
     (let long = (direction = SD_BUY) in
      if (if long then ca_open c \<le> stop else stop \<le> ca_open c) then Some (ca_open c, ER_GAP_STOP)
      else if (if long then target \<le> ca_open c else ca_open c \<le> target) then Some (target, ER_TARGET)
      else
        (let stop_touched = (if long then ca_low c \<le> stop else stop \<le> ca_high c);
             target_touched = (if long then target \<le> ca_high c else ca_low c \<le> target) in
         if stop_touched \<and> target_touched then Some (stop, ER_STOP_FIRST_AMBIGUOUS_BAR)
         else if stop_touched then Some (stop, ER_STOP)
         else if target_touched then Some (target, ER_TARGET)
         else if time_exit then Some (ca_close c, ER_TIME)
         else None))"

text \<open>The outcome of a position at one of its bars, from the reference price of its exit.\<close>

definition settle_trade ::
    "bar list \<Rightarrow> strategy_signal \<Rightarrow> bt_costs \<Rightarrow> decimal \<Rightarrow> decimal \<Rightarrow> decimal \<Rightarrow> decimal \<Rightarrow> nat \<Rightarrow> decimal \<Rightarrow>
     exit_reason \<Rightarrow> trade_result option result" where
  "settle_trade cs g costs entry_price stop_distance stop target exit_index reference reason =
     (let entry_index = sg_bar_index g + 1; held = exit_index - entry_index + 1 in
     bindE (adverse_fill reference (sg_direction g) False (bc_slippage costs)) (\<lambda>exit_price.
     if exit_price \<le> 0 then Inr None
     else
       bindE (if sg_direction g = SD_BUY then dsub backtest_context exit_price entry_price
              else dsub backtest_context entry_price exit_price) (\<lambda>gross.
       bindE (bt_bps entry_price (bc_fee costs)) (\<lambda>entry_fee.
       bindE (bt_bps exit_price (bc_fee costs)) (\<lambda>exit_fee.
       bindE (bindE (bt_bps entry_price (bc_holding costs))
         (\<lambda>h. dmul backtest_context h (dec_int (int held)))) (\<lambda>holding_cost.
       bindE (bt_sum [entry_fee, exit_fee, holding_cost]) (\<lambda>total_cost.
       bindE (dsub backtest_context gross total_cost) (\<lambda>net.
       bindE (bt_divide net stop_distance) (\<lambda>net_r.
       bindE (signal_hash g) (\<lambda>h.
       bindE (make_trade
         \<lparr> tr_signal_hash = h, tr_direction = sg_direction g, tr_signal_index = sg_bar_index g,
           tr_entry_index = entry_index, tr_exit_index = exit_index, tr_signal_time = sg_signal_time g,
           tr_entry_time = ca_open_time (cs ! entry_index), tr_exit_time = ca_close_time (cs ! exit_index),
           tr_entry_price = entry_price, tr_stop_price = stop, tr_target_price = target,
           tr_exit_price = exit_price, tr_bars_held = held, tr_exit_reason = reason, tr_gross_pnl = gross,
           tr_total_cost = total_cost, tr_net_pnl = net, tr_net_r = net_r \<rparr>) (\<lambda>t.
       Inr (Some t))))))))))))"

text \<open>The bars of the position in order; a position that none of them closes is censored.\<close>

fun hold_position ::
    "bar list \<Rightarrow> strategy_signal \<Rightarrow> registered_strategy \<Rightarrow> bt_costs \<Rightarrow> decimal \<Rightarrow> decimal \<Rightarrow> decimal \<Rightarrow> decimal \<Rightarrow>
     nat list \<Rightarrow> trade_result option result" where
  "hold_position cs g s costs entry_price stop_distance stop target [] = Inr None"
| "hold_position cs g s costs entry_price stop_distance stop target (i # is) =
     (case exit_reference (cs ! i) (sg_direction g) stop target
         (i = sg_bar_index g + 1 + rs_max_holding_bars s - 1) of
        None \<Rightarrow> hold_position cs g s costs entry_price stop_distance stop target is
      | Some (reference, reason) \<Rightarrow>
          settle_trade cs g costs entry_price stop_distance stop target i reference reason)"

definition simulate_trade ::
    "bar list \<Rightarrow> strategy_signal \<Rightarrow> registered_strategy \<Rightarrow> bt_costs \<Rightarrow> trade_result option result" where
  "simulate_trade cs g s costs =
     (let entry_index = sg_bar_index g + 1; long = (sg_direction g = SD_BUY) in
      if length cs \<le> entry_index \<or> sg_expires_at g < sg_observed_at g
         \<or> sg_expires_at g < ca_open_time (cs ! entry_index) then Inr None
      else
        bindE (adverse_fill (ca_open (cs ! entry_index)) (sg_direction g) True (bc_slippage costs)) (\<lambda>entry_price.
        bindE (dmul backtest_context (ft_atr (sg_features g)) (rs_stop_atr_multiple s)) (\<lambda>stop_distance.
        bindE (dmul backtest_context (ft_atr (sg_features g)) (rs_target_atr_multiple s)) (\<lambda>target_distance.
        bindE (if long then dsub backtest_context entry_price stop_distance
               else dadd backtest_context entry_price stop_distance) (\<lambda>stop.
        bindE (if long then dadd backtest_context entry_price target_distance
               else dsub backtest_context entry_price target_distance) (\<lambda>target.
        if (if long then stop \<le> 0 else target \<le> 0) then Inr None
        else hold_position cs g s costs entry_price stop_distance stop target
          [entry_index..<Suc (min (length cs - 1) (entry_index + rs_max_holding_bars s - 1))]))))))"

section \<open>The bootstrap\<close>

definition isqrt :: "nat \<Rightarrow> nat" where
  "isqrt n = length (takeWhile (\<lambda>k. k * k \<le> n) [1..<Suc n])"

text \<open>\<open>n.to_bytes (8, "big")\<close>, and the first eight bytes of the digest as a number.\<close>

definition be64 :: "nat \<Rightarrow> 8 word list" where
  "be64 n = map (\<lambda>i. word_of_nat (n div 256 ^ (7 - i))) [0..<8]"

definition digest_start :: "8 word list \<Rightarrow> nat" where
  "digest_start m = (let ws = blocks256 h256 (be32 (pad256 m)) in unat (ws ! 0) * 2 ^ 32 + unat (ws ! 1))"

definition block_start :: "nat \<Rightarrow> nat \<Rightarrow> nat \<Rightarrow> nat \<Rightarrow> nat" where
  "block_start count len rep block =
     digest_start (utf8 ''trading-harness/moving-block-bootstrap/v1'' @ [0] @ be64 count @ be64 len
       @ be64 rep @ be64 block) mod count"

definition resample :: "decimal list \<Rightarrow> nat \<Rightarrow> nat \<Rightarrow> decimal list" where
  "resample returns len rep =
     (let count = length returns; blocks = (count + len - 1) div len in
      take count (concat (map (\<lambda>block.
        map (\<lambda>offset. returns ! ((block_start count len rep block + offset) mod count)) [0..<len]) [0..<blocks])))"

definition bootstrap_lower_bound :: "decimal list \<Rightarrow> nat \<Rightarrow> (decimal option \<times> nat) result" where
  "bootstrap_lower_bound returns samples =
     (if returns = [] then Inr (None, 0)
      else
        bindE (guard (100 \<le> samples) ValueError) (\<lambda>_.
        (let len = max 1 (isqrt (length returns)) in
        bindE (mapE (\<lambda>rep. bindE (bt_sum (resample returns len rep))
          (\<lambda>t. bt_divide t (dec_int (int (length returns))))) [0..<samples]) (\<lambda>means.
        Inr (Some (sort_key dval means ! (((samples - 1) * 5) div 100)), len)))))"

section \<open>Metrics\<close>

record performance =
  pm_trade_count :: nat
  pm_total_net_r :: decimal
  pm_expectancy_r :: decimal
  pm_gross_profit_r :: decimal
  pm_gross_loss_r :: decimal
  pm_profit_factor :: "decimal option"
  pm_max_drawdown_r :: decimal
  pm_best_trade :: "decimal option"
  pm_bootstrap_lower :: "decimal option"
  pm_block_length :: nat
  pm_bootstrap_samples :: nat

text \<open>Equity, its peak and the deepest fall from it, trade by trade.\<close>

definition drawdown_step :: "decimal \<times> decimal \<times> decimal \<Rightarrow> decimal \<Rightarrow> (decimal \<times> decimal \<times> decimal) result" where
  "drawdown_step state value =
     (case state of (equity, peak, deepest) \<Rightarrow>
     bindE (dadd backtest_context equity value) (\<lambda>e.
     (let p = dmax peak e in
     bindE (dsub backtest_context p e) (\<lambda>d. Inr (e, p, dmax deepest d)))))"

definition optional_divide :: "bool \<Rightarrow> decimal \<Rightarrow> decimal \<Rightarrow> decimal option result" where
  "optional_divide wanted a b = (if wanted then bindE (bt_divide a b) (\<lambda>q. Inr (Some q)) else Inr None)"

definition calculate_metrics :: "dctx \<Rightarrow> trade_result list \<Rightarrow> nat \<Rightarrow> performance result" where
  "calculate_metrics amb trades samples =
     (let returns = map tr_net_r trades; count = length trades in
     bindE (bt_sum returns) (\<lambda>total.
     bindE (if 0 < count then bt_divide total (dec_int (int count)) else Inr 0) (\<lambda>expectancy.
     bindE (bt_sum (filter (\<lambda>v. 0 < v) returns)) (\<lambda>gross_profit.
     bindE (bindE (bt_sum (filter (\<lambda>v. v < 0) returns)) (dabs amb)) (\<lambda>gross_loss.
     bindE (optional_divide (0 < gross_loss) gross_profit gross_loss) (\<lambda>profit_factor.
     bindE (foldE drawdown_step (0, 0, 0) returns) (\<lambda>(_, _, drawdown).
     bindE (if 0 < total \<and> returns \<noteq> []
            then bindE (max_of returns) (\<lambda>best. optional_divide True best total) else Inr None) (\<lambda>best.
     bindE (if 0 < samples then bootstrap_lower_bound returns samples
            else Inr (None, if 0 < count then max 1 (isqrt count) else 0)) (\<lambda>(lower, len).
     Inr \<lparr> pm_trade_count = count, pm_total_net_r = total, pm_expectancy_r = expectancy,
           pm_gross_profit_r = gross_profit, pm_gross_loss_r = gross_loss, pm_profit_factor = profit_factor,
           pm_max_drawdown_r = drawdown, pm_best_trade = best, pm_bootstrap_lower = lower,
           pm_block_length = len, pm_bootstrap_samples = (if 0 < count then samples else 0) \<rparr>)))))))))"

definition bootstrap_samples :: nat where "bootstrap_samples = 1024"

section \<open>The run\<close>

record backtest_run =
  br_strategy_hash :: string
  br_data_hash :: string
  br_cost_model_hash :: string
  br_trades :: "trade_result list"
  br_metrics :: performance
  br_ignored_while_open :: nat
  br_expired_signals :: nat
  br_unresolved_positions :: nat

text \<open>A dictionary comprehension keeps the last signal of an index.\<close>

definition signal_by_index :: "strategy_signal list \<Rightarrow> nat \<Rightarrow> strategy_signal option" where
  "signal_by_index signals i = find (\<lambda>g. sg_bar_index g = i) (rev signals)"

definition directional :: "strategy_signal list \<Rightarrow> nat \<Rightarrow> bool" where
  "directional signals i = list_ex (\<lambda>g. sg_bar_index g = i \<and> sg_direction g \<noteq> SD_NOTHING) signals"

lemma signal_by_index_bar: "signal_by_index signals i = Some g \<Longrightarrow> sg_bar_index g = i \<and> g \<in> set signals"
  using find_Some_iff [of "\<lambda>g. sg_bar_index g = i" "rev signals" g] nth_mem [of _ "rev signals"]
  by (auto simp: signal_by_index_def)

lemma make_trade_same: "make_trade r = Inr t \<Longrightarrow> t = r \<and> tr_signal_index t < tr_entry_index t \<and> tr_entry_index t \<le> tr_exit_index t"
  by (auto simp: make_trade_def)

lemma settle_trade_facts:
  assumes "settle_trade cs g costs p d stop target i reference reason = Inr (Some t)"
  shows "adverse_fill reference (sg_direction g) False (bc_slippage costs) = Inr (tr_exit_price t) \<and> \<not> tr_exit_price t \<le> 0
    \<and> (if sg_direction g = SD_BUY then dsub backtest_context (tr_exit_price t) p
         else dsub backtest_context p (tr_exit_price t)) = Inr (tr_gross_pnl t)
    \<and> dsub backtest_context (tr_gross_pnl t) (tr_total_cost t) = Inr (tr_net_pnl t)
    \<and> bt_divide (tr_net_pnl t) d = Inr (tr_net_r t) \<and> signal_hash g = Inr (tr_signal_hash t)
    \<and> tr_direction t = sg_direction g \<and> tr_signal_index t = sg_bar_index g \<and> tr_entry_index t = sg_bar_index g + 1
    \<and> tr_exit_index t = i \<and> sg_bar_index g < i \<and> tr_entry_price t = p \<and> tr_stop_price t = stop
    \<and> tr_target_price t = target \<and> tr_exit_reason t = reason \<and> tr_bars_held t = i - (sg_bar_index g + 1) + 1"
proof -
  from assms obtain x where x: "adverse_fill reference (sg_direction g) False (bc_slippage costs) = Inr x"
    unfolding settle_trade_def Let_def by auto
  note rest = assms [unfolded settle_trade_def Let_def x bindE_simps]
  have pos: "\<not> x \<le> 0" using rest by (auto split: if_splits)
  from rest [unfolded if_not_P [OF pos] bindE_Inr_iff] show ?thesis
    by (elim exE conjE) (drule make_trade_same, elim conjE, simp only: sum.inject option.inject, hypsubst, simp add: x pos split: if_split_asm)
qed

lemma settle_trade_exit:
  "settle_trade cs g costs p d stop target i reference reason = Inr (Some t) \<Longrightarrow>
   tr_signal_index t = sg_bar_index g \<and> tr_entry_index t = sg_bar_index g + 1 \<and> tr_exit_index t = i \<and> sg_bar_index g < i"
  by (drule settle_trade_facts) simp

lemma hold_position_exit:
  "hold_position cs g s costs p d stop target is = Inr (Some t) \<Longrightarrow> \<exists>i \<in> set is. \<exists>reference reason.
     exit_reference (cs ! i) (sg_direction g) stop target (i = sg_bar_index g + 1 + rs_max_holding_bars s - 1)
       = Some (reference, reason)
     \<and> settle_trade cs g costs p d stop target i reference reason = Inr (Some t)"
  by (induction "is") (auto split: option.splits)

lemma simulate_trade_later: "simulate_trade cs g s costs = Inr (Some t) \<Longrightarrow> sg_bar_index g < tr_exit_index t"
  by (auto simp: simulate_trade_def Let_def split: if_splits dest!: hold_position_exit settle_trade_exit)

text \<open>
  The loop over the signal bars: at most one open position, a signal that arrives or could
  execute only after its expiry is skipped, a position without outcome ends the run. The state
  is what the loop accumulates: the trades, the directional signals ignored while a position was
  open, the expired signals. Each iteration moves to a later bar, a trade to the bar of its exit.
\<close>

function run_loop ::
    "bar list \<Rightarrow> strategy_signal list \<Rightarrow> registered_strategy \<Rightarrow> bt_costs \<Rightarrow> nat \<Rightarrow> trade_result list \<Rightarrow> nat \<Rightarrow> nat \<Rightarrow>
     (trade_result list \<times> nat \<times> nat \<times> nat) result" where
  "run_loop cs signals s costs i trades ignored expired =
     (if length cs - 1 \<le> i then Inr (trades, ignored, expired, 0)
      else
        (case signal_by_index signals i of
           None \<Rightarrow> run_loop cs signals s costs (i + 1) trades ignored expired
         | Some g \<Rightarrow>
             if sg_direction g = SD_NOTHING then run_loop cs signals s costs (i + 1) trades ignored expired
             else if sg_expires_at g < sg_observed_at g \<or> sg_expires_at g < ca_open_time (cs ! (i + 1))
               then run_loop cs signals s costs (i + 1) trades ignored (expired + 1)
             else
               (case simulate_trade cs g s costs of
                  Inl e \<Rightarrow> Inl e
                | Inr None \<Rightarrow> Inr (trades, ignored, expired, 1)
                | Inr (Some t) \<Rightarrow>
                    run_loop cs signals s costs (tr_exit_index t) (trades @ [t])
                      (ignored + length (filter (directional signals) [i + 1..<tr_exit_index t])) expired)))"
  by pat_completeness auto

termination
  by (relation "measure (\<lambda>(cs, signals, s, costs, i, trades, ignored, expired). length cs - i)")
    (auto dest!: signal_by_index_bar simulate_trade_later)

declare run_loop.simps [simp del]

definition run_backtest :: "dctx \<Rightarrow> bar list \<Rightarrow> bt_costs \<Rightarrow> registered_strategy \<Rightarrow> backtest_run result" where
  "run_backtest amb candles costs s =
     bindE (validate_candle_series candles) (\<lambda>cs.
     bindE (scan_signals cs s) (\<lambda>signals.
     bindE (run_loop cs signals s costs (rs_warmup_bars s) [] 0 0) (\<lambda>(trades, ignored, expired, unresolved).
     bindE (domain_hash ''trading-harness/backtest-data/v1'' (PList (map candle_val cs))) (\<lambda>data_hash.
     bindE (registration_hash s) (\<lambda>strategy_hash.
     bindE (bt_costs_hash costs) (\<lambda>cost_hash.
     bindE (calculate_metrics amb trades bootstrap_samples) (\<lambda>metrics.
     Inr \<lparr> br_strategy_hash = strategy_hash, br_data_hash = data_hash, br_cost_model_hash = cost_hash,
           br_trades = trades, br_metrics = metrics, br_ignored_while_open = ignored,
           br_expired_signals = expired, br_unresolved_positions = unresolved \<rparr>)))))))"

section \<open>Folds and promotion\<close>

record fold_metrics =
  fm_fold_index :: nat
  fm_start :: nat
  fm_end :: nat
  fm_metrics :: performance

definition fold_trades :: "trade_result list \<Rightarrow> nat \<Rightarrow> nat \<Rightarrow> trade_result list" where
  "fold_trades trades lo hi = filter (\<lambda>t. lo \<le> tr_signal_index t \<and> tr_signal_index t < hi) trades"

fun folds_from :: "dctx \<Rightarrow> trade_result list \<Rightarrow> nat \<Rightarrow> (nat \<times> nat) list \<Rightarrow> fold_metrics list result" where
  "folds_from amb trades cursor [] = Inr []"
| "folds_from amb trades cursor ((k, width) # ws) =
     bindE (calculate_metrics amb (fold_trades trades cursor (cursor + width)) 0) (\<lambda>m.
     bindE (folds_from amb trades (cursor + width) ws) (\<lambda>fs.
     Inr (\<lparr> fm_fold_index = k, fm_start = cursor, fm_end = cursor + width, fm_metrics = m \<rparr> # fs)))"

text \<open>The width of each of the four folds: the first ones take the remainder.\<close>

definition fold_widths :: "nat \<Rightarrow> nat \<Rightarrow> (nat \<times> nat) list" where
  "fold_widths eligible n =
     map (\<lambda>k. (k, eligible div n + (if k < eligible mod n then 1 else 0))) [0..<n]"

definition chronological_folds ::
    "dctx \<Rightarrow> backtest_run \<Rightarrow> nat \<Rightarrow> nat \<Rightarrow> nat \<Rightarrow> fold_metrics list result" where
  "chronological_folds amb run total_bars warmup_bars fold_count =
     bindE (require
       [(warmup_bars + 1 < total_bars, ValueError),
        (fold_count = 4, ValueError),
        (fold_count \<le> total_bars - 1 - warmup_bars, ValueError)]) (\<lambda>_.
     folds_from amb (br_trades run) warmup_bars (fold_widths (total_bars - 1 - warmup_bars) fold_count))"

datatype promotion_status = PROMOTION_PASS | PROMOTION_REJECTED | PROMOTION_INCONCLUSIVE

datatype gate_actual = GA_Int nat | GA_Decimal "decimal option" | GA_Text string

record gate_check =
  gk_name :: string
  gk_passed :: bool
  gk_actual :: gate_actual
  gk_requirement :: string

record promotion_decision =
  pd_status :: promotion_status
  pd_checks :: "gate_check list"
  pd_reasons :: "string list"

definition positive_folds :: "fold_metrics list \<Rightarrow> nat" where
  "positive_folds folds =
     length (filter (\<lambda>f. 0 < pm_trade_count (fm_metrics f) \<and> 0 < pm_expectancy_r (fm_metrics f)) folds)"

definition profit_factor_check :: "performance \<Rightarrow> bool \<times> gate_actual" where
  "profit_factor_check m =
     (if deq (pm_gross_loss_r m) 0 then
        (0 < pm_gross_profit_r m, if 0 < pm_gross_profit_r m then GA_Text ''no_losses'' else GA_Decimal None)
      else ((case pm_profit_factor m of None \<Rightarrow> False | Some f \<Rightarrow> Dec 12 (- 1) \<le> f), GA_Decimal (pm_profit_factor m)))"

definition gate_checks :: "backtest_run \<Rightarrow> backtest_run \<Rightarrow> fold_metrics list \<Rightarrow> gate_check list" where
  "gate_checks base stress folds =
     (let m = br_metrics base in
      [\<lparr> gk_name = ''minimum_oos_trades'', gk_passed = (100 \<le> pm_trade_count m),
         gk_actual = GA_Int (pm_trade_count m), gk_requirement = ''>=100'' \<rparr>,
       \<lparr> gk_name = ''positive_chronological_folds'', gk_passed = (length folds = 4 \<and> 3 \<le> positive_folds folds),
         gk_actual = GA_Int (positive_folds folds), gk_requirement = ''>=3 of exactly 4'' \<rparr>,
       \<lparr> gk_name = ''profit_factor'', gk_passed = fst (profit_factor_check m),
         gk_actual = snd (profit_factor_check m), gk_requirement = ''>=1.2 (or positive returns with no losses)'' \<rparr>,
       \<lparr> gk_name = ''max_drawdown_r'', gk_passed = (pm_max_drawdown_r m \<le> Dec 10 0),
         gk_actual = GA_Decimal (Some (pm_max_drawdown_r m)), gk_requirement = ''<=10R'' \<rparr>,
       \<lparr> gk_name = ''cost_stress_expectancy'', gk_passed = (0 < pm_expectancy_r (br_metrics stress)),
         gk_actual = GA_Decimal (Some (pm_expectancy_r (br_metrics stress))),
         gk_requirement = ''>0R at 2x registered costs'' \<rparr>,
       \<lparr> gk_name = ''best_trade_contribution'',
         gk_passed = (case pm_best_trade m of None \<Rightarrow> False | Some b \<Rightarrow> b \<le> Dec 2 (- 1)),
         gk_actual = GA_Decimal (pm_best_trade m), gk_requirement = ''<=20% of total net R'' \<rparr>,
       \<lparr> gk_name = ''block_bootstrap_lower_bound'',
         gk_passed = (case pm_bootstrap_lower m of None \<Rightarrow> False | Some b \<Rightarrow> 0 < b),
         gk_actual = GA_Decimal (pm_bootstrap_lower m), gk_requirement = ''>0R one-sided 95% lower bound'' \<rparr>])"

definition inconclusive_reasons :: "backtest_run \<Rightarrow> backtest_run \<Rightarrow> fold_metrics list \<Rightarrow> string list" where
  "inconclusive_reasons base stress folds =
     (if pm_trade_count (br_metrics base) < 100 then [''fewer_than_100_oos_trades''] else [])
     @ (if length folds \<noteq> 4 then [''exactly_four_chronological_folds_required''] else [])
     @ (if br_unresolved_positions base \<noteq> 0 \<or> br_unresolved_positions stress \<noteq> 0
        then [''dataset_ends_with_unresolved_position''] else [])"

definition assess_promotion :: "backtest_run \<Rightarrow> backtest_run \<Rightarrow> fold_metrics list \<Rightarrow> promotion_decision" where
  "assess_promotion base stress folds =
     (let checks = gate_checks base stress folds; reasons = inconclusive_reasons base stress folds;
          failed = map gk_name (filter (\<lambda>c. \<not> gk_passed c) checks) in
      if reasons \<noteq> [] then \<lparr> pd_status = PROMOTION_INCONCLUSIVE, pd_checks = checks, pd_reasons = reasons \<rparr>
      else if failed \<noteq> [] then \<lparr> pd_status = PROMOTION_REJECTED, pd_checks = checks, pd_reasons = failed \<rparr>
      else \<lparr> pd_status = PROMOTION_PASS, pd_checks = checks, pd_reasons = [] \<rparr>)"

record validation_artifact =
  va_schema_version :: nat
  va_strategy :: registered_strategy
  va_data_hash :: string
  va_base_cost_model :: bt_costs
  va_stress_cost_model :: bt_costs
  va_base_run :: backtest_run
  va_stress_run :: backtest_run
  va_folds :: "fold_metrics list"
  va_promotion :: promotion_decision
  va_bootstrap_method :: string

definition validate_profitability ::
    "dctx \<Rightarrow> bar list \<Rightarrow> bt_costs \<Rightarrow> registered_strategy \<Rightarrow> validation_artifact result" where
  "validate_profitability amb candles costs s =
     bindE (validate_candle_series candles) (\<lambda>cs.
     bindE (run_backtest amb cs costs s) (\<lambda>base.
     bindE (stressed costs) (\<lambda>stress_costs.
     bindE (run_backtest amb cs stress_costs s) (\<lambda>stress.
     bindE (if rs_warmup_bars s + 5 \<le> length cs
            then chronological_folds amb base (length cs) (rs_warmup_bars s) 4 else Inr []) (\<lambda>folds.
     Inr \<lparr> va_schema_version = 1, va_strategy = s, va_data_hash = br_data_hash base,
           va_base_cost_model = costs, va_stress_cost_model = stress_costs, va_base_run = base,
           va_stress_run = stress, va_folds = folds, va_promotion = assess_promotion base stress folds,
           va_bootstrap_method = ''deterministic circular moving-block bootstrap; block_length=floor(sqrt(n)); ''
             @ ''1024 SHA-256-derived resamples; fifth percentile of ordered-trade mean net R'' \<rparr>)))))"

end
