(* ===== verification/Backtest_Invariant.thy ===== *)
theory Backtest_Invariant
  imports Backtest
begin

text \<open>
  What a run of the backtest keeps: every trade comes from a live directional signal, positions
  do not overlap, later candles change no trade that is complete, and the folds partition the
  trades of the evaluated interval.
\<close>

section \<open>One trade\<close>

text \<open>What a simulated trade is: the entry at the next open, the first bar that closes it, its exit.\<close>

definition first_exit :: "bar list \<Rightarrow> registered_strategy \<Rightarrow> trade_result \<Rightarrow> decimal \<Rightarrow> bool" where
  "first_exit cs s t reference =
     (exit_reference (cs ! tr_exit_index t) (tr_direction t) (tr_stop_price t) (tr_target_price t)
        (tr_exit_index t = tr_entry_index t + rs_max_holding_bars s - 1) = Some (reference, tr_exit_reason t)
      \<and> (\<forall>i \<in> set [tr_entry_index t..<tr_exit_index t].
          exit_reference (cs ! i) (tr_direction t) (tr_stop_price t) (tr_target_price t) False = None))"

lemma hold_position_first:
  assumes "hold_position cs g s costs p d stop target [a..<b] = Inr (Some t)"
    and "b \<le> Suc (sg_bar_index g + rs_max_holding_bars s)"
  shows "\<exists>i reference reason. a \<le> i \<and> i < b
    \<and> exit_reference (cs ! i) (sg_direction g) stop target (i = sg_bar_index g + 1 + rs_max_holding_bars s - 1)
       = Some (reference, reason)
    \<and> (\<forall>j \<in> set [a..<i]. exit_reference (cs ! j) (sg_direction g) stop target False = None)
    \<and> settle_trade cs g costs p d stop target i reference reason = Inr (Some t)"
  using assms
proof (induction "[a..<b]" arbitrary: a)
  case Nil
  then show ?case by simp
next
  case (Cons x xs)
  have ab: "a < b" "x = a" "xs = [Suc a..<b]"
    using Cons.hyps(2) [symmetric] by (auto simp: upt_eq_Cons_conv)
  have upt: "[a..<b] = a # [Suc a..<b]" using ab by (simp add: upt_conv_Cons)
  show ?case
  proof (cases "exit_reference (cs ! a) (sg_direction g) stop target (a = sg_bar_index g + 1 + rs_max_holding_bars s - 1)")
    case None
    with Cons.prems have "hold_position cs g s costs p d stop target [Suc a..<b] = Inr (Some t)" by (simp add: upt)
    from Cons.hyps(1) [OF ab(3) this Cons.prems(2)] obtain i reference reason where
        i: "Suc a \<le> i" "i < b" "exit_reference (cs ! i) (sg_direction g) stop target
            (i = sg_bar_index g + 1 + rs_max_holding_bars s - 1) = Some (reference, reason)"
          "\<forall>j \<in> set [Suc a..<i]. exit_reference (cs ! j) (sg_direction g) stop target False = None"
          "settle_trade cs g costs p d stop target i reference reason = Inr (Some t)" by blast
    have "a \<noteq> sg_bar_index g + 1 + rs_max_holding_bars s - 1" using i(1,2) Cons.prems(2) by simp
    with None i(1,4) have "\<forall>j \<in> set [a..<i]. exit_reference (cs ! j) (sg_direction g) stop target False = None"
      by (auto simp: Suc_le_eq dest: le_neq_implies_less)
    with i show ?thesis by (intro exI [of _ i] exI [of _ reference] exI [of _ reason]) simp
  next
    case (Some x)
    obtain reference reason where x: "x = (reference, reason)" by (cases x)
    with Some Cons.prems have "settle_trade cs g costs p d stop target a reference reason = Inr (Some t)"
      by (simp add: upt)
    with Some x ab show ?thesis by (intro exI [of _ a] exI [of _ reference] exI [of _ reason]) simp
  qed
qed

text \<open>A position over more bars has the outcome of the first bars that close it.\<close>

lemma hold_position_append:
  "hold_position cs g s costs p d stop target is = Inr (Some t) \<Longrightarrow>
   hold_position cs g s costs p d stop target (is @ js) = Inr (Some t)"
  by (induction "is") (auto split: option.splits)

lemma hold_position_prefix:
  assumes "\<forall>i \<in> set is. i < length xs" "sg_bar_index g + 1 < length xs"
  shows "hold_position (xs @ ys) g s costs p d stop target is = hold_position xs g s costs p d stop target is"
  using assms
proof (induction "is")
  case (Cons i "is")
  then have nth: "(xs @ ys) ! i = xs ! i" "(xs @ ys) ! (sg_bar_index g + 1) = xs ! (sg_bar_index g + 1)"
    by (simp_all only: list.set ball_simps nth_append if_True)
  have "settle_trade (xs @ ys) g costs p d stop target i = settle_trade xs g costs p d stop target i"
    by (intro ext) (simp only: settle_trade_def Let_def nth)
  with Cons nth show ?case by (simp split: option.split)
qed simp

definition bars_of :: "strategy_signal \<Rightarrow> registered_strategy \<Rightarrow> nat \<Rightarrow> nat list" where
  "bars_of g s n = [sg_bar_index g + 1..<Suc (min (n - 1) (sg_bar_index g + 1 + rs_max_holding_bars s - 1))]"

definition bracket_prices :: "strategy_signal \<Rightarrow> decimal \<Rightarrow> decimal \<Rightarrow> decimal \<Rightarrow> decimal \<Rightarrow> decimal \<Rightarrow> bool" where
  "bracket_prices g entry_price stop_distance target_distance stop target =
     ((if sg_direction g = SD_BUY then dsub backtest_context entry_price stop_distance
       else dadd backtest_context entry_price stop_distance) = Inr stop
      \<and> (if sg_direction g = SD_BUY then dadd backtest_context entry_price target_distance
         else dsub backtest_context entry_price target_distance) = Inr target
      \<and> \<not> (if sg_direction g = SD_BUY then stop \<le> 0 else target \<le> 0))"

lemma simulate_trade_iff:
  "simulate_trade cs g s costs = Inr (Some t) \<longleftrightarrow>
     sg_bar_index g + 1 < length cs \<and> sg_observed_at g \<le> sg_expires_at g
     \<and> ca_open_time (cs ! (sg_bar_index g + 1)) \<le> sg_expires_at g
     \<and> (\<exists>p d td stop target.
         adverse_fill (ca_open (cs ! (sg_bar_index g + 1))) (sg_direction g) True (bc_slippage costs) = Inr p
         \<and> dmul backtest_context (ft_atr (sg_features g)) (rs_stop_atr_multiple s) = Inr d
         \<and> dmul backtest_context (ft_atr (sg_features g)) (rs_target_atr_multiple s) = Inr td
         \<and> bracket_prices g p d td stop target
         \<and> hold_position cs g s costs p d stop target (bars_of g s (length cs)) = Inr (Some t))"
proof (cases "length cs \<le> sg_bar_index g + 1 \<or> sg_expires_at g < sg_observed_at g
     \<or> sg_expires_at g < ca_open_time (cs ! (sg_bar_index g + 1))")
  case True
  then show ?thesis by (auto simp: simulate_trade_def Let_def)
next
  case False
  note step = simulate_trade_def [of cs g s costs, unfolded Let_def if_not_P [OF False]]
  have split: "(if c then Inr None else m) = Inr (Some t) \<longleftrightarrow> \<not> c \<and> m = Inr (Some t)" for c and m :: "trade_result option result"
    by simp
  have live: "sg_bar_index g + 1 < length cs" "sg_observed_at g \<le> sg_expires_at g"
    "ca_open_time (cs ! (sg_bar_index g + 1)) \<le> sg_expires_at g"
    using False by auto
  show ?thesis
    unfolding step bindE_Inr_iff split bars_of_def bracket_prices_def using live by blast
qed

lemma upt_split: "a \<le> b \<Longrightarrow> b \<le> c \<Longrightarrow> [a..<c] = [a..<b] @ [b..<c]"
  using upt_add_eq_append [of a b "c - b"] by simp

lemma bars_of_append:
  assumes "sg_bar_index g + 1 < n" "n \<le> m"
  shows "\<exists>js. bars_of g s m = bars_of g s n @ js"
  unfolding bars_of_def by (rule exI, rule upt_split) (use assms in auto)

lemma simulate_trade_append:
  assumes "simulate_trade xs g s costs = Inr (Some t)"
  shows "simulate_trade (xs @ ys) g s costs = Inr (Some t)"
proof -
  from assms have live: "sg_bar_index g + 1 < length xs" by (simp add: simulate_trade_iff)
  then have nth: "(xs @ ys) ! (sg_bar_index g + 1) = xs ! (sg_bar_index g + 1)" by (simp only: nth_append if_True)
  obtain js where js: "bars_of g s (length (xs @ ys)) = bars_of g s (length xs) @ js"
    using bars_of_append [OF live, of "length (xs @ ys)" s] by auto
  have inside: "\<forall>i \<in> set (bars_of g s (length xs)). i < length xs" using live by (auto simp: bars_of_def)
  have more: "hold_position (xs @ ys) g s costs p d stop target (bars_of g s (length (xs @ ys))) = Inr (Some t)"
    if "hold_position xs g s costs p d stop target (bars_of g s (length xs)) = Inr (Some t)" for p d stop target
    unfolding js using that by (intro hold_position_append) (simp add: hold_position_prefix [OF inside live])
  have "sg_bar_index g + 1 < length (xs @ ys)" using live by simp
  with assms more show ?thesis unfolding simulate_trade_iff nth by blast
qed

text \<open>A trade of the simulation, by its own fields.\<close>

lemma simulate_trade_facts:
  assumes "simulate_trade cs g s costs = Inr (Some t)" "0 < rs_max_holding_bars s"
  shows "tr_direction t = sg_direction g \<and> tr_signal_index t = sg_bar_index g \<and> tr_entry_index t = sg_bar_index g + 1
    \<and> tr_entry_index t \<le> tr_exit_index t \<and> tr_exit_index t < length cs
    \<and> tr_bars_held t = tr_exit_index t - tr_entry_index t + 1 \<and> tr_bars_held t \<le> rs_max_holding_bars s
    \<and> adverse_fill (ca_open (cs ! tr_entry_index t)) (tr_direction t) True (bc_slippage costs) = Inr (tr_entry_price t)
    \<and> (\<exists>reference. first_exit cs s t reference
        \<and> adverse_fill reference (tr_direction t) False (bc_slippage costs) = Inr (tr_exit_price t))
    \<and> dsub backtest_context (tr_gross_pnl t) (tr_total_cost t) = Inr (tr_net_pnl t)"
proof -
  from assms(1) obtain p d td stop target where
      live: "sg_bar_index g + 1 < length cs"
    and p: "adverse_fill (ca_open (cs ! (sg_bar_index g + 1))) (sg_direction g) True (bc_slippage costs) = Inr p"
    and hold: "hold_position cs g s costs p d stop target (bars_of g s (length cs)) = Inr (Some t)"
    unfolding simulate_trade_iff by blast
  let ?b = "Suc (min (length cs - 1) (sg_bar_index g + 1 + rs_max_holding_bars s - 1))"
  have "?b \<le> Suc (sg_bar_index g + rs_max_holding_bars s)" by simp
  from hold_position_first [OF hold [unfolded bars_of_def] this] obtain i reference reason where
      i: "sg_bar_index g + 1 \<le> i" "i < ?b"
    and ex: "exit_reference (cs ! i) (sg_direction g) stop target (i = sg_bar_index g + 1 + rs_max_holding_bars s - 1)
        = Some (reference, reason)"
      "\<forall>j \<in> set [sg_bar_index g + 1..<i]. exit_reference (cs ! j) (sg_direction g) stop target False = None"
    and settle: "settle_trade cs g costs p d stop target i reference reason = Inr (Some t)"
    by blast
  note t = settle_trade_facts [OF settle]
  have "i < length cs" using i(2) live by simp
  moreover have "i - (sg_bar_index g + 1) + 1 \<le> rs_max_holding_bars s" using i assms(2) by simp
  moreover have "first_exit cs s t reference" using ex t by (simp add: first_exit_def)
  ultimately show ?thesis using t p i(1) by (intro conjI exI [of _ reference]) simp_all
qed

section \<open>The loop\<close>

text \<open>What one bar of the loop is: nothing to do, a signal too late, an open end, a trade, an error.\<close>

datatype bar_outcome = Quiet | Late | Open_Ended | Traded trade_result | Broken exn

definition bar_at :: "bar list \<Rightarrow> strategy_signal list \<Rightarrow> registered_strategy \<Rightarrow> bt_costs \<Rightarrow> nat \<Rightarrow> bar_outcome" where
  "bar_at cs signals s costs i =
     (case signal_by_index signals i of
        None \<Rightarrow> Quiet
      | Some g \<Rightarrow>
          if sg_direction g = SD_NOTHING then Quiet
          else if sg_expires_at g < sg_observed_at g \<or> sg_expires_at g < ca_open_time (cs ! (i + 1)) then Late
          else (case simulate_trade cs g s costs of
              Inl e \<Rightarrow> Broken e | Inr None \<Rightarrow> Open_Ended | Inr (Some t) \<Rightarrow> Traded t))"

lemma run_loop_bar:
  "run_loop cs signals s costs i trades ignored expired =
     (if length cs - 1 \<le> i then Inr (trades, ignored, expired, 0)
      else
        (case bar_at cs signals s costs i of
           Quiet \<Rightarrow> run_loop cs signals s costs (i + 1) trades ignored expired
         | Late \<Rightarrow> run_loop cs signals s costs (i + 1) trades ignored (expired + 1)
         | Broken e \<Rightarrow> Inl e
         | Open_Ended \<Rightarrow> Inr (trades, ignored, expired, 1)
         | Traded t \<Rightarrow>
             run_loop cs signals s costs (tr_exit_index t) (trades @ [t])
               (ignored + length (filter (directional signals) [i + 1..<tr_exit_index t])) expired))"
  by (subst run_loop.simps) (auto simp: bar_at_def split: option.splits sum.splits)

lemma simulate_trade_signal: "simulate_trade cs g s costs = Inr (Some t) \<Longrightarrow> tr_signal_index t = sg_bar_index g"
  by (auto simp: simulate_trade_iff dest!: hold_position_exit settle_trade_exit)

lemma bar_at_Traded:
  assumes "bar_at cs signals s costs i = Traded t"
  obtains g where "g \<in> set signals" "signal_by_index signals i = Some g" "sg_direction g \<noteq> SD_NOTHING"
    "simulate_trade cs g s costs = Inr (Some t)" "tr_signal_index t = i" "i < tr_exit_index t"
proof -
  from assms obtain g where g: "signal_by_index signals i = Some g" "sg_direction g \<noteq> SD_NOTHING"
      "simulate_trade cs g s costs = Inr (Some t)"
    by (auto simp: bar_at_def split: option.splits if_splits sum.splits)
  with signal_by_index_bar [OF g(1)] simulate_trade_signal [OF g(3)] simulate_trade_later [OF g(3)] that show ?thesis
    by auto
qed

text \<open>The trades the loop has accumulated, having started at bar \<open>lo\<close>.\<close>

definition trades_inv ::
    "bar list \<Rightarrow> strategy_signal list \<Rightarrow> registered_strategy \<Rightarrow> bt_costs \<Rightarrow> nat \<Rightarrow> trade_result list \<Rightarrow> bool" where
  "trades_inv cs signals s costs lo trades =
     ((\<forall>t \<in> set trades. lo \<le> tr_signal_index t
        \<and> (\<exists>g \<in> set signals. sg_direction g \<noteq> SD_NOTHING \<and> simulate_trade cs g s costs = Inr (Some t)))
      \<and> sorted_wrt (\<lambda>a b. tr_exit_index a \<le> tr_signal_index b) trades)"

lemma run_loop_inv:
  assumes "run_loop cs signals s costs i trades ignored expired = Inr r"
    and "trades_inv cs signals s costs lo trades" "lo \<le> i" "\<forall>t \<in> set trades. tr_exit_index t \<le> i"
  shows "trades_inv cs signals s costs lo (fst r)"
  using assms
proof (induction "length cs - i" arbitrary: i trades ignored expired rule: less_induct)
  case less
  note step = less.prems(1) [unfolded run_loop_bar [of cs signals s costs i]]
  show ?case
  proof (cases "length cs - 1 \<le> i")
    case True
    then show ?thesis using step less.prems(2) by auto
  next
    case False
    then have smaller: "length cs - j < length cs - i" if "i < j" for j using that by linarith
    have later: "lo \<le> i + 1" "\<forall>t \<in> set trades. tr_exit_index t \<le> i + 1" using less.prems(3,4) by auto
    show ?thesis
    proof (cases "bar_at cs signals s costs i")
      case (Traded t)
      then obtain g where g: "g \<in> set signals" "sg_direction g \<noteq> SD_NOTHING" "simulate_trade cs g s costs = Inr (Some t)"
          "tr_signal_index t = i" "i < tr_exit_index t"
        by (elim bar_at_Traded)
      then have "trades_inv cs signals s costs lo (trades @ [t])"
        using less.prems(2-4) by (auto simp: trades_inv_def sorted_wrt_append)
      moreover have "lo \<le> tr_exit_index t" "\<forall>x \<in> set (trades @ [t]). tr_exit_index x \<le> tr_exit_index t"
        using less.prems(3,4) g(5) by force+
      ultimately show ?thesis
        using step False Traded less.hyps [OF smaller [OF g(5)]] by simp
    qed (use step False later less.hyps [OF smaller [of "i + 1"]] less.prems(2) in auto)
  qed
qed

lemma run_loop_extends:
  "run_loop cs signals s costs i trades ignored expired = Inr r \<Longrightarrow> \<exists>later. fst r = trades @ later"
proof (induction "length cs - i" arbitrary: i trades ignored expired rule: less_induct)
  case less
  note step = less.prems [unfolded run_loop_bar [of cs signals s costs i]]
  show ?case
  proof (cases "length cs - 1 \<le> i")
    case True
    then show ?thesis using step by auto
  next
    case False
    then have smaller: "length cs - j < length cs - i" if "i < j" for j using that by linarith
    show ?thesis
    proof (cases "bar_at cs signals s costs i")
      case (Traded t)
      then have "i < tr_exit_index t" by (elim bar_at_Traded)
      from less.hyps [OF smaller [OF this]] step False Traded show ?thesis by fastforce
    qed (use step False less.hyps [OF smaller [of "i + 1"]] in auto)
  qed
qed

text \<open>Later candles extend the list of trades and change none of it.\<close>

lemma bar_at_append:
  assumes "Suc i < length xs" "signal_by_index signals i = signal_by_index wider i"
    and "bar_at xs signals s costs i \<in> {Quiet, Late} \<or> (\<exists>t. bar_at xs signals s costs i = Traded t)"
  shows "bar_at (xs @ ys) wider s costs i = bar_at xs signals s costs i"
proof (cases "signal_by_index wider i")
  case None
  with assms(2) show ?thesis by (simp add: bar_at_def)
next
  case (Some g)
  have nth: "(xs @ ys) ! (i + 1) = xs ! (i + 1)" using assms(1) by (simp add: nth_append)
  show ?thesis
    using assms(2,3) Some simulate_trade_append [of xs g s costs _ ys] unfolding bar_at_def nth
    by (auto split: sum.splits option.splits if_splits)
qed

lemma run_loop_prefix:
  assumes "run_loop xs signals s costs i trades a b = Inr r" "run_loop (xs @ ys) wider s costs i trades c d = Inr q"
    and "\<forall>i < length xs. signal_by_index signals i = signal_by_index wider i"
  shows "\<exists>later. fst q = fst r @ later"
  using assms(1,2)
proof (induction "length xs - i" arbitrary: i trades a b c d rule: less_induct)
  case less
  note step = less.prems(1) [unfolded run_loop_bar [of xs signals s costs i]]
  note long = less.prems(2) [unfolded run_loop_bar [of "xs @ ys" wider s costs i]]
  show ?case
  proof (cases "length xs - 1 \<le> i")
    case True
    then show ?thesis using step run_loop_extends [OF less.prems(2)] by auto
  next
    case False
    then have i: "Suc i < length xs" "\<not> length (xs @ ys) - 1 \<le> i" by auto
    then have smaller: "length xs - j < length xs - i" if "i < j" for j using that by linarith
    note same = bar_at_append [OF i(1), of signals wider s costs ys]
    show ?thesis
    proof (cases "bar_at xs signals s costs i")
      case (Traded t)
      then have "i < tr_exit_index t" by (elim bar_at_Traded)
      from less.hyps [OF smaller [OF this]] step long False i Traded same assms(3) show ?thesis by simp
    next
      case Open_Ended
      then show ?thesis using step False run_loop_extends [OF less.prems(2)] by auto
    qed (use step long False i same assms(3) less.hyps [OF smaller [of "i + 1"]] in auto)
  qed
qed

section \<open>The loop with bounded iterations\<close>

text \<open>
  The \<open>while\<close> loop of \<open>run_backtest\<close> one iteration at a time: the next state of its variables, or
  the result it leaves with.
\<close>

type_synonym loop_state = "nat \<times> trade_result list \<times> nat \<times> nat"

definition loop_step ::
    "bar list \<Rightarrow> strategy_signal list \<Rightarrow> registered_strategy \<Rightarrow> bt_costs \<Rightarrow> loop_state \<Rightarrow>
     loop_state + (trade_result list \<times> nat \<times> nat \<times> nat) result" where
  "loop_step cs signals s costs st =
     (case st of (i, trades, ignored, expired) \<Rightarrow>
      if length cs - 1 \<le> i then Inr (Inr (trades, ignored, expired, 0))
      else
        (case signal_by_index signals i of
           None \<Rightarrow> Inl (i + 1, trades, ignored, expired)
         | Some g \<Rightarrow>
             if sg_direction g = SD_NOTHING then Inl (i + 1, trades, ignored, expired)
             else if sg_expires_at g < sg_observed_at g \<or> sg_expires_at g < ca_open_time (cs ! (i + 1))
               then Inl (i + 1, trades, ignored, expired + 1)
             else
               (case simulate_trade cs g s costs of
                  Inl e \<Rightarrow> Inr (Inl e)
                | Inr None \<Rightarrow> Inr (Inr (trades, ignored, expired, 1))
                | Inr (Some t) \<Rightarrow>
                    Inl (tr_exit_index t, trades @ [t],
                      ignored + length (filter (directional signals) [i + 1..<tr_exit_index t]), expired))))"

fun iterate :: "('s \<Rightarrow> 's + 'r) \<Rightarrow> nat \<Rightarrow> 's \<Rightarrow> 'r option" where
  "iterate step 0 st = None"
| "iterate step (Suc n) st = (case step st of Inl st' \<Rightarrow> iterate step n st' | Inr r \<Rightarrow> Some r)"

lemma loop_step_bar:
  "loop_step cs signals s costs (i, trades, ignored, expired) =
     (if length cs - 1 \<le> i then Inr (Inr (trades, ignored, expired, 0))
      else
        (case bar_at cs signals s costs i of
           Quiet \<Rightarrow> Inl (i + 1, trades, ignored, expired)
         | Late \<Rightarrow> Inl (i + 1, trades, ignored, expired + 1)
         | Broken e \<Rightarrow> Inr (Inl e)
         | Open_Ended \<Rightarrow> Inr (Inr (trades, ignored, expired, 1))
         | Traded t \<Rightarrow>
             Inl (tr_exit_index t, trades @ [t],
               ignored + length (filter (directional signals) [i + 1..<tr_exit_index t]), expired)))"
  by (auto simp: loop_step_def bar_at_def split: option.splits sum.splits)

lemma iterate_run_loop:
  "length cs - i < n \<Longrightarrow>
   iterate (loop_step cs signals s costs) n (i, trades, ignored, expired)
     = Some (run_loop cs signals s costs i trades ignored expired)"
proof (induction n arbitrary: i trades ignored expired)
  case (Suc n)
  show ?case
  proof (cases "length cs - 1 \<le> i")
    case True
    then show ?thesis by (simp add: loop_step_bar run_loop_bar [of cs signals s costs i])
  next
    case False
    then have closer: "length cs - j < n" if "i < j" for j using that Suc.prems by linarith
    show ?thesis
    proof (cases "bar_at cs signals s costs i")
      case (Traded t)
      then have "i < tr_exit_index t" by (elim bar_at_Traded)
      from Suc.IH [OF closer [OF this]] False Traded show ?thesis
        by (simp add: loop_step_bar run_loop_bar [of cs signals s costs i])
    qed (use False Suc.IH [OF closer [of "i + 1"]] in
        \<open>simp_all add: loop_step_bar run_loop_bar [of cs signals s costs i]\<close>)
  qed
qed simp

section \<open>Runs\<close>

lemma run_backtestE:
  assumes "run_backtest amb candles costs s = Inr r"
  obtains signals i e u where "validate_candle_series candles = Inr candles" "scan_signals candles s = Inr signals"
    "run_loop candles signals s costs (rs_warmup_bars s) [] 0 0 = Inr (br_trades r, i, e, u)"
    "calculate_metrics amb (br_trades r) bootstrap_samples = Inr (br_metrics r)"
    "br_unresolved_positions r = u"
proof -
  from assms obtain cs where cs: "validate_candle_series candles = Inr cs" by (auto simp: run_backtest_def)
  with validate_series_same have same: "cs = candles" by blast
  from assms [unfolded run_backtest_def cs bindE_simps bindE_Inr_iff] same cs show ?thesis
    by (auto split: prod.splits intro: that)
qed

lemma run_backtest_trades:
  assumes "run_backtest amb candles costs s = Inr r"
  shows "\<exists>signals. scan_signals candles s = Inr signals
    \<and> trades_inv candles signals s costs (rs_warmup_bars s) (br_trades r)"
proof -
  obtain signals i e u where signals: "scan_signals candles s = Inr signals"
      "run_loop candles signals s costs (rs_warmup_bars s) [] 0 0 = Inr (br_trades r, i, e, u)"
    using run_backtestE [OF assms] by metis
  from run_loop_inv [OF signals(2), of "rs_warmup_bars s"] signals(1) show ?thesis
    by (auto simp: trades_inv_def)
qed

section \<open>Folds\<close>

lemma metrics_count: "calculate_metrics amb trades n = Inr m \<Longrightarrow> pm_trade_count m = length trades"
  unfolding calculate_metrics_def Let_def bindE_Inr_iff by (auto split: prod.splits)

lemma fold_trades_split:
  "lo \<le> mid \<Longrightarrow> mid \<le> hi \<Longrightarrow>
   length (fold_trades ts lo hi) = length (fold_trades ts lo mid) + length (fold_trades ts mid hi)"
  by (induction ts) (auto simp: fold_trades_def)

lemma folds_from_spans:
  "folds_from amb trades cursor ws = Inr fs \<Longrightarrow>
   map fm_end fs = map (\<lambda>k. cursor + sum_list (map snd (take (Suc k) ws))) [0..<length ws]
   \<and> map fm_start fs = map (\<lambda>k. cursor + sum_list (map snd (take k ws))) [0..<length ws]
   \<and> sum_list (map (\<lambda>f. pm_trade_count (fm_metrics f)) fs)
     = length (fold_trades trades cursor (cursor + sum_list (map snd ws)))"
proof (induction amb trades cursor ws arbitrary: fs rule: folds_from.induct)
  case (1 amb trades cursor)
  then show ?case by (auto simp: fold_trades_def)
next
  case (2 amb trades cursor k width ws)
  then obtain m gs where m: "calculate_metrics amb (fold_trades trades cursor (cursor + width)) 0 = Inr m"
    and gs: "folds_from amb trades (cursor + width) ws = Inr gs"
    and fs: "fs = \<lparr> fm_fold_index = k, fm_start = cursor, fm_end = cursor + width, fm_metrics = m \<rparr> # gs"
    by auto
  have upt: "[0..<length ((k, width) # ws)] = 0 # map Suc [0..<length ws]"
    by (simp add: upt_conv_Cons map_Suc_upt del: upt_Suc)
  have "length (fold_trades trades cursor (cursor + (width + sum_list (map snd ws))))
      = length (fold_trades trades cursor (cursor + width))
        + length (fold_trades trades (cursor + width) (cursor + (width + sum_list (map snd ws))))"
    by (rule fold_trades_split) simp_all
  with "2.IH" [OF gs] metrics_count [OF m] show ?case
    unfolding upt fs by (simp add: ac_simps comp_def)
qed

lemma fold_widths_four:
  "fold_widths e 4 = [(0, e div 4 + (if 0 < e mod 4 then 1 else 0)), (1, e div 4 + (if 1 < e mod 4 then 1 else 0)),
     (2, e div 4 + (if 2 < e mod 4 then 1 else 0)), (3, e div 4)]"
proof -
  have "[0..<4] = [0, 1, 2, 3::nat]" by (simp add: upt_rec)
  then show ?thesis by (simp add: fold_widths_def)
qed

lemma fold_widths_sum: "sum_list (map snd (fold_widths e 4)) = e"
proof -
  have "e mod 4 < 4" "e = 4 * (e div 4) + e mod 4" by simp_all
  then show ?thesis unfolding fold_widths_four by simp presburger
qed

end
