(* ===== verification/Backtest_Sample.thy ===== *)
theory Backtest_Sample
  imports Backtest_Invariant Strategy_Properties
begin

text \<open>
  A concrete run of the backtest: six candles around a price of 100 with short periods. The
  fifth candle breaks out, the trade opens on the sixth and reaches its target there, two risk
  units above its entry.
\<close>

section \<open>The candles\<close>

definition tape_candle :: "int \<Rightarrow> int \<Rightarrow> int \<Rightarrow> int \<Rightarrow> bar" where
  "tape_candle n high low close =
     \<lparr> ca_instrument = ''BTC'', ca_interval = ''4h'', ca_open_time = n * four_hours,
       ca_close_time = n * four_hours + four_hours, ca_received_at = n * four_hours + four_hours,
       ca_open = Dec 100 0, ca_high = Dec high 0, ca_low = Dec low 0, ca_close = Dec close 0,
       ca_volume = Dec 1 0, ca_complete = True \<rparr>"

definition tape_start :: "bar list" where
  "tape_start =
     [tape_candle 0 100 100 100, tape_candle 1 100 100 100, tape_candle 2 100 100 100,
      tape_candle 3 100 100 100, tape_candle 4 110 100 110]"

definition tape :: "bar list" where "tape = tape_start @ [tape_candle 5 140 90 90]"

lemma tape_list:
  "tape = [tape_candle 0 100 100 100, tape_candle 1 100 100 100, tape_candle 2 100 100 100,
      tape_candle 3 100 100 100, tape_candle 4 110 100 110, tape_candle 5 140 90 90]"
  by (simp add: tape_def tape_start_def)

lemma tape_valid: "validate_candle_series tape = Inr tape"
  by (simp add: validate_candle_series_def tape_list) (simp add: tape_candle_def four_hours_def)

lemma tape_candles_ok: "list_all candle_ok tape"
proof -
  have "trimmed ''BTC''" by code_simp
  moreover have "aligned (n * four_hours)" if "n \<in> {0, 1, 2, 3, 4, 5}" for n
    using that by (auto simp: aligned_def four_hours_def microsecond_day_def)
  moreover have "positive (Dec 100 0)" "positive (Dec 110 0)" "positive (Dec 140 0)" "positive (Dec 90 0)"
    "nonnegative (Dec 1 0)" "Dec 100 0 \<le> Dec 110 0" "Dec 90 0 \<le> Dec 100 0" "Dec 90 0 \<le> Dec 140 0" "Dec 100 0 \<le> Dec 140 0" "Dec 90 0 \<le> Dec 90 0"
    by (simp_all add: decimal_eval)
  ultimately have ok: "candle_ok (tape_candle n h l c)"
    if "n \<in> {0, 1, 2, 3, 4, 5}" "(h, l, c) \<in> {(100, 100, 100), (110, 100, 110), (140, 90, 90)}" for n h l c
    using that unfolding candle_ok_def tape_candle_def by (auto simp: four_hours_def)
  show ?thesis by (simp add: tape_list ok)
qed

section \<open>Indicators\<close>

lemma tape_quotients:
  "ddiv calculation_context (Dec 100 0) (dec_int 1) = Inr (Dec 100 0)"
  "ddiv calculation_context (Dec 50 0) (dec_int 1) = Inr (Dec 50 0)"
  "ddiv calculation_context (Dec 300 0) (dec_int 3) = Inr (Dec 100 0)"
proof -
  have "quotient_digits 64 (Dec 100 0) (Dec 1 0) = Dec 100 0" "quotient_digits 64 (Dec 50 0) (Dec 1 0) = Dec 50 0"
    "quotient_digits 64 (Dec 300 0) (Dec 3 0) = Dec 100 0"
    by (rule quotient_exact [where m = 0, THEN trans]; simp add: ndigits.simps)+
  then show "ddiv calculation_context (Dec 100 0) (dec_int 1) = Inr (Dec 100 0)"
    "ddiv calculation_context (Dec 50 0) (dec_int 1) = Inr (Dec 50 0)"
    "ddiv calculation_context (Dec 300 0) (dec_int 3) = Inr (Dec 100 0)"
    by (simp_all add: calc_eval)
qed

lemma tape_ema:
  "ema [Dec 100 0, Dec 100 0, Dec 100 0, Dec 100 0, Dec 110 0, Dec 90 0] 1 =
     Inr (map Some [Dec 100 0, Dec 100 0, Dec 100 0, Dec 100 0, Dec 110 0, Dec 90 0])"
  "ema [Dec 100 0, Dec 100 0, Dec 100 0, Dec 100 0, Dec 110 0, Dec 90 0] 3 =
     Inr ([None, None] @ map Some [Dec 100 0, Dec 1000 (- 1), Dec 10500 (- 2), Dec 97500 (- 3)])"
proof -
  have "dsum [Dec 100 0] = Inr (Dec 100 0)" "dsum [Dec 100 0, Dec 100 0, Dec 100 0] = Inr (Dec 300 0)"
    by (simp_all add: dsum_def calc_eval scale_to_def)
  then show "ema [Dec 100 0, Dec 100 0, Dec 100 0, Dec 100 0, Dec 110 0, Dec 90 0] 1 =
     Inr (map Some [Dec 100 0, Dec 100 0, Dec 100 0, Dec 100 0, Dec 110 0, Dec 90 0])"
  "ema [Dec 100 0, Dec 100 0, Dec 100 0, Dec 100 0, Dec 110 0, Dec 90 0] 3 =
     Inr ([None, None] @ map Some [Dec 100 0, Dec 1000 (- 1), Dec 10500 (- 2), Dec 97500 (- 3)])"
    by (simp_all add: ema_def calc_quotients tape_quotients ema_next_def eval_nat_numeral) (simp_all add: calc_eval)
qed

lemma tape_true_ranges:
  "true_ranges None tape = Inr [Dec 0 0, Dec 0 0, Dec 0 0, Dec 0 0, Dec 10 0, Dec 50 0]"
  by (simp add: tape_list true_range_def tape_candle_def dabs_def calc_eval)

lemma tape_atr: "atr tape (Suc 0) = Inr (map Some [Dec 0 0, Dec 0 0, Dec 0 0, Dec 0 0, Dec 10 0, Dec 50 0])"
proof -
  have "dsum [Dec 0 0] = Inr (Dec 0 0)" by (simp add: dsum_def calc_eval scale_to_def)
  moreover have "atr_next (Suc 0) (Dec 10 0) (Dec 50 0) = Inr (Dec 50 0)"
  proof -
    have "dmul calculation_context (Dec 10 0) (dec_int 0) = Inr (Dec 0 0)"
      "dadd calculation_context (Dec 0 0) (Dec 50 0) = Inr (Dec 50 0)"
      by (simp_all add: calc_eval)
    then show ?thesis by (simp add: atr_next_def tape_quotients)
  qed
  ultimately show ?thesis by (simp add: atr_def tape_true_ranges calc_quotients sample_atr_next)
qed

definition tape_features :: "nat \<Rightarrow> decimal \<Rightarrow> decimal \<Rightarrow> decimal \<Rightarrow> int \<Rightarrow> strategy_features" where
  "tape_features i f s a high =
     \<lparr> ft_bar_index = i, ft_ema_fast = f, ft_ema_slow = s, ft_atr = a, ft_donchian_high = Dec high 0,
       ft_donchian_low = Dec 100 0, ft_previous_donchian_high = Dec 100 0,
       ft_previous_donchian_low = Dec 100 0 \<rparr>"

definition tape_series :: "strategy_features option list" where
  "tape_series =
     [None, None, Some (tape_features 2 (Dec 100 0) (Dec 100 0) (Dec 0 0) 100),
      Some (tape_features 3 (Dec 100 0) (Dec 1000 (- 1)) (Dec 0 0) 100),
      Some (tape_features 4 (Dec 110 0) (Dec 10500 (- 2)) (Dec 10 0) 100),
      Some (tape_features 5 (Dec 90 0) (Dec 97500 (- 3)) (Dec 50 0) 110)]"

lemma tape_feature_series: "feature_series tape sample_strategy = Inr tape_series"
proof -
  have closes: "map ca_close tape = [Dec 100 0, Dec 100 0, Dec 100 0, Dec 100 0, Dec 110 0, Dec 90 0]"
    by (simp add: tape_list tape_candle_def)
  have idx: "[0..<length tape] = [0, 1, 2, 3, 4, 5]"
    by (simp add: tape_list upt_rec)
  show ?thesis
    unfolding feature_series_def closes idx tape_valid bindE_simps
    by (simp add: sample_strategy_def candidate_v0_def tape_ema [unfolded One_nat_def] tape_atr)
      (simp add: feature_at_def window_def tape_list max_of_def min_of_def tape_candle_def
        tape_features_def tape_series_def)
qed


section \<open>Signals\<close>

lemma tape_direction:
  "fst (classify (tape ! 2) (tape ! 3) b (tape_features 3 (Dec 100 0) (Dec 1000 (- 1)) (Dec 0 0) 100)) = SD_NOTHING"
  "fst (classify (tape ! 3) (tape ! 4) (tape_features 3 (Dec 100 0) (Dec 1000 (- 1)) (Dec 0 0) 100)
      (tape_features 4 (Dec 110 0) (Dec 10500 (- 2)) (Dec 10 0) 100)) = SD_BUY"
  by (simp_all add: classify_def tape_features_def tape_list tape_candle_def decimal_eval)

definition entry_signal :: "strategy_signal \<Rightarrow> bool" where
  "entry_signal g =
     (sg_bar_index g = 4 \<and> sg_direction g = SD_BUY \<and> sg_observed_at g = 5 * four_hours
      \<and> sg_expires_at g = 5 * four_hours + seconds 900 \<and> ft_atr (sg_features g) = Dec 10 0
      \<and> is_ok (signal_hash g))"

lemma signal_hash_ok:
  "bounded (sg_close g) \<Longrightarrow> list_all bounded [ft_ema_fast f, ft_ema_slow f, ft_atr f, ft_donchian_high f,
     ft_donchian_low f, ft_previous_donchian_high f, ft_previous_donchian_low f] \<Longrightarrow> sg_features g = f \<Longrightarrow>
   is_ok (signal_hash g)"
proof -
  assume b: "bounded (sg_close g)" "list_all bounded [ft_ema_fast f, ft_ema_slow f, ft_atr f, ft_donchian_high f,
     ft_donchian_low f, ft_previous_donchian_high f, ft_previous_donchian_low f]" "sg_features g = f"
  then have "is_ok (canonical_data (features_val f))"
    unfolding features_val_def by (intro is_ok_record_val) (auto simp del: canonical_data.simps(2))
  with b have "\<exists>h. signal_hash g = Inr h \<and> sha256_shaped h"
    unfolding signal_hash_def by (intro record_hash_total) (auto simp del: canonical_data.simps(2))
  then show ?thesis by auto
qed

lemma tape_scan:
  "\<exists>a g c. scan_signals tape sample_strategy = Inr [a, g, c] \<and> sg_bar_index a = 3 \<and> sg_direction a = SD_NOTHING
    \<and> entry_signal g \<and> sg_bar_index c = 5"
proof -
  obtain h where h: "candle_chain tape = Inr h" using candle_chain_total [OF tape_candles_ok] by blast
  obtain k where k: "registration_hash sample_strategy = Inr k" using sample_registration by blast
  have eq: "deq (Dec 100 0) (Dec 1000 (- 1))" "\<not> deq (Dec 110 0) (Dec 10500 (- 2))" "\<not> deq (Dec 90 0) (Dec 97500 (- 3))"
    by (simp_all add: decimal_eval)
  have ft: "ft_ema_fast (tape_features i f s a t) = f" "ft_ema_slow (tape_features i f s a t) = s"
    "ft_atr (tape_features i f s a t) = a" for i f s a t
    by (simp_all add: tape_features_def)
  have nth: "tape_series ! 3 = Some (tape_features 3 (Dec 100 0) (Dec 1000 (- 1)) (Dec 0 0) 100)"
      "tape_series ! 4 = Some (tape_features 4 (Dec 110 0) (Dec 10500 (- 2)) (Dec 10 0) 100)"
      "tape_series ! 5 = Some (tape_features 5 (Dec 90 0) (Dec 97500 (- 3)) (Dec 50 0) 110)"
    by (simp_all add: tape_series_def)
  have a: "\<exists>g. signal_at sample_strategy tape tape_series h 3 = Inr g \<and> sg_bar_index g = 3 \<and> sg_direction g = SD_NOTHING"
    using tape_direction(1) k eq by (simp add: ft nth signal_at_def of_option_def case_prod_beta Let_def)
  have at4: "ca_close_time (tape ! 4) = 5 * four_hours" "ca_received_at (tape ! 4) = 5 * four_hours" "ca_close (tape ! 4) = Dec 110 0"
    by (simp_all add: tape_list tape_candle_def)
  have expiry: "rs_signal_expiry_seconds sample_strategy = 900" by (simp add: sample_strategy_def candidate_v0_def)
  obtain g where g: "signal_at sample_strategy tape tape_series h 4 = Inr g" "sg_bar_index g = 4" "sg_direction g = SD_BUY"
      "sg_observed_at g = 5 * four_hours" "sg_expires_at g = 5 * four_hours + seconds 900" "sg_close g = Dec 110 0"
      "sg_features g = tape_features 4 (Dec 110 0) (Dec 10500 (- 2)) (Dec 10 0) 100"
    using tape_direction(2) k eq by (simp add: ft nth at4 expiry signal_at_def of_option_def case_prod_beta Let_def)
  have "is_ok (signal_hash g)"
    by (rule signal_hash_ok [OF _ _ g(7)]) (simp_all add: g(6) tape_features_def decimal_eval)
  with g have "entry_signal g" by (simp add: entry_signal_def ft)
  moreover have "\<exists>g. signal_at sample_strategy tape tape_series h 5 = Inr g \<and> sg_bar_index g = 5"
    using k eq by (simp add: ft nth signal_at_def of_option_def case_prod_beta Let_def)
  moreover have bounds: "rs_warmup_bars sample_strategy = 3" "length tape = 6" "[3..<6::nat] = [3, 4, 5]"
    by (simp_all add: sample_strategy_def tape_list upt_rec)
  ultimately show ?thesis
    unfolding scan_signals_def tape_valid tape_feature_series h bindE_simps
    using a g(1) by auto
qed


section \<open>The trade\<close>

definition free_costs :: bt_costs where
  "free_costs =
     \<lparr> bc_model_id = ''free'', bc_version = ''1'', bc_fee = Dec 0 0, bc_slippage = Dec 0 0, bc_holding = Dec 0 0 \<rparr>"

definition zero_costs :: "bt_costs \<Rightarrow> bool" where
  "zero_costs c \<longleftrightarrow> bc_fee c = Dec 0 0 \<and> bc_slippage c = Dec 0 0 \<and> bc_holding c = Dec 0 0"

lemma free_costs_zero: "zero_costs free_costs" by (simp add: zero_costs_def free_costs_def)

lemmas bt_eval = decimal_eval backtest_context_def bt_divide_def

lemma tape_arithmetic:
  "ddiv backtest_context (Dec 0 0) (Dec 10000 0) = Inr (Dec 0 0)"
  "ddiv backtest_context (Dec 30 0) (Dec 150 (- 1)) = Inr (Dec 2 0)"
  "ddiv backtest_context (Dec 2 0) (Dec 1 0) = Inr (Dec 2 0)"
  "ddiv backtest_context (Dec 2 0) (Dec 2 0) = Inr (Dec 1 0)"
proof -
  have "quotient_digits 64 (Dec 2 0) (Dec 1 0) = Dec 2 0" "quotient_digits 64 (Dec 2 0) (Dec 2 0) = Dec 1 0"
    by (rule quotient_exact [where m = 0, THEN trans]; simp add: ndigits.simps)+
  moreover have "quotient_digits 64 (Dec 30 0) (Dec 150 (- 1)) = Dec 2 0"
    by (rule quotient_exact [where m = 1 and q = 2, THEN trans]; simp add: ndigits.simps)
  ultimately show "ddiv backtest_context (Dec 0 0) (Dec 10000 0) = Inr (Dec 0 0)"
    "ddiv backtest_context (Dec 30 0) (Dec 150 (- 1)) = Inr (Dec 2 0)"
    "ddiv backtest_context (Dec 2 0) (Dec 1 0) = Inr (Dec 2 0)"
    "ddiv backtest_context (Dec 2 0) (Dec 2 0) = Inr (Dec 1 0)"
    by (simp_all add: bt_eval ddiv_def)
qed

lemma tape_bps: "bt_bps (Dec 100 0) (Dec 0 0) = Inr (Dec 0 0)" "bt_bps (Dec 130 0) (Dec 0 0) = Inr (Dec 0 0)"
proof -
  have "dmul backtest_context (Dec 100 0) (Dec 0 0) = Inr (Dec 0 0)"
    "dmul backtest_context (Dec 130 0) (Dec 0 0) = Inr (Dec 0 0)" "\<not> deq (dec_int 10000) 0"
    by (simp_all add: decimal_eval backtest_context_def)
  moreover have "ddiv backtest_context (Dec 0 0) (dec_int 10000) = Inr (Dec 0 0)"
    using tape_arithmetic(1) by (simp only: dec_int_def)
  ultimately show "bt_bps (Dec 100 0) (Dec 0 0) = Inr (Dec 0 0)" "bt_bps (Dec 130 0) (Dec 0 0) = Inr (Dec 0 0)"
    by (simp_all add: bt_bps_def bt_divide_def)
qed

lemma tape_fill:
  "adverse_fill (Dec 100 0) SD_BUY True (Dec 0 0) = Inr (Dec 100 0)"
  "adverse_fill (Dec 130 0) SD_BUY False (Dec 0 0) = Inr (Dec 130 0)"
proof -
  have "dadd backtest_context (Dec 100 0) (Dec 0 0) = Inr (Dec 100 0)"
    "dsub backtest_context (Dec 130 0) (Dec 0 0) = Inr (Dec 130 0)"
    by (simp_all add: decimal_eval backtest_context_def)
  then show "adverse_fill (Dec 100 0) SD_BUY True (Dec 0 0) = Inr (Dec 100 0)"
    "adverse_fill (Dec 130 0) SD_BUY False (Dec 0 0) = Inr (Dec 130 0)"
    by (simp_all add: adverse_fill_def tape_bps)
qed

lemma tape_bracket:
  "dmul backtest_context (Dec 10 0) (Dec 15 (- 1)) = Inr (Dec 150 (- 1))"
  "dmul backtest_context (Dec 10 0) (Dec 3 0) = Inr (Dec 30 0)"
  "dsub backtest_context (Dec 100 0) (Dec 150 (- 1)) = Inr (Dec 850 (- 1))"
  "dadd backtest_context (Dec 100 0) (Dec 30 0) = Inr (Dec 130 0)"
  "dsub backtest_context (Dec 130 0) (Dec 100 0) = Inr (Dec 30 0)"
  "dsub backtest_context (Dec 30 0) (Dec 0 0) = Inr (Dec 30 0)"
  "dmul backtest_context (Dec 0 0) (dec_int 1) = Inr (Dec 0 0)"
  "\<not> Dec 850 (- 1) \<le> 0" "\<not> Dec 130 0 \<le> 0" "\<not> deq (Dec 150 (- 1)) 0"
  by (simp_all add: decimal_eval backtest_context_def)

lemma tape_exit:
  "exit_reference (tape ! 5) SD_BUY (Dec 850 (- 1)) (Dec 130 0) b = Some (Dec 130 0, ER_TARGET)"
  by (simp add: exit_reference_def tape_list tape_candle_def decimal_eval)

lemma tape_settle:
  assumes "entry_signal g" "zero_costs c"
  shows "\<exists>t. settle_trade tape g c (Dec 100 0) (Dec 150 (- 1)) (Dec 850 (- 1)) (Dec 130 0) 5 (Dec 130 0) ER_TARGET
      = Inr (Some t) \<and> tr_net_r t = Dec 2 0"
proof -
  from assms(1) obtain h where h: "signal_hash g = Inr h" by (auto simp: entry_signal_def is_ok_def split: sum.splits)
  have g: "sg_direction g = SD_BUY" "sg_bar_index g = 4" using assms(1) by (simp_all add: entry_signal_def)
  note costs = assms(2) [unfolded zero_costs_def, THEN conjunct1]
    assms(2) [unfolded zero_costs_def, THEN conjunct2, THEN conjunct1]
    assms(2) [unfolded zero_costs_def, THEN conjunct2, THEN conjunct2]
  have sum: "bt_sum [Dec 0 0, Dec 0 0, Dec 0 0] = Inr (Dec 0 0)"
    by (simp add: bt_sum_def decimal_eval backtest_context_def)
  have r: "bt_divide (Dec 30 0) (Dec 150 (- 1)) = Inr (Dec 2 0)"
    by (simp add: bt_divide_def tape_bracket tape_arithmetic)
  have one: "dec_int (int (5 - (4 + 1) + 1)) = dec_int 1" by simp
  show ?thesis
    unfolding settle_trade_def Let_def g costs tape_fill bindE_simps if_not_P [OF tape_bracket(9)] if_P [OF refl]
      tape_bracket tape_bps one sum r h
    by (simp add: make_trade_def)
qed

lemma tape_trade:
  assumes "entry_signal g" "zero_costs c"
  shows "\<exists>t. simulate_trade tape g sample_strategy c = Inr (Some t) \<and> tr_net_r t = Dec 2 0
    \<and> tr_exit_index t = 5"
proof -
  obtain t where t: "settle_trade tape g c (Dec 100 0) (Dec 150 (- 1)) (Dec 850 (- 1)) (Dec 130 0) 5 (Dec 130 0) ER_TARGET
      = Inr (Some t)" "tr_net_r t = Dec 2 0"
    using tape_settle [OF assms] by blast
  have g: "sg_direction g = SD_BUY" "sg_bar_index g = 4" "sg_observed_at g \<le> sg_expires_at g"
      "ft_atr (sg_features g) = Dec 10 0" "sg_expires_at g = 5 * four_hours + seconds 900"
    using assms(1) by (simp_all add: entry_signal_def) (simp add: seconds_def microsecond_second_def)
  have s: "rs_stop_atr_multiple sample_strategy = Dec 15 (- 1)" "rs_target_atr_multiple sample_strategy = Dec 3 0"
    by (simp_all add: sample_strategy_def candidate_v0_def)
  have "bars_of g sample_strategy (length tape) = [5]"
    by (simp add: bars_of_def g tape_list sample_strategy_def candidate_v0_def upt_rec)
  then have "hold_position tape g sample_strategy c (Dec 100 0) (Dec 150 (- 1)) (Dec 850 (- 1)) (Dec 130 0)
      (bars_of g sample_strategy (length tape)) = Inr (Some t)"
    using t by (simp add: g tape_exit)
  moreover have "bracket_prices g (Dec 100 0) (Dec 150 (- 1)) (Dec 30 0) (Dec 850 (- 1)) (Dec 130 0)"
    by (simp add: bracket_prices_def g tape_bracket)
  moreover have "adverse_fill (ca_open (tape ! (4 + 1))) SD_BUY True (bc_slippage c) = Inr (Dec 100 0)"
    "ca_open_time (tape ! (4 + 1)) \<le> 5 * four_hours + seconds 900" "4 + 1 < length tape"
    by (simp_all add: tape_list tape_candle_def assms(2) [unfolded zero_costs_def] tape_fill seconds_def microsecond_second_def)
  ultimately have "simulate_trade tape g sample_strategy c = Inr (Some t)"
    unfolding simulate_trade_iff g(1,2,4,5) s using tape_bracket(1,2) g(3,5) by auto
  moreover have "tr_exit_index t = 5" using settle_trade_exit [OF t(1)] by simp
  ultimately show ?thesis using t(2) by blast
qed

section \<open>The run\<close>

definition host_context :: dctx where
  "host_context = \<lparr> prec = 28, rounding = Half_Even, e_min = - 999999, e_max = 999999 \<rparr>"

lemma tape_metrics:
  assumes "tr_net_r t = Dec 2 0"
  shows "\<exists>m. calculate_metrics host_context [t] bootstrap_samples = Inr m \<and> pm_total_net_r m = Dec 2 0"
    "is_ok (calculate_metrics host_context [t] 0)"
proof -
  have sums: "bt_sum [Dec 2 0] = Inr (Dec 2 0)" "bt_sum [] = Inr 0" "dabs host_context 0 = Inr (Dec 0 0)"
    "drawdown_step (0, 0, 0) (Dec 2 0) = Inr (Dec 2 0, Dec 2 0, Dec 0 0)"
    by (simp_all add: bt_sum_def dabs_def drawdown_step_def host_context_def decimal_eval backtest_context_def)
  have order: "0 < Dec 2 0" "\<not> Dec 2 0 < 0" "\<not> 0 < Dec 0 0" "\<not> deq (Dec 2 0) 0" "\<not> deq (dec_int 1) 0"
    by (simp_all add: decimal_eval)
  have q: "bt_divide (Dec 2 0) (dec_int 1) = Inr (Dec 2 0)" "bt_divide (Dec 2 0) (Dec 2 0) = Inr (Dec 1 0)"
    using tape_arithmetic order by (simp_all add: bt_divide_def dec_int_def)
  have "resample [Dec 2 0] 1 rep = [Dec 2 0]" for rep
    by (simp add: resample_def)
  then have "mapE (\<lambda>rep. bindE (bt_sum (resample [Dec 2 0] 1 rep))
      (\<lambda>t. bt_divide t (dec_int (int (length [Dec 2 0]))))) is = Inr (replicate (length is) (Dec 2 0))" for "is"
    by (induction "is") (simp_all add: sums q)
  moreover have "max 1 (isqrt (length [Dec 2 0])) = 1" by (simp add: isqrt_def)
  ultimately obtain lower where lower: "bootstrap_lower_bound [Dec 2 0] bootstrap_samples = Inr (lower, 1)"
    by (simp add: bootstrap_lower_bound_def bootstrap_samples_def)
  show "is_ok (calculate_metrics host_context [t] 0)"
    unfolding calculate_metrics_def Let_def
    by (simp add: assms sums order q optional_divide_def max_of_def)
  show "\<exists>m. calculate_metrics host_context [t] bootstrap_samples = Inr m \<and> pm_total_net_r m = Dec 2 0"
    unfolding calculate_metrics_def Let_def
    by (simp add: assms sums order q lower [unfolded bootstrap_samples_def] bootstrap_samples_def optional_divide_def max_of_def)
qed


lemma candle_val_ok: "candle_ok c \<Longrightarrow> is_ok (canonical_data (candle_val c))"
  unfolding candle_val_def
  by (rule is_ok_record_val) (auto simp: candle_fields_def candle_ok_def simp del: canonical_data.simps(2))

lemma data_hash_total:
  assumes "list_all candle_ok cs"
  shows "\<exists>h. domain_hash ''trading-harness/backtest-data/v1'' (PList (map candle_val cs)) = Inr h"
proof -
  have "is_ok (canonical_data (PList (map candle_val cs)))"
    using assms candle_val_ok by (intro is_ok_PList) (auto simp: list_all_iff)
  then show ?thesis
    by (auto simp: domain_hash_def canonical_bytes_def canonical_json_def guard_cases is_ok_def split: sum.splits)
qed

lemma costs_hash_total:
  assumes "zero_costs c"
  shows "\<exists>h. bt_costs_hash c = Inr h"
proof -
  have "bounded (Dec 0 0)" by (simp add: decimal_eval)
  with assms have "\<exists>h. bt_costs_hash c = Inr h \<and> sha256_shaped h"
    unfolding bt_costs_hash_def bt_costs_val_def
    by (intro record_hash_total) (auto simp: zero_costs_def simp del: canonical_data.simps(2))
  then show ?thesis by blast
qed

lemma tape_run:
  assumes "zero_costs c"
  shows "\<exists>r t. run_backtest host_context tape c sample_strategy = Inr r \<and> br_trades r = [t] \<and> tr_net_r t = Dec 2 0
    \<and> tr_signal_index t = 4 \<and> br_unresolved_positions r = 0"
proof -
  obtain a g d where scan: "scan_signals tape sample_strategy = Inr [a, g, d]"
    and a: "sg_bar_index a = 3" "sg_direction a = SD_NOTHING" and g: "entry_signal g" and d: "sg_bar_index d = 5"
    using tape_scan by blast
  obtain t where t: "simulate_trade tape g sample_strategy c = Inr (Some t)" "tr_net_r t = Dec 2 0" "tr_exit_index t = 5"
    using tape_trade [OF g assms] by blast
  have gi: "sg_bar_index g = 4" "sg_direction g = SD_BUY" "\<not> sg_expires_at g < sg_observed_at g"
      "\<not> sg_expires_at g < ca_open_time (tape ! (4 + 1))"
    using g t(1) by (auto simp: entry_signal_def simulate_trade_iff not_less)
  have at: "bar_at tape [a, g, d] sample_strategy c 3 = Quiet" "bar_at tape [a, g, d] sample_strategy c 4 = Traded t"
    using a d gi t(1) by (simp_all add: bar_at_def signal_by_index_def)
  have bounds: "length tape = 6" "rs_warmup_bars sample_strategy = 3"
    by (simp_all add: tape_list sample_strategy_def)
  obtain n where loop: "run_loop tape [a, g, d] sample_strategy c 3 [] 0 0 = Inr ([t], n, 0, 0)"
    by (simp add: run_loop_bar [of tape _ _ _ 3] run_loop_bar [of tape _ _ _ 4] run_loop_bar [of tape _ _ _ 5]
        at t(3) bounds)
  obtain h k l where "domain_hash ''trading-harness/backtest-data/v1'' (PList (map candle_val tape)) = Inr h"
      "registration_hash sample_strategy = Inr k" "bt_costs_hash c = Inr l"
    using data_hash_total [OF tape_candles_ok] sample_registration costs_hash_total [OF assms] by blast
  moreover obtain m where "calculate_metrics host_context [t] bootstrap_samples = Inr m"
    using tape_metrics(1) [OF t(2)] by blast
  ultimately show ?thesis
    using simulate_trade_signal [OF t(1)] t(2)
    unfolding run_backtest_def tape_valid scan bindE_simps bounds loop gi(1) by simp
qed

lemma tape_start_run: "\<exists>r. run_backtest host_context tape_start free_costs sample_strategy = Inr r \<and> br_trades r = []"
proof -
  obtain a g d where "scan_signals tape sample_strategy = Inr [a, g, d]"
    and a: "sg_bar_index a = 3" "sg_direction a = SD_NOTHING" and g: "entry_signal g"
    using tape_scan by blast
  moreover have "tape_start \<noteq> []" "periods_ok sample_strategy"
    by (simp_all add: tape_start_def periods_ok_def sample_strategy_def candidate_v0_def)
  moreover have bounds: "length tape_start = 5" "rs_warmup_bars sample_strategy = 3"
    by (simp_all add: tape_start_def sample_strategy_def)
  ultimately have scan: "scan_signals tape_start sample_strategy = Inr [a, g]"
    using scan_signals_append [of tape_start "[tape_candle 5 140 90 90]" sample_strategy "[a, g, d]"]
    by (simp add: tape_def)
  have valid: "validate_candle_series tape_start = Inr tape_start"
    using validate_series_append [of tape_start "[tape_candle 5 140 90 90]"] tape_valid \<open>tape_start \<noteq> []\<close>
    by (simp add: tape_def)
  have "sg_bar_index g = 4" using g by (simp add: entry_signal_def)
  then have loop: "run_loop tape_start [a, g] sample_strategy free_costs 3 [] 0 0 = Inr ([], 0, 0, 0)"
    by (simp add: run_loop_bar [of tape_start _ _ _ 3] run_loop_bar [of tape_start _ _ _ 4]
        bar_at_def signal_by_index_def a bounds)
  have "list_all candle_ok tape_start" using tape_candles_ok by (simp add: tape_def)
  then obtain h k l where "domain_hash ''trading-harness/backtest-data/v1'' (PList (map candle_val tape_start)) = Inr h"
      "registration_hash sample_strategy = Inr k" "bt_costs_hash free_costs = Inr l"
    using data_hash_total sample_registration costs_hash_total [OF free_costs_zero] by blast
  moreover have "is_ok (calculate_metrics host_context [] bootstrap_samples)"
    by (simp add: calculate_metrics_def bt_sum_def bootstrap_lower_bound_def optional_divide_def dabs_def
        host_context_def decimal_eval bootstrap_samples_def)
  ultimately show ?thesis
    unfolding run_backtest_def valid scan bindE_simps bounds loop by (auto elim!: is_okE)
qed

end
