(* ===== verification/Backtest_Properties.thy ===== *)
theory Backtest_Properties
  imports Backtest_Sample
begin

text \<open>
  The properties of the backtest: its loop ends, its positions follow the signals one at a time
  and leave at their first exit, later candles change no earlier trade, the folds partition the
  trades, and the gate passes only what meets every requirement.
\<close>

section \<open>Helpers\<close>

lemma signal_at_bar: "signal_at s cs fs h i = Inr g \<Longrightarrow> sg_bar_index g = i"
  unfolding signal_at_def Let_def bindE_Inr_iff by (auto simp: case_prod_beta)

lemma scan_bar_index:
  assumes "scan_signals cs s = Inr r" "k < length r"
  shows "sg_bar_index (r ! k) = rs_warmup_bars s + k"
proof -
  from assms obtain fs h where m: "mapE (signal_at s cs fs h) [rs_warmup_bars s..<length cs] = Inr r"
    unfolding scan_signals_def bindE_Inr_iff by (auto dest!: validate_series_same split: if_splits)
  with assms(2) mapE_length [OF m] mapE_nth [OF m, of k]
  have "signal_at s cs fs h (rs_warmup_bars s + k) = Inr (r ! k)" by auto
  then show ?thesis by (rule signal_at_bar)
qed

lemma find_append: "find P (xs @ ys) = (case find P xs of None \<Rightarrow> find P ys | Some x \<Rightarrow> Some x)"
  by (induction xs) auto

lemma signals_of_prefix:
  assumes "scan_signals (xs @ ys) s = Inr r" "i < length xs"
  shows "signal_by_index (take (length xs - rs_warmup_bars s) r) i = signal_by_index r i"
proof -
  let ?n = "length xs - rs_warmup_bars s"
  have "sg_bar_index g \<noteq> i" if "g \<in> set (drop ?n r)" for g
  proof -
    from that obtain k where "k < length (drop ?n r)" "g = drop ?n r ! k" by (auto simp: in_set_conv_nth)
    then have "sg_bar_index g = rs_warmup_bars s + (?n + k)" using scan_bar_index [OF assms(1), of "?n + k"] by simp
    with assms(2) show ?thesis by linarith
  qed
  then have "find (\<lambda>g. sg_bar_index g = i) (rev (drop ?n r)) = None"
    by (auto simp: find_None_iff)
  moreover have "rev r = rev (drop ?n r) @ rev (take ?n r)"
    by (simp flip: rev_append)
  ultimately show ?thesis by (simp add: signal_by_index_def find_append)
qed

lemma run_backtest_prefix:
  assumes "run_backtest amb xs costs s = Inr q" "run_backtest amb (xs @ ys) costs s = Inr r" "periods_ok s"
  shows "\<exists>later. br_trades r = br_trades q @ later"
proof -
  obtain short i e u where short: "validate_candle_series xs = Inr xs" "scan_signals xs s = Inr short"
      "run_loop xs short s costs (rs_warmup_bars s) [] 0 0 = Inr (br_trades q, i, e, u)"
    using run_backtestE [OF assms(1)] by metis
  obtain long j f v where long: "scan_signals (xs @ ys) s = Inr long"
      "run_loop (xs @ ys) long s costs (rs_warmup_bars s) [] 0 0 = Inr (br_trades r, j, f, v)"
    using run_backtestE [OF assms(2)] by metis
  have "xs \<noteq> []" using validate_series_same [OF short(1)] by simp
  from scan_signals_append [OF long(1) this assms(3)] short(2)
  have "short = take (length xs - rs_warmup_bars s) long" by simp
  with signals_of_prefix [OF long(1)]
  have "\<forall>i < length xs. signal_by_index short i = signal_by_index long i" by simp
  from run_loop_prefix [OF short(3) long(2) this] show ?thesis by simp
qed

section \<open>Properties\<close>

text \<open>C25: The while loop of the run ends: one iteration per remaining bar and one more suffice,
  whatever the signals, and it leaves with the result of the recursive definition.\<close>

theorem backtest_loop_terminates:
  "iterate (loop_step cs signals s costs) (Suc (length cs - i)) (i, trades, ignored, expired)
     = Some (run_loop cs signals s costs i trades ignored expired)"
  by (rule iterate_run_loop) simp

text \<open>C22: Every trade of a run comes from a directional signal after the warm-up, enters at the
  next open (worse by the slippage) before the signal expires, leaves at the first bar that
  touches its bracket or at the holding limit, and no two positions overlap.\<close>

theorem backtest_positions_sound:
  assumes "run_backtest amb cs costs s = Inr r" "0 < rs_max_holding_bars s"
  shows "sorted_wrt (\<lambda>a b. tr_exit_index a \<le> tr_signal_index b) (br_trades r)
    \<and> (\<forall>t \<in> set (br_trades r).
        rs_warmup_bars s \<le> tr_signal_index t \<and> tr_entry_index t = tr_signal_index t + 1
        \<and> tr_entry_index t \<le> tr_exit_index t \<and> tr_exit_index t < length cs
        \<and> tr_bars_held t = tr_exit_index t - tr_entry_index t + 1 \<and> tr_bars_held t \<le> rs_max_holding_bars s
        \<and> adverse_fill (ca_open (cs ! tr_entry_index t)) (tr_direction t) True (bc_slippage costs) = Inr (tr_entry_price t)
        \<and> (\<exists>reference. first_exit cs s t reference
            \<and> adverse_fill reference (tr_direction t) False (bc_slippage costs) = Inr (tr_exit_price t))
        \<and> dsub backtest_context (tr_gross_pnl t) (tr_total_cost t) = Inr (tr_net_pnl t)
        \<and> (\<exists>signals g. scan_signals cs s = Inr signals \<and> g \<in> set signals \<and> sg_bar_index g = tr_signal_index t
            \<and> sg_direction g = tr_direction t \<and> tr_direction t \<noteq> SD_NOTHING
            \<and> ca_open_time (cs ! tr_entry_index t) \<le> sg_expires_at g))"
proof -
  obtain signals where scan: "scan_signals cs s = Inr signals"
    and inv: "trades_inv cs signals s costs (rs_warmup_bars s) (br_trades r)"
    using run_backtest_trades [OF assms(1)] by blast
  show ?thesis
  proof (intro conjI ballI)
    show "sorted_wrt (\<lambda>a b. tr_exit_index a \<le> tr_signal_index b) (br_trades r)"
      using inv by (simp add: trades_inv_def)
  next
    fix t assume "t \<in> set (br_trades r)"
    with inv obtain g where g: "rs_warmup_bars s \<le> tr_signal_index t" "g \<in> set signals" "sg_direction g \<noteq> SD_NOTHING"
        "simulate_trade cs g s costs = Inr (Some t)"
      unfolding trades_inv_def by blast
    note t = simulate_trade_facts [OF g(4) assms(2)]
    moreover have "ca_open_time (cs ! (sg_bar_index g + 1)) \<le> sg_expires_at g"
      using g(4) by (simp add: simulate_trade_iff)
    ultimately show "rs_warmup_bars s \<le> tr_signal_index t" "tr_entry_index t = tr_signal_index t + 1"
      "tr_entry_index t \<le> tr_exit_index t" "tr_exit_index t < length cs"
      "tr_bars_held t = tr_exit_index t - tr_entry_index t + 1" "tr_bars_held t \<le> rs_max_holding_bars s"
      "adverse_fill (ca_open (cs ! tr_entry_index t)) (tr_direction t) True (bc_slippage costs) = Inr (tr_entry_price t)"
      "\<exists>reference. first_exit cs s t reference
            \<and> adverse_fill reference (tr_direction t) False (bc_slippage costs) = Inr (tr_exit_price t)"
      "dsub backtest_context (tr_gross_pnl t) (tr_total_cost t) = Inr (tr_net_pnl t)"
      "\<exists>signals g. scan_signals cs s = Inr signals \<and> g \<in> set signals \<and> sg_bar_index g = tr_signal_index t
            \<and> sg_direction g = tr_direction t \<and> tr_direction t \<noteq> SD_NOTHING
            \<and> ca_open_time (cs ! tr_entry_index t) \<le> sg_expires_at g"
      using g(1-3) scan by auto
  qed
qed

lemma backtest_positions_sound_witness:
  "\<exists>r t reference. run_backtest host_context tape free_costs sample_strategy = Inr r \<and> br_trades r = [t]
    \<and> tr_net_r t = Dec 2 0 \<and> tr_entry_index t = 5 \<and> first_exit tape sample_strategy t reference"
proof -
  obtain r t where r: "run_backtest host_context tape free_costs sample_strategy = Inr r" "br_trades r = [t]"
      "tr_net_r t = Dec 2 0" "tr_signal_index t = 4"
    using tape_run [OF free_costs_zero] by blast
  have "0 < rs_max_holding_bars sample_strategy" by (simp add: sample_strategy_def candidate_v0_def)
  from backtest_positions_sound [OF r(1) this] r(2,4)
  obtain reference where "tr_entry_index t = 5" "first_exit tape sample_strategy t reference" by auto
  with r show ?thesis by blast
qed

text \<open>C23: A backtest never looks ahead: a run over a longer series has the trades of the run over
  its beginning, unchanged and first.\<close>

theorem backtest_never_looks_ahead:
  assumes "run_backtest amb xs costs s = Inr q" "run_backtest amb (xs @ ys) costs s = Inr r" "periods_ok s"
  shows "\<exists>later. br_trades r = br_trades q @ later"
  using run_backtest_prefix [OF assms] .

lemma backtest_never_looks_ahead_witness:
  "\<exists>q r t. run_backtest host_context tape_start free_costs sample_strategy = Inr q
    \<and> run_backtest host_context (tape_start @ [tape_candle 5 140 90 90]) free_costs sample_strategy = Inr r
    \<and> br_trades r = br_trades q @ [t]"
proof -
  obtain q where q: "run_backtest host_context tape_start free_costs sample_strategy = Inr q" "br_trades q = []"
    using tape_start_run by blast
  obtain r t where r: "run_backtest host_context (tape_start @ [tape_candle 5 140 90 90]) free_costs sample_strategy = Inr r"
      "br_trades r = [t]"
    using tape_run [OF free_costs_zero] unfolding tape_def by blast
  have "periods_ok sample_strategy" by (simp add: periods_ok_def sample_strategy_def candidate_v0_def)
  from backtest_never_looks_ahead [OF q(1) r(1) this] q r show ?thesis by auto
qed

section \<open>Folds and the gate\<close>

lemma trades_inside:
  assumes "run_backtest amb cs costs s = Inr r" "t \<in> set (br_trades r)"
  shows "rs_warmup_bars s \<le> tr_signal_index t \<and> tr_signal_index t < length cs - 1"
proof -
  from run_backtest_trades [OF assms(1)] assms(2) obtain g where
      "rs_warmup_bars s \<le> tr_signal_index t" "simulate_trade cs g s costs = Inr (Some t)"
    unfolding trades_inv_def by blast
  with simulate_trade_signal show ?thesis by (fastforce simp: simulate_trade_iff)
qed

lemma folds_cover:
  assumes "chronological_folds amb r bars warmup n = Inr fs"
  shows "n = 4 \<and> warmup + 5 \<le> bars \<and> length fs = 4
    \<and> map fm_start fs = warmup # butlast (map fm_end fs) \<and> last (map fm_end fs) = bars - 1
    \<and> (\<forall>f \<in> set fs. fm_end f - fm_start f - (bars - 1 - warmup) div 4 \<le> 1 \<and> fm_start f < fm_end f)
    \<and> sum_list (map (\<lambda>f. pm_trade_count (fm_metrics f)) fs) = length (fold_trades (br_trades r) warmup (bars - 1))"
proof -
  let ?e = "bars - 1 - warmup"
  from assms have n: "n = 4" "warmup + 5 \<le> bars"
    and f: "folds_from amb (br_trades r) warmup (fold_widths ?e 4) = Inr fs"
    by (auto simp: chronological_folds_def)
  have end_at: "warmup + ?e = bars - 1" using n(2) by simp
  have count: "sum_list (map (\<lambda>f. pm_trade_count (fm_metrics f)) fs) = length (fold_trades (br_trades r) warmup (bars - 1))"
    using folds_from_spans [OF f] unfolding fold_widths_sum end_at by blast
  define q x y z where "q = ?e div 4" and "x = (if 0 < ?e mod 4 then 1 else 0 :: nat)"
    and "y = (if 1 < ?e mod 4 then 1 else 0 :: nat)" and "z = (if 2 < ?e mod 4 then 1 else 0 :: nat)"
  have small: "1 \<le> q" "x \<le> 1" "y \<le> 1" "z \<le> 1" using n(2) by (auto simp: q_def x_def y_def z_def)
  have widths: "fold_widths ?e 4 = [(0, q + x), (1, q + y), (2, q + z), (3, q)]"
    unfolding fold_widths_four q_def x_def y_def z_def ..
  then have "q + x + (q + y + (q + z + q)) = ?e" using fold_widths_sum [of ?e] by simp
  then have total_width: "warmup + (q + x + (q + y + (q + z + q))) = bars - 1" using end_at by simp
  have four: "[0..<4] = [0, 1, 2, 3::nat]" by (simp add: upt_rec)
  have ends: "map fm_end fs = [warmup + (q + x), warmup + (q + x + (q + y)), warmup + (q + x + (q + y + (q + z))), bars - 1]"
    and starts: "map fm_start fs = [warmup, warmup + (q + x), warmup + (q + x + (q + y)), warmup + (q + x + (q + y + (q + z)))]"
    using folds_from_spans [OF f] total_width unfolding widths by (simp_all add: four)
  then have "length (map fm_end fs) = 4" by simp
  then obtain a b c d where fs: "fs = [a, b, c, d]" by (auto simp: numeral_eq_Suc length_Suc_conv)
  have "map fm_start fs = warmup # butlast (map fm_end fs)" "last (map fm_end fs) = bars - 1"
    unfolding starts ends by simp_all
  moreover have "fm_end f - fm_start f - q \<le> 1 \<and> fm_start f < fm_end f" if "f \<in> set fs" for f
  proof -
    from ends starts have "fm_start a = warmup" "fm_end a = warmup + (q + x)" "fm_start b = warmup + (q + x)"
      "fm_end b = warmup + (q + x + (q + y))" "fm_start c = warmup + (q + x + (q + y))"
      "fm_end c = warmup + (q + x + (q + y + (q + z)))" "fm_start d = warmup + (q + x + (q + y + (q + z)))"
      "fm_end d = bars - 1"
      by (simp_all add: fs)
    moreover from that have "f = a \<or> f = b \<or> f = c \<or> f = d" by (simp add: fs)
    ultimately show ?thesis using small total_width by (elim disjE) simp_all
  qed
  ultimately show ?thesis using n count fs by (simp add: q_def)
qed

text \<open>The four folds are contiguous from the warm-up to the last bar that can start a trade,
  differ by at most one bar in width, and count every trade of the run exactly once.\<close>

theorem folds_partition_trades:
  assumes "run_backtest amb cs costs s = Inr r" "length cs \<le> bars"
    and "chronological_folds amb r bars (rs_warmup_bars s) n = Inr fs"
  shows "length fs = 4 \<and> map fm_start fs = rs_warmup_bars s # butlast (map fm_end fs)
    \<and> last (map fm_end fs) = bars - 1
    \<and> (\<forall>f \<in> set fs. fm_end f - fm_start f - (bars - 1 - rs_warmup_bars s) div 4 \<le> 1 \<and> fm_start f < fm_end f)
    \<and> sum_list (map (\<lambda>f. pm_trade_count (fm_metrics f)) fs) = length (br_trades r)"
proof -
  have "fold_trades (br_trades r) (rs_warmup_bars s) (bars - 1) = br_trades r"
    unfolding fold_trades_def by (rule filter_True) (use trades_inside [OF assms(1)] assms(2) in fastforce)
  with folds_cover [OF assms(3)] show ?thesis by simp
qed

lemma no_trades_metrics: "is_ok (calculate_metrics host_context [] 0)"
proof -
  have sums: "bt_sum [] = Inr 0" "dabs host_context 0 = Inr (Dec 0 0)" "\<not> 0 < Dec 0 0" "\<not> 0 < (0 :: decimal)"
    by (simp_all add: bt_sum_def dabs_def host_context_def decimal_eval)
  then show ?thesis by (simp add: calculate_metrics_def optional_divide_def)
qed

lemma folds_partition_trades_witness:
  "\<exists>r fs. run_backtest host_context tape free_costs sample_strategy = Inr r
    \<and> chronological_folds host_context r 8 3 4 = Inr fs \<and> length fs = 4
    \<and> sum_list (map (\<lambda>f. pm_trade_count (fm_metrics f)) fs) = 1"
proof -
  obtain r t where r: "run_backtest host_context tape free_costs sample_strategy = Inr r" "br_trades r = [t]"
      "tr_net_r t = Dec 2 0" "tr_signal_index t = 4"
    using tape_run [OF free_costs_zero] by blast
  obtain a b where m: "calculate_metrics host_context [] 0 = Inr a" "calculate_metrics host_context [t] 0 = Inr b"
    using no_trades_metrics tape_metrics(2) [OF r(3)] by (auto elim!: is_okE)
  have "fold_widths 4 4 = [(0, 1), (1, 1), (2, 1), (3, 1)]" by (simp add: fold_widths_four)
  then have "is_ok (chronological_folds host_context r 8 3 4)"
    by (simp add: chronological_folds_def fold_trades_def r m require.simps)
  then obtain fs where fs: "chronological_folds host_context r 8 3 4 = Inr fs" by (elim is_okE)
  have "rs_warmup_bars sample_strategy = 3" "length tape \<le> 8" by (simp_all add: sample_strategy_def tape_list)
  with folds_partition_trades [OF r(1), of 8 4 fs] fs r show ?thesis by auto
qed

lemma case_option_ex: "(case x of None \<Rightarrow> False | Some b \<Rightarrow> P b) \<longleftrightarrow> (\<exists>b. x = Some b \<and> P b)"
  by (cases x) simp_all

lemma gate_checks_passed:
  "list_all gk_passed (gate_checks base stress folds) \<longleftrightarrow>
     100 \<le> pm_trade_count (br_metrics base) \<and> length folds = 4 \<and> 3 \<le> positive_folds folds
     \<and> fst (profit_factor_check (br_metrics base)) \<and> pm_max_drawdown_r (br_metrics base) \<le> Dec 10 0
     \<and> 0 < pm_expectancy_r (br_metrics stress)
     \<and> (\<exists>b. pm_best_trade (br_metrics base) = Some b \<and> b \<le> Dec 2 (- 1))
     \<and> (\<exists>b. pm_bootstrap_lower (br_metrics base) = Some b \<and> 0 < b)"
  by (simp only: gate_checks_def Let_def list.pred_inject gate_check.simps case_option_ex simp_thms conj_assoc)

lemma lenient_nonnegative_zero: "lenient_nonnegative e (In_Decimal (Dec 0 0)) = Inr (Dec 0 0)"
  by (simp add: decimal_eval)

text \<open>C24: A strategy is promoted exactly when the base run has at least a hundred trades in four
  folds of which three are profitable, neither run ends in an open position, and every ratio of
  the gate is met at the registered and at the doubled costs; with too little data the
  verdict is inconclusive, whatever the ratios.\<close>

theorem promotion_gate_sound:
  assumes "validate_profitability amb cs costs s = Inr v"
  shows "(pd_status (va_promotion v) = PROMOTION_PASS \<longleftrightarrow>
      100 \<le> length (br_trades (va_base_run v)) \<and> length (va_folds v) = 4 \<and> 3 \<le> positive_folds (va_folds v)
      \<and> br_unresolved_positions (va_base_run v) = 0 \<and> br_unresolved_positions (va_stress_run v) = 0
      \<and> fst (profit_factor_check (br_metrics (va_base_run v)))
      \<and> pm_max_drawdown_r (br_metrics (va_base_run v)) \<le> Dec 10 0
      \<and> 0 < pm_expectancy_r (br_metrics (va_stress_run v))
      \<and> (\<exists>b. pm_best_trade (br_metrics (va_base_run v)) = Some b \<and> b \<le> Dec 2 (- 1))
      \<and> (\<exists>b. pm_bootstrap_lower (br_metrics (va_base_run v)) = Some b \<and> 0 < b))
    \<and> (pd_status (va_promotion v) = PROMOTION_INCONCLUSIVE \<longleftrightarrow>
      length (br_trades (va_base_run v)) < 100 \<or> length cs < rs_warmup_bars s + 5
      \<or> br_unresolved_positions (va_base_run v) \<noteq> 0 \<or> br_unresolved_positions (va_stress_run v) \<noteq> 0)
    \<and> run_backtest amb cs costs s = Inr (va_base_run v)
    \<and> (\<exists>doubled. stressed costs = Inr doubled \<and> run_backtest amb cs doubled s = Inr (va_stress_run v))"
proof -
  note validation = assms [unfolded validate_profitability_def bindE_Inr_iff]
  obtain base stress doubled folds where
      base: "run_backtest amb cs costs s = Inr base" and doubled: "stressed costs = Inr doubled"
    and stress: "run_backtest amb cs doubled s = Inr stress"
    and folds: "(if rs_warmup_bars s + 5 \<le> length cs
            then chronological_folds amb base (length cs) (rs_warmup_bars s) 4 else Inr []) = Inr folds"
    and v: "va_base_run v = base" "va_stress_run v = stress" "va_folds v = folds"
      "va_promotion v = assess_promotion base stress folds"
    using validation
    by (elim exE conjE) (drule validate_series_same, elim conjE, simp only: sum.inject, hypsubst, rule that,
      assumption, assumption, assumption, assumption, simp_all only: validation_artifact.simps)
  have four: "length folds = 4 \<longleftrightarrow> rs_warmup_bars s + 5 \<le> length cs"
  proof (cases "rs_warmup_bars s + 5 \<le> length cs")
    case True
    with folds folds_cover [of amb base "length cs" "rs_warmup_bars s" 4 folds] show ?thesis by simp
  next
    case False
    with folds show ?thesis by auto
  qed
  have "calculate_metrics amb (br_trades base) bootstrap_samples = Inr (br_metrics base)"
    by (rule run_backtestE [OF base])
  then have count: "pm_trade_count (br_metrics base) = length (br_trades base)" by (rule metrics_count)
  have reasons: "inconclusive_reasons base stress folds = [] \<longleftrightarrow> 100 \<le> length (br_trades base) \<and> length folds = 4
      \<and> br_unresolved_positions base = 0 \<and> br_unresolved_positions stress = 0"
    by (simp add: inconclusive_reasons_def count not_less)
  have inconclusive: "pd_status (assess_promotion base stress folds) = PROMOTION_INCONCLUSIVE
      \<longleftrightarrow> inconclusive_reasons base stress folds \<noteq> []"
    by (simp add: assess_promotion_def Let_def)
  have pass: "pd_status (assess_promotion base stress folds) = PROMOTION_PASS
      \<longleftrightarrow> inconclusive_reasons base stress folds = [] \<and> list_all gk_passed (gate_checks base stress folds)"
    by (auto simp: assess_promotion_def Let_def filter_empty_conv list_all_iff)
  have less: "length (br_trades base) < 100 \<longleftrightarrow> \<not> 100 \<le> length (br_trades base)"
    "length cs < rs_warmup_bars s + 5 \<longleftrightarrow> length folds \<noteq> 4" using four by auto
  have runs: "\<exists>doubled. stressed costs = Inr doubled \<and> run_backtest amb cs doubled s = Inr stress"
    using doubled stress by (intro exI conjI)
  show ?thesis
    unfolding v pass inconclusive reasons gate_checks_passed count less
    using base runs by (simp only: simp_thms conj_assoc) argo
qed

lemma promotion_gate_sound_witness:
  "\<exists>v. validate_profitability host_context tape free_costs sample_strategy = Inr v
    \<and> length (br_trades (va_base_run v)) = 1 \<and> pd_status (va_promotion v) = PROMOTION_INCONCLUSIVE"
proof -
  obtain base t where base: "run_backtest host_context tape free_costs sample_strategy = Inr base" "br_trades base = [t]"
    using tape_run [OF free_costs_zero] by blast
  have "dmul backtest_context (Dec 0 0) (dec_int 2) = Inr (Dec 0 0)" "\<not> Dec 1000 0 < Dec 0 0" "nonnegative (Dec 0 0)"
    by (simp_all add: decimal_eval backtest_context_def)
  moreover have "trimmed ''free-stress-2x''" "trimmed ''1''" by code_simp+
  ultimately obtain doubled where doubled: "stressed free_costs = Inr doubled" "zero_costs doubled"
    by (simp add: stressed_def free_costs_def make_bt_costs_def research_bps_def require.simps
        lenient_nonnegative_zero zero_costs_def)
  obtain stress u where stress: "run_backtest host_context tape doubled sample_strategy = Inr stress" "br_trades stress = [u]"
    using tape_run [OF doubled(2)] by blast
  have few: "\<not> rs_warmup_bars sample_strategy + 5 \<le> length tape"
    by (simp add: sample_strategy_def tape_list)
  have "is_ok (validate_profitability host_context tape free_costs sample_strategy)"
    unfolding validate_profitability_def tape_valid bindE_simps base(1) doubled(1) stress(1) if_not_P [OF few]
    by (simp only: is_ok_simps)
  then obtain v where v: "validate_profitability host_context tape free_costs sample_strategy = Inr v" by (elim is_okE)
  from promotion_gate_sound [OF v] base few
  have "length (br_trades (va_base_run v)) = 1" "pd_status (va_promotion v) = PROMOTION_INCONCLUSIVE" by simp_all
  with v show ?thesis by blast
qed

section \<open>Costs too wide to stress\<close>

definition wide_costs :: "int \<Rightarrow> bt_costs" where
  "wide_costs n = free_costs\<lparr>bc_fee := Dec n 0\<rparr>"

lemma double_wide:
  assumes "500 < n" "n \<le> 1000"
  shows "dmul backtest_context (Dec n 0) (dec_int 2) = Inr (Dec (2 * n) 0)" "Dec 1000 0 < Dec (2 * n) 0"
    "\<not> Dec 1000 0 < Dec n 0" "nonnegative (Dec n 0)"
proof -
  have "ndigits (n * 2) = 4" using ndigits_eqI [of 3 "n * 2"] assms by simp
  then show "dmul backtest_context (Dec n 0) (dec_int 2) = Inr (Dec (2 * n) 0)"
    using assms by (simp add: dmul_def exact_mul_def dfix_def dec_int_def backtest_context_def etiny_def etop_def Let_def)
  show "Dec 1000 0 < Dec (2 * n) 0" "\<not> Dec 1000 0 < Dec n 0" "nonnegative (Dec n 0)"
    using assms by (simp_all add: decimal_eval)
qed

text \<open>A cost model of more than 500 basis points is accepted, but its doubled stress model is
  not, so a profitability validation with it always fails.\<close>

theorem wide_costs_never_validated:
  assumes "500 < n" "n \<le> 1000"
  shows "make_bt_costs \<lparr> bc_model_id = ''free'', bc_version = ''1'', bc_fee = In_Decimal (Dec n 0),
      bc_slippage = In_Decimal (Dec 0 0), bc_holding = In_Decimal (Dec 0 0) \<rparr> = Inr (wide_costs n)
    \<and> \<not> is_ok (validate_profitability amb cs (wide_costs n) s)"
proof -
  note wide = double_wide [OF assms]
  have zero: "nonnegative (Dec 0 0)" "\<not> Dec 1000 0 < Dec 0 0" by (simp_all add: decimal_eval)
  have "trimmed ''free''" "trimmed ''1''" by code_simp+
  with wide zero have ok: "make_bt_costs \<lparr> bc_model_id = ''free'', bc_version = ''1'', bc_fee = In_Decimal (Dec n 0),
      bc_slippage = In_Decimal (Dec 0 0), bc_holding = In_Decimal (Dec 0 0) \<rparr> = Inr (wide_costs n)"
    by (simp add: make_bt_costs_def research_bps_def require.simps wide_costs_def free_costs_def)
  have "research_bps (In_Decimal (Dec (2 * n) 0)) \<noteq> Inr d" for d
    using wide(2) by (auto simp: research_bps_def)
  then have "\<not> is_ok (stressed (wide_costs n))"
    using wide(1) by (auto simp: is_ok_def stressed_def make_bt_costs_def wide_costs_def split: sum.splits)
  then have "stressed (wide_costs n) \<noteq> Inr c" for c by auto
  then have "validate_profitability amb cs (wide_costs n) s \<noteq> Inr v" for v
    unfolding validate_profitability_def bindE_Inr_iff by blast
  then have "\<not> is_ok (validate_profitability amb cs (wide_costs n) s)" by (auto simp: is_ok_def split: sum.splits)
  with ok show ?thesis by blast
qed

lemma wide_costs_never_validated_witness:
  "\<not> is_ok (validate_profitability host_context tape (wide_costs 600) sample_strategy)"
  using wide_costs_never_validated [of 600 host_context tape sample_strategy] by simp

end
