(* ===== verification/Wire.thy ===== *)
theory Wire
  imports Planning
begin

text \<open>
  \<open>hyperliquid_wire.py\<close>: the translation of a protected plan into the one order action the signer
  accepts, without rounding on the venue's side. \<open>Decimal.normalize\<close> and the product of quantity and
  price work in the caller's ambient context, which is a parameter. \<open>datetime.timestamp\<close> (a float)
  times 1000 is the parameter \<open>to_ms\<close>. An environment or network that is no member of its
  enumeration is excluded by the types.
\<close>

section \<open>Networks and metadata\<close>

datatype hl_network = HL_MAINNET | HL_TESTNET

fun hl_network_value :: "hl_network \<Rightarrow> string" where
  "hl_network_value HL_MAINNET = ''mainnet''"
| "hl_network_value HL_TESTNET = ''testnet''"

fun hl_environment :: "hl_network \<Rightarrow> environment" where
  "hl_environment HL_MAINNET = MAINNET"
| "hl_environment HL_TESTNET = TESTNET"

definition is_letter :: "char \<Rightarrow> bool" where
  "is_letter c = (let n = (of_char c :: nat) in 65 \<le> n \<and> n \<le> 90 \<or> 97 \<le> n \<and> n \<le> 122)"

text \<open>\<open>[A-Za-z0-9][A-Za-z0-9._:-]{0,n}\<close>.\<close>

definition token_shaped :: "nat \<Rightarrow> string \<Rightarrow> bool" where
  "token_shaped n s =
     (case s of
        [] \<Rightarrow> False
      | c # cs \<Rightarrow> (is_letter c \<or> is_digit c) \<and> length cs \<le> n
          \<and> list_all (\<lambda>d. is_letter d \<or> is_digit d \<or> d \<in> set ''._:-'') cs)"

record perp_metadata =
  im_symbol :: string
  im_asset_id :: int
  im_sz_decimals :: int
  im_max_leverage :: decimal
  im_margin_mode :: string
  im_is_delisted :: bool
  im_source_hash :: string

definition make_metadata :: "perp_metadata \<Rightarrow> perp_metadata result" where
  "make_metadata m =
     bindE (require
       [(token_shaped 63 (im_symbol m), ValidationError),
        (0 \<le> im_asset_id m \<and> im_asset_id m \<le> 1000000, ValidationError),
        (0 \<le> im_sz_decimals m \<and> im_sz_decimals m \<le> 8, ValidationError)]) (\<lambda>_.
     bindE (validate_decimal_bounds (im_max_leverage m)) (\<lambda>_.
     bindE (require
       [(\<not> im_max_leverage m \<le> 0, ValidationError),
        (im_margin_mode m \<in> set [''cross'', ''isolated'', ''strictIsolated'', ''noCross''], ValidationError),
        (sha256_shaped (im_source_hash m), ValidationError)]) (\<lambda>_. Inr m)))"

section \<open>Numbers on the wire\<close>

text \<open>\<open>Decimal.normalize ()\<close>: rounded to the ambient context, then without trailing zeros.\<close>

definition dnormalize :: "dctx \<Rightarrow> decimal \<Rightarrow> decimal result" where
  "dnormalize amb d =
     bindE (dfix amb d) (\<lambda>r. Inr (if coeff r = 0 then Dec 0 0 else shorten (e_max amb) (coeff r) (expo r)))"

definition fractional_places :: "dctx \<Rightarrow> decimal \<Rightarrow> int result" where
  "fractional_places amb d = bindE (dnormalize amb d) (\<lambda>n. Inr (max 0 (- expo n)))"

definition significant_digits :: "dctx \<Rightarrow> decimal \<Rightarrow> int result" where
  "significant_digits amb d =
     bindE (dnormalize amb d) (\<lambda>n. Inr (if coeff n = 0 then 1 else int (ndigits \<bar>coeff n\<bar>)))"

definition format_perp_size :: "dctx \<Rightarrow> decimal \<Rightarrow> int \<Rightarrow> string result" where
  "format_perp_size amb d sz_decimals =
     bindE (validate_decimal_bounds d) (\<lambda>_.
     bindE (require
       [(\<not> d \<le> 0, ValidationError), (0 \<le> sz_decimals \<and> sz_decimals \<le> 8, ValidationError)]) (\<lambda>_.
     bindE (fractional_places amb d) (\<lambda>places.
     bindE (guard (\<not> sz_decimals < places) ValidationError) (\<lambda>_.
     canonical_decimal d))))"

definition format_perp_price :: "dctx \<Rightarrow> decimal \<Rightarrow> int \<Rightarrow> string result" where
  "format_perp_price amb d sz_decimals =
     bindE (validate_decimal_bounds d) (\<lambda>_.
     bindE (require
       [(\<not> d \<le> 0, ValidationError), (0 \<le> sz_decimals \<and> sz_decimals \<le> 6, ValidationError)]) (\<lambda>_.
     bindE (canonical_decimal d) (\<lambda>written.
     if CHR ''.'' \<notin> set written then Inr written
     else
       bindE (fractional_places amb d) (\<lambda>places.
       bindE (guard (\<not> 6 - sz_decimals < places) ValidationError) (\<lambda>_.
       bindE (significant_digits amb d) (\<lambda>digits.
       bindE (guard (\<not> 5 < digits) ValidationError) (\<lambda>_. Inr written)))))))"

section \<open>Orders\<close>

datatype trigger_kind = TK_SL | TK_TP

fun trigger_kind_value :: "trigger_kind \<Rightarrow> string" where
  "trigger_kind_value TK_SL = ''sl''"
| "trigger_kind_value TK_TP = ''tp''"

datatype order_kind = Limit_Ioc | Trigger string trigger_kind

record wire_order =
  wo_asset :: int
  wo_buy :: bool
  wo_price :: string
  wo_size :: string
  wo_reduce_only :: bool
  wo_kind :: order_kind
  wo_cloid :: string

fun order_kind_val :: "order_kind \<Rightarrow> pyval" where
  "order_kind_val Limit_Ioc = record_val [''limit''] [record_val [''tif''] [PStr ''Ioc'']]"
| "order_kind_val (Trigger trigger_price k) =
     record_val [''trigger''] [record_val [''isMarket'', ''triggerPx'', ''tpsl'']
       [PBool True, PStr trigger_price, PStr (trigger_kind_value k)]]"

definition wire_order_val :: "wire_order \<Rightarrow> pyval" where
  "wire_order_val w = record_val [''a'', ''b'', ''p'', ''s'', ''r'', ''t'', ''c'']
     [PInt (wo_asset w), PBool (wo_buy w), PStr (wo_price w), PStr (wo_size w), PBool (wo_reduce_only w),
      order_kind_val (wo_kind w), PStr (wo_cloid w)]"

definition limit_wire :: "dctx \<Rightarrow> semantic_intent \<Rightarrow> int \<Rightarrow> int \<Rightarrow> wire_order result" where
  "limit_wire amb i asset_id sz_decimals =
     bindE (of_option ValidationError (si_price_bound i)) (\<lambda>price_bound.
     bindE (require
       [(si_time_in_force i = Some ''Ioc'', ValidationError),
        (cloid_shaped (si_client_order_id i), ValidationError)]) (\<lambda>_.
     bindE (format_perp_price amb price_bound sz_decimals) (\<lambda>price.
     bindE (format_perp_size amb (si_quantity i) sz_decimals) (\<lambda>size.
     Inr \<lparr> wo_asset = asset_id, wo_buy = (si_side i = BUY), wo_price = price, wo_size = size,
           wo_reduce_only = False, wo_kind = Limit_Ioc, wo_cloid = si_client_order_id i \<rparr>))))"

definition trigger_limit :: "trigger_kind \<Rightarrow> semantic_intent \<Rightarrow> decimal \<Rightarrow> decimal" where
  "trigger_limit k i price_bound =
     (case si_protection_limit_price i of
        Some protection \<Rightarrow> if k = TK_SL then protection else price_bound
      | None \<Rightarrow> price_bound)"

definition trigger_wire :: "dctx \<Rightarrow> semantic_intent \<Rightarrow> int \<Rightarrow> int \<Rightarrow> trigger_kind \<Rightarrow> wire_order result" where
  "trigger_wire amb i asset_id sz_decimals k =
     bindE (guard (si_reduce_only i) ValidationError) (\<lambda>_.
     bindE (of_option ValidationError (si_stop_price i)) (\<lambda>stop_price.
     bindE (of_option ValidationError (si_price_bound i)) (\<lambda>price_bound.
     bindE (guard (cloid_shaped (si_client_order_id i)) ValidationError) (\<lambda>_.
     bindE (format_perp_price amb (trigger_limit k i price_bound) sz_decimals) (\<lambda>price.
     bindE (format_perp_size amb (si_quantity i) sz_decimals) (\<lambda>size.
     bindE (format_perp_price amb stop_price sz_decimals) (\<lambda>trigger_price.
     Inr \<lparr> wo_asset = asset_id, wo_buy = (si_side i = BUY), wo_price = price, wo_size = size,
           wo_reduce_only = True, wo_kind = Trigger trigger_price k, wo_cloid = si_client_order_id i \<rparr>)))))))"

section \<open>The action\<close>

record order_action =
  wa_network :: hl_network
  wa_account_id :: string
  wa_plan_hash :: string
  wa_metadata_hash :: string
  wa_expires_at_ms :: int
  wa_orders :: "wire_order list"
  wa_action_hash :: string

definition action_val :: "wire_order list \<Rightarrow> pyval" where
  "action_val orders = record_val [''type'', ''orders'', ''grouping'']
     [PStr ''order'', PList (map wire_order_val orders), PStr ''normalTpsl'']"

definition action_binding :: "order_action \<Rightarrow> pyval" where
  "action_binding a = record_val
     [''network'', ''account_id'', ''plan_hash'', ''metadata_hash'', ''expires_at_ms'', ''action'']
     [PStr (hl_network_value (wa_network a)), PStr (wa_account_id a), PStr (wa_plan_hash a),
      PStr (wa_metadata_hash a), PInt (wa_expires_at_ms a), action_val (wa_orders a)]"

definition min_perp_notional :: decimal where "min_perp_notional = Dec 10 0"

definition build_order_action ::
    "dctx \<Rightarrow> (instant \<Rightarrow> int) \<Rightarrow> protected_plan \<Rightarrow> perp_metadata \<Rightarrow> hl_network \<Rightarrow> instant \<Rightarrow> order_action result" where
  "build_order_action amb to_ms p m network t =
     (let entry = pp_entry p in
     bindE (require
       [(si_venue entry = ''hyperliquid'', ValidationError),
        (si_environment entry = hl_environment network, ValidationError),
        (si_instrument entry \<in> {im_symbol m, im_symbol m @ ''-PERP''}, ValidationError),
        (\<not> im_is_delisted m, ValidationError),
        ((case si_leverage entry of None \<Rightarrow> False | Some l \<Rightarrow> \<not> im_max_leverage m < l), ValidationError),
        (t < si_expires_at entry, ValidationError)]) (\<lambda>_.
     bindE (of_option ValidationError (si_price_bound entry)) (\<lambda>entry_price.
     bindE (dmul amb (si_quantity entry) entry_price) (\<lambda>notional.
     bindE (guard (\<not> notional < min_perp_notional) ValidationError) (\<lambda>_.
     bindE (limit_wire amb entry (im_asset_id m) (im_sz_decimals m)) (\<lambda>first.
     bindE (trigger_wire amb (pp_stop p) (im_asset_id m) (im_sz_decimals m) TK_SL) (\<lambda>second.
     bindE (trigger_wire amb (pp_target p) (im_asset_id m) (im_sz_decimals m) TK_TP) (\<lambda>third.
     (let a = \<lparr> wa_network = network, wa_account_id = si_account_id entry, wa_plan_hash = pp_plan_hash p,
            wa_metadata_hash = im_source_hash m, wa_expires_at_ms = to_ms (si_expires_at entry),
            wa_orders = [first, second, third], wa_action_hash = '''' \<rparr> in
     bindE (domain_hash ''trading-harness/hyperliquid-action/v1'' (action_binding a)) (\<lambda>h.
     Inr (a\<lparr>wa_action_hash := h\<rparr>)))))))))))"

end
