(* ===== verification/Nonce.thy ===== *)
theory Nonce
  imports Wire
begin

text \<open>
  \<open>nonce.py\<close>: the durable store of signer nonces. One watermark per signer and network, advanced
  before any use of a nonce; reservations that bind a nonce to one qualification action; the
  bindings that say which signers the store serves. The clock's milliseconds are an argument
  (\<open>_utc_ms\<close>, a floating-point conversion, is not modelled), a transaction is a function on the
  tables. SQLite's own integrity check and catalogue (\<open>_connect\<close>, most of \<open>_verify_schema\<close>) are not
  modelled. A constraint violation of SQLite is the \<open>StorageError\<close> the callers turn it into.
\<close>

section \<open>Constants and field checks\<close>

definition max_future_drift_ms :: int where "max_future_drift_ms = 86400000"

definition nonce_schema_version :: int where "nonce_schema_version = 2"

definition schema_name :: string where
  "schema_name = ''bound_hyperliquid_signer_nonces_and_qualification_reservations''"

definition joined :: "string \<Rightarrow> string list \<Rightarrow> string" where
  "joined separator parts = (case parts of [] \<Rightarrow> [] | p # ps \<Rightarrow> p @ concat (map (\<lambda>q. separator @ q) ps))"

definition schema_statements :: "string list" where
  "schema_statements = map (joined [CHR 0x0A])
     [['''',
       ''    CREATE TABLE IF NOT EXISTS nonce_schema_migrations ('',
       ''        version INTEGER PRIMARY KEY,'',
       ''        name TEXT NOT NULL,'',
       ''        checksum TEXT NOT NULL'',
       ''    ) STRICT'',
       ''    ''],
      ['''',
       ''    CREATE TABLE IF NOT EXISTS hyperliquid_nonce_bindings ('',
       ''        signer_address TEXT NOT NULL,'',
       ''        network TEXT NOT NULL CHECK(network IN ('mainnet', 'testnet')),'',
       ''        schema_version INTEGER NOT NULL CHECK(schema_version = 2),'',
       ''        binding_hash TEXT NOT NULL,'',
       ''        PRIMARY KEY (signer_address, network)'',
       ''    ) STRICT'',
       ''    ''],
      ['''',
       ''    CREATE TABLE IF NOT EXISTS hyperliquid_signer_nonces ('',
       ''        signer_address TEXT NOT NULL,'',
       ''        network TEXT NOT NULL CHECK(network IN ('mainnet', 'testnet')),'',
       ''        last_nonce INTEGER NOT NULL CHECK(last_nonce >= 0),'',
       ''        PRIMARY KEY (signer_address, network)'',
       ''    ) STRICT'',
       ''    ''],
      ['''',
       ''    CREATE TABLE IF NOT EXISTS hyperliquid_qualification_nonce_reservations ('',
       ''        reservation_hash TEXT PRIMARY KEY,'',
       ''        binding_hash TEXT NOT NULL UNIQUE,'',
       ''        signer_address TEXT NOT NULL,'',
       ''        network TEXT NOT NULL CHECK(network = 'testnet'),'',
       ''        nonce INTEGER NOT NULL CHECK(nonce >= 0),'',
       ''        command_id TEXT NOT NULL,'',
       ''        phase TEXT NOT NULL CHECK(phase IN ('place', 'cancel', 'close')),'',
       ''        action_hash TEXT NOT NULL,'',
       ''        signing_authority_hash TEXT NOT NULL UNIQUE,'',
       ''        authority_issued_at_ms INTEGER NOT NULL CHECK(authority_issued_at_ms >= 0),'',
       ''        lease_expires_at_ms INTEGER NOT NULL CHECK(lease_expires_at_ms >= 0),'',
       ''        action_expires_at_ms INTEGER NOT NULL CHECK(action_expires_at_ms >= 0),'',
       ''        expires_after_ms INTEGER NOT NULL CHECK(expires_after_ms >= 0),'',
       ''        allocated_at_ms INTEGER NOT NULL CHECK(allocated_at_ms >= 0),'',
       ''        UNIQUE (signer_address, network, nonce),'',
       ''        UNIQUE (command_id, phase)'',
       ''    ) STRICT'',
       ''    '']]"

definition schema_checksum :: string where
  "schema_checksum =
     sha256_hex (utf8 (joined ([CHR 0x0A] @ ''-- nonce schema statement --'' @ [CHR 0x0A]) schema_statements))"

definition signer_shaped :: "string \<Rightarrow> bool" where
  "signer_shaped s = (take 2 s = ''0x'' \<and> length s = 42 \<and> list_all is_lower_hex (drop 2 s))"

definition identifier_shaped :: "string \<Rightarrow> bool" where
  "identifier_shaped s = token_shaped 127 s"

definition phases :: "string list" where "phases = [''place'', ''cancel'', ''close'']"

definition store_binding_hash :: "string \<Rightarrow> hl_network \<Rightarrow> string" where
  "store_binding_hash signer network =
     sha256_hex (utf8 (joined [CHR 0x00]
       [''trading-harness/hyperliquid-nonce-binding/v1'', ''2'', schema_checksum, signer, hl_network_value network]))"

section \<open>Bindings and reservations\<close>

record nonce_binding =
  qb_signer_address :: string
  qb_network :: hl_network
  qb_command_id :: string
  qb_phase :: string
  qb_action_hash :: string
  qb_signing_authority_hash :: string
  qb_authority_issued_at_ms :: int
  qb_lease_expires_at_ms :: int
  qb_action_expires_at_ms :: int
  qb_expires_after_ms :: int
  qb_binding_hash :: string

definition binding_material :: "nonce_binding \<Rightarrow> pyval" where
  "binding_material b = record_val
     [''schema_version'', ''signer_address'', ''network'', ''command_id'', ''phase'', ''action_hash'',
      ''signing_authority_hash'', ''authority_issued_at_ms'', ''lease_expires_at_ms'',
      ''action_expires_at_ms'', ''expires_after_ms'']
     [PStr ''hyperliquid.qualification_nonce_binding.v1'', PStr (qb_signer_address b),
      PStr (hl_network_value (qb_network b)), PStr (qb_command_id b), PStr (qb_phase b), PStr (qb_action_hash b),
      PStr (qb_signing_authority_hash b), PInt (qb_authority_issued_at_ms b), PInt (qb_lease_expires_at_ms b),
      PInt (qb_action_expires_at_ms b), PInt (qb_expires_after_ms b)]"

definition binding_digest :: "nonce_binding \<Rightarrow> string result" where
  "binding_digest b = domain_hash ''trading-harness/hyperliquid-qualification-nonce-binding/v1'' (binding_material b)"

definition verify_binding :: "nonce_binding \<Rightarrow> unit result" where
  "verify_binding b =
     bindE (require
       [(signer_shaped (qb_signer_address b), ValidationError),
        (qb_network b = HL_TESTNET, ValidationError),
        (identifier_shaped (qb_command_id b), ValidationError),
        (qb_phase b \<in> set phases, ValidationError),
        (sha256_shaped (qb_action_hash b), ValidationError),
        (sha256_shaped (qb_signing_authority_hash b), ValidationError),
        (0 \<le> qb_authority_issued_at_ms b, ValidationError),
        (0 \<le> qb_lease_expires_at_ms b, ValidationError),
        (0 \<le> qb_action_expires_at_ms b, ValidationError),
        (0 \<le> qb_expires_after_ms b, ValidationError),
        (qb_authority_issued_at_ms b < qb_expires_after_ms b \<and> qb_expires_after_ms b \<le> qb_lease_expires_at_ms b
          \<and> qb_expires_after_ms b \<le> qb_action_expires_at_ms b, ValidationError),
        (sha256_shaped (qb_binding_hash b), ValidationError)]) (\<lambda>_.
     bindE (binding_digest b) (\<lambda>h. guard (h = qb_binding_hash b) ValidationError))"

text \<open>The constructor's arguments are the fields of \<open>a\<close> but its network and its hash.\<close>

definition build_nonce_binding :: "nonce_binding \<Rightarrow> nonce_binding result" where
  "build_nonce_binding a =
     (let provisional = a\<lparr>qb_network := HL_TESTNET, qb_binding_hash := replicate 64 CHR ''0''\<rparr> in
     bindE (binding_digest provisional) (\<lambda>h.
     (let b = provisional\<lparr>qb_binding_hash := h\<rparr> in bindE (verify_binding b) (\<lambda>_. Inr b))))"

record nonce_reservation =
  qr_binding :: nonce_binding
  qr_nonce :: int
  qr_allocated_at_ms :: int
  qr_reservation_hash :: string

definition reservation_material :: "nonce_reservation \<Rightarrow> pyval" where
  "reservation_material r = record_val
     [''schema_version'', ''binding'', ''binding_hash'', ''nonce'', ''allocated_at_ms'']
     [PStr ''hyperliquid.qualification_nonce_reservation.v1'', binding_material (qr_binding r),
      PStr (qb_binding_hash (qr_binding r)), PInt (qr_nonce r), PInt (qr_allocated_at_ms r)]"

definition reservation_digest :: "nonce_reservation \<Rightarrow> string result" where
  "reservation_digest r =
     domain_hash ''trading-harness/hyperliquid-qualification-nonce-reservation/v1'' (reservation_material r)"

definition verify_reservation :: "nonce_reservation \<Rightarrow> unit result" where
  "verify_reservation r =
     bindE (verify_binding (qr_binding r)) (\<lambda>_.
     bindE (require
       [(0 \<le> qr_nonce r, ValidationError),
        (0 \<le> qr_allocated_at_ms r, ValidationError),
        (qb_authority_issued_at_ms (qr_binding r) \<le> qr_allocated_at_ms r
          \<and> qr_allocated_at_ms r < qb_expires_after_ms (qr_binding r), ValidationError),
        (sha256_shaped (qr_reservation_hash r), ValidationError)]) (\<lambda>_.
     bindE (reservation_digest r) (\<lambda>h. guard (h = qr_reservation_hash r) ValidationError)))"

text \<open>A row of the table is the reservation with the fields of its binding.\<close>

definition reservation_from_row :: "nonce_reservation \<Rightarrow> nonce_reservation result" where
  "reservation_from_row row = bindE (reraise StorageError (verify_reservation row)) (\<lambda>_. Inr row)"

section \<open>The tables\<close>

record nonce_binding_row =
  nb_signer :: string
  nb_network :: hl_network
  nb_schema_version :: int
  nb_hash :: string

record watermark_row =
  nw_signer :: string
  nw_network :: hl_network
  nw_last_nonce :: int

record nonce_db =
  nd_migrations :: "(int \<times> string \<times> string) list"
  nd_bindings :: "nonce_binding_row list"
  nd_watermarks :: "watermark_row list"
  nd_reservations :: "nonce_reservation list"

definition empty_nonce_db :: nonce_db where
  "empty_nonce_db = \<lparr> nd_migrations = [], nd_bindings = [], nd_watermarks = [], nd_reservations = [] \<rparr>"

abbreviation signer_key :: "watermark_row \<Rightarrow> string \<times> hl_network" where
  "signer_key w \<equiv> (nw_signer w, nw_network w)"

abbreviation bound_key :: "nonce_binding_row \<Rightarrow> string \<times> hl_network" where
  "bound_key b \<equiv> (nb_signer b, nb_network b)"

definition watermark :: "nonce_db \<Rightarrow> string \<Rightarrow> hl_network \<Rightarrow> int option" where
  "watermark db signer network =
     map_option nw_last_nonce (table_find signer_key (signer, network) (nd_watermarks db))"

text \<open>\<open>INSERT ... ON CONFLICT (signer_address, network) DO UPDATE\<close>.\<close>

definition put_watermark :: "string \<Rightarrow> hl_network \<Rightarrow> int \<Rightarrow> nonce_db \<Rightarrow> nonce_db" where
  "put_watermark signer network nonce db =
     (let rows = nd_watermarks db;
          row = \<lparr> nw_signer = signer, nw_network = network, nw_last_nonce = nonce \<rparr> in
      db\<lparr>nd_watermarks :=
        (if table_find signer_key (signer, network) rows = None then rows @ [row]
         else table_update (\<lambda>w. signer_key w = (signer, network)) (\<lambda>w. w\<lparr>nw_last_nonce := nonce\<rparr>) rows)\<rparr>)"

text \<open>The \<open>UNIQUE\<close> constraints of the reservation table, and the nonce of a signer in it.\<close>

definition command_phase :: "nonce_reservation \<Rightarrow> string \<times> string" where
  "command_phase r = (qb_command_id (qr_binding r), qb_phase (qr_binding r))"

definition nonce_key :: "nonce_reservation \<Rightarrow> string \<times> hl_network \<times> int" where
  "nonce_key r = (qb_signer_address (qr_binding r), qb_network (qr_binding r), qr_nonce r)"

definition same_reservation :: "nonce_reservation \<Rightarrow> nonce_reservation \<Rightarrow> bool" where
  "same_reservation a b =
     (qr_reservation_hash a = qr_reservation_hash b
      \<or> qb_binding_hash (qr_binding a) = qb_binding_hash (qr_binding b)
      \<or> qb_signing_authority_hash (qr_binding a) = qb_signing_authority_hash (qr_binding b)
      \<or> nonce_key a = nonce_key b \<or> command_phase a = command_phase b)"

definition insert_reservation :: "nonce_reservation \<Rightarrow> nonce_db \<Rightarrow> nonce_db result" where
  "insert_reservation r db =
     (if list_ex (same_reservation r) (nd_reservations db) then Inl StorageError
      else Inr (db\<lparr>nd_reservations := nd_reservations db @ [r]\<rparr>))"

section \<open>Opening the store\<close>

definition verify_migrations :: "nonce_db \<Rightarrow> unit result" where
  "verify_migrations db =
     guard (nd_migrations db = [(nonce_schema_version, schema_name, schema_checksum)]) StorageError"

fun verify_reservations :: "nonce_db \<Rightarrow> nonce_reservation list \<Rightarrow> unit result" where
  "verify_reservations db [] = Inr ()"
| "verify_reservations db (row # rows) =
     bindE (reservation_from_row row) (\<lambda>r.
     bindE (guard
       (case watermark db (qb_signer_address (qr_binding r)) (qb_network (qr_binding r)) of
          None \<Rightarrow> False | Some last_nonce \<Rightarrow> qr_nonce r \<le> last_nonce) StorageError) (\<lambda>_.
     verify_reservations db rows))"

definition binding_row_ok :: "nonce_binding_row \<Rightarrow> bool" where
  "binding_row_ok b =
     (signer_shaped (nb_signer b) \<and> nb_schema_version b = nonce_schema_version
      \<and> nb_hash b = store_binding_hash (nb_signer b) (nb_network b))"

definition bind_or_verify :: "string \<Rightarrow> hl_network \<Rightarrow> bool \<Rightarrow> nonce_db \<Rightarrow> nonce_db result" where
  "bind_or_verify signer network allow_create db =
     bindE (guard (list_all binding_row_ok (nd_bindings db)) StorageError) (\<lambda>_.
     if (signer, network) \<in> set (map bound_key (nd_bindings db)) then Inr db
     else
       bindE (guard allow_create StorageError) (\<lambda>_.
       Inr (db\<lparr>nd_bindings := nd_bindings db @
         [\<lparr> nb_signer = signer, nb_network = network, nb_schema_version = nonce_schema_version,
            nb_hash = store_binding_hash signer network \<rparr>]\<rparr>)))"

definition migrate_nonces :: "nonce_db \<Rightarrow> nonce_db result" where
  "migrate_nonces db =
     (case find (\<lambda>m. fst m = nonce_schema_version) (nd_migrations db) of
        None \<Rightarrow>
          bindE (guard (nd_migrations db = []) StorageError) (\<lambda>_.
          Inr (db\<lparr>nd_migrations := [(nonce_schema_version, schema_name, schema_checksum)]\<rparr>))
      | Some m \<Rightarrow> bindE (guard (snd m = (schema_name, schema_checksum)) StorageError) (\<lambda>_. Inr db))"

text \<open>The constructor: with \<open>must_exist\<close> the store is verified and left as it is.\<close>

definition open_allocator :: "string \<Rightarrow> hl_network \<Rightarrow> bool \<Rightarrow> nonce_db \<Rightarrow> nonce_db result" where
  "open_allocator signer network must_exist db =
     bindE (guard (signer_shaped signer) ValidationError) (\<lambda>_.
     bindE (if must_exist then Inr db else migrate_nonces db) (\<lambda>migrated.
     bindE (verify_migrations migrated) (\<lambda>_.
     bindE (verify_reservations migrated (nd_reservations migrated)) (\<lambda>_.
     bind_or_verify signer network (\<not> must_exist) migrated))))"

section \<open>Allocation\<close>

definition allocate_locked :: "string \<Rightarrow> hl_network \<Rightarrow> int \<Rightarrow> nonce_db \<Rightarrow> (int \<times> nonce_db) result" where
  "allocate_locked signer network now_ms db =
     (let previous = watermark db signer network in
     bindE (require
       [(pred_option (\<lambda>p. 0 \<le> p) previous, StorageError),
        (pred_option (\<lambda>p. p \<le> now_ms + max_future_drift_ms) previous, StorageError)]) (\<lambda>_.
     (let nonce = (case previous of None \<Rightarrow> now_ms | Some p \<Rightarrow> max (p + 1) now_ms) in
      Inr (nonce, put_watermark signer network nonce db))))"

definition allocate_nonce :: "string \<Rightarrow> hl_network \<Rightarrow> int \<Rightarrow> nonce_db \<Rightarrow> (int \<times> nonce_db) result" where
  "allocate_nonce signer network now_ms db =
     bindE (guard (0 \<le> now_ms) ValidationError) (\<lambda>_. allocate_locked signer network now_ms db)"

definition already_reserved :: "nonce_binding \<Rightarrow> nonce_db \<Rightarrow> bool" where
  "already_reserved b db =
     list_ex (\<lambda>r. qb_binding_hash (qr_binding r) = qb_binding_hash b
       \<or> qb_signing_authority_hash (qr_binding r) = qb_signing_authority_hash b
       \<or> command_phase r = (qb_command_id b, qb_phase b)) (nd_reservations db)"

definition allocate_qualification ::
    "string \<Rightarrow> hl_network \<Rightarrow> nonce_binding \<Rightarrow> int \<Rightarrow> nonce_db \<Rightarrow> (nonce_reservation \<times> nonce_db) result" where
  "allocate_qualification signer network b now_ms db =
     bindE (verify_binding b) (\<lambda>_.
     bindE (require
       [(qb_signer_address b = signer \<and> qb_network b = network \<and> network = HL_TESTNET, StorageError),
        (0 \<le> now_ms, ValidationError),
        (\<not> already_reserved b db, StorageError)]) (\<lambda>_.
     bindE (allocate_locked signer network now_ms db) (\<lambda>(nonce, advanced).
     (let provisional = \<lparr> qr_binding = b, qr_nonce = nonce, qr_allocated_at_ms = now_ms,
            qr_reservation_hash = replicate 64 CHR ''0'' \<rparr> in
     bindE (reservation_digest provisional) (\<lambda>h.
     (let r = provisional\<lparr>qr_reservation_hash := h\<rparr> in
     bindE (verify_reservation r) (\<lambda>_.
     bindE (insert_reservation r advanced) (\<lambda>committed.
     Inr (r, committed)))))))))"

section \<open>Reading\<close>

definition qualification_reservation :: "string \<Rightarrow> nonce_db \<Rightarrow> nonce_reservation result" where
  "qualification_reservation binding_hash db =
     bindE (guard (sha256_shaped binding_hash) ValidationError) (\<lambda>_.
     bindE (of_option StorageError
       (find (\<lambda>r. qb_binding_hash (qr_binding r) = binding_hash) (nd_reservations db)))
     reservation_from_row)"

definition find_qualification_reservation ::
    "string \<Rightarrow> hl_network \<Rightarrow> string \<Rightarrow> string \<Rightarrow> nonce_db \<Rightarrow> nonce_reservation option result" where
  "find_qualification_reservation signer network command_id phase db =
     bindE (require
       [(identifier_shaped command_id, ValidationError), (phase \<in> set phases, ValidationError)]) (\<lambda>_.
     (case filter (\<lambda>r. command_phase r = (command_id, phase)) (nd_reservations db) of
        [] \<Rightarrow> Inr None
      | [row] \<Rightarrow>
          bindE (reservation_from_row row) (\<lambda>r.
          bindE (guard (command_phase r = (command_id, phase) \<and> qb_signer_address (qr_binding r) = signer
            \<and> qb_network (qr_binding r) = network) StorageError) (\<lambda>_. Inr (Some r)))
      | _ \<Rightarrow> Inl StorageError))"

definition last_allocated :: "string \<Rightarrow> hl_network \<Rightarrow> nonce_db \<Rightarrow> int option result" where
  "last_allocated signer network db =
     (let last_nonce = watermark db signer network in
     bindE (guard (pred_option (\<lambda>n. 0 \<le> n) last_nonce) StorageError) (\<lambda>_. Inr last_nonce))"

end
