(* ===== verification/Nonce_Invariant.thy ===== *)
theory Nonce_Invariant
  imports Nonce
begin

text \<open>
  What every history of the nonce store keeps: one watermark per signer and network that covers
  every reservation of it, reservations that verify and are pairwise different, bindings and
  schema as the next opening expects them. Watermarks rise, reservations and bindings stay.
\<close>

section \<open>Steps\<close>

datatype nonce_op =
    Open_Store string hl_network bool
  | Allocate string hl_network int
  | Reserve string hl_network nonce_binding int

fun nonce_step :: "nonce_op \<Rightarrow> nonce_db \<Rightarrow> nonce_db result" where
  "nonce_step (Open_Store signer network must_exist) db = open_allocator signer network must_exist db"
| "nonce_step (Allocate signer network now_ms) db =
     bindE (allocate_nonce signer network now_ms db) (\<lambda>(nonce, after). Inr after)"
| "nonce_step (Reserve signer network b now_ms) db =
     bindE (allocate_qualification signer network b now_ms db) (\<lambda>(r, after). Inr after)"

section \<open>The operations\<close>

lemma watermark_put [simp]:
  "watermark (put_watermark s n x db) t m = (if (t, m) = (s, n) then Some x else watermark db t m)"
proof (cases "table_find signer_key (s, n) (nd_watermarks db)")
  case None
  then show ?thesis
    by (cases "table_find signer_key (t, m) (nd_watermarks db)")
      (auto simp: watermark_def put_watermark_def Let_def table_find_snoc)
next
  case (Some w)
  then show ?thesis
    by (auto simp: watermark_def put_watermark_def Let_def table_find_update map_option_case
        dest: table_find_Some split: option.splits)
qed

lemma watermark_reserved:
  "watermark (db\<lparr>nd_reservations := rows\<rparr>) = watermark db"
  by (intro ext) (simp add: watermark_def)

lemma put_watermark_rest [simp]:
  "nd_reservations (put_watermark s n x db) = nd_reservations db"
  "nd_bindings (put_watermark s n x db) = nd_bindings db"
  "nd_migrations (put_watermark s n x db) = nd_migrations db"
  by (simp_all add: put_watermark_def Let_def)

lemma allocate_locked_effect:
  assumes "allocate_locked s n now db = Inr (x, after)"
  shows "after = put_watermark s n x db \<and> now \<le> x \<and> (\<forall>p. watermark db s n = Some p \<longrightarrow> 0 \<le> p \<and> p < x)"
  using assms unfolding allocate_locked_def Let_def bindE_Inr_iff by (auto split: option.splits)

lemma allocate_nonce_effect:
  assumes "allocate_nonce s n now db = Inr (x, after)"
  shows "after = put_watermark s n x db \<and> 0 \<le> x \<and> now \<le> x \<and> (\<forall>p. watermark db s n = Some p \<longrightarrow> p < x)"
  using assms allocate_locked_effect unfolding allocate_nonce_def bindE_Inr_iff guard_Inr_iff by fastforce

lemma allocate_qualification_effect:
  assumes "allocate_qualification s n b now db = Inr (r, after)"
  shows "after = (put_watermark s n (qr_nonce r) db)\<lparr>nd_reservations := nd_reservations db @ [r]\<rparr>
    \<and> qr_binding r = b \<and> qb_signer_address b = s \<and> qb_network b = n \<and> verify_reservation r = Inr ()
    \<and> 0 \<le> qr_nonce r \<and> now \<le> qr_nonce r \<and> (\<forall>p. watermark db s n = Some p \<longrightarrow> p < qr_nonce r)
    \<and> \<not> already_reserved b db \<and> (\<forall>q \<in> set (nd_reservations db). \<not> same_reservation r q)"
proof -
  from assms obtain x advanced h where
      locked: "allocate_locked s n now db = Inr (x, advanced)"
    and ids: "qb_signer_address b = s" "qb_network b = n" "0 \<le> now" "\<not> already_reserved b db"
    and r: "r = \<lparr> qr_binding = b, qr_nonce = x, qr_allocated_at_ms = now, qr_reservation_hash = h \<rparr>"
    and ok: "verify_reservation r = Inr ()" and ins: "insert_reservation r advanced = Inr after"
    unfolding allocate_qualification_def Let_def bindE_Inr_iff by (auto split: prod.splits)
  note effect = allocate_locked_effect [OF locked]
  from ins effect have "after = (put_watermark s n x db)\<lparr>nd_reservations := nd_reservations db @ [r]\<rparr>"
    "\<forall>q \<in> set (nd_reservations db). \<not> same_reservation r q"
    by (auto simp: insert_reservation_def list_ex_iff split: if_splits)
  with effect ids ok r show ?thesis by auto
qed

section \<open>The invariant\<close>

definition covered :: "nonce_db \<Rightarrow> nonce_reservation \<Rightarrow> bool" where
  "covered db r =
     (case watermark db (qb_signer_address (qr_binding r)) (qb_network (qr_binding r)) of
        None \<Rightarrow> False | Some last_nonce \<Rightarrow> qr_nonce r \<le> last_nonce)"

definition schema_row :: "int \<times> string \<times> string" where
  "schema_row = (nonce_schema_version, schema_name, schema_checksum)"

definition nonce_inv :: "nonce_db \<Rightarrow> bool" where
  "nonce_inv db =
     ((\<forall>s n w. watermark db s n = Some w \<longrightarrow> 0 \<le> w)
      \<and> (\<forall>r \<in> set (nd_reservations db). verify_reservation r = Inr () \<and> covered db r)
      \<and> sorted_wrt (\<lambda>a b. \<not> same_reservation b a) (nd_reservations db)
      \<and> list_all binding_row_ok (nd_bindings db)
      \<and> nd_migrations db \<in> {[], [schema_row]}
      \<and> (nd_bindings db \<noteq> [] \<longrightarrow> nd_migrations db = [schema_row]))"

definition nonce_later :: "nonce_db \<Rightarrow> nonce_db \<Rightarrow> bool" where
  "nonce_later db after =
     ((\<forall>s n p. watermark db s n = Some p \<longrightarrow> (\<exists>q. watermark after s n = Some q \<and> p \<le> q))
      \<and> (\<exists>rows. nd_reservations after = nd_reservations db @ rows)
      \<and> set (nd_bindings db) \<subseteq> set (nd_bindings after))"

lemma covered_put:
  "covered db r \<Longrightarrow> (\<forall>p. watermark db s n = Some p \<longrightarrow> p < x) \<Longrightarrow> covered (put_watermark s n x db) r"
  by (auto simp: covered_def split: option.splits)

lemma open_allocator_effect:
  assumes "open_allocator s n must db = Inr after"
  shows "nd_watermarks after = nd_watermarks db \<and> nd_reservations after = nd_reservations db
    \<and> (\<exists>rows. nd_bindings after = nd_bindings db @ rows) \<and> nd_migrations after = [schema_row]
    \<and> list_all binding_row_ok (nd_bindings after) \<and> (s, n) \<in> set (map bound_key (nd_bindings after))
    \<and> signer_shaped s"
proof -
  from assms obtain m where m: "(if must then Inr db else migrate_nonces db) = Inr m" "verify_migrations m = Inr ()"
      "bind_or_verify s n (\<not> must) m = Inr after" "signer_shaped s"
    unfolding open_allocator_def bindE_Inr_iff by auto
  have "nd_watermarks m = nd_watermarks db" "nd_reservations m = nd_reservations db" "nd_bindings m = nd_bindings db"
    using m(1) by (auto simp: migrate_nonces_def split: if_splits option.splits)
  moreover have "nd_migrations m = [schema_row]" using m(2) by (simp add: verify_migrations_def schema_row_def)
  ultimately show ?thesis
    using m(3,4) by (auto simp: bind_or_verify_def binding_row_ok_def split: if_splits)
qed

lemma watermark_rows: "nd_watermarks after = nd_watermarks db \<Longrightarrow> watermark after = watermark db"
  by (intro ext) (simp add: watermark_def)

lemma covered_rows: "watermark after = watermark db \<Longrightarrow> covered after = covered db"
  by (intro ext) (simp add: covered_def)

lemma open_allocator_inv:
  assumes "nonce_inv db" "open_allocator s n must db = Inr after"
  shows "nonce_inv after"
proof -
  note e = open_allocator_effect [OF assms(2)]
  then have w: "watermark after = watermark db" using watermark_rows by blast
  from assms(1) e show ?thesis
    unfolding nonce_inv_def w covered_rows [OF w] by simp
qed

lemma allocate_nonce_inv:
  assumes "nonce_inv db" "allocate_nonce s n now db = Inr (x, after)"
  shows "nonce_inv after"
proof -
  note e = allocate_nonce_effect [OF assms(2)]
  then have "covered db r \<Longrightarrow> covered after r" for r using covered_put by blast
  with assms(1) e show ?thesis unfolding nonce_inv_def by simp
qed

lemma allocate_qualification_inv:
  assumes "nonce_inv db" "allocate_qualification s n b now db = Inr (r, after)"
  shows "nonce_inv after"
proof -
  let ?put = "put_watermark s n (qr_nonce r) db"
  note e = allocate_qualification_effect [OF assms(2)]
  then have w: "watermark after = watermark ?put" by (simp add: watermark_reserved)
  have rows: "nd_reservations after = nd_reservations db @ [r]" "nd_bindings after = nd_bindings db"
    "nd_migrations after = nd_migrations db" using e by simp_all
  have "covered db q \<Longrightarrow> covered ?put q" for q using e covered_put by blast
  moreover have "covered ?put r" using e by (simp add: covered_def)
  ultimately show ?thesis
    using e assms(1) unfolding nonce_inv_def w covered_rows [OF w] rows by (simp add: sorted_wrt_append)
qed

lemma nonce_step_inv: "nonce_inv db \<Longrightarrow> nonce_step op db = Inr after \<Longrightarrow> nonce_inv after"
  by (cases op) (auto split: prod.splits intro: open_allocator_inv allocate_nonce_inv allocate_qualification_inv)

lemma nonce_step_later:
  assumes "nonce_step op db = Inr after"
  shows "nonce_later db after"
proof (cases op)
  case (Open_Store s n must)
  then have "open_allocator s n must db = Inr after" using assms by simp
  note e = open_allocator_effect [OF this]
  then have "watermark after = watermark db" using watermark_rows by blast
  with e show ?thesis by (auto simp: nonce_later_def)
next
  case (Allocate s n now)
  then obtain x where "allocate_nonce s n now db = Inr (x, after)" using assms by (auto split: prod.splits)
  from allocate_nonce_effect [OF this] show ?thesis by (auto simp: nonce_later_def intro: less_imp_le)
next
  case (Reserve s n b now)
  then obtain r where "allocate_qualification s n b now db = Inr (r, after)" using assms by (auto split: prod.splits)
  note e = allocate_qualification_effect [OF this]
  then have w: "watermark after = watermark (put_watermark s n (qr_nonce r) db)" by (simp add: watermark_reserved)
  have "nd_reservations after = nd_reservations db @ [r]" "nd_bindings after = nd_bindings db" using e by simp_all
  with e show ?thesis unfolding nonce_later_def w by (auto intro: less_imp_le)
qed

lemma nonce_later_refl: "nonce_later db db"
  by (simp add: nonce_later_def)

lemma nonce_later_trans:
  assumes "nonce_later a b" "nonce_later b c"
  shows "nonce_later a c"
proof -
  have "\<exists>q. watermark c s n = Some q \<and> p \<le> q" if "watermark a s n = Some p" for s n p
  proof -
    from that assms(1) obtain q where q: "watermark b s n = Some q" "p \<le> q" unfolding nonce_later_def by blast
    with assms(2) obtain u where "watermark c s n = Some u" "q \<le> u" unfolding nonce_later_def by blast
    with q show ?thesis using order_trans by blast
  qed
  moreover obtain xs ys where "nd_reservations b = nd_reservations a @ xs" "nd_reservations c = nd_reservations b @ ys"
    using assms unfolding nonce_later_def by blast
  then have "\<exists>rows. nd_reservations c = nd_reservations a @ rows" by simp
  ultimately show ?thesis using assms unfolding nonce_later_def by blast
qed

text \<open>The nonce store is a monotone system.\<close>

interpretation nonce_store: monotone_system "\<lambda>db. db = empty_nonce_db" nonce_step nonce_inv nonce_later
proof
  show "db = empty_nonce_db \<Longrightarrow> nonce_inv db" for db
    by (simp add: nonce_inv_def empty_nonce_db_def watermark_def table_find_def)
qed (blast intro: nonce_step_inv nonce_later_refl nonce_later_trans nonce_step_later)+

end
