(* ===== verification/Nonce_Properties.thy ===== *)
theory Nonce_Properties
  imports Nonce_Invariant
begin

text \<open>
  The properties of the nonce store: nonces of a signer strictly increase over any interleaving
  of allocators and clocks, every reservation stays covered, unique and readable, and a store
  that has served a signer can always be opened again.
\<close>

section \<open>Histories\<close>

text \<open>The nonces a history hands out, each with its signer and network, in order.\<close>

fun issued :: "nonce_op list \<Rightarrow> nonce_db \<Rightarrow> ((string \<times> hl_network) \<times> int) list" where
  "issued [] db = []"
| "issued (op # ops) db =
     (case op of
        Open_Store s n must \<Rightarrow> []
      | Allocate s n now \<Rightarrow> (case allocate_nonce s n now db of Inl e \<Rightarrow> [] | Inr (x, after) \<Rightarrow> [((s, n), x)])
      | Reserve s n b now \<Rightarrow>
          (case allocate_qualification s n b now db of Inl e \<Rightarrow> [] | Inr (r, after) \<Rightarrow> [((s, n), qr_nonce r)]))
     @ issued ops (attempt nonce_step db op)"

definition issued_to :: "string \<Rightarrow> hl_network \<Rightarrow> nonce_op list \<Rightarrow> nonce_db \<Rightarrow> int list" where
  "issued_to s n ops db = map snd (filter (\<lambda>e. fst e = (s, n)) (issued ops db))"

lemma issued_step:
  "issued_to s n (op # ops) db = issued_to s n ops (attempt nonce_step db op)
     \<and> watermark (attempt nonce_step db op) s n = watermark db s n
   \<or> (\<exists>x. issued_to s n (op # ops) db = x # issued_to s n ops (attempt nonce_step db op)
     \<and> watermark (attempt nonce_step db op) s n = Some x \<and> (\<forall>p. watermark db s n = Some p \<longrightarrow> p < x))"
proof (cases op)
  case (Open_Store t m must)
  have "watermark (attempt nonce_step db op) = watermark db"
  proof (cases "open_allocator t m must db")
    case (Inr after)
    from open_allocator_effect [OF this] have "watermark after = watermark db" using watermark_rows by blast
    with Inr show ?thesis by (simp add: Open_Store attempt_def)
  qed (simp add: Open_Store attempt_def)
  then show ?thesis by (simp add: Open_Store issued_to_def)
next
  case (Allocate t m now)
  show ?thesis
  proof (cases "allocate_nonce t m now db")
    case (Inl e)
    then show ?thesis by (simp add: Allocate issued_to_def attempt_def)
  next
    case (Inr z)
    then obtain x after where z: "allocate_nonce t m now db = Inr (x, after)" by (cases z) simp
    from allocate_nonce_effect [OF z]
    have w: "watermark after s n = (if (s, n) = (t, m) then Some x else watermark db s n)"
      "\<forall>p. watermark db t m = Some p \<longrightarrow> p < x" by simp_all
    have next_db: "attempt nonce_step db op = after" by (simp add: Allocate attempt_def z)
    have given: "issued_to s n (op # ops) db
        = (if (s, n) = (t, m) then x # issued_to s n ops after else issued_to s n ops after)"
      unfolding issued_to_def issued.simps next_db by (simp add: Allocate z)
    show ?thesis unfolding next_db given using w by (cases "s = t \<and> n = m") auto
  qed
next
  case (Reserve t m b now)
  show ?thesis
  proof (cases "allocate_qualification t m b now db")
    case (Inl e)
    then show ?thesis by (simp add: Reserve issued_to_def attempt_def)
  next
    case (Inr z)
    then obtain r after where z: "allocate_qualification t m b now db = Inr (r, after)" by (cases z) simp
    note e = allocate_qualification_effect [OF z]
    then have w: "watermark after s n = (if (s, n) = (t, m) then Some (qr_nonce r) else watermark db s n)"
      "\<forall>p. watermark db t m = Some p \<longrightarrow> p < qr_nonce r"
      by (simp_all add: watermark_reserved)
    have next_db: "attempt nonce_step db op = after" by (simp add: Reserve attempt_def z)
    have given: "issued_to s n (op # ops) db
        = (if (s, n) = (t, m) then qr_nonce r # issued_to s n ops after else issued_to s n ops after)"
      unfolding issued_to_def issued.simps next_db by (simp add: Reserve z)
    show ?thesis unfolding next_db given using w by (cases "s = t \<and> n = m") auto
  qed
qed

lemma issued_increase:
  "sorted_wrt (<) (issued_to s n ops db)
   \<and> (\<forall>p. watermark db s n = Some p \<longrightarrow> (\<forall>x \<in> set (issued_to s n ops db). p < x))
   \<and> watermark (run_ops nonce_step db ops) s n
     = (if issued_to s n ops db = [] then watermark db s n else Some (last (issued_to s n ops db)))"
proof (induction ops arbitrary: db)
  case Nil
  then show ?case by (simp add: issued_to_def)
next
  case (Cons op ops)
  note ih = Cons.IH [of "attempt nonce_step db op"]
  from issued_step [of s n op ops db] show ?case
  proof (elim disjE exE conjE)
    fix x
    assume step: "issued_to s n (op # ops) db = x # issued_to s n ops (attempt nonce_step db op)"
      "watermark (attempt nonce_step db op) s n = Some x" "\<forall>p. watermark db s n = Some p \<longrightarrow> p < x"
    with ih have above: "\<forall>y \<in> set (issued_to s n ops (attempt nonce_step db op)). x < y" by blast
    then have "\<forall>p. watermark db s n = Some p \<longrightarrow> (\<forall>y \<in> set (x # issued_to s n ops (attempt nonce_step db op)). p < y)"
      using step(3) by fastforce
    with ih above step(2) show ?case unfolding step(1) by simp
  qed (use ih in simp)
qed

lemma filter_distinct_key:
  "distinct (map f xs) \<Longrightarrow> r \<in> set xs \<Longrightarrow> filter (\<lambda>x. f x = f r) xs = [r]"
proof (induction xs)
  case (Cons x xs)
  show ?case
  proof (cases "r = x")
    case True
    with Cons.prems(1) have fresh: "f r \<notin> f ` set xs" by simp
    have "f y \<noteq> f r" if "y \<in> set xs" for y using fresh imageI [OF that, of f] by metis
    then have "\<forall>y \<in> set xs. f y \<noteq> f r" by blast
    with True show ?thesis by simp
  next
    case False
    with Cons.prems have "f x \<noteq> f r" by auto
    with Cons False show ?thesis by simp
  qed
qed simp

lemma distinct_from_unlike:
  assumes "sorted_wrt (\<lambda>a b. \<not> same_reservation b a) xs" "\<And>a b. f a = f b \<Longrightarrow> same_reservation b a"
  shows "distinct (map f xs)"
  using assms(1) by (induction xs) (auto dest: assms(2))

lemma unique_reservations:
  assumes "nonce_inv db"
  shows "distinct (map command_phase (nd_reservations db))" "distinct (map nonce_key (nd_reservations db))"
    "distinct (map (\<lambda>r. qb_binding_hash (qr_binding r)) (nd_reservations db))"
    "distinct (map (\<lambda>r. qb_signing_authority_hash (qr_binding r)) (nd_reservations db))"
  using assms unfolding nonce_inv_def
  by (auto intro!: distinct_from_unlike simp: same_reservation_def)

lemma verify_reservations_ok:
  "\<forall>r \<in> set rows. verify_reservation r = Inr () \<and> covered db r \<Longrightarrow> verify_reservations db rows = Inr ()"
  by (induction rows) (auto simp: reservation_from_row_def covered_def split: option.splits)

section \<open>A sample signer\<close>

definition sample_signer :: string where "sample_signer = ''0x'' @ replicate 40 CHR ''a''"

definition sample_nonce_args :: nonce_binding where
  "sample_nonce_args =
     \<lparr> qb_signer_address = sample_signer, qb_network = HL_TESTNET, qb_command_id = ''c1'', qb_phase = ''place'',
       qb_action_hash = replicate 64 CHR ''0'', qb_signing_authority_hash = replicate 64 CHR ''1'',
       qb_authority_issued_at_ms = 1, qb_lease_expires_at_ms = 20, qb_action_expires_at_ms = 20,
       qb_expires_after_ms = 10, qb_binding_hash = [] \<rparr>"

lemma sample_signer_shaped: "signer_shaped sample_signer"
  by (simp add: signer_shaped_def sample_signer_def list_all_iff is_lower_hex_def)

lemma binding_digest_total: "\<exists>h. binding_digest b = Inr h \<and> sha256_shaped h"
  unfolding binding_digest_def binding_material_def by (rule record_hash_total) simp_all

lemma reservation_digest_total: "\<exists>h. reservation_digest r = Inr h \<and> sha256_shaped h"
proof -
  have "is_ok (canonical_data (binding_material b))" for b
    unfolding binding_material_def by (rule is_ok_record_val) simp_all
  then show ?thesis unfolding reservation_digest_def reservation_material_def by (intro record_hash_total) auto
qed

lemma sample_reserved:
  "\<exists>b r after. build_nonce_binding sample_nonce_args = Inr b \<and> qb_command_id b = ''c1'' \<and> qb_phase b = ''place''
    \<and> allocate_qualification sample_signer HL_TESTNET b 5 empty_nonce_db = Inr (r, after) \<and> qr_nonce r = 5"
proof -
  let ?p = "sample_nonce_args\<lparr>qb_network := HL_TESTNET, qb_binding_hash := replicate 64 CHR ''0''\<rparr>"
  obtain h where h: "binding_digest ?p = Inr h" "sha256_shaped h" using binding_digest_total by blast
  define b where "b = ?p\<lparr>qb_binding_hash := h\<rparr>"
  have d: "binding_digest b = Inr h" using h(1) by (simp add: b_def binding_digest_def binding_material_def)
  have "sha256_shaped (replicate 64 CHR ''0'')" "sha256_shaped (replicate 64 CHR ''1'')"
    by (simp_all add: sha256_shaped_def list_all_iff is_lower_hex_def)
  moreover have "identifier_shaped ''c1''" by code_simp
  ultimately have ok: "verify_binding b = Inr ()"
    using sample_signer_shaped h(2) d
    by (simp add: verify_binding_def require.simps b_def sample_nonce_args_def phases_def)
  have built: "build_nonce_binding sample_nonce_args = Inr b"
    using h(1) ok by (simp add: build_nonce_binding_def b_def)
  let ?q = "\<lparr> qr_binding = b, qr_nonce = 5, qr_allocated_at_ms = 5, qr_reservation_hash = replicate 64 CHR ''0'' \<rparr>"
  obtain k where k: "reservation_digest ?q = Inr k" "sha256_shaped k" using reservation_digest_total by blast
  define r where "r = ?q\<lparr>qr_reservation_hash := k\<rparr>"
  have "reservation_digest r = Inr k" using k(1) by (simp add: r_def reservation_digest_def reservation_material_def)
  then have r_ok: "verify_reservation r = Inr ()"
    using ok k(2) by (simp add: verify_reservation_def require.simps r_def b_def sample_nonce_args_def)
  have locked: "allocate_locked sample_signer HL_TESTNET 5 empty_nonce_db
      = Inr (5, put_watermark sample_signer HL_TESTNET 5 empty_nonce_db)"
    by (simp add: allocate_locked_def watermark_def table_find_def empty_nonce_db_def require.simps)
  have ids: "qb_signer_address b = sample_signer" "qb_network b = HL_TESTNET" "\<not> already_reserved b empty_nonce_db"
    by (simp_all add: b_def sample_nonce_args_def already_reserved_def empty_nonce_db_def)
  obtain after where ins: "insert_reservation r (put_watermark sample_signer HL_TESTNET 5 empty_nonce_db) = Inr after"
    by (simp add: insert_reservation_def empty_nonce_db_def)
  have "allocate_qualification sample_signer HL_TESTNET b 5 empty_nonce_db = Inr (r, after)"
    unfolding allocate_qualification_def Let_def ok bindE_simps locked prod.case k(1) r_def [symmetric] r_ok ins
    by (simp add: require.simps ids)
  moreover have "qr_nonce r = 5" "qb_command_id b = ''c1''" "qb_phase b = ''place''"
    by (simp_all add: r_def b_def sample_nonce_args_def)
  ultimately show ?thesis using built by blast
qed

section \<open>Properties\<close>

text \<open>C16: Over any interleaving of openings, allocations and reservations by any allocators, with
  clocks that may go backwards, the nonces handed out to one signer on one network strictly
  increase, and its watermark is the last of them.\<close>

theorem nonces_strictly_increase:
  "sorted_wrt (<) (issued_to s n ops empty_nonce_db)
   \<and> watermark (run_ops nonce_step empty_nonce_db ops) s n
     = (if issued_to s n ops empty_nonce_db = [] then None else Some (last (issued_to s n ops empty_nonce_db)))"
proof -
  have "watermark empty_nonce_db s n = None"
    by (simp add: watermark_def empty_nonce_db_def table_find_def)
  with issued_increase [of s n ops empty_nonce_db] show ?thesis by simp
qed

text \<open>C17: In every reachable nonce store each reservation verifies and is covered by its signer's
  watermark, and no two reservations share a nonce, a binding, a signing authority, or a command
  and phase.\<close>

theorem nonce_reservations_covered:
  "nonce_inv (run_ops nonce_step empty_nonce_db ops)
   \<and> list_all (\<lambda>r. is_ok (verify_reservation r) \<and> covered (run_ops nonce_step empty_nonce_db ops) r)
       (nd_reservations (run_ops nonce_step empty_nonce_db ops))
   \<and> distinct (map command_phase (nd_reservations (run_ops nonce_step empty_nonce_db ops)))
   \<and> distinct (map nonce_key (nd_reservations (run_ops nonce_step empty_nonce_db ops)))
   \<and> distinct (map (\<lambda>r. qb_signing_authority_hash (qr_binding r)) (nd_reservations (run_ops nonce_step empty_nonce_db ops)))"
proof -
  have inv: "nonce_inv (run_ops nonce_step empty_nonce_db ops)"
    by (rule nonce_store.reachable_inv) simp
  then have "list_all (\<lambda>r. is_ok (verify_reservation r) \<and> covered (run_ops nonce_step empty_nonce_db ops) r)
       (nd_reservations (run_ops nonce_step empty_nonce_db ops))"
    by (simp add: nonce_inv_def list_all_iff)
  with inv unique_reservations [OF inv] show ?thesis by blast
qed

text \<open>C18: A reservation is permanent: after any further history it is read back as it was, by its
  binding and by its command and phase, and no binding with its hash, its signing authority or its
  command and phase is ever given another nonce.\<close>

theorem reservation_permanent:
  assumes "allocate_qualification s n b now (run_ops nonce_step empty_nonce_db ops) = Inr (r, after)"
  shows "find_qualification_reservation s n (qb_command_id b) (qb_phase b) (run_ops nonce_step after later) = Inr (Some r)
    \<and> qualification_reservation (qb_binding_hash b) (run_ops nonce_step after later) = Inr r
    \<and> (qb_binding_hash c \<noteq> qb_binding_hash b \<and> qb_signing_authority_hash c \<noteq> qb_signing_authority_hash b
        \<and> (qb_command_id c, qb_phase c) \<noteq> (qb_command_id b, qb_phase b)
      \<or> \<not> is_ok (allocate_qualification t m c then_ms (run_ops nonce_step after later)))"
proof -
  note e = allocate_qualification_effect [OF assms]
  have start: "nonce_inv (run_ops nonce_step empty_nonce_db ops)" by (rule nonce_store.reachable_inv) simp
  have inv: "nonce_inv after"
    by (rule nonce_step_inv [OF start, of "Reserve s n b now"]) (simp add: assms)
  let ?db = "run_ops nonce_step after later"
  have inv': "nonce_inv ?db" using inv by (rule nonce_store.run_inv)
  have "nonce_later after ?db" using inv by (rule nonce_store.run_below)
  then have r: "r \<in> set (nd_reservations ?db)" using e by (auto simp: nonce_later_def)
  have fields: "qr_binding r = b" "command_phase r = (qb_command_id b, qb_phase b)"
    "qb_signer_address b = s" "qb_network b = n" "verify_reservation r = Inr ()"
    using e by (simp_all add: command_phase_def)
  then have shape: "identifier_shaped (qb_command_id b)" "qb_phase b \<in> set phases" "sha256_shaped (qb_binding_hash b)"
    by (auto simp: verify_reservation_def verify_binding_def)
  have "filter (\<lambda>x. command_phase x = (qb_command_id b, qb_phase b)) (nd_reservations ?db) = [r]"
    using filter_distinct_key [OF unique_reservations(1) [OF inv'] r] fields(2) by simp
  then have 1: "find_qualification_reservation s n (qb_command_id b) (qb_phase b) ?db = Inr (Some r)"
    using fields shape by (simp add: find_qualification_reservation_def reservation_from_row_def require.simps)
  have "find (\<lambda>x. qb_binding_hash (qr_binding x) = qb_binding_hash b) (nd_reservations ?db) = Some r"
    using table_find_distinct [OF unique_reservations(3) [OF inv'] r] fields(1) by (simp add: table_find_def)
  then have 2: "qualification_reservation (qb_binding_hash b) ?db = Inr r"
    using fields(5) shape(3) by (simp add: qualification_reservation_def reservation_from_row_def of_option_def)
  have "\<not> is_ok (allocate_qualification t m c then_ms ?db)" if "already_reserved c ?db"
    using that allocate_qualification_effect [of t m c then_ms ?db] by (auto simp: is_ok_def split: sum.splits)
  moreover have "already_reserved c ?db"
    if "qb_binding_hash c = qb_binding_hash b \<or> qb_signing_authority_hash c = qb_signing_authority_hash b
      \<or> (qb_command_id c, qb_phase c) = (qb_command_id b, qb_phase b)"
    using that r fields(1,2) by (auto simp: already_reserved_def list_ex_iff)
  ultimately show ?thesis using 1 2 by blast
qed

lemma reservation_permanent_witness:
  "\<exists>b r after. build_nonce_binding sample_nonce_args = Inr b
    \<and> allocate_qualification sample_signer HL_TESTNET b 5 empty_nonce_db = Inr (r, after) \<and> qr_nonce r = 5
    \<and> find_qualification_reservation sample_signer HL_TESTNET ''c1'' ''place''
        (run_ops nonce_step after [Allocate sample_signer HL_TESTNET 3]) = Inr (Some r)
    \<and> \<not> is_ok (allocate_qualification sample_signer HL_TESTNET b 6
        (run_ops nonce_step after [Allocate sample_signer HL_TESTNET 3]))"
proof -
  obtain b r after where b: "build_nonce_binding sample_nonce_args = Inr b" "qb_command_id b = ''c1''" "qb_phase b = ''place''"
    and r: "allocate_qualification sample_signer HL_TESTNET b 5 (run_ops nonce_step empty_nonce_db []) = Inr (r, after)"
      "qr_nonce r = 5"
    using sample_reserved unfolding run_ops_simps by (elim exE conjE)
  note p = reservation_permanent [OF r(1), of "[Allocate sample_signer HL_TESTNET 3]" b sample_signer HL_TESTNET 6]
  have "find_qualification_reservation sample_signer HL_TESTNET ''c1'' ''place''
        (run_ops nonce_step after [Allocate sample_signer HL_TESTNET 3]) = Inr (Some r)"
    using p [THEN conjunct1] unfolding b(2,3) .
  moreover have "\<not> is_ok (allocate_qualification sample_signer HL_TESTNET b 6
        (run_ops nonce_step after [Allocate sample_signer HL_TESTNET 3]))"
    using p [THEN conjunct2, THEN conjunct2] by (simp only: simp_thms)
  ultimately show ?thesis using b(1) r [unfolded run_ops_simps] by (intro exI conjI)
qed

text \<open>A store that was opened once for a signer opens again for it after any further history:
  every check of the verifying constructor passes and the store is left as it is.\<close>

theorem opened_store_reopens:
  assumes "open_allocator s n must (run_ops nonce_step empty_nonce_db ops) = Inr db"
  shows "open_allocator s n True (run_ops nonce_step db later) = Inr (run_ops nonce_step db later)
    \<and> is_ok (last_allocated s n (run_ops nonce_step db later))"
proof -
  have start: "nonce_inv (run_ops nonce_step empty_nonce_db ops)" by (rule nonce_store.reachable_inv) simp
  note e = open_allocator_effect [OF assms]
  have inv: "nonce_inv db"
    by (rule nonce_step_inv [OF start, of "Open_Store s n must"]) (simp add: assms)
  let ?db = "run_ops nonce_step db later"
  have inv': "nonce_inv ?db" using inv by (rule nonce_store.run_inv)
  have "nonce_later db ?db" using inv by (rule nonce_store.run_below)
  then have "set (nd_bindings db) \<subseteq> set (nd_bindings ?db)" by (simp add: nonce_later_def)
  then have bound: "(s, n) \<in> set (map bound_key (nd_bindings ?db))" using e by auto
  then have "nd_bindings ?db \<noteq> []" by auto
  then have facts: "nd_migrations ?db = [schema_row]" "list_all binding_row_ok (nd_bindings ?db)"
      "verify_reservations ?db (nd_reservations ?db) = Inr ()"
    using inv' verify_reservations_ok by (auto simp: nonce_inv_def)
  have "pred_option (\<lambda>x. 0 \<le> x) (watermark ?db s n)"
    using inv' by (cases "watermark ?db s n") (auto simp: nonce_inv_def)
  with facts bound e show ?thesis
    by (simp add: open_allocator_def verify_migrations_def schema_row_def bind_or_verify_def last_allocated_def)
qed

lemma opened_store_reopens_witness:
  "\<exists>db. open_allocator sample_signer HL_TESTNET False empty_nonce_db = Inr db
    \<and> open_allocator sample_signer HL_TESTNET True (run_ops nonce_step db [Allocate sample_signer HL_TESTNET 7])
      = Inr (run_ops nonce_step db [Allocate sample_signer HL_TESTNET 7])"
proof -
  have "is_ok (open_allocator sample_signer HL_TESTNET False (run_ops nonce_step empty_nonce_db []))"
    by (simp add: open_allocator_def migrate_nonces_def verify_migrations_def bind_or_verify_def
        empty_nonce_db_def sample_signer_shaped)
  then obtain db where db: "open_allocator sample_signer HL_TESTNET False (run_ops nonce_step empty_nonce_db []) = Inr db"
    by (elim is_okE)
  from opened_store_reopens [OF db, of "[Allocate sample_signer HL_TESTNET 7]"] db [unfolded run_ops_simps]
  show ?thesis by (intro exI [of _ db] conjI) (assumption | rule conjunct1, assumption)+
qed

end
