(* ===== verification/Wire_Properties.thy ===== *)
theory Wire_Properties
  imports Wire Quote_Properties
begin

text \<open>
  The properties of the wire encoding: an action carries the plan's legs unchanged, its numbers
  fit the venue's tick rules whenever the ambient context holds them exactly, and one that does not
  fit shows that the check depends on that context.
\<close>

section \<open>Numbers\<close>

lemma text_without_point:
  assumes "canonical_decimal d = Inr s" "0 < dval d" "CHR ''.'' \<notin> set s"
  shows "dval d \<in> \<int>"
proof -
  from assms(2) have pos: "0 < coeff d" by (simp add: dval_pos_iff)
  with assms(1) have "s = magnitude_text d" by (simp add: canonical_decimal_Inr_iff canonical_text_magnitude)
  moreover have "fixed_val (magnitude_text d) = dval d" using magnitude_text_fixed [of d] assms(2) by simp
  ultimately have "dval d = of_int (digits_val s)" using fixed_val_point(2) [OF assms(3)] by simp
  then show ?thesis by simp
qed

lemma normalized_value:
  assumes "dnormalize amb d = Inr n" "dfix amb d = Inr d"
  shows "dval n = dval d"
proof (cases "coeff d = 0")
  case False
  with assms have "n = shorten (e_max amb) (coeff d) (expo d)" by (simp add: dnormalize_def)
  then have "dval n = of_int (coeff d) * 10 powi expo d" by (simp only: dval_shorten)
  then show ?thesis by (simp only: dval_def)
qed (use assms in \<open>auto simp: dnormalize_def dval_def\<close>)

lemma places_integral:
  assumes "fractional_places amb d = Inr k" "dfix amb d = Inr d" "k \<le> int j"
  shows "dval d * 10 ^ j \<in> \<int>"
proof -
  from assms(1) obtain n where n: "dnormalize amb d = Inr n" "k = max 0 (- expo n)"
    by (auto simp: fractional_places_def)
  then have "0 \<le> expo n + int j" using assms(3) by linarith
  then have "(10 :: rat) powi (expo n + int j) = of_int (10 ^ nat (expo n + int j))" by (simp add: power_int_def)
  moreover have "(10 :: rat) powi (expo n + int j) = 10 powi expo n * 10 ^ j" by (simp add: power_int_add)
  ultimately have "dval n * 10 ^ j = of_int (coeff n * 10 ^ nat (expo n + int j))"
    unfolding dval_def by (simp only: of_int_mult mult.assoc)
  with normalized_value [OF n(1) assms(2)] show ?thesis by (metis Ints_of_int)
qed

lemma digits_few:
  assumes "significant_digits amb d = Inr k" "dfix amb d = Inr d" "k \<le> 5"
  shows "\<exists>z e. dval d = of_int z * 10 powi e \<and> \<bar>z\<bar> < 10 ^ 5"
proof -
  from assms(1) obtain n where n: "dnormalize amb d = Inr n" "k = (if coeff n = 0 then 1 else int (ndigits \<bar>coeff n\<bar>))"
    by (auto simp: significant_digits_def)
  have "\<bar>coeff n\<bar> < 10 ^ ndigits \<bar>coeff n\<bar>" using ndigits_upper [of "\<bar>coeff n\<bar>"] by simp
  moreover have "(10 :: int) ^ ndigits \<bar>coeff n\<bar> \<le> 10 ^ 5" if "coeff n \<noteq> 0"
    using that n(2) assms(3) by (intro power_increasing) auto
  ultimately have "\<bar>coeff n\<bar> < 10 ^ 5" by (cases "coeff n = 0") auto
  with normalized_value [OF n(1) assms(2)] show ?thesis unfolding dval_def by metis
qed

lemma format_perp_size_text:
  assumes "format_perp_size amb d k = Inr s"
  shows "canonical_decimal d = Inr s \<and> 0 < dval d \<and> 0 \<le> k \<and> k \<le> 8
    \<and> (\<exists>places. fractional_places amb d = Inr places \<and> places \<le> k)"
  using assms unfolding format_perp_size_def bindE_Inr_iff
  by (elim exE conjE) (simp add: not_le dval_simps)

lemma format_perp_price_text:
  assumes "format_perp_price amb d k = Inr s"
  shows "canonical_decimal d = Inr s \<and> 0 < dval d \<and> 0 \<le> k \<and> k \<le> 6
    \<and> (CHR ''.'' \<in> set s \<longrightarrow> (\<exists>places digits. fractional_places amb d = Inr places \<and> places \<le> 6 - k
        \<and> significant_digits amb d = Inr digits \<and> digits \<le> 5))"
  using assms unfolding format_perp_price_def bindE_Inr_iff
  by (elim exE conjE) (auto simp: not_le not_less dval_simps split: if_splits)

section \<open>Examples\<close>

lemma wire_texts:
  "format_perp_price sample_ambient (Dec 100200 (- 3)) 2 = Inr ''100.2''"
  "format_perp_price sample_ambient (Dec 8910 (- 2)) 2 = Inr ''89.1''"
  "format_perp_price sample_ambient (Dec 90 0) 2 = Inr ''90''"
  "format_perp_price sample_ambient (Dec 1339 (- 1)) 2 = Inr ''133.9''"
  "format_perp_size sample_ambient (Dec 2 0) 2 = Inr ''2''"
  by code_simp+

definition long_size :: decimal where "long_size = Dec 10000000000000000000000000001 (- 28)"

lemma long_size_accepted: "format_perp_size sample_ambient long_size 0 = Inr ''1.0000000000000000000000000001''"
  by code_simp


definition wire_leg :: "semantic_intent \<Rightarrow> semantic_intent" where
  "wire_leg i = i\<lparr>si_venue := ''hyperliquid''\<rparr>"

definition wire_plan :: "string \<Rightarrow> protected_plan" where
  "wire_plan h =
     \<lparr> pp_assessment_hash = sample_digest, pp_entry = wire_leg (pp_entry (sample_plan h)),
       pp_stop = wire_leg (pp_stop (sample_plan h)), pp_target = wire_leg (pp_target (sample_plan h)),
       pp_plan_hash = h \<rparr>"

definition sample_metadata :: perp_metadata where
  "sample_metadata =
     \<lparr> im_symbol = ''BTC'', im_asset_id = 3, im_sz_decimals = 2, im_max_leverage = Dec 40 0,
       im_margin_mode = ''cross'', im_is_delisted = False, im_source_hash = sample_digest \<rparr>"

lemma wire_plan_made: "\<exists>h. make_plan (wire_plan h) = Inr (wire_plan h)"
proof -
  have venue: "intent_ok i \<Longrightarrow> intent_ok (wire_leg i)" for i
    by (simp add: intent_ok_def wire_leg_def intent_texts_def) code_simp
  have "intent_ok (pp_entry (wire_plan ''''))" "intent_ok (pp_stop (wire_plan ''''))" "intent_ok (pp_target (wire_plan ''''))"
    using sample_legs [where h = "''''", THEN make_intent_ok] venue by (simp_all add: wire_plan_def)
  then obtain h where h: "payload_hash (plan_payload (wire_plan '''')) = Inr h" "sha256_shaped h"
    using plan_payload_hash_total by blast
  have payload: "plan_payload (wire_plan k) = plan_payload (wire_plan '''')" for k
    by (simp add: plan_payload_def wire_plan_def sample_plan_def)
  have "legs_agree (wire_plan h)" "leg_roles (wire_plan h)" "leg_prices (wire_plan h)"
      "distinct (leg_ids (wire_plan h))" "list_all cloid_shaped (leg_ids (wire_plan h))"
    by (simp_all add: legs_agree_def leg_roles_def leg_prices_def leg_ids_def wire_plan_def wire_leg_def sample_plan_def
        sample_leg_def shared_fields_def cloid_shaped_def is_lower_hex_def decimal_eval)
  then have "make_plan (wire_plan h) = Inr (wire_plan h)"
    using sample_digest_shaped h(1) by (simp add: make_plan_Inr_iff plan_ok_def payload [of h]) (simp add: wire_plan_def)
  then show ?thesis by blast
qed

lemma order_kind_val_ok: "is_ok (canonical_data (order_kind_val k))"
  by (cases k) (auto intro!: is_ok_record_val)

lemma action_hash_total: "\<exists>h. domain_hash ''trading-harness/hyperliquid-action/v1'' (action_binding a) = Inr h"
proof -
  have "is_ok (canonical_data (wire_order_val w))" for w
    unfolding wire_order_val_def using order_kind_val_ok by (intro is_ok_record_val) auto
  moreover have plain: "is_ok (canonical_data (PStr x))" for x by simp
  ultimately have "is_ok (canonical_data (PList (map wire_order_val ws)))" for ws by (intro is_ok_PList) auto
  then have "is_ok (canonical_data (action_val ws))" for ws
    unfolding action_val_def using plain by (intro is_ok_record_val) (simp_all only: list.set ball_simps length_Cons list.size simp_thms)
  then have "\<exists>h. domain_hash ''trading-harness/hyperliquid-action/v1'' (action_binding a) = Inr h \<and> sha256_shaped h"
    unfolding action_binding_def by (intro record_hash_total) auto
  then show ?thesis by blast
qed

lemma wire_plan_encoded:
  "\<exists>a. build_order_action sample_ambient to_ms (wire_plan h) sample_metadata HL_TESTNET 30 = Inr a"
proof -
  have first: "limit_wire sample_ambient (pp_entry (wire_plan h)) 3 2 = Inr
      \<lparr> wo_asset = 3, wo_buy = True, wo_price = ''100.2'', wo_size = ''2'', wo_reduce_only = False,
        wo_kind = Limit_Ioc, wo_cloid = ''0x2ce4923ca7c415f88da83ab7aeba13d6'' \<rparr>"
    and second: "trigger_wire sample_ambient (pp_stop (wire_plan h)) 3 2 TK_SL = Inr
      \<lparr> wo_asset = 3, wo_buy = False, wo_price = ''89.1'', wo_size = ''2'', wo_reduce_only = True,
        wo_kind = Trigger ''90'' TK_SL, wo_cloid = ''0x002cec8856eafe97f8de2679e8b61ce3'' \<rparr>"
    and third: "trigger_wire sample_ambient (pp_target (wire_plan h)) 3 2 TK_TP = Inr
      \<lparr> wo_asset = 3, wo_buy = False, wo_price = ''133.9'', wo_size = ''2'', wo_reduce_only = True,
        wo_kind = Trigger ''133.9'' TK_TP, wo_cloid = ''0xd70325d68d953dd0000b2044a0c5ff3a'' \<rparr>"
    by (simp_all add: limit_wire_def trigger_wire_def trigger_limit_def wire_plan_def wire_leg_def sample_plan_def
        sample_leg_def of_option_def require.simps wire_texts cloid_shaped_def is_lower_hex_def)
  have notional: "dmul sample_ambient (Dec 2 0) (Dec 100200 (- 3)) = Inr (Dec 200400 (- 3))"
    "\<not> Dec 200400 (- 3) < min_perp_notional" "\<not> Dec 40 0 < Dec 2 0"
    by (simp_all add: decimal_eval sample_ambient_def min_perp_notional_def)
  have entry: "si_venue (pp_entry (wire_plan h)) = ''hyperliquid''" "si_environment (pp_entry (wire_plan h)) = TESTNET"
    "si_instrument (pp_entry (wire_plan h)) = ''BTC''" "si_leverage (pp_entry (wire_plan h)) = Some (Dec 2 0)"
    "si_expires_at (pp_entry (wire_plan h)) = 60000030" "si_price_bound (pp_entry (wire_plan h)) = Some (Dec 100200 (- 3))"
    "si_quantity (pp_entry (wire_plan h)) = Dec 2 0"
    by (simp_all add: wire_plan_def wire_leg_def sample_plan_def sample_leg_def)
  have meta: "im_symbol sample_metadata = ''BTC''" "im_asset_id sample_metadata = 3" "im_sz_decimals sample_metadata = 2"
    "im_max_leverage sample_metadata = Dec 40 0" "\<not> im_is_delisted sample_metadata"
    by (simp_all add: sample_metadata_def)
  show ?thesis
    unfolding build_order_action_def Let_def entry meta(1-4) first second third of_option_def option.case bindE_simps notional(1)
    using meta(5) notional(2,3) action_hash_total by (simp add: require.simps)
qed

section \<open>What an action carries\<close>

definition reads_as :: "string \<Rightarrow> decimal \<Rightarrow> bool" where
  "reads_as s d = (case parse_decimal s of None \<Rightarrow> False | Some r \<Rightarrow> dval r = dval d)"

definition carries :: "wire_order \<Rightarrow> semantic_intent \<Rightarrow> decimal \<Rightarrow> bool" where
  "carries w i price =
     (wo_buy w = (si_side i = BUY) \<and> wo_cloid w = si_client_order_id i \<and> reads_as (wo_price w) price
      \<and> reads_as (wo_size w) (si_quantity i))"

lemma canonical_reads_as: "canonical_decimal d = Inr s \<Longrightarrow> reads_as s d"
  using canonical_decimal_roundtrip by (fastforce simp: reads_as_def)

lemma limit_wire_carries:
  assumes "limit_wire amb i asset k = Inr w"
  shows "\<exists>price. si_price_bound i = Some price \<and> carries w i price \<and> wo_kind w = Limit_Ioc \<and> \<not> wo_reduce_only w
    \<and> wo_asset w = asset \<and> canonical_decimal (si_quantity i) = Inr (wo_size w)"
  using assms unfolding limit_wire_def bindE_Inr_iff
  by (elim exE conjE) (auto simp: carries_def dest!: format_perp_price_text format_perp_size_text intro: canonical_reads_as)

lemma trigger_wire_carries:
  assumes "trigger_wire amb i asset k kind = Inr w"
  shows "\<exists>price stop x. si_price_bound i = Some price \<and> si_stop_price i = Some stop
    \<and> carries w i (trigger_limit kind i price) \<and> wo_kind w = Trigger x kind \<and> reads_as x stop \<and> wo_reduce_only w
    \<and> wo_asset w = asset \<and> canonical_decimal (si_quantity i) = Inr (wo_size w)"
  using assms unfolding trigger_wire_def bindE_Inr_iff
  by (elim exE conjE) (auto simp: carries_def dest!: format_perp_price_text format_perp_size_text intro: canonical_reads_as)

lemma build_order_action_parts:
  assumes "build_order_action amb to_ms p m network t = Inr a"
  shows "si_venue (pp_entry p) = ''hyperliquid'' \<and> si_environment (pp_entry p) = hl_environment network
    \<and> si_instrument (pp_entry p) \<in> {im_symbol m, im_symbol m @ ''-PERP''} \<and> \<not> im_is_delisted m
    \<and> (\<exists>l. si_leverage (pp_entry p) = Some l \<and> l \<le> im_max_leverage m) \<and> t < si_expires_at (pp_entry p)
    \<and> wa_network a = network \<and> wa_plan_hash a = pp_plan_hash p
    \<and> domain_hash ''trading-harness/hyperliquid-action/v1'' (action_binding a) = Inr (wa_action_hash a)
    \<and> (\<exists>e s g. wa_orders a = [e, s, g] \<and> limit_wire amb (pp_entry p) (im_asset_id m) (im_sz_decimals m) = Inr e
      \<and> trigger_wire amb (pp_stop p) (im_asset_id m) (im_sz_decimals m) TK_SL = Inr s
      \<and> trigger_wire amb (pp_target p) (im_asset_id m) (im_sz_decimals m) TK_TP = Inr g)"
proof -
  have leverage: "(case x of None \<Rightarrow> False | Some l \<Rightarrow> \<not> im_max_leverage m < l)
      \<longleftrightarrow> (\<exists>l. x = Some l \<and> l \<le> im_max_leverage m)" for x
    by (cases x) (auto simp: not_less_decimal)
  show ?thesis
    using assms unfolding build_order_action_def Let_def bindE_Inr_iff leverage
    by (elim exE conjE) (auto simp: action_binding_def)
qed

section \<open>Properties\<close>

text \<open>C31: An action built from a protected plan is the plan on the wire: the plan is live, of the
  network's environment and within the instrument's leverage; the first order is the IOC entry, the
  other two are reduce-only triggers on the other side with the entry's size; each carries its
  leg's side, order ID, price, trigger and quantity exactly, and the action hash covers them.\<close>

theorem wire_action_faithful:
  assumes "make_plan p = Inr q" "build_order_action amb to_ms p m network t = Inr a"
  shows "t < si_expires_at (pp_entry p) \<and> si_environment (pp_entry p) = hl_environment network
    \<and> (\<exists>l. si_leverage (pp_entry p) = Some l \<and> l \<le> im_max_leverage m) \<and> \<not> im_is_delisted m
    \<and> wa_plan_hash a = pp_plan_hash p
    \<and> domain_hash ''trading-harness/hyperliquid-action/v1'' (action_binding a) = Inr (wa_action_hash a)
    \<and> (\<exists>e s g entry stop target stop_bound target_bound trigger_stop trigger_target.
        wa_orders a = [e, s, g] \<and> list_all (\<lambda>w. wo_asset w = im_asset_id m) [e, s, g]
        \<and> si_price_bound (pp_entry p) = Some entry \<and> si_stop_price (pp_stop p) = Some stop
        \<and> si_stop_price (pp_target p) = Some target
        \<and> si_price_bound (pp_stop p) = Some stop_bound \<and> si_price_bound (pp_target p) = Some target_bound
        \<and> carries e (pp_entry p) entry \<and> wo_kind e = Limit_Ioc \<and> \<not> wo_reduce_only e
        \<and> carries s (pp_stop p) (trigger_limit TK_SL (pp_stop p) stop_bound)
        \<and> wo_kind s = Trigger trigger_stop TK_SL \<and> reads_as trigger_stop stop
        \<and> carries g (pp_target p) (trigger_limit TK_TP (pp_target p) target_bound)
        \<and> wo_kind g = Trigger trigger_target TK_TP \<and> reads_as trigger_target target
        \<and> wo_reduce_only s \<and> wo_reduce_only g \<and> wo_buy s \<noteq> wo_buy e \<and> wo_buy g \<noteq> wo_buy e
        \<and> wo_size s = wo_size e \<and> wo_size g = wo_size e \<and> distinct (map wo_cloid (wa_orders a))
        \<and> (if wo_buy e then stop < entry \<and> entry < target else target < entry \<and> entry < stop))"
proof -
  from assms(1) have plan: "legs_agree p" "leg_roles p" "leg_prices p" "distinct (leg_ids p)"
    by (simp_all add: make_plan_Inr_iff plan_ok_def)
  note parts = build_order_action_parts [OF assms(2)]
  then obtain e s g where orders: "wa_orders a = [e, s, g]"
    and wires: "limit_wire amb (pp_entry p) (im_asset_id m) (im_sz_decimals m) = Inr e"
      "trigger_wire amb (pp_stop p) (im_asset_id m) (im_sz_decimals m) TK_SL = Inr s"
      "trigger_wire amb (pp_target p) (im_asset_id m) (im_sz_decimals m) TK_TP = Inr g"
    by blast
  obtain entry where e: "si_price_bound (pp_entry p) = Some entry" "carries e (pp_entry p) entry" "wo_kind e = Limit_Ioc"
      "\<not> wo_reduce_only e" "wo_asset e = im_asset_id m" "canonical_decimal (si_quantity (pp_entry p)) = Inr (wo_size e)"
    using limit_wire_carries [OF wires(1)] by blast
  obtain stop_bound stop x where s: "si_price_bound (pp_stop p) = Some stop_bound" "si_stop_price (pp_stop p) = Some stop"
      "carries s (pp_stop p) (trigger_limit TK_SL (pp_stop p) stop_bound)" "wo_kind s = Trigger x TK_SL" "reads_as x stop"
      "wo_reduce_only s" "wo_asset s = im_asset_id m" "canonical_decimal (si_quantity (pp_stop p)) = Inr (wo_size s)"
    using trigger_wire_carries [OF wires(2)] by blast
  obtain target_bound target y where g: "si_price_bound (pp_target p) = Some target_bound" "si_stop_price (pp_target p) = Some target"
      "carries g (pp_target p) (trigger_limit TK_TP (pp_target p) target_bound)" "wo_kind g = Trigger y TK_TP" "reads_as y target"
      "wo_reduce_only g" "wo_asset g = im_asset_id m" "canonical_decimal (si_quantity (pp_target p)) = Inr (wo_size g)"
    using trigger_wire_carries [OF wires(3)] by blast
  have sizes: "wo_size s = wo_size e" "wo_size g = wo_size e"
    using plan(2) canonical_decimal_eq_iff [OF s(8) e(6)] canonical_decimal_eq_iff [OF g(8) e(6)]
    by (simp_all add: leg_roles_def Let_def deq_dval)
  have sides: "wo_buy s \<noteq> wo_buy e" "wo_buy g \<noteq> wo_buy e"
    using plan(2) e(2) s(3) g(3) by (auto simp: leg_roles_def Let_def carries_def) (metis side.exhaust)+
  have prices: "if wo_buy e then stop < entry \<and> entry < target else target < entry \<and> entry < stop"
    using plan(3) e(1,2) s(1,2) g(1,2) by (auto simp: leg_prices_def carries_def split: option.splits if_splits)
  have ids: "distinct (map wo_cloid (wa_orders a))"
    using plan(4) e(2) s(3) g(3) by (simp add: orders leg_ids_def carries_def)
  have assets: "list_all (\<lambda>w. wo_asset w = im_asset_id m) [e, s, g]" using e(5) s(7) g(7) by simp
  from parts show ?thesis
    by (elim conjE) (intro conjI; (assumption | rule exI conjI orders assets e(1-4) s(1-6) g(1-6) sides sizes ids prices)+)
qed


lemma wire_action_faithful_witness:
  "\<exists>h a e s g. make_plan (wire_plan h) = Inr (wire_plan h)
    \<and> build_order_action sample_ambient (\<lambda>t. t div 1000) (wire_plan h) sample_metadata HL_TESTNET 30 = Inr a
    \<and> wa_orders a = [e, s, g] \<and> wo_reduce_only s \<and> wo_size g = wo_size e"
proof -
  obtain h where h: "make_plan (wire_plan h) = Inr (wire_plan h)" using wire_plan_made by blast
  obtain a where a: "build_order_action sample_ambient (\<lambda>t. t div 1000) (wire_plan h) sample_metadata HL_TESTNET 30 = Inr a"
    using wire_plan_encoded by blast
  from wire_action_faithful [OF h a] obtain e s g where "wa_orders a = [e, s, g]" "wo_reduce_only s" "wo_size g = wo_size e"
    by (elim conjE exE) (rule that)
  with h a show ?thesis by (intro exI conjI)
qed

text \<open>C32: A size or price that passes the venue's checks fits its rules whenever the ambient context
  holds the number exactly: the size is a multiple of its lot, the price an integer or of at most
  five significant digits and no finer than its tick, and both texts read back as the numbers.\<close>

theorem wire_numbers_fit:
  assumes "format_perp_size amb q k = Inr s" "format_perp_price amb v k = Inr p"
    and "dfix amb q = Inr q" "dfix amb v = Inr v"
  shows "reads_as s q \<and> reads_as p v \<and> 0 < dval q \<and> 0 < dval v
    \<and> dval q * 10 ^ nat k \<in> \<int>
    \<and> (dval v \<in> \<int> \<or> dval v * 10 ^ nat (6 - k) \<in> \<int> \<and> (\<exists>z e. dval v = of_int z * 10 powi e \<and> \<bar>z\<bar> < 10 ^ 5))"
proof -
  note size = format_perp_size_text [OF assms(1)] and price = format_perp_price_text [OF assms(2)]
  from size obtain places where "fractional_places amb q = Inr places" "places \<le> int (nat k)" by auto
  from places_integral [OF this(1) assms(3) this(2)] have lot: "dval q * 10 ^ nat k \<in> \<int>" .
  have "dval v \<in> \<int> \<or> dval v * 10 ^ nat (6 - k) \<in> \<int> \<and> (\<exists>z e. dval v = of_int z * 10 powi e \<and> \<bar>z\<bar> < 10 ^ 5)"
  proof (cases "CHR ''.'' \<in> set p")
    case True
    with price obtain places digits where "fractional_places amb v = Inr places" "places \<le> int (nat (6 - k))"
      and digits: "significant_digits amb v = Inr digits" "digits \<le> 5" by auto
    from places_integral [OF this(1) assms(4) this(2)] digits_few [OF digits(1) assms(4) digits(2)]
    show ?thesis by blast
  qed (use text_without_point price in blast)
  with lot size price canonical_reads_as show ?thesis by blast
qed

lemma wire_numbers_fit_witness:
  "dval (Dec 2 0) * 10 ^ nat 2 \<in> \<int> \<and> 0 < dval (Dec 100200 (- 3))"
proof -
  have "dfix sample_ambient (Dec 2 0) = Inr (Dec 2 0)" "dfix sample_ambient (Dec 100200 (- 3)) = Inr (Dec 100200 (- 3))"
    by (simp_all add: sample_ambient_def decimal_eval)
  from wire_numbers_fit [OF wire_texts(5) wire_texts(1) this] show ?thesis by blast
qed

text \<open>The lot check normalises in the ambient context: with the default 28 digits a size of 29
  digits passes for whole lots although it is not one, and its text keeps all its decimals.\<close>

theorem wire_size_rounded_in_check:
  "format_perp_size sample_ambient long_size 0 = Inr ''1.0000000000000000000000000001''
   \<and> reads_as ''1.0000000000000000000000000001'' long_size \<and> dval long_size \<notin> \<int>"
proof -
  have accepted: "format_perp_size sample_ambient long_size 0 = Inr ''1.0000000000000000000000000001''"
    by (rule long_size_accepted)
  then have "reads_as ''1.0000000000000000000000000001'' long_size"
    using format_perp_size_text canonical_reads_as by blast
  moreover have "dval long_size \<notin> \<int>"
  proof
    assume "dval long_size \<in> \<int>"
    then obtain z where "dval long_size = of_int z" by (auto elim: Ints_cases)
    then have "(of_int 10000000000000000000000000001 :: rat) = of_int (z * 10 ^ 28)"
      by (simp add: long_size_def dval_def power_int_def field_simps)
    then have "10000000000000000000000000001 = z * 10 ^ 28" by (simp only: of_int_eq_iff)
    then have "(10000000000000000000000000001 :: int) mod 10 ^ 28 = z * 10 ^ 28 mod 10 ^ 28" by simp
    then show False by simp
  qed
  ultimately show ?thesis using accepted by blast
qed

end
