(* ===== verification/Daily_Loss.thy ===== *)
theory Daily_Loss
  imports Nonce
begin

text \<open>
  \<open>daily_loss.py\<close>: the durable ledger of the UTC day's losses. Economic events and the intervals of
  venue history they were read from are appended to two tables, a snapshot adds the debits of the
  day and decides whether both sources are covered without a gap from midnight on. The clock is an
  argument (\<open>None\<close> when it raises), a transaction is a function on the tables. The unary minus of
  \<open>Decimal\<close> works in the caller's ambient context, which is a parameter. The rows hold instants where
  the tables hold their fixed-width ISO text, and members of the enumerations where \<open>CHECK\<close>
  constraints admit no other text. Paths, pragmas, SQLite's integrity check and its catalogue
  (\<open>_connection\<close>, most of \<open>_verify_schema\<close>) are not modelled, \<open>as_dict\<close> of a snapshot is presentation.
\<close>

section \<open>Field checks\<close>

definition utc_time :: "pyval \<Rightarrow> instant result" where
  "utc_time v =
     (case v of PInstant t \<Rightarrow> bindE (guard (instant_ok t) ValidationError) (\<lambda>_. Inr t) | _ \<Rightarrow> Inl ValidationError)"

definition clock_read :: "pyval option \<Rightarrow> instant result" where
  "clock_read clock = bindE (of_option StorageError clock) utc_time"

definition loss_text :: "nat \<Rightarrow> pyval \<Rightarrow> string result" where
  "loss_text maximum v =
     (case v of PStr s \<Rightarrow> bounded_text ValidationError maximum s | _ \<Rightarrow> Inl ValidationError)"

text \<open>\<open>[a-zA-Z0-9][a-zA-Z0-9._:/-]{0,255}\<close> and \<open>[A-Z][A-Z0-9]{1,15}\<close>.\<close>

definition ledger_identifier :: "string \<Rightarrow> bool" where
  "ledger_identifier s =
     (case s of
        [] \<Rightarrow> False
      | c # cs \<Rightarrow> (is_letter c \<or> is_digit c) \<and> length cs \<le> 255
          \<and> list_all (\<lambda>d. is_letter d \<or> is_digit d \<or> d \<in> set ''._:/-'') cs)"

definition is_upper :: "char \<Rightarrow> bool" where
  "is_upper c = (let n = (of_char c :: nat) in 65 \<le> n \<and> n \<le> 90)"

definition currency_shaped :: "string \<Rightarrow> bool" where
  "currency_shaped s =
     (case s of
        [] \<Rightarrow> False
      | c # cs \<Rightarrow> is_upper c \<and> 1 \<le> length cs \<and> length cs \<le> 15 \<and> list_all (\<lambda>d. is_upper d \<or> is_digit d) cs)"

definition loss_identifier :: "pyval \<Rightarrow> string result" where
  "loss_identifier v =
     bindE (loss_text 256 v) (\<lambda>s. bindE (guard (ledger_identifier s) ValidationError) (\<lambda>_. Inr s))"

definition loss_sha256 :: "exn \<Rightarrow> pyval \<Rightarrow> string result" where
  "loss_sha256 e v =
     (case v of PStr s \<Rightarrow> bindE (guard (sha256_shaped s) e) (\<lambda>_. Inr s) | _ \<Rightarrow> Inl e)"

definition stored_decimal :: "string \<Rightarrow> decimal result" where
  "stored_decimal v =
     bindE (reraise StorageError (exact_decimal (In_Str v))) (\<lambda>d.
     bindE (canonical_decimal d) (\<lambda>s.
     bindE (guard (s = v) StorageError) (\<lambda>_. Inr d)))"

definition utc_day :: "instant \<Rightarrow> int" where
  "utc_day t = t div microsecond_day"

definition loss_day_start :: "instant \<Rightarrow> instant" where
  "loss_day_start t = utc_day t * microsecond_day"

section \<open>Events, sources and the binding\<close>

datatype loss_kind = Realized_Pnl | Fee | Funding_Payment

fun loss_kind_value :: "loss_kind \<Rightarrow> string" where
  "loss_kind_value Realized_Pnl = ''realized_pnl''"
| "loss_kind_value Fee = ''fee''"
| "loss_kind_value Funding_Payment = ''funding''"

datatype loss_source = Fills | Funding

fun loss_source_value :: "loss_source \<Rightarrow> string" where
  "loss_source_value Fills = ''fills''"
| "loss_source_value Funding = ''funding''"

definition loss_source_of :: "pyval \<Rightarrow> loss_source result" where
  "loss_source_of v =
     (if v = PStr ''fills'' then Inr Fills else if v = PStr ''funding'' then Inr Funding else Inl ValidationError)"

record loss_binding =
  lb_account_id :: string
  lb_environment :: environment
  lb_config_hash :: string
  lb_daily_loss_limit :: decimal
  lb_settlement_currency :: string

definition loss_environment :: "pyval \<Rightarrow> environment result" where
  "loss_environment v =
     of_option ValidationError (find (\<lambda>e. v = PStr (environment_value e)) [TESTNET, MAINNET, SHADOW])"

definition make_loss_binding ::
    "pyval \<Rightarrow> pyval \<Rightarrow> pyval \<Rightarrow> decimal_input \<Rightarrow> pyval \<Rightarrow> loss_binding result" where
  "make_loss_binding account_id environment config_hash daily_loss_limit settlement_currency =
     bindE (loss_identifier account_id) (\<lambda>account.
     bindE (loss_environment environment) (\<lambda>env.
     bindE (guard (env = TESTNET) ValidationError) (\<lambda>_.
     bindE (loss_sha256 ValidationError config_hash) (\<lambda>config.
     bindE (policy_positive daily_loss_limit) (\<lambda>limit.
     bindE (loss_text 16 settlement_currency) (\<lambda>currency.
     bindE (guard (currency_shaped currency) ValidationError) (\<lambda>_.
     Inr \<lparr> lb_account_id = account, lb_environment = env, lb_config_hash = config,
           lb_daily_loss_limit = limit, lb_settlement_currency = currency \<rparr>)))))))"

definition loss_binding_hash :: "loss_binding \<Rightarrow> string result" where
  "loss_binding_hash b =
     domain_hash ''trading-harness/daily-loss-binding/v1'' (record_val
       [''account_id'', ''environment'', ''config_hash'', ''daily_loss_limit'', ''settlement_currency'']
       [PStr (lb_account_id b), PStr (environment_value (lb_environment b)), PStr (lb_config_hash b),
        PDec (lb_daily_loss_limit b), PStr (lb_settlement_currency b)])"

section \<open>The tables\<close>

definition loss_schema_statements :: "string list" where
  "loss_schema_statements = map (joined [CHR 0x0A])
     [['''',
       ''    CREATE TABLE IF NOT EXISTS daily_loss_schema_migrations ('',
       ''        version INTEGER PRIMARY KEY,'',
       ''        name TEXT NOT NULL,'',
       ''        checksum TEXT NOT NULL,'',
       ''        applied_at TEXT NOT NULL'',
       ''    )'',
       ''    ''],
      ['''',
       ''    CREATE TABLE daily_loss_binding ('',
       ''        singleton INTEGER PRIMARY KEY CHECK (singleton = 1),'',
       ''        account_id TEXT NOT NULL,'',
       ''        environment TEXT NOT NULL CHECK (environment = 'testnet'),'',
       ''        config_hash TEXT NOT NULL,'',
       ''        binding_hash TEXT NOT NULL,'',
       ''        daily_loss_limit TEXT NOT NULL,'',
       ''        settlement_currency TEXT NOT NULL,'',
       ''        created_at TEXT NOT NULL'',
       ''    )'',
       ''    ''],
      ['''',
       ''    CREATE TABLE daily_loss_events ('',
       ''        event_id TEXT PRIMARY KEY,'',
       ''        source TEXT NOT NULL CHECK (source IN ('fills', 'funding')),'',
       ''        kind TEXT NOT NULL CHECK (kind IN ('realized_pnl', 'fee', 'funding')),'',
       ''        occurred_at TEXT NOT NULL,'',
       ''        observed_at TEXT NOT NULL,'',
       ''        amount TEXT NOT NULL,'',
       ''        debit TEXT NOT NULL,'',
       ''        source_ref_hash TEXT NOT NULL,'',
       ''        record_hash TEXT NOT NULL,'',
       ''        UNIQUE (source, kind, source_ref_hash)'',
       ''    )'',
       ''    ''],
      ['''',
       ''    CREATE INDEX idx_daily_loss_events_occurred'',
       ''    ON daily_loss_events (occurred_at, event_id)'',
       ''    ''],
      ['''',
       ''    CREATE TABLE daily_loss_coverage ('',
       ''        coverage_id TEXT PRIMARY KEY,'',
       ''        source TEXT NOT NULL CHECK (source IN ('fills', 'funding')),'',
       ''        covered_from TEXT NOT NULL,'',
       ''        covered_through TEXT NOT NULL,'',
       ''        observed_at TEXT NOT NULL,'',
       ''        source_cursor_hash TEXT NOT NULL,'',
       ''        record_hash TEXT NOT NULL,'',
       ''        UNIQUE (source, source_cursor_hash)'',
       ''    )'',
       ''    ''],
      ['''',
       ''    CREATE INDEX idx_daily_loss_coverage_window'',
       ''    ON daily_loss_coverage (source, covered_from, covered_through, coverage_id)'',
       ''    ''],
      ['''',
       ''    CREATE TRIGGER daily_loss_binding_no_update'',
       ''    BEFORE UPDATE ON daily_loss_binding'',
       ''    BEGIN SELECT RAISE(ABORT, 'daily-loss binding is immutable'); END'',
       ''    ''],
      ['''',
       ''    CREATE TRIGGER daily_loss_binding_no_delete'',
       ''    BEFORE DELETE ON daily_loss_binding'',
       ''    BEGIN SELECT RAISE(ABORT, 'daily-loss binding is immutable'); END'',
       ''    ''],
      ['''',
       ''    CREATE TRIGGER daily_loss_events_no_update'',
       ''    BEFORE UPDATE ON daily_loss_events'',
       ''    BEGIN SELECT RAISE(ABORT, 'daily-loss events are immutable'); END'',
       ''    ''],
      ['''',
       ''    CREATE TRIGGER daily_loss_events_no_delete'',
       ''    BEFORE DELETE ON daily_loss_events'',
       ''    BEGIN SELECT RAISE(ABORT, 'daily-loss events are immutable'); END'',
       ''    ''],
      ['''',
       ''    CREATE TRIGGER daily_loss_coverage_no_update'',
       ''    BEFORE UPDATE ON daily_loss_coverage'',
       ''    BEGIN SELECT RAISE(ABORT, 'daily-loss coverage is immutable'); END'',
       ''    ''],
      ['''',
       ''    CREATE TRIGGER daily_loss_coverage_no_delete'',
       ''    BEFORE DELETE ON daily_loss_coverage'',
       ''    BEGIN SELECT RAISE(ABORT, 'daily-loss coverage is immutable'); END'',
       ''    '']]"

definition loss_schema_version :: int where "loss_schema_version = 1"

definition loss_schema_name :: string where "loss_schema_name = ''monotonic_utc_daily_loss''"

definition loss_schema_checksum :: string where
  "loss_schema_checksum =
     sha256_hex (utf8 (joined ([CHR 0x0A] @ ''-- daily-loss schema statement --'' @ [CHR 0x0A]) loss_schema_statements))"

record loss_migration_row =
  lm_version :: int
  lm_name :: string
  lm_checksum :: string
  lm_applied_at :: instant

record loss_binding_row =
  lr_account_id :: string
  lr_environment :: string
  lr_config_hash :: string
  lr_binding_hash :: string
  lr_daily_loss_limit :: string
  lr_settlement_currency :: string
  lr_created_at :: instant

record loss_event_row =
  le_event_id :: string
  le_source :: loss_source
  le_kind :: loss_kind
  le_occurred_at :: instant
  le_observed_at :: instant
  le_amount :: string
  le_debit :: string
  le_source_ref_hash :: string
  le_record_hash :: string

record loss_coverage_row =
  lc_coverage_id :: string
  lc_source :: loss_source
  lc_covered_from :: instant
  lc_covered_through :: instant
  lc_observed_at :: instant
  lc_source_cursor_hash :: string
  lc_record_hash :: string

text \<open>\<open>ld_created\<close>: the tables of the first version exist.\<close>

record loss_db =
  ld_created :: bool
  ld_migrations :: "loss_migration_row list"
  ld_binding :: "loss_binding_row option"
  ld_events :: "loss_event_row list"
  ld_coverage :: "loss_coverage_row list"

definition empty_loss_db :: loss_db where
  "empty_loss_db =
     \<lparr> ld_created = False, ld_migrations = [], ld_binding = None, ld_events = [], ld_coverage = [] \<rparr>"

section \<open>Opening the ledger\<close>

definition migrate_losses :: "instant \<Rightarrow> loss_db \<Rightarrow> loss_db result" where
  "migrate_losses now db =
     (case find (\<lambda>m. lm_version m = loss_schema_version) (ld_migrations db) of
        None \<Rightarrow>
          bindE (guard (\<not> ld_created db) StorageError) (\<lambda>_.
          Inr (db\<lparr>ld_created := True, ld_migrations := ld_migrations db @
            [\<lparr> lm_version = loss_schema_version, lm_name = loss_schema_name,
               lm_checksum = loss_schema_checksum, lm_applied_at = now \<rparr>]\<rparr>))
      | Some m \<Rightarrow>
          bindE (guard (\<not> (lm_name m \<noteq> loss_schema_name \<or> lm_checksum m \<noteq> loss_schema_checksum)) StorageError) (\<lambda>_.
          Inr db))"

definition verify_loss_schema :: "loss_db \<Rightarrow> unit result" where
  "verify_loss_schema db =
     bindE (guard (ld_created db) StorageError) (\<lambda>_.
     (case ld_migrations db of
        [m] \<Rightarrow> guard (\<not> (lm_version m \<noteq> loss_schema_version \<or> lm_name m \<noteq> loss_schema_name
          \<or> lm_checksum m \<noteq> loss_schema_checksum)) StorageError
      | _ \<Rightarrow> Inl StorageError))"

definition bind_or_verify_losses ::
    "loss_binding \<Rightarrow> instant option \<Rightarrow> bool \<Rightarrow> loss_db \<Rightarrow> loss_db result" where
  "bind_or_verify_losses b now allow_create db =
     (case ld_binding db of
        None \<Rightarrow>
          bindE (guard allow_create StorageError) (\<lambda>_.
          bindE (of_option StorageError now) (\<lambda>created_at.
          bindE (loss_binding_hash b) (\<lambda>binding_hash.
          bindE (canonical_decimal (lb_daily_loss_limit b)) (\<lambda>limit.
          Inr (db\<lparr>ld_binding := Some
            \<lparr> lr_account_id = lb_account_id b, lr_environment = environment_value (lb_environment b),
              lr_config_hash = lb_config_hash b, lr_binding_hash = binding_hash, lr_daily_loss_limit = limit,
              lr_settlement_currency = lb_settlement_currency b, lr_created_at = created_at \<rparr>\<rparr>)))))
      | Some row \<Rightarrow>
          bindE (stored_decimal (lr_daily_loss_limit row)) (\<lambda>stored_limit.
          bindE (loss_binding_hash b) (\<lambda>binding_hash.
          bindE (guard
            (lr_account_id row = lb_account_id b \<and> lr_environment row = environment_value (lb_environment b)
             \<and> lr_config_hash row = lb_config_hash b \<and> lr_binding_hash row = binding_hash
             \<and> deq stored_limit (lb_daily_loss_limit b)
             \<and> lr_settlement_currency row = lb_settlement_currency b) ExecutorConfigDrift) (\<lambda>_.
          Inr db))))"

text \<open>\<open>_initialize\<close>: with \<open>must_exist\<close> the ledger is verified and left as it is.\<close>

definition open_loss_ledger :: "loss_binding \<Rightarrow> bool \<Rightarrow> pyval option \<Rightarrow> loss_db \<Rightarrow> loss_db result" where
  "open_loss_ledger b must_exist clock db =
     (if must_exist
      then bindE (verify_loss_schema db) (\<lambda>_. bind_or_verify_losses b None False db)
      else
        bindE (clock_read clock) (\<lambda>now.
        bindE (migrate_losses now db) (\<lambda>migrated.
        bindE (verify_loss_schema migrated) (\<lambda>_. bind_or_verify_losses b (Some now) True migrated))))"

section \<open>Appending\<close>

definition loss_event_hash ::
    "string \<Rightarrow> string \<Rightarrow> loss_source \<Rightarrow> loss_kind \<Rightarrow> instant \<Rightarrow> decimal \<Rightarrow> decimal \<Rightarrow> string \<Rightarrow> string result" where
  "loss_event_hash binding_hash event_id source kind occurred amount debit source_ref_hash =
     domain_hash ''trading-harness/daily-loss-event/v1'' (record_val
       [''binding_hash'', ''event_id'', ''source'', ''kind'', ''occurred_at'', ''amount'', ''debit'', ''source_ref_hash'']
       [PStr binding_hash, PStr event_id, PStr (loss_source_value source), PStr (loss_kind_value kind),
        PInstant occurred, PDec amount, PDec debit, PStr source_ref_hash])"

definition append_loss_event ::
    "loss_binding \<Rightarrow> pyval option \<Rightarrow> pyval \<Rightarrow> loss_kind \<Rightarrow> loss_source \<Rightarrow> pyval \<Rightarrow> pyval \<Rightarrow> decimal \<Rightarrow> decimal
      \<Rightarrow> loss_db \<Rightarrow> (bool \<times> loss_db) result" where
  "append_loss_event b clock event_id kind source source_ref occurred_at amount debit db =
     bindE (loss_identifier event_id) (\<lambda>event_id.
     bindE (loss_text 1024 source_ref) (\<lambda>source_ref.
     bindE (domain_hash ''trading-harness/daily-loss-source-ref/v1'' (PStr source_ref)) (\<lambda>source_ref_hash.
     bindE (utc_time occurred_at) (\<lambda>occurred.
     bindE (clock_read clock) (\<lambda>observed.
     bindE (guard (\<not> observed < occurred) ValidationError) (\<lambda>_.
     bindE (exact_decimal (In_Decimal amount)) (\<lambda>amount.
     bindE (policy_nonnegative (In_Decimal debit)) (\<lambda>debit.
     bindE (loss_binding_hash b) (\<lambda>binding_hash.
     bindE (loss_event_hash binding_hash event_id source kind occurred amount debit source_ref_hash) (\<lambda>record_hash.
     bindE (canonical_decimal amount) (\<lambda>amount_text.
     bindE (canonical_decimal debit) (\<lambda>debit_text.
     (case filter (\<lambda>r. le_event_id r = event_id
          \<or> le_source r = source \<and> le_kind r = kind \<and> le_source_ref_hash r = source_ref_hash) (ld_events db) of
        [] \<Rightarrow> Inr (True, db\<lparr>ld_events := ld_events db @
          [\<lparr> le_event_id = event_id, le_source = source, le_kind = kind, le_occurred_at = occurred,
             le_observed_at = observed, le_amount = amount_text, le_debit = debit_text,
             le_source_ref_hash = source_ref_hash, le_record_hash = record_hash \<rparr>]\<rparr>)
      | r # rs \<Rightarrow>
          bindE (guard (rs = [] \<and> le_event_id r = event_id \<and> le_record_hash r = record_hash) StateConflict) (\<lambda>_.
          Inr (False, db)))))))))))))))"

text \<open>\<open>-amount\<close>, rounded to the ambient context.\<close>

definition dneg :: "dctx \<Rightarrow> decimal \<Rightarrow> decimal result" where
  "dneg amb d = dfix amb (exact_neg d)"

definition loss_debit :: "dctx \<Rightarrow> decimal \<Rightarrow> decimal result" where
  "loss_debit amb amount = (if amount < 0 then dneg amb amount else Inr 0)"

definition record_realized_pnl ::
    "dctx \<Rightarrow> loss_binding \<Rightarrow> pyval option \<Rightarrow> pyval \<Rightarrow> pyval \<Rightarrow> pyval \<Rightarrow> decimal_input \<Rightarrow> loss_db \<Rightarrow> (bool \<times> loss_db) result" where
  "record_realized_pnl amb b clock event_id source_ref occurred_at realized_pnl db =
     bindE (exact_decimal realized_pnl) (\<lambda>amount.
     bindE (loss_debit amb amount) (\<lambda>debit.
     append_loss_event b clock event_id Realized_Pnl Fills source_ref occurred_at amount debit db))"

definition record_loss_fee ::
    "loss_binding \<Rightarrow> pyval option \<Rightarrow> pyval \<Rightarrow> pyval \<Rightarrow> pyval \<Rightarrow> decimal_input \<Rightarrow> loss_db \<Rightarrow> (bool \<times> loss_db) result" where
  "record_loss_fee b clock event_id source_ref occurred_at fee db =
     bindE (policy_nonnegative fee) (\<lambda>amount.
     append_loss_event b clock event_id Fee Fills source_ref occurred_at amount amount db)"

definition record_funding ::
    "dctx \<Rightarrow> loss_binding \<Rightarrow> pyval option \<Rightarrow> pyval \<Rightarrow> pyval \<Rightarrow> pyval \<Rightarrow> decimal_input \<Rightarrow> loss_db \<Rightarrow> (bool \<times> loss_db) result" where
  "record_funding amb b clock event_id source_ref occurred_at net_funding db =
     bindE (exact_decimal net_funding) (\<lambda>amount.
     bindE (loss_debit amb amount) (\<lambda>debit.
     append_loss_event b clock event_id Funding_Payment Funding source_ref occurred_at amount debit db))"

definition loss_coverage_hash ::
    "string \<Rightarrow> string \<Rightarrow> loss_source \<Rightarrow> instant \<Rightarrow> instant \<Rightarrow> string \<Rightarrow> string result" where
  "loss_coverage_hash binding_hash coverage_id source covered_from covered_through cursor_hash =
     domain_hash ''trading-harness/daily-loss-coverage/v1'' (record_val
       [''binding_hash'', ''coverage_id'', ''source'', ''covered_from'', ''covered_through'', ''source_cursor_hash'']
       [PStr binding_hash, PStr coverage_id, PStr (loss_source_value source), PInstant covered_from,
        PInstant covered_through, PStr cursor_hash])"

definition record_coverage ::
    "loss_binding \<Rightarrow> pyval option \<Rightarrow> pyval \<Rightarrow> pyval \<Rightarrow> pyval \<Rightarrow> pyval \<Rightarrow> pyval \<Rightarrow> loss_db \<Rightarrow> (bool \<times> loss_db) result" where
  "record_coverage b clock coverage_id source covered_from covered_through source_cursor_hash db =
     bindE (loss_identifier coverage_id) (\<lambda>coverage_id.
     bindE (loss_source_of source) (\<lambda>source.
     bindE (utc_time covered_from) (\<lambda>start.
     bindE (utc_time covered_through) (\<lambda>finish.
     bindE (clock_read clock) (\<lambda>observed.
     bindE (guard (\<not> finish < start) ValidationError) (\<lambda>_.
     bindE (guard (\<not> observed < finish) ValidationError) (\<lambda>_.
     bindE (loss_sha256 ValidationError source_cursor_hash) (\<lambda>cursor_hash.
     bindE (loss_binding_hash b) (\<lambda>binding_hash.
     bindE (loss_coverage_hash binding_hash coverage_id source start finish cursor_hash) (\<lambda>record_hash.
     (case filter (\<lambda>r. lc_coverage_id r = coverage_id
          \<or> lc_source r = source \<and> lc_source_cursor_hash r = cursor_hash) (ld_coverage db) of
        [] \<Rightarrow> Inr (True, db\<lparr>ld_coverage := ld_coverage db @
          [\<lparr> lc_coverage_id = coverage_id, lc_source = source, lc_covered_from = start,
             lc_covered_through = finish, lc_observed_at = observed, lc_source_cursor_hash = cursor_hash,
             lc_record_hash = record_hash \<rparr>]\<rparr>)
      | r # rs \<Rightarrow>
          bindE (guard (rs = [] \<and> lc_coverage_id r = coverage_id \<and> lc_record_hash r = record_hash) StateConflict) (\<lambda>_.
          Inr (False, db)))))))))))))"

section \<open>Reading rows\<close>

record loss_event =
  ev_event_id :: string
  ev_kind :: loss_kind
  ev_occurred_at :: instant
  ev_observed_at :: instant
  ev_amount :: decimal
  ev_debit :: decimal
  ev_source_ref_hash :: string
  ev_record_hash :: string

definition validate_event_row :: "dctx \<Rightarrow> string \<Rightarrow> loss_event_row \<Rightarrow> loss_event result" where
  "validate_event_row amb binding_hash row =
     (let kind = le_kind row; source = le_source row in
     bindE (guard (\<not> (kind \<in> {Realized_Pnl, Fee} \<and> source \<noteq> Fills
       \<or> kind = Funding_Payment \<and> source \<noteq> Funding)) StorageError) (\<lambda>_.
     bindE (loss_identifier (PStr (le_event_id row))) (\<lambda>event_id.
     bindE (guard (\<not> le_observed_at row < le_occurred_at row) StorageError) (\<lambda>_.
     bindE (stored_decimal (le_amount row)) (\<lambda>amount.
     bindE (stored_decimal (le_debit row)) (\<lambda>debit.
     bindE (guard (\<not> debit < 0) StorageError) (\<lambda>_.
     bindE (if kind = Fee then Inr amount else loss_debit amb amount) (\<lambda>expected_debit.
     bindE (guard (\<not> (kind = Fee \<and> amount < 0)) StorageError) (\<lambda>_.
     bindE (guard (deq debit expected_debit) StorageError) (\<lambda>_.
     bindE (loss_sha256 StorageError (PStr (le_source_ref_hash row))) (\<lambda>source_ref_hash.
     bindE (loss_sha256 StorageError (PStr (le_record_hash row))) (\<lambda>record_hash.
     bindE (loss_event_hash binding_hash event_id source kind (le_occurred_at row) amount debit source_ref_hash)
       (\<lambda>expected_hash.
     bindE (guard (record_hash = expected_hash) StorageError) (\<lambda>_.
     Inr \<lparr> ev_event_id = event_id, ev_kind = kind, ev_occurred_at = le_occurred_at row,
           ev_observed_at = le_observed_at row, ev_amount = amount, ev_debit = debit,
           ev_source_ref_hash = source_ref_hash, ev_record_hash = record_hash \<rparr>))))))))))))))"

definition coverage_interval :: "string \<Rightarrow> loss_source \<Rightarrow> loss_coverage_row \<Rightarrow> (instant \<times> instant) result" where
  "coverage_interval binding_hash source row =
     bindE (guard (lc_source row = source) StorageError) (\<lambda>_.
     bindE (loss_identifier (PStr (lc_coverage_id row))) (\<lambda>coverage_id.
     (let start = lc_covered_from row; finish = lc_covered_through row in
     bindE (guard (\<not> (finish < start \<or> lc_observed_at row < finish)) StorageError) (\<lambda>_.
     bindE (loss_sha256 StorageError (PStr (lc_source_cursor_hash row))) (\<lambda>cursor_hash.
     bindE (loss_sha256 StorageError (PStr (lc_record_hash row))) (\<lambda>record_hash.
     bindE (loss_coverage_hash binding_hash coverage_id source start finish cursor_hash) (\<lambda>expected_hash.
     bindE (guard (record_hash = expected_hash) StorageError) (\<lambda>_.
     Inr (start, finish)))))))))"

section \<open>Coverage\<close>

record coverage_status =
  cs_source :: loss_source
  cs_required_from :: instant
  cs_required_through :: instant
  cs_covered_from :: "instant option"
  cs_covered_through :: "instant option"
  cs_complete :: bool

text \<open>
  The loop over the sorted intervals: the interval covered so far (both ends are set together) and
  whether it covers what is required.
\<close>

fun coverage_scan ::
    "instant \<Rightarrow> instant \<Rightarrow> (instant \<times> instant) option \<Rightarrow> (instant \<times> instant) list
      \<Rightarrow> (instant \<times> instant) option \<times> bool" where
  "coverage_scan lo hi covered [] = (covered, False)"
| "coverage_scan lo hi covered ((start, finish) # intervals) =
     (if finish < lo \<or> hi < start then coverage_scan lo hi covered intervals
      else
        case (case covered of
                None \<Rightarrow> Some (start, finish)
              | Some (first, through) \<Rightarrow>
                  if start \<le> through then Some (first, if through < finish then finish else through) else None) of
          None \<Rightarrow> (covered, False)
        | Some (first, through) \<Rightarrow>
            if covered = None \<and> lo < start then (Some (first, through), False)
            else if first \<le> lo \<and> hi \<le> through then (Some (first, through), True)
            else coverage_scan lo hi (Some (first, through)) intervals)"

definition sorted_intervals :: "(instant \<times> instant) list \<Rightarrow> (instant \<times> instant) list" where
  "sorted_intervals intervals = sort_key fst (sort_key snd intervals)"

definition coverage_status_of ::
    "string \<Rightarrow> loss_source \<Rightarrow> instant \<Rightarrow> instant \<Rightarrow> loss_coverage_row list \<Rightarrow> coverage_status result" where
  "coverage_status_of binding_hash source required_from required_through rows =
     bindE (mapE (coverage_interval binding_hash source) rows) (\<lambda>intervals.
     (let (covered, complete) = coverage_scan required_from required_through None (sorted_intervals intervals) in
     Inr \<lparr> cs_source = source, cs_required_from = required_from, cs_required_through = required_through,
           cs_covered_from = map_option fst covered, cs_covered_through = map_option snd covered,
           cs_complete = complete \<rparr>))"

definition coverage_rows :: "loss_source \<Rightarrow> instant \<Rightarrow> instant \<Rightarrow> loss_db \<Rightarrow> loss_coverage_row list" where
  "coverage_rows source lo hi db =
     sort_key lc_covered_from (sort_key lc_covered_through (sort_key lc_coverage_id
       (filter (\<lambda>r. lc_source r = source \<and> lo \<le> lc_covered_through r \<and> lc_covered_from r \<le> hi) (ld_coverage db))))"

definition coverage_statuses ::
    "string \<Rightarrow> instant \<Rightarrow> instant \<Rightarrow> loss_db \<Rightarrow> coverage_status list result" where
  "coverage_statuses binding_hash lo hi db =
     mapE (\<lambda>source. coverage_status_of binding_hash source lo hi (coverage_rows source lo hi db)) [Fills, Funding]"

text \<open>\<open>CoverageStatus.as_dict\<close>.\<close>

definition time_val :: "instant \<Rightarrow> pyval" where
  "time_val t = PStr (iso_instant t)"

definition coverage_val :: "coverage_status \<Rightarrow> pyval" where
  "coverage_val c = record_val
     [''source'', ''required_from'', ''required_through'', ''covered_from'', ''covered_through'', ''complete'']
     [PStr (loss_source_value (cs_source c)), time_val (cs_required_from c), time_val (cs_required_through c),
      opt_val time_val (cs_covered_from c), opt_val time_val (cs_covered_through c), PBool (cs_complete c)]"

section \<open>Snapshots\<close>

record loss_snapshot =
  ls_utc_day :: int
  ls_as_of :: instant
  ls_limit :: decimal
  ls_used :: decimal
  ls_remaining :: decimal
  ls_realized_loss_debit :: decimal
  ls_fee_debit :: decimal
  ls_funding_debit :: decimal
  ls_event_count :: nat
  ls_coverage :: "coverage_status list"
  ls_coverage_complete :: bool
  ls_missing_sources :: "string list"
  ls_binding_hash :: string
  ls_snapshot_hash :: string

definition event_rows :: "instant \<Rightarrow> instant \<Rightarrow> loss_db \<Rightarrow> loss_event_row list" where
  "event_rows lo hi db =
     sort_key le_occurred_at (sort_key le_event_id
       (filter (\<lambda>r. lo \<le> le_occurred_at r \<and> le_occurred_at r \<le> hi) (ld_events db)))"

text \<open>The loop over the events adds each debit to the total of its kind.\<close>

definition add_debit ::
    "decimal \<times> decimal \<times> decimal \<Rightarrow> loss_event \<Rightarrow> (decimal \<times> decimal \<times> decimal) result" where
  "add_debit totals event =
     (case totals of (realized, fees, funding) \<Rightarrow>
     (case ev_kind event of
        Realized_Pnl \<Rightarrow> bindE (decimal_add [realized, ev_debit event]) (\<lambda>r. Inr (r, fees, funding))
      | Fee \<Rightarrow> bindE (decimal_add [fees, ev_debit event]) (\<lambda>f. Inr (realized, f, funding))
      | Funding_Payment \<Rightarrow> bindE (decimal_add [funding, ev_debit event]) (\<lambda>p. Inr (realized, fees, p))))"

definition missing_sources :: "coverage_status list \<Rightarrow> string list" where
  "missing_sources statuses = map (\<lambda>c. loss_source_value (cs_source c)) (filter (\<lambda>c. \<not> cs_complete c) statuses)"

definition loss_snapshot_hash :: "loss_snapshot \<Rightarrow> string list \<Rightarrow> string result" where
  "loss_snapshot_hash s event_hashes =
     domain_hash ''trading-harness/daily-loss-snapshot/v1'' (record_val
       [''binding_hash'', ''utc_day'', ''as_of'', ''limit'', ''used'', ''remaining'', ''realized_loss_debit'',
        ''fee_debit'', ''funding_debit'', ''event_hashes'', ''coverage'', ''coverage_complete'', ''missing_sources'']
       [PStr (ls_binding_hash s), PDate (ord_to_ymd (ls_utc_day s + 1)), PInstant (ls_as_of s), PDec (ls_limit s),
        PDec (ls_used s), PDec (ls_remaining s), PDec (ls_realized_loss_debit s), PDec (ls_fee_debit s),
        PDec (ls_funding_debit s), PList (map PStr event_hashes), PList (map coverage_val (ls_coverage s)),
        PBool (ls_coverage_complete s), PList (map PStr (ls_missing_sources s))])"

definition snapshot_losses ::
    "dctx \<Rightarrow> loss_binding \<Rightarrow> pyval option \<Rightarrow> bool \<Rightarrow> pyval option \<Rightarrow> loss_db \<Rightarrow> loss_snapshot result" where
  "snapshot_losses amb b clock require_complete as_of db =
     bindE (clock_read clock) (\<lambda>observed.
     bindE (case as_of of None \<Rightarrow> Inr observed | Some v \<Rightarrow> utc_time v) (\<lambda>now.
     bindE (guard (\<not> observed < now) ValidationError) (\<lambda>_.
     bindE (guard (utc_day now = utc_day observed) ValidationError) (\<lambda>_.
     (let start = loss_day_start now in
     bindE (verify_loss_schema db) (\<lambda>_.
     bindE (bind_or_verify_losses b (Some now) False db) (\<lambda>_.
     bindE (loss_binding_hash b) (\<lambda>binding_hash.
     bindE (coverage_statuses binding_hash start now db) (\<lambda>coverage.
     bindE (mapE (validate_event_row amb binding_hash) (event_rows start now db)) (\<lambda>events.
     bindE (foldE add_debit (0, 0, 0) events) (\<lambda>(realized, fees, funding).
     bindE (decimal_add [realized, fees, funding]) (\<lambda>used.
     bindE (decimal_subtract (lb_daily_loss_limit b) used) (\<lambda>difference.
     (let missing = missing_sources coverage;
          provisional = \<lparr> ls_utc_day = utc_day now, ls_as_of = now, ls_limit = lb_daily_loss_limit b, ls_used = used,
            ls_remaining = dmax difference 0, ls_realized_loss_debit = realized, ls_fee_debit = fees,
            ls_funding_debit = funding, ls_event_count = length events, ls_coverage = coverage,
            ls_coverage_complete = (missing = []), ls_missing_sources = missing, ls_binding_hash = binding_hash,
            ls_snapshot_hash = [] \<rparr> in
     bindE (loss_snapshot_hash provisional (map ev_record_hash events)) (\<lambda>h.
     bindE (guard (\<not> (require_complete \<and> missing \<noteq> [])) (IncompleteDailyLossCoverage missing)) (\<lambda>_.
     Inr (provisional\<lparr>ls_snapshot_hash := h\<rparr>)))))))))))))))))"

definition unstarted :: "instant \<Rightarrow> coverage_status \<Rightarrow> bool" where
  "unstarted start c =
     (case (cs_covered_from c, cs_covered_through c) of
        (Some first, Some through) \<Rightarrow> start < first | _ \<Rightarrow> True)"

definition latest_complete_snapshot ::
    "dctx \<Rightarrow> loss_binding \<Rightarrow> pyval option \<Rightarrow> pyval option \<Rightarrow> int \<Rightarrow> loss_db \<Rightarrow> loss_snapshot result" where
  "latest_complete_snapshot amb b clock later_clock maximum_age_seconds db =
     bindE (guard (0 \<le> maximum_age_seconds \<and> maximum_age_seconds \<le> 300) ValidationError) (\<lambda>_.
     bindE (clock_read clock) (\<lambda>observed.
     (let start = loss_day_start observed in
     bindE (verify_loss_schema db) (\<lambda>_.
     bindE (bind_or_verify_losses b (Some observed) False db) (\<lambda>_.
     bindE (loss_binding_hash b) (\<lambda>binding_hash.
     bindE (coverage_statuses binding_hash start observed db) (\<lambda>statuses.
     (let missing = map (\<lambda>c. loss_source_value (cs_source c)) (filter (unstarted start) statuses) in
     bindE (guard (missing = []) (IncompleteDailyLossCoverage missing)) (\<lambda>_.
     (let common = Min (set (List.map_filter cs_covered_through statuses)) in
     bindE (guard (\<not> (utc_day common \<noteq> utc_day observed
       \<or> seconds maximum_age_seconds < observed - common)) StateConflict) (\<lambda>_.
     snapshot_losses amb b later_clock True (Some (PInstant common)) db)))))))))))"

definition remaining_losses :: "dctx \<Rightarrow> loss_binding \<Rightarrow> pyval option \<Rightarrow> loss_db \<Rightarrow> decimal result" where
  "remaining_losses amb b clock db =
     bindE (snapshot_losses amb b clock True None db) (\<lambda>s. Inr (ls_remaining s))"

end
