(* ===== verification/Decimal_Cong.thy ===== *)
theory Decimal_Cong
  imports Decimal_Eval
begin

text \<open>
  Rounding to a context is a function of the value: two representations of one number fail together
  or round to one number, and sums and differences rounded to a context are monotone.
\<close>

lemma round_int_scale:
  assumes "0 < k" "0 < p"
  shows "round_int m (z * k) (p * k) = round_int m z p"
proof -
  have div: "z * k div (p * k) = z div p" "(- (z * k)) div (p * k) = (- z) div p" for z
    using assms(1) div_mult_mult2 [of k z p] div_mult_mult2 [of k "- z" p] by simp_all
  have mod: "z * k mod (p * k) = z mod p * k" by (simp add: mod_mult_mult2)
  have lt: "2 * (r * k) < p * k \<longleftrightarrow> 2 * r < p" "p * k < 2 * (r * k) \<longleftrightarrow> p < 2 * r" for r
    using assms(1) mult_less_cancel_right_pos [of k "2 * r" p] mult_less_cancel_right_pos [of k p "2 * r"]
    by (simp_all add: ac_simps)
  show ?thesis by (cases m) (simp_all only: round_int.simps div mod lt Let_def)
qed

lemma round_int_ratio:
  assumes "0 < p" "0 < q" "z * q = w * p"
  shows "round_int m z p = round_int m w q"
  using round_int_scale [of q p m z] round_int_scale [of p q m w] assms by (simp add: mult.commute)

lemma ten_powi_split: "e \<le> g \<Longrightarrow> (10::rat) powi g = 10 powi e * of_int (10 ^ nat (g - e))"
  by (simp add: power_int_add [symmetric] flip: power_int_of_nat)

lemma grid_step_value: "expo d \<le> grid_exp c d \<Longrightarrow>
    (10::rat) powi expo d * of_int (grid_step c d) = 10 powi grid_exp c d"
  unfolding grid_step_def by (rule ten_powi_split [symmetric])

context decimal_context
begin

lemma same_grid:
  assumes "dval x = dval y" "coeff x \<noteq> 0"
  shows "grid_exp c x = grid_exp c y"
    and "int (ndigits \<bar>coeff x\<bar>) + expo x = int (ndigits \<bar>coeff y\<bar>) + expo y" and "coeff y \<noteq> 0"
proof -
  have "adjusted x = adjusted y" using assms adjusted_cong by metis
  then show e: "int (ndigits \<bar>coeff x\<bar>) + expo x = int (ndigits \<bar>coeff y\<bar>) + expo y"
    unfolding adjusted_def by linarith
  show "grid_exp c x = grid_exp c y" unfolding grid_exp_def e by (rule refl)
  show "coeff y \<noteq> 0" using assms dval_eq_0_iff by metis
qed

lemma grid_coeff_cong:
  assumes "dval x = dval y" "coeff x \<noteq> 0" "expo x \<le> grid_exp c x" "expo y \<le> grid_exp c y"
  shows "grid_coeff c x = grid_coeff c y"
proof -
  have v: "(of_int (coeff d) :: rat) * 10 powi grid_exp c d = dval d * of_int (grid_step c d)"
    if "expo d \<le> grid_exp c d" for d
    using grid_step_value [OF that] by (simp add: dval_def)
  have "(of_int (coeff x) :: rat) * 10 powi grid_exp c x * of_int (grid_step c y)
      = of_int (coeff y) * 10 powi grid_exp c y * of_int (grid_step c x)"
    using v [OF assms(3)] v [OF assms(4)] assms(1) by simp
  then have "(of_int (coeff x * grid_step c y) :: rat) = of_int (coeff y * grid_step c x)"
    unfolding same_grid(1) [OF assms(1,2)] by simp
  then have "coeff x * grid_step c y = coeff y * grid_step c x" by (simp only: of_int_eq_iff)
  then show ?thesis unfolding grid_coeff_def by (intro round_int_ratio) simp_all
qed

lemma grid_coeff_exact:
  assumes "dval x = dval y" "coeff x \<noteq> 0" "expo x < grid_exp c x" "grid_exp c y \<le> expo y"
  shows "grid_coeff c x = coeff y * 10 ^ nat (expo y - grid_exp c y)"
    and "dval y = of_int (grid_coeff c x) * 10 powi grid_exp c y"
proof -
  let ?g = "grid_exp c y" and ?k = "coeff y * 10 ^ nat (expo y - grid_exp c y)"
  have y: "dval y = of_int ?k * 10 powi ?g"
    using ten_powi_split [OF assms(4)] by (simp add: dval_def ac_simps)
  have "dval x = of_int (coeff x) * 10 powi expo x" by (simp add: dval_def)
  moreover have "(10::rat) powi ?g = 10 powi expo x * of_int (grid_step c x)"
    using grid_step_value [of x c] assms(3) same_grid(1) [OF assms(1,2)] by simp
  ultimately have "(of_int (coeff x) :: rat) * 10 powi expo x = of_int (?k * grid_step c x) * 10 powi expo x"
    using y assms(1) by simp
  then have "coeff x = ?k * grid_step c x" by (simp only: mult_cancel_right of_int_eq_iff) simp
  then show "grid_coeff c x = ?k" unfolding grid_coeff_def by (metis grid_step_pos rnd_exact)
  with y show "dval y = of_int (grid_coeff c x) * 10 powi ?g" by simp
qed

lemma dfix_aligned:
  assumes "dval x = dval y" "coeff x \<noteq> 0" "expo x < grid_exp c x" "grid_exp c y \<le> expo y"
  shows "dfix c x = (if etop c < int (ndigits \<bar>coeff x\<bar>) + expo x - int (prec c) then Inl DecimalOverflow
      else Inr (Dec (grid_coeff c x) (grid_exp c x)))"
proof -
  let ?q = "grid_coeff c x" and ?g = "grid_exp c y"
  note grid = same_grid [OF assms(1,2)]
  have "\<bar>?q\<bar> = \<bar>coeff y\<bar> * 10 ^ nat (expo y - ?g)"
    unfolding grid_coeff_exact(1) [OF assms] by (simp add: abs_mult)
  also have "\<dots> < 10 ^ ndigits \<bar>coeff y\<bar> * 10 ^ nat (expo y - ?g)"
    using ndigits_upper [of "\<bar>coeff y\<bar>"] by simp
  also have "\<dots> = 10 ^ (ndigits \<bar>coeff y\<bar> + nat (expo y - ?g))" by (simp add: power_add)
  also have "\<dots> \<le> 10 ^ prec c"
    using assms(4) by (intro power_increasing) (auto simp: grid_exp_def)
  finally have "ndigits \<bar>?q\<bar> \<le> prec c" using ndigits_le_iff [OF prec_pos, of "\<bar>?q\<bar>"] by simp
  moreover have "\<not> etop c < grid_exp c x" if "\<not> etop c < int (ndigits \<bar>coeff x\<bar>) + expo x - int (prec c)"
    using that range by (auto simp: grid_exp_def)
  ultimately show ?thesis using assms(3) by (simp add: dfix_grid [OF assms(2)])
qed

lemma dfix_cong:
  assumes "dval x = dval y" "dfix c x = Inr r"
  shows "\<exists>q. dfix c y = Inr q \<and> dval q = dval r"
proof (cases "coeff x = 0")
  case True
  then have "coeff y = 0" using assms(1) dval_eq_0_iff by metis
  with True assms(2) show ?thesis by (auto simp: dfix_def)
next
  case False
  note grid = same_grid [OF assms(1) False]
  have low: "\<not> etop c < int (ndigits \<bar>coeff x\<bar>) + expo x - int (prec c)"
    using assms(2) by (auto simp: dfix_grid [OF False] split: if_splits)
  consider "expo x < grid_exp c x" "expo y < grid_exp c y" | "expo x < grid_exp c x" "grid_exp c y \<le> expo y"
    | "grid_exp c x \<le> expo x" "expo y < grid_exp c y" | "grid_exp c x \<le> expo x" "grid_exp c y \<le> expo y"
    by linarith
  then show ?thesis
  proof cases
    case 1
    then have "grid_coeff c x = grid_coeff c y" by (intro grid_coeff_cong assms(1) False) simp_all
    with 1 have "dfix c y = dfix c x" unfolding dfix_grid [OF False] dfix_grid [OF grid(3)] grid by simp
    with assms(2) show ?thesis by simp
  next
    case 2
    note same = grid_coeff_exact(2) [OF assms(1) False 2]
    have "r = Dec (grid_coeff c x) (grid_exp c x)"
      using assms(2) low unfolding dfix_aligned [OF assms(1) False 2] by simp
    with same 2 low show ?thesis by (simp add: dfix_grid [OF grid(3)] grid dval_def)
  next
    case 3
    note same = grid_coeff_exact(2) [OF assms(1) [symmetric] grid(3) 3(2,1)]
    have "r = x" using assms(2) 3 low by (simp add: dfix_grid [OF False])
    with same low show ?thesis
      unfolding dfix_aligned [OF assms(1) [symmetric] grid(3) 3(2,1)] grid(2) by (simp add: grid(1) dval_def)
  next
    case 4
    with assms low show ?thesis by (auto simp: dfix_grid [OF False] dfix_grid [OF grid(3)] grid(2))
  qed
qed

end

context upward_context
begin

lemma dfix_mono: "dfix c x = Inr r \<Longrightarrow> dfix c y = Inr s \<Longrightarrow> dval x \<le> dval y \<Longrightarrow> dval r \<le> dval s"
  by (meson dfix_le_bound dfix_result_representable dfix_up order_trans)

lemma dadd_mono:
  "dadd c a b = Inr r \<Longrightarrow> dadd c a' b' = Inr s \<Longrightarrow> dval a \<le> dval a' \<Longrightarrow> dval b \<le> dval b' \<Longrightarrow> dval r \<le> dval s"
  unfolding dadd_def by (erule (1) dfix_mono) simp

lemma dsub_antimono:
  "dsub c a b = Inr r \<Longrightarrow> dsub c a b' = Inr s \<Longrightarrow> dval b \<le> dval b' \<Longrightarrow> dval s \<le> dval r"
  unfolding dsub_def by (rule dfix_mono) (assumption, assumption, simp)

end

section \<open>The sums of the fixed context\<close>

lemma decimal_add_mono:
  assumes "decimal_add [a, b] = Inr r" "decimal_add [a', b'] = Inr s" "dval a \<le> dval a'" "dval b \<le> dval b'"
  shows "dval r \<le> dval s"
proof -
  from assms(1,2) have "dadd fixed_decimal_context (exact_add 0 a) b = Inr r"
    "dadd fixed_decimal_context (exact_add 0 a') b' = Inr s"
    by (auto simp: decimal_add_two' split: if_splits)
  then show ?thesis by (rule fixed_ctx.dadd_mono) (use assms(3,4) in simp_all)
qed

lemma decimal_add_three:
  "decimal_add [a, b, d] = Inr r \<longleftrightarrow> (\<exists>x. bounded a \<and> bounded b \<and> bounded d
     \<and> dadd fixed_decimal_context (exact_add 0 a) b = Inr x \<and> dadd fixed_decimal_context x d = Inr r \<and> bounded r)"
  by (auto simp: decimal_add_def bounded_add_zero split: if_splits)

lemma decimal_add_three_up:
  "decimal_add [a, b, d] = Inr r \<Longrightarrow> bounded r \<and> dval a + dval b + dval d \<le> dval r"
  using fixed_ctx.dadd_up [of "exact_add 0 a" b] fixed_ctx.dadd_up [of _ d r]
  by (fastforce simp: decimal_add_three)

lemma decimal_add_three_mono:
  assumes "decimal_add [a, b, d] = Inr r" "decimal_add [a', b', d'] = Inr s"
    and "dval a \<le> dval a'" "dval b \<le> dval b'" "dval d \<le> dval d'"
  shows "dval r \<le> dval s"
proof -
  from assms(1,2) obtain x y where
    x: "dadd fixed_decimal_context (exact_add 0 a) b = Inr x" "dadd fixed_decimal_context x d = Inr r" and
    y: "dadd fixed_decimal_context (exact_add 0 a') b' = Inr y" "dadd fixed_decimal_context y d' = Inr s"
    by (auto simp: decimal_add_three)
  have "dval x \<le> dval y" using x(1) y(1) by (rule fixed_ctx.dadd_mono) (use assms(3,4) in simp_all)
  with x(2) y(2) show ?thesis by (rule fixed_ctx.dadd_mono) (rule assms(5))
qed

lemma decimal_subtract_antimono:
  assumes "decimal_subtract a b = Inr r" "decimal_subtract a b' = Inr s" "dval b \<le> dval b'"
  shows "dval s \<le> dval r"
proof -
  from assms(1,2) have "dsub fixed_decimal_context a b = Inr r" "dsub fixed_decimal_context a b' = Inr s"
    by (auto simp: decimal_subtract_def split: if_splits)
  then show ?thesis using assms(3) by (rule fixed_ctx.dsub_antimono)
qed

end
