(* ===== verification/Daily_Loss_Invariant.thy ===== *)
theory Daily_Loss_Invariant
  imports Daily_Loss Decimal_Cong
begin

text \<open>
  What every history of the loss ledger keeps: unique event and coverage identities, a binding that
  never changes, and rows that pass the ledger's own verification when they are read back. Events
  and coverage are only ever appended.
\<close>

section \<open>The host context\<close>

text \<open>Python's default decimal context, which no module of the harness changes.\<close>

definition default_context :: dctx where
  "default_context = \<lparr> prec = 28, rounding = Half_Even, e_min = - 999999, e_max = 999999 \<rparr>"

interpretation default_ctx: decimal_context default_context
  by unfold_locales (simp_all add: default_context_def etiny_def etop_def)

section \<open>Decimals in the tables\<close>

lemma stored_decimal_text: "bounded d \<Longrightarrow> stored_decimal (canonical_text d) = Inr (db_decimal d)"
proof -
  assume b: "bounded d"
  have "canonical_decimal (db_decimal d) = Inr (canonical_text d)"
    using db_decimal_facts [OF b] by (simp add: canonical_decimal_Inr_iff canonical_text_eq_iff)
  with db_decimal_facts(1) [OF b] show ?thesis by (simp add: stored_decimal_def guard_cases)
qed

lemma stored_decimal_ok: "stored_decimal v = Inr d \<Longrightarrow> bounded d \<and> v = canonical_text d"
  by (auto simp: stored_decimal_def canonical_decimal_Inr_iff)

lemma canonical_record_cong:
  assumes "map canonical_data vs = map canonical_data ws"
  shows "canonical_data (record_val names vs) = canonical_data (record_val names ws)"
proof -
  have fields: "map (\<lambda>(k, v). bindE (key_text k) (\<lambda>s. bindE (canonical_data v) (\<lambda>j. Inr (s, j)))) (zip ks us)
      = map (\<lambda>(k, j). bindE (key_text k) (\<lambda>s. bindE j (\<lambda>j. Inr (s, j)))) (zip ks (map canonical_data us))"
    for ks us
    unfolding zip_map2 map_map by (rule map_cong [OF refl]) (simp add: case_prod_beta)
  show ?thesis unfolding record_val_def canonical_data.simps(1) fields assms by (rule refl)
qed

lemma domain_hash_cong:
  "canonical_data v = canonical_data w \<Longrightarrow> domain_hash d v = domain_hash d w"
  by (simp add: domain_hash_def canonical_bytes_def canonical_json_def)

lemma same_text_data: "bounded a \<Longrightarrow> bounded b \<Longrightarrow> dval a = dval b \<Longrightarrow> canonical_data (PDec a) = canonical_data (PDec b)"
  by (simp add: canonical_data_PDec canonical_text_eq_iff del: canonical_data.simps(2))

lemma loss_event_hash_cong:
  assumes "bounded a" "bounded a'" "dval a = dval a'" "bounded d" "bounded d'" "dval d = dval d'"
  shows "loss_event_hash bh i s k t a d r = loss_event_hash bh i s k t a' d' r"
  unfolding loss_event_hash_def
  by (intro domain_hash_cong canonical_record_cong)
    (simp add: same_text_data [OF assms(1-3)] same_text_data [OF assms(4-6)] del: canonical_data.simps(2))

lemma dneg_cong:
  "decimal_context amb \<Longrightarrow> dval a = dval b \<Longrightarrow> dneg amb a = Inr r \<Longrightarrow> \<exists>q. dneg amb b = Inr q \<and> dval q = dval r"
  unfolding dneg_def by (rule decimal_context.dfix_cong) simp_all

lemma loss_debit_cong:
  "decimal_context amb \<Longrightarrow> dval a = dval b \<Longrightarrow> loss_debit amb a = Inr r \<Longrightarrow>
   \<exists>q. loss_debit amb b = Inr q \<and> dval q = dval r"
  using dneg_cong [of amb a b r] by (auto simp: loss_debit_def dval_simps split: if_splits)

section \<open>Field checks\<close>

lemma loss_identifier_again: "loss_identifier v = Inr s \<Longrightarrow> loss_identifier (PStr s) = Inr s"
  by (auto simp: loss_identifier_def loss_text_def split: pyval.splits)

lemma loss_sha256_iff [simp]: "loss_sha256 e (PStr s) = Inr r \<longleftrightarrow> sha256_shaped s \<and> r = s"
  by (auto simp: loss_sha256_def)

lemma loss_sha256_ok: "loss_sha256 e v = Inr s \<Longrightarrow> sha256_shaped s"
  by (auto simp: loss_sha256_def split: pyval.splits)

lemma utc_time_ok: "utc_time v = Inr t \<Longrightarrow> instant_ok t \<and> v = PInstant t"
  by (auto simp: utc_time_def split: pyval.splits)

lemma clock_read_ok: "clock_read clock = Inr t \<Longrightarrow> clock = Some (PInstant t)"
  using utc_time_ok by (auto simp: clock_read_def)

section \<open>Appending an event\<close>

definition kind_source :: "loss_kind \<Rightarrow> loss_source" where
  "kind_source kind = (if kind = Funding_Payment then Funding else Fills)"

definition debit_of :: "dctx \<Rightarrow> loss_kind \<Rightarrow> decimal \<Rightarrow> decimal \<Rightarrow> bool" where
  "debit_of amb kind amount debit =
     (if kind = Fee then debit = amount \<and> nonnegative amount else loss_debit amb amount = Inr debit)"

definition source_ref_hash :: "string \<Rightarrow> string result" where
  "source_ref_hash r = domain_hash ''trading-harness/daily-loss-source-ref/v1'' (PStr r)"

text \<open>The events that share an identity with a new one.\<close>

definition same_event :: "string \<Rightarrow> loss_source \<Rightarrow> loss_kind \<Rightarrow> string \<Rightarrow> loss_event_row \<Rightarrow> bool" where
  "same_event i s k h r = (le_event_id r = i \<or> le_source r = s \<and> le_kind r = k \<and> le_source_ref_hash r = h)"

lemma append_loss_event_cases:
  assumes "append_loss_event b clock v k s v_ref v_at a d db = Inr (fresh, after)"
  obtains i src h t now bh g where
    "loss_identifier v = Inr i" "loss_text 1024 v_ref = Inr src" "source_ref_hash src = Inr h"
    "utc_time v_at = Inr t" "clock_read clock = Inr now" "t \<le> now" "bounded a" "nonnegative d"
    "loss_binding_hash b = Inr bh" "loss_event_hash bh i s k t a d h = Inr g"
    "fresh \<and> filter (same_event i s k h) (ld_events db) = []
       \<and> after = db\<lparr>ld_events := ld_events db @
          [\<lparr> le_event_id = i, le_source = s, le_kind = k, le_occurred_at = t, le_observed_at = now,
             le_amount = canonical_text a, le_debit = canonical_text d, le_source_ref_hash = h,
             le_record_hash = g \<rparr>]\<rparr>
     \<or> \<not> fresh \<and> after = db
       \<and> (\<exists>r. filter (same_event i s k h) (ld_events db) = [r] \<and> le_event_id r = i \<and> le_record_hash r = g)"
proof -
  from assms obtain i src h t now bh g where
    f: "loss_identifier v = Inr i" "loss_text 1024 v_ref = Inr src" "source_ref_hash src = Inr h"
      "utc_time v_at = Inr t" "clock_read clock = Inr now" "t \<le> now" "bounded a" "nonnegative d"
      "loss_binding_hash b = Inr bh" "loss_event_hash bh i s k t a d h = Inr g"
    and rest: "(case filter (same_event i s k h) (ld_events db) of
        [] \<Rightarrow> Inr (True, db\<lparr>ld_events := ld_events db @
          [\<lparr> le_event_id = i, le_source = s, le_kind = k, le_occurred_at = t, le_observed_at = now,
             le_amount = canonical_text a, le_debit = canonical_text d, le_source_ref_hash = h,
             le_record_hash = g \<rparr>]\<rparr>)
      | r # rs \<Rightarrow> bindE (guard (rs = [] \<and> le_event_id r = i \<and> le_record_hash r = g) StateConflict)
          (\<lambda>_. Inr (False, db))) = Inr (fresh, after)"
    unfolding append_loss_event_def bindE_Inr_iff same_event_def [abs_def] source_ref_hash_def
    by (auto simp: not_less canonical_decimal_Inr_iff simp del: canonical_data.simps split: if_splits)
  show ?thesis
    by (rule that [OF f]) (use rest in \<open>auto split: list.splits\<close>)
qed

section \<open>What is written can be read\<close>

lemma new_event_validates:
  assumes "decimal_context amb" "loss_identifier v = Inr i" "source_ref_hash src = Inr h" "t \<le> now" "bounded a"
    "nonnegative d" "loss_event_hash bh i (kind_source k) k t a d h = Inr g" "debit_of amb k a d"
  shows "validate_event_row amb bh
      \<lparr> le_event_id = i, le_source = kind_source k, le_kind = k, le_occurred_at = t, le_observed_at = now,
        le_amount = canonical_text a, le_debit = canonical_text d, le_source_ref_hash = h, le_record_hash = g \<rparr>
    = Inr \<lparr> ev_event_id = i, ev_kind = k, ev_occurred_at = t, ev_observed_at = now, ev_amount = db_decimal a,
        ev_debit = db_decimal d, ev_source_ref_hash = h, ev_record_hash = g \<rparr>"
proof -
  have bd: "bounded d" using assms(6) by simp
  note a = db_decimal_facts [OF assms(5)] and d = db_decimal_facts [OF bd]
  have hash: "loss_event_hash bh i (kind_source k) k t (db_decimal a) (db_decimal d) h = Inr g"
    using loss_event_hash_cong [OF assms(5) a(3) a(2) [symmetric] bd d(3) d(2) [symmetric]] assms(7) by simp
  have "\<exists>x. (if k = Fee then Inr (db_decimal a) else loss_debit amb (db_decimal a)) = Inr x \<and> dval x = dval d"
  proof (cases "k = Fee")
    case True
    with assms(8) a(2) show ?thesis by (simp add: debit_of_def)
  next
    case False
    with assms(8) loss_debit_cong [OF assms(1) a(2) [symmetric], of d] show ?thesis by (simp add: debit_of_def)
  qed
  then obtain x where x: "(if k = Fee then Inr (db_decimal a) else loss_debit amb (db_decimal a)) = Inr x" "deq (db_decimal d) x"
    using d(2) by (auto simp: deq_dval)
  have src: "\<not> (k \<in> {Realized_Pnl, Fee} \<and> kind_source k \<noteq> Fills \<or> k = Funding_Payment \<and> kind_source k \<noteq> Funding)"
    by (auto simp: kind_source_def)
  have sign: "\<not> db_decimal d < 0" "\<not> (k = Fee \<and> db_decimal a < 0)" "\<not> now < t"
    using assms(4,6,8) a(2) d(2) by (auto simp: dval_simps nonnegative_def debit_of_def)
  have shaped: "sha256_shaped h" "sha256_shaped g"
    using assms(3,7) domain_hash_shaped unfolding source_ref_hash_def loss_event_hash_def by blast+
  show ?thesis
    unfolding validate_event_row_def Let_def
    by (simp only: loss_event_row.simps src sign stored_decimal_text [OF assms(5)] stored_decimal_text [OF bd] x hash
        loss_identifier_again [OF assms(2)] bindE_simps guard_cases simp_thms loss_sha256_def pyval.case shaped)
qed

text \<open>The coverage rows that share an identity with a new one.\<close>

definition same_coverage :: "string \<Rightarrow> loss_source \<Rightarrow> string \<Rightarrow> loss_coverage_row \<Rightarrow> bool" where
  "same_coverage i s h r = (lc_coverage_id r = i \<or> lc_source r = s \<and> lc_source_cursor_hash r = h)"

lemma record_coverage_cases:
  assumes "record_coverage b clock v v_source v_from v_through v_hash db = Inr (fresh, after)"
  obtains i s lo hi now h bh g where
    "loss_identifier v = Inr i" "loss_source_of v_source = Inr s" "utc_time v_from = Inr lo"
    "utc_time v_through = Inr hi" "clock_read clock = Inr now" "lo \<le> hi" "hi \<le> now"
    "loss_sha256 ValidationError v_hash = Inr h" "loss_binding_hash b = Inr bh"
    "loss_coverage_hash bh i s lo hi h = Inr g"
    "fresh \<and> filter (same_coverage i s h) (ld_coverage db) = []
       \<and> after = db\<lparr>ld_coverage := ld_coverage db @
          [\<lparr> lc_coverage_id = i, lc_source = s, lc_covered_from = lo, lc_covered_through = hi, lc_observed_at = now,
             lc_source_cursor_hash = h, lc_record_hash = g \<rparr>]\<rparr>
     \<or> \<not> fresh \<and> after = db
       \<and> (\<exists>r. filter (same_coverage i s h) (ld_coverage db) = [r] \<and> lc_coverage_id r = i \<and> lc_record_hash r = g)"
proof -
  from assms obtain i s lo hi now h bh g where
    f: "loss_identifier v = Inr i" "loss_source_of v_source = Inr s" "utc_time v_from = Inr lo"
      "utc_time v_through = Inr hi" "clock_read clock = Inr now" "lo \<le> hi" "hi \<le> now"
      "loss_sha256 ValidationError v_hash = Inr h" "loss_binding_hash b = Inr bh"
      "loss_coverage_hash bh i s lo hi h = Inr g"
    and rest: "(case filter (same_coverage i s h) (ld_coverage db) of
        [] \<Rightarrow> Inr (True, db\<lparr>ld_coverage := ld_coverage db @
          [\<lparr> lc_coverage_id = i, lc_source = s, lc_covered_from = lo, lc_covered_through = hi, lc_observed_at = now,
             lc_source_cursor_hash = h, lc_record_hash = g \<rparr>]\<rparr>)
      | r # rs \<Rightarrow> bindE (guard (rs = [] \<and> lc_coverage_id r = i \<and> lc_record_hash r = g) StateConflict)
          (\<lambda>_. Inr (False, db))) = Inr (fresh, after)"
    unfolding record_coverage_def bindE_Inr_iff same_coverage_def [abs_def]
    by (auto simp: not_less)
  show ?thesis
    by (rule that [OF f]) (use rest in \<open>auto split: list.splits\<close>)
qed

lemma new_coverage_validates:
  assumes "loss_identifier v = Inr i" "lo \<le> hi" "hi \<le> now" "sha256_shaped h" "loss_coverage_hash bh i s lo hi h = Inr g"
  shows "coverage_interval bh s
      \<lparr> lc_coverage_id = i, lc_source = s, lc_covered_from = lo, lc_covered_through = hi, lc_observed_at = now,
        lc_source_cursor_hash = h, lc_record_hash = g \<rparr> = Inr (lo, hi)"
proof -
  have "sha256_shaped g" using assms(5) domain_hash_shaped unfolding loss_coverage_hash_def by blast
  moreover have "\<not> (hi < lo \<or> now < hi)" using assms(2,3) by simp
  ultimately show ?thesis
    unfolding coverage_interval_def Let_def
    by (simp only: loss_coverage_row.simps loss_identifier_again [OF assms(1)] bindE_simps guard_cases simp_thms
        loss_sha256_def pyval.case assms(4,5))
qed

section \<open>Steps\<close>

datatype loss_op =
    Open_Ledger loss_binding bool "pyval option"
  | Record_Pnl loss_binding "pyval option" pyval pyval pyval decimal_input
  | Record_Fee loss_binding "pyval option" pyval pyval pyval decimal_input
  | Record_Funding loss_binding "pyval option" pyval pyval pyval decimal_input
  | Record_Coverage loss_binding "pyval option" pyval pyval pyval pyval pyval

text \<open>A recording is made through a ledger object, whose constructor has verified the tables.\<close>

definition recorded ::
    "loss_binding \<Rightarrow> (loss_db \<Rightarrow> (bool \<times> loss_db) result) \<Rightarrow> loss_db \<Rightarrow> loss_db result" where
  "recorded b act db =
     bindE (open_loss_ledger b True None db) (\<lambda>opened. bindE (act opened) (\<lambda>(fresh, after). Inr after))"

fun loss_step :: "dctx \<Rightarrow> loss_op \<Rightarrow> loss_db \<Rightarrow> loss_db result" where
  "loss_step amb (Open_Ledger b must_exist clock) db = open_loss_ledger b must_exist clock db"
| "loss_step amb (Record_Pnl b clock i r t x) db = recorded b (record_realized_pnl amb b clock i r t x) db"
| "loss_step amb (Record_Fee b clock i r t x) db = recorded b (record_loss_fee b clock i r t x) db"
| "loss_step amb (Record_Funding b clock i r t x) db = recorded b (record_funding amb b clock i r t x) db"
| "loss_step amb (Record_Coverage b clock i s lo hi h) db = recorded b (record_coverage b clock i s lo hi h) db"

text \<open>The ledger is bound to \<open>b\<close>, whose hash is \<open>bh\<close>.\<close>

definition bound_to :: "loss_binding \<Rightarrow> string \<Rightarrow> loss_db \<Rightarrow> bool" where
  "bound_to b bh db = (loss_binding_hash b = Inr bh \<and> (\<exists>row. ld_binding db = Some row \<and> lr_binding_hash row = bh
     \<and> lr_account_id row = lb_account_id b \<and> lr_environment row = environment_value (lb_environment b)
     \<and> lr_config_hash row = lb_config_hash b \<and> lr_settlement_currency row = lb_settlement_currency b
     \<and> lr_daily_loss_limit row = canonical_text (lb_daily_loss_limit b) \<and> bounded (lb_daily_loss_limit b)))"

lemma loss_binding_hash_bounded: "loss_binding_hash b = Inr bh \<Longrightarrow> bounded (lb_daily_loss_limit b)"
  by (auto simp: loss_binding_hash_def domain_hash_def canonical_bytes_def canonical_json_def record_val_def
      key_text_def canonical_decimal_Inr_iff)

lemma bind_or_verify_effect:
  assumes "bind_or_verify_losses b now create db = Inr after"
  shows "(after = db \<or> ld_binding db = None \<and> create \<and> (\<exists>row. after = db\<lparr>ld_binding := Some row\<rparr>))
    \<and> (\<exists>bh. bound_to b bh after)"
proof (cases "ld_binding db")
  case None
  with assms show ?thesis
    by (auto simp: bind_or_verify_losses_def bound_to_def canonical_decimal_Inr_iff)
next
  case (Some row)
  from assms Some obtain l bh where l: "stored_decimal (lr_daily_loss_limit row) = Inr l" "loss_binding_hash b = Inr bh"
    "lr_account_id row = lb_account_id b" "lr_environment row = environment_value (lb_environment b)"
    "lr_config_hash row = lb_config_hash b" "lr_binding_hash row = bh" "dval l = dval (lb_daily_loss_limit b)"
    "lr_settlement_currency row = lb_settlement_currency b" "after = db"
    by (auto simp: bind_or_verify_losses_def deq_dval)
  from stored_decimal_ok [OF l(1)] l(7) have "lr_daily_loss_limit row = canonical_text (lb_daily_loss_limit b)"
    by (simp add: canonical_text_eq_iff)
  with l loss_binding_hash_bounded [OF l(2)] Some show ?thesis by (auto simp: bound_to_def)
qed

section \<open>The invariant\<close>

definition loss_schema_rows :: "loss_db \<Rightarrow> bool" where
  "loss_schema_rows db =
     (if ld_created db
      then \<exists>m. ld_migrations db = [m] \<and> lm_version m = loss_schema_version \<and> lm_name m = loss_schema_name
        \<and> lm_checksum m = loss_schema_checksum
      else ld_migrations db = [] \<and> ld_binding db = None)"

abbreviation event_key :: "loss_event_row \<Rightarrow> loss_source \<times> loss_kind \<times> string" where
  "event_key r \<equiv> (le_source r, le_kind r, le_source_ref_hash r)"

abbreviation coverage_key :: "loss_coverage_row \<Rightarrow> loss_source \<times> string" where
  "coverage_key r \<equiv> (lc_source r, lc_source_cursor_hash r)"

definition loss_inv :: "dctx \<Rightarrow> loss_db \<Rightarrow> bool" where
  "loss_inv amb db =
     (loss_schema_rows db
      \<and> (ld_binding db = None \<longrightarrow> ld_events db = [] \<and> ld_coverage db = [])
      \<and> (\<forall>bound. ld_binding db = Some bound \<longrightarrow>
          (\<forall>r \<in> set (ld_events db). is_ok (validate_event_row amb (lr_binding_hash bound) r))
          \<and> (\<forall>r \<in> set (ld_coverage db). is_ok (coverage_interval (lr_binding_hash bound) (lc_source r) r)))
      \<and> distinct (map le_event_id (ld_events db)) \<and> distinct (map event_key (ld_events db))
      \<and> distinct (map lc_coverage_id (ld_coverage db)) \<and> distinct (map coverage_key (ld_coverage db)))"

definition loss_later :: "loss_db \<Rightarrow> loss_db \<Rightarrow> bool" where
  "loss_later db after =
     ((\<exists>rows. ld_events after = ld_events db @ rows) \<and> (\<exists>rows. ld_coverage after = ld_coverage db @ rows)
      \<and> (\<forall>row. ld_binding db = Some row \<longrightarrow> ld_binding after = Some row) \<and> (ld_created db \<longrightarrow> ld_created after))"

lemma verify_loss_schema_ok: "loss_schema_rows db \<Longrightarrow> verify_loss_schema db = Inr () \<longleftrightarrow> ld_created db"
  by (auto simp: loss_schema_rows_def verify_loss_schema_def)

lemma verify_loss_schema_rows: "verify_loss_schema db = Inr () \<Longrightarrow> ld_created db \<and> loss_schema_rows db"
  by (auto simp: loss_schema_rows_def verify_loss_schema_def split: list.splits)

lemma open_loss_ledger_effect:
  assumes "open_loss_ledger b must clock db = Inr after"
  shows "ld_events after = ld_events db \<and> ld_coverage after = ld_coverage db \<and> ld_created after
    \<and> loss_schema_rows after \<and> (\<exists>bh. bound_to b bh after) \<and> (ld_binding db \<noteq> None \<longrightarrow> ld_binding after = ld_binding db)
    \<and> (must \<longrightarrow> after = db)"
proof -
  have "\<exists>m now create. ld_events m = ld_events db \<and> ld_coverage m = ld_coverage db \<and> ld_binding m = ld_binding db
      \<and> verify_loss_schema m = Inr () \<and> bind_or_verify_losses b now create m = Inr after
      \<and> (must \<longrightarrow> m = db \<and> \<not> create)"
  proof (cases must)
    case True
    with assms show ?thesis by (auto simp: open_loss_ledger_def)
  next
    case False
    with assms obtain m now where "migrate_losses now db = Inr m" "verify_loss_schema m = Inr ()"
      "bind_or_verify_losses b (Some now) True m = Inr after"
      by (auto simp: open_loss_ledger_def)
    moreover from this(1) have "ld_events m = ld_events db \<and> ld_coverage m = ld_coverage db \<and> ld_binding m = ld_binding db"
      by (auto simp: migrate_losses_def split: option.splits)
    ultimately show ?thesis using False by blast
  qed
  then obtain m now create where
    m: "ld_events m = ld_events db \<and> ld_coverage m = ld_coverage db \<and> ld_binding m = ld_binding db"
      "verify_loss_schema m = Inr ()" "bind_or_verify_losses b now create m = Inr after" "must \<longrightarrow> m = db \<and> \<not> create"
    by blast
  note schema = verify_loss_schema_rows [OF m(2)] and bind = bind_or_verify_effect [OF m(3)]
  then show ?thesis using m(1,4) by (auto simp: loss_schema_rows_def)
qed

lemma bound_to_hash: "bound_to b bh db \<Longrightarrow> ld_binding db = Some row \<Longrightarrow> lr_binding_hash row = bh"
  by (auto simp: bound_to_def)

lemma loss_inv_open:
  assumes "loss_inv amb db" "open_loss_ledger b must clock db = Inr after"
  shows "loss_inv amb after \<and> loss_later db after"
proof -
  note e = open_loss_ledger_effect [OF assms(2)]
  then have "ld_binding after \<noteq> None" by (auto simp: bound_to_def)
  with e assms(1) show ?thesis unfolding loss_inv_def loss_later_def by auto
qed

text \<open>One row more that verifies and shares no identity.\<close>

lemma loss_inv_event:
  assumes "loss_inv amb db" "bound_to b bh db" "validate_event_row amb bh r = Inr e"
    and "filter (same_event (le_event_id r) (le_source r) (le_kind r) (le_source_ref_hash r)) (ld_events db) = []"
  shows "loss_inv amb (db\<lparr>ld_events := ld_events db @ [r]\<rparr>)"
proof -
  obtain row where row: "ld_binding db = Some row" "lr_binding_hash row = bh" using assms(2) by (auto simp: bound_to_def)
  have "le_event_id r \<notin> le_event_id ` set (ld_events db)" "event_key r \<notin> event_key ` set (ld_events db)"
    using assms(4) by (auto simp: filter_empty_conv same_event_def)
  moreover have "ld_created db" using assms(1) row by (auto simp: loss_inv_def loss_schema_rows_def split: if_splits)
  ultimately show ?thesis using assms(1,3) row by (simp add: loss_inv_def loss_schema_rows_def)
qed

lemma loss_inv_coverage:
  assumes "loss_inv amb db" "bound_to b bh db" "coverage_interval bh (lc_source r) r = Inr iv"
    and "filter (same_coverage (lc_coverage_id r) (lc_source r) (lc_source_cursor_hash r)) (ld_coverage db) = []"
  shows "loss_inv amb (db\<lparr>ld_coverage := ld_coverage db @ [r]\<rparr>)"
proof -
  obtain row where row: "ld_binding db = Some row" "lr_binding_hash row = bh" using assms(2) by (auto simp: bound_to_def)
  have "lc_coverage_id r \<notin> lc_coverage_id ` set (ld_coverage db)" "coverage_key r \<notin> coverage_key ` set (ld_coverage db)"
    using assms(4) by (auto simp: filter_empty_conv same_coverage_def)
  moreover have "ld_created db" using assms(1) row by (auto simp: loss_inv_def loss_schema_rows_def split: if_splits)
  ultimately show ?thesis using assms(1,3) row by (simp add: loss_inv_def loss_schema_rows_def)
qed

lemma append_event_inv:
  assumes "decimal_context amb" "loss_inv amb db" "bound_to b bh db" "debit_of amb k a d"
    and "append_loss_event b clock v k (kind_source k) v_ref v_at a d db = Inr (fresh, after)"
  shows "loss_inv amb after \<and> loss_later db after"
  using assms(5)
proof (rule append_loss_event_cases)
  fix i src h t now bh' g
  assume f: "loss_identifier v = Inr i" "loss_text 1024 v_ref = Inr src" "source_ref_hash src = Inr h"
      "utc_time v_at = Inr t" "clock_read clock = Inr now" "t \<le> now" "bounded a" "nonnegative d"
      "loss_binding_hash b = Inr bh'" "loss_event_hash bh' i (kind_source k) k t a d h = Inr g"
  let ?r = "\<lparr> le_event_id = i, le_source = kind_source k, le_kind = k, le_occurred_at = t, le_observed_at = now,
             le_amount = canonical_text a, le_debit = canonical_text d, le_source_ref_hash = h, le_record_hash = g \<rparr>"
  assume out: "fresh \<and> filter (same_event i (kind_source k) k h) (ld_events db) = []
       \<and> after = db\<lparr>ld_events := ld_events db @ [?r]\<rparr>
     \<or> \<not> fresh \<and> after = db
       \<and> (\<exists>r. filter (same_event i (kind_source k) k h) (ld_events db) = [r] \<and> le_event_id r = i \<and> le_record_hash r = g)"
  have "bh' = bh" using f(9) assms(3) by (simp add: bound_to_def)
  then have ok: "\<exists>e. validate_event_row amb bh ?r = Inr e"
    using new_event_validates [OF assms(1) f(1,3,6,7,8,10) assms(4)] by blast
  from out show ?thesis
  proof (elim disjE conjE)
    assume "filter (same_event i (kind_source k) k h) (ld_events db) = []"
      and after: "after = db\<lparr>ld_events := ld_events db @ [?r]\<rparr>"
    then show ?thesis
      using ok loss_inv_event [OF assms(2,3), of ?r] by (auto simp: loss_later_def)
  qed (use assms(2) in \<open>auto simp: loss_later_def\<close>)
qed

lemma record_coverage_inv:
  assumes "loss_inv amb db" "bound_to b bh db"
    and "record_coverage b clock v v_source v_from v_through v_hash db = Inr (fresh, after)"
  shows "loss_inv amb after \<and> loss_later db after"
  using assms(3)
proof (rule record_coverage_cases)
  fix i s lo hi now h bh' g
  assume f: "loss_identifier v = Inr i" "loss_source_of v_source = Inr s" "utc_time v_from = Inr lo"
    "utc_time v_through = Inr hi" "clock_read clock = Inr now" "lo \<le> hi" "hi \<le> now"
    "loss_sha256 ValidationError v_hash = Inr h" "loss_binding_hash b = Inr bh'"
    "loss_coverage_hash bh' i s lo hi h = Inr g"
  let ?r = "\<lparr> lc_coverage_id = i, lc_source = s, lc_covered_from = lo, lc_covered_through = hi, lc_observed_at = now,
             lc_source_cursor_hash = h, lc_record_hash = g \<rparr>"
  assume out: "fresh \<and> filter (same_coverage i s h) (ld_coverage db) = []
       \<and> after = db\<lparr>ld_coverage := ld_coverage db @ [?r]\<rparr>
     \<or> \<not> fresh \<and> after = db
       \<and> (\<exists>r. filter (same_coverage i s h) (ld_coverage db) = [r] \<and> lc_coverage_id r = i \<and> lc_record_hash r = g)"
  have "bh' = bh" using f(9) assms(2) by (simp add: bound_to_def)
  then have ok: "coverage_interval bh s ?r = Inr (lo, hi)"
    using new_coverage_validates [OF f(1,6,7) loss_sha256_ok [OF f(8)] f(10)] by simp
  from out show ?thesis
  proof (elim disjE conjE)
    assume "filter (same_coverage i s h) (ld_coverage db) = []"
      and after: "after = db\<lparr>ld_coverage := ld_coverage db @ [?r]\<rparr>"
    then show ?thesis
      using ok loss_inv_coverage [OF assms(1,2), of ?r] by (auto simp: loss_later_def)
  qed (use assms(1) in \<open>auto simp: loss_later_def\<close>)
qed

section \<open>The ledger is a monotone system\<close>

lemma record_realized_pnl_append:
  assumes "record_realized_pnl amb b clock v v_ref v_at x db = Inr out"
  obtains a d where "debit_of amb Realized_Pnl a d" "exact_decimal x = Inr a"
    "append_loss_event b clock v Realized_Pnl (kind_source Realized_Pnl) v_ref v_at a d db = Inr out"
  using assms by (auto simp: record_realized_pnl_def debit_of_def kind_source_def)

lemma record_loss_fee_append:
  assumes "record_loss_fee b clock v v_ref v_at x db = Inr out"
  obtains a where "debit_of amb Fee a a" "policy_nonnegative x = Inr a"
    "append_loss_event b clock v Fee (kind_source Fee) v_ref v_at a a db = Inr out"
  using assms policy_nonnegative_ok by (auto simp: record_loss_fee_def debit_of_def kind_source_def)

lemma record_funding_append:
  assumes "record_funding amb b clock v v_ref v_at x db = Inr out"
  obtains a d where "debit_of amb Funding_Payment a d" "exact_decimal x = Inr a"
    "append_loss_event b clock v Funding_Payment (kind_source Funding_Payment) v_ref v_at a d db = Inr out"
  using assms by (auto simp: record_funding_def debit_of_def kind_source_def)

lemma recorded_iff:
  "recorded b act db = Inr after \<longleftrightarrow> open_loss_ledger b True None db = Inr db \<and> (\<exists>fresh. act db = Inr (fresh, after))"
proof
  assume "recorded b act db = Inr after"
  then obtain opened fresh where o: "open_loss_ledger b True None db = Inr opened" "act opened = Inr (fresh, after)"
    by (auto simp: recorded_def split: prod.splits)
  from open_loss_ledger_effect [OF o(1)] have "opened = db" by simp
  with o show "open_loss_ledger b True None db = Inr db \<and> (\<exists>fresh. act db = Inr (fresh, after))" by blast
qed (auto simp: recorded_def)

lemma loss_step_effect:
  assumes "decimal_context amb" "loss_inv amb db" "loss_step amb op db = Inr after"
  shows "loss_inv amb after \<and> loss_later db after"
proof -
  have bound: "\<exists>bh. bound_to b bh db" if "open_loss_ledger b True None db = Inr db" for b
    using open_loss_ledger_effect [OF that] by blast
  show ?thesis
  proof (cases op)
    case (Open_Ledger b must clock)
    with assms(2,3) show ?thesis using loss_inv_open by simp
  next
    case (Record_Pnl b clock i r t x)
    with assms(3) obtain fresh where o: "open_loss_ledger b True None db = Inr db"
      "record_realized_pnl amb b clock i r t x db = Inr (fresh, after)" by (auto simp: recorded_iff)
    obtain bh where bh: "bound_to b bh db" using bound [OF o(1)] by blast
    show ?thesis using o(2)
      by (rule record_realized_pnl_append) (rule append_event_inv [OF assms(1,2) bh])
  next
    case (Record_Fee b clock i r t x)
    with assms(3) obtain fresh where o: "open_loss_ledger b True None db = Inr db"
      "record_loss_fee b clock i r t x db = Inr (fresh, after)" by (auto simp: recorded_iff)
    obtain bh where bh: "bound_to b bh db" using bound [OF o(1)] by blast
    show ?thesis using o(2)
      by (rule record_loss_fee_append) (rule append_event_inv [OF assms(1,2) bh])
  next
    case (Record_Funding b clock i r t x)
    with assms(3) obtain fresh where o: "open_loss_ledger b True None db = Inr db"
      "record_funding amb b clock i r t x db = Inr (fresh, after)" by (auto simp: recorded_iff)
    obtain bh where bh: "bound_to b bh db" using bound [OF o(1)] by blast
    show ?thesis using o(2)
      by (rule record_funding_append) (rule append_event_inv [OF assms(1,2) bh])
  next
    case (Record_Coverage b clock i s lo hi h)
    with assms(3) obtain fresh where o: "open_loss_ledger b True None db = Inr db"
      "record_coverage b clock i s lo hi h db = Inr (fresh, after)" by (auto simp: recorded_iff)
    obtain bh where bh: "bound_to b bh db" using bound [OF o(1)] by blast
    show ?thesis using record_coverage_inv [OF assms(2) bh o(2)] .
  qed
qed

lemma loss_later_refl: "loss_later db db"
  by (simp add: loss_later_def)

lemma loss_later_trans: "loss_later a b \<Longrightarrow> loss_later b c \<Longrightarrow> loss_later a c"
  by (auto simp: loss_later_def)

interpretation loss_ledger: monotone_system "\<lambda>db. db = empty_loss_db" "loss_step default_context"
  "loss_inv default_context" loss_later
proof
  show "db = empty_loss_db \<Longrightarrow> loss_inv default_context db" for db
    by (simp add: loss_inv_def loss_schema_rows_def empty_loss_db_def)
qed (use loss_step_effect [OF default_ctx.decimal_context_axioms] loss_later_refl loss_later_trans in blast)+

text \<open>A binding, once made, is the one every later ledger object has.\<close>

lemma bound_to_later: "bound_to b bh db \<Longrightarrow> loss_later db after \<Longrightarrow> bound_to b bh after"
  by (auto simp: bound_to_def loss_later_def)

lemma bound_opens:
  assumes "loss_inv amb db" "bound_to b bh db"
  shows "open_loss_ledger b True None db = Inr db" and "verify_loss_schema db = Inr ()"
    and "bind_or_verify_losses b now create db = Inr db"
proof -
  have created: "ld_created db" using assms by (auto simp: loss_inv_def loss_schema_rows_def bound_to_def split: if_splits)
  then show v: "verify_loss_schema db = Inr ()"
    using assms(1) verify_loss_schema_ok unfolding loss_inv_def by blast
  obtain row where row: "ld_binding db = Some row" "lr_daily_loss_limit row = canonical_text (lb_daily_loss_limit b)"
    "bounded (lb_daily_loss_limit b)" using assms(2) by (auto simp: bound_to_def)
  have s: "stored_decimal (lr_daily_loss_limit row) = Inr (db_decimal (lb_daily_loss_limit b))"
    "deq (db_decimal (lb_daily_loss_limit b)) (lb_daily_loss_limit b)"
    using stored_decimal_text [OF row(3)] db_decimal_facts(2) [OF row(3)] row(2) by (simp_all add: deq_dval)
  show bind: "bind_or_verify_losses b now create db = Inr db" for now create
    using row(1) s assms(2) by (auto simp: bind_or_verify_losses_def bound_to_def)
  then show "open_loss_ledger b True None db = Inr db" using v by (simp add: open_loss_ledger_def)
qed

end
