(* ===== verification/Daily_Loss_Snapshot.thy ===== *)
theory Daily_Loss_Snapshot
  imports Daily_Loss_Invariant
begin

text \<open>
  What a snapshot of the loss ledger means: the scan over the coverage intervals is sound and accepts
  one spanning interval, the totals are never below the exact sums and only grow with the tables,
  a repeated recording changes nothing, and a covered ledger answers.
\<close>

section \<open>Coverage\<close>

lemma coverage_scan_sound:
  assumes "coverage_scan lo hi covered ivs = (out, True)" "set ivs \<subseteq> S"
    and "\<forall>first through. covered = Some (first, through) \<longrightarrow>
      (\<forall>t. first \<le> t \<and> t \<le> through \<longrightarrow> (\<exists>(s, e) \<in> S. s \<le> t \<and> t \<le> e))"
  shows "\<forall>t. lo \<le> t \<and> t \<le> hi \<longrightarrow> (\<exists>(s, e) \<in> S. s \<le> t \<and> t \<le> e)"
  using assms
proof (induction lo hi covered ivs rule: coverage_scan.induct)
  case (2 lo hi covered s e ivs)
  show ?case
  proof (cases "e < lo \<or> hi < s")
    case True
    with 2 show ?thesis by simp
  next
    case False
    define joined where "joined = (case covered of None \<Rightarrow> Some (s, e)
      | Some (first, through) \<Rightarrow> if s \<le> through then Some (first, if through < e then e else through) else None)"
    from 2(3) False obtain f u where j: "joined = Some (f, u)"
      by (cases joined) (auto simp: joined_def)
    have in_S: "(s, e) \<in> S" using 2(4) by simp
    have chain: "\<exists>(s, e) \<in> S. s \<le> t \<and> t \<le> e" if "f \<le> t" "t \<le> u" for t
    proof (cases covered)
      case None
      with j that in_S show ?thesis by (auto simp: joined_def)
    next
      case (Some c)
      obtain first through where c: "covered = Some (first, through)" using Some by (cases c) simp
      with j have fu: "s \<le> through" "f = first" "u = (if through < e then e else through)"
        by (auto simp: joined_def split: if_splits)
      consider "t \<le> through" | "through < t" by linarith
      then show ?thesis
      proof cases
        case 1
        with 2(5) c fu that show ?thesis by simp
      next
        case 2
        with fu that in_S show ?thesis by (intro bexI [OF _ in_S]) (auto split: if_splits)
      qed
    qed
    show ?thesis
    proof (cases "f \<le> lo \<and> hi \<le> u")
      case True
      with chain show ?thesis by force
    next
      case outside: False
      have "\<not> (covered = None \<and> lo < s)" "coverage_scan lo hi (Some (f, u)) ivs = (out, True)"
        using 2(3) False j outside by (auto simp flip: joined_def split: if_splits)
      then show ?thesis
        using 2(2) [OF False, folded joined_def, OF j refl] outside 2(4) chain by simp
    qed
  qed
qed simp

text \<open>One interval that spans the window suffices, whatever else was recorded.\<close>

lemma coverage_scan_spanned:
  assumes "sorted (map fst ivs)" "(s, e) \<in> set ivs" "s \<le> lo" "hi \<le> e" "lo \<le> hi"
    and "\<forall>first through. covered = Some (first, through) \<longrightarrow> first \<le> lo \<and> lo \<le> through"
  shows "snd (coverage_scan lo hi covered ivs)"
  using assms
proof (induction lo hi covered ivs rule: coverage_scan.induct)
  case (2 lo hi covered s1 e1 ivs)
  have first: "s1 \<le> s" using 2(3,4) by auto
  show ?case
  proof (cases "e1 < lo \<or> hi < s1")
    case True
    with 2 show ?thesis by auto
  next
    case False
    define joined where "joined = (case covered of None \<Rightarrow> Some (s1, e1)
      | Some (first, through) \<Rightarrow> if s1 \<le> through then Some (first, if through < e1 then e1 else through) else None)"
    obtain f u where j: "joined = Some (f, u)" "f \<le> lo" "lo \<le> u" "e1 \<le> u"
    proof (cases covered)
      case None
      then show ?thesis using that [of s1 e1] first 2(5) False by (simp add: joined_def)
    next
      case (Some c)
      obtain first through where c: "covered = Some (first, through)" using Some by (cases c) simp
      then show ?thesis
        using that [of first "if through < e1 then e1 else through"] \<open>s1 \<le> s\<close> 2(5,8)
        by (simp add: joined_def)
    qed
    have "\<not> (covered = None \<and> lo < s1)" using first 2(5) by simp
    moreover have "snd (coverage_scan lo hi (Some (f, u)) ivs)" if outside: "\<not> (f \<le> lo \<and> hi \<le> u)"
    proof -
      have "(s, e) \<noteq> (s1, e1)" using outside j 2(6) by auto
      then have "(s, e) \<in> set ivs" using 2(4) by auto
      then show ?thesis
        using 2(2) [OF False, folded joined_def, OF j(1) refl] outside calculation 2(3,5-7) j by simp
    qed
    ultimately show ?thesis using False j by (auto simp flip: joined_def)
  qed
qed simp

lemma sorted_intervals_facts: "set (sorted_intervals ivs) = set ivs" "sorted (map fst (sorted_intervals ivs))"
  by (simp_all add: sorted_intervals_def)

lemma mapE_set: "mapE f xs = Inr ys \<Longrightarrow> y \<in> set ys \<Longrightarrow> \<exists>x \<in> set xs. f x = Inr y"
  by (induction xs arbitrary: ys) auto

lemma mapE_image: "mapE f xs = Inr ys \<Longrightarrow> x \<in> set xs \<Longrightarrow> \<exists>y \<in> set ys. f x = Inr y"
  by (induction xs arbitrary: ys) auto

lemma mapE_total: "\<forall>x \<in> set xs. is_ok (f x) \<Longrightarrow> \<exists>ys. mapE f xs = Inr ys"
proof (induction xs)
  case (Cons x xs)
  then obtain y ys where "f x = Inr y" "mapE f xs = Inr ys" by (auto elim: is_okE)
  then show ?case by simp
qed simp

lemma coverage_interval_ok:
  assumes "coverage_interval bh s r = Inr iv"
  shows "iv = (lc_covered_from r, lc_covered_through r) \<and> lc_source r = s
    \<and> lc_covered_through r \<le> lc_observed_at r
    \<and> loss_coverage_hash bh (lc_coverage_id r) s (lc_covered_from r) (lc_covered_through r) (lc_source_cursor_hash r)
      = Inr (lc_record_hash r)"
  using assms by (auto simp: coverage_interval_def Let_def not_less loss_identifier_def loss_text_def)

lemma coverage_status_ok:
  assumes "coverage_status_of bh s lo hi rows = Inr c"
  shows "cs_source c = s \<and> cs_required_from c = lo \<and> cs_required_through c = hi
    \<and> (cs_complete c \<longrightarrow> (\<forall>t. lo \<le> t \<and> t \<le> hi \<longrightarrow>
        (\<exists>r \<in> set rows. is_ok (coverage_interval bh s r) \<and> lc_covered_from r \<le> t \<and> t \<le> lc_covered_through r)))"
proof -
  from assms obtain ivs covered complete where ivs: "mapE (coverage_interval bh s) rows = Inr ivs"
    and scan: "coverage_scan lo hi None (sorted_intervals ivs) = (covered, complete)"
    and c: "c = \<lparr> cs_source = s, cs_required_from = lo, cs_required_through = hi,
      cs_covered_from = map_option fst covered, cs_covered_through = map_option snd covered, cs_complete = complete \<rparr>"
    by (cases "coverage_scan lo hi None (sorted_intervals (projr (mapE (coverage_interval bh s) rows)))")
      (auto simp: coverage_status_of_def Let_def)
  have "\<exists>r \<in> set rows. is_ok (coverage_interval bh s r) \<and> lc_covered_from r \<le> t \<and> t \<le> lc_covered_through r"
    if "complete" "lo \<le> t" "t \<le> hi" for t
  proof -
    have "\<exists>(a, b) \<in> set ivs. a \<le> t \<and> t \<le> b"
      using coverage_scan_sound [of lo hi None "sorted_intervals ivs" covered "set ivs"] scan that
      by (simp add: sorted_intervals_facts)
    then obtain iv where iv: "iv \<in> set ivs" "fst iv \<le> t" "t \<le> snd iv" by auto
    from mapE_set [OF ivs iv(1)] obtain r where "r \<in> set rows" "coverage_interval bh s r = Inr iv" by blast
    with iv coverage_interval_ok [of bh s r iv] show ?thesis by (intro bexI [of _ r]) simp_all
  qed
  with c show ?thesis by simp
qed

lemma coverage_rows_set:
  "set (coverage_rows s lo hi db)
   = {r \<in> set (ld_coverage db). lc_source r = s \<and> lo \<le> lc_covered_through r \<and> lc_covered_from r \<le> hi}"
  by (auto simp: coverage_rows_def)

lemma coverage_statuses_iff:
  "coverage_statuses bh lo hi db = Inr cs \<longleftrightarrow> (\<exists>a b. cs = [a, b]
     \<and> coverage_status_of bh Fills lo hi (coverage_rows Fills lo hi db) = Inr a
     \<and> coverage_status_of bh Funding lo hi (coverage_rows Funding lo hi db) = Inr b)"
  by (auto simp: coverage_statuses_def)

lemma missing_sources_Nil: "missing_sources cs = [] \<longleftrightarrow> (\<forall>c \<in> set cs. cs_complete c)"
  by (auto simp: missing_sources_def filter_empty_conv)

section \<open>What a snapshot consists of\<close>

lemma snapshot_losses_ok:
  assumes "snapshot_losses amb b clock must as_of db = Inr s"
  obtains observed bh events d where
    "clock_read clock = Inr observed" "ls_as_of s \<le> observed" "utc_day (ls_as_of s) = utc_day observed"
    "case as_of of None \<Rightarrow> ls_as_of s = observed | Some v \<Rightarrow> utc_time v = Inr (ls_as_of s)"
    "verify_loss_schema db = Inr ()" "is_ok (bind_or_verify_losses b (Some (ls_as_of s)) False db)"
    "loss_binding_hash b = Inr bh"
    "coverage_statuses bh (loss_day_start (ls_as_of s)) (ls_as_of s) db = Inr (ls_coverage s)"
    "mapE (validate_event_row amb bh) (event_rows (loss_day_start (ls_as_of s)) (ls_as_of s) db) = Inr events"
    "foldE add_debit (0, 0, 0) events = Inr (ls_realized_loss_debit s, ls_fee_debit s, ls_funding_debit s)"
    "decimal_add [ls_realized_loss_debit s, ls_fee_debit s, ls_funding_debit s] = Inr (ls_used s)"
    "decimal_subtract (lb_daily_loss_limit b) (ls_used s) = Inr d" "ls_remaining s = dmax d 0"
    "must \<longrightarrow> missing_sources (ls_coverage s) = []" "ls_limit s = lb_daily_loss_limit b"
proof -
  from assms obtain observed now bh cs events totals used d h where
    f: "clock_read clock = Inr observed" "(case as_of of None \<Rightarrow> Inr observed | Some v \<Rightarrow> utc_time v) = Inr now"
      "now \<le> observed" "utc_day now = utc_day observed" "verify_loss_schema db = Inr ()"
      "is_ok (bind_or_verify_losses b (Some now) False db)" "loss_binding_hash b = Inr bh"
      "coverage_statuses bh (loss_day_start now) now db = Inr cs"
      "mapE (validate_event_row amb bh) (event_rows (loss_day_start now) now db) = Inr events"
      "foldE add_debit (0, 0, 0) events = Inr totals"
      "decimal_add [fst totals, fst (snd totals), snd (snd totals)] = Inr used"
      "decimal_subtract (lb_daily_loss_limit b) used = Inr d" "must \<longrightarrow> missing_sources cs = []"
    and s: "s = \<lparr> ls_utc_day = utc_day now, ls_as_of = now, ls_limit = lb_daily_loss_limit b, ls_used = used,
            ls_remaining = dmax d 0, ls_realized_loss_debit = fst totals, ls_fee_debit = fst (snd totals),
            ls_funding_debit = snd (snd totals), ls_event_count = length events, ls_coverage = cs,
            ls_coverage_complete = (missing_sources cs = []), ls_missing_sources = missing_sources cs,
            ls_binding_hash = bh, ls_snapshot_hash = h \<rparr>"
    unfolding snapshot_losses_def Let_def bindE_Inr_iff by (auto simp: not_less case_prod_beta)
  show ?thesis
    by (rule that [of observed bh events d]) (use f s in \<open>simp_all split: option.splits\<close>)
qed

section \<open>The budget\<close>

text \<open>The debit of a row, and the debits of a day up to an instant.\<close>

definition row_debit :: "loss_event_row \<Rightarrow> rat" where
  "row_debit r = (case stored_decimal (le_debit r) of Inl e \<Rightarrow> 0 | Inr d \<Rightarrow> dval d)"

definition day_debits :: "instant \<Rightarrow> loss_db \<Rightarrow> rat" where
  "day_debits t db = sum_list (map row_debit
     (filter (\<lambda>r. loss_day_start t \<le> le_occurred_at r \<and> le_occurred_at r \<le> t) (ld_events db)))"

lemma validate_event_row_ok:
  assumes "validate_event_row amb bh r = Inr e"
  shows "ev_kind e = le_kind r \<and> row_debit r = dval (ev_debit e) \<and> 0 \<le> dval (ev_debit e) \<and> bounded (ev_debit e)
    \<and> (\<exists>a. stored_decimal (le_amount r) = Inr a \<and> (if le_kind r = Fee then row_debit r = dval a
        else \<exists>d. loss_debit amb a = Inr d \<and> row_debit r = dval d))"
proof -
  from assms obtain a d x where
    f: "stored_decimal (le_amount r) = Inr a" "stored_decimal (le_debit r) = Inr d" "\<not> d < 0"
      "(if le_kind r = Fee then Inr a else loss_debit amb a) = Inr x" "deq d x"
      "ev_kind e = le_kind r" "ev_debit e = d"
    unfolding validate_event_row_def Let_def bindE_Inr_iff by auto
  have "row_debit r = dval d" using f(2) by (simp add: row_debit_def)
  moreover have "bounded d" using stored_decimal_ok [OF f(2)] by simp
  ultimately show ?thesis using f by (auto simp: dval_simps split: if_splits)
qed

lemma sum_list_sort: "sum_list (map f (sort_key k xs)) = sum_list (map (f :: _ \<Rightarrow> rat) xs)"
proof -
  have "mset (map f (sort_key k xs)) = mset (map f xs)" by simp
  then show ?thesis by (metis sum_mset_sum_list)
qed

lemma event_rows_debits:
  "sum_list (map row_debit (event_rows (loss_day_start t) t db)) = day_debits t db"
  by (simp add: event_rows_def day_debits_def sum_list_sort)

lemma validated_debits:
  "mapE (validate_event_row amb bh) rows = Inr es \<Longrightarrow>
   sum_list (map row_debit rows) = sum_list (map (\<lambda>e. dval (ev_debit e)) es)
   \<and> (\<forall>e \<in> set es. 0 \<le> dval (ev_debit e) \<and> bounded (ev_debit e))"
  by (induction rows arbitrary: es) (auto dest!: validate_event_row_ok)

definition total_of :: "decimal \<times> decimal \<times> decimal \<Rightarrow> rat" where
  "total_of a = (case a of (r, f, p) \<Rightarrow> dval r + dval f + dval p)"

definition below3 :: "decimal \<times> decimal \<times> decimal \<Rightarrow> decimal \<times> decimal \<times> decimal \<Rightarrow> bool" where
  "below3 a b = (case (a, b) of ((r, f, p), (r', f', p')) \<Rightarrow> dval r \<le> dval r' \<and> dval f \<le> dval f' \<and> dval p \<le> dval p')"

lemma below3_refl: "below3 a a" and below3_trans: "below3 a b \<Longrightarrow> below3 b c \<Longrightarrow> below3 a c"
  by (auto simp: below3_def split: prod.splits)

lemma add_debit_up:
  assumes "add_debit a e = Inr b"
  shows "total_of a + dval (ev_debit e) \<le> total_of b" and "0 \<le> dval (ev_debit e) \<Longrightarrow> below3 a b"
proof -
  have up: "dval x + dval y \<le> dval z" if "decimal_add [x, y] = Inr z" for x y z using decimal_add_up [OF that] by simp
  obtain r f p where a: "a = (r, f, p)" by (cases a)
  show "total_of a + dval (ev_debit e) \<le> total_of b"
    using assms up [of _ "ev_debit e"] by (auto simp: a add_debit_def total_of_def split: loss_kind.splits)
  show "below3 a b" if "0 \<le> dval (ev_debit e)"
    using assms that up [of _ "ev_debit e"]
    by (fastforce simp: a add_debit_def below3_def split: loss_kind.splits)
qed

lemma add_debit_mono:
  assumes "add_debit a e = Inr b" "add_debit a' e = Inr b'" "below3 a a'"
  shows "below3 b b'"
proof -
  obtain r f p r' f' p' where a: "a = (r, f, p)" "a' = (r', f', p')" by (cases a; cases a') auto
  show ?thesis
    using assms decimal_add_mono [of _ "ev_debit e" _ _ "ev_debit e"]
    by (auto simp: a add_debit_def below3_def split: loss_kind.splits)
qed

lemma fold_debits_up:
  "foldE add_debit a es = Inr b \<Longrightarrow> total_of a + sum_list (map (\<lambda>e. dval (ev_debit e)) es) \<le> total_of b"
proof (induction es arbitrary: a)
  case (Cons e es)
  then obtain c where c: "add_debit a e = Inr c" "foldE add_debit c es = Inr b" by auto
  from add_debit_up(1) [OF c(1)] Cons.IH [OF c(2)] show ?case by simp
qed simp

text \<open>More events, wherever they fall in the order, never give smaller totals.\<close>

lemma fold_debits_mono:
  assumes "foldE add_debit a (filter P es) = Inr b" "foldE add_debit a' es = Inr b'" "below3 a a'"
    and "\<forall>e \<in> set es. 0 \<le> dval (ev_debit e)"
  shows "below3 b b'"
  using assms
proof (induction es arbitrary: a a')
  case (Cons e es)
  from Cons.prems(2) obtain c' where c': "add_debit a' e = Inr c'" "foldE add_debit c' es = Inr b'" by auto
  have pos: "0 \<le> dval (ev_debit e)" "\<forall>e \<in> set es. 0 \<le> dval (ev_debit e)" using Cons.prems(4) by simp_all
  show ?case
  proof (cases "P e")
    case True
    with Cons.prems(1) obtain c where c: "add_debit a e = Inr c" "foldE add_debit c (filter P es) = Inr b" by auto
    from Cons.IH [OF c(2) c'(2) add_debit_mono [OF c(1) c'(1) Cons.prems(3)] pos(2)] show ?thesis .
  next
    case False
    with Cons.prems(1) have "foldE add_debit a (filter P es) = Inr b" by simp
    from Cons.IH [OF this c'(2) below3_trans [OF Cons.prems(3) add_debit_up(2) [OF c'(1) pos(1)]] pos(2)] show ?thesis .
  qed
qed simp

text \<open>Fewer rows give a filtered list of events.\<close>

lemma mapE_filter:
  "mapE f xs = Inr ys \<Longrightarrow> \<forall>x \<in> set xs. \<forall>y. f x = Inr y \<longrightarrow> g y = P x \<Longrightarrow> mapE f (filter P xs) = Inr (filter g ys)"
  by (induction xs arbitrary: ys) auto

lemma validate_event_row_id: "validate_event_row amb bh r = Inr e \<Longrightarrow> ev_event_id e = le_event_id r"
  by (auto simp: validate_event_row_def Let_def loss_identifier_def loss_text_def)

lemma event_rows_later:
  assumes "loss_later db after" "distinct (map le_event_id (ld_events after))" "lo = lo'" "hi \<le> hi'"
  shows "\<exists>I. event_rows lo hi db = filter (\<lambda>r. le_event_id r \<in> I) (event_rows lo' hi' after)"
proof -
  from assms(1) obtain rows where rows: "ld_events after = ld_events db @ rows" unfolding loss_later_def by blast
  define window where "window = filter (\<lambda>r. lo \<le> le_occurred_at r \<and> le_occurred_at r \<le> hi) (ld_events db)"
  let ?I = "le_event_id ` set window"
  have old: "le_event_id r \<in> ?I \<longleftrightarrow> r \<in> set window" if "r \<in> set (ld_events db)" for r
  proof -
    have "inj_on le_event_id (set (ld_events db))" using assms(2) by (simp add: rows distinct_map)
    moreover have "set window \<subseteq> set (ld_events db)" by (auto simp: window_def)
    ultimately show ?thesis using that by (intro inj_on_image_mem_iff)
  qed
  have new: "le_event_id r \<notin> ?I" if "r \<in> set rows" for r
  proof -
    have "le_event_id r \<notin> le_event_id ` set (ld_events db)" using assms(2) that by (auto simp: rows)
    then show ?thesis by (auto simp: window_def)
  qed
  have "filter (\<lambda>r. le_event_id r \<in> ?I) (filter (\<lambda>r. lo' \<le> le_occurred_at r \<and> le_occurred_at r \<le> hi') (ld_events after))
    = window"
  proof -
    have "filter (\<lambda>r. (lo' \<le> le_occurred_at r \<and> le_occurred_at r \<le> hi') \<and> le_event_id r \<in> ?I) (ld_events db) = window"
      unfolding window_def by (rule filter_cong [OF refl])
        (use old assms(3,4) in \<open>auto simp: window_def\<close>)
    moreover have "filter (\<lambda>r. (lo' \<le> le_occurred_at r \<and> le_occurred_at r \<le> hi') \<and> le_event_id r \<in> ?I) rows = []"
      using new by (auto simp: filter_empty_conv)
    ultimately show ?thesis by (simp add: rows filter_filter conj_commute)
  qed
  then have "event_rows lo hi db = filter (\<lambda>r. le_event_id r \<in> ?I) (event_rows lo' hi' after)"
    unfolding event_rows_def window_def [symmetric] filter_sort by simp
  then show ?thesis by blast
qed

section \<open>Properties of snapshots\<close>

lemma covered_window:
  assumes "coverage_statuses bh lo hi db = Inr cs" "missing_sources cs = []" "lo \<le> t" "t \<le> hi"
  shows "\<exists>r \<in> set (ld_coverage db). lc_source r = source \<and> lc_covered_from r \<le> t \<and> t \<le> lc_covered_through r
    \<and> lc_covered_through r \<le> lc_observed_at r
    \<and> loss_coverage_hash bh (lc_coverage_id r) source (lc_covered_from r) (lc_covered_through r) (lc_source_cursor_hash r)
      = Inr (lc_record_hash r)"
proof -
  obtain c where c: "coverage_status_of bh source lo hi (coverage_rows source lo hi db) = Inr c" "cs_complete c"
    using assms(1,2) by (cases source) (auto simp: coverage_statuses_iff missing_sources_Nil)
  from coverage_status_ok [OF c(1)] c(2) assms(3,4) obtain r where
    r: "r \<in> set (coverage_rows source lo hi db)" "is_ok (coverage_interval bh source r)"
      "lc_covered_from r \<le> t" "t \<le> lc_covered_through r" by blast
  then obtain iv where "coverage_interval bh source r = Inr iv" by (auto elim: is_okE)
  from coverage_interval_ok [OF this] r show ?thesis
    by (intro bexI [of _ r]) (simp_all add: coverage_rows_set)
qed

lemma snapshot_covers:
  assumes "snapshot_losses amb b clock True as_of db = Inr s"
  shows "\<exists>observed bh. clock_read clock = Inr observed \<and> loss_binding_hash b = Inr bh \<and> ls_as_of s \<le> observed
    \<and> utc_day (ls_as_of s) = utc_day observed
    \<and> (\<forall>source t. loss_day_start observed \<le> t \<and> t \<le> ls_as_of s \<longrightarrow>
        (\<exists>r \<in> set (ld_coverage db). lc_source r = source \<and> lc_covered_from r \<le> t \<and> t \<le> lc_covered_through r
          \<and> lc_covered_through r \<le> lc_observed_at r
          \<and> loss_coverage_hash bh (lc_coverage_id r) source (lc_covered_from r) (lc_covered_through r)
              (lc_source_cursor_hash r) = Inr (lc_record_hash r)))"
  using assms
proof (rule snapshot_losses_ok)
  fix observed bh
  assume f: "clock_read clock = Inr observed" "ls_as_of s \<le> observed" "utc_day (ls_as_of s) = utc_day observed"
    "loss_binding_hash b = Inr bh"
    "coverage_statuses bh (loss_day_start (ls_as_of s)) (ls_as_of s) db = Inr (ls_coverage s)"
    "True \<longrightarrow> missing_sources (ls_coverage s) = []"
  have start: "loss_day_start (ls_as_of s) = loss_day_start observed" using f(3) by (simp add: loss_day_start_def)
  show ?thesis
    by (intro exI [of _ observed] exI [of _ bh] conjI allI impI f(1-4))
      (rule covered_window [OF f(5)], use f(6) start in simp_all)
qed

lemma snapshot_budget:
  assumes "snapshot_losses amb b clock must as_of db = Inr s"
  shows "day_debits (ls_as_of s) db \<le> dval (ls_used s) \<and> 0 \<le> dval (ls_used s) \<and> 0 \<le> dval (ls_remaining s)
    \<and> dval (ls_limit s) - dval (ls_used s) \<le> dval (ls_remaining s)
    \<and> dval (ls_remaining s) \<le> max 0 (dval (ls_limit s)) \<and> ls_limit s = lb_daily_loss_limit b"
  using assms
proof (rule snapshot_losses_ok)
  fix bh events d
  let ?t = "ls_as_of s" and ?totals = "(ls_realized_loss_debit s, ls_fee_debit s, ls_funding_debit s)"
  assume rows: "mapE (validate_event_row amb bh) (event_rows (loss_day_start ?t) ?t db) = Inr events"
    and sums: "foldE add_debit (0, 0, 0) events = Inr ?totals"
    and used: "decimal_add [ls_realized_loss_debit s, ls_fee_debit s, ls_funding_debit s] = Inr (ls_used s)"
    and rest: "decimal_subtract (lb_daily_loss_limit b) (ls_used s) = Inr d" "ls_remaining s = dmax d 0"
      "ls_limit s = lb_daily_loss_limit b"
  note debits = validated_debits [OF rows, unfolded event_rows_debits]
  have sum0: "0 \<le> sum_list (map (\<lambda>e. dval (ev_debit e)) events)" using debits by (intro sum_list_nonneg) auto
  have up: "day_debits ?t db \<le> dval (ls_used s)" "0 \<le> dval (ls_used s)"
    using fold_debits_up [OF sums] decimal_add_three_up [OF used] debits sum0 by (simp_all add: total_of_def)
  have b: "bounded (lb_daily_loss_limit b)" and sub: "dsub fixed_decimal_context (lb_daily_loss_limit b) (ls_used s) = Inr d"
    using rest(1) by (auto simp: decimal_subtract_def split: if_splits)
  have "dval d \<le> dval (lb_daily_loss_limit b)"
    by (rule fixed_ctx.dsub_le_left [OF sub fixed_represents_bounded [OF b] up(2)])
  moreover have "dval (lb_daily_loss_limit b) - dval (ls_used s) \<le> dval d" using decimal_subtract_up [OF rest(1)] by simp
  moreover have "dval (ls_remaining s) = max (dval d) 0" by (simp add: rest(2) dval_dmax)
  ultimately show ?thesis using up rest(3) by (simp add: max.coboundedI1 max_def)
qed

lemma snapshot_monotone:
  assumes "loss_later db after" "distinct (map le_event_id (ld_events after))"
    and "snapshot_losses amb b c1 m1 a1 db = Inr s" "snapshot_losses amb b c2 m2 a2 after = Inr s'"
    and "utc_day (ls_as_of s) = utc_day (ls_as_of s')" "ls_as_of s \<le> ls_as_of s'"
  shows "dval (ls_used s) \<le> dval (ls_used s') \<and> dval (ls_remaining s') \<le> dval (ls_remaining s)"
proof (rule snapshot_losses_ok [OF assms(3)], rule snapshot_losses_ok [OF assms(4)])
  fix bh events d bh' events' d'
  let ?t = "ls_as_of s" and ?t' = "ls_as_of s'"
  let ?totals = "(ls_realized_loss_debit s, ls_fee_debit s, ls_funding_debit s)"
  let ?totals' = "(ls_realized_loss_debit s', ls_fee_debit s', ls_funding_debit s')"
  assume h: "loss_binding_hash b = Inr bh" "loss_binding_hash b = Inr bh'"
    and rows: "mapE (validate_event_row amb bh) (event_rows (loss_day_start ?t) ?t db) = Inr events"
    and rows': "mapE (validate_event_row amb bh') (event_rows (loss_day_start ?t') ?t' after) = Inr events'"
    and sums: "foldE add_debit (0, 0, 0) events = Inr ?totals" "foldE add_debit (0, 0, 0) events' = Inr ?totals'"
    and used: "decimal_add [ls_realized_loss_debit s, ls_fee_debit s, ls_funding_debit s] = Inr (ls_used s)"
      "decimal_add [ls_realized_loss_debit s', ls_fee_debit s', ls_funding_debit s'] = Inr (ls_used s')"
    and rem: "decimal_subtract (lb_daily_loss_limit b) (ls_used s) = Inr d" "ls_remaining s = dmax d 0"
      "decimal_subtract (lb_daily_loss_limit b) (ls_used s') = Inr d'" "ls_remaining s' = dmax d' 0"
  have "loss_day_start ?t = loss_day_start ?t'" using assms(5) by (simp add: loss_day_start_def)
  then obtain I where I: "event_rows (loss_day_start ?t) ?t db
      = filter (\<lambda>r. le_event_id r \<in> I) (event_rows (loss_day_start ?t') ?t' after)"
    using event_rows_later [OF assms(1,2) _ assms(6)] by blast
  have "mapE (validate_event_row amb bh) (filter (\<lambda>r. le_event_id r \<in> I) (event_rows (loss_day_start ?t') ?t' after))
      = Inr (filter (\<lambda>e. ev_event_id e \<in> I) events')"
    using h by (intro mapE_filter) (use rows' validate_event_row_id in auto)
  then have events: "events = filter (\<lambda>e. ev_event_id e \<in> I) events'" using rows by (simp add: I)
  have "below3 ?totals ?totals'"
    using fold_debits_mono [OF sums(1) [unfolded events] sums(2) below3_refl] validated_debits [OF rows'] by blast
  then have le: "dval (ls_used s) \<le> dval (ls_used s')"
    by (intro decimal_add_three_mono [OF used]) (simp_all add: below3_def)
  moreover have "dval d' \<le> dval d" using rem(1,3) le by (rule decimal_subtract_antimono)
  ultimately show ?thesis by (simp add: rem(2,4) dval_dmax)
qed

section \<open>Replays\<close>

fun at_clock :: "pyval option \<Rightarrow> loss_op \<Rightarrow> loss_op" where
  "at_clock clock (Open_Ledger b must old) = Open_Ledger b must clock"
| "at_clock clock (Record_Pnl b old i r t x) = Record_Pnl b clock i r t x"
| "at_clock clock (Record_Fee b old i r t x) = Record_Fee b clock i r t x"
| "at_clock clock (Record_Funding b old i r t x) = Record_Funding b clock i r t x"
| "at_clock clock (Record_Coverage b old i s lo hi h) = Record_Coverage b clock i s lo hi h"

fun op_clock :: "loss_op \<Rightarrow> pyval option" where
  "op_clock (Open_Ledger b must clock) = clock"
| "op_clock (Record_Pnl b clock i r t x) = clock"
| "op_clock (Record_Fee b clock i r t x) = clock"
| "op_clock (Record_Funding b clock i r t x) = clock"
| "op_clock (Record_Coverage b clock i s lo hi h) = clock"

lemma filter_one:
  assumes "r \<in> set xs" "distinct (map f xs)" "distinct (map g xs)"
  shows "filter (\<lambda>x. f x = f r \<or> g x = g r) xs = [r]"
proof -
  have "(f x = f r \<or> g x = g r) = (f x = f r)" if "x \<in> set xs" for x
    using assms that by (auto simp: distinct_map dest: inj_onD)
  then have "filter (\<lambda>x. f x = f r \<or> g x = g r) xs = filter (\<lambda>x. f x = f r) xs" by (rule filter_cong [OF refl])
  also have "\<dots> = [r]"
    using assms(1,2)
  proof (induction xs)
    case (Cons x xs)
    show ?case
    proof (cases "f x = f r")
      case True
      then have "f y \<noteq> f r" if "y \<in> set xs" for y using Cons.prems(2) that by (metis distinct.simps(2) imageI list.map(2) list.set_map)
      moreover from this have "x = r" using Cons.prems(1) by auto
      ultimately show ?thesis by (auto simp: filter_empty_conv)
    next
      case False
      with Cons show ?thesis by auto
    qed
  qed simp
  finally show ?thesis .
qed

lemma append_event_replay:
  assumes "append_loss_event b clock v k s v_ref v_at a d db = Inr (fresh, after)" "after \<noteq> db"
    and "clock_read clock = Inr now" "clock_read clock' = Inr now'" "now \<le> now'"
    and "loss_inv amb later" "loss_later after later"
  shows "append_loss_event b clock' v k s v_ref v_at a d later = Inr (False, later)"
  using assms(1)
proof (rule append_loss_event_cases)
  fix i src h t now0 bh g
  assume f: "loss_identifier v = Inr i" "loss_text 1024 v_ref = Inr src" "source_ref_hash src = Inr h"
      "utc_time v_at = Inr t" "clock_read clock = Inr now0" "t \<le> now0" "bounded a" "nonnegative d"
      "loss_binding_hash b = Inr bh" "loss_event_hash bh i s k t a d h = Inr g"
  define r where "r = \<lparr> le_event_id = i, le_source = s, le_kind = k, le_occurred_at = t, le_observed_at = now0,
             le_amount = canonical_text a, le_debit = canonical_text d, le_source_ref_hash = h, le_record_hash = g \<rparr>"
  assume "fresh \<and> filter (same_event i s k h) (ld_events db) = []
       \<and> after = db\<lparr>ld_events := ld_events db @
          [\<lparr> le_event_id = i, le_source = s, le_kind = k, le_occurred_at = t, le_observed_at = now0,
             le_amount = canonical_text a, le_debit = canonical_text d, le_source_ref_hash = h, le_record_hash = g \<rparr>]\<rparr>
     \<or> \<not> fresh \<and> after = db
       \<and> (\<exists>r. filter (same_event i s k h) (ld_events db) = [r] \<and> le_event_id r = i \<and> le_record_hash r = g)"
  then have "after = db\<lparr>ld_events := ld_events db @ [r]\<rparr>" using assms(2) unfolding r_def by blast
  then have "r \<in> set (ld_events later)" using assms(7) by (auto simp: loss_later_def)
  moreover have "distinct (map le_event_id (ld_events later))" "distinct (map event_key (ld_events later))"
    using assms(6) by (simp_all add: loss_inv_def)
  ultimately have "filter (\<lambda>x. le_event_id x = le_event_id r \<or> event_key x = event_key r) (ld_events later) = [r]"
    by (rule filter_one)
  then have one: "filter (\<lambda>x. le_event_id x = i \<or> le_source x = s \<and> le_kind x = k \<and> le_source_ref_hash x = h)
      (ld_events later) = [r]" by (simp add: r_def)
  have "\<not> now' < t" using f(5,6) assms(3,5) by simp
  then show ?thesis
    using f(1,2,4,9,10) f(3) [unfolded source_ref_hash_def] assms(4)
      policy_nonnegative_again [OF f(8)] canonical_decimal_Inr_iff [of a] canonical_decimal_Inr_iff [of d] f(7,8)
    by (simp add: append_loss_event_def one r_def guard_cases del: canonical_data.simps)
qed

lemma record_coverage_replay:
  assumes "record_coverage b clock v v_source v_from v_through v_hash db = Inr (fresh, after)" "after \<noteq> db"
    and "clock_read clock = Inr now" "clock_read clock' = Inr now'" "now \<le> now'"
    and "loss_inv amb later" "loss_later after later"
  shows "record_coverage b clock' v v_source v_from v_through v_hash later = Inr (False, later)"
  using assms(1)
proof (rule record_coverage_cases)
  fix i s lo hi now0 h bh g
  assume f: "loss_identifier v = Inr i" "loss_source_of v_source = Inr s" "utc_time v_from = Inr lo"
    "utc_time v_through = Inr hi" "clock_read clock = Inr now0" "lo \<le> hi" "hi \<le> now0"
    "loss_sha256 ValidationError v_hash = Inr h" "loss_binding_hash b = Inr bh"
    "loss_coverage_hash bh i s lo hi h = Inr g"
  define r where "r = \<lparr> lc_coverage_id = i, lc_source = s, lc_covered_from = lo, lc_covered_through = hi,
    lc_observed_at = now0, lc_source_cursor_hash = h, lc_record_hash = g \<rparr>"
  assume "fresh \<and> filter (same_coverage i s h) (ld_coverage db) = []
       \<and> after = db\<lparr>ld_coverage := ld_coverage db @
          [\<lparr> lc_coverage_id = i, lc_source = s, lc_covered_from = lo, lc_covered_through = hi, lc_observed_at = now0,
             lc_source_cursor_hash = h, lc_record_hash = g \<rparr>]\<rparr>
     \<or> \<not> fresh \<and> after = db
       \<and> (\<exists>r. filter (same_coverage i s h) (ld_coverage db) = [r] \<and> lc_coverage_id r = i \<and> lc_record_hash r = g)"
  then have "after = db\<lparr>ld_coverage := ld_coverage db @ [r]\<rparr>" using assms(2) unfolding r_def by blast
  then have "r \<in> set (ld_coverage later)" using assms(7) by (auto simp: loss_later_def)
  moreover have "distinct (map lc_coverage_id (ld_coverage later))" "distinct (map coverage_key (ld_coverage later))"
    using assms(6) by (simp_all add: loss_inv_def)
  ultimately have "filter (\<lambda>x. lc_coverage_id x = lc_coverage_id r \<or> coverage_key x = coverage_key r) (ld_coverage later) = [r]"
    by (rule filter_one)
  then have one: "filter (\<lambda>x. lc_coverage_id x = i \<or> lc_source x = s \<and> lc_source_cursor_hash x = h) (ld_coverage later) = [r]"
    by (simp add: r_def)
  have "\<not> now' < hi" "\<not> hi < lo" using f(5-7) assms(3,5) by simp_all
  then show ?thesis
    using f(1-4,8-10) assms(4) by (simp add: record_coverage_def one r_def guard_cases)
qed

lemma open_again:
  assumes "loss_inv amb db" "bound_to b bh db" "clock_read clock = Inr now"
  shows "open_loss_ledger b must clock db = Inr db"
proof -
  note o = bound_opens [OF assms(1,2)]
  from verify_loss_schema_rows [OF o(2)] have "migrate_losses now db = Inr db"
    by (auto simp: loss_schema_rows_def migrate_losses_def)
  with o assms(3) show ?thesis by (simp add: open_loss_ledger_def)
qed

lemma loss_step_replay:
  assumes "decimal_context amb" "loss_inv amb db" "loss_step amb op db = Inr after" "after \<noteq> db"
    and "clock_read (op_clock op) = Inr now" "clock_read clock' = Inr now'" "now \<le> now'"
    and "loss_inv amb later" "loss_later after later"
  shows "loss_step amb (at_clock clock' op) later = Inr later"
proof -
  have step: "loss_later db after" using loss_step_effect [OF assms(1-3)] by simp
  have replayed: "recorded b act' later = Inr later"
    if opened: "open_loss_ledger b True None db = Inr db" and act': "act' later = Inr (False, later)" for b act'
  proof -
    from open_loss_ledger_effect [OF opened] obtain bh where "bound_to b bh db" by blast
    then have "bound_to b bh later" using step assms(9) bound_to_later by blast
    from bound_opens(1) [OF assms(8) this] act' show ?thesis unfolding recorded_iff by blast
  qed
  note append = append_event_replay [OF _ assms(4) _ assms(6,7,8,9)]
  show ?thesis
  proof (cases op)
    case (Open_Ledger b must clock)
    with assms(3) have "open_loss_ledger b must clock db = Inr after" by simp
    from open_loss_ledger_effect [OF this] obtain bh where "bound_to b bh after" by blast
    from open_again [OF assms(8) bound_to_later [OF this assms(9)] assms(6)] show ?thesis by (simp add: Open_Ledger)
  next
    case (Record_Pnl b clock i r t x)
    with assms(3) obtain fresh where o: "open_loss_ledger b True None db = Inr db"
      "record_realized_pnl amb b clock i r t x db = Inr (fresh, after)" by (auto simp: recorded_iff)
    then obtain a d where a: "exact_decimal x = Inr a" "loss_debit amb a = Inr d"
      "append_loss_event b clock i Realized_Pnl Fills r t a d db = Inr (fresh, after)"
      by (auto simp: record_realized_pnl_def)
    have "clock_read clock = Inr now" using assms(5) by (simp add: Record_Pnl)
    from append [OF a(3) this] a(1,2) have "record_realized_pnl amb b clock' i r t x later = Inr (False, later)"
      by (simp add: record_realized_pnl_def)
    from replayed [where act' = "record_realized_pnl amb b clock' i r t x", OF o(1) this] show ?thesis by (simp add: Record_Pnl)
  next
    case (Record_Fee b clock i r t x)
    with assms(3) obtain fresh where o: "open_loss_ledger b True None db = Inr db"
      "record_loss_fee b clock i r t x db = Inr (fresh, after)" by (auto simp: recorded_iff)
    then obtain a where a: "policy_nonnegative x = Inr a"
      "append_loss_event b clock i Fee Fills r t a a db = Inr (fresh, after)"
      by (auto simp: record_loss_fee_def)
    have "clock_read clock = Inr now" using assms(5) by (simp add: Record_Fee)
    from append [OF a(2) this] a(1) have "record_loss_fee b clock' i r t x later = Inr (False, later)"
      by (simp add: record_loss_fee_def)
    from replayed [where act' = "record_loss_fee b clock' i r t x", OF o(1) this] show ?thesis by (simp add: Record_Fee)
  next
    case (Record_Funding b clock i r t x)
    with assms(3) obtain fresh where o: "open_loss_ledger b True None db = Inr db"
      "record_funding amb b clock i r t x db = Inr (fresh, after)" by (auto simp: recorded_iff)
    then obtain a d where a: "exact_decimal x = Inr a" "loss_debit amb a = Inr d"
      "append_loss_event b clock i Funding_Payment Funding r t a d db = Inr (fresh, after)"
      by (auto simp: record_funding_def)
    have "clock_read clock = Inr now" using assms(5) by (simp add: Record_Funding)
    from append [OF a(3) this] a(1,2) have "record_funding amb b clock' i r t x later = Inr (False, later)"
      by (simp add: record_funding_def)
    from replayed [where act' = "record_funding amb b clock' i r t x", OF o(1) this] show ?thesis by (simp add: Record_Funding)
  next
    case (Record_Coverage b clock i s lo hi h)
    with assms(3) obtain fresh where o: "open_loss_ledger b True None db = Inr db"
      "record_coverage b clock i s lo hi h db = Inr (fresh, after)" by (auto simp: recorded_iff)
    have "clock_read clock = Inr now" using assms(5) by (simp add: Record_Coverage)
    from replayed [where act' = "record_coverage b clock' i s lo hi h", OF o(1)
        record_coverage_replay [OF o(2) assms(4) this assms(6-9)]] show ?thesis
      by (simp add: Record_Coverage)
  qed
qed

section \<open>A covered ledger answers\<close>

definition spanned :: "loss_db \<Rightarrow> loss_source \<Rightarrow> instant \<Rightarrow> instant \<Rightarrow> bool" where
  "spanned db source lo hi =
     (\<exists>r \<in> set (ld_coverage db). lc_source r = source \<and> lc_covered_from r \<le> lo \<and> hi \<le> lc_covered_through r)"

lemma readable_coverage:
  assumes "loss_inv amb db" "bound_to b bh db"
  shows "\<exists>c. coverage_status_of bh source lo hi (coverage_rows source lo hi db) = Inr c
    \<and> (lo \<le> hi \<and> spanned db source lo hi \<longrightarrow> cs_complete c)"
proof -
  have rows: "\<forall>r \<in> set (ld_coverage db). is_ok (coverage_interval bh (lc_source r) r)"
    using assms by (auto simp: loss_inv_def bound_to_def)
  have "\<forall>r \<in> set (coverage_rows source lo hi db). is_ok (coverage_interval bh source r)"
    using rows by (auto simp: coverage_rows_set)
  then obtain ivs where ivs: "mapE (coverage_interval bh source) (coverage_rows source lo hi db) = Inr ivs"
    using mapE_total by blast
  obtain covered found where scan: "coverage_scan lo hi None (sorted_intervals ivs) = (covered, found)"
    by (cases "coverage_scan lo hi None (sorted_intervals ivs)")
  have "found" if "lo \<le> hi" "spanned db source lo hi"
  proof -
    from that(2) obtain r where r: "r \<in> set (ld_coverage db)" "lc_source r = source" "lc_covered_from r \<le> lo"
      "hi \<le> lc_covered_through r" by (auto simp: spanned_def)
    then have "r \<in> set (coverage_rows source lo hi db)" using that(1) by (auto simp: coverage_rows_set)
    from mapE_image [OF ivs this] obtain iv where iv: "iv \<in> set ivs" "coverage_interval bh source r = Inr iv" by blast
    then have "(lc_covered_from r, lc_covered_through r) \<in> set ivs" using coverage_interval_ok [OF iv(2)] by simp
    then show ?thesis
      using coverage_scan_spanned [of "sorted_intervals ivs" "lc_covered_from r" "lc_covered_through r" lo hi None]
        r(3,4) that(1) scan by (simp add: sorted_intervals_facts)
  qed
  with ivs scan show ?thesis by (simp add: coverage_status_of_def)
qed

lemma readable_events:
  assumes "loss_inv amb db" "bound_to b bh db"
  shows "\<exists>es. mapE (validate_event_row amb bh) (event_rows lo hi db) = Inr es"
  using assms by (intro mapE_total) (auto simp: loss_inv_def bound_to_def event_rows_def)

lemma foldE_error: "foldE f s xs = Inl e \<Longrightarrow> (\<And>s x. f s x = Inl e \<Longrightarrow> P) \<Longrightarrow> P"
  by (induction xs arbitrary: s) (auto simp: bindE_Inl_iff)

lemma add_debit_error: "add_debit a x = Inl e \<Longrightarrow> e = ValidationError"
  by (auto simp: add_debit_def bindE_Inl_iff split: prod.splits loss_kind.splits dest: decimal_add_error)

lemma decimal_add_three_checked:
  assumes "bounded a" "bounded b" "bounded d"
  obtains r where "decimal_add [a, b, d] = checked_result r"
proof -
  let ?hi = "Dec 1 50" and ?lo = "Dec (- 1) 50"
  have small: "\<bar>dval (exact_add (exact_add 0 a) b)\<bar> < 10 ^ 50"
    using bounded_magnitude [OF assms(1)] bounded_magnitude [OF assms(2)] by simp
  then have "\<bar>dval (exact_add (exact_add 0 a) b)\<bar> < 10 ^ 192" by simp
  from fixed_small [OF this] obtain x where x: "dadd fixed_decimal_context (exact_add 0 a) b = Inr x"
    by (auto simp: dadd_def)
  have r: "representable fixed_decimal_context ?hi" "representable fixed_decimal_context ?lo"
    by (simp_all add: representable_def fixed_decimal_context_def etiny_def etop_def ndigits.simps)
  have v: "dval ?hi = 10 ^ 50" "dval ?lo = - (10 ^ 50)" by (simp_all add: dval_def power_int_def)
  have "dval x \<le> 10 ^ 50" "- (10 ^ 50) \<le> dval x"
    using fixed_ctx.dfix_le_bound [OF x [unfolded dadd_def] r(1)] fixed_ctx.dfix_ge_bound [OF x [unfolded dadd_def] r(2)]
      small unfolding v by simp_all
  then have "\<bar>dval (exact_add x d)\<bar> < 10 ^ 192" using bounded_magnitude [OF assms(3)] by simp
  from fixed_small [OF this] obtain r where "dadd fixed_decimal_context x d = Inr r" by (auto simp: dadd_def)
  with assms x have "decimal_add [a, b, d] = checked_result r" by (simp add: decimal_add_def bounded_add_zero)
  then show ?thesis by (rule that)
qed

definition bounded3 :: "decimal \<times> decimal \<times> decimal \<Rightarrow> bool" where
  "bounded3 a = (case a of (r, f, p) \<Rightarrow> bounded r \<and> bounded f \<and> bounded p)"

lemma add_debit_bounded: "bounded3 a \<Longrightarrow> add_debit a e = Inr b \<Longrightarrow> bounded3 b"
  using decimal_add_up by (fastforce simp: add_debit_def bounded3_def split: prod.splits loss_kind.splits)

lemma bounded_zero: "bounded 0" "bounded3 (0, 0, 0)"
  by (simp_all add: bounded3_def bounded_def zero_decimal_def bound_defs ndigits.simps)

text \<open>The totals of a day exist, or are too long for the decimals the harness accepts.\<close>

lemma totals_result:
  assumes "bounded limit"
  obtains t u d where "foldE add_debit (0, 0, 0) es = Inr t" "bounded3 t" "bounded u" "bounded d"
      "decimal_add [fst t, fst (snd t), snd (snd t)] = Inr u" "decimal_subtract limit u = Inr d"
  | "foldE add_debit (0, 0, 0) es = Inl ValidationError"
  | t where "foldE add_debit (0, 0, 0) es = Inr t"
      "decimal_add [fst t, fst (snd t), snd (snd t)] = Inl ValidationError"
  | t u where "foldE add_debit (0, 0, 0) es = Inr t" "decimal_add [fst t, fst (snd t), snd (snd t)] = Inr u"
      "decimal_subtract limit u = Inl ValidationError"
proof (cases "foldE add_debit (0, 0, 0) es")
  case (Inl e)
  then have "e = ValidationError" by (rule foldE_error) (rule add_debit_error)
  with Inl that(2) show ?thesis by simp
next
  case (Inr t)
  have t: "bounded3 t" using foldE_invariant [where P = bounded3, OF Inr bounded_zero(2)] add_debit_bounded by blast
  show ?thesis
  proof (cases "decimal_add [fst t, fst (snd t), snd (snd t)]")
    case (Inl e)
    obtain r where "decimal_add [fst t, fst (snd t), snd (snd t)] = checked_result r"
      using t decimal_add_three_checked by (auto simp: bounded3_def split: prod.splits)
    with Inl have "e = ValidationError" by (auto simp: checked_result_eq split: if_splits)
    with Inl \<open>foldE add_debit (0, 0, 0) es = Inr t\<close> that(3) show ?thesis by simp
  next
    case u: (Inr u)
    show ?thesis
    proof (cases "decimal_subtract limit u")
      case (Inl e)
      with decimal_subtract_error [OF Inl] u Inr that(4) show ?thesis by simp
    next
      case (Inr d)
      with u \<open>foldE add_debit (0, 0, 0) es = Inr t\<close> t that(1) decimal_add_three_up [of _ _ _ u]
        decimal_subtract_up [OF Inr] show ?thesis by metis
    qed
  qed
qed

lemma snapshot_hash_total:
  assumes "bounded (ls_limit s)" "bounded (ls_used s)" "bounded (ls_remaining s)" "bounded (ls_realized_loss_debit s)"
    "bounded (ls_fee_debit s)" "bounded (ls_funding_debit s)"
  shows "\<exists>h. loss_snapshot_hash s hs = Inr h"
proof -
  have cov: "is_ok (canonical_data (coverage_val c))" for c
    unfolding coverage_val_def
    by (intro is_ok_record_val) (auto simp: time_val_def opt_val_def split: option.splits)
  show ?thesis
    unfolding loss_snapshot_hash_def
    by (rule ex_forward [OF record_hash_total]) (use assms cov in \<open>auto simp del: canonical_data.simps(2,5)\<close>)
qed

lemma day_start_le: "loss_day_start t \<le> t"
  using div_mult_mod_eq [of t microsecond_day] pos_mod_sign [of microsecond_day t]
  by (simp add: loss_day_start_def utc_day_def microsecond_day_def)

lemma covered_statuses:
  assumes "loss_inv amb db" "bound_to b bh db"
    and "spanned db Fills (loss_day_start now) now" "spanned db Funding (loss_day_start now) now"
  obtains cs where "coverage_statuses bh (loss_day_start now) now db = Inr cs" "missing_sources cs = []"
proof -
  let ?lo = "loss_day_start now"
  obtain c1 c2 where c: "coverage_status_of bh Fills ?lo now (coverage_rows Fills ?lo now db) = Inr c1" "cs_complete c1"
      "coverage_status_of bh Funding ?lo now (coverage_rows Funding ?lo now db) = Inr c2" "cs_complete c2"
    using readable_coverage [OF assms(1,2), of _ ?lo now] assms(3,4) day_start_le by metis
  then have "coverage_statuses bh ?lo now db = Inr [c1, c2]" "missing_sources [c1, c2] = []"
    by (auto simp: coverage_statuses_iff missing_sources_Nil)
  then show ?thesis by (rule that)
qed

text \<open>With both sources covered, a snapshot fails only where its sums do.\<close>

lemma snapshot_with_totals:
  assumes "loss_inv amb db" "bound_to b bh db" "clock_read clock = Inr now"
    and "spanned db Fills (loss_day_start now) now" "spanned db Funding (loss_day_start now) now"
    and "mapE (validate_event_row amb bh) (event_rows (loss_day_start now) now db) = Inr es"
    and "foldE add_debit (0, 0, 0) es = Inr t" "decimal_add [fst t, fst (snd t), snd (snd t)] = Inr u"
      "decimal_subtract (lb_daily_loss_limit b) u = Inr d"
  shows "\<exists>s. snapshot_losses amb b clock True None db = Inr s \<and> ls_used s = u \<and> ls_remaining s = dmax d 0
    \<and> ls_as_of s = now \<and> ls_coverage_complete s"
proof -
  obtain cs where cov: "coverage_statuses bh (loss_day_start now) now db = Inr cs" "missing_sources cs = []"
    by (rule covered_statuses [OF assms(1,2,4,5)])
  have hash: "loss_binding_hash b = Inr bh" using assms(2) by (simp add: bound_to_def)
  have limit: "bounded (lb_daily_loss_limit b)" using hash by (rule loss_binding_hash_bounded)
  have t: "bounded3 t" using foldE_invariant [where P = bounded3, OF assms(7) bounded_zero(2)] add_debit_bounded by blast
  have ud: "bounded u" "bounded (dmax d 0)"
    using decimal_add_three_up [OF assms(8)] decimal_subtract_up [OF assms(9)] bounded_zero(1) by (simp_all add: dmax_def)
  define s where "s = \<lparr> ls_utc_day = utc_day now, ls_as_of = now, ls_limit = lb_daily_loss_limit b, ls_used = u,
          ls_remaining = dmax d 0, ls_realized_loss_debit = fst t, ls_fee_debit = fst (snd t),
          ls_funding_debit = snd (snd t), ls_event_count = length es, ls_coverage = cs,
          ls_coverage_complete = True, ls_missing_sources = [], ls_binding_hash = bh, ls_snapshot_hash = [] \<rparr>"
  obtain h where h: "loss_snapshot_hash s (map ev_record_hash es) = Inr h"
    using snapshot_hash_total [of s] limit t ud by (auto simp: s_def bounded3_def split: prod.splits)
  have "snapshot_losses amb b clock True None db = Inr (s\<lparr>ls_snapshot_hash := h\<rparr>)"
    using h by (simp add: snapshot_losses_def assms(3,6-9) bound_opens(2,3) [OF assms(1,2)] cov hash Let_def guard_cases
        case_prod_beta s_def)
  then show ?thesis by (intro exI [of _ "s\<lparr>ls_snapshot_hash := h\<rparr>"]) (simp add: s_def)
qed

lemma snapshot_answers:
  assumes "loss_inv amb db" "bound_to b bh db" "clock_read clock = Inr now"
    and "spanned db Fills (loss_day_start now) now" "spanned db Funding (loss_day_start now) now"
  shows "(\<exists>s. snapshot_losses amb b clock True None db = Inr s \<and> ls_as_of s = now \<and> ls_coverage_complete s)
    \<or> snapshot_losses amb b clock True None db = Inl ValidationError"
proof -
  obtain es where es: "mapE (validate_event_row amb bh) (event_rows (loss_day_start now) now db) = Inr es"
    using readable_events [OF assms(1,2)] by blast
  obtain cs where cov: "coverage_statuses bh (loss_day_start now) now db = Inr cs" "missing_sources cs = []"
    by (rule covered_statuses [OF assms(1,2,4,5)])
  have hash: "loss_binding_hash b = Inr bh" using assms(2) by (simp add: bound_to_def)
  note known = snapshot_losses_def assms(3) es bound_opens(2,3) [OF assms(1,2)] cov hash Let_def guard_cases
  show ?thesis
  proof (rule totals_result [OF loss_binding_hash_bounded [OF hash], of es], goal_cases)
    case (1 t u d)
    from snapshot_with_totals [OF assms es 1(1,5,6)] show ?case by blast
  qed (simp_all add: known case_prod_beta)
qed

end
