(* ===== verification/Daily_Loss_Properties.thy ===== *)
theory Daily_Loss_Properties
  imports Daily_Loss_Snapshot
begin

text \<open>
  The properties of the loss ledger: a budget is only handed out for an instant up to which both
  sources are covered without a gap, it never understates the recorded debits and never grows
  within a day, recordings are idempotent, and a covered ledger reads back what it wrote.
\<close>

section \<open>A sample ledger\<close>

definition sample_loss_binding :: loss_binding where
  "sample_loss_binding = \<lparr> lb_account_id = ''acct'', lb_environment = TESTNET, lb_config_hash = replicate 64 CHR ''0'',
     lb_daily_loss_limit = Dec 100 0, lb_settlement_currency = ''USDC'' \<rparr>"

lemma sample_loss_binding_made:
  "make_loss_binding (PStr ''acct'') (PStr ''testnet'') (PStr (replicate 64 CHR ''0'')) (In_Int 100) (PStr ''USDC'')
   = Inr sample_loss_binding"
proof -
  have "sha256_shaped (replicate 64 CHR ''0'')" by (simp add: sha256_shaped_def is_lower_hex_def list_all_iff)
  moreover have "policy_positive (In_Int 100) = Inr (Dec 100 0)"
    by (simp add: policy_positive_def exact_decimal_def validate_decimal_bounds_eq decimal_eval)
  moreover have "loss_identifier (PStr ''acct'') = Inr ''acct''" "loss_text 16 (PStr ''USDC'') = Inr ''USDC''"
    "currency_shaped ''USDC''"
    by (simp_all add: loss_identifier_def loss_text_def bounded_text_ok_def trimmed_def strip_def isspace_def
        has_control_def ledger_identifier_def is_letter_def currency_shaped_def is_upper_def)
  ultimately show ?thesis
    by (simp add: make_loss_binding_def sample_loss_binding_def loss_environment_def of_option_def guard_cases)
qed

definition sample_now :: instant where "sample_now = 5 * microsecond_day + 3600000000"

definition sample_clock :: "pyval option" where "sample_clock = Some (PInstant sample_now)"

definition sample_start :: instant where "sample_start = 5 * microsecond_day"

lemma sample_times:
  "clock_read sample_clock = Inr sample_now" "utc_time (PInstant sample_now) = Inr sample_now"
  "utc_time (PInstant sample_start) = Inr sample_start" "loss_day_start sample_now = sample_start"
  "sample_start \<le> sample_now"
  by (simp_all add: clock_read_def sample_clock_def utc_time_def instant_ok_def sample_now_def sample_start_def
      microsecond_day_def loss_day_start_def utc_day_def of_option_def guard_cases)

lemma sample_binding_hash: "\<exists>bh. loss_binding_hash sample_loss_binding = Inr bh"
  unfolding loss_binding_hash_def sample_loss_binding_def
  by (rule ex_forward [OF record_hash_total])
    (auto simp: bounded_def bound_defs ndigits.simps adjusted_def simp del: canonical_data.simps(2))

text \<open>What a recording with valid fields of fresh identity does.\<close>

lemma record_coverage_fresh:
  assumes "loss_identifier v = Inr i" "loss_source_of v_source = Inr s" "utc_time v_from = Inr lo"
    "utc_time v_through = Inr hi" "clock_read clock = Inr now" "lo \<le> hi" "hi \<le> now"
    "loss_sha256 ValidationError v_hash = Inr h" "loss_binding_hash b = Inr bh"
    "filter (same_coverage i s h) (ld_coverage db) = []"
  shows "\<exists>g. record_coverage b clock v v_source v_from v_through v_hash db = Inr (True, db\<lparr>ld_coverage := ld_coverage db @
    [\<lparr> lc_coverage_id = i, lc_source = s, lc_covered_from = lo, lc_covered_through = hi, lc_observed_at = now,
       lc_source_cursor_hash = h, lc_record_hash = g \<rparr>]\<rparr>)"
proof -
  have "\<exists>g. loss_coverage_hash bh i s lo hi h = Inr g"
    unfolding loss_coverage_hash_def by (rule ex_forward [OF record_hash_total]) auto
  then obtain g where g: "loss_coverage_hash bh i s lo hi h = Inr g" ..
  have "\<not> hi < lo" "\<not> now < hi" using assms(6,7) by simp_all
  with assms g show ?thesis
    by (intro exI [of _ g]) (simp add: record_coverage_def same_coverage_def [abs_def] guard_cases)
qed

lemma append_event_fresh:
  assumes "loss_identifier v = Inr i" "loss_text 1024 v_ref = Inr src" "utc_time v_at = Inr t"
    "clock_read clock = Inr now" "t \<le> now" "bounded a" "nonnegative d" "loss_binding_hash b = Inr bh"
    "\<forall>h. filter (same_event i s k h) (ld_events db) = []"
  shows "\<exists>h g. append_loss_event b clock v k s v_ref v_at a d db = Inr (True, db\<lparr>ld_events := ld_events db @
    [\<lparr> le_event_id = i, le_source = s, le_kind = k, le_occurred_at = t, le_observed_at = now,
       le_amount = canonical_text a, le_debit = canonical_text d, le_source_ref_hash = h, le_record_hash = g \<rparr>]\<rparr>)"
proof -
  obtain h where h: "domain_hash ''trading-harness/daily-loss-source-ref/v1'' (PStr src) = Inr h"
    by (simp add: domain_hash_def canonical_bytes_def canonical_json_def guard_cases)
  have "\<exists>g. loss_event_hash bh i s k t a d h = Inr g"
    unfolding loss_event_hash_def
    by (rule ex_forward [OF record_hash_total]) (use assms(6,7) in \<open>auto simp del: canonical_data.simps(2)\<close>)
  then obtain g where g: "loss_event_hash bh i s k t a d h = Inr g" ..
  have "\<not> now < t" using assms(5) by simp
  with assms g h show ?thesis
    using policy_nonnegative_again [OF assms(7)] canonical_decimal_Inr_iff [of a] canonical_decimal_Inr_iff [of d]
    by (intro exI [of _ h] exI [of _ g])
      (simp add: append_loss_event_def same_event_def [abs_def] guard_cases del: canonical_data.simps)
qed

abbreviation ledger_step :: "loss_op \<Rightarrow> loss_db \<Rightarrow> loss_db result" where
  "ledger_step \<equiv> loss_step default_context"

definition sample_open :: loss_op where "sample_open = Open_Ledger sample_loss_binding False sample_clock"

definition sample_cover :: "string \<Rightarrow> loss_op" where
  "sample_cover source = Record_Coverage sample_loss_binding sample_clock (PStr source) (PStr source)
     (PInstant sample_start) (PInstant sample_now) (PStr (replicate 64 CHR ''0''))"

definition sample_loss :: "string \<Rightarrow> decimal \<Rightarrow> loss_op" where
  "sample_loss i x = Record_Pnl sample_loss_binding sample_clock (PStr i) (PStr i) (PInstant sample_start) (In_Decimal x)"

definition sample_covered :: loss_db where
  "sample_covered = run_ops ledger_step empty_loss_db [sample_open, sample_cover ''fills'', sample_cover ''funding'']"

lemma sample_ledger_opened:
  obtains db bh where "ledger_step sample_open empty_loss_db = Inr db" "ld_events db = []" "ld_coverage db = []"
    "bound_to sample_loss_binding bh db" "loss_inv default_context db"
proof -
  obtain bh where bh: "loss_binding_hash sample_loss_binding = Inr bh" using sample_binding_hash ..
  have limit: "canonical_decimal (lb_daily_loss_limit sample_loss_binding) = Inr (canonical_text (Dec 100 0))"
    using loss_binding_hash_bounded [OF bh] by (simp add: canonical_decimal_Inr_iff sample_loss_binding_def)
  have "\<exists>db. open_loss_ledger sample_loss_binding False sample_clock empty_loss_db = Inr db"
    by (simp add: open_loss_ledger_def sample_times migrate_losses_def empty_loss_db_def verify_loss_schema_def
        bind_or_verify_losses_def bh limit of_option_def guard_cases)
  then obtain db where db: "ledger_step sample_open empty_loss_db = Inr db" by (auto simp: sample_open_def)
  have "open_loss_ledger sample_loss_binding False sample_clock empty_loss_db = Inr db" using db by (simp add: sample_open_def)
  from open_loss_ledger_effect [OF this] obtain bh' where "bound_to sample_loss_binding bh' db" "ld_events db = []" "ld_coverage db = []"
    by (auto simp: empty_loss_db_def)
  moreover have "loss_inv default_context db"
    using loss_ledger.step_inv [OF loss_ledger.start_inv [OF refl] db] .
  ultimately show ?thesis using that db by blast
qed

lemma sample_identifier:
  "set s \<subseteq> set ''abcdefghijklmnopqrstuvwxyz'' \<Longrightarrow> s \<noteq> [] \<Longrightarrow> length s \<le> 9 \<Longrightarrow> loss_identifier (PStr s) = Inr s"
proof -
  assume s: "set s \<subseteq> set ''abcdefghijklmnopqrstuvwxyz''" "s \<noteq> []" "length s \<le> 9"
  have c: "is_letter c \<and> \<not> isspace c \<and> \<not> (of_char c :: nat) < 32" if "c \<in> set s" for c
    using s(1) that by (auto simp: is_letter_def isspace_def)
  have "trimmed s" using s(2) c by (intro trimmed_digits) (auto simp: list_all_iff)
  then have "bounded_text_ok 256 s" using c s(3) by (auto simp: bounded_text_ok_def has_control_def list_ex_iff)
  moreover have "ledger_identifier s"
    using c s(2,3) by (cases s) (auto simp: ledger_identifier_def list_all_iff)
  ultimately show ?thesis by (simp add: loss_identifier_def loss_text_def guard_cases)
qed

text \<open>The ledger after one covering interval of each source.\<close>

lemma sample_covered_facts:
  obtains bh where "bound_to sample_loss_binding bh sample_covered" "loss_inv default_context sample_covered"
    "spanned sample_covered Fills sample_start sample_now" "spanned sample_covered Funding sample_start sample_now"
    "ld_events sample_covered = []"
    "\<forall>r \<in> set (ld_coverage sample_covered). lc_covered_from r = sample_start \<and> lc_covered_through r = sample_now"
proof -
  obtain db bh where db: "ledger_step sample_open empty_loss_db = Inr db" "ld_events db = []" "ld_coverage db = []"
    "bound_to sample_loss_binding bh db" "loss_inv default_context db" by (rule sample_ledger_opened)
  have bh: "loss_binding_hash sample_loss_binding = Inr bh" using db(4) by (simp add: bound_to_def)
  have ids: "loss_identifier (PStr ''fills'') = Inr ''fills''" "loss_identifier (PStr ''funding'') = Inr ''funding''"
    by (simp_all add: sample_identifier)
  have hash: "loss_sha256 ValidationError (PStr (replicate 64 CHR ''0'')) = Inr (replicate 64 CHR ''0'')"
    by (simp add: sha256_shaped_def is_lower_hex_def list_all_iff)
  have src: "loss_source_of (PStr ''fills'') = Inr Fills" "loss_source_of (PStr ''funding'') = Inr Funding"
    by (simp_all add: loss_source_of_def)
  define row where "row i s g = \<lparr> lc_coverage_id = i, lc_source = s, lc_covered_from = sample_start,
     lc_covered_through = sample_now, lc_observed_at = sample_now, lc_source_cursor_hash = replicate 64 CHR ''0'',
     lc_record_hash = g \<rparr>" for i s g
  have step: "\<exists>g. ledger_step (sample_cover v) d = Inr (d\<lparr>ld_coverage := ld_coverage d @ [row v s g]\<rparr>)"
    if "loss_identifier (PStr v) = Inr v" "loss_source_of (PStr v) = Inr s" "loss_inv default_context d"
      "bound_to sample_loss_binding bh d" "\<forall>r \<in> set (ld_coverage d). lc_coverage_id r \<noteq> v \<and> lc_source r \<noteq> s" for v s d
    using record_coverage_fresh [OF that(1,2) sample_times(3,2,1,5) order_refl hash bh, of d] that(5) bound_opens(1) [OF that(3,4)]
    by (auto simp: sample_cover_def recorded_iff same_coverage_def filter_empty_conv row_def)
  obtain g1 where g1: "ledger_step (sample_cover ''fills'') db = Inr (db\<lparr>ld_coverage := [row ''fills'' Fills g1]\<rparr>)"
    using step [OF ids(1) src(1) db(5,4)] db(3) by auto
  let ?db1 = "db\<lparr>ld_coverage := [row ''fills'' Fills g1]\<rparr>"
  have e1: "loss_inv default_context ?db1" "loss_later db ?db1"
    using loss_step_effect [OF default_ctx.decimal_context_axioms db(5) g1] by simp_all
  then have b1: "bound_to sample_loss_binding bh ?db1" using db(4) bound_to_later by blast
  obtain g2 where g2: "ledger_step (sample_cover ''funding'') ?db1
      = Inr (?db1\<lparr>ld_coverage := [row ''fills'' Fills g1, row ''funding'' Funding g2]\<rparr>)"
    using step [OF ids(2) src(2) e1(1) b1] by (auto simp: row_def)
  let ?db2 = "?db1\<lparr>ld_coverage := [row ''fills'' Fills g1, row ''funding'' Funding g2]\<rparr>"
  have e2: "loss_inv default_context ?db2" "loss_later ?db1 ?db2"
    using loss_step_effect [OF default_ctx.decimal_context_axioms e1(1) g2] by simp_all
  then have b2: "bound_to sample_loss_binding bh ?db2" using b1 bound_to_later by blast
  have run: "sample_covered = ?db2" by (simp add: sample_covered_def attempt_def db(1) g1 g2)
  show ?thesis
    by (rule that [of bh]) (use b2 e2(1) db(2) in \<open>simp_all add: run spanned_def row_def\<close>)
qed

text \<open>A loss of three recorded on top.\<close>

definition sample_ledger :: loss_db where
  "sample_ledger = run_ops ledger_step sample_covered [sample_loss ''loss'' (Dec (- 3) 0)]"

lemma sample_debit:
  "loss_debit default_context (Dec (- 3) 0) = Inr (Dec 3 0)" "db_decimal (Dec 3 0) = Dec 3 0"
  "db_decimal (Dec (- 3) 0) = Dec (- 3) 0"
    apply (simp add: loss_debit_def dneg_def default_context_def decimal_eval)
   apply code_simp
  apply code_simp
  done

lemma sample_ledger_facts:
  obtains bh r e where "bound_to sample_loss_binding bh sample_ledger" "loss_inv default_context sample_ledger"
    "loss_later sample_covered sample_ledger" "ld_coverage sample_ledger = ld_coverage sample_covered"
    "ld_events sample_ledger = [r]" "le_occurred_at r = sample_start"
    "validate_event_row default_context bh r = Inr e" "ev_kind e = Realized_Pnl" "ev_debit e = Dec 3 0"
    "ledger_step (sample_loss ''loss'' (Dec (- 3) 0)) sample_covered = Inr sample_ledger"
proof -
  obtain bh where cov: "bound_to sample_loss_binding bh sample_covered" "loss_inv default_context sample_covered"
    "ld_events sample_covered = []" by (rule sample_covered_facts)
  have bh: "loss_binding_hash sample_loss_binding = Inr bh" using cov(1) by (simp add: bound_to_def)
  have b: "bounded (Dec (- 3) 0)" "nonnegative (Dec 3 0)"
    by (simp_all add: bounded_def bound_defs ndigits.simps adjusted_def nonnegative_def le_dval dval_def [of "Dec 3 0"])
  have id: "loss_identifier (PStr ''loss'') = Inr ''loss''" by (simp add: sample_identifier)
  then have ref: "loss_text 1024 (PStr ''loss'') = Inr ''loss''"
    by (auto simp: loss_identifier_def loss_text_def bounded_text_ok_def)
  have none: "\<forall>h. filter (same_event ''loss'' Fills Realized_Pnl h) (ld_events sample_covered) = []"
    using cov(3) by simp
  obtain h g where append: "append_loss_event sample_loss_binding sample_clock (PStr ''loss'') Realized_Pnl Fills (PStr ''loss'')
      (PInstant sample_start) (Dec (- 3) 0) (Dec 3 0) sample_covered = Inr (True, sample_covered\<lparr>ld_events := ld_events sample_covered @
    [\<lparr> le_event_id = ''loss'', le_source = Fills, le_kind = Realized_Pnl, le_occurred_at = sample_start, le_observed_at = sample_now,
       le_amount = canonical_text (Dec (- 3) 0), le_debit = canonical_text (Dec 3 0), le_source_ref_hash = h, le_record_hash = g \<rparr>]\<rparr>)"
    using append_event_fresh [OF id ref sample_times(3,1,5) b bh none] by blast
  define r where "r = \<lparr> le_event_id = ''loss'', le_source = Fills, le_kind = Realized_Pnl, le_occurred_at = sample_start,
    le_observed_at = sample_now, le_amount = canonical_text (Dec (- 3) 0), le_debit = canonical_text (Dec 3 0),
    le_source_ref_hash = h, le_record_hash = g \<rparr>"
  have step: "ledger_step (sample_loss ''loss'' (Dec (- 3) 0)) sample_covered = Inr (sample_covered\<lparr>ld_events := [r]\<rparr>)"
    using append b(1) bound_opens(1) [OF cov(2,1)] cov(3)
    by (simp add: sample_loss_def recorded_def record_realized_pnl_def sample_debit r_def)
  then have run: "sample_ledger = sample_covered\<lparr>ld_events := [r]\<rparr>" by (simp add: sample_ledger_def attempt_def)
  note effect = loss_step_effect [OF default_ctx.decimal_context_axioms cov(2) step, folded run]
  have bound: "bound_to sample_loss_binding bh sample_ledger" using bound_to_later [OF cov(1)] effect by blast
  have "is_ok (validate_event_row default_context bh r)"
    using effect bound by (auto simp: loss_inv_def bound_to_def run)
  then obtain e where e: "validate_event_row default_context bh r = Inr e" by (rule is_okE)
  then have "ev_debit e = db_decimal (Dec 3 0)" "ev_kind e = Realized_Pnl"
    using stored_decimal_text [of "Dec 3 0"] b(2) by (auto simp: validate_event_row_def Let_def r_def)
  moreover have "ld_coverage sample_ledger = ld_coverage sample_covered" "ld_events sample_ledger = [r]"
    "le_occurred_at r = sample_start" by (simp_all add: run r_def)
  ultimately show ?thesis
    using e bound effect step [folded run] sample_debit(2) by (intro that [of bh r e]) simp_all
qed

lemma sample_totals:
  assumes "ev_kind e = Realized_Pnl" "ev_debit e = Dec 3 0"
  shows "foldE add_debit (0, 0, 0) [e] = Inr (Dec 3 0, 0, 0)" "decimal_add [Dec 3 0, 0, 0] = Inr (Dec 3 0)"
    "decimal_subtract (Dec 100 0) (Dec 3 0) = Inr (Dec 97 0)"
    "decimal_add [0, 0, 0] = Inr 0" "decimal_subtract (Dec 100 0) 0 = Inr (Dec 100 0)"
  using assms by (simp_all add: add_debit_def decimal_eval)

lemma sample_snapshots:
  obtains s s' where "snapshot_losses default_context sample_loss_binding sample_clock True None sample_covered = Inr s"
    "ls_used s = 0" "ls_remaining s = Dec 100 0" "ls_as_of s = sample_now"
    "snapshot_losses default_context sample_loss_binding sample_clock True None sample_ledger = Inr s'"
    "ls_used s' = Dec 3 0" "ls_remaining s' = Dec 97 0" "ls_as_of s' = sample_now"
proof -
  obtain bh where cov: "bound_to sample_loss_binding bh sample_covered" "loss_inv default_context sample_covered"
    "spanned sample_covered Fills sample_start sample_now" "spanned sample_covered Funding sample_start sample_now"
    "ld_events sample_covered = []" by (rule sample_covered_facts)
  obtain bh' r e where led: "bound_to sample_loss_binding bh' sample_ledger" "loss_inv default_context sample_ledger"
    "ld_coverage sample_ledger = ld_coverage sample_covered" "ld_events sample_ledger = [r]" "le_occurred_at r = sample_start"
    "validate_event_row default_context bh' r = Inr e" "ev_kind e = Realized_Pnl" "ev_debit e = Dec 3 0"
    by (rule sample_ledger_facts)
  have limit: "lb_daily_loss_limit sample_loss_binding = Dec 100 0" by (simp add: sample_loss_binding_def)
  have rows: "event_rows sample_start sample_now sample_covered = []" "event_rows sample_start sample_now sample_ledger = [r]"
    using cov(5) led(4,5) sample_times(5) by (simp_all add: event_rows_def)
  have span: "spanned sample_ledger Fills sample_start sample_now" "spanned sample_ledger Funding sample_start sample_now"
    using cov(3,4) by (simp_all add: spanned_def led(3))
  note sums = sample_totals [OF led(7,8)]
  have zero: "dmax (Dec 100 0) 0 = Dec 100 0" "dmax (Dec 97 0) 0 = Dec 97 0" 
    by (simp_all add: dmax_def less_dval dval_def [of "Dec 100 0"] dval_def [of "Dec 97 0"])
  obtain s where s: "snapshot_losses default_context sample_loss_binding sample_clock True None sample_covered = Inr s"
      "ls_used s = 0" "ls_remaining s = Dec 100 0" "ls_as_of s = sample_now"
    using snapshot_with_totals [OF cov(2,1) sample_times(1), unfolded sample_times(4), OF cov(3,4), of "[]" "(0, 0, 0)" 0 "Dec 100 0"]
      rows(1) sums(4,5) limit zero(1) by auto
  obtain s' where s': "snapshot_losses default_context sample_loss_binding sample_clock True None sample_ledger = Inr s'"
      "ls_used s' = Dec 3 0" "ls_remaining s' = Dec 97 0" "ls_as_of s' = sample_now"
    using snapshot_with_totals [OF led(2,1) sample_times(1), unfolded sample_times(4), OF span, of "[e]" "(Dec 3 0, 0, 0)" "Dec 3 0" "Dec 97 0"]
      rows(2) led(6) sums(1-3) limit zero(2) by auto
  from that [OF s s'] show ?thesis .
qed

lemma sample_latest:
  obtains s where "latest_complete_snapshot default_context sample_loss_binding sample_clock sample_clock 5 sample_ledger = Inr s"
    "ls_as_of s = sample_now"
proof -
  obtain bh where cov: "bound_to sample_loss_binding bh sample_covered"
    "spanned sample_covered Fills sample_start sample_now" "spanned sample_covered Funding sample_start sample_now"
    "\<forall>r \<in> set (ld_coverage sample_covered). lc_covered_from r = sample_start \<and> lc_covered_through r = sample_now"
    by (rule sample_covered_facts)
  obtain bh' where led: "bound_to sample_loss_binding bh' sample_ledger" "loss_inv default_context sample_ledger"
    "ld_coverage sample_ledger = ld_coverage sample_covered" by (rule sample_ledger_facts)
  have status: "\<exists>c. coverage_status_of bh' source sample_start sample_now (coverage_rows source sample_start sample_now sample_ledger) = Inr c
      \<and> cs_covered_from c = Some sample_start \<and> cs_covered_through c = Some sample_now" for source
  proof -
    let ?rows = "coverage_rows source sample_start sample_now sample_ledger"
    obtain c where c: "coverage_status_of bh' source sample_start sample_now ?rows = Inr c"
      using readable_coverage [OF led(2,1)] by blast
    then obtain ivs where ivs: "mapE (coverage_interval bh' source) ?rows = Inr ivs" by (auto simp: coverage_status_of_def)
    have all: "set ivs \<subseteq> {(sample_start, sample_now)}"
    proof
      fix iv
      assume "iv \<in> set ivs"
      from mapE_set [OF ivs this] obtain r where r: "r \<in> set ?rows" "coverage_interval bh' source r = Inr iv" by blast
      from coverage_interval_ok [OF r(2)] r(1) cov(4) led(3) show "iv \<in> {(sample_start, sample_now)}"
        by (simp add: coverage_rows_set)
    qed
    have "spanned sample_covered source sample_start sample_now" using cov(2,3) by (cases source) simp_all
    then obtain r where r: "r \<in> set (ld_coverage sample_covered)" "lc_source r = source"
      "lc_covered_from r \<le> sample_start" "sample_now \<le> lc_covered_through r" unfolding spanned_def by blast
    then have "r \<in> set ?rows" using sample_times(5) by (simp add: coverage_rows_set led(3))
    from mapE_image [OF ivs this] have "ivs \<noteq> []" by auto
    then have "sorted_intervals ivs \<noteq> []" using sorted_intervals_facts(1) [of ivs] by force
    then obtain iv rest where iv: "sorted_intervals ivs = iv # rest" by (cases "sorted_intervals ivs") auto
    then have "iv = (sample_start, sample_now)" using all sorted_intervals_facts(1) [of ivs] by force
    with iv have "coverage_scan sample_start sample_now None (sorted_intervals ivs) = (Some (sample_start, sample_now), True)"
      using sample_times(5) by simp
    with c ivs show ?thesis by (auto simp: coverage_status_of_def)
  qed
  obtain c1 c2 where c: "coverage_statuses bh' sample_start sample_now sample_ledger = Inr [c1, c2]"
    "cs_covered_from c1 = Some sample_start" "cs_covered_through c1 = Some sample_now"
    "cs_covered_from c2 = Some sample_start" "cs_covered_through c2 = Some sample_now"
    using status [of Fills] status [of Funding] by (auto simp: coverage_statuses_iff)
  obtain s where s: "snapshot_losses default_context sample_loss_binding sample_clock True None sample_ledger = Inr s"
    "ls_as_of s = sample_now" by (rule sample_snapshots)
  have "snapshot_losses default_context sample_loss_binding sample_clock True (Some (PInstant sample_now)) sample_ledger = Inr s"
    using s(1) by (simp add: snapshot_losses_def sample_times(1,2))
  moreover have "loss_binding_hash sample_loss_binding = Inr bh'" using led(1) by (simp add: bound_to_def)
  moreover have "set (List.map_filter cs_covered_through [c1, c2]) = {sample_now}"
    using c by (simp add: List.map_filter_simps)
  ultimately have "latest_complete_snapshot default_context sample_loss_binding sample_clock sample_clock 5 sample_ledger = Inr s"
    using c bound_opens(2,3) [OF led(2,1)] sample_times
    by (simp add: latest_complete_snapshot_def guard_cases unstarted_def Let_def seconds_def
        microsecond_second_def)
  from that [OF this s(2)] show ?thesis .
qed

section \<open>Properties\<close>

text \<open>C13: A complete snapshot of any ledger is of the clock's UTC day and not of the future, and every
  instant from midnight to it lies in a recorded interval of the fills and in one of the funding
  history: intervals that were observed in full and carry the hash of this ledger's binding.\<close>

theorem complete_snapshot_covers_day:
  assumes "snapshot_losses amb b clock True as_of db = Inr s"
  shows "\<exists>observed bh. clock_read clock = Inr observed \<and> loss_binding_hash b = Inr bh \<and> ls_as_of s \<le> observed
    \<and> utc_day (ls_as_of s) = utc_day observed
    \<and> (\<forall>source t. loss_day_start observed \<le> t \<and> t \<le> ls_as_of s \<longrightarrow>
        (\<exists>r \<in> set (ld_coverage db). lc_source r = source \<and> lc_covered_from r \<le> t \<and> t \<le> lc_covered_through r
          \<and> lc_covered_through r \<le> lc_observed_at r
          \<and> loss_coverage_hash bh (lc_coverage_id r) source (lc_covered_from r) (lc_covered_through r)
              (lc_source_cursor_hash r) = Inr (lc_record_hash r)))"
  using assms by (rule snapshot_covers)

theorem complete_snapshot_covers_day_witness:
  "\<exists>s. snapshot_losses default_context sample_loss_binding sample_clock True None sample_ledger = Inr s
     \<and> ls_as_of s = sample_now \<and> (\<exists>r \<in> set (ld_coverage sample_ledger). lc_source r = Funding
     \<and> lc_covered_from r \<le> sample_start \<and> sample_start \<le> lc_covered_through r)"
proof (rule sample_snapshots)
  fix s
  assume s: "snapshot_losses default_context sample_loss_binding sample_clock True None sample_ledger = Inr s"
    "ls_as_of s = sample_now"
  from complete_snapshot_covers_day [OF s(1)] sample_times s(2) have
    "\<exists>r \<in> set (ld_coverage sample_ledger). lc_source r = Funding \<and> lc_covered_from r \<le> sample_start
      \<and> sample_start \<le> lc_covered_through r" by force
  with s show ?thesis by blast
qed

text \<open>The newest common watermark that admission may use is complete, at most
  \<open>maximum_age_seconds\<close> (and five minutes) behind the clock, of the same UTC day, and the day is
  covered up to it by both sources.\<close>

theorem latest_snapshot_is_fresh:
  assumes "latest_complete_snapshot amb b clock later_clock age db = Inr s"
  shows "\<exists>observed. clock_read clock = Inr observed \<and> utc_day (ls_as_of s) = utc_day observed
    \<and> observed - ls_as_of s \<le> seconds age \<and> age \<le> 300
    \<and> (\<forall>source t. loss_day_start observed \<le> t \<and> t \<le> ls_as_of s \<longrightarrow>
        (\<exists>r \<in> set (ld_coverage db). lc_source r = source \<and> lc_covered_from r \<le> t \<and> t \<le> lc_covered_through r))"
proof -
  from assms obtain observed and cs :: "coverage_status list" where o: "clock_read clock = Inr observed" "age \<le> 300" and
    latest: "\<not> (utc_day (Min (set (List.map_filter cs_covered_through cs))) \<noteq> utc_day observed
       \<or> seconds age < observed - Min (set (List.map_filter cs_covered_through cs)))"
      "snapshot_losses amb b later_clock True (Some (PInstant (Min (set (List.map_filter cs_covered_through cs))))) db = Inr s"
    unfolding latest_complete_snapshot_def Let_def bindE_Inr_iff guard_Inr_iff by (elim exE conjE) (erule that, assumption+)
  define common where "common = Min (set (List.map_filter cs_covered_through cs))"
  note c = o latest [folded common_def]
  have as_of: "ls_as_of s = common"
  proof (rule snapshot_losses_ok [OF c(4)])
    fix y
    assume "case Some (PInstant common) of None \<Rightarrow> ls_as_of s = y | Some v \<Rightarrow> utc_time v = Inr (ls_as_of s)"
    then show ?thesis using utc_time_ok [of "PInstant common"] by simp
  qed
  have start: "loss_day_start x = loss_day_start observed" if "utc_day x = utc_day observed" for x
    using that by (simp add: loss_day_start_def)
  have covered: "\<exists>r \<in> set (ld_coverage db). lc_source r = source \<and> lc_covered_from r \<le> t \<and> t \<le> lc_covered_through r"
    if "loss_day_start observed \<le> t" "t \<le> ls_as_of s" for source t
  proof (rule snapshot_losses_ok [OF c(4)])
    fix bh
    assume f: "coverage_statuses bh (loss_day_start (ls_as_of s)) (ls_as_of s) db = Inr (ls_coverage s)"
      "True \<longrightarrow> missing_sources (ls_coverage s) = []"
    have "loss_day_start (ls_as_of s) = loss_day_start observed" using c(3) as_of start [of common] by simp
    then have "loss_day_start (ls_as_of s) \<le> t" using that(1) by simp
    from covered_window [OF f(1) f(2) [rule_format, OF TrueI] this that(2)] show ?thesis by blast
  qed
  have "utc_day (ls_as_of s) = utc_day observed" "observed - ls_as_of s \<le> seconds age"
    using c(3) by (simp_all add: as_of)
  then show ?thesis
    by (intro exI [of _ observed] conjI allI impI) (use c(1,2) covered in blast)+
qed

theorem latest_snapshot_is_fresh_witness:
  "\<exists>s. latest_complete_snapshot default_context sample_loss_binding sample_clock sample_clock 5 sample_ledger = Inr s
    \<and> sample_now - ls_as_of s \<le> seconds 5"
proof (rule sample_latest)
  fix s
  assume s: "latest_complete_snapshot default_context sample_loss_binding sample_clock sample_clock 5 sample_ledger = Inr s"
  from latest_snapshot_is_fresh [OF s] sample_times(1) s show ?thesis by auto
qed

text \<open>C14: Nothing gives used budget back: over any history of the ledger a later snapshot of the same
  day has used at least as much of each earlier one and has at most its remaining budget, whatever
  profits, late or duplicate events arrive in between.\<close>

theorem used_budget_never_recovers:
  assumes "db = run_ops (loss_step default_context) empty_loss_db ops"
    and "snapshot_losses default_context b clock complete_only as_of db = Inr s"
    and "snapshot_losses default_context b clock' complete_only' as_of'
      (run_ops (loss_step default_context) db more_ops) = Inr s'"
    and "utc_day (ls_as_of s) = utc_day (ls_as_of s')" "ls_as_of s \<le> ls_as_of s'"
  shows "dval (ls_used s) \<le> dval (ls_used s') \<and> dval (ls_remaining s') \<le> dval (ls_remaining s)"
proof (rule snapshot_monotone [OF _ _ assms(2-5)])
  have inv: "loss_inv default_context db" unfolding assms(1) by (rule loss_ledger.reachable_inv [OF refl])
  show "loss_later db (run_ops (loss_step default_context) db more_ops)" by (rule loss_ledger.run_below [OF inv])
  show "distinct (map le_event_id (ld_events (run_ops (loss_step default_context) db more_ops)))"
    using loss_ledger.run_inv [OF inv] unfolding loss_inv_def by blast
qed

theorem used_budget_never_recovers_witness:
  "\<exists>s s'. snapshot_losses default_context sample_loss_binding sample_clock True None sample_covered = Inr s
    \<and> snapshot_losses default_context sample_loss_binding sample_clock True None sample_ledger = Inr s'
    \<and> dval (ls_used s) = 0 \<and> dval (ls_used s') = 3 \<and> dval (ls_remaining s') \<le> dval (ls_remaining s)"
proof (rule sample_snapshots)
  fix s s'
  assume s: "snapshot_losses default_context sample_loss_binding sample_clock True None sample_covered = Inr s"
    "ls_used s = 0" "ls_as_of s = sample_now"
    and s': "snapshot_losses default_context sample_loss_binding sample_clock True None sample_ledger = Inr s'"
    "ls_used s' = Dec 3 0" "ls_as_of s' = sample_now"
  from used_budget_never_recovers [OF sample_covered_def s(1) s'(1) [unfolded sample_ledger_def]] s s'
  show ?thesis by (intro exI [of _ s] exI [of _ s']) (simp add: dval_def [of "Dec 3 0"])
qed

text \<open>C15: A snapshot of any ledger uses at least the exact sum of the debits recorded for the day up to
  it; what remains is never negative, never above a non-negative limit, and together with what is
  used never below the limit.\<close>

theorem remaining_budget_bounds:
  assumes "snapshot_losses amb b clock complete_only as_of db = Inr s"
  shows "day_debits (ls_as_of s) db \<le> dval (ls_used s) \<and> 0 \<le> dval (ls_used s) \<and> 0 \<le> dval (ls_remaining s)
    \<and> dval (ls_limit s) - dval (ls_used s) \<le> dval (ls_remaining s)
    \<and> dval (ls_remaining s) \<le> max 0 (dval (ls_limit s)) \<and> ls_limit s = lb_daily_loss_limit b"
  using assms by (rule snapshot_budget)

theorem remaining_budget_bounds_witness:
  "\<exists>s. snapshot_losses default_context sample_loss_binding sample_clock True None sample_ledger = Inr s
    \<and> day_debits sample_now sample_ledger \<le> 3 \<and> dval (ls_remaining s) = 97"
proof (rule sample_snapshots)
  fix s
  assume s: "snapshot_losses default_context sample_loss_binding sample_clock True None sample_ledger = Inr s"
    "ls_used s = Dec 3 0" "ls_remaining s = Dec 97 0" "ls_as_of s = sample_now"
  from remaining_budget_bounds [OF s(1)] s show ?thesis
    by (intro exI [of _ s]) (simp add: dval_def [of "Dec 3 0"] dval_def [of "Dec 97 0"])
qed

text \<open>Recording is idempotent. Whatever an accepted operation appended, the same operation with a later
  clock, after any further history, is accepted again and leaves the tables as they are.\<close>

theorem repeated_recording_changes_nothing:
  assumes "db = run_ops (loss_step default_context) empty_loss_db ops"
    and "loss_step default_context op db = Inr after" "after \<noteq> db"
    and "later = run_ops (loss_step default_context) after more_ops"
    and "clock_read (op_clock op) = Inr now" "clock_read clock = Inr now'" "now \<le> now'"
  shows "loss_step default_context (at_clock clock op) later = Inr later"
proof (rule loss_step_replay [OF default_ctx.decimal_context_axioms _ assms(2,3,5,6,7)])
  show inv: "loss_inv default_context db" unfolding assms(1) by (rule loss_ledger.reachable_inv [OF refl])
  have after: "loss_inv default_context after" by (rule loss_ledger.step_inv [OF inv assms(2)])
  show "loss_inv default_context later" unfolding assms(4) by (rule loss_ledger.run_inv [OF after])
  show "loss_later after later" unfolding assms(4) by (rule loss_ledger.run_below [OF after])
qed

theorem repeated_recording_changes_nothing_witness:
  "ld_events sample_ledger \<noteq> ld_events sample_covered
   \<and> loss_step default_context (sample_loss ''loss'' (Dec (- 3) 0)) sample_ledger = Inr sample_ledger"
proof (rule sample_ledger_facts)
  fix r
  assume step: "loss_step default_context (sample_loss ''loss'' (Dec (- 3) 0)) sample_covered = Inr sample_ledger"
    and r: "ld_events sample_ledger = [r]"
  have none: "ld_events sample_covered = []" by (rule sample_covered_facts)
  with r have "sample_ledger \<noteq> sample_covered" by auto
  from repeated_recording_changes_nothing [OF sample_covered_def step this, of sample_ledger "[]" sample_now sample_clock sample_now]
    sample_times(1) r none show ?thesis by (simp add: sample_loss_def)
qed

text \<open>A ledger that has been opened for a binding and holds one interval of each source from
  midnight to the clock answers a demand for a complete budget at that instant, however many
  other intervals and events it holds: every row it ever wrote passes its own verification. The
  one refusal left is \<open>ValidationError\<close>, for totals too long for the harness' decimals.\<close>

theorem covered_ledger_answers:
  assumes "db = run_ops (loss_step default_context) empty_loss_db ops"
    and "open_loss_ledger b True None db = Inr db" "clock_read clock = Inr now"
    and "spanned db Fills (loss_day_start now) now" "spanned db Funding (loss_day_start now) now"
  shows "(\<exists>s. snapshot_losses default_context b clock True None db = Inr s \<and> ls_as_of s = now \<and> ls_coverage_complete s)
    \<or> snapshot_losses default_context b clock True None db = Inl ValidationError"
proof -
  obtain bh where "bound_to b bh db" using open_loss_ledger_effect [OF assms(2)] by blast
  moreover have "loss_inv default_context db" unfolding assms(1) by (rule loss_ledger.reachable_inv [OF refl])
  ultimately show ?thesis using snapshot_answers assms(3-5) by blast
qed

theorem covered_ledger_answers_witness:
  "\<exists>s. snapshot_losses default_context sample_loss_binding sample_clock True None sample_covered = Inr s
    \<and> ls_coverage_complete s"
proof (rule sample_covered_facts)
  fix bh
  assume f: "bound_to sample_loss_binding bh sample_covered" "loss_inv default_context sample_covered"
    "spanned sample_covered Fills sample_start sample_now" "spanned sample_covered Funding sample_start sample_now"
  obtain s where s: "snapshot_losses default_context sample_loss_binding sample_clock True None sample_covered = Inr s"
    by (rule sample_snapshots)
  from covered_ledger_answers [OF sample_covered_def bound_opens(1) [OF f(2,1)] sample_times(1)] f(3,4) s
  show ?thesis by (simp add: sample_times(4))
qed

text \<open>C39: The unary minus that turns a loss into its debit rounds to the 28 digits of the host's decimal
  context, half to even, while amounts may have 96: a loss of one and 4e-28 is accepted by a covered
  ledger and stored exactly, but with a debit of one, so the day's budget is charged less than
  was lost, and the row passes its verification, which rounds in the same way.\<close>

theorem loss_debit_understated:
  "\<exists>after r a. loss_step default_context (sample_loss ''loss'' (Dec (- 10000000000000000000000000004) (- 28))) sample_covered
      = Inr after
    \<and> ld_events after = [r] \<and> stored_decimal (le_amount r) = Inr a
    \<and> dval a = - 10000000000000000000000000004 / 10 ^ 28 \<and> row_debit r = 1 \<and> row_debit r < - dval a"
proof (rule sample_covered_facts)
  let ?loss = "Dec (- 10000000000000000000000000004) (- 28)" and ?debit = "Dec 1000000000000000000000000000 (- 27)"
  fix bh
  assume cov: "bound_to sample_loss_binding bh sample_covered" "loss_inv default_context sample_covered"
    "ld_events sample_covered = []"
  have bh: "loss_binding_hash sample_loss_binding = Inr bh" using cov(1) by (simp add: bound_to_def)
  have v: "dval ?loss = - 10000000000000000000000000004 / 10 ^ 28" "dval ?debit = 1"
    by (simp_all add: dval_def power_int_def power_divide)
  have b: "bounded ?loss" "nonnegative ?debit"
    by (simp_all add: bounded_def bound_defs ndigits.simps adjusted_def nonnegative_def le_dval v)
  have debit: "loss_debit default_context ?loss = Inr ?debit"
  proof -
    have "?loss < 0" by (simp add: less_dval v)
    moreover have "dneg default_context ?loss = Inr ?debit"
      by (simp add: dneg_def default_context_def decimal_eval)
    ultimately show ?thesis by (simp add: loss_debit_def)
  qed
  have id: "loss_identifier (PStr ''loss'') = Inr ''loss''" by (simp add: sample_identifier)
  then have ref: "loss_text 1024 (PStr ''loss'') = Inr ''loss''"
    by (auto simp: loss_identifier_def loss_text_def bounded_text_ok_def)
  have none: "\<forall>h. filter (same_event ''loss'' Fills Realized_Pnl h) (ld_events sample_covered) = []"
    using cov(3) by simp
  obtain r where append: "append_loss_event sample_loss_binding sample_clock (PStr ''loss'') Realized_Pnl Fills (PStr ''loss'')
      (PInstant sample_start) ?loss ?debit sample_covered = Inr (True, sample_covered\<lparr>ld_events := ld_events sample_covered @ [r]\<rparr>)"
    and r: "le_amount r = canonical_text ?loss" "le_debit r = canonical_text ?debit"
    using append_event_fresh [OF id ref sample_times(3,1,5) b bh none] by force
  have "loss_step default_context (sample_loss ''loss'' ?loss) sample_covered = Inr (sample_covered\<lparr>ld_events := [r]\<rparr>)"
    using append b(1) bound_opens(1) [OF cov(2,1)] cov(3)
    by (simp add: sample_loss_def recorded_def record_realized_pnl_def debit)
  moreover have "stored_decimal (le_amount r) = Inr (db_decimal ?loss)" "dval (db_decimal ?loss) = dval ?loss"
    using stored_decimal_text [OF b(1)] db_decimal_facts(2) [OF b(1)] by (simp_all add: r)
  moreover have "row_debit r = 1"
    using stored_decimal_text [of ?debit] db_decimal_facts(2) [of ?debit] b(2) v(2) by (simp add: row_debit_def r)
  ultimately show ?thesis using v(1) by (intro exI conjI) (assumption | simp)+
qed

end
