(* ===== verification/Json_Input.thy ===== *)
theory Json_Input
  imports Field_Checks
begin

text \<open>
  The readers of decoded JSON of the venue's answers, up to the exception they raise: objects with
  an exact set of fields, arrays, bounded text and decimals written as text. A decoded document is a \<^typ>\<open>pyval\<close> built
  from \<open>PNone\<close>, \<open>PBool\<close>, \<open>PInt\<close>, \<open>PFloat\<close>, \<open>PStr\<close>, \<open>PList\<close> and \<open>PMap\<close> (whose keys are
  distinct); the readers accept any value and refuse the others.
\<close>

section \<open>Readers\<close>

definition as_object :: "exn \<Rightarrow> pyval \<Rightarrow> (string \<times> pyval) list result" where
  "as_object e v =
     (case v of
        PMap kvs \<Rightarrow> mapE (\<lambda>(k, w). case k of KStr s \<Rightarrow> Inr (s, w) | KOther \<Rightarrow> Inl e) kvs
      | _ \<Rightarrow> Inl e)"

text \<open>\<open>set (item) == {...}\<close>, \<open>item [name]\<close> once the field is known to be present, and
  \<open>item.get (name)\<close>, which is \<open>None\<close> for an absent field.\<close>

definition fields_are :: "string list \<Rightarrow> (string \<times> pyval) list \<Rightarrow> bool" where
  "fields_are names obj = (set (map fst obj) = set names)"

definition get_field :: "(string \<times> pyval) list \<Rightarrow> string \<Rightarrow> pyval" where
  "get_field obj name = (case map_of obj name of Some v \<Rightarrow> v | None \<Rightarrow> PNone)"

definition as_array :: "exn \<Rightarrow> nat option \<Rightarrow> pyval \<Rightarrow> pyval list result" where
  "as_array e maximum v =
     (case v of
        PList xs \<Rightarrow> bindE (guard (case maximum of None \<Rightarrow> True | Some m \<Rightarrow> \<not> m < length xs) e) (\<lambda>_. Inr xs)
      | _ \<Rightarrow> Inl e)"

definition as_text :: "exn \<Rightarrow> nat \<Rightarrow> pyval \<Rightarrow> string result" where
  "as_text e maximum v = (case v of PStr s \<Rightarrow> bounded_text e maximum s | _ \<Rightarrow> Inl e)"

definition as_decimal :: "exn \<Rightarrow> pyval \<Rightarrow> decimal result" where
  "as_decimal e v =
     (case v of
        PStr s \<Rightarrow>
          bindE (guard (trimmed s) e) (\<lambda>_.
          bindE (of_option e (parse_decimal s)) (\<lambda>d. reraise e (validate_decimal_bounds d)))
      | _ \<Rightarrow> Inl e)"

section \<open>What the readers accept\<close>

lemma as_object_PMap: "as_object e v = Inr obj \<Longrightarrow> v = PMap (map (\<lambda>(k, w). (KStr k, w)) obj)"
proof -
  have "mapE (\<lambda>(k, w). case k of KStr s \<Rightarrow> Inr (s, w) | KOther \<Rightarrow> Inl e) kvs = Inr obj \<Longrightarrow>
      kvs = map (\<lambda>(k, w). (KStr k, w)) obj" for kvs
    by (induction kvs arbitrary: obj) (auto split: pykey.splits)
  then show "as_object e v = Inr obj \<Longrightarrow> ?thesis" by (cases v) (auto simp: as_object_def)
qed

lemma as_object_fields [simp]: "as_object e (PMap (map (\<lambda>(k, w). (KStr k, w)) obj)) = Inr obj"
  by (induction obj) (auto simp: as_object_def)

lemma as_object_record [simp]:
  "length names = length vs \<Longrightarrow> as_object e (record_val names vs) = Inr (zip names vs)"
proof (induction names vs rule: list_induct2)
  case (Cons k ks v vs)
  then show ?case by (auto simp: as_object_def record_val_def)
qed (simp add: as_object_def record_val_def)

lemma fields_are_zip: "length names = length vs \<Longrightarrow> fields_are names' (zip names vs) \<longleftrightarrow> set names = set names'"
  by (simp add: fields_are_def)

lemma as_array_Inr_iff [simp]:
  "as_array e m v = Inr xs \<longleftrightarrow> v = PList xs \<and> (case m of None \<Rightarrow> True | Some k \<Rightarrow> length xs \<le> k)"
  by (cases v) (auto simp: as_array_def split: option.splits)

lemma as_text_Inr_iff [simp]: "as_text e m v = Inr s \<longleftrightarrow> v = PStr s \<and> bounded_text_ok m s"
  by (cases v) (auto simp: as_text_def)

lemma as_decimal_Inr_iff:
  "as_decimal e v = Inr d \<longleftrightarrow> (\<exists>s. v = PStr s \<and> trimmed s \<and> parse_decimal s = Some d \<and> bounded d)"
  by (cases v) (auto simp: as_decimal_def)

lemma as_decimal_bounded: "as_decimal e v = Inr d \<Longrightarrow> bounded d"
  by (auto simp: as_decimal_Inr_iff)

end
