(* ===== verification/Response.thy ===== *)
theory Response
  imports Json_Input
begin

text \<open>
  \<open>hyperliquid_response.py\<close>: the strict parser of the venue's answer to a batch of orders. The
  answer is decoded JSON; \<open>SubmissionResponseError\<close> is its own exception class, the request sizes
  are checked with \<open>ValidationError\<close> and \<open>TypeError\<close>.
\<close>

section \<open>Results\<close>

datatype leg_state = LEG_FILLED | LEG_RESTING | LEG_ERROR

fun leg_state_value :: "leg_state \<Rightarrow> string" where
  "leg_state_value LEG_FILLED = ''filled''"
| "leg_state_value LEG_RESTING = ''resting''"
| "leg_state_value LEG_ERROR = ''error''"

record leg_result =
  lr_index :: int
  lr_state :: leg_state
  lr_requested_size :: decimal
  lr_oid :: "int option"
  lr_filled_size :: decimal
  lr_average_price :: "decimal option"
  lr_venue_error :: "string option"

definition fully_filled :: "leg_result \<Rightarrow> bool" where
  "fully_filled l = (lr_state l = LEG_FILLED \<and> deq (lr_filled_size l) (lr_requested_size l))"

definition partially_filled :: "leg_result \<Rightarrow> bool" where
  "partially_filled l =
     (lr_state l = LEG_FILLED \<and> 0 < lr_filled_size l \<and> lr_filled_size l < lr_requested_size l)"

text \<open>\<open>None if value is None else canonical_decimal (value)\<close>.\<close>

definition opt_decimal_val :: "decimal option \<Rightarrow> pyval result" where
  "opt_decimal_val x = (case x of None \<Rightarrow> Inr PNone | Some d \<Rightarrow> bindE (canonical_decimal d) (\<lambda>s. Inr (PStr s)))"

definition leg_dict :: "leg_result \<Rightarrow> pyval result" where
  "leg_dict l =
     bindE (canonical_decimal (lr_requested_size l)) (\<lambda>requested.
     bindE (canonical_decimal (lr_filled_size l)) (\<lambda>filled.
     bindE (opt_decimal_val (lr_average_price l)) (\<lambda>average.
     Inr (record_val
       [''index'', ''state'', ''requested_size'', ''oid'', ''filled_size'', ''average_price'',
        ''venue_error'', ''fully_filled'', ''partially_filled'']
       [PInt (lr_index l), PStr (leg_state_value (lr_state l)), PStr requested, opt_val PInt (lr_oid l),
        PStr filled, average, opt_val PStr (lr_venue_error l), PBool (fully_filled l),
        PBool (partially_filled l)]))))"

record batch_result =
  br_response_hash :: string
  br_outer_status :: string
  br_whole_batch_error :: "string option"
  br_legs :: "leg_result list"
  br_requires_reconciliation :: bool
  br_protected_position_confirmed :: bool

definition entry_fully_filled :: "batch_result \<Rightarrow> bool" where
  "entry_fully_filled b = (case br_legs b of [] \<Rightarrow> False | l # _ \<Rightarrow> fully_filled l)"

definition entry_partially_filled :: "batch_result \<Rightarrow> bool" where
  "entry_partially_filled b = (case br_legs b of [] \<Rightarrow> False | l # _ \<Rightarrow> partially_filled l)"

definition batch_dict :: "batch_result \<Rightarrow> pyval result" where
  "batch_dict b =
     bindE (mapE leg_dict (br_legs b)) (\<lambda>legs.
     Inr (record_val
       [''schema_version'', ''response_hash'', ''outer_status'', ''whole_batch_error'', ''legs'',
        ''entry_fully_filled'', ''entry_partially_filled'', ''requires_reconciliation'',
        ''protected_position_confirmed'']
       [PStr ''hyperliquid.batch_submission_result.v1'', PStr (br_response_hash b),
        PStr (br_outer_status b), opt_val PStr (br_whole_batch_error b), PList legs,
        PBool (entry_fully_filled b), PBool (entry_partially_filled b),
        PBool (br_requires_reconciliation b), PBool (br_protected_position_confirmed b)]))"

section \<open>Parsing\<close>

definition response_decimal :: "bool \<Rightarrow> pyval \<Rightarrow> decimal result" where
  "response_decimal pos v =
     bindE (as_decimal SubmissionResponseError v) (\<lambda>d.
     bindE (guard (\<not> (d < 0 \<or> pos \<and> d \<le> 0)) SubmissionResponseError) (\<lambda>_. Inr d))"

definition response_oid :: "pyval \<Rightarrow> int result" where
  "response_oid v =
     (case v of
        PInt i \<Rightarrow> bindE (guard (\<not> i < 0) SubmissionResponseError) (\<lambda>_. Inr i)
      | _ \<Rightarrow> Inl SubmissionResponseError)"

definition venue_error :: "pyval \<Rightarrow> string result" where
  "venue_error v = as_text SubmissionResponseError 512 v"

text \<open>Anything but a \<open>Decimal\<close> is a \<open>TypeError\<close>; a \<open>Decimal\<close> NaN or infinity fails the bounds.\<close>

definition requested_size :: "decimal_input \<Rightarrow> decimal result" where
  "requested_size v =
     (case v of
        In_Decimal d \<Rightarrow>
          bindE (validate_decimal_bounds d) (\<lambda>_. bindE (guard (\<not> d \<le> 0) ValidationError) (\<lambda>_. Inr d))
      | In_Special \<Rightarrow> Inl CanonicalizationError
      | _ \<Rightarrow> Inl TypeError)"

definition requested_sizes :: "decimal_input list \<Rightarrow> decimal list result" where
  "requested_sizes values =
     bindE (guard (1 \<le> length values \<and> length values \<le> 20) ValidationError) (\<lambda>_.
     mapE requested_size values)"

definition response_digest :: "pyval \<Rightarrow> string result" where
  "response_digest response = reraise SubmissionResponseError (payload_hash response)"

definition parse_leg :: "int \<Rightarrow> pyval \<Rightarrow> decimal \<Rightarrow> leg_result result" where
  "parse_leg index v requested =
     (let e = SubmissionResponseError in
     bindE (as_object e v) (\<lambda>item.
     if fields_are [''error''] item then
       bindE (venue_error (get_field item ''error'')) (\<lambda>err.
       Inr \<lparr> lr_index = index, lr_state = LEG_ERROR, lr_requested_size = requested, lr_oid = None,
             lr_filled_size = 0, lr_average_price = None, lr_venue_error = Some err \<rparr>)
     else if fields_are [''resting''] item then
       bindE (as_object e (get_field item ''resting'')) (\<lambda>resting.
       bindE (guard (fields_are [''oid''] resting) e) (\<lambda>_.
       bindE (response_oid (get_field resting ''oid'')) (\<lambda>oid.
       Inr \<lparr> lr_index = index, lr_state = LEG_RESTING, lr_requested_size = requested, lr_oid = Some oid,
             lr_filled_size = 0, lr_average_price = None, lr_venue_error = None \<rparr>)))
     else if fields_are [''filled''] item then
       bindE (as_object e (get_field item ''filled'')) (\<lambda>filled.
       bindE (guard (fields_are [''totalSz'', ''avgPx'', ''oid''] filled) e) (\<lambda>_.
       bindE (response_decimal True (get_field filled ''totalSz'')) (\<lambda>size.
       bindE (guard (\<not> requested < size) e) (\<lambda>_.
       bindE (response_oid (get_field filled ''oid'')) (\<lambda>oid.
       bindE (response_decimal True (get_field filled ''avgPx'')) (\<lambda>average.
       Inr \<lparr> lr_index = index, lr_state = LEG_FILLED, lr_requested_size = requested, lr_oid = Some oid,
             lr_filled_size = size, lr_average_price = Some average, lr_venue_error = None \<rparr>))))))
     else Inl e))"

fun parse_legs :: "int \<Rightarrow> pyval list \<Rightarrow> decimal list \<Rightarrow> leg_result list result" where
  "parse_legs index (v # vs) (r # rs) =
     bindE (parse_leg index v r) (\<lambda>l. bindE (parse_legs (index + 1) vs rs) (\<lambda>ls. Inr (l # ls)))"
| "parse_legs index _ _ = Inr []"

definition batch_of :: "string \<Rightarrow> string \<Rightarrow> string option \<Rightarrow> leg_result list \<Rightarrow> batch_result" where
  "batch_of digest outer err legs =
     \<lparr> br_response_hash = digest, br_outer_status = outer, br_whole_batch_error = err, br_legs = legs,
       br_requires_reconciliation = True, br_protected_position_confirmed = False \<rparr>"

text \<open>The one status that stands for the whole batch: a single error for several orders.\<close>

definition whole_batch_status :: "pyval list \<Rightarrow> decimal list \<Rightarrow> pyval option result" where
  "whole_batch_status statuses requested =
     (case statuses of
        [v] \<Rightarrow>
          if 1 < length requested then
            bindE (as_object SubmissionResponseError v) (\<lambda>candidate.
            Inr (if fields_are [''error''] candidate then Some (get_field candidate ''error'') else None))
          else Inr None
      | _ \<Rightarrow> Inr None)"

definition parse_order_response :: "pyval \<Rightarrow> decimal_input list \<Rightarrow> batch_result result" where
  "parse_order_response response sizes =
     (let e = SubmissionResponseError in
     bindE (requested_sizes sizes) (\<lambda>requested.
     bindE (response_digest response) (\<lambda>digest.
     bindE (as_object e response) (\<lambda>root.
     bindE (guard (fields_are [''status'', ''response''] root) e) (\<lambda>_.
     if get_field root ''status'' = PStr ''err'' then
       bindE (venue_error (get_field root ''response'')) (\<lambda>err. Inr (batch_of digest ''err'' (Some err) []))
     else
       bindE (guard (get_field root ''status'' = PStr ''ok'') e) (\<lambda>_.
       bindE (as_object e (get_field root ''response'')) (\<lambda>body.
       bindE (guard (fields_are [''type'', ''data''] body \<and> get_field body ''type'' = PStr ''order'') e) (\<lambda>_.
       bindE (as_object e (get_field body ''data'')) (\<lambda>data.
       bindE (guard (fields_are [''statuses''] data) e) (\<lambda>_.
       bindE (as_array e None (get_field data ''statuses'')) (\<lambda>statuses.
       bindE (whole_batch_status statuses requested) (\<lambda>whole.
       case whole of
         Some v \<Rightarrow> bindE (venue_error v) (\<lambda>err. Inr (batch_of digest ''ok'' (Some err) []))
       | None \<Rightarrow>
           bindE (guard (length statuses = length requested) e) (\<lambda>_.
           bindE (parse_legs 0 statuses requested) (\<lambda>legs.
           Inr (batch_of digest ''ok'' None legs)))))))))))))))"

end
