(* ===== verification/Response_Properties.thy ===== *)
theory Response_Properties
  imports Response
begin

text \<open>
  What an accepted answer says: each leg reports the order that was sent, within the size that was
  requested, and nothing is inferred about protection; every answer of the venue's documented form
  is accepted and read back leg by leg.
\<close>

section \<open>Accepted legs\<close>

text \<open>What a leg may report about an order of size \<open>r\<close> at position \<open>i\<close>.\<close>

definition leg_sound :: "int \<Rightarrow> decimal \<Rightarrow> leg_result \<Rightarrow> bool" where
  "leg_sound i r l =
     (lr_index l = i \<and> lr_requested_size l = r \<and> 0 \<le> dval (lr_filled_size l)
      \<and> dval (lr_filled_size l) \<le> dval r
      \<and> (case lr_state l of
           LEG_FILLED \<Rightarrow> 0 < dval (lr_filled_size l) \<and> (\<exists>oid. lr_oid l = Some oid \<and> 0 \<le> oid)
             \<and> (\<exists>p. lr_average_price l = Some p \<and> 0 < dval p) \<and> lr_venue_error l = None
         | LEG_RESTING \<Rightarrow> dval (lr_filled_size l) = 0 \<and> (\<exists>oid. lr_oid l = Some oid \<and> 0 \<le> oid)
             \<and> lr_average_price l = None \<and> lr_venue_error l = None
         | LEG_ERROR \<Rightarrow> dval (lr_filled_size l) = 0 \<and> lr_oid l = None \<and> lr_average_price l = None
             \<and> (\<exists>m. lr_venue_error l = Some m \<and> m \<noteq> [])))"

definition legs_sound :: "decimal list \<Rightarrow> leg_result list \<Rightarrow> bool" where
  "legs_sound rs ls = (length ls = length rs \<and> (\<forall>i < length rs. leg_sound (int i) (rs ! i) (ls ! i)))"

lemma response_decimal_positive:
  "response_decimal True v = Inr d \<Longrightarrow> bounded d \<and> 0 < dval d"
  by (auto simp: response_decimal_def as_decimal_bounded dval_simps)

lemma response_oid_Inr_iff [simp]: "response_oid v = Inr i \<longleftrightarrow> v = PInt i \<and> 0 \<le> i"
  by (cases v) (auto simp: response_oid_def)

lemma venue_error_nonempty: "venue_error v = Inr m \<Longrightarrow> m \<noteq> []"
  by (auto simp: venue_error_def bounded_text_ok_def trimmed_def)

lemma parse_leg_sound:
  assumes "parse_leg i v r = Inr l" "0 < dval r"
  shows "leg_sound i r l"
  using assms
  by (auto simp: parse_leg_def Let_def leg_sound_def dval_simps venue_error_nonempty
      dest!: response_decimal_positive split: if_splits)

lemma parse_legs_sound:
  "parse_legs i vs rs = Inr ls \<Longrightarrow> length vs = length rs \<Longrightarrow> \<forall>r \<in> set rs. 0 < dval r \<Longrightarrow>
   length ls = length rs \<and> (\<forall>n < length rs. leg_sound (i + int n) (rs ! n) (ls ! n))"
proof (induction i vs rs arbitrary: ls rule: parse_legs.induct)
  case (1 i v vs r rs)
  from "1.prems"(1) obtain l ls' where l: "parse_leg i v r = Inr l" "parse_legs (i + 1) vs rs = Inr ls'"
      "ls = l # ls'" by auto
  have IH: "length ls' = length rs" "leg_sound (i + 1 + int n) (rs ! n) (ls' ! n)" if "n < length rs" for n
    using "1.IH" [OF l(2)] "1.prems"(2,3) that by auto
  have len: "length ls' = length rs" using "1.IH" [OF l(2)] "1.prems"(2,3) by simp
  have "leg_sound (i + int n) ((r # rs) ! n) (ls ! n)" if "n < Suc (length rs)" for n
  proof (cases n)
    case 0
    with l(1,3) "1.prems"(3) parse_leg_sound show ?thesis by simp
  next
    case (Suc m)
    with IH [of m] that l(3) show ?thesis by (simp add: algebra_simps)
  qed
  with len l(3) show ?case by simp
qed simp_all

lemma requested_size_Inr_iff:
  "requested_size v = Inr d \<longleftrightarrow> v = In_Decimal d \<and> bounded d \<and> 0 < dval d"
  by (cases v) (auto simp: requested_size_def dval_simps)

lemma requested_sizes_Inr_iff:
  "requested_sizes vs = Inr rs \<longleftrightarrow>
     vs = map In_Decimal rs \<and> 1 \<le> length rs \<and> length rs \<le> 20 \<and> (\<forall>r \<in> set rs. bounded r \<and> 0 < dval r)"
proof -
  have "mapE requested_size vs = Inr rs \<longleftrightarrow> vs = map In_Decimal rs \<and> (\<forall>r \<in> set rs. bounded r \<and> 0 < dval r)"
    by (induction vs arbitrary: rs) (auto simp: requested_size_Inr_iff Cons_eq_map_conv)
  then show ?thesis by (auto simp: requested_sizes_def)
qed

lemma parse_response_cases:
  assumes "parse_order_response response sizes = Inr b"
  obtains (whole) rs digest s m where "requested_sizes sizes = Inr rs" "m \<noteq> []" "b = batch_of digest s (Some m) []"
    | (legs) rs digest vs ls where "requested_sizes sizes = Inr rs" "length vs = length rs"
        "parse_legs 0 vs rs = Inr ls" "b = batch_of digest ''ok'' None ls"
proof -
  from assms obtain rs digest where rs: "requested_sizes sizes = Inr rs" and
    alt: "(\<exists>v m s. venue_error v = Inr m \<and> b = batch_of digest s (Some m) [])
      \<or> (\<exists>vs ls. length vs = length rs \<and> parse_legs 0 vs rs = Inr ls \<and> b = batch_of digest ''ok'' None ls)"
    by (simp add: parse_order_response_def Let_def split: if_splits option.splits) blast+
  from alt show ?thesis
    by (elim disjE exE conjE) (use rs venue_error_nonempty whole legs in blast)+
qed

text \<open>C36: An accepted answer never claims that a position is protected and always demands
  reconciliation. Either it is an error of the whole batch, with no leg, or it has one leg for each
  order that was sent, in order: the leg carries the requested size, its fill is between zero and
  that size, it is positive exactly for a filled leg, an order id is present exactly for a resting
  or filled one, and an error text exactly for a refused one.
\<close>

theorem accepted_response_within_request:
  assumes "parse_order_response response sizes = Inr b"
  shows "\<exists>requested. sizes = map In_Decimal requested \<and> br_requires_reconciliation b
    \<and> \<not> br_protected_position_confirmed b
    \<and> (case br_whole_batch_error b of
         Some m \<Rightarrow> m \<noteq> [] \<and> br_legs b = [] \<and> \<not> entry_fully_filled b
       | None \<Rightarrow> br_outer_status b = ''ok'' \<and> legs_sound requested (br_legs b))"
proof -
  from parse_response_cases [OF assms] obtain rs digest where r: "requested_sizes sizes = Inr rs" and
    b: "(\<exists>m s. m \<noteq> [] \<and> b = batch_of digest s (Some m) [])
      \<or> (\<exists>vs ls. length vs = length rs \<and> parse_legs 0 vs rs = Inr ls \<and> b = batch_of digest ''ok'' None ls)"
    by metis
  from r have rs: "sizes = map In_Decimal rs" "\<forall>r \<in> set rs. 0 < dval r"
    by (simp_all add: requested_sizes_Inr_iff)
  show ?thesis
  proof (intro exI conjI)
    show "sizes = map In_Decimal rs" by (rule rs)
    show "br_requires_reconciliation b" "\<not> br_protected_position_confirmed b"
      using b by (auto simp: batch_of_def)
    from b show "case br_whole_batch_error b of
         Some m \<Rightarrow> m \<noteq> [] \<and> br_legs b = [] \<and> \<not> entry_fully_filled b
       | None \<Rightarrow> br_outer_status b = ''ok'' \<and> legs_sound rs (br_legs b)"
    proof
      assume "\<exists>m s. m \<noteq> [] \<and> b = batch_of digest s (Some m) []"
      then show ?thesis by (auto simp: batch_of_def entry_fully_filled_def)
    next
      assume "\<exists>vs ls. length vs = length rs \<and> parse_legs 0 vs rs = Inr ls \<and> b = batch_of digest ''ok'' None ls"
      then show ?thesis using parse_legs_sound rs(2) by (fastforce simp: batch_of_def legs_sound_def)
    qed
  qed
qed

section \<open>The venue's documented form\<close>

datatype venue_leg = Venue_Error string | Venue_Resting int | Venue_Filled decimal decimal int

fun venue_leg_val :: "venue_leg \<Rightarrow> pyval" where
  "venue_leg_val (Venue_Error m) = record_val [''error''] [PStr m]"
| "venue_leg_val (Venue_Resting oid) = record_val [''resting''] [record_val [''oid''] [PInt oid]]"
| "venue_leg_val (Venue_Filled qty average oid) =
     record_val [''filled''] [record_val [''totalSz'', ''avgPx'', ''oid'']
       [PStr (canonical_text qty), PStr (canonical_text average), PInt oid]]"

definition venue_response :: "venue_leg list \<Rightarrow> pyval" where
  "venue_response legs = record_val [''status'', ''response'']
     [PStr ''ok'', record_val [''type'', ''data'']
       [PStr ''order'', record_val [''statuses''] [PList (map venue_leg_val legs)]]]"

text \<open>An answer the venue may give for an order of size \<open>r\<close>.\<close>

fun venue_leg_ok :: "decimal \<Rightarrow> venue_leg \<Rightarrow> bool" where
  "venue_leg_ok r (Venue_Error m) = bounded_text_ok 512 m"
| "venue_leg_ok r (Venue_Resting oid) = (0 \<le> oid)"
| "venue_leg_ok r (Venue_Filled qty average oid) =
     (bounded qty \<and> 0 < dval qty \<and> dval qty \<le> dval r \<and> bounded average \<and> 0 < dval average \<and> 0 \<le> oid)"

fun leg_reports :: "venue_leg \<Rightarrow> leg_result \<Rightarrow> bool" where
  "leg_reports (Venue_Error m) l = (lr_state l = LEG_ERROR \<and> lr_venue_error l = Some m)"
| "leg_reports (Venue_Resting oid) l = (lr_state l = LEG_RESTING \<and> lr_oid l = Some oid)"
| "leg_reports (Venue_Filled qty average oid) l =
     (lr_state l = LEG_FILLED \<and> lr_oid l = Some oid \<and> dval (lr_filled_size l) = dval qty
      \<and> (\<exists>p. lr_average_price l = Some p \<and> dval p = dval average)
      \<and> (fully_filled l \<longleftrightarrow> dval qty = dval (lr_requested_size l)))"

lemma response_decimal_reads:
  assumes "bounded d" "0 < dval d"
  shows "\<exists>x. response_decimal True (PStr (canonical_text d)) = Inr x \<and> dval x = dval d"
proof -
  obtain x where "parse_decimal (canonical_text d) = Some x" "dval x = dval d" "bounded x"
    using canonical_decimal_roundtrip assms(1) canonical_decimal_Inr_iff by blast
  with assms(2) show ?thesis
    by (auto simp: response_decimal_def as_decimal_def canonical_text_trimmed dval_simps of_option_def
        validate_decimal_bounds_eq)
qed

lemma parse_leg_reads:
  assumes "venue_leg_ok r v"
  shows "\<exists>l. parse_leg i (venue_leg_val v) r = Inr l \<and> leg_reports v l"
proof (cases v)
  case (Venue_Error m)
  with assms show ?thesis
    by (simp add: parse_leg_def fields_are_def get_field_def venue_error_def as_text_def bounded_text_def
        bounded_text_ok_def)
next
  case (Venue_Resting oid)
  with assms show ?thesis
    by (simp add: parse_leg_def fields_are_def get_field_def response_oid_def)
next
  case (Venue_Filled qty average oid)
  with assms obtain s a where "response_decimal True (PStr (canonical_text qty)) = Inr s" "dval s = dval qty"
      "response_decimal True (PStr (canonical_text average)) = Inr a" "dval a = dval average"
    using response_decimal_reads [of qty] response_decimal_reads [of average] by auto
  with assms Venue_Filled show ?thesis
    by (auto simp: parse_leg_def fields_are_def get_field_def response_oid_def dval_simps fully_filled_def)
qed

lemma parse_legs_reads:
  "list_all2 venue_leg_ok rs vs \<Longrightarrow>
   \<exists>ls. parse_legs i (map venue_leg_val vs) rs = Inr ls \<and> list_all2 leg_reports vs ls"
proof (induction rs vs arbitrary: i rule: list_all2_induct)
  case (Cons r rs v vs)
  obtain l where "parse_leg i (venue_leg_val v) r = Inr l" "leg_reports v l"
    using parse_leg_reads [OF Cons(1)] by blast
  with Cons.IH [of "i + 1"] show ?case by auto
qed simp

lemma venue_response_digest: "\<exists>h. response_digest (venue_response legs) = Inr h"
proof -
  have "is_ok (canonical_data (venue_leg_val v))" for v
    by (cases v) (auto intro!: is_ok_record_val)
  then have "is_ok (canonical_data (PList (map venue_leg_val legs)))" by (intro is_ok_PList) simp
  then have "\<forall>v \<in> set [PStr ''ok'', record_val [''type'', ''data'']
       [PStr ''order'', record_val [''statuses''] [PList (map venue_leg_val legs)]]]. is_ok (canonical_data v)"
    by (auto intro!: is_ok_record_val simp del: canonical_data.simps(5))
  from record_payload_hash_total [OF _ this, of "[''status'', ''response'']"]
  obtain h where "payload_hash (venue_response legs) = Inr h"
    unfolding venue_response_def by auto
  then show ?thesis by (simp add: response_digest_def)
qed

text \<open>C37: Every answer of the venue's documented form is accepted, for one to twenty orders of bounded
  positive size: the parsed legs report, order by order, the error, the resting id, or the fill the
  venue stated, and a leg counts as fully filled exactly when the stated fill is the requested size.
\<close>

theorem documented_response_is_read:
  assumes "1 \<le> length requested" "length requested \<le> 20"
    and "\<forall>r \<in> set requested. bounded r \<and> 0 < dval r"
    and "list_all2 venue_leg_ok requested legs"
  shows "\<exists>b. parse_order_response (venue_response legs) (map In_Decimal requested) = Inr b
    \<and> br_whole_batch_error b = None \<and> list_all2 leg_reports legs (br_legs b)"
proof -
  obtain h where h: "response_digest (venue_response legs) = Inr h" using venue_response_digest by blast
  obtain ls where ls: "parse_legs 0 (map venue_leg_val legs) requested = Inr ls" "list_all2 leg_reports legs ls"
    using parse_legs_reads [OF assms(4)] by blast
  have len: "length legs = length requested" using assms(4) by (simp add: list_all2_lengthD)
  have sizes: "requested_sizes (map In_Decimal requested) = Inr requested"
    using assms(1-3) by (simp add: requested_sizes_Inr_iff)
  have whole: "whole_batch_status (map venue_leg_val legs) requested = Inr None"
    using len by (auto simp: whole_batch_status_def split: list.splits)
  have "parse_order_response (venue_response legs) (map In_Decimal requested) = Inr (batch_of h ''ok'' None ls)"
    unfolding parse_order_response_def Let_def sizes h
    by (simp add: venue_response_def fields_are_def get_field_def as_array_def whole len ls(1) insert_commute)
  with ls(2) show ?thesis by (simp add: batch_of_def)
qed


section \<open>A sample answer\<close>

definition sample_sizes :: "decimal list" where
  "sample_sizes = [Dec 25 (- 1), Dec 25 (- 1)]"

definition sample_venue_legs :: "venue_leg list" where
  "sample_venue_legs = [Venue_Filled (Dec 15 (- 1)) (Dec 64000 0) 77, Venue_Resting 78]"

lemma sample_sizes_ok: "\<forall>r \<in> set sample_sizes. bounded r \<and> 0 < dval r"
  by (simp add: sample_sizes_def bounded_def bound_defs dval_def adjusted_def ndigits.simps power_int_def)

lemma sample_venue_legs_ok: "list_all2 venue_leg_ok sample_sizes sample_venue_legs"
  by (simp add: sample_sizes_def sample_venue_legs_def bounded_def bound_defs dval_def adjusted_def ndigits.simps
      power_int_def)

theorem documented_response_is_read_witness:
  "\<exists>b. parse_order_response (venue_response sample_venue_legs) (map In_Decimal sample_sizes) = Inr b
    \<and> br_whole_batch_error b = None \<and> list_all2 leg_reports sample_venue_legs (br_legs b)"
  using documented_response_is_read [OF _ _ sample_sizes_ok sample_venue_legs_ok] by (simp add: sample_sizes_def)

lemma sample_response_accepted:
  "is_ok (parse_order_response
     (record_val [''status'', ''response''] [PStr ''err'', PStr ''Must deposit before performing actions''])
     (map In_Decimal sample_sizes))"
proof -
  let ?r = "record_val [''status'', ''response''] [PStr ''err'', PStr ''Must deposit before performing actions'']"
  obtain h where "payload_hash ?r = Inr h"
    using record_payload_hash_total [of "[''status'', ''response'']"
        "[PStr ''err'', PStr ''Must deposit before performing actions'']"] by auto
  moreover have "bounded_text_ok 512 ''Must deposit before performing actions''" by code_simp
  moreover have "requested_sizes (map In_Decimal sample_sizes) = Inr sample_sizes"
    using sample_sizes_ok by (simp add: requested_sizes_Inr_iff) (simp add: sample_sizes_def)
  ultimately show ?thesis
    by (simp add: parse_order_response_def response_digest_def fields_are_def get_field_def venue_error_def
        as_text_def bounded_text_def bounded_text_ok_def insert_commute)
qed

theorem accepted_response_within_request_witness:
  "\<exists>b requested. map In_Decimal sample_sizes = map In_Decimal requested \<and> br_requires_reconciliation b
    \<and> \<not> br_protected_position_confirmed b
    \<and> (case br_whole_batch_error b of
         Some m \<Rightarrow> m \<noteq> [] \<and> br_legs b = [] \<and> \<not> entry_fully_filled b
       | None \<Rightarrow> br_outer_status b = ''ok'' \<and> legs_sound requested (br_legs b))"
  using sample_response_accepted accepted_response_within_request
  by (elim is_okE) blast

end
