(* ===== verification/Venue.thy ===== *)
theory Venue
  imports Wire Field_Checks
begin

text \<open>
  The data of \<open>hyperliquid_account.py\<close>: instruments and their metadata, margin summaries,
  positions, open orders with their children, the account snapshot with its canonical records, the
  digests that bind it, and the two judgements derived from it, the stop coverage of a position and
  the reconciliation of the account. Fields the module never checks when it restores a snapshot
  (the network, the source, the age, the margin table, the collateral token) hold any JSON value.
  The absolute size of a position, the sum of the covering stops and the deficit are computed in
  the caller's ambient decimal context, which is the parameter \<open>amb\<close>.
\<close>

section \<open>Fields\<close>

definition unix_epoch :: instant where "unix_epoch = 719162 * microsecond_day"
definition max_timestamp_ms :: int where "max_timestamp_ms = 253402300799999"

definition datetime_to_ms :: "instant \<Rightarrow> int result" where
  "datetime_to_ms t =
     (let ms = (t - unix_epoch) div 1000 in
      bindE (guard (0 \<le> ms \<and> ms \<le> max_timestamp_ms) ValidationError) (\<lambda>_. Inr ms))"

definition iso_ms :: "int \<Rightarrow> string" where
  "iso_ms ms = iso_millis (unix_epoch + ms * 1000)"

definition address_shaped :: "string \<Rightarrow> bool" where
  "address_shaped s = (length s = 42 \<and> take 2 s = ''0x'' \<and> list_all is_lower_hex (drop 2 s))"

definition symbol_shaped :: "string \<Rightarrow> bool" where
  "symbol_shaped s = token_shaped 63 s"

text \<open>
  \<open>canonical_decimal (x)\<close> as the value of a field, and a dictionary whose values are computed in
  the order it lists them.
\<close>

definition dec_val :: "decimal \<Rightarrow> pyval result" where
  "dec_val d = bindE (canonical_decimal d) (\<lambda>s. Inr (PStr s))"

definition opt_dec_val :: "decimal option \<Rightarrow> pyval result" where
  "opt_dec_val x = (case x of None \<Rightarrow> Inr PNone | Some d \<Rightarrow> dec_val d)"

definition build_record :: "string list \<Rightarrow> pyval result list \<Rightarrow> pyval result" where
  "build_record names vals = bindE (seqE vals) (\<lambda>vs. Inr (record_val names vs))"

section \<open>Enumerations\<close>

datatype account_mode = MODE_DEFAULT | MODE_DISABLED

fun account_mode_value :: "account_mode \<Rightarrow> string" where
  "account_mode_value MODE_DEFAULT = ''default''"
| "account_mode_value MODE_DISABLED = ''disabled''"

datatype holding_side = LONG_SIDE | SHORT_SIDE

fun position_side_value :: "holding_side \<Rightarrow> string" where
  "position_side_value LONG_SIDE = ''long''"
| "position_side_value SHORT_SIDE = ''short''"

datatype order_side = BUY_SIDE | SELL_SIDE

fun order_side_value :: "order_side \<Rightarrow> string" where
  "order_side_value BUY_SIDE = ''buy''"
| "order_side_value SELL_SIDE = ''sell''"

fun order_side_wire :: "order_side \<Rightarrow> string" where
  "order_side_wire BUY_SIDE = ''B''"
| "order_side_wire SELL_SIDE = ''A''"

datatype order_trigger = STOP_LOSS | TAKE_PROFIT | UNKNOWN_TRIGGER

fun order_trigger_value :: "order_trigger \<Rightarrow> string" where
  "order_trigger_value STOP_LOSS = ''stop_loss''"
| "order_trigger_value TAKE_PROFIT = ''take_profit''"
| "order_trigger_value UNKNOWN_TRIGGER = ''unknown''"

section \<open>Instruments\<close>

record perp_instrument =
  pi_symbol :: string
  pi_asset_id :: int
  pi_sz_decimals :: int
  pi_max_leverage :: decimal
  pi_margin_mode :: string
  pi_margin_table_id :: pyval
  pi_is_delisted :: bool
  pi_metadata_hash :: string

definition instrument_fields :: "string list" where
  "instrument_fields =
     [''symbol'', ''asset_id'', ''sz_decimals'', ''max_leverage'', ''margin_mode'', ''margin_table_id'',
      ''is_delisted'']"

definition instrument_values :: "perp_instrument \<Rightarrow> pyval result list" where
  "instrument_values i =
     [Inr (PStr (pi_symbol i)), Inr (PInt (pi_asset_id i)), Inr (PInt (pi_sz_decimals i)),
      dec_val (pi_max_leverage i), Inr (PStr (pi_margin_mode i)), Inr (pi_margin_table_id i),
      Inr (PBool (pi_is_delisted i))]"

definition instrument_record :: "perp_instrument \<Rightarrow> pyval result" where
  "instrument_record i =
     build_record (instrument_fields @ [''metadata_hash'']) (instrument_values i @ [Inr (PStr (pi_metadata_hash i))])"

definition to_wire_metadata :: "perp_instrument \<Rightarrow> perp_metadata result" where
  "to_wire_metadata i = make_metadata
     \<lparr> im_symbol = pi_symbol i, im_asset_id = pi_asset_id i, im_sz_decimals = pi_sz_decimals i,
       im_max_leverage = pi_max_leverage i, im_margin_mode = pi_margin_mode i,
       im_is_delisted = pi_is_delisted i, im_source_hash = pi_metadata_hash i \<rparr>"

record metadata_snapshot =
  ms_collateral_token :: pyval
  ms_instruments :: "perp_instrument list"
  ms_metadata_hash :: string

definition find_instrument :: "metadata_snapshot \<Rightarrow> string \<Rightarrow> perp_instrument result" where
  "find_instrument m symbol =
     bindE (guard (symbol_shaped symbol) ValidationError) (\<lambda>_.
     case filter (\<lambda>i. pi_symbol i = symbol) (ms_instruments m) of
       [i] \<Rightarrow> Inr i
     | _ \<Rightarrow> Inl ValidationError)"

definition metadata_record :: "metadata_snapshot \<Rightarrow> pyval result" where
  "metadata_record m =
     bindE (mapE instrument_record (ms_instruments m)) (\<lambda>records.
     Inr (record_val [''collateral_token'', ''instruments'', ''metadata_hash'']
       [ms_collateral_token m, PList records, PStr (ms_metadata_hash m)]))"

section \<open>Margin and positions\<close>

record margin_summary =
  mg_account_value :: decimal
  mg_total_notional_position :: decimal
  mg_total_raw_usd :: decimal
  mg_total_margin_used :: decimal

definition summary_record :: "margin_summary \<Rightarrow> pyval result" where
  "summary_record m =
     build_record [''account_value'', ''total_notional_position'', ''total_raw_usd'', ''total_margin_used'']
       [dec_val (mg_account_value m), dec_val (mg_total_notional_position m), dec_val (mg_total_raw_usd m),
        dec_val (mg_total_margin_used m)]"

record perp_position =
  po_symbol :: string
  po_asset_id :: int
  po_signed_size :: decimal
  po_entry_price :: "decimal option"
  po_position_value :: decimal
  po_unrealized_pnl :: decimal
  po_margin_used :: decimal
  po_liquidation_price :: "decimal option"
  po_leverage_type :: string
  po_leverage :: decimal
  po_leverage_raw_usd :: "decimal option"
  po_max_leverage :: decimal
  po_return_on_equity :: decimal
  po_funding_all_time :: decimal
  po_funding_since_open :: decimal
  po_funding_since_change :: decimal

definition position_side :: "perp_position \<Rightarrow> holding_side" where
  "position_side p = (if 0 < po_signed_size p then LONG_SIDE else SHORT_SIDE)"

definition absolute_size :: "dctx \<Rightarrow> perp_position \<Rightarrow> decimal result" where
  "absolute_size amb p = dabs amb (po_signed_size p)"

definition position_fields :: "string list" where
  "position_fields =
     [''symbol'', ''asset_id'', ''signed_size'', ''side'', ''entry_price'', ''position_value'',
      ''unrealized_pnl'', ''margin_used'', ''liquidation_price'', ''leverage_type'', ''leverage'',
      ''leverage_raw_usd'', ''max_leverage'', ''return_on_equity'', ''cumulative_funding'']"

definition position_record :: "perp_position \<Rightarrow> pyval result" where
  "position_record p =
     build_record position_fields
       [Inr (PStr (po_symbol p)), Inr (PInt (po_asset_id p)), dec_val (po_signed_size p),
        Inr (PStr (position_side_value (position_side p))), opt_dec_val (po_entry_price p),
        dec_val (po_position_value p), dec_val (po_unrealized_pnl p), dec_val (po_margin_used p),
        opt_dec_val (po_liquidation_price p), Inr (PStr (po_leverage_type p)), dec_val (po_leverage p),
        opt_dec_val (po_leverage_raw_usd p), dec_val (po_max_leverage p), dec_val (po_return_on_equity p),
        build_record [''all_time'', ''since_open'', ''since_change'']
          [dec_val (po_funding_all_time p), dec_val (po_funding_since_open p),
           dec_val (po_funding_since_change p)]]"

section \<open>Open orders\<close>

record order_fields =
  oo_symbol :: string
  oo_asset_id :: int
  oo_oid :: int
  oo_cloid :: "string option"
  oo_side :: order_side
  oo_remaining_size :: decimal
  oo_original_size :: decimal
  oo_limit_price :: decimal
  oo_order_type :: string
  oo_tif :: "string option"
  oo_timestamp_ms :: int
  oo_is_trigger :: bool
  oo_trigger_price :: decimal
  oo_trigger_condition :: string
  oo_trigger_kind :: "order_trigger option"
  oo_reduce_only :: bool
  oo_is_position_tpsl :: bool

datatype open_order = OpenOrder (order_body: order_fields) (order_children: "open_order list")

definition is_protective_stop :: "open_order \<Rightarrow> bool" where
  "is_protective_stop ord =
     (oo_is_trigger (order_body ord) \<and> oo_reduce_only (order_body ord) \<and> oo_trigger_kind (order_body ord) = Some STOP_LOSS)"

text \<open>The order before the orders below it, depth first.\<close>

fun walk :: "open_order \<Rightarrow> open_order list" where
  "walk (OpenOrder f cs) = OpenOrder f cs # concat (map walk cs)"

definition order_names :: "string list" where
  "order_names =
     [''symbol'', ''asset_id'', ''oid'', ''cloid'', ''side'', ''remaining_size'', ''original_size'',
      ''limit_price'', ''order_type'', ''tif'', ''timestamp_ms'', ''is_trigger'', ''trigger_price'',
      ''trigger_condition'', ''trigger_kind'', ''reduce_only'', ''is_position_tpsl'', ''children'']"

definition order_values :: "order_fields \<Rightarrow> pyval result list" where
  "order_values f =
     [Inr (PStr (oo_symbol f)), Inr (PInt (oo_asset_id f)), Inr (PInt (oo_oid f)),
      Inr (opt_val PStr (oo_cloid f)), Inr (PStr (order_side_value (oo_side f))),
      dec_val (oo_remaining_size f), dec_val (oo_original_size f), dec_val (oo_limit_price f),
      Inr (PStr (oo_order_type f)), Inr (opt_val PStr (oo_tif f)), Inr (PInt (oo_timestamp_ms f)),
      Inr (PBool (oo_is_trigger f)), dec_val (oo_trigger_price f), Inr (PStr (oo_trigger_condition f)),
      Inr (opt_val (\<lambda>k. PStr (order_trigger_value k)) (oo_trigger_kind f)), Inr (PBool (oo_reduce_only f)),
      Inr (PBool (oo_is_position_tpsl f))]"

fun order_record :: "open_order \<Rightarrow> pyval result" where
  "order_record (OpenOrder f cs) =
     build_record order_names
       (order_values f @ [bindE (seqE (map order_record cs)) (\<lambda>records. Inr (PList records))])"

section \<open>Snapshots\<close>

record venue_snapshot =
  as_network :: pyval
  as_source_url :: pyval
  as_main_account_address :: string
  as_account_mode :: account_mode
  as_server_time_ms :: int
  as_received_at_ms :: int
  as_age_ms :: pyval
  as_margin_summary :: margin_summary
  as_cross_margin_summary :: margin_summary
  as_cross_maintenance :: decimal
  as_withdrawable :: decimal
  as_positions :: "perp_position list"
  as_open_orders :: "open_order list"
  as_metadata :: metadata_snapshot
  as_snapshot_hash :: string

definition find_position :: "venue_snapshot \<Rightarrow> string \<Rightarrow> perp_position option result" where
  "find_position s symbol =
     bindE (guard (symbol_shaped symbol) ValidationError) (\<lambda>_.
     (let matches = filter (\<lambda>p. po_symbol p = symbol) (as_positions s) in
      bindE (guard (\<not> 1 < length matches) ValidationError) (\<lambda>_.
      Inr (case matches of [] \<Rightarrow> None | p # _ \<Rightarrow> Some p))))"

definition all_open_orders :: "venue_snapshot \<Rightarrow> open_order list" where
  "all_open_orders s = concat (map walk (as_open_orders s))"

definition account_schema_version :: string where
  "account_schema_version = ''hyperliquid.account_snapshot.v1''"

definition account_hash_domain :: string where
  "account_hash_domain = ''trading-harness/hyperliquid-account-snapshot/v1''"

definition metadata_hash_domain :: string where
  "metadata_hash_domain = ''trading-harness/hyperliquid-perp-metadata/v1''"

definition instrument_hash_domain :: string where
  "instrument_hash_domain = ''trading-harness/hyperliquid-perp-instrument/v1''"

definition snapshot_dict :: "venue_snapshot \<Rightarrow> pyval result" where
  "snapshot_dict s =
     build_record
       [''schema_version'', ''venue'', ''network'', ''source_url'', ''main_account_address'',
        ''account_mode'', ''server_time_ms'', ''server_time'', ''received_at_ms'', ''received_at'',
        ''age_ms'', ''margin_summary'', ''cross_margin_summary'', ''cross_maintenance_margin_used'',
        ''withdrawable'', ''positions'', ''open_orders'', ''metadata'', ''snapshot_hash_domain'',
        ''snapshot_hash'', ''read_only'']
       [Inr (PStr account_schema_version), Inr (PStr ''hyperliquid''), Inr (as_network s),
        Inr (as_source_url s), Inr (PStr (as_main_account_address s)),
        Inr (PStr (account_mode_value (as_account_mode s))), Inr (PInt (as_server_time_ms s)),
        Inr (PStr (iso_ms (as_server_time_ms s))), Inr (PInt (as_received_at_ms s)),
        Inr (PStr (iso_ms (as_received_at_ms s))), Inr (as_age_ms s),
        summary_record (as_margin_summary s), summary_record (as_cross_margin_summary s),
        dec_val (as_cross_maintenance s), dec_val (as_withdrawable s),
        bindE (mapE position_record (as_positions s)) (\<lambda>ps. Inr (PList ps)),
        bindE (mapE order_record (as_open_orders s)) (\<lambda>os. Inr (PList os)),
        metadata_record (as_metadata s), Inr (PStr account_hash_domain),
        Inr (PStr (as_snapshot_hash s)), Inr (PBool True)]"

section \<open>The digests of a snapshot\<close>

text \<open>The digest of the metadata, and of one of its instruments under that digest.\<close>

definition metadata_digest :: "pyval \<Rightarrow> pyval list \<Rightarrow> string result" where
  "metadata_digest collateral records =
     domain_hash metadata_hash_domain
       (record_val [''collateral_token'', ''instruments''] [collateral, PList records])"

definition instrument_digest :: "perp_instrument \<Rightarrow> string \<Rightarrow> string result" where
  "instrument_digest i meta_hash =
     bindE (build_record (instrument_fields @ [''metadata_snapshot_hash'']) (instrument_values i @ [Inr (PStr meta_hash)]))
       (domain_hash instrument_hash_domain)"

definition material_fields :: "string list" where
  "material_fields =
     [''schema_version'', ''venue'', ''network'', ''main_account_address'', ''account_mode'',
      ''server_time_ms'', ''margin_summary'', ''cross_margin_summary'',
      ''cross_maintenance_margin_used'', ''withdrawable'', ''positions'', ''open_orders'',
      ''metadata_hash'']"

definition snapshot_material :: "venue_snapshot \<Rightarrow> string \<Rightarrow> pyval result" where
  "snapshot_material s metadata_hash =
     build_record material_fields
       [Inr (PStr account_schema_version), Inr (PStr ''hyperliquid''), Inr (as_network s),
        Inr (PStr (as_main_account_address s)), Inr (PStr (account_mode_value (as_account_mode s))),
        Inr (PInt (as_server_time_ms s)), summary_record (as_margin_summary s),
        summary_record (as_cross_margin_summary s), dec_val (as_cross_maintenance s),
        dec_val (as_withdrawable s),
        bindE (mapE position_record (as_positions s)) (\<lambda>ps. Inr (PList ps)),
        bindE (mapE order_record (as_open_orders s)) (\<lambda>os. Inr (PList os)),
        Inr (PStr metadata_hash)]"

definition check_instruments :: "string \<Rightarrow> perp_instrument list \<Rightarrow> unit list result" where
  "check_instruments meta_hash instruments =
     mapE (\<lambda>i. bindE (instrument_digest i meta_hash) (\<lambda>h. guard (pi_metadata_hash i = h) ValidationError)) instruments"

definition verify_integrity :: "venue_snapshot \<Rightarrow> unit result" where
  "verify_integrity s =
     bindE (mapE (\<lambda>i. build_record instrument_fields (instrument_values i)) (ms_instruments (as_metadata s))) (\<lambda>records.
     bindE (metadata_digest (ms_collateral_token (as_metadata s)) records) (\<lambda>meta_hash.
     bindE (guard (meta_hash = ms_metadata_hash (as_metadata s)) ValidationError) (\<lambda>_.
     bindE (check_instruments meta_hash (ms_instruments (as_metadata s))) (\<lambda>_.
     bindE (snapshot_material s meta_hash) (\<lambda>material.
     bindE (domain_hash account_hash_domain material) (\<lambda>h.
     guard (h = as_snapshot_hash s) ValidationError))))))"

section \<open>Stop coverage\<close>

record coverage_report =
  pc_symbol :: string
  pc_position_side :: "holding_side option"
  pc_required_size :: decimal
  pc_covered_size :: decimal
  pc_deficit_size :: decimal
  pc_qualifying_oids :: "int list"
  pc_qualifying_cloids :: "string list"
  pc_fully_protected :: bool
  pc_reason :: string

definition coverage_dict :: "coverage_report \<Rightarrow> pyval result" where
  "coverage_dict c =
     build_record
       [''symbol'', ''position_side'', ''required_size'', ''covered_size'', ''deficit_size'',
        ''qualifying_oids'', ''qualifying_cloids'', ''fully_protected'', ''reason'']
       [Inr (PStr (pc_symbol c)), Inr (opt_val (\<lambda>k. PStr (position_side_value k)) (pc_position_side c)),
        dec_val (pc_required_size c), dec_val (pc_covered_size c), dec_val (pc_deficit_size c),
        Inr (PList (map PInt (pc_qualifying_oids c))), Inr (PList (map PStr (pc_qualifying_cloids c))),
        Inr (PBool (pc_fully_protected c)), Inr (PStr (pc_reason c))]"

definition input_cloids :: "string list \<Rightarrow> string list result" where
  "input_cloids cloids = bindE (guard (list_all cloid_shaped cloids) ValidationError) (\<lambda>_. Inr cloids)"

definition input_symbols :: "string list \<Rightarrow> string list result" where
  "input_symbols symbols = bindE (guard (list_all symbol_shaped symbols) ValidationError) (\<lambda>_. Inr symbols)"

definition closing_side :: "perp_position \<Rightarrow> order_side" where
  "closing_side p = (case position_side p of LONG_SIDE \<Rightarrow> SELL_SIDE | SHORT_SIDE \<Rightarrow> BUY_SIDE)"

definition qualifying_stops :: "venue_snapshot \<Rightarrow> string list \<Rightarrow> perp_position \<Rightarrow> open_order list" where
  "qualifying_stops s expected p =
     filter (\<lambda>ord. oo_symbol (order_body ord) = po_symbol p
         \<and> (case oo_cloid (order_body ord) of None \<Rightarrow> False | Some c \<Rightarrow> c \<in> set expected)
         \<and> oo_side (order_body ord) = closing_side p \<and> is_protective_stop ord) (as_open_orders s)"

text \<open>A position TP/SL order of size zero stands for the whole position.\<close>

definition stop_size :: "dctx \<Rightarrow> perp_position \<Rightarrow> open_order \<Rightarrow> decimal result" where
  "stop_size amb p ord =
     (if oo_is_position_tpsl (order_body ord) \<and> deq (oo_remaining_size (order_body ord)) 0
         \<and> deq (oo_original_size (order_body ord)) 0
      then absolute_size amb p else Inr (oo_remaining_size (order_body ord)))"

definition covered_size :: "dctx \<Rightarrow> perp_position \<Rightarrow> open_order list \<Rightarrow> decimal result" where
  "covered_size amb p stops =
     foldE (\<lambda>acc ord. bindE (stop_size amb p ord) (dadd amb acc)) 0 stops"

definition protection_coverage ::
    "dctx \<Rightarrow> venue_snapshot \<Rightarrow> string \<Rightarrow> string list \<Rightarrow> coverage_report result" where
  "protection_coverage amb s symbol expected_stop_cloids =
     bindE (guard (symbol_shaped symbol) ValidationError) (\<lambda>_.
     bindE (input_cloids expected_stop_cloids) (\<lambda>expected.
     bindE (find_position s symbol) (\<lambda>found.
     case found of
       None \<Rightarrow> Inr
         \<lparr> pc_symbol = symbol, pc_position_side = None, pc_required_size = 0, pc_covered_size = 0,
           pc_deficit_size = 0, pc_qualifying_oids = [], pc_qualifying_cloids = [],
           pc_fully_protected = True, pc_reason = ''no_open_position'' \<rparr>
     | Some p \<Rightarrow>
         (let stops = qualifying_stops s expected p in
          bindE (covered_size amb p stops) (\<lambda>covered.
          bindE (absolute_size amb p) (\<lambda>required.
          bindE (dsub amb required covered) (\<lambda>difference.
          (let deficit = dmax difference 0 in
           Inr \<lparr> pc_symbol = symbol, pc_position_side = Some (position_side p),
             pc_required_size = required, pc_covered_size = covered, pc_deficit_size = deficit,
             pc_qualifying_oids = map (\<lambda>ord. oo_oid (order_body ord)) stops,
             pc_qualifying_cloids = concat (map (\<lambda>ord. case oo_cloid (order_body ord) of None \<Rightarrow> [] | Some c \<Rightarrow> [c]) stops),
             pc_fully_protected = deq deficit 0,
             pc_reason = (if deq deficit 0 then ''venue_stop_covers_position'' else ''stop_coverage_deficit'') \<rparr>))))))))"

section \<open>Reconciliation\<close>

record account_reconciliation =
  ar_foreign_order_oids :: "int list"
  ar_foreign_position_symbols :: "string list"
  ar_orphan_protection_oids :: "int list"
  ar_protection :: "coverage_report list"
  ar_halt_required :: bool

definition reconciliation_dict :: "account_reconciliation \<Rightarrow> pyval result" where
  "reconciliation_dict r =
     bindE (mapE coverage_dict (ar_protection r)) (\<lambda>protection.
     Inr (record_val
       [''foreign_order_oids'', ''foreign_position_symbols'', ''orphan_protection_oids'', ''protection'',
        ''halt_required'']
       [PList (map PInt (ar_foreign_order_oids r)), PList (map PStr (ar_foreign_position_symbols r)),
        PList (map PInt (ar_orphan_protection_oids r)), PList protection, PBool (ar_halt_required r)]))"

definition owned_order :: "string list \<Rightarrow> open_order \<Rightarrow> bool" where
  "owned_order owned ord = (case oo_cloid (order_body ord) of None \<Rightarrow> False | Some c \<Rightarrow> c \<in> set owned)"

definition stop_entry :: "string list \<Rightarrow> string \<times> string list \<Rightarrow> (string \<times> string list) result" where
  "stop_entry owned entry =
     bindE (guard (symbol_shaped (fst entry)) ValidationError) (\<lambda>_.
     bindE (input_cloids (snd entry)) (\<lambda>cloids.
     bindE (guard (set cloids \<subseteq> set owned) ValidationError) (\<lambda>_. Inr (fst entry, cloids))))"

definition stops_for :: "(string \<times> string list) list \<Rightarrow> string \<Rightarrow> string list" where
  "stops_for stop_map symbol = (case map_of stop_map symbol of None \<Rightarrow> [] | Some cs \<Rightarrow> cs)"

definition reconcile ::
    "dctx \<Rightarrow> venue_snapshot \<Rightarrow> string list \<Rightarrow> string list \<Rightarrow> (string \<times> string list) list
     \<Rightarrow> account_reconciliation result" where
  "reconcile amb s owned_cloids allowed_symbols expected_stops =
     bindE (input_cloids owned_cloids) (\<lambda>owned.
     bindE (input_symbols allowed_symbols) (\<lambda>allowed.
     bindE (mapE (stop_entry owned) expected_stops) (\<lambda>stop_map.
     (let foreign_orders = sort (map (\<lambda>ord. oo_oid (order_body ord))
            (filter (\<lambda>ord. \<not> owned_order owned ord) (all_open_orders s)));
          foreign_positions = sort (map po_symbol (filter (\<lambda>p. po_symbol p \<notin> set allowed) (as_positions s))) in
      bindE (mapE (\<lambda>p. protection_coverage amb s (po_symbol p) (stops_for stop_map (po_symbol p)))
         (filter (\<lambda>p. po_symbol p \<in> set allowed) (as_positions s))) (\<lambda>coverage.
      (let orphans = sort (map (\<lambda>ord. oo_oid (order_body ord))
             (filter (\<lambda>ord. owned_order owned ord \<and> oo_is_trigger (order_body ord) \<and> oo_reduce_only (order_body ord)
                 \<and> oo_symbol (order_body ord) \<notin> po_symbol ` set (as_positions s)) (as_open_orders s))) in
       Inr \<lparr> ar_foreign_order_oids = foreign_orders, ar_foreign_position_symbols = foreign_positions,
         ar_orphan_protection_oids = orphans, ar_protection = coverage,
         ar_halt_required = (foreign_orders \<noteq> [] \<or> foreign_positions \<noteq> [] \<or> orphans \<noteq> []
           \<or> list_ex (\<lambda>c. \<not> pc_fully_protected c) coverage) \<rparr>))))))"

end
