(* ===== verification/Venue_Properties.thy ===== *)
theory Venue_Properties
  imports Venue Daily_Loss_Invariant
begin

text \<open>
  What the two judgements on an account snapshot mean: a position counts as protected when the
  stops that qualify cover its exact size, for sizes on the venue's grid; and an account that needs
  no halt holds nothing foreign and no position without its own stop. The digests of a verified
  snapshot bind its contents.
\<close>

section \<open>Exact arithmetic on venue sizes\<close>

text \<open>A size in units of at least \<open>10 ^ (- 8)\<close>, the finest lot of the venue.\<close>

definition on_grid :: "decimal \<Rightarrow> bool" where
  "on_grid d = (- 8 \<le> expo d \<and> expo d \<le> 48)"

lemma grid_representable:
  assumes "on_grid d" "\<bar>dval d\<bar> < 10 ^ 20"
  shows "representable default_context d"
proof (cases "coeff d = 0")
  case True
  with assms(1) show ?thesis
    by (simp add: representable_def default_context_def etiny_def on_grid_def)
next
  case False
  have "of_int \<bar>coeff d\<bar> = \<bar>dval d\<bar> * 10 powi (- expo d)"
    by (simp add: dval_def abs_mult power_int_minus)
  also have "\<dots> < 10 ^ 20 * 10 powi (- expo d)"
    using assms(2) by (intro mult_strict_right_mono) simp_all
  also have "\<dots> \<le> 10 ^ 20 * 10 powi 8"
    using assms(1) by (intro mult_left_mono power_int_increasing) (simp_all add: on_grid_def)
  finally have "(of_int \<bar>coeff d\<bar> :: rat) < of_int (10 ^ 28)" by (simp add: power_int_def)
  then have "\<bar>coeff d\<bar> < 10 ^ 28" by (simp only: of_int_less_iff)
  then have "ndigits \<bar>coeff d\<bar> \<le> 28" by (subst ndigits_le_iff) simp_all
  with False assms(1) show ?thesis
    by (simp add: representable_def default_context_def etiny_def etop_def on_grid_def)
qed

lemma exact_add_on_grid: "on_grid a \<Longrightarrow> on_grid b \<Longrightarrow> on_grid (exact_add a b)"
  by (simp add: on_grid_def exact_add_def Let_def min_def)

lemma dadd_grid:
  "on_grid a \<Longrightarrow> on_grid b \<Longrightarrow> \<bar>dval a + dval b\<bar> < 10 ^ 20 \<Longrightarrow> dadd default_context a b = Inr (exact_add a b)"
  unfolding dadd_def
  by (rule default_ctx.dfix_representable, rule grid_representable) (simp_all add: exact_add_on_grid)

lemma on_grid_neg [simp]: "on_grid (exact_neg b) \<longleftrightarrow> on_grid b"
  by (simp add: on_grid_def exact_neg_def)

lemma dsub_grid:
  "on_grid a \<Longrightarrow> on_grid b \<Longrightarrow> \<bar>dval a - dval b\<bar> < 10 ^ 20 \<Longrightarrow>
   dsub default_context a b = Inr (exact_add a (exact_neg b))"
  unfolding dsub_def
  by (rule default_ctx.dfix_representable, rule grid_representable)
    (simp_all add: exact_add_on_grid)

lemma dabs_grid:
  assumes "on_grid a" "\<bar>dval a\<bar> < 10 ^ 20"
  shows "dabs default_context a = Inr (Dec \<bar>coeff a\<bar> (expo a))" "dval (Dec \<bar>coeff a\<bar> (expo a)) = \<bar>dval a\<bar>"
proof -
  show v: "dval (Dec \<bar>coeff a\<bar> (expo a)) = \<bar>dval a\<bar>" by (simp add: dval_def abs_mult)
  show "dabs default_context a = Inr (Dec \<bar>coeff a\<bar> (expo a))"
    unfolding dabs_def using assms v
    by (intro default_ctx.dfix_representable grid_representable) (simp_all add: on_grid_def)
qed

section \<open>Stop coverage\<close>

text \<open>The exact size a stop covers, and that of all the stops that qualify.\<close>

definition covers_all :: "open_order \<Rightarrow> bool" where
  "covers_all ord = (oo_is_position_tpsl (order_body ord) \<and> dval (oo_remaining_size (order_body ord)) = 0
     \<and> dval (oo_original_size (order_body ord)) = 0)"

definition stop_value :: "perp_position \<Rightarrow> open_order \<Rightarrow> rat" where
  "stop_value p ord =
     (if covers_all ord then \<bar>dval (po_signed_size p)\<bar> else dval (oo_remaining_size (order_body ord)))"

definition cover_value :: "perp_position \<Rightarrow> open_order list \<Rightarrow> rat" where
  "cover_value p stops = sum_list (map (stop_value p) stops)"

text \<open>A stop that may be counted for a position.\<close>

definition stop_qualifies :: "string list \<Rightarrow> perp_position \<Rightarrow> open_order \<Rightarrow> bool" where
  "stop_qualifies expected p ord =
     (oo_symbol (order_body ord) = po_symbol p
      \<and> (\<exists>c \<in> set expected. oo_cloid (order_body ord) = Some c)
      \<and> oo_side (order_body ord) = (if 0 < dval (po_signed_size p) then SELL_SIDE else BUY_SIDE)
      \<and> oo_is_trigger (order_body ord) \<and> oo_reduce_only (order_body ord)
      \<and> oo_trigger_kind (order_body ord) = Some STOP_LOSS)"

text \<open>Sizes on the venue's grid whose total stays below \<open>10 ^ 20\<close>.\<close>

definition sizes_ok :: "perp_position \<Rightarrow> open_order list \<Rightarrow> bool" where
  "sizes_ok p orders =
     (on_grid (po_signed_size p)
      \<and> (\<forall>ord \<in> set orders. on_grid (oo_remaining_size (order_body ord))
           \<and> 0 \<le> dval (oo_remaining_size (order_body ord)))
      \<and> \<bar>dval (po_signed_size p)\<bar> + cover_value p orders < 10 ^ 20)"

lemma qualifying_stops_eq: "qualifying_stops s expected p = filter (stop_qualifies expected p) (as_open_orders s)"
  unfolding qualifying_stops_def
  by (rule filter_cong)
    (auto simp: stop_qualifies_def is_protective_stop_def closing_side_def position_side_def dval_simps
      split: option.splits)

lemma stop_value_nonneg: "sizes_ok p orders \<Longrightarrow> ord \<in> set orders \<Longrightarrow> 0 \<le> stop_value p ord"
  by (simp add: sizes_ok_def stop_value_def)

lemma cover_value_nonneg: "(\<And>ord. ord \<in> set stops \<Longrightarrow> 0 \<le> stop_value p ord) \<Longrightarrow> 0 \<le> cover_value p stops"
  unfolding cover_value_def by (rule sum_list_nonneg) auto

lemma stop_size_grid:
  assumes "on_grid (po_signed_size p)" "\<bar>dval (po_signed_size p)\<bar> < 10 ^ 20"
    and "on_grid (oo_remaining_size (order_body ord))"
  shows "\<exists>d. stop_size default_context p ord = Inr d \<and> on_grid d \<and> dval d = stop_value p ord"
  using assms dabs_grid [OF assms(1,2)]
  by (auto simp: stop_size_def stop_value_def covers_all_def absolute_size_def dval_simps on_grid_def)

lemma covered_from:
  assumes "on_grid (po_signed_size p)" "\<bar>dval (po_signed_size p)\<bar> < 10 ^ 20"
    and "\<forall>ord \<in> set stops. on_grid (oo_remaining_size (order_body ord)) \<and> 0 \<le> stop_value p ord"
    and "on_grid acc" "0 \<le> dval acc" "dval acc + cover_value p stops < 10 ^ 20"
  shows "\<exists>d. foldE (\<lambda>acc ord. bindE (stop_size default_context p ord) (dadd default_context acc)) acc stops = Inr d
    \<and> on_grid d \<and> dval d = dval acc + cover_value p stops"
  using assms(3-6)
proof (induction stops arbitrary: acc)
  case (Cons ord stops)
  from Cons.prems(1) obtain d where d: "stop_size default_context p ord = Inr d" "on_grid d"
      "dval d = stop_value p ord" using stop_size_grid [OF assms(1,2), of ord] by auto
  have nonneg: "0 \<le> stop_value p ord" "0 \<le> cover_value p stops"
    using Cons.prems(1) by (auto intro: cover_value_nonneg)
  have total: "dval acc + (stop_value p ord + cover_value p stops) < 10 ^ 20"
    using Cons.prems(4) by (simp add: cover_value_def)
  then have "\<bar>dval acc + dval d\<bar> < 10 ^ 20" using nonneg d(3) Cons.prems(3) by linarith
  then have add: "dadd default_context acc d = Inr (exact_add acc d)" using dadd_grid Cons.prems(2) d(2) by blast
  obtain r where "foldE (\<lambda>acc ord. bindE (stop_size default_context p ord) (dadd default_context acc))
      (exact_add acc d) stops = Inr r" "on_grid r" "dval r = dval (exact_add acc d) + cover_value p stops"
    using Cons.IH [of "exact_add acc d"] Cons.prems nonneg d total exact_add_on_grid by (force simp: add.assoc)
  then show ?case using d add by (simp add: cover_value_def)
qed (simp add: cover_value_def)

lemma covered_size_exact:
  assumes "sizes_ok p stops"
  shows "\<exists>d. covered_size default_context p stops = Inr d \<and> on_grid d \<and> dval d = cover_value p stops"
proof -
  have nonneg: "0 \<le> cover_value p stops"
    using stop_value_nonneg [OF assms] by (intro cover_value_nonneg)
  have "on_grid (0 :: decimal)" by (simp add: on_grid_def zero_decimal_def)
  then show ?thesis
    using covered_from [of p stops 0] assms stop_value_nonneg [OF assms] nonneg
    unfolding covered_size_def sizes_ok_def by fastforce
qed

text \<open>C34: For sizes on the venue's grid of at least \<open>10 ^ (- 8)\<close> and below \<open>10 ^ 20\<close>, the coverage
  of an open position is always answered, in the standard 28-digit context: the position is reported
  as fully protected exactly when the stops that qualify cover its exact absolute size. A stop
  qualifies only as an open reduce-only stop-loss trigger of the same symbol on the closing side
  with one of the expected identifiers.
\<close>

theorem coverage_is_exact:
  assumes "find_position s symbol = Inr (Some p)" and "sizes_ok p (filter (stop_qualifies expected p) (as_open_orders s))"
    and "list_all cloid_shaped expected"
  shows "\<exists>c. protection_coverage default_context s symbol expected = Inr c
    \<and> pc_position_side c = Some (position_side p)
    \<and> (pc_fully_protected c \<longleftrightarrow>
         \<bar>dval (po_signed_size p)\<bar> \<le> cover_value p (filter (stop_qualifies expected p) (as_open_orders s)))
    \<and> pc_qualifying_oids c
        = map (\<lambda>ord. oo_oid (order_body ord)) (filter (stop_qualifies expected p) (as_open_orders s))"
proof -
  let ?stops = "filter (stop_qualifies expected p) (as_open_orders s)"
  note ok = assms(2)
  obtain d where d: "covered_size default_context p ?stops = Inr d" "on_grid d" "dval d = cover_value p ?stops"
    using covered_size_exact [OF ok] by blast
  have small: "on_grid (po_signed_size p)" "0 \<le> cover_value p ?stops"
      "\<bar>dval (po_signed_size p)\<bar> + cover_value p ?stops < 10 ^ 20"
    using ok stop_value_nonneg [OF ok] by (auto simp: sizes_ok_def intro: cover_value_nonneg)
  then have abs: "absolute_size default_context p = Inr (Dec \<bar>coeff (po_signed_size p)\<bar> (expo (po_signed_size p)))"
      "dval (Dec \<bar>coeff (po_signed_size p)\<bar> (expo (po_signed_size p))) = \<bar>dval (po_signed_size p)\<bar>"
    using dabs_grid [of "po_signed_size p"] by (auto simp: absolute_size_def)
  let ?a = "Dec \<bar>coeff (po_signed_size p)\<bar> (expo (po_signed_size p))"
  have "on_grid ?a" using small(1) by (simp add: on_grid_def)
  moreover have "\<bar>dval ?a - dval d\<bar> < 10 ^ 20" using small(2,3) d(3) abs(2) by linarith
  ultimately have sub: "dsub default_context ?a d = Inr (exact_add ?a (exact_neg d))" using dsub_grid d(2) by blast
  have deficit: "deq (dmax (exact_add ?a (exact_neg d)) 0) 0 \<longleftrightarrow> \<bar>dval (po_signed_size p)\<bar> \<le> cover_value p ?stops"
    using abs(2) d(3) by (auto simp: dval_simps max_def)
  have "symbol_shaped symbol" using assms(1) by (auto simp: find_position_def)
  then show ?thesis
    using assms(1,3) d(1) abs(1) sub deficit
    by (simp add: protection_coverage_def input_cloids_def qualifying_stops_eq Let_def)
qed

section \<open>Reconciliation\<close>

lemma input_cloids_Inr_iff [simp]: "input_cloids cs = Inr ds \<longleftrightarrow> list_all cloid_shaped cs \<and> ds = cs"
  by (auto simp: input_cloids_def)

lemma input_symbols_Inr_iff [simp]: "input_symbols cs = Inr ds \<longleftrightarrow> list_all symbol_shaped cs \<and> ds = cs"
  by (auto simp: input_symbols_def)

lemma sorted_list_Nil: "sort xs = [] \<longleftrightarrow> xs = []" for xs :: "'a :: linorder list"
  by (metis length_0_conv length_sort)

lemma mapE_member: "mapE f xs = Inr ys \<Longrightarrow> x \<in> set xs \<Longrightarrow> \<exists>y \<in> set ys. f x = Inr y"
  by (induction xs arbitrary: ys) auto

lemma stop_entries: "mapE (stop_entry owned) entries = Inr stop_map \<Longrightarrow>
   stop_map = entries \<and> (\<forall>entry \<in> set entries. set (snd entry) \<subseteq> set owned)"
  by (induction entries arbitrary: stop_map) (auto simp: stop_entry_def)

lemma stops_for_owned:
  "\<forall>entry \<in> set entries. set (snd entry) \<subseteq> set owned \<Longrightarrow> set (stops_for entries symbol) \<subseteq> set owned"
  by (cases "map_of entries symbol") (auto simp: stops_for_def dest!: map_of_SomeD, force)

text \<open>C33: A reconciliation that requires no halt means that the account holds nothing unexplained: every
  open order, at any depth of its tree, carries an owned identifier; every position is in an allowed
  symbol and is reported as fully protected by stops that are themselves owned; and every top-level
  reduce-only trigger order is for a symbol that has a position. The last part is about the top level
  of the order list only, as in the code: a reduce-only trigger that is a child of another open order
  needs no position.
\<close>

theorem quiet_account_is_explained:
  assumes "reconcile amb s owned allowed expected = Inr r" and "\<not> ar_halt_required r"
  shows "(\<forall>ord \<in> set (all_open_orders s). \<exists>c \<in> set owned. oo_cloid (order_body ord) = Some c)
    \<and> (\<forall>p \<in> set (as_positions s). po_symbol p \<in> set allowed
         \<and> set (stops_for expected (po_symbol p)) \<subseteq> set owned
         \<and> (\<exists>c \<in> set (ar_protection r).
               protection_coverage amb s (po_symbol p) (stops_for expected (po_symbol p)) = Inr c
               \<and> pc_fully_protected c))
    \<and> (\<forall>ord \<in> set (as_open_orders s). oo_is_trigger (order_body ord) \<and> oo_reduce_only (order_body ord)
         \<longrightarrow> (\<exists>p \<in> set (as_positions s). po_symbol p = oo_symbol (order_body ord)))"
proof -
  from assms(1) obtain stop_map coverage where
    sm: "mapE (stop_entry owned) expected = Inr stop_map" and
    cov: "mapE (\<lambda>p. protection_coverage amb s (po_symbol p) (stops_for stop_map (po_symbol p)))
       (filter (\<lambda>p. po_symbol p \<in> set allowed) (as_positions s)) = Inr coverage" and
    r: "ar_protection r = coverage" "ar_halt_required r \<longleftrightarrow>
        filter (\<lambda>ord. \<not> owned_order owned ord) (all_open_orders s) \<noteq> []
        \<or> filter (\<lambda>p. po_symbol p \<notin> set allowed) (as_positions s) \<noteq> []
        \<or> filter (\<lambda>ord. owned_order owned ord \<and> oo_is_trigger (order_body ord) \<and> oo_reduce_only (order_body ord)
             \<and> oo_symbol (order_body ord) \<notin> po_symbol ` set (as_positions s)) (as_open_orders s) \<noteq> []
        \<or> list_ex (\<lambda>c. \<not> pc_fully_protected c) coverage"
    by (auto simp: reconcile_def Let_def sorted_list_Nil simp del: filter_empty_conv)
  note sm' = stop_entries [OF sm]
  have owned: "\<forall>ord \<in> set (all_open_orders s). owned_order owned ord"
    and allowed: "\<forall>p \<in> set (as_positions s). po_symbol p \<in> set allowed"
    and placed: "\<forall>ord \<in> set (as_open_orders s). owned_order owned ord \<and> oo_is_trigger (order_body ord)
        \<and> oo_reduce_only (order_body ord) \<longrightarrow> oo_symbol (order_body ord) \<in> po_symbol ` set (as_positions s)"
    and full: "\<forall>c \<in> set coverage. pc_fully_protected c"
    using assms(2) r(2) by (auto simp: filter_empty_conv list_ex_iff)
  have top: "ord \<in> set (all_open_orders s)" if "ord \<in> set (as_open_orders s)" for ord
  proof -
    have "ord \<in> set (walk ord)" by (cases ord) simp
    with that show ?thesis by (auto simp: all_open_orders_def)
  qed
  show ?thesis
  proof (intro conjI ballI impI)
    fix ord assume "ord \<in> set (all_open_orders s)"
    with owned show "\<exists>c \<in> set owned. oo_cloid (order_body ord) = Some c"
      by (auto simp: owned_order_def split: option.splits)
  next
    fix p assume p: "p \<in> set (as_positions s)"
    with allowed show "po_symbol p \<in> set allowed" by blast
    show "set (stops_for expected (po_symbol p)) \<subseteq> set owned" using sm' stops_for_owned by blast
    from p allowed have "p \<in> set (filter (\<lambda>p. po_symbol p \<in> set allowed) (as_positions s))" by simp
    from mapE_member [OF cov this] full sm' r(1)
    show "\<exists>c \<in> set (ar_protection r).
        protection_coverage amb s (po_symbol p) (stops_for expected (po_symbol p)) = Inr c \<and> pc_fully_protected c"
      by auto
  next
    fix ord assume "ord \<in> set (as_open_orders s)"
      "oo_is_trigger (order_body ord) \<and> oo_reduce_only (order_body ord)"
    with placed owned top show "\<exists>p \<in> set (as_positions s). po_symbol p = oo_symbol (order_body ord)"
      by fastforce
  qed
qed

section \<open>Digests\<close>

text \<open>The message behind a verified snapshot digest.\<close>

definition snapshot_message :: "venue_snapshot \<Rightarrow> 8 word list result" where
  "snapshot_message s =
     bindE (snapshot_material s (ms_metadata_hash (as_metadata s))) (hash_material account_hash_domain)"

lemma verify_integrity_material:
  assumes "verify_integrity s = Inr ()"
  obtains m w where "snapshot_material s (ms_metadata_hash (as_metadata s)) = Inr m"
    "domain_hash account_hash_domain m = Inr (as_snapshot_hash s)" "snapshot_message s = Inr w"
    "hash_material account_hash_domain m = Inr w"
proof -
  from assms obtain m where m: "snapshot_material s (ms_metadata_hash (as_metadata s)) = Inr m"
      "domain_hash account_hash_domain m = Inr (as_snapshot_hash s)"
    by (auto simp: verify_integrity_def)
  then obtain w where "hash_material account_hash_domain m = Inr w"
    by (auto simp: domain_hash_def hash_material_def)
  with m that show ?thesis by (auto simp: snapshot_message_def)
qed

lemma material_header:
  assumes "snapshot_material s h = Inr m"
  shows "\<exists>a b c d e f. m = record_val material_fields
       [PStr account_schema_version, PStr ''hyperliquid'', as_network s, PStr (as_main_account_address s),
        PStr (account_mode_value (as_account_mode s)), PInt (as_server_time_ms s), a, b, c, d, e, f, PStr h]"
proof -
  from assms obtain a b c d ps ords where "m = record_val material_fields
       [PStr account_schema_version, PStr ''hyperliquid'', as_network s, PStr (as_main_account_address s),
        PStr (account_mode_value (as_account_mode s)), PInt (as_server_time_ms s), a, b, c, d, PList ps, PList ords,
        PStr h]"
    unfolding snapshot_material_def build_record_def by auto
  then show ?thesis by (intro exI)
qed

lemma material_binds:
  assumes "snapshot_material s h = Inr m" "snapshot_material t k = Inr n"
    and "canonical_json m = Inr x" "canonical_json n = Inr x"
  shows "as_main_account_address s = as_main_account_address t \<and> as_account_mode s = as_account_mode t
    \<and> as_server_time_ms s = as_server_time_ms t \<and> h = k"
proof -
  obtain a b c d e f where m: "m = record_val material_fields
       [PStr account_schema_version, PStr ''hyperliquid'', as_network s, PStr (as_main_account_address s),
        PStr (account_mode_value (as_account_mode s)), PInt (as_server_time_ms s), a, b, c, d, e, f, PStr h]"
    using material_header [OF assms(1)] by blast
  obtain a' b' c' d' e' f' where n: "n = record_val material_fields
       [PStr account_schema_version, PStr ''hyperliquid'', as_network t, PStr (as_main_account_address t),
        PStr (account_mode_value (as_account_mode t)), PInt (as_server_time_ms t), a', b', c', d', e', f', PStr k]"
    using material_header [OF assms(2)] by blast
  have "distinct material_fields" by code_simp
  from record_val_binds [OF assms(3) [unfolded m] assms(4) [unfolded n] this]
  have "account_mode_value (as_account_mode s) = account_mode_value (as_account_mode t)
      \<and> as_main_account_address s = as_main_account_address t \<and> as_server_time_ms s = as_server_time_ms t \<and> h = k"
    by (auto simp: material_fields_def)
  then show ?thesis by (cases "as_account_mode s"; cases "as_account_mode t") auto
qed

text \<open>The digest of a snapshot binds what it says: when two snapshots verify and carry one digest,
  they are of the same account, mode, time and metadata and have the same canonical record of
  margin, positions and open orders, or their messages are a SHA-256 collision.
\<close>

theorem snapshot_hash_binds:
  assumes "verify_integrity s = Inr ()" "verify_integrity t = Inr ()"
    and "as_snapshot_hash s = as_snapshot_hash t"
  shows "\<exists>m n v w. snapshot_material s (ms_metadata_hash (as_metadata s)) = Inr m
    \<and> snapshot_material t (ms_metadata_hash (as_metadata t)) = Inr n
    \<and> snapshot_message s = Inr v \<and> snapshot_message t = Inr w
    \<and> (hash_collision v w
       \<or> canonical_json m = canonical_json n
         \<and> as_main_account_address s = as_main_account_address t
         \<and> as_account_mode s = as_account_mode t \<and> as_server_time_ms s = as_server_time_ms t
         \<and> ms_metadata_hash (as_metadata s) = ms_metadata_hash (as_metadata t))"
proof -
  obtain m v where m: "snapshot_material s (ms_metadata_hash (as_metadata s)) = Inr m"
    "domain_hash account_hash_domain m = Inr (as_snapshot_hash s)" "snapshot_message s = Inr v"
    "hash_material account_hash_domain m = Inr v"
    using verify_integrity_material [OF assms(1)] .
  obtain n w where n: "snapshot_material t (ms_metadata_hash (as_metadata t)) = Inr n"
    "domain_hash account_hash_domain n = Inr (as_snapshot_hash t)" "snapshot_message t = Inr w"
    "hash_material account_hash_domain n = Inr w"
    using verify_integrity_material [OF assms(2)] .
  have alt: "hash_collision v w \<or> canonical_json m = canonical_json n"
    using domain_hash_binds [OF m(2) n(2) [folded assms(3)] m(4) n(4)] by blast
  obtain x where x: "canonical_json m = Inr x"
    using m(4) by (auto simp: hash_material_def canonical_bytes_def)
  from alt m n material_binds [OF m(1) n(1) x] x show ?thesis by auto
qed

section \<open>A sample account\<close>

definition sample_cloid :: string where
  "sample_cloid = ''0x0123456789abcdef0123456789abcdef''"

definition sample_position :: "decimal \<Rightarrow> perp_position" where
  "sample_position sz =
     \<lparr> po_symbol = ''BTC'', po_asset_id = 0, po_signed_size = sz, po_entry_price = Some (Dec 64000 0),
       po_position_value = Dec 64000 0, po_unrealized_pnl = Dec 0 0, po_margin_used = Dec 6400 0,
       po_liquidation_price = None, po_leverage_type = ''cross'', po_leverage = Dec 10 0,
       po_leverage_raw_usd = None, po_max_leverage = Dec 40 0, po_return_on_equity = Dec 0 0,
       po_funding_all_time = Dec 0 0, po_funding_since_open = Dec 0 0, po_funding_since_change = Dec 0 0 \<rparr>"

definition sample_stop :: "decimal \<Rightarrow> open_order" where
  "sample_stop sz = OpenOrder
     \<lparr> oo_symbol = ''BTC'', oo_asset_id = 0, oo_oid = 7, oo_cloid = Some sample_cloid, oo_side = SELL_SIDE,
       oo_remaining_size = sz, oo_original_size = sz, oo_limit_price = Dec 59000 0,
       oo_order_type = ''Stop Market'', oo_tif = None, oo_timestamp_ms = 1700000000000, oo_is_trigger = True,
       oo_trigger_price = Dec 60000 0, oo_trigger_condition = ''Price below 60000'',
       oo_trigger_kind = Some STOP_LOSS, oo_reduce_only = True, oo_is_position_tpsl = False \<rparr> []"

definition sample_summary :: margin_summary where
  "sample_summary = \<lparr> mg_account_value = Dec 10000 0, mg_total_notional_position = Dec 0 0,
     mg_total_raw_usd = Dec 10000 0, mg_total_margin_used = Dec 0 0 \<rparr>"

definition sample_account :: "perp_position list \<Rightarrow> open_order list \<Rightarrow> venue_snapshot" where
  "sample_account positions orders =
     \<lparr> as_network = PStr ''testnet'', as_source_url = PStr ''https://api.hyperliquid-testnet.xyz/info'',
       as_main_account_address = ''0x0123456789abcdef0123456789abcdef01234567'',
       as_account_mode = MODE_DEFAULT, as_server_time_ms = 1700000000000, as_received_at_ms = 1700000000100,
       as_age_ms = PInt 100, as_margin_summary = sample_summary, as_cross_margin_summary = sample_summary,
       as_cross_maintenance = Dec 0 0, as_withdrawable = Dec 10000 0, as_positions = positions,
       as_open_orders = orders,
       as_metadata = \<lparr> ms_collateral_token = PNone, ms_instruments = [], ms_metadata_hash = '''' \<rparr>,
       as_snapshot_hash = '''' \<rparr>"

lemma sample_symbol [simp]: "symbol_shaped ''BTC''" by code_simp
lemma sample_cloid_shaped [simp]: "cloid_shaped sample_cloid" by code_simp

lemma sample_found: "find_position (sample_account [sample_position d] orders) ''BTC'' = Inr (Some (sample_position d))"
  by (simp add: find_position_def sample_account_def sample_position_def)

lemma sample_qualifies:
  "0 < dval d \<Longrightarrow> filter (stop_qualifies [sample_cloid] (sample_position d)) [sample_stop z] = [sample_stop z]"
  by (simp add: stop_qualifies_def sample_position_def sample_stop_def)

theorem coverage_is_exact_witness:
  "\<exists>c. protection_coverage default_context (sample_account [sample_position (Dec 15 (- 1))] [sample_stop (Dec 15 (- 1))])
      ''BTC'' [sample_cloid] = Inr c \<and> pc_fully_protected c"
proof -
  let ?p = "sample_position (Dec 15 (- 1))" and ?o = "[sample_stop (Dec 15 (- 1))]"
  have q: "filter (stop_qualifies [sample_cloid] ?p) (as_open_orders (sample_account [?p] ?o)) = ?o"
    using sample_qualifies [of "Dec 15 (- 1)"] by (simp add: sample_account_def dval_def)
  have "cover_value ?p ?o = 3 / 2"
    by (simp add: cover_value_def stop_value_def covers_all_def sample_stop_def dval_def)
  then have "sizes_ok ?p ?o" "\<bar>dval (po_signed_size ?p)\<bar> \<le> cover_value ?p ?o"
    by (simp_all add: sizes_ok_def on_grid_def sample_position_def sample_stop_def dval_def)
  then show ?thesis
    using coverage_is_exact [where expected = "[sample_cloid]" and s = "sample_account [?p] ?o", OF sample_found]
    unfolding q by auto
qed

definition protected_account :: venue_snapshot where
  "protected_account = sample_account [sample_position (Dec 15 (- 1))] [sample_stop (Dec 15 (- 1))]"

lemma protected_coverage:
  "\<exists>c. protection_coverage default_context protected_account ''BTC'' [sample_cloid] = Inr c \<and> pc_fully_protected c"
proof -
  let ?d = "Dec 15 (- 1)"
  have steps: "absolute_size default_context (sample_position ?d) = Inr ?d"
      "covered_size default_context (sample_position ?d) [sample_stop ?d] = Inr ?d"
      "dsub default_context ?d ?d = Inr (Dec 0 (- 1))" "deq (dmax (Dec 0 (- 1)) 0) 0"
    by code_simp+
  have "filter (stop_qualifies [sample_cloid] (sample_position ?d)) [sample_stop ?d] = [sample_stop ?d]"
    by (rule sample_qualifies) (simp add: dval_def)
  then have "qualifying_stops protected_account [sample_cloid] (sample_position ?d) = [sample_stop ?d]"
    by (simp add: qualifying_stops_eq protected_account_def sample_account_def)
  with steps show ?thesis
    by (simp add: protection_coverage_def protected_account_def sample_found input_cloids_def Let_def)
qed

lemma protected_parts:
  "as_positions protected_account = [sample_position (Dec 15 (- 1))]"
  "as_open_orders protected_account = [sample_stop (Dec 15 (- 1))]"
  "all_open_orders protected_account = [sample_stop (Dec 15 (- 1))]"
  by (simp_all add: protected_account_def sample_account_def all_open_orders_def sample_stop_def)

lemma protected_reconciles:
  "\<exists>r. reconcile default_context protected_account [sample_cloid] [''BTC''] [(''BTC'', [sample_cloid])] = Inr r
    \<and> \<not> ar_halt_required r"
proof -
  have "stop_entry [sample_cloid] (''BTC'', [sample_cloid]) = Inr (''BTC'', [sample_cloid])"
      "stops_for [(''BTC'', [sample_cloid])] ''BTC'' = [sample_cloid]"
    by (simp_all add: stop_entry_def stops_for_def)
  moreover have "owned_order [sample_cloid] (sample_stop (Dec 15 (- 1)))"
      "po_symbol (sample_position (Dec 15 (- 1))) = ''BTC''" "oo_symbol (order_body (sample_stop (Dec 15 (- 1)))) = ''BTC''"
    by (simp_all add: owned_order_def sample_stop_def sample_position_def)
  ultimately show ?thesis
    using protected_coverage by (auto simp: reconcile_def protected_parts Let_def)
qed

text \<open>An open position of 1.5 BTC with an owned stop of the same size needs no halt.\<close>

theorem quiet_account_is_explained_witness:
  "\<exists>r. reconcile default_context protected_account [sample_cloid] [''BTC''] [(''BTC'', [sample_cloid])] = Inr r
    \<and> \<not> ar_halt_required r \<and> (\<exists>c \<in> set (ar_protection r). pc_fully_protected c)
    \<and> oo_cloid (order_body (sample_stop (Dec 15 (- 1)))) = Some sample_cloid"
proof -
  obtain r where r: "reconcile default_context protected_account [sample_cloid] [''BTC''] [(''BTC'', [sample_cloid])] = Inr r"
      "\<not> ar_halt_required r"
    using protected_reconciles by blast
  from quiet_account_is_explained [OF r] r show ?thesis by (auto simp: protected_parts)
qed

lemma dec_val_ok: "bounded d \<Longrightarrow> \<exists>w. dec_val d = Inr w \<and> is_ok (canonical_data w)"
  using canonical_decimal_Inr_iff [of d "canonical_text d"] by (auto simp: dec_val_def)

lemma sample_decimals_bounded: "bounded (Dec 0 0)" "bounded (Dec 10000 0)"
  by (simp_all add: bounded_def bound_defs adjusted_def ndigits.simps)

lemma summary_record_ok: "\<exists>v. summary_record sample_summary = Inr v \<and> is_ok (canonical_data v)"
proof -
  obtain y z where "dec_val (Dec 0 0) = Inr y" "is_ok (canonical_data y)"
      "dec_val (Dec 10000 0) = Inr z" "is_ok (canonical_data z)"
    using dec_val_ok sample_decimals_bounded by blast
  then show ?thesis
    by (auto simp: summary_record_def sample_summary_def build_record_def intro!: is_ok_record_val)
qed

lemma sample_verified: "\<exists>s. verify_integrity s = Inr ()"
proof -
  let ?s = "sample_account [] []"
  let ?meta = "record_val [''collateral_token'', ''instruments''] [PNone, PList []]"
  obtain h where h: "domain_hash metadata_hash_domain ?meta = Inr h"
    using record_hash_total [of metadata_hash_domain "[''collateral_token'', ''instruments'']" "[PNone, PList []]"]
    by (auto simp: metadata_hash_domain_def)
  obtain v where v: "summary_record sample_summary = Inr v" "is_ok (canonical_data v)" using summary_record_ok by blast
  obtain y z where yz: "dec_val (Dec 0 0) = Inr y" "is_ok (canonical_data y)"
      "dec_val (Dec 10000 0) = Inr z" "is_ok (canonical_data z)"
    using dec_val_ok sample_decimals_bounded by blast
  let ?vs = "[PStr account_schema_version, PStr ''hyperliquid'', as_network ?s, PStr (as_main_account_address ?s),
      PStr (account_mode_value (as_account_mode ?s)), PInt (as_server_time_ms ?s), v, v, y, z, PList [], PList [],
      PStr h]"
  have "\<forall>u \<in> set ?vs. is_ok (canonical_data u)" using v(2) yz by (simp add: sample_account_def)
  then obtain g where g: "domain_hash account_hash_domain (record_val material_fields ?vs) = Inr g"
    using record_hash_total [of account_hash_domain material_fields ?vs]
    by (auto simp: account_hash_domain_def material_fields_def)
  let ?t = "?s\<lparr>as_metadata := \<lparr> ms_collateral_token = PNone, ms_instruments = [], ms_metadata_hash = h \<rparr>,
      as_snapshot_hash := g\<rparr>"
  have "verify_integrity ?t = Inr ()"
    using h g v(1) yz
    by (simp add: verify_integrity_def metadata_digest_def check_instruments_def snapshot_material_def
        build_record_def sample_account_def)
  then show ?thesis by blast
qed

theorem snapshot_hash_binds_witness:
  "\<exists>s t v w. as_snapshot_hash s = as_snapshot_hash t \<and> snapshot_message s = Inr v \<and> snapshot_message t = Inr w
    \<and> (hash_collision v w \<or> as_main_account_address s = as_main_account_address t)"
proof -
  obtain s where s: "verify_integrity s = Inr ()" using sample_verified by blast
  from snapshot_hash_binds [OF s s refl] show ?thesis by metis
qed

text \<open>C40: Outside the grid the judgement can be wrong in the standard 28-digit context: the absolute
  size of a position with 29 significant digits is rounded before it is compared, and a stop that is
  smaller than the position is reported as covering all of it.
\<close>

theorem coverage_rounds_the_position:
  "\<exists>c. protection_coverage default_context
        (sample_account [sample_position (Dec 10000000000000000000000000001 (- 28))] [sample_stop (Dec 1 0)])
        ''BTC'' [sample_cloid] = Inr c
     \<and> pc_fully_protected c
     \<and> cover_value (sample_position (Dec 10000000000000000000000000001 (- 28))) [sample_stop (Dec 1 0)]
         < \<bar>dval (po_signed_size (sample_position (Dec 10000000000000000000000000001 (- 28))))\<bar>"
proof -
  let ?d = "Dec 10000000000000000000000000001 (- 28)"
  have abs: "absolute_size default_context (sample_position ?d) = Inr (Dec 1000000000000000000000000000 (- 27))"
    by code_simp
  have cov: "covered_size default_context (sample_position ?d) [sample_stop (Dec 1 0)] = Inr (Dec 1 0)" by code_simp
  have sub: "dsub default_context (Dec 1000000000000000000000000000 (- 27)) (Dec 1 0) = Inr (Dec 0 (- 27))"
    by code_simp
  have zero: "deq (dmax (Dec 0 (- 27)) 0) 0" by code_simp
  have "filter (stop_qualifies [sample_cloid] (sample_position ?d)) [sample_stop (Dec 1 0)] = [sample_stop (Dec 1 0)]"
    by (rule sample_qualifies) (simp add: dval_def)
  then have q: "qualifying_stops (sample_account [sample_position ?d] [sample_stop (Dec 1 0)]) [sample_cloid]
      (sample_position ?d) = [sample_stop (Dec 1 0)]"
    by (simp add: qualifying_stops_eq sample_account_def)
  have "cover_value (sample_position ?d) [sample_stop (Dec 1 0)] < \<bar>dval (po_signed_size (sample_position ?d))\<bar>"
    by (simp add: cover_value_def stop_value_def covers_all_def sample_stop_def sample_position_def dval_def
        power_int_def power_one_over)
  then show ?thesis
    using abs cov sub zero q
    by (simp add: protection_coverage_def sample_found input_cloids_def Let_def)
qed

end
