(* ===== verification/Account_Risk.thy ===== *)
theory Account_Risk
  imports Venue Planning
begin

text \<open>
  \<open>account_risk.py\<close>: the limits of one dedicated account and the compilation of a fresh venue
  snapshot of a flat account into the risk inputs a quote reads. Its decimal context is the one of
  \<open>planning.py\<close>; \<open>timedelta\<close> addition does not overflow for the timestamps a snapshot may have.
\<close>

record 'd risk_limits_of =
  rl_account_id :: string
  rl_main_account_address :: string
  rl_environment :: environment
  rl_daily_loss_limit :: 'd
  rl_aggregate_open_risk_limit :: 'd
  rl_max_notional :: 'd
  rl_leverage :: 'd
  rl_require_flat_account :: bool
  rl_version :: string

type_synonym risk_limits = "decimal risk_limits_of"

definition make_risk_limits :: "decimal_input risk_limits_of \<Rightarrow> risk_limits result" where
  "make_risk_limits l =
     bindE (bounded_text ValidationError 256 (rl_account_id l)) (\<lambda>_.
     bindE (bounded_text ValidationError 64 (rl_version l)) (\<lambda>_.
     bindE (guard (address_shaped (rl_main_account_address l)) ValidationError) (\<lambda>_.
     bindE (guard (rl_environment l \<in> {TESTNET, MAINNET}) ValidationError) (\<lambda>_.
     bindE (policy_positive (rl_daily_loss_limit l)) (\<lambda>daily.
     bindE (policy_positive (rl_aggregate_open_risk_limit l)) (\<lambda>open_risk.
     bindE (policy_positive (rl_max_notional l)) (\<lambda>notional.
     bindE (policy_positive (rl_leverage l)) (\<lambda>leverage.
     bindE (require
       [(\<not> Dec 2 0 < leverage, ValidationError), (rl_require_flat_account l, ValidationError)]) (\<lambda>_.
     Inr \<lparr> rl_account_id = rl_account_id l, rl_main_account_address = rl_main_account_address l,
           rl_environment = rl_environment l, rl_daily_loss_limit = daily,
           rl_aggregate_open_risk_limit = open_risk, rl_max_notional = notional, rl_leverage = leverage,
           rl_require_flat_account = rl_require_flat_account l, rl_version = rl_version l \<rparr>)))))))))"

definition risk_limits_hash :: "risk_limits \<Rightarrow> string result" where
  "risk_limits_hash l = domain_hash ''trading-harness/account-risk-limits/v1''
     (record_val
       [''account_id'', ''main_account_address'', ''environment'', ''daily_loss_limit'',
        ''aggregate_open_risk_limit'', ''max_notional'', ''leverage'', ''require_flat_account'', ''version'']
       [PStr (rl_account_id l), PStr (rl_main_account_address l), PStr (environment_value (rl_environment l)),
        PDec (rl_daily_loss_limit l), PDec (rl_aggregate_open_risk_limit l), PDec (rl_max_notional l),
        PDec (rl_leverage l), PBool (rl_require_flat_account l), PStr (rl_version l)])"

definition flat_account_checks :: "venue_snapshot \<Rightarrow> risk_limits \<Rightarrow> (bool \<times> exn) list" where
  "flat_account_checks venue l =
     [(as_network venue = PStr (environment_value (rl_environment l)), StateConflict),
      (as_main_account_address venue = rl_main_account_address l, StateConflict),
      (as_positions venue = [] \<and> as_open_orders venue = [], StateConflict),
      (deq (mg_total_notional_position (as_margin_summary venue)) 0
       \<and> deq (mg_total_margin_used (as_margin_summary venue)) 0, StateConflict)]"

definition remaining_budget :: "decimal \<Rightarrow> decimal \<Rightarrow> decimal result" where
  "remaining_budget limit used = bindE (dsub planning_context limit used) (\<lambda>d. Inr (dmax d 0))"

definition risk_material ::
    "venue_snapshot \<Rightarrow> risk_limits \<Rightarrow> string \<Rightarrow> decimal list \<Rightarrow> pyval result" where
  "risk_material venue l symbol amounts =
     bindE (risk_limits_hash l) (\<lambda>limits_hash.
     build_record
       [''venue_snapshot_hash'', ''limits_hash'', ''symbol'', ''daily_loss_used'', ''open_risk_used'',
        ''daily_loss_remaining'', ''open_risk_remaining'', ''equity'', ''available_collateral'',
        ''max_notional'', ''lot_size'', ''leverage'']
       ([Inr (PStr (as_snapshot_hash venue)), Inr (PStr limits_hash), Inr (PStr symbol)] @ map dec_val amounts))"

definition compile_account_risk ::
    "venue_snapshot \<Rightarrow> string \<Rightarrow> risk_limits \<Rightarrow> decimal_input \<Rightarrow> decimal_input \<Rightarrow> account_snapshot result" where
  "compile_account_risk venue symbol l daily_loss_used open_risk_used =
     bindE (bounded_text ValidationError 64 symbol) (\<lambda>_.
     bindE (require (flat_account_checks venue l)) (\<lambda>_.
     bindE (find_instrument (as_metadata venue) symbol) (\<lambda>instrument.
     bindE (require
       [(\<not> pi_is_delisted instrument, StateConflict),
        (\<not> pi_max_leverage instrument < rl_leverage l, StateConflict)]) (\<lambda>_.
     bindE (policy_nonnegative daily_loss_used) (\<lambda>used_daily.
     bindE (policy_nonnegative open_risk_used) (\<lambda>used_open.
     bindE (remaining_budget (rl_daily_loss_limit l) used_daily) (\<lambda>daily_remaining.
     bindE (remaining_budget (rl_aggregate_open_risk_limit l) used_open) (\<lambda>open_remaining.
     (let equity = mg_account_value (as_margin_summary venue) in
     bindE (guard (\<not> (equity \<le> 0 \<or> as_withdrawable venue \<le> 0)) StateConflict) (\<lambda>_.
     (let available = dmin equity (as_withdrawable venue) in
     bindE (dmul planning_context available (rl_leverage l)) (\<lambda>collateral_notional.
     (let notional = dmin (rl_max_notional l) collateral_notional in
     bindE (scaleb planning_context (Dec 1 0) (- pi_sz_decimals instrument)) (\<lambda>lot_size.
     bindE (risk_material venue l symbol
       [used_daily, used_open, daily_remaining, open_remaining, equity, available, notional, lot_size,
        rl_leverage l]) (\<lambda>material.
     bindE (domain_hash ''trading-harness/account-risk-snapshot/v1'' material) (\<lambda>artifact_hash.
     make_account_snapshot
       \<lparr> ac_account_id = rl_account_id l, ac_environment = rl_environment l,
         ac_observed_at = unix_epoch + as_server_time_ms venue * 1000,
         ac_received_at = unix_epoch + as_received_at_ms venue * 1000,
         ac_equity = In_Decimal equity, ac_available_collateral = In_Decimal available,
         ac_daily_loss_remaining = In_Decimal daily_remaining,
         ac_open_risk_remaining = In_Decimal open_remaining, ac_max_notional = In_Decimal notional,
         ac_lot_size = In_Decimal lot_size, ac_leverage = In_Decimal (rl_leverage l),
         ac_artifact_hash = artifact_hash \<rparr>))))))))))))))))"

section \<open>What the compiled inputs respect\<close>

definition risk_limits_ok :: "risk_limits \<Rightarrow> bool" where
  "risk_limits_ok l =
     (positive (rl_daily_loss_limit l) \<and> positive (rl_aggregate_open_risk_limit l) \<and> positive (rl_max_notional l)
      \<and> positive (rl_leverage l) \<and> dval (rl_leverage l) \<le> 2 \<and> rl_require_flat_account l
      \<and> address_shaped (rl_main_account_address l) \<and> rl_environment l \<in> {TESTNET, MAINNET})"

lemma make_risk_limits_ok: "make_risk_limits l = Inr r \<Longrightarrow> risk_limits_ok r"
  by (auto simp: make_risk_limits_def risk_limits_ok_def policy_positive_ok dval_simps dval_def
      simp del: policy_positive_In)

lemma bounded_in_planning: "bounded d \<Longrightarrow> representable planning_context d"
  by (auto simp: bounded_def bound_defs representable_def planning_context_def etiny_def etop_def adjusted_def)

lemma remaining_budget_bounds_limit:
  assumes "remaining_budget limit used = Inr r" "bounded limit" "0 \<le> dval limit" "0 \<le> dval used"
  shows "0 \<le> dval r \<and> dval r \<le> dval limit"
  using assms plan_ctx.dsub_le_left [OF _ bounded_in_planning]
  by (auto simp: remaining_budget_def dval_simps max_def)

lemma make_account_snapshot_fields:
  "make_account_snapshot a = Inr r \<Longrightarrow> ac_observed_at a \<le> ac_received_at a \<and> sha256_shaped (ac_artifact_hash a)
   \<and> ac_account_id r = ac_account_id a \<and> ac_environment r = ac_environment a
   \<and> ac_observed_at r = ac_observed_at a \<and> ac_received_at r = ac_received_at a
   \<and> ac_artifact_hash r = ac_artifact_hash a
   \<and> policy_positive (ac_equity a) = Inr (ac_equity r)
   \<and> policy_positive (ac_available_collateral a) = Inr (ac_available_collateral r)
   \<and> policy_positive (ac_max_notional a) = Inr (ac_max_notional r)
   \<and> policy_positive (ac_lot_size a) = Inr (ac_lot_size r)
   \<and> policy_positive (ac_leverage a) = Inr (ac_leverage r)
   \<and> policy_nonnegative (ac_daily_loss_remaining a) = Inr (ac_daily_loss_remaining r)
   \<and> policy_nonnegative (ac_open_risk_remaining a) = Inr (ac_open_risk_remaining r)"
  by (auto simp: make_account_snapshot_def simp del: policy_positive_In policy_nonnegative_In)

end
