(* ===== verification/Account_Risk_Properties.thy ===== *)
theory Account_Risk_Properties
  imports Account_Risk Venue_Properties
begin

text \<open>
  The risk inputs of a quote never exceed the limits of the account, nor what the venue reports, and
  exist only for a flat account.
\<close>

definition uses_instrument :: "venue_snapshot \<Rightarrow> string \<Rightarrow> risk_limits \<Rightarrow> account_snapshot \<Rightarrow> bool" where
  "uses_instrument venue symbol l a =
     (\<exists>i. filter (\<lambda>i. pi_symbol i = symbol) (ms_instruments (as_metadata venue)) = [i]
       \<and> \<not> pi_is_delisted i \<and> dval (rl_leverage l) \<le> dval (pi_max_leverage i)
       \<and> scaleb planning_context (Dec 1 0) (- pi_sz_decimals i) = Inr (ac_lot_size a))"

lemma find_instrument_Inr:
  "find_instrument m symbol = Inr i \<Longrightarrow> filter (\<lambda>i. pi_symbol i = symbol) (ms_instruments m) = [i]"
  by (auto simp: find_instrument_def split: list.splits)

lemma compile_account_risk_steps:
  assumes "compile_account_risk venue symbol l daily_used open_used = Inr a"
  obtains i ud uo daily open' collateral lot h where
    "list_all fst (flat_account_checks venue l)"
    "find_instrument (as_metadata venue) symbol = Inr i"
    "list_all fst [(\<not> pi_is_delisted i, StateConflict), (\<not> pi_max_leverage i < rl_leverage l, StateConflict)]"
    "policy_nonnegative daily_used = Inr ud" "policy_nonnegative open_used = Inr uo"
    "remaining_budget (rl_daily_loss_limit l) ud = Inr daily"
    "remaining_budget (rl_aggregate_open_risk_limit l) uo = Inr open'"
    "dmul planning_context (dmin (mg_account_value (as_margin_summary venue)) (as_withdrawable venue)) (rl_leverage l)
      = Inr collateral"
    "scaleb planning_context (Dec 1 0) (- pi_sz_decimals i) = Inr lot"
    "make_account_snapshot
       \<lparr> ac_account_id = rl_account_id l, ac_environment = rl_environment l,
         ac_observed_at = unix_epoch + as_server_time_ms venue * 1000,
         ac_received_at = unix_epoch + as_received_at_ms venue * 1000,
         ac_equity = In_Decimal (mg_account_value (as_margin_summary venue)),
         ac_available_collateral = In_Decimal (dmin (mg_account_value (as_margin_summary venue)) (as_withdrawable venue)),
         ac_daily_loss_remaining = In_Decimal daily,
         ac_open_risk_remaining = In_Decimal open', ac_max_notional = In_Decimal (dmin (rl_max_notional l) collateral),
         ac_lot_size = In_Decimal lot, ac_leverage = In_Decimal (rl_leverage l),
         ac_artifact_hash = h \<rparr> = Inr a"
  using assms unfolding compile_account_risk_def Let_def bindE_Inr_iff require_Inr_iff
  by (elim exE conjE) (rule that; assumption)

text \<open>C35: Risk inputs are compiled only from a snapshot of the configured main account on the
  configured network that has no position, no open order and no exposure, and for an instrument that
  is listed once, not delisted and allows the leverage: the compiled leverage is the configured one,
  which is at most 2 and at most what the venue reports for the instrument. The remaining budgets lie
  between zero and their limits, the notional between zero and its limit and the leveraged collateral, and the
  collateral is at most the account value and at most what can be withdrawn.
\<close>

theorem compiled_risk_within_limits:
  assumes "make_risk_limits args = Inr l"
    and "compile_account_risk venue symbol l daily_used open_used = Inr a"
  shows "as_positions venue = [] \<and> as_open_orders venue = []
    \<and> as_network venue = PStr (environment_value (rl_environment l))
    \<and> as_main_account_address venue = rl_main_account_address l
    \<and> ac_account_id a = rl_account_id l \<and> ac_environment a = rl_environment l
    \<and> uses_instrument venue symbol l a
    \<and> 0 \<le> dval (ac_daily_loss_remaining a) \<and> dval (ac_daily_loss_remaining a) \<le> dval (rl_daily_loss_limit l)
    \<and> 0 \<le> dval (ac_open_risk_remaining a)
    \<and> dval (ac_open_risk_remaining a) \<le> dval (rl_aggregate_open_risk_limit l)
    \<and> 0 < dval (ac_max_notional a) \<and> dval (ac_max_notional a) \<le> dval (rl_max_notional l)
    \<and> (\<exists>c. dmul planning_context (ac_available_collateral a) (ac_leverage a) = Inr c
          \<and> dval (ac_max_notional a) \<le> dval c)
    \<and> 0 < dval (ac_available_collateral a) \<and> dval (ac_available_collateral a) \<le> dval (ac_equity a)
    \<and> ac_equity a = mg_account_value (as_margin_summary venue)
    \<and> dval (ac_available_collateral a) \<le> dval (as_withdrawable venue)
    \<and> ac_leverage a = rl_leverage l \<and> dval (ac_leverage a) \<le> 2
    \<and> (\<exists>i \<in> set (ms_instruments (as_metadata venue)).
          pi_symbol i = symbol \<and> dval (ac_leverage a) \<le> dval (pi_max_leverage i))"
proof -
  let ?equity = "mg_account_value (as_margin_summary venue)"
  let ?available = "dmin ?equity (as_withdrawable venue)"
  obtain i ud uo daily open' collateral lot h where
    checks: "list_all fst (flat_account_checks venue l)" and
    i: "find_instrument (as_metadata venue) symbol = Inr i" and
    listed: "list_all fst [(\<not> pi_is_delisted i, StateConflict), (\<not> pi_max_leverage i < rl_leverage l, StateConflict)]" and
    used: "policy_nonnegative daily_used = Inr ud" "policy_nonnegative open_used = Inr uo" and
    rem: "remaining_budget (rl_daily_loss_limit l) ud = Inr daily"
      "remaining_budget (rl_aggregate_open_risk_limit l) uo = Inr open'" and
    col: "dmul planning_context ?available (rl_leverage l) = Inr collateral" and
    lot: "scaleb planning_context (Dec 1 0) (- pi_sz_decimals i) = Inr lot" and
    made: "make_account_snapshot
       \<lparr> ac_account_id = rl_account_id l, ac_environment = rl_environment l,
         ac_observed_at = unix_epoch + as_server_time_ms venue * 1000,
         ac_received_at = unix_epoch + as_received_at_ms venue * 1000,
         ac_equity = In_Decimal ?equity, ac_available_collateral = In_Decimal ?available,
         ac_daily_loss_remaining = In_Decimal daily,
         ac_open_risk_remaining = In_Decimal open', ac_max_notional = In_Decimal (dmin (rl_max_notional l) collateral),
         ac_lot_size = In_Decimal lot, ac_leverage = In_Decimal (rl_leverage l),
         ac_artifact_hash = h \<rparr> = Inr a"
    by (rule compile_account_risk_steps [OF assms(2)])
  have l: "risk_limits_ok l" using make_risk_limits_ok assms(1) .
  have limits: "bounded (rl_daily_loss_limit l)" "0 \<le> dval (rl_daily_loss_limit l)"
      "bounded (rl_aggregate_open_risk_limit l)" "0 \<le> dval (rl_aggregate_open_risk_limit l)"
    using l by (simp_all add: risk_limits_ok_def positive_def less_dval)
  have spent: "0 \<le> dval ud" "0 \<le> dval uo"
    using policy_nonnegative_ok [OF used(1)] policy_nonnegative_ok [OF used(2)]
    by (simp_all add: nonnegative_def le_dval)
  note daily = remaining_budget_bounds_limit [OF rem(1) limits(1,2) spent(1)]
    and open_risk = remaining_budget_bounds_limit [OF rem(2) limits(3,4) spent(2)]
  from make_account_snapshot_fields [OF made] have a: "ac_account_id a = rl_account_id l"
      "ac_environment a = rl_environment l" "ac_equity a = ?equity" "ac_available_collateral a = ?available"
      "ac_daily_loss_remaining a = daily" "ac_open_risk_remaining a = open'"
      "ac_max_notional a = dmin (rl_max_notional l) collateral" "ac_lot_size a = lot" "ac_leverage a = rl_leverage l"
      "positive ?available" "positive (dmin (rl_max_notional l) collateral)"
    by simp_all
  have "uses_instrument venue symbol l a"
    unfolding uses_instrument_def using find_instrument_Inr [OF i(1)] listed lot a(8) by (auto simp: dval_simps)
  moreover have "as_positions venue = []" "as_open_orders venue = []"
      "as_network venue = PStr (environment_value (rl_environment l))"
      "as_main_account_address venue = rl_main_account_address l"
    using checks by (simp_all add: flat_account_checks_def)
  moreover have "i \<in> set (filter (\<lambda>i. pi_symbol i = symbol) (ms_instruments (as_metadata venue)))"
    using find_instrument_Inr [OF i(1)] by simp
  then have "\<exists>i \<in> set (ms_instruments (as_metadata venue)).
      pi_symbol i = symbol \<and> dval (rl_leverage l) \<le> dval (pi_max_leverage i)"
    using listed by (auto simp: dval_simps)
  moreover have "dval (rl_leverage l) \<le> 2" using l by (simp add: risk_limits_ok_def)
  moreover have "0 < dval ?available" "0 < dval (dmin (rl_max_notional l) collateral)"
    using a(10,11) by (simp_all only: positive_def less_dval dval_zero)
  moreover have "dval ?available \<le> dval ?equity" "dval ?available \<le> dval (as_withdrawable venue)"
      "dval (dmin (rl_max_notional l) collateral) \<le> dval (rl_max_notional l)"
      "dval (dmin (rl_max_notional l) collateral) \<le> dval collateral"
    by (simp_all only: dval_dmin min.cobounded1 min.cobounded2)
  ultimately show ?thesis
    unfolding a(1-9) using daily open_risk col by blast
qed

section \<open>A sample account\<close>

definition sample_limits :: "decimal_input risk_limits_of" where
  "sample_limits =
     \<lparr> rl_account_id = ''canary'', rl_main_account_address = ''0x0123456789abcdef0123456789abcdef01234567'',
       rl_environment = TESTNET, rl_daily_loss_limit = In_Int 50, rl_aggregate_open_risk_limit = In_Int 100,
       rl_max_notional = In_Int 500, rl_leverage = In_Int 2, rl_require_flat_account = True,
       rl_version = ''flat-account-canary-v1'' \<rparr>"

definition sample_checked_limits :: risk_limits where
  "sample_checked_limits =
     \<lparr> rl_account_id = ''canary'', rl_main_account_address = ''0x0123456789abcdef0123456789abcdef01234567'',
       rl_environment = TESTNET, rl_daily_loss_limit = Dec 50 0, rl_aggregate_open_risk_limit = Dec 100 0,
       rl_max_notional = Dec 500 0, rl_leverage = Dec 2 0, rl_require_flat_account = True,
       rl_version = ''flat-account-canary-v1'' \<rparr>"

lemma sample_limits_accepted: "make_risk_limits sample_limits = Inr sample_checked_limits"
  by code_simp

definition sample_instrument :: perp_instrument where
  "sample_instrument =
     \<lparr> pi_symbol = ''BTC'', pi_asset_id = 0, pi_sz_decimals = 5, pi_max_leverage = Dec 40 0,
       pi_margin_mode = ''cross'', pi_margin_table_id = PNone, pi_is_delisted = False, pi_metadata_hash = '''' \<rparr>"

definition sample_venue :: venue_snapshot where
  "sample_venue = (sample_account [] [])
     \<lparr>as_metadata := \<lparr> ms_collateral_token = PNone, ms_instruments = [sample_instrument], ms_metadata_hash = '''' \<rparr>\<rparr>"

lemma sample_checks: "list_all fst (flat_account_checks sample_venue sample_checked_limits)"
  by code_simp

lemma sample_steps:
  "find_instrument (as_metadata sample_venue) ''BTC'' = Inr sample_instrument"
  "remaining_budget (rl_daily_loss_limit sample_checked_limits) (Dec 10 0) = Inr (Dec 40 0)"
  "remaining_budget (rl_aggregate_open_risk_limit sample_checked_limits) (Dec 0 0) = Inr (Dec 100 0)"
  "policy_nonnegative (In_Int 10) = Inr (Dec 10 0)" "policy_nonnegative (In_Int 0) = Inr (Dec 0 0)"
  "dmul planning_context (dmin (mg_account_value (as_margin_summary sample_venue)) (as_withdrawable sample_venue))
     (rl_leverage sample_checked_limits) = Inr (Dec 20000 0)"
  "scaleb planning_context (Dec 1 0) (- pi_sz_decimals sample_instrument) = Inr (Dec 1 (- 5))"
  by code_simp+

lemma build_record_hash:
  assumes "length names = length vals" "domain \<noteq> []" "CHR 0x00 \<notin> set domain"
    and "\<forall>v \<in> set vals. \<exists>w. v = Inr w \<and> is_ok (canonical_data w)"
  shows "\<exists>m h. build_record names vals = Inr m \<and> domain_hash domain m = Inr h \<and> sha256_shaped h"
proof -
  have "\<exists>ws. seqE vals = Inr ws \<and> length ws = length vals \<and> (\<forall>w \<in> set ws. is_ok (canonical_data w))"
    using assms(4) by (induction vals) auto
  then obtain ws where ws: "seqE vals = Inr ws" "length ws = length vals" "\<forall>w \<in> set ws. is_ok (canonical_data w)"
    by blast
  with record_hash_total [OF assms(2,3), of names ws] assms(1) show ?thesis by (auto simp: build_record_def)
qed

lemma sample_amounts:
  "\<forall>d \<in> {Dec 10 0, Dec 0 0, Dec 40 0, Dec 100 0, Dec 10000 0, Dec 500 0, Dec 1 (- 5), Dec 2 0}. bounded d"
  by (simp add: bounded_def bound_defs adjusted_def ndigits.simps)

lemma sample_material:
  "\<exists>m h. risk_material sample_venue sample_checked_limits ''BTC''
       [Dec 10 0, Dec 0 0, Dec 40 0, Dec 100 0, Dec 10000 0, Dec 10000 0, Dec 500 0, Dec 1 (- 5), Dec 2 0] = Inr m
     \<and> domain_hash ''trading-harness/account-risk-snapshot/v1'' m = Inr h \<and> sha256_shaped h"
proof -
  obtain l where "risk_limits_hash sample_checked_limits = Inr l"
  proof -
    have "\<forall>d \<in> {Dec 50 0, Dec 100 0, Dec 500 0, Dec 2 0}. bounded d"
      by (simp add: bounded_def bound_defs adjusted_def ndigits.simps)
    then show ?thesis
      using that record_hash_total [of "''trading-harness/account-risk-limits/v1''"
        "[''account_id'', ''main_account_address'', ''environment'', ''daily_loss_limit'',
          ''aggregate_open_risk_limit'', ''max_notional'', ''leverage'', ''require_flat_account'', ''version'']"
        "[PStr (rl_account_id sample_checked_limits), PStr (rl_main_account_address sample_checked_limits),
          PStr ''testnet'', PDec (Dec 50 0), PDec (Dec 100 0), PDec (Dec 500 0), PDec (Dec 2 0), PBool True,
          PStr (rl_version sample_checked_limits)]"]
      by (auto simp: risk_limits_hash_def sample_checked_limits_def simp del: canonical_data.simps(2))
  qed
  moreover have "\<forall>v \<in> set ([Inr (PStr (as_snapshot_hash sample_venue)), Inr (PStr l), Inr (PStr ''BTC'')]
      @ map dec_val [Dec 10 0, Dec 0 0, Dec 40 0, Dec 100 0, Dec 10000 0, Dec 10000 0, Dec 500 0, Dec 1 (- 5), Dec 2 0]).
      \<exists>w. v = Inr w \<and> is_ok (canonical_data w)"
    using sample_amounts dec_val_ok by auto
  ultimately show ?thesis
    unfolding risk_material_def by (simp only: bindE_simps) (rule build_record_hash, simp_all)
qed

lemma make_account_snapshot_accepts:
  assumes "bounded_text_ok 256 (ac_account_id a)" "ac_observed_at a \<le> ac_received_at a"
    and "ac_equity a = In_Decimal e" "ac_available_collateral a = In_Decimal c" "ac_max_notional a = In_Decimal n"
      "ac_lot_size a = In_Decimal z" "ac_leverage a = In_Decimal v"
      "ac_daily_loss_remaining a = In_Decimal d" "ac_open_risk_remaining a = In_Decimal r"
    and "positive e" "positive c" "positive n" "positive z" "positive v" "nonnegative d" "nonnegative r"
    and "sha256_shaped (ac_artifact_hash a)"
  shows "is_ok (make_account_snapshot a)"
proof -
  have "bounded_text ValidationError 256 (ac_account_id a) = Inr (ac_account_id a)"
      "digest_field ValidationError (ac_artifact_hash a) = Inr (ac_artifact_hash a)"
    using assms(1,17) by simp_all
  then show ?thesis
    using assms unfolding make_account_snapshot_def
    by (simp only: bindE_simps policy_positive_again policy_nonnegative_again guard_def not_less if_True is_ok_simps)
qed

lemma sample_values:
  "bounded_text ValidationError 64 ''BTC'' = Inr ''BTC''"
  "mg_account_value (as_margin_summary sample_venue) = Dec 10000 0" "as_withdrawable sample_venue = Dec 10000 0"
  "dmin (Dec 10000 0) (Dec 10000 0) = Dec 10000 0" "Dec 10000 0 \<le> 0 \<longleftrightarrow> False"
  "dmin (rl_max_notional sample_checked_limits) (Dec 20000 0) = Dec 500 0"
  "rl_leverage sample_checked_limits = Dec 2 0" "require (flat_account_checks sample_venue sample_checked_limits) = Inr ()"
  "require [(\<not> pi_is_delisted sample_instrument, StateConflict),
        (\<not> pi_max_leverage sample_instrument < Dec 2 0, StateConflict)] = Inr ()"
  "bounded_text ValidationError 256 (rl_account_id sample_checked_limits) = Inr (rl_account_id sample_checked_limits)"
  "guard (\<not> unix_epoch + as_received_at_ms sample_venue * 1000 < unix_epoch + as_server_time_ms sample_venue * 1000)
        ValidationError = Inr ()"
    by code_simp+

lemma sample_positive:
  "positive (Dec 10000 0)" "positive (Dec 500 0)" "positive (Dec 1 (- 5))" "positive (Dec 2 0)"
  "nonnegative (Dec 40 0)" "nonnegative (Dec 100 0)"
  by code_simp+

lemma sample_risk_compiles:
  "is_ok (compile_account_risk sample_venue ''BTC'' sample_checked_limits (In_Int 10) (In_Int 0))"
proof -
  obtain m h where m: "risk_material sample_venue sample_checked_limits ''BTC''
       [Dec 10 0, Dec 0 0, Dec 40 0, Dec 100 0, Dec 10000 0, Dec 10000 0, Dec 500 0, Dec 1 (- 5), Dec 2 0] = Inr m"
     "domain_hash ''trading-harness/account-risk-snapshot/v1'' m = Inr h" "sha256_shaped h"
    using sample_material by blast
  show ?thesis
    unfolding compile_account_risk_def Let_def sample_values bindE_simps
      sample_steps(1-5) sample_steps(6) [unfolded sample_values] sample_steps(7) m(1,2) not_False_eq_True disj_not1
      simp_thms guard_cases
    by (rule make_account_snapshot_accepts)
      (simp_all only: account_snapshot_of.simps sample_positive m(3), code_simp+)
qed

theorem compiled_risk_within_limits_witness:
  "\<exists>l a. make_risk_limits sample_limits = Inr l
    \<and> compile_account_risk sample_venue ''BTC'' l (In_Int 10) (In_Int 0) = Inr a
    \<and> dval (ac_max_notional a) \<le> dval (rl_max_notional l) \<and> ac_leverage a = rl_leverage l"
  using sample_risk_compiles compiled_risk_within_limits [OF sample_limits_accepted] sample_limits_accepted
  by (elim is_okE) blast

end
