(* ===== verification/Spec2Isabelle.thy ===== *)
theory Spec2Isabelle
  imports Store_Properties Foundation_Properties Strategy_Properties Quote_Properties
    Paper_Exit_Properties Backtest_Properties Nonce_Properties Wire_Properties Daily_Loss_Properties
    Response_Properties Venue_Properties Account_Risk_Properties
begin

text \<open>
  \<^bold>\<open>A verification library for the trading harness\<close> (\<open>src/src/trading_harness\<close>; the copy under
  \<open>src/plugins/trading-desk/runtime/trading_harness\<close> has the same modules).

  \<^bold>\<open>The program.\<close> The harness turns evidence into orders in stages, each an immutable artifact
  that names the hash of the one before. Completed candles become technical indicators
  (\<open>analysis.py\<close>) or a signal of a frozen strategy (\<open>strategy.py\<close>), which \<open>backtest.py\<close> evaluates on
  past candles and promotes or rejects; registered evidence becomes a
  sentiment snapshot (\<open>sentiment.py\<close>); an opportunity assessment combines them under profitability
  gates (\<open>assessment.py\<close>, \<open>registered_decision.py\<close>); a risk ticket sizes a protected plan of three
  legs (\<open>planning.py\<close>). A plan either runs in the local paper account (\<open>paper.py\<close>) or its intent
  (\<open>domain.py\<close>) is validated by the platform ceilings (\<open>policy.py\<close>) and admitted (\<open>admission.py\<close>)
  to the durable store (\<open>store.py\<close>), which consumes an authorization, reserves exposure and queues a
  command in an outbox. For the venue a plan becomes
  one action of three orders (\<open>hyperliquid_wire.py\<close>), signed under a fresh nonce of \<open>nonce.py\<close>;
  the venue's answer is classified leg by leg (\<open>hyperliquid_response.py\<close>). A snapshot of the venue
  account (\<open>hyperliquid_account.py\<close>) says whether the positions are protected, halts the account when
  something is unexplained, and gives the risk inputs of a quote (\<open>account_risk.py\<close>).
  \<open>daily_loss.py\<close> keeps the UTC day's losses and says what budget is left. \<open>canonical.py\<close> gives every artifact its canonical JSON text and digest.

  \<^bold>\<open>Theories and sources.\<close>
  \<^item> \<open>Prelude\<close>: exceptions as one datatype, \<open>'a result = exn + 'a\<close> with \<open>bindE\<close>, text predicates, and the
    interfaces \<open>guarded_system\<close>, \<open>monotone_system\<close> (a state, guarded operations, an invariant and an
    order along runs) and \<open>keyed_table\<close> (look-up, insert, update under a primary key).
  \<^item> \<open>Py_Decimal\<close>, \<open>Decimal_Context\<close>, \<open>Decimal_Text\<close>, \<open>Decimal_Eval\<close>: \<open>decimal.Decimal\<close> as coefficient and
    exponent, context operations with rounding, and the interfaces \<open>faithful_rounding\<close> and
    \<open>decimal_context\<close>; every module's own context is an interpretation of the latter.
  \<^item> \<open>Calendar\<close>, \<open>Json\<close>, \<open>Sha256\<close>, \<open>Sha256_Eval\<close>: instants in microseconds and their ISO text,
    \<open>json.dumps\<close>, SHA-256 on words and an evaluation of it.
  \<^item> \<open>Canonical\<close>: \<open>canonical.py\<close>. \<open>Domain\<close>: \<open>domain.py\<close>. \<open>Policy\<close>: \<open>policy.py\<close>. \<open>Field_Checks\<close>: the
    validators that \<open>planning.py\<close>, \<open>paper.py\<close>, \<open>strategy.py\<close> and others each repeat.
  \<^item> \<open>Store\<close>: \<open>store.py\<close> and \<open>admission.py\<close>; a transaction is a function on the record \<open>db\<close> of tables,
    and a refused one leaves the tables alone. \<open>Store_Invariant\<close>: what every reachable store keeps.
  \<^item> \<open>Strategy\<close>, \<open>Analysis\<close>, \<open>Sentiment\<close>, \<open>Assessment\<close>, \<open>Registered_Decision\<close>, \<open>Planning\<close>: the modules of
    these names.
  \<^item> \<open>Paper\<close>: \<open>paper.py\<close>; the record \<open>paper_oms\<close> is \<open>PaperOMS\<close>, \<open>make_oms\<close> its constructor with all
    cross-checks, \<open>append_event\<close> is \<open>_append\<close>, and \<open>paper_step\<close> dispatches to the public transitions.
    \<open>Paper_Invariant\<close>: the life cycle, the ledger and the invariant; \<open>Paper_Chain\<close>: what the hash
    chain commits to; \<open>Paper_Progress\<close>: transitions that always succeed.
  \<^item> \<open>Backtest\<close>: \<open>backtest.py\<close>; \<open>simulate_trade\<close> with \<open>hold_position\<close> and \<open>settle_trade\<close> is
    \<open>_simulate_trade\<close>, \<open>run_loop\<close> the \<open>while\<close> loop of \<open>run_backtest\<close>. \<open>Backtest_Invariant\<close>: what a trade, the
    loop and the folds keep, and the loop one iteration at a time (\<open>loop_step\<close>).
  \<^item> \<open>Wire\<close>: \<open>hyperliquid_wire.py\<close>; \<open>build_order_action\<close> is \<open>build_protected_order_action\<close>.
  \<^item> \<open>Json_Input\<close>, \<open>Response\<close>: \<open>hyperliquid_response.py\<close>, the readers of decoded JSON and the parser of
    the venue's answer to a batch (\<open>parse_order_response\<close>, one \<open>parse_leg\<close> per order).
  \<^item> \<open>Venue\<close>: \<open>hyperliquid_account.py\<close>, the snapshot of an account with its records and digests,
    \<open>protection_coverage\<close>, \<open>reconcile\<close> and \<open>verify_integrity\<close>. \<open>Account_Risk\<close>: \<open>account_risk.py\<close>.
  \<^item> \<open>Nonce\<close>: \<open>nonce.py\<close>; the record \<open>nonce_db\<close> holds its four tables, \<open>open_allocator\<close> is the constructor
    with \<open>_initialize\<close>, \<open>allocate_nonce\<close> is \<open>allocate\<close>. \<open>Nonce_Invariant\<close>: what every history keeps.
  \<^item> \<open>Daily_Loss\<close>: \<open>daily_loss.py\<close>; the record \<open>loss_db\<close> holds its tables, \<open>open_loss_ledger\<close> is \<open>_initialize\<close>,
    \<open>append_loss_event\<close> is \<open>_append_event\<close>, \<open>coverage_scan\<close> the loop of \<open>_coverage_status\<close> and \<open>snapshot_losses\<close>
    is \<open>snapshot\<close>. \<open>Daily_Loss_Invariant\<close>: what every history keeps; \<open>Daily_Loss_Snapshot\<close>: what a snapshot
    means; \<open>Decimal_Cong\<close>: rounding as a function of the value, and monotone sums.
  \<^item> \<open>Samples\<close>, \<open>Sample_Cloids\<close>, \<open>Paper_Sample\<close>, \<open>Backtest_Sample\<close>: the concrete runs of the witnesses.
  \<^item> \<open>Foundation_Properties\<close>, \<open>Store_Properties\<close>, \<open>Strategy_Properties\<close>, \<open>Decision_Properties\<close>,
    \<open>Quote_Properties\<close>, \<open>Paper_Properties\<close>, \<open>Paper_Exit_Properties\<close>, \<open>Backtest_Properties\<close>,
    \<open>Wire_Properties\<close>, \<open>Nonce_Properties\<close>, \<open>Daily_Loss_Properties\<close>, \<open>Response_Properties\<close>,
    \<open>Venue_Properties\<close>, \<open>Account_Risk_Properties\<close>: the properties, each after a text that states it, each with a witness where it has hypotheses.

  \<^bold>\<open>What the lemmas show.\<close> Foundation: canonical text is faithful, a digest binds domain and meaning
  up to a SHA-256 collision the theorem exhibits, exposure quotes are never below the exact
  worst case, constructors give values that meet their contract. Store: in every history of
  its methods a pending row is backed by exactly one consumed authorization, admission stays
  within every limit, exposure is released only by its own command, and the audit trail only
  grows. Decisions: the scan does not read later candles, an eligible assessment has active
  gates and supporting evidence, a passing ticket respects every budget. Paper: exposure is
  covered or flagged in every reachable state, rises only by the entry of an accepted plan, the
  event log alone determines state, position, fees and profit, the hash chain commits to the
  log, deadlines escalate and a flat halt can be released. Backtest: the loop ends, positions
  follow live signals without overlap or look-ahead and leave at their first exit, the folds
  partition the trades, and the gate passes only what meets every requirement. Wire: an
  action carries its plan unchanged and its numbers fit the venue's rules. Responses: an accepted
  answer stays within the orders sent and claims no protection, and every answer of the documented
  form is read back. Accounts: coverage is exact for sizes on the venue's grid, an account that needs
  no halt is explained order by order, digests bind snapshots, risk inputs stay within limits. Nonces: those of
  a signer strictly increase under any interleaving, a reservation stays unique, covered and
  readable, and a store opened once can be opened again. Daily losses: a complete budget rests on
  gap-free coverage of the day, counts at least every recorded debit, never recovers within the day;
  recordings are idempotent, and a covered ledger answers.

  \<^bold>\<open>Loops and bounds.\<close> No definition uses fuel: every loop of the modelled code recurs over a list or
  on a measure that is proved to fall (\<open>digits_str\<close>, \<open>ndigits\<close>, \<open>shorten\<close>, \<open>blocks256\<close>, and the bars
  left to \<open>run_loop\<close>), so every operation is total and returns a value or an exception. Machine words appear only inside
  SHA-256 (32 and 8 bits, wrapping); Python's integers are \<^typ>\<open>int\<close>.

  \<^bold>\<open>Abstractions.\<close> Strings have code points below 256. Aware datetimes are microseconds since year 1
  and do not overflow. Arguments of a wrong Python type are excluded by the types of the model
  where the code only checks \<open>isinstance\<close>; decimal inputs keep their float, bool, text and special
  cases as \<open>decimal_input\<close>. Exception messages are not modelled. The clock is an argument, a SQLite
  transaction is atomic.

  \<^bold>\<open>Not modelled.\<close> The readers of saved JSON documents of \<open>planning.py\<close>, \<open>sentiment.py\<close> and
  \<open>registered_decision.py\<close>, the evidence constructor with its URL parsing, and the presentation
  methods \<open>as_dict\<close> and \<open>to_dict\<close>. The live side of the harness: \<open>execution_store.py\<close>,
  the feeding of the loss ledger from venue history (\<open>hyperliquid_loss_sync.py\<close>), the dispatcher and executor, recovery, qualification and the TESTNET chat approval,
  which are further stores and services around a venue; they would follow the pattern of
  \<open>Store\<close>. The parsers of the venue's info responses and the network reads of \<open>hyperliquid_account.py\<close>. The other
  venue adapters, sockets, files, signatures, key chains and command lines, which are
  input and output or third-party code.
\<close>

end
